(* ===== verification/Prelude.thy ===== *)
theory Prelude
  imports Complex_Main "HOL-Library.Word" "HOL-Library.List_Lexorder" "HOL-Library.Char_ord"
    "HOL-Library.Product_Lexorder"
begin

text \<open>
  Shared vocabulary of the development: the Rust integer types as the models use them
  (an \<open>i64\<close> or \<open>i128\<close> is an \<open>int\<close> with its range and its saturating operations written
  out, a \<open>u64\<close> is a \<open>64 word\<close>), the string operations of the standard library on byte
  strings, decimal printing, the fallible-step combinators (a Rust \<open>Result\<close> is a sum,
  \<open>Inl\<close> the error), and association lists that stand for \<open>BTreeMap\<close> and for hash maps
  whose size the code reads.
\<close>

section \<open>Fact collections\<close>

named_theorems i64_defs \<open>range and saturation of the 64-bit signed integers\<close>
named_theorems result_simps \<open>case analysis of fallible steps\<close>
named_theorems step_intros \<open>preservation lemmas of the state-changing operations\<close>

section \<open>Machine integers\<close>

type_synonym i64 = int
type_synonym u64 = "64 word"

definition I64_MAX :: int where "I64_MAX = 9223372036854775807"
definition I64_MIN :: int where "I64_MIN = -9223372036854775808"
definition I128_MAX :: int where "I128_MAX = 170141183460469231731687303715884105727"
definition I128_MIN :: int where "I128_MIN = -170141183460469231731687303715884105728"
definition U64_MAX :: nat where "U64_MAX = 18446744073709551615"

lemmas int_bounds = I64_MAX_def I64_MIN_def I128_MAX_def I128_MIN_def

definition in_i64 :: "int \<Rightarrow> bool" where
  "in_i64 x \<longleftrightarrow> I64_MIN \<le> x \<and> x \<le> I64_MAX"

definition in_i128 :: "int \<Rightarrow> bool" where
  "in_i128 x \<longleftrightarrow> I128_MIN \<le> x \<and> x \<le> I128_MAX"

text \<open>\<open>i64::saturating_add\<close>, \<open>saturating_sub\<close> and \<open>saturating_mul\<close>.\<close>

definition clamp_i64 :: "int \<Rightarrow> int" where
  "clamp_i64 x = max I64_MIN (min I64_MAX x)"

definition sat_add :: "int \<Rightarrow> int \<Rightarrow> int" where
  "sat_add a b = clamp_i64 (a + b)"

definition sat_sub :: "int \<Rightarrow> int \<Rightarrow> int" where
  "sat_sub a b = clamp_i64 (a - b)"

definition sat_mul :: "int \<Rightarrow> int \<Rightarrow> int" where
  "sat_mul a b = clamp_i64 (a * b)"

text \<open>\<open>checked_add\<close>, \<open>checked_sub\<close> on \<open>i64\<close> and \<open>i128\<close>.\<close>

definition checked_i64 :: "int \<Rightarrow> int option" where
  "checked_i64 x = (if in_i64 x then Some x else None)"

definition checked_i128 :: "int \<Rightarrow> int option" where
  "checked_i128 x = (if in_i128 x then Some x else None)"

text \<open>\<open>i64::try_from\<close> of an unsigned value.\<close>

definition i64_try_from :: "nat \<Rightarrow> int option" where
  "i64_try_from n = (if int n \<le> I64_MAX then Some (int n) else None)"

text \<open>\<open>abs_diff\<close> of two \<open>i64\<close> is a \<open>u64\<close>; it never overflows.\<close>

definition abs_diff :: "int \<Rightarrow> int \<Rightarrow> nat" where
  "abs_diff a b = nat \<bar>a - b\<bar>"

lemmas [i64_defs] = in_i64_def clamp_i64_def sat_add_def sat_sub_def sat_mul_def
  checked_i64_def I64_MAX_def I64_MIN_def

lemma clamp_i64_id [simp]: "in_i64 x \<Longrightarrow> clamp_i64 x = x"
  by (simp add: i64_defs)

lemma in_i64_clamp [simp]: "in_i64 (clamp_i64 x)"
  by (simp add: i64_defs)

lemma clamp_i64_mono: "x \<le> y \<Longrightarrow> clamp_i64 x \<le> clamp_i64 y"
  by (simp add: clamp_i64_def)

lemma sat_sub_pos_iff: "in_i64 a \<Longrightarrow> in_i64 b \<Longrightarrow> 0 < sat_sub a b \<longleftrightarrow> b < a"
  by (auto simp: i64_defs)

lemma sat_sub_exact: "0 \<le> b \<Longrightarrow> b \<le> a \<Longrightarrow> in_i64 a \<Longrightarrow> sat_sub a b = a - b"
  by (simp add: i64_defs)

lemma in_i64_sat [simp]: "in_i64 (sat_add a b)" "in_i64 (sat_sub a b)" "in_i64 (sat_mul a b)"
  by (simp_all add: sat_add_def sat_sub_def sat_mul_def)

lemma i64_try_from_SomeD: "i64_try_from n = Some z \<Longrightarrow> z = int n \<and> 0 \<le> z \<and> in_i64 z"
  by (auto simp: i64_try_from_def in_i64_def I64_MIN_def split: if_splits)

lemma abs_diff_le_iff: "abs_diff a b \<le> n \<longleftrightarrow> a - b \<le> int n \<and> b - a \<le> int n"
  by (auto simp: abs_diff_def)

lemma abs_diff_self [simp]: "abs_diff a a = 0"
  by (simp add: abs_diff_def)

lemma abs_diff_commute: "abs_diff a b = abs_diff b a"
  by (simp add: abs_diff_def)

section \<open>Fallible steps\<close>

text \<open>The \<open>?\<close> operator: the error is returned at once, a value is passed on.\<close>

definition and_then :: "'e + 'a \<Rightarrow> ('a \<Rightarrow> 'e + 'b) \<Rightarrow> 'e + 'b" where
  "and_then m f = (case m of Inl e \<Rightarrow> Inl e | Inr x \<Rightarrow> f x)"

definition ok_or :: "'e \<Rightarrow> 'a option \<Rightarrow> 'e + 'a" where
  "ok_or e m = (case m of None \<Rightarrow> Inl e | Some x \<Rightarrow> Inr x)"

definition require :: "bool \<Rightarrow> 'e \<Rightarrow> 'e + unit" where
  "require b e = (if b then Inr () else Inl e)"

lemma and_then_simps [simp, result_simps]:
  "and_then (Inl e) f = Inl e" "and_then (Inr x) f = f x"
  by (simp_all add: and_then_def)

lemma and_then_Inr_iff [result_simps]:
  "and_then m f = Inr y \<longleftrightarrow> (\<exists>x. m = Inr x \<and> f x = Inr y)"
  by (cases m) auto

lemma and_then_Inl_iff [result_simps]:
  "and_then m f = Inl e \<longleftrightarrow> m = Inl e \<or> (\<exists>x. m = Inr x \<and> f x = Inl e)"
  by (cases m) auto

lemma ok_or_simps [simp, result_simps]: "ok_or e None = Inl e" "ok_or e (Some x) = Inr x"
  by (simp_all add: ok_or_def)

lemma ok_or_Inr_iff [result_simps]: "ok_or e m = Inr x \<longleftrightarrow> m = Some x"
  by (cases m) auto

lemma require_Inr_iff [result_simps]: "require b e = Inr u \<longleftrightarrow> b"
  by (cases u) (simp add: require_def)

lemma require_Inl_iff [result_simps]: "require b e = Inl e' \<longleftrightarrow> \<not> b \<and> e' = e"
  by (auto simp: require_def)

section \<open>Strings\<close>

text \<open>A Rust string is its UTF-8 bytes, as a list of characters.  Case mapping and
  white space are those of the ASCII range.\<close>

definition is_whitespace :: "char \<Rightarrow> bool" where
  "is_whitespace c \<longleftrightarrow> of_char c = (32::nat) \<or> (9 \<le> (of_char c :: nat) \<and> (of_char c :: nat) \<le> 13)"

definition trim :: "string \<Rightarrow> string" where
  "trim s = rev (dropWhile is_whitespace (rev (dropWhile is_whitespace s)))"

definition is_ascii_digit :: "char \<Rightarrow> bool" where
  "is_ascii_digit c \<longleftrightarrow> 48 \<le> (of_char c :: nat) \<and> (of_char c :: nat) \<le> 57"

definition to_ascii_lower :: "char \<Rightarrow> char" where
  "to_ascii_lower c =
     (let n = (of_char c :: nat) in if 65 \<le> n \<and> n \<le> 90 then char_of (n + 32) else c)"

definition to_lowercase :: "string \<Rightarrow> string" where
  "to_lowercase s = List.map to_ascii_lower s"

fun starts_with :: "string \<Rightarrow> string \<Rightarrow> bool" where
  "starts_with _ [] \<longleftrightarrow> True"
| "starts_with [] (_ # _) \<longleftrightarrow> False"
| "starts_with (c # s) (p # ps) \<longleftrightarrow> c = p \<and> starts_with s ps"

definition ends_with :: "string \<Rightarrow> string \<Rightarrow> bool" where
  "ends_with s p \<longleftrightarrow> starts_with (rev s) (rev p)"

fun contains_str :: "string \<Rightarrow> string \<Rightarrow> bool" where
  "contains_str [] p \<longleftrightarrow> p = []"
| "contains_str (c # s) p \<longleftrightarrow> starts_with (c # s) p \<or> contains_str s p"

text \<open>\<open>str::split(c)\<close>: the fields between the separators; always at least one.\<close>

fun split_char :: "char \<Rightarrow> string \<Rightarrow> string list" where
  "split_char c [] = [[]]"
| "split_char c (x # xs) =
     (if x = c then [] # split_char c xs
      else (case split_char c xs of [] \<Rightarrow> [[x]] | f # fs \<Rightarrow> (x # f) # fs))"

fun join_with :: "string \<Rightarrow> string list \<Rightarrow> string" where
  "join_with sep [] = []"
| "join_with sep [x] = x"
| "join_with sep (x # y # xs) = x @ sep @ join_with sep (y # xs)"

lemma starts_with_iff: "starts_with s p \<longleftrightarrow> (\<exists>r. s = p @ r)"
  by (induction s p rule: starts_with.induct) auto

lemma split_char_nonempty [simp]: "split_char c s \<noteq> []"
  by (induction s) (auto split: list.splits)

lemma trim_Nil [simp]: "trim [] = []"
  by (simp add: trim_def)

section \<open>Decimal numbers\<close>

text \<open>\<open>u64::to_string\<close> and the reading of an unsigned decimal string.\<close>

definition digit_char :: "nat \<Rightarrow> char" where
  "digit_char d = char_of (48 + d)"

fun show_nat :: "nat \<Rightarrow> string" where
  "show_nat n = (if n < 10 then [digit_char n] else show_nat (n div 10) @ [digit_char (n mod 10)])"

declare show_nat.simps [simp del]

definition show_int :: "int \<Rightarrow> string" where
  "show_int z = (if z < 0 then CHR ''-'' # show_nat (nat (- z)) else show_nat (nat z))"

definition parse_nat :: "string \<Rightarrow> nat option" where
  "parse_nat s = (if s \<noteq> [] \<and> list_all is_ascii_digit s
     then Some (foldl (\<lambda>a c. 10 * a + (of_char c - 48)) 0 s) else None)"

lemma of_char_digit [simp]: "d < 10 \<Longrightarrow> (of_char (digit_char d) :: nat) = 48 + d"
  by (simp add: digit_char_def)

lemma is_ascii_digit_char [simp]: "d < 10 \<Longrightarrow> is_ascii_digit (digit_char d)"
  by (simp add: is_ascii_digit_def)

lemma show_nat_nonempty [simp]: "show_nat n \<noteq> []"
  by (subst show_nat.simps) simp

lemma show_nat_digits: "list_all is_ascii_digit (show_nat n)"
proof (induction n rule: show_nat.induct)
  case (1 n)
  then show ?case by (subst show_nat.simps) simp
qed

lemma show_nat_value: "foldl (\<lambda>a c. 10 * a + (of_char c - 48)) 0 (show_nat n) = n"
proof (induction n rule: show_nat.induct)
  case (1 n)
  then show ?case by (subst show_nat.simps) simp
qed

lemma parse_show_nat [simp]: "parse_nat (show_nat n) = Some n"
  by (simp add: parse_nat_def show_nat_digits show_nat_value)

lemma show_nat_inj [simp]: "show_nat m = show_nat n \<longleftrightarrow> m = n"
  by (metis parse_show_nat option.inject)

lemma show_nat_inD: "c \<in> set (show_nat n) \<Longrightarrow> is_ascii_digit c"
  using show_nat_digits by (simp add: list_all_iff)

lemma show_nat_hd_digit: "is_ascii_digit (hd (show_nat n))"
  by (rule show_nat_inD[of _ n]) simp

lemma dash_not_show_nat: "CHR ''-'' # s \<noteq> show_nat n"
proof
  assume "CHR ''-'' # s = show_nat n"
  then have "is_ascii_digit CHR ''-''"
    using show_nat_hd_digit[of n] by (metis list.sel(1))
  then show False by (simp add: is_ascii_digit_def)
qed

lemma show_int_inj [simp]: "show_int a = show_int b \<longleftrightarrow> a = b"
  using dash_not_show_nat dash_not_show_nat[symmetric] by (auto simp: show_int_def)

text \<open>Reading a signed decimal.\<close>

definition parse_int :: "string \<Rightarrow> int option" where
  "parse_int s = (case s of
      [] \<Rightarrow> None
    | c # cs \<Rightarrow> if c = CHR ''-'' then map_option (\<lambda>n. - int n) (parse_nat cs)
                else map_option int (parse_nat s))"

lemma parse_show_int [simp]: "parse_int (show_int z) = Some z"
proof (cases "z < 0")
  case False
  obtain c cs where s: "show_nat (nat z) = c # cs"
    using show_nat_nonempty by (meson neq_Nil_conv)
  then have "c \<noteq> CHR ''-''" using dash_not_show_nat by metis
  then show ?thesis using False s parse_show_nat[of "nat z"] by (simp add: parse_int_def show_int_def)
qed (simp add: parse_int_def show_int_def)

section \<open>Association lists\<close>

text \<open>An ordered map (\<open>BTreeMap\<close>) is an association list kept sorted by strictly
  increasing keys; \<open>upsert\<close> is \<open>entry(k).or_default()\<close> followed by an update.\<close>

fun upsert :: "'k::linorder \<Rightarrow> 'v \<Rightarrow> ('v \<Rightarrow> 'v) \<Rightarrow> ('k \<times> 'v) list \<Rightarrow> ('k \<times> 'v) list" where
  "upsert k d f [] = [(k, f d)]"
| "upsert k d f ((k', v) # m) =
     (if k < k' then (k, f d) # (k', v) # m
      else if k = k' then (k, f v) # m
      else (k', v) # upsert k d f m)"

definition sorted_keys :: "('k::linorder \<times> 'v) list \<Rightarrow> bool" where
  "sorted_keys m \<longleftrightarrow> sorted_wrt (<) (List.map fst m)"

lemma sorted_keys_Nil [simp]: "sorted_keys []"
  by (simp add: sorted_keys_def)

lemma sorted_keys_Cons:
  "sorted_keys ((k, v) # m) \<longleftrightarrow> (\<forall>k' \<in> fst ` set m. k < k') \<and> sorted_keys m"
  by (auto simp: sorted_keys_def)

lemma upsert_keys: "fst ` set (upsert k d f m) = insert k (fst ` set m)"
  by (induction k d f m rule: upsert.induct) auto

lemma upsert_sorted: "sorted_keys m \<Longrightarrow> sorted_keys (upsert k d f m)"
  by (induction k d f m rule: upsert.induct) (auto simp: sorted_keys_Cons upsert_keys)

lemma upsert_lookup:
  "sorted_keys m \<Longrightarrow>
   map_of (upsert k d f m) = (map_of m)(k \<mapsto> f (case map_of m k of None \<Rightarrow> d | Some v \<Rightarrow> v))"
proof (induction k d f m rule: upsert.induct)
  case (2 k d f k' v m)
  have "k < k' \<Longrightarrow> map_of m k = None"
    using "2.prems" by (force simp: sorted_keys_Cons map_of_eq_None_iff)
  then show ?case
    using 2 by (auto simp: sorted_keys_Cons fun_eq_iff)
qed (simp add: fun_eq_iff)

lemma sum_list_upsert:
  fixes g :: "'v \<Rightarrow> 'a::comm_monoid_add"
  assumes "sorted_keys m" and "g d = 0" and "\<And>v. g (f v) = g v + x"
  shows "sum_list (List.map (g \<circ> snd) (upsert k d f m)) = sum_list (List.map (g \<circ> snd) m) + x"
  using assms by (induction k d f m rule: upsert.induct) (auto simp: sorted_keys_Cons ac_simps)

section \<open>Lists\<close>

text \<open>\<open>ORDER BY key LIMIT 1\<close> and \<open>ORDER BY key DESC LIMIT 1\<close>.\<close>

fun min_on :: "('a \<Rightarrow> 'k::linorder) \<Rightarrow> 'a list \<Rightarrow> 'a option" where
  "min_on f [] = None"
| "min_on f (x # xs) =
     (case min_on f xs of None \<Rightarrow> Some x | Some y \<Rightarrow> if f x \<le> f y then Some x else Some y)"

fun max_on :: "('a \<Rightarrow> 'k::linorder) \<Rightarrow> 'a list \<Rightarrow> 'a option" where
  "max_on f [] = None"
| "max_on f (x # xs) =
     (case max_on f xs of None \<Rightarrow> Some x | Some y \<Rightarrow> if f y \<le> f x then Some x else Some y)"

lemma min_on_None [simp]: "min_on f xs = None \<longleftrightarrow> xs = []"
  by (cases xs) (auto split: option.splits if_splits)

lemma min_on_Some: "min_on f xs = Some x \<Longrightarrow> x \<in> set xs \<and> (\<forall>y \<in> set xs. f x \<le> f y)"
  by (induction xs arbitrary: x) (fastforce split: option.splits if_splits)+

lemma sorted_wrt_snoc:
  "sorted_wrt P (xs @ [x]) \<longleftrightarrow> sorted_wrt P xs \<and> (\<forall>y \<in> set xs. P y x)"
  by (auto simp: sorted_wrt_append)

lemma sum_list_mono_element:
  fixes f :: "'a \<Rightarrow> int"
  assumes "x \<in> set xs" and "\<And>y. y \<in> set xs \<Longrightarrow> 0 \<le> f y"
  shows "f x \<le> sum_list (List.map f xs)"
  using assms
proof (induction xs)
  case (Cons a xs)
  have "0 \<le> sum_list (List.map f xs)"
    by (rule sum_list_nonneg) (use Cons.prems in auto)
  then show ?case using Cons by (cases "x = a") fastforce+
qed simp

end
