(* ===== verification/F64.thy ===== *)
theory F64
  imports Prelude
begin

text \<open>
  The \<open>f64\<close> type.  A finite value is the rational it denotes; every arithmetic operation
  rounds its exact result to the nearest multiple of the unit in the last place of a
  53-bit significand, ties to even, with gradual underflow below \<open>2^-1022\<close> and overflow
  to an infinity from \<open>2^1024\<close> on.  The sign of zero is not represented.
\<close>

datatype f64 = Finite rat | Infinite bool | NaN

fun log2_floor :: "nat \<Rightarrow> nat" where
  "log2_floor n = (if n \<le> 1 then 0 else Suc (log2_floor (n div 2)))"

declare log2_floor.simps [simp del]

lemma log2_floor_bounds: "0 < n \<Longrightarrow> 2 ^ log2_floor n \<le> n \<and> n < 2 ^ Suc (log2_floor n)"
proof (induction n rule: log2_floor.induct)
  case (1 n)
  show ?case
  proof (cases "n \<le> 1")
    case True
    then show ?thesis using 1 by (simp add: log2_floor.simps)
  next
    case False
    then have "2 ^ log2_floor (n div 2) \<le> n div 2 \<and> n div 2 < 2 ^ Suc (log2_floor (n div 2))"
      using 1 by simp
    then show ?thesis using False by (subst (1 2) log2_floor.simps) auto
  qed
qed

definition pow2 :: "int \<Rightarrow> rat" where
  "pow2 e = (if 0 \<le> e then 2 ^ nat e else 1 / 2 ^ nat (- e))"

text \<open>The exponent of a positive rational: \<open>2^e \<le> x < 2^(e+1)\<close>.\<close>

definition exponent_of :: "rat \<Rightarrow> int" where
  "exponent_of x = (case quotient_of x of (p, q) \<Rightarrow>
     (let k = int (log2_floor (nat p)) - int (log2_floor (nat q))
      in if pow2 k \<le> x then k else k - 1))"

definition round_half_even :: "rat \<Rightarrow> int" where
  "round_half_even x =
     (let f = \<lfloor>x\<rfloor>; r = x - of_int f in
      if r < 1 / 2 then f else if 1 / 2 < r then f + 1 else if even f then f else f + 1)"

definition ulp_of :: "rat \<Rightarrow> rat" where
  "ulp_of x = pow2 (max (exponent_of \<bar>x\<bar>) (- 1022) - 52)"

definition rnd :: "rat \<Rightarrow> rat" where
  "rnd x = (if x = 0 then 0 else of_int (round_half_even (x / ulp_of x)) * ulp_of x)"

definition to_f64 :: "rat \<Rightarrow> f64" where
  "to_f64 x = (let r = rnd x in if pow2 1024 \<le> \<bar>r\<bar> then Infinite (r < 0) else Finite r)"

fun is_finite :: "f64 \<Rightarrow> bool" where
  "is_finite (Finite _) \<longleftrightarrow> True"
| "is_finite _ \<longleftrightarrow> False"

fun f64_add :: "f64 \<Rightarrow> f64 \<Rightarrow> f64" where
  "f64_add (Finite a) (Finite b) = to_f64 (a + b)"
| "f64_add (Infinite s) (Infinite t) = (if s = t then Infinite s else NaN)"
| "f64_add (Infinite s) (Finite _) = Infinite s"
| "f64_add (Finite _) (Infinite s) = Infinite s"
| "f64_add _ _ = NaN"

fun f64_neg :: "f64 \<Rightarrow> f64" where
  "f64_neg (Finite a) = Finite (- a)"
| "f64_neg (Infinite s) = Infinite (\<not> s)"
| "f64_neg NaN = NaN"

definition f64_sub :: "f64 \<Rightarrow> f64 \<Rightarrow> f64" where
  "f64_sub a b = f64_add a (f64_neg b)"

fun f64_mul :: "f64 \<Rightarrow> f64 \<Rightarrow> f64" where
  "f64_mul (Finite a) (Finite b) = to_f64 (a * b)"
| "f64_mul (Infinite s) (Infinite t) = Infinite (s \<noteq> t)"
| "f64_mul (Infinite s) (Finite b) = (if b = 0 then NaN else Infinite (s \<noteq> (b < 0)))"
| "f64_mul (Finite a) (Infinite s) = (if a = 0 then NaN else Infinite ((a < 0) \<noteq> s))"
| "f64_mul _ _ = NaN"

fun f64_div :: "f64 \<Rightarrow> f64 \<Rightarrow> f64" where
  "f64_div (Finite a) (Finite b) =
     (if b = 0 then (if a = 0 then NaN else Infinite (a < 0)) else to_f64 (a / b))"
| "f64_div (Infinite s) (Finite b) = Infinite (s \<noteq> (b < 0))"
| "f64_div (Finite _) (Infinite _) = Finite 0"
| "f64_div _ _ = NaN"

fun f64_less :: "f64 \<Rightarrow> f64 \<Rightarrow> bool" where
  "f64_less (Finite a) (Finite b) \<longleftrightarrow> a < b"
| "f64_less (Finite _) (Infinite s) \<longleftrightarrow> \<not> s"
| "f64_less (Infinite s) (Finite _) \<longleftrightarrow> s"
| "f64_less (Infinite s) (Infinite t) \<longleftrightarrow> s \<and> \<not> t"
| "f64_less _ _ \<longleftrightarrow> False"

fun f64_eq :: "f64 \<Rightarrow> f64 \<Rightarrow> bool" where
  "f64_eq (Finite a) (Finite b) \<longleftrightarrow> a = b"
| "f64_eq (Infinite s) (Infinite t) \<longleftrightarrow> s = t"
| "f64_eq _ _ \<longleftrightarrow> False"

definition f64_le :: "f64 \<Rightarrow> f64 \<Rightarrow> bool" where
  "f64_le a b \<longleftrightarrow> f64_less a b \<or> f64_eq a b"

text \<open>The cast of an integer type.\<close>

definition f64_of_int :: "int \<Rightarrow> f64" where
  "f64_of_int z = to_f64 (of_int z)"

section \<open>Powers of two\<close>

lemma pow2_pos [simp]: "0 < pow2 e"
  by (simp add: pow2_def)

lemma pow2_nonzero [simp]: "pow2 e \<noteq> 0"
  using pow2_pos[of e] by linarith

lemma pow2_powi: "pow2 e = 2 powi e"
  by (simp add: pow2_def power_int_def power_one_over inverse_eq_divide)

lemma pow2_add: "pow2 (a + b) = pow2 a * pow2 b"
  by (simp add: pow2_powi power_int_add)

lemma pow2_nat: "pow2 (int k) = 2 ^ k"
  by (simp add: pow2_def)

lemma pow2_mono: "a \<le> b \<Longrightarrow> pow2 a \<le> pow2 b"
  by (simp add: pow2_powi power_int_increasing)

lemma pow2_strict_mono: "a < b \<Longrightarrow> pow2 a < pow2 b"
  by (simp add: pow2_powi power_int_strict_increasing)

lemma pow2_less_imp_less: "pow2 a < pow2 b \<Longrightarrow> a < b"
  by (metis pow2_mono not_le)

lemma pow2_le_imp_le: "pow2 a \<le> pow2 b \<Longrightarrow> a \<le> b"
  by (metis pow2_strict_mono not_le)

section \<open>Rounding\<close>

lemma round_half_even_le: "x \<le> of_int z \<Longrightarrow> round_half_even x \<le> z"
proof -
  assume a: "x \<le> of_int z"
  have f: "\<lfloor>x\<rfloor> \<le> z" using a by (metis floor_mono floor_of_int)
  show ?thesis
  proof (cases "\<lfloor>x\<rfloor> = z")
    case True
    then have "x = of_int z" using a of_int_floor_le[of x] by linarith
    then show ?thesis by (simp add: round_half_even_def)
  next
    case False
    then show ?thesis using f by (auto simp: round_half_even_def Let_def)
  qed
qed

lemma round_half_even_ge: "of_int z \<le> x \<Longrightarrow> z \<le> round_half_even x"
  using floor_mono[of "of_int z" x] by (auto simp: round_half_even_def Let_def)

lemma round_half_even_int [simp]: "round_half_even (of_int z) = z"
  by (simp add: round_half_even_def)

lemma ulp_pos [simp]: "0 < ulp_of x"
  by (simp add: ulp_of_def)

lemma ulp_nonzero [simp]: "ulp_of x \<noteq> 0"
  using ulp_pos[of x] by linarith

lemma rnd_0 [simp]: "rnd 0 = 0"
  by (simp add: rnd_def)

lemma rnd_nonneg: "0 \<le> x \<Longrightarrow> 0 \<le> rnd x"
proof -
  assume "0 \<le> x"
  then have "of_int 0 \<le> x / ulp_of x" by (simp add: less_imp_le[OF ulp_pos])
  then have "0 \<le> round_half_even (x / ulp_of x)" by (rule round_half_even_ge)
  then show ?thesis by (simp add: rnd_def less_imp_le[OF ulp_pos])
qed

lemma rnd_nonpos: "x \<le> 0 \<Longrightarrow> rnd x \<le> 0"
proof -
  assume a: "x \<le> 0"
  have "x / ulp_of x \<le> of_int 0" using a by (simp add: divide_nonpos_pos)
  then have "round_half_even (x / ulp_of x) \<le> 0" by (rule round_half_even_le)
  then show ?thesis by (auto simp: rnd_def intro!: mult_nonpos_nonneg less_imp_le[OF ulp_pos])
qed

lemma exponent_lower:
  assumes "0 < x"
  shows "pow2 (exponent_of x) \<le> x"
proof -
  obtain p q where pq: "quotient_of x = (p, q)" by (cases "quotient_of x")
  have x: "x = of_int p / of_int q" by (rule quotient_of_div[OF pq])
  have q: "0 < q" by (rule quotient_of_denom_pos[OF pq])
  have p: "0 < p" using assms x q by (simp add: zero_less_divide_iff)
  define lp lq where "lp = log2_floor (nat p)" and "lq = log2_floor (nat q)"
  have "2 ^ lp \<le> nat p" "nat q < 2 ^ Suc lq"
    using log2_floor_bounds[of "nat p"] log2_floor_bounds[of "nat q"] p q
    by (auto simp: lp_def lq_def)
  then have "int (2 ^ lp) \<le> p" "q < int (2 ^ Suc lq)"
    using p q by (simp_all add: nat_less_iff le_nat_iff)
  then have lb: "pow2 (int lp) \<le> of_int p" "of_int q \<le> pow2 (int (Suc lq))"
    unfolding pow2_nat by (metis of_int_le_iff of_int_of_nat_eq of_nat_numeral of_nat_power
        less_imp_le)+
  have "pow2 (int lp - int lq - 1) = pow2 (int lp) / pow2 (int (Suc lq))"
    by (simp add: field_simps flip: pow2_add)
  also have "\<dots> \<le> of_int p / of_int q"
    using lb p q less_imp_le[OF pow2_pos] by (intro frac_le) auto
  finally have "pow2 (int lp - int lq - 1) \<le> x" by (simp add: x)
  then show ?thesis
    by (simp add: exponent_of_def pq Let_def lp_def lq_def)
qed

lemma exponent_upper: "0 < x \<Longrightarrow> x \<le> pow2 k \<Longrightarrow> exponent_of x \<le> k"
  using exponent_lower[of x] by (meson order_trans pow2_le_imp_le)

lemma exponent_less: "0 < x \<Longrightarrow> x < pow2 k \<Longrightarrow> exponent_of x < k"
  using exponent_lower[of x] by (meson le_less_trans pow2_less_imp_less)

text \<open>Rounding never crosses a power of two, and it leaves the integers of 53 bits alone.\<close>

lemma rnd_le_pow2:
  assumes "0 \<le> x" and "x \<le> pow2 k" and "- 1022 \<le> k"
  shows "rnd x \<le> pow2 k"
proof (cases "x = 0")
  case False
  then have x: "0 < x" using assms by simp
  define m where "m = max (exponent_of x) (- 1022)"
  have u: "ulp_of x = pow2 (m - 52)" using x by (simp add: ulp_of_def m_def)
  have "m \<le> k" using exponent_upper[OF x assms(2)] assms(3) by (simp add: m_def)
  then obtain n where n: "k - (m - 52) = int n" by (metis zle_iff_zadd add_diff_cancel_left'
        diff_add_cancel diff_le_eq zero_le_numeral add_increasing2 diff_ge_0_iff_ge
        nat_0_le order_trans le_add_same_cancel1)
  have k: "pow2 k = 2 ^ n * pow2 (m - 52)"
    using pow2_add[of "int n" "m - 52"] by (simp add: pow2_nat[symmetric] flip: n)
  have "x / ulp_of x \<le> of_int (2 ^ n)"
    using assms(2) by (simp add: u k pos_divide_le_eq)
  then have "round_half_even (x / ulp_of x) \<le> 2 ^ n" by (rule round_half_even_le)
  then have "of_int (round_half_even (x / ulp_of x)) \<le> (of_int (2 ^ n) :: rat)"
    by (simp only: of_int_le_iff)
  then show ?thesis using x by (simp add: rnd_def u k)
qed (simp add: less_imp_le[OF pow2_pos])

lemma exponent_strict:
  assumes "0 < x"
  shows "x < pow2 (exponent_of x + 1)"
proof -
  obtain p q where pq: "quotient_of x = (p, q)" by (cases "quotient_of x")
  have x: "x = of_int p / of_int q" by (rule quotient_of_div[OF pq])
  have q: "0 < q" by (rule quotient_of_denom_pos[OF pq])
  have p: "0 < p" using assms x q by (simp add: zero_less_divide_iff)
  define lp lq where "lp = log2_floor (nat p)" and "lq = log2_floor (nat q)"
  have "nat p < 2 ^ Suc lp" "2 ^ lq \<le> nat q"
    using log2_floor_bounds[of "nat p"] log2_floor_bounds[of "nat q"] p q
    by (auto simp: lp_def lq_def)
  then have "p < int (2 ^ Suc lp)" "int (2 ^ lq) \<le> q"
    using p q by (simp_all add: nat_less_iff le_nat_iff)
  then have ub: "of_int p < pow2 (int (Suc lp))" "pow2 (int lq) \<le> of_int q"
    unfolding pow2_nat by (metis of_int_le_iff of_int_less_iff of_int_of_nat_eq of_nat_numeral
        of_nat_power)+
  have "x < pow2 (int (Suc lp)) / pow2 (int lq)"
    unfolding x using ub p q by (intro frac_less) auto
  also have "\<dots> = pow2 (int lp - int lq + 1)"
    by (simp add: field_simps flip: pow2_add)
  finally have "x < pow2 (int lp - int lq + 1)" .
  then show ?thesis
    by (simp add: exponent_of_def pq Let_def lp_def lq_def)
qed

lemma rnd_ge_pow2:
  assumes "pow2 k \<le> x" and "- 1022 \<le> k"
  shows "pow2 k \<le> rnd x"
proof -
  have x: "0 < x" using assms(1) pow2_pos[of k] by linarith
  define e where "e = exponent_of x"
  have "pow2 k < pow2 (e + 1)"
    using assms(1) exponent_strict[OF x] unfolding e_def by linarith
  then have ke: "k \<le> e" using pow2_less_imp_less by fastforce
  have u: "ulp_of x = pow2 (e - 52)" using x ke assms(2) by (simp add: ulp_of_def e_def)
  have e: "pow2 e = 2 ^ 52 * pow2 (e - 52)"
    using pow2_add[of 52 "e - 52"] by (simp add: pow2_def[of 52])
  have "of_int (2 ^ 52) \<le> x / ulp_of x"
    using exponent_lower[OF x] by (simp add: u pos_le_divide_eq e_def[symmetric] e)
  then have "2 ^ 52 \<le> round_half_even (x / ulp_of x)" by (rule round_half_even_ge)
  then have "of_int (2 ^ 52) \<le> (of_int (round_half_even (x / ulp_of x)) :: rat)"
    by (simp only: of_int_le_iff)
  then have "pow2 e \<le> rnd x" using x by (simp add: rnd_def u e)
  then show ?thesis using pow2_mono[OF ke] by linarith
qed

lemma rnd_int:
  assumes "\<bar>z\<bar> < 2 ^ 53"
  shows "rnd (of_int z) = of_int z"
proof (cases "z = 0")
  case False
  let ?x = "of_int z :: rat"
  define m where "m = max (exponent_of \<bar>?x\<bar>) (- 1022)"
  have "\<bar>?x\<bar> < pow2 53"
    using assms by (simp add: pow2_def flip: of_int_abs)
  then have "m \<le> 52" using exponent_less[of "\<bar>?x\<bar>" 53] False by (simp add: m_def)
  then obtain n where n: "52 - m = int n" by (metis diff_ge_0_iff_ge nat_0_le)
  have u: "ulp_of ?x = pow2 (m - 52)" by (simp add: ulp_of_def m_def)
  have "pow2 (m - 52) * pow2 (int n) = 1" by (simp add: pow2_def flip: pow2_add n)
  then have one: "pow2 (m - 52) * 2 ^ n = 1" by (simp add: pow2_nat)
  have "?x / ulp_of ?x = of_int (z * 2 ^ n)"
    using one by (simp add: u field_simps)
  then have "rnd ?x = of_int (z * 2 ^ n) * pow2 (m - 52)"
    using False by (simp add: rnd_def u del: of_int_mult)
  then show ?thesis using one by (simp add: ac_simps)
qed simp

section \<open>Facts about the operations\<close>

lemma pow2_not_le_0 [simp]: "\<not> pow2 e \<le> 0"
  by (simp add: not_le)

lemma to_f64_0 [simp]: "to_f64 0 = Finite 0"
  by (simp add: to_f64_def)

lemma to_f64_finite:
  assumes "0 \<le> x" and "x \<le> pow2 1023"
  shows "to_f64 x = Finite (rnd x)" and "0 \<le> rnd x"
proof -
  show nn: "0 \<le> rnd x" by (rule rnd_nonneg[OF assms(1)])
  have "rnd x \<le> pow2 1023"
    by (rule rnd_le_pow2[OF assms]) simp
  also have "\<dots> < pow2 1024" by (rule pow2_strict_mono) simp
  finally show "to_f64 x = Finite (rnd x)"
    using nn by (simp add: to_f64_def)
qed

lemma rnd_le_one: "0 \<le> x \<Longrightarrow> x \<le> 1 \<Longrightarrow> rnd x \<le> 1"
  using rnd_le_pow2[of x 0] by (simp add: pow2_def)

lemma to_f64_unit:
  assumes "0 \<le> x" and "x \<le> 1"
  shows "\<exists>r. to_f64 x = Finite r \<and> 0 \<le> r \<and> r \<le> 1"
proof -
  have "1 \<le> pow2 1023" using pow2_mono[of 0 1023] by (simp add: pow2_def[of 0])
  then have "x \<le> pow2 1023" using assms(2) by simp
  then show ?thesis using assms to_f64_finite[of x] rnd_le_one[of x] by simp
qed

lemma f64_of_int_small: "\<bar>z\<bar> < 2 ^ 53 \<Longrightarrow> f64_of_int z = Finite (of_int z)"
proof -
  assume z: "\<bar>z\<bar> < 2 ^ 53"
  then have "\<bar>rat_of_int z\<bar> < pow2 53" by (simp add: pow2_def flip: of_int_abs)
  also have "\<dots> < pow2 1024" by (rule pow2_strict_mono) simp
  finally show ?thesis using z by (simp add: f64_of_int_def to_f64_def rnd_int)
qed

lemma to_f64_numeral [simp]:
  "(numeral k :: int) < 9007199254740992 \<Longrightarrow> to_f64 (numeral k) = Finite (numeral k)"
  using f64_of_int_small[of "numeral k"] by (simp add: f64_of_int_def)

lemma to_f64_1 [simp]: "to_f64 1 = Finite 1"
  using f64_of_int_small[of 1] by (simp add: f64_of_int_def)

lemma f64_of_int_numeral [simp]:
  "(numeral k :: int) < 9007199254740992 \<Longrightarrow> f64_of_int (numeral k) = Finite (numeral k)"
  "f64_of_int 0 = Finite 0" "f64_of_int 1 = Finite 1"
  by (simp_all add: f64_of_int_def)

end
