(* ===== verification/Router_Data.thy ===== *)
theory Router_Data
  imports F64
begin

text \<open>
  The data the poller moves: the vendor-neutral records a router backend returns
  (\<open>backends/mod.rs\<close>) and the dashboard records the WebSocket protocol carries
  (\<open>ws/protocol.rs\<close>).  Every record has the fields of its Rust struct, each under a prefix
  of its own.  A \<open>u32\<close> is a natural number below \<open>2^32\<close>, a \<open>u64\<close> a 64-bit word, an
  \<open>Instant\<close> the nanoseconds since an arbitrary origin.
\<close>

type_synonym instant = nat

definition as_u32 :: "nat \<Rightarrow> nat" where
  "as_u32 n = n mod 2 ^ 32"

definition u32_saturating_add :: "nat \<Rightarrow> nat \<Rightarrow> nat" where
  "u32_saturating_add a b = min (2 ^ 32 - 1) (a + b)"

section \<open>Vendor-neutral router data\<close>

record counter_sample_time =
  cs_monotonic :: instant
  cs_unix_ms :: i64

record system_data =
  sd_hardware_identity :: "string option"
  sd_uptime :: string
  sd_uptime_seconds :: "u64 option"
  sd_cpu_load :: f64
  sd_free_memory :: u64
  sd_total_memory :: u64
  sd_free_hdd :: u64
  sd_total_hdd :: u64
  sd_architecture_name :: string
  sd_board_name :: string
  sd_version :: string

record identity_data =
  id_name :: string

record ip_addr_entry =
  ip_address_cidr :: string
  ip_interface :: string
  ip_actual_interface :: string
  ip_disabled :: bool

record ipv6_addr_entry =
  ip6_address_cidr :: string
  ip6_interface :: string
  ip6_actual_interface :: string
  ip6_disabled :: bool

record interface_entry =
  if_id :: string
  if_name :: string
  if_type :: string
  if_mac_address :: string
  if_running :: bool
  if_rx_byte :: "u64 option"
  if_tx_byte :: "u64 option"
  if_default_name :: string

record route_entry =
  rt_id :: string
  rt_dst_address :: string
  rt_gateway :: string
  rt_gateway_status :: string
  rt_interface :: string
  rt_active :: bool
  rt_disabled :: bool
  rt_distance :: nat

record neighbor_entry =
  nb_address :: string
  nb_mac_address :: string
  nb_interface :: string
  nb_status :: string
  nb_disabled :: bool

record dhcp_lease_entry =
  dl_mac_address :: string
  dl_host_name :: string
  dl_status :: string
  dl_expires_after :: string
  dl_active_mac_address :: string

record wireless_client_entry =
  wc_mac_address :: string
  wc_signal_strength :: "int option"
  wc_uptime :: string

record router_data =
  rd_counter_sample_time :: counter_sample_time
  rd_system :: system_data
  rd_identity :: identity_data
  rd_ip_addresses :: "ip_addr_entry list"
  rd_ipv6_addresses :: "ipv6_addr_entry list"
  rd_interfaces :: "interface_entry list"
  rd_routes :: "route_entry list"
  rd_ipv6_routes :: "route_entry list"
  rd_arp_entries :: "neighbor_entry list"
  rd_ipv6_neighbors :: "neighbor_entry list"
  rd_dhcp_leases :: "dhcp_lease_entry list"
  rd_wireless_clients :: "wireless_client_entry list"
  rd_connection_count :: nat
  rd_ipv6_connection_count :: nat

section \<open>Dashboard data\<close>

record system_info =
  si_model :: string
  si_version :: string
  si_uptime :: string
  si_uptime_seconds :: u64
  si_cpu_load :: f64
  si_free_memory :: u64
  si_total_memory :: u64
  si_total_hdd :: u64
  si_free_hdd :: u64
  si_architecture :: string
  si_board_name :: string

record wan_entry =
  we_wan_name :: string
  we_wan_ip :: string
  we_gateway_ip :: string
  we_online :: bool
  we_download_bps :: f64
  we_upload_bps :: f64
  we_is_primary :: bool
  we_wan_ipv6 :: "string option"
  we_gateway_ipv6 :: "string option"

record gateway_info =
  gi_wan_interface :: string
  gi_wan_ip :: string
  gi_gateway_ip :: string
  gi_wan_online :: bool
  gi_ip_allocations :: nat
  gi_wans :: "wan_entry list"
  gi_wan_ipv6 :: "string option"
  gi_gateway_ipv6 :: "string option"

record interface_summary =
  is_ethernet_count :: nat
  is_wifi_count :: nat
  is_connected_devices :: nat
  is_wifi_online :: bool

record wan_isp_info =
  wi_wan_name :: string
  wi_name :: string
  wi_online :: bool
  wi_download_bps :: f64
  wi_upload_bps :: f64

record isp_info =
  ii_name :: string
  ii_online :: bool
  ii_monthly_usage_gb :: f64
  ii_download_bps :: f64
  ii_upload_bps :: f64
  ii_connection_count :: nat
  ii_connection_count_ipv6 :: "nat option"
  ii_wans :: "wan_isp_info list"

record latency_probe =
  lp_target :: string
  lp_host :: string
  lp_latency_ms :: "f64 option"
  lp_status :: string
  lp_category :: string

record traffic_point =
  tp_timestamp :: string
  tp_download_bps :: f64
  tp_upload_bps :: f64
  tp_wan_name :: "string option"

record traffic_snapshot =
  tsn_points :: "traffic_point list"

record device =
  dv_mac :: string
  dv_hostname :: string
  dv_ip :: string
  dv_device_type :: string
  dv_signal :: "int option"
  dv_connected_duration :: u64
  dv_dhcp_status :: "string option"
  dv_dhcp_expires :: "string option"
  dv_interface :: "string option"
  dv_arp_status :: "string option"
  dv_custom_name :: "string option"
  dv_custom_type :: "string option"

record wifi_info =
  wf_interface_count :: nat
  wf_client_count :: nat
  wf_packet_loss_pct :: f64
  wf_retransmit_pct :: f64
  wf_devices :: "device list"

record interface_status =
  ist_name :: string
  ist_type :: string
  ist_running :: bool
  ist_rx_bps :: f64
  ist_tx_bps :: f64
  ist_is_wan :: "bool option"
  ist_wan_name :: "string option"

record stability_segment =
  sg_color :: string
  sg_value :: f64
  sg_label :: "string option"

record isp_stability =
  st_online_rate :: f64
  st_segments :: "stability_segment list"
  st_window_minutes :: nat

record dashboard_snapshot =
  ds_system :: system_info
  ds_gateway :: gateway_info
  ds_interfaces :: interface_summary
  ds_isp :: isp_info
  ds_traffic :: traffic_snapshot
  ds_latency_probes :: "latency_probe list"
  ds_wifi :: wifi_info
  ds_stability :: isp_stability
  ds_interface_statuses :: "interface_status list"
  ds_timestamp :: string
  ds_wans :: "wan_entry list"
  ds_wans_isp :: "wan_isp_info list"
  ds_wan_traffic_points :: "traffic_point list"

record dashboard_update =
  du_system :: "system_info option"
  du_gateway :: "gateway_info option"
  du_interfaces :: "interface_summary option"
  du_isp :: "isp_info option"
  du_traffic :: "traffic_point option"
  du_latency_probes :: "latency_probe list option"
  du_wifi :: "wifi_info option"
  du_stability :: "isp_stability option"
  du_interface_statuses :: "interface_status list option"
  du_timestamp :: string
  du_wans :: "wan_entry list option"
  du_wans_isp :: "wan_isp_info list option"
  du_wan_traffic_points :: "traffic_point list option"

datatype server_message =
    Snapshot dashboard_snapshot
  | Update dashboard_update
  | ConnectionStatus bool "string option"

lemma as_u32_less: "as_u32 n < 2 ^ 32"
  by (simp add: as_u32_def)

lemma as_u32_id: "n < 2 ^ 32 \<Longrightarrow> as_u32 n = n"
  by (simp add: as_u32_def)

end
