(* ===== verification/Counter_Rate.thy ===== *)
theory Counter_Rate
  imports Router_Data
begin

text \<open>
  Byte counters to rates (\<open>poller/transform.rs\<close>).  A RouterOS counter is a \<open>u64\<close> that
  only grows, except that it wraps at \<open>2^64\<close>, and falls to a low value when the router
  reboots or the counter is reset.  The section below is the classification of the
  change between two samples and the rate it gives.
\<close>

section \<open>Definitions\<close>

datatype counter_transition =
  Initial | Advanced | Wrapped | Rebooted | Reset | InvalidElapsed

record counter_rate =
  cr_delta_bytes :: "u64 option"
  cr_bits_per_second :: "f64 option"
  cr_transition :: counter_transition

record previous_counter_sample =
  pcs_counters :: "string \<rightharpoonup> u64 \<times> u64"
  pcs_uptime_seconds :: "u64 option"
  pcs_elapsed_secs :: f64

record rate_context =
  rc_previous_counters :: "(string \<rightharpoonup> u64 \<times> u64) option"
  rc_previous_uptime_seconds :: "u64 option"
  rc_current_uptime_seconds :: "u64 option"
  rc_elapsed_secs :: "f64 option"

definition u64_saturating_add :: "u64 \<Rightarrow> u64 \<Rightarrow> u64" where
  "u64_saturating_add a b = (if unat a + unat b < 2 ^ 64 then a + b else - 1)"

definition wrapped_counter_delta :: "u64 \<Rightarrow> u64 \<Rightarrow> u64 option" where
  "wrapped_counter_delta previous current =
     (if previous \<le> (- 1) div 4 * 3 \<or> (- 1) div 4 \<le> current then None
      else Some (u64_saturating_add (u64_saturating_add (- 1 - previous) current) 1))"

definition f64_of_u64 :: "u64 \<Rightarrow> f64" where
  "f64_of_u64 w = f64_of_int (uint w)"

text \<open>\<open>previous.zip(current).is_some_and(|(p, c)| c < p)\<close>.\<close>

definition uptime_decreased :: "u64 option \<Rightarrow> u64 option \<Rightarrow> bool" where
  "uptime_decreased previous current =
     (case (previous, current) of (Some p, Some c) \<Rightarrow> c < p | _ \<Rightarrow> False)"

definition valid_elapsed :: "f64 option \<Rightarrow> f64 option" where
  "valid_elapsed elapsed =
     (case elapsed of None \<Rightarrow> None
      | Some e \<Rightarrow> if is_finite e \<and> f64_less (Finite 0) e then Some e else None)"

definition calculate_counter_rate ::
  "u64 option \<Rightarrow> u64 \<Rightarrow> u64 option \<Rightarrow> u64 option \<Rightarrow> f64 option \<Rightarrow> counter_rate" where
  "calculate_counter_rate previous current previous_uptime current_uptime elapsed =
     (case previous of
        None \<Rightarrow> \<lparr>cr_delta_bytes = None, cr_bits_per_second = None, cr_transition = Initial\<rparr>
      | Some previous \<Rightarrow>
          if uptime_decreased previous_uptime current_uptime
          then \<lparr>cr_delta_bytes = None, cr_bits_per_second = None, cr_transition = Rebooted\<rparr>
          else
            (case (if previous \<le> current then Some (current - previous, Advanced)
                   else map_option (\<lambda>d. (d, Wrapped)) (wrapped_counter_delta previous current)) of
               None \<Rightarrow> \<lparr>cr_delta_bytes = None, cr_bits_per_second = None, cr_transition = Reset\<rparr>
             | Some (delta, transition) \<Rightarrow>
                 (case valid_elapsed elapsed of
                    None \<Rightarrow> \<lparr>cr_delta_bytes = Some delta, cr_bits_per_second = None,
                              cr_transition = InvalidElapsed\<rparr>
                  | Some e \<Rightarrow> \<lparr>cr_delta_bytes = Some delta,
                      cr_bits_per_second =
                        Some (f64_div (f64_mul (f64_of_u64 delta) (Finite 8)) e),
                      cr_transition = transition\<rparr>)))"

definition rate_of_counter ::
  "rate_context \<Rightarrow> u64 option \<Rightarrow> u64 option \<Rightarrow> f64 option" where
  "rate_of_counter context previous byte_counter =
     (case byte_counter of None \<Rightarrow> None
      | Some current \<Rightarrow> cr_bits_per_second
          (calculate_counter_rate previous current (rc_previous_uptime_seconds context)
             (rc_current_uptime_seconds context) (rc_elapsed_secs context)))"

definition unwrap_or :: "'a \<Rightarrow> 'a option \<Rightarrow> 'a" where
  "unwrap_or d m = (case m of None \<Rightarrow> d | Some x \<Rightarrow> x)"

definition calculate_interface_rates :: "interface_entry \<Rightarrow> rate_context \<Rightarrow> f64 \<times> f64" where
  "calculate_interface_rates iface context =
     (let previous = (case rc_previous_counters context of None \<Rightarrow> None
                      | Some counters \<Rightarrow> counters (if_name iface))
      in (unwrap_or (Finite 0)
            (rate_of_counter context (map_option fst previous) (if_rx_byte iface)),
          unwrap_or (Finite 0)
            (rate_of_counter context (map_option snd previous) (if_tx_byte iface))))"

section \<open>The wrap across \<open>2^64\<close>\<close>

lemma quarter_max: "(- 1 :: u64) div 4 = 4611686018427387903"
  by simp

lemma unat_max_minus: "unat (- 1 - p :: u64) = 2 ^ 64 - 1 - unat p"
proof -
  have "p \<le> - 1" by simp
  then have "unat (- 1 - p) = unat (- 1 :: u64) - unat p" by (rule unat_sub)
  then show ?thesis by (simp add: unsigned_minus_1_eq_mask mask_eq_exp_minus_1)
qed

lemma u64_saturating_add_exact:
  "unat a + unat b < 2 ^ 64 \<Longrightarrow> u64_saturating_add a b = a + b \<and> unat (a + b) = unat a + unat b"
  by (simp add: u64_saturating_add_def unat_word_ariths)

lemma wrapped_counter_delta_Some:
  assumes "wrapped_counter_delta previous current = Some d"
  shows "d = current - previous" and "current < previous"
    and "unat d = unat current + 2 ^ 64 - unat previous"
proof -
  have p: "13835058055282163709 < unat previous" and c: "unat current < 4611686018427387903"
    using assms by (auto simp: wrapped_counter_delta_def quarter_max word_less_nat_alt
        word_le_nat_alt split: if_splits)
  have pl: "unat previous < 2 ^ 64" using unsigned_less[of previous, where ?'a = nat] by simp
  show "current < previous" using p c by (simp add: word_less_nat_alt)
  let ?m = "- 1 - previous :: u64"
  have m: "unat ?m = 2 ^ 64 - 1 - unat previous" by (rule unat_max_minus)
  have s1: "unat ?m + unat current < 2 ^ 64" using m p c pl by simp
  note e1 = u64_saturating_add_exact[OF s1]
  have s2: "unat (?m + current) + unat (1::u64) < 2 ^ 64" using e1 m p c pl by simp
  note e2 = u64_saturating_add_exact[OF s2]
  have d: "d = ?m + current + 1"
    using assms e1 e2 by (auto simp: wrapped_counter_delta_def split: if_splits)
  then show "d = current - previous" by simp
  show "unat d = unat current + 2 ^ 64 - unat previous"
    using d e1 e2 m pl by simp
qed

section \<open>What the classification means\<close>

lemma uptime_decreased_iff [simp]:
  "uptime_decreased (Some p) (Some c) \<longleftrightarrow> c < p"
  "\<not> uptime_decreased None u" "\<not> uptime_decreased u None"
  by (simp_all add: uptime_decreased_def split: option.splits)

lemma valid_elapsed_Some:
  "valid_elapsed m = Some e \<longleftrightarrow> m = Some e \<and> (\<exists>x>0. e = Finite x)"
  by (cases m; cases e) (auto simp: valid_elapsed_def)

lemma valid_elapsed_Finite [simp]:
  "0 < x \<Longrightarrow> valid_elapsed (Some (Finite x)) = Some (Finite x)"
  by (simp add: valid_elapsed_def)

text \<open>The delta of a rate is the difference of the counters modulo \<open>2^64\<close>; a reboot, a
  reset and a first sample have none.\<close>

lemma rate_delta_iff:
  "cr_delta_bytes (calculate_counter_rate previous current pu cu el) = Some d \<longleftrightarrow>
   (\<exists>p. previous = Some p \<and> \<not> uptime_decreased pu cu \<and> d = current - p \<and>
        (p \<le> current \<or> wrapped_counter_delta p current \<noteq> None))"
  by (auto simp: calculate_counter_rate_def wrapped_counter_delta_Some(1)
      split: option.splits if_splits prod.splits)

lemma f64_le_0_iff:
  "f64_le (Finite 0) a \<longleftrightarrow> (\<exists>x\<ge>0. a = Finite x) \<or> a = Infinite False"
  by (cases a) (auto simp: f64_le_def)

lemma to_f64_nonneg: "0 \<le> y \<Longrightarrow> f64_le (Finite 0) (to_f64 y)"
  using rnd_nonneg[of y] by (auto simp: to_f64_def Let_def f64_le_0_iff)

lemma f64_mul_nonneg: "f64_le (Finite 0) a \<Longrightarrow> 0 < y \<Longrightarrow> f64_le (Finite 0) (f64_mul a (Finite y))"
  by (auto simp: f64_le_0_iff[of a] intro!: to_f64_nonneg) (simp_all add: f64_le_0_iff)

lemma f64_div_nonneg: "f64_le (Finite 0) a \<Longrightarrow> 0 < y \<Longrightarrow> f64_le (Finite 0) (f64_div a (Finite y))"
  by (auto simp: f64_le_0_iff[of a] intro!: to_f64_nonneg) (simp_all add: f64_le_0_iff)

lemma f64_of_u64_nonneg: "f64_le (Finite 0) (f64_of_u64 w)"
  unfolding f64_of_u64_def f64_of_int_def
  by (rule to_f64_nonneg) (simp only: of_int_0_le_iff uint_ge_0)

lemma rate_bps_shape:
  assumes "cr_bits_per_second (calculate_counter_rate previous current pu cu el) = Some r"
  obtains delta x where "0 < x" and "el = Some (Finite x)"
    and "cr_delta_bytes (calculate_counter_rate previous current pu cu el) = Some delta"
    and "r = f64_div (f64_mul (f64_of_u64 delta) (Finite 8)) (Finite x)"
  using assms
  by (auto simp: calculate_counter_rate_def valid_elapsed_Some
      split: option.splits if_splits prod.splits)

lemma rate_bps_nonneg:
  "cr_bits_per_second (calculate_counter_rate previous current pu cu el) = Some r \<Longrightarrow>
   f64_le (Finite 0) r"
  by (erule rate_bps_shape) (simp add: f64_div_nonneg f64_mul_nonneg f64_of_u64_nonneg)

section \<open>Properties\<close>

lemma wrap_window:
  "wrapped_counter_delta p c \<noteq> None \<longleftrightarrow> 13835058055282163709 < p \<and> c < 4611686018427387903"
  by (auto simp: wrapped_counter_delta_def quarter_max not_le)

text \<open>The byte delta of a counter pair is the difference of the counters modulo \<open>2^64\<close>, and
  it exists exactly when there is a previous sample, the uptime did not decrease, and the
  counter either grew or fell from the last quarter of its range to the first; a reboot, a
  reset and a first sample never give a delta.\<close>

theorem counter_delta_is_modular:
  "cr_delta_bytes (calculate_counter_rate previous current pu cu el) = Some d \<longleftrightarrow>
   (\<exists>p. previous = Some p \<and> \<not> uptime_decreased pu cu \<and> d = current - p \<and>
        (p \<le> current \<or> (13835058055282163709 < p \<and> current < 4611686018427387903)))"
  unfolding rate_delta_iff wrap_window ..

text \<open>A rate is never negative, is only given together with a delta, and only when the
  elapsed time is finite and positive.\<close>

theorem counter_rate_nonnegative:
  assumes "cr_bits_per_second (calculate_counter_rate previous current pu cu el) = Some r"
  shows "f64_le (Finite 0) r \<and>
     cr_delta_bytes (calculate_counter_rate previous current pu cu el) \<noteq> None \<and>
     (\<exists>x>0. el = Some (Finite x))"
  using assms by (rule rate_bps_shape) (use rate_bps_nonneg[OF assms] in auto)

theorem counter_rate_nonnegative_witness:
  "cr_bits_per_second (calculate_counter_rate (Some 100) 600 None None (Some (Finite 1))) = Some (Finite 4000)
   \<and> f64_le (Finite 0) (Finite 4000)"
proof -
  have r: "cr_bits_per_second (calculate_counter_rate (Some 100) 600 None None (Some (Finite 1)))
      = Some (Finite 4000)"
    by (simp add: calculate_counter_rate_def f64_of_u64_def)
  show ?thesis using counter_rate_nonnegative[OF r] r by simp
qed

end
