(* ===== verification/Traffic_Store.thy ===== *)
theory Traffic_Store
  imports Counter_Rate
begin

text \<open>
  The exact traffic store (\<open>db/traffic_v4.rs\<close> over the tables of \<open>db/schema.rs\<close>).

  A table is the list of its rows in insertion order, with the constraints of its
  \<open>CREATE TABLE\<close> statement written out: a statement that would break a UNIQUE, CHECK or
  FOREIGN KEY constraint fails with \<open>Sqlite\<close> and changes nothing.  A method that opens a
  transaction returns the state it found whenever it returns an error; the connection
  mutex makes every method atomic.  I/O failures of SQLite itself are not represented.
  A row id is one more than the largest one ever given out (AUTOINCREMENT).  The
  \<open>created_at_ms\<close> columns, which no statement reads, are left out.
\<close>

section \<open>Errors\<close>

text \<open>\<open>SqliteCorrupt\<close> is a SQLite error whose code says that the file is corrupt or no database.\<close>

datatype db_error =
    Sqlite
  | SqliteCorrupt
  | Io string
  | InUse string
  | Integrity string
  | UnsupportedVersion int int
  | InsufficientSpace string nat nat
  | ChecksumMismatch string string
  | Verification string
  | InvalidCommand string
  | TrafficQueryTooLarge nat
  | TrafficQueryCancelled
  | TrafficQueryTimedOut

type_synonym 'a db_result = "db_error + 'a"

section \<open>Rows and inputs\<close>

datatype traffic_quality = Exact | Estimated

fun quality_as_str :: "traffic_quality \<Rightarrow> string" where
  "quality_as_str Exact = ''exact''"
| "quality_as_str Estimated = ''estimated''"

record router_record =
  rr_id :: i64
  rr_internal_uuid :: string
  rr_hardware_identity :: "string option"
  rr_fallback_target :: string
  rr_identity_source :: string
  rr_first_seen_at_ms :: i64
  rr_last_seen_at_ms :: i64

record router_interface_record =
  ri_id :: i64
  ri_router_id :: i64
  ri_interface_key :: string
  ri_name :: string
  ri_kind :: string
  ri_hardware_id :: "string option"
  ri_first_seen_at_ms :: i64
  ri_last_seen_at_ms :: i64

record traffic_sample_input =
  tsi_router_id :: i64
  tsi_interface_id :: i64
  tsi_started_at_ms :: i64
  tsi_ended_at_ms :: i64
  tsi_duration_ms :: i64
  tsi_download_bytes :: i64
  tsi_upload_bytes :: i64
  tsi_download_bps :: f64
  tsi_upload_bps :: f64
  tsi_quality :: traffic_quality
  tsi_source :: string

record counter_checkpoint =
  cp_router_id :: i64
  cp_interface_id :: i64
  cp_rx_counter :: string
  cp_tx_counter :: string
  cp_observed_at_ms :: i64
  cp_reboot_marker :: "string option"

record traffic_gap_input =
  tgi_router_id :: i64
  tgi_interface_id :: "i64 option"
  tgi_started_at_ms :: i64
  tgi_ended_at_ms :: i64
  tgi_reason :: string
  tgi_details :: "string option"

record sample_row =
  sm_id :: i64
  sm_router_id :: i64
  sm_interface_id :: i64
  sm_started_at_ms :: i64
  sm_ended_at_ms :: i64
  sm_duration_ms :: i64
  sm_download_bytes :: i64
  sm_upload_bytes :: i64
  sm_download_bps :: f64
  sm_upload_bps :: f64
  sm_quality :: string
  sm_source :: string

record rollup_row =
  ru_id :: i64
  ru_router_id :: i64
  ru_interface_id :: i64
  ru_bucket_start_ms :: i64
  ru_bucket_end_ms :: i64
  ru_bucket_size_ms :: i64
  ru_exact_download_bytes :: i64
  ru_exact_upload_bytes :: i64
  ru_estimated_download_bytes :: i64
  ru_estimated_upload_bytes :: i64
  ru_exact_duration_ms :: i64
  ru_estimated_duration_ms :: i64
  ru_sample_count :: i64
  ru_download_avg_bps :: f64
  ru_upload_avg_bps :: f64
  ru_source :: string

record gap_row =
  gp_id :: i64
  gp_router_id :: i64
  gp_interface_id :: "i64 option"
  gp_started_at_ms :: i64
  gp_ended_at_ms :: i64
  gp_reason :: string
  gp_details :: "string option"

record traffic_db =
  routers :: "router_record list"
  router_interfaces :: "router_interface_record list"
  traffic_samples :: "sample_row list"
  traffic_rollups :: "rollup_row list"
  counter_checkpoints :: "counter_checkpoint list"
  traffic_gaps :: "gap_row list"
  seq_routers :: i64
  seq_interfaces :: i64
  seq_samples :: i64
  seq_rollups :: i64
  seq_gaps :: i64

definition empty_db :: traffic_db where
  "empty_db = \<lparr>routers = [], router_interfaces = [], traffic_samples = [], traffic_rollups = [],
     counter_checkpoints = [], traffic_gaps = [], seq_routers = 0, seq_interfaces = 0,
     seq_samples = 0, seq_rollups = 0, seq_gaps = 0\<rparr>"

section \<open>Schema constraints\<close>

definition sample_key :: "sample_row \<Rightarrow> i64 \<times> i64 \<times> i64 \<times> string" where
  "sample_key s = (sm_router_id s, sm_interface_id s, sm_ended_at_ms s, sm_source s)"

definition sample_checks :: "sample_row \<Rightarrow> bool" where
  "sample_checks s \<longleftrightarrow> 0 < sm_duration_ms s \<and> 0 \<le> sm_download_bytes s \<and> 0 \<le> sm_upload_bytes s \<and>
     f64_le (Finite 0) (sm_download_bps s) \<and> f64_le (Finite 0) (sm_upload_bps s) \<and>
     (sm_quality s = ''exact'' \<or> sm_quality s = ''estimated'') \<and>
     sm_started_at_ms s < sm_ended_at_ms s"

definition rollup_key :: "rollup_row \<Rightarrow> i64 \<times> i64 \<times> i64 \<times> i64 \<times> string" where
  "rollup_key r = (ru_router_id r, ru_interface_id r, ru_bucket_size_ms r, ru_bucket_start_ms r,
     ru_source r)"

definition rollup_checks :: "rollup_row \<Rightarrow> bool" where
  "rollup_checks r \<longleftrightarrow> 0 < ru_bucket_size_ms r \<and>
     0 \<le> ru_exact_download_bytes r \<and> 0 \<le> ru_exact_upload_bytes r \<and>
     0 \<le> ru_estimated_download_bytes r \<and> 0 \<le> ru_estimated_upload_bytes r \<and>
     0 \<le> ru_exact_duration_ms r \<and> 0 \<le> ru_estimated_duration_ms r \<and> 0 < ru_sample_count r \<and>
     f64_le (Finite 0) (ru_download_avg_bps r) \<and> f64_le (Finite 0) (ru_upload_avg_bps r) \<and>
     ru_bucket_start_ms r < ru_bucket_end_ms r"

definition checkpoint_key :: "counter_checkpoint \<Rightarrow> i64 \<times> i64" where
  "checkpoint_key c = (cp_router_id c, cp_interface_id c)"

definition gap_key :: "gap_row \<Rightarrow> i64 \<times> i64 option \<times> i64 \<times> i64 \<times> string" where
  "gap_key g = (gp_router_id g, gp_interface_id g, gp_started_at_ms g, gp_ended_at_ms g, gp_reason g)"

text \<open>In a UNIQUE constraint two NULLs are distinct, so only gaps of an interface count.\<close>

definition gap_keys_unique :: "gap_row list \<Rightarrow> bool" where
  "gap_keys_unique gs \<longleftrightarrow> distinct (map gap_key (filter (\<lambda>g. gp_interface_id g \<noteq> None) gs))"

definition gap_checks :: "gap_row \<Rightarrow> bool" where
  "gap_checks g \<longleftrightarrow> gp_started_at_ms g < gp_ended_at_ms g"

definition router_checks :: "router_record \<Rightarrow> bool" where
  "router_checks r \<longleftrightarrow> rr_identity_source r \<in> {''hardware'', ''fallback'', ''legacy''}"

definition router_exists :: "traffic_db \<Rightarrow> i64 \<Rightarrow> bool" where
  "router_exists db r \<longleftrightarrow> r \<in> set (map rr_id (routers db))"

definition interface_exists :: "traffic_db \<Rightarrow> i64 \<Rightarrow> bool" where
  "interface_exists db i \<longleftrightarrow> i \<in> set (map ri_id (router_interfaces db))"

section \<open>Single-table statements\<close>

definition insert_sample_row :: "traffic_db \<Rightarrow> sample_row \<Rightarrow> traffic_db db_result" where
  "insert_sample_row db s =
     (let row = s\<lparr>sm_id := seq_samples db + 1\<rparr> in
      if sample_checks row \<and> router_exists db (sm_router_id row) \<and>
         interface_exists db (sm_interface_id row) \<and>
         sample_key row \<notin> set (map sample_key (traffic_samples db))
      then Inr (db\<lparr>traffic_samples := traffic_samples db @ [row], seq_samples := seq_samples db + 1\<rparr>)
      else Inl Sqlite)"

definition insert_gap_row :: "traffic_db \<Rightarrow> gap_row \<Rightarrow> traffic_db db_result" where
  "insert_gap_row db g =
     (let row = g\<lparr>gp_id := seq_gaps db + 1\<rparr> in
      if gap_checks row \<and> router_exists db (gp_router_id row) \<and>
         (case gp_interface_id row of None \<Rightarrow> True | Some i \<Rightarrow> interface_exists db i) \<and>
         gap_keys_unique (traffic_gaps db @ [row])
      then Inr (db\<lparr>traffic_gaps := traffic_gaps db @ [row], seq_gaps := seq_gaps db + 1\<rparr>)
      else Inl Sqlite)"

text \<open>\<open>INSERT INTO counter_checkpoints \<dots> ON CONFLICT DO UPDATE \<dots> WHERE excluded.observed_at_ms
  > counter_checkpoints.observed_at_ms\<close>, with the number of rows it changed.\<close>

definition upsert_checkpoint ::
  "traffic_db \<Rightarrow> counter_checkpoint \<Rightarrow> (nat \<times> traffic_db) db_result" where
  "upsert_checkpoint db c =
     (if \<not> (router_exists db (cp_router_id c) \<and> interface_exists db (cp_interface_id c))
      then Inl Sqlite
      else case find (\<lambda>o'. checkpoint_key o' = checkpoint_key c) (counter_checkpoints db) of
        None \<Rightarrow> Inr (1, db\<lparr>counter_checkpoints := counter_checkpoints db @ [c]\<rparr>)
      | Some old \<Rightarrow>
          if cp_observed_at_ms old < cp_observed_at_ms c
          then Inr (1, db\<lparr>counter_checkpoints :=
                 map (\<lambda>o'. if checkpoint_key o' = checkpoint_key c then c else o')
                   (counter_checkpoints db)\<rparr>)
          else Inr (0, db))"

text \<open>\<open>INSERT \<dots> ON CONFLICT(router_id, interface_id) DO NOTHING\<close>.\<close>

definition insert_checkpoint_or_ignore ::
  "traffic_db \<Rightarrow> counter_checkpoint \<Rightarrow> (nat \<times> traffic_db) db_result" where
  "insert_checkpoint_or_ignore db c =
     (if \<not> (router_exists db (cp_router_id c) \<and> interface_exists db (cp_interface_id c))
      then Inl Sqlite
      else if checkpoint_key c \<in> set (map checkpoint_key (counter_checkpoints db))
      then Inr (0, db)
      else Inr (1, db\<lparr>counter_checkpoints := counter_checkpoints db @ [c]\<rparr>))"

text \<open>A transaction: an error drops it, and the state is the one it began with.\<close>

definition transaction :: "traffic_db \<Rightarrow> ('a \<times> traffic_db) db_result \<Rightarrow> 'a db_result \<times> traffic_db" where
  "transaction db m = (case m of Inl e \<Rightarrow> (Inl e, db) | Inr (x, db') \<Rightarrow> (Inr x, db'))"

section \<open>Validation\<close>

definition validate_sample :: "traffic_sample_input \<Rightarrow> unit db_result" where
  "validate_sample s =
     (if tsi_ended_at_ms s \<le> tsi_started_at_ms s
       \<or> tsi_duration_ms s \<noteq> sat_sub (tsi_ended_at_ms s) (tsi_started_at_ms s)
       \<or> tsi_download_bytes s < 0
       \<or> tsi_upload_bytes s < 0
       \<or> \<not> is_finite (tsi_download_bps s)
       \<or> \<not> is_finite (tsi_upload_bps s)
       \<or> f64_less (tsi_download_bps s) (Finite 0)
       \<or> f64_less (tsi_upload_bps s) (Finite 0)
       \<or> trim (tsi_source s) = []
      then Inl (InvalidCommand
        ''traffic sample contains an invalid range, counter delta, rate, or source'')
      else Inr ())"

definition valid_counter :: "string \<Rightarrow> bool" where
  "valid_counter v \<longleftrightarrow> v \<noteq> [] \<and> list_all is_ascii_digit v"

definition validate_checkpoint :: "counter_checkpoint \<Rightarrow> unit db_result" where
  "validate_checkpoint c =
     (if \<not> valid_counter (cp_rx_counter c) \<or> \<not> valid_counter (cp_tx_counter c)
      then Inl (InvalidCommand ''counter checkpoints must be unsigned decimal strings'')
      else Inr ())"

definition validate_gap :: "traffic_gap_input \<Rightarrow> unit db_result" where
  "validate_gap g =
     (if tgi_ended_at_ms g \<le> tgi_started_at_ms g \<or> trim (tgi_reason g) = []
      then Inl (InvalidCommand ''traffic gap requires an increasing time range and a reason'')
      else Inr ())"

definition owns_interface :: "traffic_db \<Rightarrow> i64 \<Rightarrow> i64 \<Rightarrow> bool" where
  "owns_interface db r i \<longleftrightarrow>
     list_ex (\<lambda>x. ri_id x = i \<and> ri_router_id x = r) (router_interfaces db)"

definition ensure_interface_owner :: "traffic_db \<Rightarrow> i64 \<Rightarrow> i64 option \<Rightarrow> unit db_result" where
  "ensure_interface_owner db r i =
     (if router_exists db r \<and> (case i of None \<Rightarrow> True | Some i \<Rightarrow> owns_interface db r i)
      then Inr ()
      else Inl (InvalidCommand ''traffic record references an unknown router interface''))"

definition gap_details_for_connection :: "traffic_db \<Rightarrow> traffic_gap_input \<Rightarrow> string option" where
  "gap_details_for_connection db g =
     map_option (\<lambda>row. unwrap_or [] (gp_details row))
       (find (\<lambda>row. gap_key row = (tgi_router_id g, tgi_interface_id g, tgi_started_at_ms g,
                                   tgi_ended_at_ms g, tgi_reason g)) (traffic_gaps db))"

definition checkpoint_for_connection ::
  "traffic_db \<Rightarrow> i64 \<Rightarrow> i64 \<Rightarrow> counter_checkpoint option" where
  "checkpoint_for_connection db r i =
     find (\<lambda>c. cp_router_id c = r \<and> cp_interface_id c = i) (counter_checkpoints db)"

definition checkpoint_matches :: "counter_checkpoint \<Rightarrow> counter_checkpoint \<Rightarrow> bool" where
  "checkpoint_matches current candidate \<longleftrightarrow>
     cp_router_id current = cp_router_id candidate
     \<and> cp_interface_id current = cp_interface_id candidate
     \<and> cp_rx_counter current = cp_rx_counter candidate
     \<and> cp_tx_counter current = cp_tx_counter candidate
     \<and> cp_observed_at_ms current = cp_observed_at_ms candidate
     \<and> cp_reboot_marker current = cp_reboot_marker candidate"

section \<open>Committing samples, gaps and checkpoints\<close>

definition new_sample_row :: "traffic_sample_input \<Rightarrow> sample_row" where
  "new_sample_row s = \<lparr>sm_id = 0, sm_router_id = tsi_router_id s, sm_interface_id = tsi_interface_id s,
     sm_started_at_ms = tsi_started_at_ms s, sm_ended_at_ms = tsi_ended_at_ms s,
     sm_duration_ms = tsi_duration_ms s, sm_download_bytes = tsi_download_bytes s,
     sm_upload_bytes = tsi_upload_bytes s, sm_download_bps = tsi_download_bps s,
     sm_upload_bps = tsi_upload_bps s, sm_quality = quality_as_str (tsi_quality s),
     sm_source = tsi_source s\<rparr>"

definition find_sample :: "traffic_db \<Rightarrow> traffic_sample_input \<Rightarrow> sample_row option" where
  "find_sample db s =
     find (\<lambda>row. sample_key row = (tsi_router_id s, tsi_interface_id s, tsi_ended_at_ms s, tsi_source s))
       (traffic_samples db)"

definition sample_matches :: "sample_row \<Rightarrow> traffic_sample_input \<Rightarrow> bool" where
  "sample_matches existing s \<longleftrightarrow>
     sm_started_at_ms existing = tsi_started_at_ms s
     \<and> sm_duration_ms existing = tsi_duration_ms s
     \<and> sm_download_bytes existing = tsi_download_bytes s
     \<and> sm_upload_bytes existing = tsi_upload_bytes s
     \<and> f64_eq (sm_download_bps existing) (tsi_download_bps s)
     \<and> f64_eq (sm_upload_bps existing) (tsi_upload_bps s)
     \<and> sm_quality existing = quality_as_str (tsi_quality s)"

definition conflicts_with_checkpoint :: "counter_checkpoint \<Rightarrow> counter_checkpoint \<Rightarrow> bool" where
  "conflicts_with_checkpoint current c \<longleftrightarrow>
     cp_observed_at_ms current < cp_observed_at_ms c
     \<or> (cp_observed_at_ms current = cp_observed_at_ms c \<and> \<not> checkpoint_matches current c)"

text \<open>The part of \<open>commit_sample_and_checkpoint\<close> that runs inside the transaction.\<close>

definition commit_sample_tx ::
  "traffic_db \<Rightarrow> traffic_sample_input \<Rightarrow> counter_checkpoint \<Rightarrow> (bool \<times> traffic_db) db_result" where
  "commit_sample_tx db sample checkpoint =
     (if \<not> owns_interface db (tsi_router_id sample) (tsi_interface_id sample)
      then Inl (InvalidCommand ''interface does not belong to the specified router'')
      else case find_sample db sample of
        Some existing \<Rightarrow>
          if \<not> sample_matches existing sample
          then Inl (Verification ''duplicate traffic sample key contains different data'')
          else (case checkpoint_for_connection db (cp_router_id checkpoint) (cp_interface_id checkpoint) of
              None \<Rightarrow> Inl (Verification
                ''duplicate traffic sample exists without a counter checkpoint'')
            | Some current \<Rightarrow>
                if conflicts_with_checkpoint current checkpoint
                then Inl (Verification
                  ''duplicate traffic sample conflicts with its counter checkpoint'')
                else Inr (False, db))
      | None \<Rightarrow>
          if (case checkpoint_for_connection db (cp_router_id checkpoint) (cp_interface_id checkpoint) of
                None \<Rightarrow> False
              | Some current \<Rightarrow> cp_observed_at_ms checkpoint \<le> cp_observed_at_ms current)
          then Inl (Verification ''counter checkpoint must advance strictly with a new sample'')
          else and_then (insert_sample_row db (new_sample_row sample)) (\<lambda>db1.
               and_then (upsert_checkpoint db1 checkpoint) (\<lambda>(n, db2).
                 if n \<noteq> 1
                 then Inl (Verification
                   ''counter checkpoint did not advance with the inserted sample'')
                 else Inr (True, db2))))"

definition commit_sample_and_checkpoint ::
  "traffic_db \<Rightarrow> traffic_sample_input \<Rightarrow> counter_checkpoint \<Rightarrow> bool db_result \<times> traffic_db" where
  "commit_sample_and_checkpoint db sample checkpoint =
     transaction db
       (and_then (validate_sample sample) (\<lambda>_.
        and_then (validate_checkpoint checkpoint) (\<lambda>_.
          if tsi_router_id sample \<noteq> cp_router_id checkpoint
           \<or> tsi_interface_id sample \<noteq> cp_interface_id checkpoint
           \<or> tsi_ended_at_ms sample \<noteq> cp_observed_at_ms checkpoint
          then Inl (InvalidCommand
            ''sample and checkpoint must refer to the same router interface and observation'')
          else commit_sample_tx db sample checkpoint)))"

definition get_counter_checkpoint :: "traffic_db \<Rightarrow> i64 \<Rightarrow> i64 \<Rightarrow> counter_checkpoint option" where
  "get_counter_checkpoint db r i = checkpoint_for_connection db r i"

definition initialize_checkpoint_if_absent ::
  "traffic_db \<Rightarrow> counter_checkpoint \<Rightarrow> bool db_result \<times> traffic_db" where
  "initialize_checkpoint_if_absent db checkpoint =
     transaction db
       (and_then (validate_checkpoint checkpoint) (\<lambda>_.
        and_then (ensure_interface_owner db (cp_router_id checkpoint)
                    (Some (cp_interface_id checkpoint))) (\<lambda>_.
        and_then (insert_checkpoint_or_ignore db checkpoint) (\<lambda>(n, db').
          Inr (n = 1, db')))))"

definition new_gap_row :: "traffic_gap_input \<Rightarrow> gap_row" where
  "new_gap_row g = \<lparr>gp_id = 0, gp_router_id = tgi_router_id g, gp_interface_id = tgi_interface_id g,
     gp_started_at_ms = tgi_started_at_ms g, gp_ended_at_ms = tgi_ended_at_ms g,
     gp_reason = tgi_reason g, gp_details = tgi_details g\<rparr>"

definition commit_gap_tx ::
  "traffic_db \<Rightarrow> traffic_gap_input \<Rightarrow> counter_checkpoint \<Rightarrow> (bool \<times> traffic_db) db_result" where
  "commit_gap_tx db gap checkpoint =
     and_then (ensure_interface_owner db (tgi_router_id gap) (tgi_interface_id gap)) (\<lambda>_.
       case gap_details_for_connection db gap of
         Some details \<Rightarrow>
           if details \<noteq> unwrap_or [] (tgi_details gap)
           then Inl (Verification ''duplicate traffic gap key contains different details'')
           else (case checkpoint_for_connection db (cp_router_id checkpoint) (cp_interface_id checkpoint) of
               None \<Rightarrow> Inl (Verification ''traffic gap exists without its counter checkpoint'')
             | Some current \<Rightarrow>
                 if conflicts_with_checkpoint current checkpoint
                 then Inl (Verification ''traffic gap conflicts with its counter checkpoint'')
                 else Inr (False, db))
       | None \<Rightarrow>
           if (case checkpoint_for_connection db (cp_router_id checkpoint) (cp_interface_id checkpoint) of
                 None \<Rightarrow> False
               | Some current \<Rightarrow> cp_observed_at_ms checkpoint \<le> cp_observed_at_ms current)
           then Inl (Verification ''counter checkpoint must advance strictly with a new traffic gap'')
           else and_then (insert_gap_row db (new_gap_row gap)) (\<lambda>db1.
                and_then (upsert_checkpoint db1 checkpoint) (\<lambda>(n, db2).
                  if n \<noteq> 1
                  then Inl (Verification ''counter checkpoint did not advance with the inserted traffic gap'')
                  else Inr (True, db2))))"

definition commit_gap_and_checkpoint ::
  "traffic_db \<Rightarrow> traffic_gap_input \<Rightarrow> counter_checkpoint \<Rightarrow> bool db_result \<times> traffic_db" where
  "commit_gap_and_checkpoint db gap checkpoint =
     transaction db
       (and_then (validate_gap gap) (\<lambda>_.
        and_then (validate_checkpoint checkpoint) (\<lambda>_.
          if tgi_interface_id gap \<noteq> Some (cp_interface_id checkpoint)
           \<or> tgi_router_id gap \<noteq> cp_router_id checkpoint
           \<or> tgi_ended_at_ms gap \<noteq> cp_observed_at_ms checkpoint
          then Inl (InvalidCommand
            ''gap and checkpoint must refer to the same router interface and observation'')
          else commit_gap_tx db gap checkpoint)))"

section \<open>Routers and interfaces\<close>

definition interface_by_key :: "traffic_db \<Rightarrow> i64 \<Rightarrow> string \<Rightarrow> router_interface_record option" where
  "interface_by_key db r key =
     find (\<lambda>x. ri_router_id x = r \<and> ri_interface_key x = key) (router_interfaces db)"

definition upsert_interface_row ::
  "traffic_db \<Rightarrow> i64 \<Rightarrow> string \<Rightarrow> string \<Rightarrow> string \<Rightarrow> string option \<Rightarrow> i64 \<Rightarrow> traffic_db db_result" where
  "upsert_interface_row db r key name kind hardware_id observed =
     (case interface_by_key db r key of
        Some _ \<Rightarrow> Inr (db\<lparr>router_interfaces :=
          map (\<lambda>x. if ri_router_id x = r \<and> ri_interface_key x = key
                    then x\<lparr>ri_name := name, ri_kind := kind,
                           ri_hardware_id := (case hardware_id of None \<Rightarrow> ri_hardware_id x
                                              | Some h \<Rightarrow> Some h),
                           ri_last_seen_at_ms := observed\<rparr>
                    else x) (router_interfaces db)\<rparr>)
      | None \<Rightarrow>
          if router_exists db r
          then Inr (db\<lparr>router_interfaces := router_interfaces db @
                 [\<lparr>ri_id = seq_interfaces db + 1, ri_router_id = r, ri_interface_key = key,
                   ri_name = name, ri_kind = kind, ri_hardware_id = hardware_id,
                   ri_first_seen_at_ms = observed, ri_last_seen_at_ms = observed\<rparr>],
                 seq_interfaces := seq_interfaces db + 1\<rparr>)
          else Inl Sqlite)"

definition upsert_router_interface ::
  "traffic_db \<Rightarrow> i64 \<Rightarrow> string \<Rightarrow> string \<Rightarrow> string \<Rightarrow> string option \<Rightarrow> i64 \<Rightarrow>
   router_interface_record db_result \<times> traffic_db" where
  "upsert_router_interface db r key name kind hardware_id observed =
     (if trim key = [] \<or> trim name = [] \<or> trim kind = []
      then (Inl (InvalidCommand ''interface key, name, and kind must not be empty''), db)
      else case upsert_interface_row db r key name kind hardware_id observed of
        Inl e \<Rightarrow> (Inl e, db)
      | Inr db' \<Rightarrow>
          (ok_or (Verification ''upserted interface could not be reloaded'')
             (interface_by_key db' r key), db'))"

definition router_by_id :: "traffic_db \<Rightarrow> i64 \<Rightarrow> router_record option" where
  "router_by_id db r = find (\<lambda>x. rr_id x = r) (routers db)"

definition router_by_hardware_identity :: "traffic_db \<Rightarrow> string \<Rightarrow> router_record option" where
  "router_by_hardware_identity db identity =
     find (\<lambda>x. rr_hardware_identity x = Some identity) (routers db)"

definition router_by_fallback_only :: "traffic_db \<Rightarrow> string \<Rightarrow> router_record option" where
  "router_by_fallback_only db target =
     min_on rr_id (filter (\<lambda>x. rr_fallback_target x = target \<and> rr_hardware_identity x = None)
       (routers db))"

definition router_by_fallback_target :: "traffic_db \<Rightarrow> string \<Rightarrow> router_record option" where
  "router_by_fallback_target db target =
     max_on (\<lambda>x. (rr_last_seen_at_ms x, rr_id x))
       (filter (\<lambda>x. rr_fallback_target x = target) (routers db))"

definition current_router_for_target :: "traffic_db \<Rightarrow> string \<Rightarrow> router_record option db_result" where
  "current_router_for_target db target =
     (let target = trim target in
      if target = [] then Inl (InvalidCommand ''router fallback target must not be empty'')
      else case router_by_fallback_target db target of
        Some router \<Rightarrow> Inr (Some router)
      | None \<Rightarrow> Inr (max_on (\<lambda>x. (rr_last_seen_at_ms x, rr_id x))
          (filter (\<lambda>x. list_ex (\<lambda>s. sm_router_id s = rr_id x) (traffic_samples db)
                      \<or> list_ex (\<lambda>u. ru_router_id u = rr_id x) (traffic_rollups db))
            (routers db))))"

definition traffic_interface_for_query ::
  "traffic_db \<Rightarrow> i64 \<Rightarrow> string option \<Rightarrow> router_interface_record option" where
  "traffic_interface_for_query db r wan_name =
     (case wan_name of
        Some name \<Rightarrow> max_on (\<lambda>x. (ri_last_seen_at_ms x, ri_id x))
          (filter (\<lambda>x. ri_router_id x = r \<and> ri_name x = name \<and> ri_kind x \<noteq> ''aggregate'')
            (router_interfaces db))
      | None \<Rightarrow> max_on (\<lambda>x. (ri_interface_key x = ''__aggregate__'', ri_last_seen_at_ms x, ri_id x))
          (filter (\<lambda>x. ri_router_id x = r \<and> ri_kind x = ''aggregate'') (router_interfaces db)))"

definition router_wan_interfaces :: "traffic_db \<Rightarrow> i64 \<Rightarrow> router_interface_record list" where
  "router_wan_interfaces db r =
     sort_key (\<lambda>x. (to_lowercase (ri_name x), ri_interface_key x, ri_id x))
       (filter (\<lambda>x. ri_router_id x = r \<and> ri_kind x \<noteq> ''aggregate'') (router_interfaces db))"

end
