(* ===== verification/Router_Identity.thy ===== *)
theory Router_Identity
  imports Traffic_Store
begin

text \<open>
  Router identities (\<open>resolve_router\<close> and \<open>adopt_legacy_history\<close> of \<open>db/traffic_v4.rs\<close>): a
  router is found by its hardware identity, else by its management target; a record that
  was made before the hardware identity was known is upgraded in place; and the rows that
  the schema migration filed under the placeholder router are moved to the first router
  that is resolved.
\<close>

section \<open>Inserting and updating routers\<close>

definition insert_router ::
  "traffic_db \<Rightarrow> string \<Rightarrow> string option \<Rightarrow> string \<Rightarrow> string \<Rightarrow> i64 \<Rightarrow> (i64 \<times> traffic_db) db_result" where
  "insert_router db uuid hardware_identity target source observed =
     (let row = \<lparr>rr_id = seq_routers db + 1, rr_internal_uuid = uuid,
        rr_hardware_identity = hardware_identity, rr_fallback_target = target,
        rr_identity_source = source, rr_first_seen_at_ms = observed,
        rr_last_seen_at_ms = observed\<rparr> in
      if uuid \<in> set (map rr_internal_uuid (routers db)) \<or> \<not> router_checks row \<or>
         (hardware_identity \<noteq> None \<and> hardware_identity \<in> set (map rr_hardware_identity (routers db)))
      then Inl Sqlite
      else Inr (rr_id row, db\<lparr>routers := routers db @ [row], seq_routers := seq_routers db + 1\<rparr>))"

definition update_router ::
  "traffic_db \<Rightarrow> i64 \<Rightarrow> (router_record \<Rightarrow> router_record) \<Rightarrow> traffic_db" where
  "update_router db r f = db\<lparr>routers := map (\<lambda>x. if rr_id x = r then f x else x) (routers db)\<rparr>"

section \<open>Cascading deletes\<close>

definition delete_interface :: "traffic_db \<Rightarrow> i64 \<Rightarrow> traffic_db" where
  "delete_interface db i =
     db\<lparr>router_interfaces := filter (\<lambda>x. ri_id x \<noteq> i) (router_interfaces db),
        traffic_samples := filter (\<lambda>s. sm_interface_id s \<noteq> i) (traffic_samples db),
        traffic_rollups := filter (\<lambda>u. ru_interface_id u \<noteq> i) (traffic_rollups db),
        counter_checkpoints := filter (\<lambda>c. cp_interface_id c \<noteq> i) (counter_checkpoints db),
        traffic_gaps := filter (\<lambda>g. gp_interface_id g \<noteq> Some i) (traffic_gaps db)\<rparr>"

definition delete_router :: "traffic_db \<Rightarrow> i64 \<Rightarrow> traffic_db" where
  "delete_router db r =
     (let gone = map ri_id (filter (\<lambda>x. ri_router_id x = r) (router_interfaces db)) in
      db\<lparr>routers := filter (\<lambda>x. rr_id x \<noteq> r) (routers db),
         router_interfaces := filter (\<lambda>x. ri_router_id x \<noteq> r) (router_interfaces db),
         traffic_samples := filter (\<lambda>s. sm_router_id s \<noteq> r \<and> sm_interface_id s \<notin> set gone)
           (traffic_samples db),
         traffic_rollups := filter (\<lambda>u. ru_router_id u \<noteq> r \<and> ru_interface_id u \<notin> set gone)
           (traffic_rollups db),
         counter_checkpoints := filter (\<lambda>c. cp_router_id c \<noteq> r \<and> cp_interface_id c \<notin> set gone)
           (counter_checkpoints db),
         traffic_gaps := filter (\<lambda>g. gp_router_id g \<noteq> r \<and>
             (case gp_interface_id g of None \<Rightarrow> True | Some i \<Rightarrow> i \<notin> set gone))
           (traffic_gaps db)\<rparr>)"

section \<open>Adopting the history of the placeholder router\<close>

text \<open>The three \<open>UPDATE \<dots> SET router_id, interface_id\<close> statements over the sample, rollup and gap
  tables, each with the UNIQUE constraint of its table.\<close>

definition move_history ::
  "traffic_db \<Rightarrow> i64 \<Rightarrow> i64 \<Rightarrow> i64 \<Rightarrow> i64 \<Rightarrow> traffic_db db_result" where
  "move_history db target target_iface legacy legacy_iface =
     (let samples = map (\<lambda>s. if sm_router_id s = legacy \<and> sm_interface_id s = legacy_iface
            then s\<lparr>sm_router_id := target, sm_interface_id := target_iface\<rparr> else s)
            (traffic_samples db);
          rollups = map (\<lambda>u. if ru_router_id u = legacy \<and> ru_interface_id u = legacy_iface
            then u\<lparr>ru_router_id := target, ru_interface_id := target_iface\<rparr> else u)
            (traffic_rollups db);
          gaps = map (\<lambda>g. if gp_router_id g = legacy \<and> gp_interface_id g = Some legacy_iface
            then g\<lparr>gp_router_id := target, gp_interface_id := Some target_iface\<rparr> else g)
            (traffic_gaps db) in
      if distinct (map sample_key samples) \<and> distinct (map rollup_key rollups) \<and> gap_keys_unique gaps
      then Inr (db\<lparr>traffic_samples := samples, traffic_rollups := rollups, traffic_gaps := gaps\<rparr>)
      else Inl Sqlite)"

definition move_checkpoints :: "traffic_db \<Rightarrow> i64 \<Rightarrow> i64 \<Rightarrow> i64 \<Rightarrow> traffic_db db_result" where
  "move_checkpoints db target legacy legacy_iface =
     (let cps = map (\<lambda>c. if cp_router_id c = legacy \<and> cp_interface_id c = legacy_iface
            then c\<lparr>cp_router_id := target\<rparr> else c) (counter_checkpoints db) in
      if distinct (map checkpoint_key cps)
      then Inr (db\<lparr>counter_checkpoints := cps\<rparr>) else Inl Sqlite)"

definition adopt_interface ::
  "i64 \<Rightarrow> i64 \<Rightarrow> i64 \<Rightarrow> traffic_db \<Rightarrow> i64 \<times> string \<Rightarrow> traffic_db db_result" where
  "adopt_interface target legacy observed db iface =
     (case iface of (legacy_iface, key) \<Rightarrow>
        case interface_by_key db target key of
          Some t \<Rightarrow>
            and_then (move_history db target (ri_id t) legacy legacy_iface) (\<lambda>db1.
              let db2 = db1\<lparr>counter_checkpoints := filter
                    (\<lambda>c. \<not> (cp_router_id c = legacy \<and> cp_interface_id c = legacy_iface))
                    (counter_checkpoints db1)\<rparr>
              in Inr (delete_interface db2 legacy_iface))
        | None \<Rightarrow>
            let db1 = db\<lparr>router_interfaces := map
                  (\<lambda>x. if ri_id x = legacy_iface
                        then x\<lparr>ri_router_id := target,
                               ri_last_seen_at_ms := max (ri_last_seen_at_ms x) observed\<rparr>
                        else x) (router_interfaces db)\<rparr>
            in and_then (move_history db1 target legacy_iface legacy legacy_iface)
                 (\<lambda>db2. move_checkpoints db2 target legacy legacy_iface))"

fun fold_result :: "('s \<Rightarrow> 'a \<Rightarrow> 's db_result) \<Rightarrow> 's \<Rightarrow> 'a list \<Rightarrow> 's db_result" where
  "fold_result f s [] = Inr s"
| "fold_result f s (x # xs) = and_then (f s x) (\<lambda>s'. fold_result f s' xs)"

definition adopt_router :: "i64 \<Rightarrow> i64 \<Rightarrow> traffic_db \<Rightarrow> i64 \<Rightarrow> traffic_db db_result" where
  "adopt_router target observed db legacy =
     and_then (fold_result (adopt_interface target legacy observed) db
        (map (\<lambda>x. (ri_id x, ri_interface_key x))
          (sort_key ri_id (filter (\<lambda>x. ri_router_id x = legacy) (router_interfaces db)))))
       (\<lambda>db1.
         let db2 = db1\<lparr>traffic_gaps := map
               (\<lambda>g. if gp_router_id g = legacy \<and> gp_interface_id g = None
                     then g\<lparr>gp_router_id := target\<rparr> else g) (traffic_gaps db1)\<rparr>;
             legacy_first = map_option rr_first_seen_at_ms (router_by_id db2 legacy);
             db3 = update_router db2 target (\<lambda>x.
               x\<lparr>rr_first_seen_at_ms := min (rr_first_seen_at_ms x)
                    (unwrap_or (rr_first_seen_at_ms x) legacy_first),
                 rr_last_seen_at_ms := max (rr_last_seen_at_ms x) observed\<rparr>)
         in Inr (delete_router db3 legacy))"

definition adopt_legacy_history :: "traffic_db \<Rightarrow> i64 \<Rightarrow> i64 \<Rightarrow> traffic_db db_result" where
  "adopt_legacy_history db target observed =
     fold_result (adopt_router target observed) db
       (sort (map rr_id (filter (\<lambda>x. rr_fallback_target x = ''legacy://unidentified'' \<and> rr_id x \<noteq> target)
         (routers db))))"

section \<open>Resolving a router\<close>

text \<open>\<open>.map(str::trim).filter(|v| !v.is_empty())\<close>.\<close>

definition non_blank :: "string option \<Rightarrow> string option" where
  "non_blank v = (case v of None \<Rightarrow> None | Some s \<Rightarrow> if trim s = [] then None else Some (trim s))"

definition resolve_router_id ::
  "traffic_db \<Rightarrow> string \<Rightarrow> string option \<Rightarrow> string \<Rightarrow> i64 \<Rightarrow> (i64 \<times> traffic_db) db_result" where
  "resolve_router_id db uuid identity target observed =
     (case (case identity of
              Some h \<Rightarrow> router_by_hardware_identity db h
            | None \<Rightarrow> router_by_fallback_target db target) of
        Some router \<Rightarrow>
          Inr (rr_id router, update_router db (rr_id router)
            (\<lambda>x. x\<lparr>rr_fallback_target := target, rr_last_seen_at_ms := observed\<rparr>))
      | None \<Rightarrow>
          (case identity of
             Some h \<Rightarrow>
               (case router_by_fallback_only db target of
                  Some router \<Rightarrow> Inr (rr_id router, update_router db (rr_id router)
                    (\<lambda>x. x\<lparr>rr_hardware_identity := Some h, rr_identity_source := ''hardware'',
                           rr_last_seen_at_ms := observed\<rparr>))
                | None \<Rightarrow> insert_router db uuid (Some h) target ''hardware'' observed)
           | None \<Rightarrow> insert_router db uuid None target ''fallback'' observed))"

definition resolve_router ::
  "traffic_db \<Rightarrow> string \<Rightarrow> string option \<Rightarrow> string \<Rightarrow> i64 \<Rightarrow> router_record db_result \<times> traffic_db" where
  "resolve_router db uuid hardware_identity fallback_target observed =
     (let target = trim fallback_target in
      if target = [] then (Inl (InvalidCommand ''router fallback target must not be empty''), db)
      else transaction db
        (and_then (resolve_router_id db uuid (non_blank hardware_identity) target observed)
          (\<lambda>(id, db1).
           and_then (adopt_legacy_history db1 id observed) (\<lambda>db2.
           and_then (ok_or (Verification ''resolved router disappeared before commit'')
                       (router_by_id db2 id)) (\<lambda>router. Inr (router, db2))))))"

end
