(* ===== verification/Contracts.thy ===== *)
theory Contracts
  imports Prelude
begin

text \<open>
  The contracts the components share.  A component is a state with operations that keep its
  invariant; some facts about it, once true, stay true; and the operations of a store change
  nothing when they fail.
\<close>

section \<open>Operations that keep an invariant\<close>

locale transition_system =
  fixes inv :: "'s \<Rightarrow> bool"
    and step :: "'a \<Rightarrow> 's \<Rightarrow> 's"
  assumes keeps_inv: "inv s \<Longrightarrow> inv (step a s)"
begin

lemma runs: "inv s \<Longrightarrow> inv (fold step as s)"
  by (induction as arbitrary: s) (auto intro: keeps_inv)

end

section \<open>Facts that stay true\<close>

text \<open>\<open>allowed\<close> restricts the operations the fact is stable under.\<close>

locale stable_fact = transition_system +
  fixes fact :: "'s \<Rightarrow> bool"
    and allowed :: "'a \<Rightarrow> bool"
  assumes stays: "inv s \<Longrightarrow> fact s \<Longrightarrow> allowed a \<Longrightarrow> fact (step a s)"
begin

lemma stays_forever: "inv s \<Longrightarrow> fact s \<Longrightarrow> list_all allowed as \<Longrightarrow> fact (fold step as s)"
  by (induction as arbitrary: s) (auto intro: keeps_inv stays)

end

section \<open>Atomic operations\<close>

text \<open>An error means no change, and the invariant survives the call whatever its outcome.\<close>

locale atomic_operation =
  fixes inv :: "'s \<Rightarrow> bool"
    and run :: "'a \<Rightarrow> 's \<Rightarrow> ('e + 'r) \<times> 's"
  assumes atomic: "run a s = (Inl e, s') \<Longrightarrow> s' = s"
    and keeps: "inv s \<Longrightarrow> run a s = (Inr r, s') \<Longrightarrow> inv s'"
begin

lemma preserves: "inv s \<Longrightarrow> inv (snd (run a s))"
  by (metis atomic keeps old.sum.exhaust prod.collapse)

lemma changed_only_on_success: "snd (run a s) \<noteq> s \<Longrightarrow> \<exists>r. fst (run a s) = Inr r"
  by (metis atomic old.sum.exhaust prod.collapse)

end

sublocale atomic_operation \<subseteq> calls: transition_system inv "\<lambda>a s. snd (run a s)"
  by unfold_locales (rule preserves)

end
