(* ===== verification/Traffic_Integrity.thy ===== *)
theory Traffic_Integrity
  imports Router_Identity Contracts
begin

text \<open>
  The integrity of the traffic store: what the schema declares (keys, CHECKs, foreign
  keys) holds of every database the operations reach, an operation that fails changes
  nothing, and an operation that was validated never trips over a constraint.
\<close>

section \<open>Well-formed databases\<close>

definition wf_routers :: "traffic_db \<Rightarrow> bool" where
  "wf_routers db \<longleftrightarrow> distinct (map rr_id (routers db)) \<and> (\<forall>x \<in> set (routers db). rr_id x \<le> seq_routers db)"

definition wf_interfaces :: "traffic_db \<Rightarrow> bool" where
  "wf_interfaces db \<longleftrightarrow>
     distinct (map ri_id (router_interfaces db)) \<and>
     (\<forall>x \<in> set (router_interfaces db). ri_id x \<le> seq_interfaces db \<and> router_exists db (ri_router_id x))"

definition wf_samples :: "traffic_db \<Rightarrow> bool" where
  "wf_samples db \<longleftrightarrow>
     distinct (map sample_key (traffic_samples db)) \<and>
     (\<forall>s \<in> set (traffic_samples db). sample_checks s \<and> router_exists db (sm_router_id s) \<and>
        interface_exists db (sm_interface_id s))"

definition wf_rollups :: "traffic_db \<Rightarrow> bool" where
  "wf_rollups db \<longleftrightarrow>
     distinct (map rollup_key (traffic_rollups db)) \<and>
     (\<forall>u \<in> set (traffic_rollups db). rollup_checks u \<and> router_exists db (ru_router_id u) \<and>
        interface_exists db (ru_interface_id u))"

definition wf_checkpoints :: "traffic_db \<Rightarrow> bool" where
  "wf_checkpoints db \<longleftrightarrow>
     distinct (map checkpoint_key (counter_checkpoints db)) \<and>
     (\<forall>c \<in> set (counter_checkpoints db). router_exists db (cp_router_id c) \<and>
        interface_exists db (cp_interface_id c))"

definition gap_fk :: "traffic_db \<Rightarrow> gap_row \<Rightarrow> bool" where
  "gap_fk db g \<longleftrightarrow> router_exists db (gp_router_id g) \<and>
     (case gp_interface_id g of None \<Rightarrow> True | Some i \<Rightarrow> interface_exists db i)"

definition wf_gaps :: "traffic_db \<Rightarrow> bool" where
  "wf_gaps db \<longleftrightarrow> gap_keys_unique (traffic_gaps db) \<and>
     (\<forall>g \<in> set (traffic_gaps db). gap_checks g \<and> gap_fk db g)"

definition db_wf :: "traffic_db \<Rightarrow> bool" where
  "db_wf db \<longleftrightarrow> wf_routers db \<and> wf_interfaces db \<and> wf_samples db \<and> wf_rollups db \<and>
     wf_checkpoints db \<and> wf_gaps db"

lemmas wf_defs = wf_routers_def wf_interfaces_def wf_samples_def wf_rollups_def
  wf_checkpoints_def wf_gaps_def gap_fk_def

lemma db_wf_empty [simp]: "db_wf empty_db"
  by (simp add: db_wf_def wf_defs empty_db_def gap_keys_unique_def)

lemma transaction_Inl [simp]: "transaction db m = (Inl e, db') \<longleftrightarrow> m = Inl e \<and> db' = db"
  by (auto simp: transaction_def split: sum.splits prod.splits)

lemma transaction_Inr [simp]: "transaction db m = (Inr x, db') \<longleftrightarrow> m = Inr (x, db')"
  by (auto simp: transaction_def split: sum.splits prod.splits)

section \<open>Frames\<close>

text \<open>A component of the invariant only depends on its own table and on the rows it refers to.\<close>

lemma router_exists_frame [simp]:
  "router_exists (db\<lparr>router_interfaces := is\<rparr>) = router_exists db"
  "router_exists (db\<lparr>traffic_samples := ss\<rparr>) = router_exists db"
  "router_exists (db\<lparr>traffic_rollups := us\<rparr>) = router_exists db"
  "router_exists (db\<lparr>counter_checkpoints := cs\<rparr>) = router_exists db"
  "router_exists (db\<lparr>traffic_gaps := gs\<rparr>) = router_exists db"
  "router_exists (db\<lparr>seq_routers := m\<rparr>) = router_exists db"
  "router_exists (db\<lparr>seq_interfaces := m\<rparr>) = router_exists db"
  "router_exists (db\<lparr>seq_samples := m\<rparr>) = router_exists db"
  "router_exists (db\<lparr>seq_rollups := m\<rparr>) = router_exists db"
  "router_exists (db\<lparr>seq_gaps := m\<rparr>) = router_exists db"
  by (simp_all add: router_exists_def fun_eq_iff)

lemma interface_exists_frame [simp]:
  "interface_exists (db\<lparr>routers := rs\<rparr>) = interface_exists db"
  "interface_exists (db\<lparr>traffic_samples := ss\<rparr>) = interface_exists db"
  "interface_exists (db\<lparr>traffic_rollups := us\<rparr>) = interface_exists db"
  "interface_exists (db\<lparr>counter_checkpoints := cs\<rparr>) = interface_exists db"
  "interface_exists (db\<lparr>traffic_gaps := gs\<rparr>) = interface_exists db"
  "interface_exists (db\<lparr>seq_routers := m\<rparr>) = interface_exists db"
  "interface_exists (db\<lparr>seq_interfaces := m\<rparr>) = interface_exists db"
  "interface_exists (db\<lparr>seq_samples := m\<rparr>) = interface_exists db"
  "interface_exists (db\<lparr>seq_rollups := m\<rparr>) = interface_exists db"
  "interface_exists (db\<lparr>seq_gaps := m\<rparr>) = interface_exists db"
  by (simp_all add: interface_exists_def fun_eq_iff)

lemma wf_routers_frame [simp]:
  "wf_routers (db\<lparr>router_interfaces := is\<rparr>) = wf_routers db"
  "wf_routers (db\<lparr>traffic_samples := ss\<rparr>) = wf_routers db"
  "wf_routers (db\<lparr>traffic_rollups := us\<rparr>) = wf_routers db"
  "wf_routers (db\<lparr>counter_checkpoints := cs\<rparr>) = wf_routers db"
  "wf_routers (db\<lparr>traffic_gaps := gs\<rparr>) = wf_routers db"
  "wf_routers (db\<lparr>seq_interfaces := m\<rparr>) = wf_routers db"
  "wf_routers (db\<lparr>seq_samples := m\<rparr>) = wf_routers db"
  "wf_routers (db\<lparr>seq_rollups := m\<rparr>) = wf_routers db"
  "wf_routers (db\<lparr>seq_gaps := m\<rparr>) = wf_routers db"
  by (simp_all add: wf_routers_def)

lemma wf_interfaces_frame [simp]:
  "wf_interfaces (db\<lparr>traffic_samples := ss\<rparr>) = wf_interfaces db"
  "wf_interfaces (db\<lparr>traffic_rollups := us\<rparr>) = wf_interfaces db"
  "wf_interfaces (db\<lparr>counter_checkpoints := cs\<rparr>) = wf_interfaces db"
  "wf_interfaces (db\<lparr>traffic_gaps := gs\<rparr>) = wf_interfaces db"
  "wf_interfaces (db\<lparr>seq_routers := m\<rparr>) = wf_interfaces db"
  "wf_interfaces (db\<lparr>seq_samples := m\<rparr>) = wf_interfaces db"
  "wf_interfaces (db\<lparr>seq_rollups := m\<rparr>) = wf_interfaces db"
  "wf_interfaces (db\<lparr>seq_gaps := m\<rparr>) = wf_interfaces db"
  by (simp_all add: wf_interfaces_def)

lemma wf_samples_frame [simp]:
  "wf_samples (db\<lparr>traffic_rollups := us\<rparr>) = wf_samples db"
  "wf_samples (db\<lparr>counter_checkpoints := cs\<rparr>) = wf_samples db"
  "wf_samples (db\<lparr>traffic_gaps := gs\<rparr>) = wf_samples db"
  "wf_samples (db\<lparr>seq_routers := m\<rparr>) = wf_samples db"
  "wf_samples (db\<lparr>seq_interfaces := m\<rparr>) = wf_samples db"
  "wf_samples (db\<lparr>seq_samples := m\<rparr>) = wf_samples db"
  "wf_samples (db\<lparr>seq_rollups := m\<rparr>) = wf_samples db"
  "wf_samples (db\<lparr>seq_gaps := m\<rparr>) = wf_samples db"
  by (simp_all add: wf_samples_def)

lemma wf_rollups_frame [simp]:
  "wf_rollups (db\<lparr>traffic_samples := ss\<rparr>) = wf_rollups db"
  "wf_rollups (db\<lparr>counter_checkpoints := cs\<rparr>) = wf_rollups db"
  "wf_rollups (db\<lparr>traffic_gaps := gs\<rparr>) = wf_rollups db"
  "wf_rollups (db\<lparr>seq_routers := m\<rparr>) = wf_rollups db"
  "wf_rollups (db\<lparr>seq_interfaces := m\<rparr>) = wf_rollups db"
  "wf_rollups (db\<lparr>seq_samples := m\<rparr>) = wf_rollups db"
  "wf_rollups (db\<lparr>seq_rollups := m\<rparr>) = wf_rollups db"
  "wf_rollups (db\<lparr>seq_gaps := m\<rparr>) = wf_rollups db"
  by (simp_all add: wf_rollups_def)

lemma wf_checkpoints_frame [simp]:
  "wf_checkpoints (db\<lparr>traffic_samples := ss\<rparr>) = wf_checkpoints db"
  "wf_checkpoints (db\<lparr>traffic_rollups := us\<rparr>) = wf_checkpoints db"
  "wf_checkpoints (db\<lparr>traffic_gaps := gs\<rparr>) = wf_checkpoints db"
  "wf_checkpoints (db\<lparr>seq_routers := m\<rparr>) = wf_checkpoints db"
  "wf_checkpoints (db\<lparr>seq_interfaces := m\<rparr>) = wf_checkpoints db"
  "wf_checkpoints (db\<lparr>seq_samples := m\<rparr>) = wf_checkpoints db"
  "wf_checkpoints (db\<lparr>seq_rollups := m\<rparr>) = wf_checkpoints db"
  "wf_checkpoints (db\<lparr>seq_gaps := m\<rparr>) = wf_checkpoints db"
  by (simp_all add: wf_checkpoints_def)

lemma gap_fk_frame [simp]:
  "gap_fk (db\<lparr>traffic_samples := ss\<rparr>) = gap_fk db"
  "gap_fk (db\<lparr>traffic_rollups := us\<rparr>) = gap_fk db"
  "gap_fk (db\<lparr>counter_checkpoints := cs\<rparr>) = gap_fk db"
  "gap_fk (db\<lparr>traffic_gaps := gs\<rparr>) = gap_fk db"
  "gap_fk (db\<lparr>seq_routers := m\<rparr>) = gap_fk db"
  "gap_fk (db\<lparr>seq_interfaces := m\<rparr>) = gap_fk db"
  "gap_fk (db\<lparr>seq_samples := m\<rparr>) = gap_fk db"
  "gap_fk (db\<lparr>seq_rollups := m\<rparr>) = gap_fk db"
  "gap_fk (db\<lparr>seq_gaps := m\<rparr>) = gap_fk db"
  by (simp_all add: gap_fk_def fun_eq_iff split: option.splits)

lemma wf_gaps_frame [simp]:
  "wf_gaps (db\<lparr>traffic_samples := ss\<rparr>) = wf_gaps db"
  "wf_gaps (db\<lparr>traffic_rollups := us\<rparr>) = wf_gaps db"
  "wf_gaps (db\<lparr>counter_checkpoints := cs\<rparr>) = wf_gaps db"
  "wf_gaps (db\<lparr>seq_routers := m\<rparr>) = wf_gaps db"
  "wf_gaps (db\<lparr>seq_interfaces := m\<rparr>) = wf_gaps db"
  "wf_gaps (db\<lparr>seq_samples := m\<rparr>) = wf_gaps db"
  "wf_gaps (db\<lparr>seq_rollups := m\<rparr>) = wf_gaps db"
  "wf_gaps (db\<lparr>seq_gaps := m\<rparr>) = wf_gaps db"
  by (simp_all add: wf_gaps_def)

lemma wf_samples_snoc [simp]:
  "wf_samples (db\<lparr>traffic_samples := traffic_samples db @ [row]\<rparr>) \<longleftrightarrow>
     wf_samples db \<and> sample_checks row \<and> router_exists db (sm_router_id row) \<and>
     interface_exists db (sm_interface_id row) \<and>
     sample_key row \<notin> sample_key ` set (traffic_samples db)"
  by (auto simp: wf_samples_def)

lemma wf_gaps_snoc [simp]:
  "wf_gaps (db\<lparr>traffic_gaps := traffic_gaps db @ [row]\<rparr>) \<longleftrightarrow>
     wf_gaps db \<and> gap_keys_unique (traffic_gaps db @ [row]) \<and> gap_checks row \<and> gap_fk db row"
  by (auto simp: wf_gaps_def gap_keys_unique_def)

lemma wf_checkpoints_snoc [simp]:
  "wf_checkpoints (db\<lparr>counter_checkpoints := counter_checkpoints db @ [c]\<rparr>) \<longleftrightarrow>
     wf_checkpoints db \<and> router_exists db (cp_router_id c) \<and>
     interface_exists db (cp_interface_id c) \<and>
     checkpoint_key c \<notin> checkpoint_key ` set (counter_checkpoints db)"
  by (auto simp: wf_checkpoints_def)

lemma map_key_replace: "map f (map (\<lambda>y. if f y = f c then c else y) xs) = map f xs"
  by simp

lemma wf_checkpoints_replace:
  "wf_checkpoints db \<Longrightarrow> router_exists db (cp_router_id c) \<Longrightarrow> interface_exists db (cp_interface_id c) \<Longrightarrow>
   wf_checkpoints (db\<lparr>counter_checkpoints :=
     map (\<lambda>y. if checkpoint_key y = checkpoint_key c then c else y) (counter_checkpoints db)\<rparr>)"
  unfolding wf_checkpoints_def by (auto simp: map_key_replace simp del: map_map)

section \<open>Row-level statements\<close>

lemma insert_sample_row_Inr_iff:
  "insert_sample_row db s = Inr db' \<longleftrightarrow>
     (let row = s\<lparr>sm_id := seq_samples db + 1\<rparr> in
      sample_checks row \<and> router_exists db (sm_router_id row) \<and>
      interface_exists db (sm_interface_id row) \<and>
      sample_key row \<notin> sample_key ` set (traffic_samples db) \<and>
      db' = db\<lparr>traffic_samples := traffic_samples db @ [row], seq_samples := seq_samples db + 1\<rparr>)"
  by (auto simp: insert_sample_row_def Let_def)

lemma insert_sample_row_wf: "db_wf db \<Longrightarrow> insert_sample_row db s = Inr db' \<Longrightarrow> db_wf db'"
  by (auto simp: insert_sample_row_Inr_iff Let_def db_wf_def)

lemma insert_gap_row_Inr_iff:
  "insert_gap_row db g = Inr db' \<longleftrightarrow>
     (let row = g\<lparr>gp_id := seq_gaps db + 1\<rparr> in
      gap_checks row \<and> gap_fk db row \<and> gap_keys_unique (traffic_gaps db @ [row]) \<and>
      db' = db\<lparr>traffic_gaps := traffic_gaps db @ [row], seq_gaps := seq_gaps db + 1\<rparr>)"
  by (auto simp: insert_gap_row_def Let_def gap_fk_def)

lemma insert_gap_row_wf: "db_wf db \<Longrightarrow> insert_gap_row db g = Inr db' \<Longrightarrow> db_wf db'"
  by (auto simp: insert_gap_row_Inr_iff Let_def db_wf_def)

lemma find_None_iff_key: "find (\<lambda>y. f y = k) xs = None \<longleftrightarrow> k \<notin> f ` set xs"
  by (auto simp: find_None_iff)

lemma find_SomeD: "find P xs = Some x \<Longrightarrow> x \<in> set xs \<and> P x"
  by (auto simp: find_Some_iff)

lemma upsert_checkpoint_Inr_iff:
  "upsert_checkpoint db c = Inr (n, db') \<longleftrightarrow>
     router_exists db (cp_router_id c) \<and> interface_exists db (cp_interface_id c) \<and>
     (case find (\<lambda>y. checkpoint_key y = checkpoint_key c) (counter_checkpoints db) of
        None \<Rightarrow> n = 1 \<and> db' = db\<lparr>counter_checkpoints := counter_checkpoints db @ [c]\<rparr>
      | Some old \<Rightarrow>
          if cp_observed_at_ms old < cp_observed_at_ms c
          then n = 1 \<and> db' = db\<lparr>counter_checkpoints :=
            map (\<lambda>y. if checkpoint_key y = checkpoint_key c then c else y) (counter_checkpoints db)\<rparr>
          else n = 0 \<and> db' = db)"
  by (auto simp: upsert_checkpoint_def split: option.splits)

lemma upsert_checkpoint_wf: "db_wf db \<Longrightarrow> upsert_checkpoint db c = Inr (n, db') \<Longrightarrow> db_wf db'"
  by (auto simp: upsert_checkpoint_Inr_iff db_wf_def wf_checkpoints_replace find_None_iff_key
      split: option.splits if_splits)

section \<open>What a committed checkpoint looks like\<close>

definition put_checkpoint :: "traffic_db \<Rightarrow> counter_checkpoint \<Rightarrow> traffic_db" where
  "put_checkpoint db c = db\<lparr>counter_checkpoints :=
     (if checkpoint_key c \<in> set (map checkpoint_key (counter_checkpoints db))
      then map (\<lambda>y. if checkpoint_key y = checkpoint_key c then c else y) (counter_checkpoints db)
      else counter_checkpoints db @ [c])\<rparr>"

lemma put_checkpoint_fields [simp]:
  "routers (put_checkpoint db c) = routers db"
  "router_interfaces (put_checkpoint db c) = router_interfaces db"
  "traffic_samples (put_checkpoint db c) = traffic_samples db"
  "traffic_rollups (put_checkpoint db c) = traffic_rollups db"
  "traffic_gaps (put_checkpoint db c) = traffic_gaps db"
  by (simp_all add: put_checkpoint_def)

lemma find_replace:
  "find (\<lambda>y. f y = k) (map (\<lambda>y. if f y = f c then c else y) xs) =
     (if k = f c \<and> k \<in> f ` set xs then Some c else find (\<lambda>y. f y = k) xs)"
  by (induction xs) auto

lemma find_snoc: "find P (xs @ [x]) = (case find P xs of None \<Rightarrow> if P x then Some x else None
  | Some y \<Rightarrow> Some y)"
  by (induction xs) auto

lemma checkpoint_for_key:
  "checkpoint_for_connection db r i = find (\<lambda>y. checkpoint_key y = (r, i)) (counter_checkpoints db)"
  by (simp add: checkpoint_for_connection_def checkpoint_key_def)

lemma checkpoint_for_put:
  "checkpoint_for_connection (put_checkpoint db c) r i =
     (if checkpoint_key c = (r, i) then Some c else checkpoint_for_connection db r i)"
proof (cases "checkpoint_key c \<in> checkpoint_key ` set (counter_checkpoints db)")
  case True
  then show ?thesis
    by (auto simp: checkpoint_for_key put_checkpoint_def find_replace)
next
  case False
  then have "find (\<lambda>y. checkpoint_key y = checkpoint_key c) (counter_checkpoints db) = None"
    by (simp add: find_None_iff_key)
  then show ?thesis
    using False by (auto simp: checkpoint_for_key put_checkpoint_def find_snoc split: option.splits)
qed

lemma find_key_Some_image: "find (\<lambda>y. f y = k) xs = Some x \<Longrightarrow> k \<in> f ` set xs"
  by (auto dest: find_SomeD)

lemma upsert_checkpoint_put:
  assumes "upsert_checkpoint db c = Inr (1, db')"
  shows "db' = put_checkpoint db c"
proof (cases "find (\<lambda>y. checkpoint_key y = checkpoint_key c) (counter_checkpoints db)")
  case None
  then have "checkpoint_key c \<notin> checkpoint_key ` set (counter_checkpoints db)"
    by (simp add: find_None_iff_key)
  then show ?thesis using assms None by (simp add: upsert_checkpoint_Inr_iff put_checkpoint_def)
next
  case (Some old)
  then have "checkpoint_key c \<in> checkpoint_key ` set (counter_checkpoints db)"
    by (rule find_key_Some_image)
  then show ?thesis
    using assms Some by (simp add: upsert_checkpoint_Inr_iff put_checkpoint_def split: if_splits)
qed

lemma upsert_checkpoint_advances:
  assumes "router_exists db (cp_router_id c)" and "interface_exists db (cp_interface_id c)"
    and "\<And>old. checkpoint_for_connection db (cp_router_id c) (cp_interface_id c) = Some old \<Longrightarrow>
           cp_observed_at_ms old < cp_observed_at_ms c"
  shows "upsert_checkpoint db c = Inr (1, put_checkpoint db c)"
proof (cases "find (\<lambda>y. checkpoint_key y = checkpoint_key c) (counter_checkpoints db)")
  case None
  then have "checkpoint_key c \<notin> checkpoint_key ` set (counter_checkpoints db)"
    by (simp add: find_None_iff_key)
  then show ?thesis
    using assms None by (simp add: upsert_checkpoint_def put_checkpoint_def)
next
  case (Some old)
  then have "cp_observed_at_ms old < cp_observed_at_ms c"
    by (intro assms(3)) (simp add: checkpoint_for_key checkpoint_key_def)
  moreover have "checkpoint_key c \<in> checkpoint_key ` set (counter_checkpoints db)"
    by (rule find_key_Some_image[OF Some])
  ultimately show ?thesis
    using Some assms by (simp add: upsert_checkpoint_def put_checkpoint_def)
qed

section \<open>Committing a sample\<close>

definition append_sample :: "traffic_db \<Rightarrow> traffic_sample_input \<Rightarrow> traffic_db" where
  "append_sample db s = db\<lparr>traffic_samples :=
     traffic_samples db @ [(new_sample_row s)\<lparr>sm_id := seq_samples db + 1\<rparr>],
     seq_samples := seq_samples db + 1\<rparr>"

definition append_gap :: "traffic_db \<Rightarrow> traffic_gap_input \<Rightarrow> traffic_db" where
  "append_gap db g = db\<lparr>traffic_gaps :=
     traffic_gaps db @ [(new_gap_row g)\<lparr>gp_id := seq_gaps db + 1\<rparr>],
     seq_gaps := seq_gaps db + 1\<rparr>"

lemma checkpoint_for_append [simp]:
  "checkpoint_for_connection (append_sample db s) = checkpoint_for_connection db"
  "checkpoint_for_connection (append_gap db g) = checkpoint_for_connection db"
  by (simp_all add: fun_eq_iff checkpoint_for_connection_def append_sample_def append_gap_def)

lemma append_fields [simp]:
  "routers (append_sample db s) = routers db" "routers (append_gap db g) = routers db"
  "router_interfaces (append_sample db s) = router_interfaces db"
  "router_interfaces (append_gap db g) = router_interfaces db"
  "traffic_gaps (append_sample db s) = traffic_gaps db"
  "traffic_samples (append_gap db g) = traffic_samples db"
  "traffic_rollups (append_sample db s) = traffic_rollups db"
  "traffic_rollups (append_gap db g) = traffic_rollups db"
  "counter_checkpoints (append_sample db s) = counter_checkpoints db"
  "counter_checkpoints (append_gap db g) = counter_checkpoints db"
  "traffic_samples (append_sample db s) =
     traffic_samples db @ [(new_sample_row s)\<lparr>sm_id := seq_samples db + 1\<rparr>]"
  "traffic_gaps (append_gap db g) = traffic_gaps db @ [(new_gap_row g)\<lparr>gp_id := seq_gaps db + 1\<rparr>]"
  by (simp_all add: append_sample_def append_gap_def)

lemma validate_sample_Inr_iff: "validate_sample s = Inr u \<longleftrightarrow>
   tsi_started_at_ms s < tsi_ended_at_ms s
   \<and> tsi_duration_ms s = sat_sub (tsi_ended_at_ms s) (tsi_started_at_ms s)
   \<and> 0 \<le> tsi_download_bytes s \<and> 0 \<le> tsi_upload_bytes s
   \<and> is_finite (tsi_download_bps s) \<and> is_finite (tsi_upload_bps s)
   \<and> \<not> f64_less (tsi_download_bps s) (Finite 0) \<and> \<not> f64_less (tsi_upload_bps s) (Finite 0)
   \<and> trim (tsi_source s) \<noteq> []"
  by (auto simp: validate_sample_def)

lemma validate_checkpoint_Inr_iff: "validate_checkpoint c = Inr u \<longleftrightarrow>
   valid_counter (cp_rx_counter c) \<and> valid_counter (cp_tx_counter c)"
  by (auto simp: validate_checkpoint_def)

lemma validate_gap_Inr_iff: "validate_gap g = Inr u \<longleftrightarrow>
   tgi_started_at_ms g < tgi_ended_at_ms g \<and> trim (tgi_reason g) \<noteq> []"
  by (auto simp: validate_gap_def)

definition sample_refers_to :: "traffic_sample_input \<Rightarrow> counter_checkpoint \<Rightarrow> bool" where
  "sample_refers_to s c \<longleftrightarrow> tsi_router_id s = cp_router_id c \<and>
     tsi_interface_id s = cp_interface_id c \<and> tsi_ended_at_ms s = cp_observed_at_ms c"

definition gap_refers_to :: "traffic_gap_input \<Rightarrow> counter_checkpoint \<Rightarrow> bool" where
  "gap_refers_to g c \<longleftrightarrow> tgi_router_id g = cp_router_id c \<and>
     tgi_interface_id g = Some (cp_interface_id c) \<and> tgi_ended_at_ms g = cp_observed_at_ms c"

lemma commit_sample_InrD:
  assumes "commit_sample_and_checkpoint db s c = (Inr b, db')"
  shows "validate_sample s = Inr ()" "validate_checkpoint c = Inr ()" "sample_refers_to s c"
    and "owns_interface db (cp_router_id c) (cp_interface_id c)"
    and "\<not> b \<Longrightarrow> db' = db"
    and "b \<Longrightarrow> db' = put_checkpoint (append_sample db s) c"
    and "b \<Longrightarrow> insert_sample_row db (new_sample_row s) = Inr (append_sample db s)"
    and "b \<Longrightarrow> upsert_checkpoint (append_sample db s) c = Inr (1, db')"
    and "b \<Longrightarrow> find_sample db s = None"
    and "b \<Longrightarrow> checkpoint_for_connection db (cp_router_id c) (cp_interface_id c) = Some old \<Longrightarrow>
           cp_observed_at_ms old < cp_observed_at_ms c"
proof -
  show v: "validate_sample s = Inr ()" "validate_checkpoint c = Inr ()" and r: "sample_refers_to s c"
    using assms by (auto simp: commit_sample_and_checkpoint_def and_then_Inr_iff sample_refers_to_def
        split: if_splits)
  have tx: "commit_sample_tx db s c = Inr (b, db')"
    using assms v r by (simp add: commit_sample_and_checkpoint_def sample_refers_to_def)
  show "owns_interface db (cp_router_id c) (cp_interface_id c)"
    using tx r by (auto simp: commit_sample_tx_def sample_refers_to_def split: if_splits)
  have ins: "insert_sample_row db (new_sample_row s) = Inr d \<Longrightarrow> d = append_sample db s" for d
    by (simp add: insert_sample_row_Inr_iff append_sample_def Let_def)
  show "\<not> b \<Longrightarrow> db' = db" "b \<Longrightarrow> find_sample db s = None"
    and "b \<Longrightarrow> checkpoint_for_connection db (cp_router_id c) (cp_interface_id c) = Some old \<Longrightarrow>
           cp_observed_at_ms old < cp_observed_at_ms c"
    using tx by (auto simp: commit_sample_tx_def and_then_Inr_iff
        split: if_splits option.splits prod.splits)
  show i: "b \<Longrightarrow> insert_sample_row db (new_sample_row s) = Inr (append_sample db s)"
    and u: "b \<Longrightarrow> upsert_checkpoint (append_sample db s) c = Inr (1, db')"
    using tx ins by (auto simp: commit_sample_tx_def and_then_Inr_iff
        split: if_splits option.splits prod.splits)
  show "b \<Longrightarrow> db' = put_checkpoint (append_sample db s) c"
    using u by (blast intro: upsert_checkpoint_put)
qed

lemma commit_gap_InrD:
  assumes "commit_gap_and_checkpoint db g c = (Inr b, db')"
  shows "validate_gap g = Inr ()" "validate_checkpoint c = Inr ()" "gap_refers_to g c"
    and "ensure_interface_owner db (tgi_router_id g) (tgi_interface_id g) = Inr ()"
    and "\<not> b \<Longrightarrow> db' = db"
    and "b \<Longrightarrow> db' = put_checkpoint (append_gap db g) c"
    and "b \<Longrightarrow> insert_gap_row db (new_gap_row g) = Inr (append_gap db g)"
    and "b \<Longrightarrow> upsert_checkpoint (append_gap db g) c = Inr (1, db')"
    and "b \<Longrightarrow> gap_details_for_connection db g = None"
    and "b \<Longrightarrow> checkpoint_for_connection db (cp_router_id c) (cp_interface_id c) = Some old \<Longrightarrow>
           cp_observed_at_ms old < cp_observed_at_ms c"
proof -
  show v: "validate_gap g = Inr ()" "validate_checkpoint c = Inr ()" and r: "gap_refers_to g c"
    using assms by (auto simp: commit_gap_and_checkpoint_def and_then_Inr_iff gap_refers_to_def
        split: if_splits)
  have tx: "commit_gap_tx db g c = Inr (b, db')"
    using assms v r by (simp add: commit_gap_and_checkpoint_def gap_refers_to_def)
  show o: "ensure_interface_owner db (tgi_router_id g) (tgi_interface_id g) = Inr ()"
    using tx by (auto simp: commit_gap_tx_def and_then_Inr_iff)
  have ins: "insert_gap_row db (new_gap_row g) = Inr d \<Longrightarrow> d = append_gap db g" for d
    by (simp add: insert_gap_row_Inr_iff append_gap_def Let_def)
  show "\<not> b \<Longrightarrow> db' = db" "b \<Longrightarrow> gap_details_for_connection db g = None"
    and "b \<Longrightarrow> checkpoint_for_connection db (cp_router_id c) (cp_interface_id c) = Some old \<Longrightarrow>
           cp_observed_at_ms old < cp_observed_at_ms c"
    using tx by (auto simp: commit_gap_tx_def and_then_Inr_iff
        split: if_splits option.splits prod.splits)
  show i: "b \<Longrightarrow> insert_gap_row db (new_gap_row g) = Inr (append_gap db g)"
    and u: "b \<Longrightarrow> upsert_checkpoint (append_gap db g) c = Inr (1, db')"
    using tx ins by (auto simp: commit_gap_tx_def and_then_Inr_iff
        split: if_splits option.splits prod.splits)
  show "b \<Longrightarrow> db' = put_checkpoint (append_gap db g) c"
    using u by (blast intro: upsert_checkpoint_put)
qed

section \<open>No operation breaks the schema\<close>

lemma commit_sample_wf:
  assumes "db_wf db" and "commit_sample_and_checkpoint db s c = (Inr b, db')"
  shows "db_wf db'"
proof (cases b)
  case True
  note * = commit_sample_InrD[OF assms(2)]
  have "db_wf (append_sample db s)" by (rule insert_sample_row_wf[OF assms(1) *(7)[OF True]])
  then show ?thesis using *(8)[OF True] by (rule upsert_checkpoint_wf)
qed (use assms commit_sample_InrD(5) in blast)

lemma commit_gap_wf:
  assumes "db_wf db" and "commit_gap_and_checkpoint db g c = (Inr b, db')"
  shows "db_wf db'"
proof (cases b)
  case True
  note * = commit_gap_InrD[OF assms(2)]
  have "db_wf (append_gap db g)" by (rule insert_gap_row_wf[OF assms(1) *(7)[OF True]])
  then show ?thesis using *(8)[OF True] by (rule upsert_checkpoint_wf)
qed (use assms commit_gap_InrD(5) in blast)

lemma initialize_checkpoint_InrD:
  assumes "initialize_checkpoint_if_absent db c = (Inr b, db')"
  shows "validate_checkpoint c = Inr ()"
    and "ensure_interface_owner db (cp_router_id c) (Some (cp_interface_id c)) = Inr ()"
    and "\<not> b \<Longrightarrow> db' = db \<and> checkpoint_for_connection db (cp_router_id c) (cp_interface_id c) \<noteq> None"
    and "b \<Longrightarrow> db' = put_checkpoint db c"
    and "b \<Longrightarrow> checkpoint_for_connection db (cp_router_id c) (cp_interface_id c) = None"
    and "b \<Longrightarrow> router_exists db (cp_router_id c) \<and> interface_exists db (cp_interface_id c) \<and>
      checkpoint_key c \<notin> checkpoint_key ` set (counter_checkpoints db) \<and>
      db' = db\<lparr>counter_checkpoints := counter_checkpoints db @ [c]\<rparr>"
  using assms
  by (auto simp: initialize_checkpoint_if_absent_def and_then_Inr_iff insert_checkpoint_or_ignore_def
      put_checkpoint_def checkpoint_for_key find_None_iff checkpoint_key_def image_iff
      split: if_splits)

lemma initialize_checkpoint_wf:
  "db_wf db \<Longrightarrow> initialize_checkpoint_if_absent db c = (Inr b, db') \<Longrightarrow> db_wf db'"
  using initialize_checkpoint_InrD(3,6)[of db c b db'] by (cases b) (auto simp: db_wf_def)

lemma owns_interface_exists:
  "wf_interfaces db \<Longrightarrow> owns_interface db r i \<Longrightarrow> router_exists db r \<and> interface_exists db i"
  by (auto simp: wf_interfaces_def owns_interface_def interface_exists_def list_ex_iff)

lemma ensure_interface_owner_Inr_iff:
  "ensure_interface_owner db r (Some i) = Inr () \<longleftrightarrow> router_exists db r \<and> owns_interface db r i"
  by (simp add: ensure_interface_owner_def)

lemma f64_nonneg_of_not_less: "is_finite a \<Longrightarrow> \<not> f64_less a (Finite 0) \<Longrightarrow> f64_le (Finite 0) a"
  by (cases a) (auto simp: f64_le_def)

lemma f64_eq_refl: "is_finite a \<Longrightarrow> f64_eq a a"
  by (cases a) auto

lemma find_sample_None_key:
  "find_sample db s = None \<Longrightarrow>
   sample_key ((new_sample_row s)\<lparr>sm_id := n\<rparr>) \<notin> sample_key ` set (traffic_samples db)"
  by (auto simp: find_sample_def find_None_iff new_sample_row_def sample_key_def)

lemma valid_sample_checks:
  assumes "validate_sample s = Inr ()" "in_i64 (tsi_started_at_ms s)" "in_i64 (tsi_ended_at_ms s)"
  shows "sample_checks ((new_sample_row s)\<lparr>sm_id := n\<rparr>)"
  using assms sat_sub_pos_iff[of "tsi_ended_at_ms s" "tsi_started_at_ms s"]
  by (cases "tsi_quality s")
    (auto simp: validate_sample_Inr_iff sample_checks_def new_sample_row_def intro: f64_nonneg_of_not_less)

text \<open>A validated sample whose key is new and whose checkpoint advances is always stored.\<close>

lemma commit_sample_succeeds:
  assumes "db_wf db" "validate_sample s = Inr ()" "validate_checkpoint c = Inr ()"
    "sample_refers_to s c" "owns_interface db (cp_router_id c) (cp_interface_id c)"
    "in_i64 (tsi_started_at_ms s)" "in_i64 (tsi_ended_at_ms s)" "find_sample db s = None"
    and adv: "\<And>old. checkpoint_for_connection db (cp_router_id c) (cp_interface_id c) = Some old \<Longrightarrow>
           cp_observed_at_ms old < cp_observed_at_ms c"
  shows "commit_sample_and_checkpoint db s c = (Inr True, put_checkpoint (append_sample db s) c)"
proof -
  have ex: "router_exists db (cp_router_id c)" "interface_exists db (cp_interface_id c)"
    using owns_interface_exists assms(1,5) by (auto simp: db_wf_def)
  have ins: "insert_sample_row db (new_sample_row s) = Inr (append_sample db s)"
    using ex assms(4) valid_sample_checks[OF assms(2,6,7)] find_sample_None_key[OF assms(8)]
    by (simp add: insert_sample_row_Inr_iff append_sample_def Let_def new_sample_row_def sample_refers_to_def)
  have up: "upsert_checkpoint (append_sample db s) c = Inr (1, put_checkpoint (append_sample db s) c)"
    by (rule upsert_checkpoint_advances)
      (use ex adv in \<open>auto simp: router_exists_def interface_exists_def\<close>)
  have nadv: "\<not> (case checkpoint_for_connection db (cp_router_id c) (cp_interface_id c) of
      None \<Rightarrow> False | Some current \<Rightarrow> cp_observed_at_ms c \<le> cp_observed_at_ms current)"
    using adv by (auto simp: not_le split: option.splits)
  have "commit_sample_tx db s c = Inr (True, put_checkpoint (append_sample db s) c)"
    using assms(4,5,8) nadv ins up by (simp add: commit_sample_tx_def sample_refers_to_def)
  then show ?thesis
    using assms(2-4) by (simp add: commit_sample_and_checkpoint_def sample_refers_to_def)
qed

lemma gap_row_unique:
  assumes "gap_keys_unique (traffic_gaps db)" "gap_details_for_connection db g = None"
  shows "gap_keys_unique (traffic_gaps db @ [(new_gap_row g)\<lparr>gp_id := n\<rparr>])"
  using assms by (auto simp: gap_keys_unique_def gap_details_for_connection_def find_None_iff
      new_gap_row_def gap_key_def)

lemma commit_gap_succeeds:
  assumes "db_wf db" "validate_gap g = Inr ()" "validate_checkpoint c = Inr ()"
    "gap_refers_to g c" "owns_interface db (cp_router_id c) (cp_interface_id c)"
    "gap_details_for_connection db g = None"
    and adv: "\<And>old. checkpoint_for_connection db (cp_router_id c) (cp_interface_id c) = Some old \<Longrightarrow>
           cp_observed_at_ms old < cp_observed_at_ms c"
  shows "commit_gap_and_checkpoint db g c = (Inr True, put_checkpoint (append_gap db g) c)"
proof -
  have ex: "router_exists db (cp_router_id c)" "interface_exists db (cp_interface_id c)"
    using owns_interface_exists assms(1,5) by (auto simp: db_wf_def)
  have own: "ensure_interface_owner db (tgi_router_id g) (tgi_interface_id g) = Inr ()"
    using assms(4,5) ex by (simp add: ensure_interface_owner_def gap_refers_to_def)
  have ins: "insert_gap_row db (new_gap_row g) = Inr (append_gap db g)"
    using ex assms(1,2,4) gap_row_unique[OF _ assms(6)]
    by (simp add: insert_gap_row_Inr_iff append_gap_def Let_def gap_fk_def db_wf_def wf_gaps_def
        gap_checks_def new_gap_row_def gap_refers_to_def validate_gap_Inr_iff)
  have up: "upsert_checkpoint (append_gap db g) c = Inr (1, put_checkpoint (append_gap db g) c)"
    by (rule upsert_checkpoint_advances)
      (use ex adv in \<open>auto simp: router_exists_def interface_exists_def\<close>)
  have nadv: "\<not> (case checkpoint_for_connection db (cp_router_id c) (cp_interface_id c) of
      None \<Rightarrow> False | Some current \<Rightarrow> cp_observed_at_ms c \<le> cp_observed_at_ms current)"
    using adv by (auto simp: not_le split: option.splits)
  have "commit_gap_tx db g c = Inr (True, put_checkpoint (append_gap db g) c)"
    using own assms(6) nadv ins up by (simp add: commit_gap_tx_def)
  then show ?thesis
    using assms(2-4) by (simp add: commit_gap_and_checkpoint_def gap_refers_to_def)
qed

section \<open>Interfaces and routers keep the schema too\<close>

lemma rows_wf_mono:
  assumes "\<And>r. router_exists db r \<Longrightarrow> router_exists db' r"
    and "\<And>i. interface_exists db i \<Longrightarrow> interface_exists db' i"
  shows "traffic_samples db' = traffic_samples db \<Longrightarrow> wf_samples db \<Longrightarrow> wf_samples db'"
    and "traffic_rollups db' = traffic_rollups db \<Longrightarrow> wf_rollups db \<Longrightarrow> wf_rollups db'"
    and "counter_checkpoints db' = counter_checkpoints db \<Longrightarrow> wf_checkpoints db \<Longrightarrow> wf_checkpoints db'"
    and "traffic_gaps db' = traffic_gaps db \<Longrightarrow> wf_gaps db \<Longrightarrow> wf_gaps db'"
  using assms
  by (auto simp: wf_samples_def wf_rollups_def wf_checkpoints_def wf_gaps_def gap_fk_def
      split: option.splits)

lemma map_key_update:
  "(\<And>x. k (f x) = k x) \<Longrightarrow> map k (map (\<lambda>x. if P x then f x else x) xs) = map k xs"
  by simp

lemma upsert_interface_row_wf:
  assumes "db_wf db" and "upsert_interface_row db r key name kind hw t = Inr db'"
  shows "db_wf db'"
proof -
  have rows: "traffic_samples db' = traffic_samples db" "traffic_rollups db' = traffic_rollups db"
    "counter_checkpoints db' = counter_checkpoints db" "traffic_gaps db' = traffic_gaps db"
    "routers db' = routers db" "seq_routers db' = seq_routers db"
    using assms(2) by (auto simp: upsert_interface_row_def split: option.splits if_splits)
  have re: "router_exists db' = router_exists db"
    by (simp add: router_exists_def rows fun_eq_iff)
  have ids: "map ri_id (map (\<lambda>x. if P x then x\<lparr>ri_name := a, ri_kind := b,
       ri_hardware_id := h x, ri_last_seen_at_ms := c\<rparr> else x) xs) = map ri_id xs" for P a b c h xs
    by (rule map_key_update) simp
  have ie: "interface_exists db i \<Longrightarrow> interface_exists db' i" for i
    using assms(2)
    by (auto simp: upsert_interface_row_def interface_exists_def ids simp del: map_map set_map
        split: option.splits if_splits)
  have "wf_interfaces db'"
  proof (cases "interface_by_key db r key")
    case None
    have fresh: "x \<in> set (router_interfaces db) \<Longrightarrow> seq_interfaces db + 1 \<noteq> ri_id x \<and>
        ri_id x \<le> seq_interfaces db + 1" for x
      using assms(1) by (force simp: db_wf_def wf_interfaces_def)
    show ?thesis
      using assms re None
      by (auto simp: upsert_interface_row_def db_wf_def wf_interfaces_def fresh
          dest: fresh split: if_splits)
  next
    case (Some y)
    then show ?thesis
      using assms re
      by (auto simp: upsert_interface_row_def db_wf_def wf_interfaces_def ids simp del: map_map)
  qed
  moreover have "wf_routers db'"
    using assms(1) rows by (simp add: db_wf_def wf_routers_def)
  ultimately show ?thesis
    using assms(1) rows_wf_mono[of db db'] re ie rows by (simp add: db_wf_def)
qed

lemma upsert_router_interface_wf:
  "db_wf db \<Longrightarrow> upsert_router_interface db r key name kind hw t = (res, db') \<Longrightarrow> db_wf db'"
  by (auto simp: upsert_router_interface_def split: if_splits sum.splits
      intro: upsert_interface_row_wf)

lemma insert_router_wf:
  assumes "db_wf db" and "insert_router db uuid hw target src t = Inr (rid, db')"
  shows "db_wf db'" and "router_exists db' rid"
proof -
  have db': "\<exists>row. db' = db\<lparr>routers := routers db @ [row], seq_routers := seq_routers db + 1\<rparr> \<and>
      rr_id row = seq_routers db + 1 \<and> rid = seq_routers db + 1"
    using assms(2) by (auto simp: insert_router_def Let_def split: if_splits)
  then show "router_exists db' rid" by (auto simp: router_exists_def)
  have re: "router_exists db r \<Longrightarrow> router_exists db' r" for r
    using db' by (auto simp: router_exists_def)
  have fresh: "x \<in> set (routers db) \<Longrightarrow> seq_routers db + 1 \<noteq> rr_id x \<and>
      rr_id x \<le> seq_routers db + 1" for x
    using assms(1) by (force simp: db_wf_def wf_routers_def)
  have "wf_routers db'" "wf_interfaces db'"
    using db' assms(1) by (auto simp: db_wf_def wf_routers_def wf_interfaces_def router_exists_def
        dest: fresh)
  then show "db_wf db'"
    using db' assms(1) rows_wf_mono[of db db'] re
    by (auto simp: db_wf_def interface_exists_def)
qed

lemma wf_routers_alt: "wf_routers db \<longleftrightarrow>
   distinct (map rr_id (routers db)) \<and> (\<forall>i \<in> set (map rr_id (routers db)). i \<le> seq_routers db)"
  by (auto simp: wf_routers_def)

lemma update_router_fields [simp]:
  "router_interfaces (update_router db r f) = router_interfaces db"
  "traffic_samples (update_router db r f) = traffic_samples db"
  "traffic_rollups (update_router db r f) = traffic_rollups db"
  "counter_checkpoints (update_router db r f) = counter_checkpoints db"
  "traffic_gaps (update_router db r f) = traffic_gaps db"
  "seq_interfaces (update_router db r f) = seq_interfaces db"
  by (simp_all add: update_router_def)

lemma update_router_wf:
  assumes "\<And>x. rr_id (f x) = rr_id x"
  shows "db_wf (update_router db r f) = db_wf db"
    and "router_exists (update_router db r f) = router_exists db"
proof -
  have ids: "map rr_id (map (\<lambda>x. if rr_id x = r then f x else x) xs) = map rr_id xs" for xs
    by (rule map_key_update) (rule assms)
  show re: "router_exists (update_router db r f) = router_exists db"
    by (simp add: router_exists_def update_router_def ids fun_eq_iff del: map_map set_map)
  have ie: "interface_exists (update_router db r f) = interface_exists db"
    by (simp add: interface_exists_def update_router_def fun_eq_iff)
  have gf: "gap_fk (update_router db r f) = gap_fk db"
    using re ie by (simp add: gap_fk_def fun_eq_iff split: option.splits)
  have "wf_routers (update_router db r f) = wf_routers db"
    by (simp add: wf_routers_alt update_router_def ids del: map_map set_map)
  then show "db_wf (update_router db r f) = db_wf db"
    using re ie gf
    by (simp add: db_wf_def wf_interfaces_def wf_samples_def wf_rollups_def wf_checkpoints_def
        wf_gaps_def)
qed

lemma distinct_map_filter': "distinct (map f xs) \<Longrightarrow> distinct (map f (filter P xs))"
  by (induction xs) auto

lemma gap_keys_unique_filter: "gap_keys_unique gs \<Longrightarrow> gap_keys_unique (filter P gs)"
proof -
  have "filter Q (filter P gs) = filter P (filter Q gs)" for Q
    by (simp add: conj_commute)
  then show "gap_keys_unique gs \<Longrightarrow> gap_keys_unique (filter P gs)"
    by (simp add: gap_keys_unique_def distinct_map_filter' del: filter_filter)
qed

lemma delete_interface_exists [simp]:
  "router_exists (delete_interface db i) = router_exists db"
  "interface_exists (delete_interface db i) j \<longleftrightarrow> interface_exists db j \<and> j \<noteq> i"
  by (auto simp: router_exists_def interface_exists_def delete_interface_def)

lemma delete_interface_wf:
  assumes "db_wf db" shows "db_wf (delete_interface db i)"
proof -
  let ?d = "delete_interface db i"
  have "wf_routers ?d" "wf_interfaces ?d" "wf_samples ?d" "wf_rollups ?d" "wf_checkpoints ?d"
    using assms
    by (auto simp: db_wf_def wf_routers_def wf_interfaces_def wf_samples_def wf_rollups_def
        wf_checkpoints_def distinct_map_filter')
      (simp_all add: delete_interface_def distinct_map_filter')
  moreover have "gap_fk ?d g" if "gap_fk db g" "gp_interface_id g \<noteq> Some i" for g
    using that by (auto simp: gap_fk_def split: option.splits)
  then have "wf_gaps ?d"
    using assms by (auto simp: db_wf_def wf_gaps_def)
      (auto simp: delete_interface_def gap_keys_unique_filter)
  ultimately show ?thesis by (simp add: db_wf_def)
qed

definition interfaces_of :: "traffic_db \<Rightarrow> i64 \<Rightarrow> i64 set" where
  "interfaces_of db r = ri_id ` {x \<in> set (router_interfaces db). ri_router_id x = r}"

lemma delete_router_exists:
  "router_exists (delete_router db r) s \<longleftrightarrow> router_exists db s \<and> s \<noteq> r"
  "interface_exists db j \<Longrightarrow> j \<notin> interfaces_of db r \<Longrightarrow> interface_exists (delete_router db r) j"
  by (auto simp: router_exists_def interface_exists_def delete_router_def interfaces_of_def)

lemma delete_router_wf:
  assumes "db_wf db" shows "db_wf (delete_router db r)"
proof -
  let ?d = "delete_router db r"
  note ex = delete_router_exists[where db = db and r = r]
  have gone: "set (map ri_id (filter (\<lambda>x. ri_router_id x = r) (router_interfaces db))) =
      interfaces_of db r"
    by (simp add: interfaces_of_def)
  have d: "?d = db\<lparr>routers := filter (\<lambda>x. rr_id x \<noteq> r) (routers db),
         router_interfaces := filter (\<lambda>x. ri_router_id x \<noteq> r) (router_interfaces db),
         traffic_samples := filter (\<lambda>s. sm_router_id s \<noteq> r \<and> sm_interface_id s \<notin> interfaces_of db r)
           (traffic_samples db),
         traffic_rollups := filter (\<lambda>u. ru_router_id u \<noteq> r \<and> ru_interface_id u \<notin> interfaces_of db r)
           (traffic_rollups db),
         counter_checkpoints := filter (\<lambda>c. cp_router_id c \<noteq> r \<and> cp_interface_id c \<notin> interfaces_of db r)
           (counter_checkpoints db),
         traffic_gaps := filter (\<lambda>g. gp_router_id g \<noteq> r \<and>
             (case gp_interface_id g of None \<Rightarrow> True | Some i \<Rightarrow> i \<notin> interfaces_of db r))
           (traffic_gaps db)\<rparr>"
    unfolding delete_router_def Let_def gone ..
  have rows: "router_interfaces ?d = filter (\<lambda>x. ri_router_id x \<noteq> r) (router_interfaces db)"
    "seq_interfaces ?d = seq_interfaces db"
    "traffic_samples ?d = filter (\<lambda>s. sm_router_id s \<noteq> r \<and> sm_interface_id s \<notin> interfaces_of db r)
           (traffic_samples db)"
    "traffic_rollups ?d = filter (\<lambda>u. ru_router_id u \<noteq> r \<and> ru_interface_id u \<notin> interfaces_of db r)
           (traffic_rollups db)"
    "counter_checkpoints ?d = filter (\<lambda>c. cp_router_id c \<noteq> r \<and> cp_interface_id c \<notin> interfaces_of db r)
           (counter_checkpoints db)"
    "traffic_gaps ?d = filter (\<lambda>g. gp_router_id g \<noteq> r \<and>
             (case gp_interface_id g of None \<Rightarrow> True | Some i \<Rightarrow> i \<notin> interfaces_of db r))
           (traffic_gaps db)"
    unfolding d by simp_all
  have "wf_routers ?d" using assms unfolding d by (auto simp: db_wf_def wf_routers_def distinct_map_filter')
  moreover have "wf_interfaces ?d"
    using assms by (auto simp: db_wf_def wf_interfaces_def ex rows distinct_map_filter')
  moreover have "wf_samples ?d" "wf_rollups ?d" "wf_checkpoints ?d"
    using assms by (auto simp: db_wf_def wf_samples_def wf_rollups_def wf_checkpoints_def rows ex(1)
        distinct_map_filter' intro!: ex(2))
  moreover have "wf_gaps ?d"
    using assms by (auto simp: db_wf_def wf_gaps_def gap_fk_def rows ex(1) gap_keys_unique_filter
        intro!: ex(2) split: option.splits)
  ultimately show ?thesis by (simp add: db_wf_def)
qed

section \<open>Adoption and resolution\<close>

lemma checks_of_moved [simp]:
  "sample_checks (s\<lparr>sm_router_id := r, sm_interface_id := i\<rparr>) = sample_checks s"
  "rollup_checks (u\<lparr>ru_router_id := r, ru_interface_id := i\<rparr>) = rollup_checks u"
  "gap_checks (g\<lparr>gp_router_id := r, gp_interface_id := j\<rparr>) = gap_checks g"
  "sample_checks (s\<lparr>sm_router_id := r\<rparr>) = sample_checks s"
  "rollup_checks (u\<lparr>ru_router_id := r\<rparr>) = rollup_checks u"
  "gap_checks (g\<lparr>gp_router_id := r\<rparr>) = gap_checks g"
  by (simp_all add: sample_checks_def rollup_checks_def gap_checks_def)

lemma move_history_wf:
  assumes "db_wf db" "router_exists db target" "interface_exists db ti \<or> ti = li"
    and "move_history db target ti legacy li = Inr db'"
  shows "db_wf db'" and "routers db' = routers db" and "router_interfaces db' = router_interfaces db"
proof -
  show r: "routers db' = routers db" and i: "router_interfaces db' = router_interfaces db"
    using assms(4) by (auto simp: move_history_def Let_def split: if_splits)
  have re: "router_exists db' = router_exists db" and ie: "interface_exists db' = interface_exists db"
    by (simp_all add: fun_eq_iff router_exists_def interface_exists_def r i)
  have dist: "distinct (map sample_key (traffic_samples db'))"
    "distinct (map rollup_key (traffic_rollups db'))" "gap_keys_unique (traffic_gaps db')"
    using assms(4) by (auto simp: move_history_def Let_def split: if_splits)
  have "\<forall>s \<in> set (traffic_samples db'). sample_checks s \<and> router_exists db (sm_router_id s) \<and>
      interface_exists db (sm_interface_id s)"
    using assms by (auto simp: move_history_def Let_def db_wf_def wf_samples_def
        split: if_splits)
  moreover have "\<forall>u \<in> set (traffic_rollups db'). rollup_checks u \<and> router_exists db (ru_router_id u) \<and>
      interface_exists db (ru_interface_id u)"
    using assms by (auto simp: move_history_def Let_def db_wf_def wf_rollups_def
        split: if_splits)
  moreover have fk: "gap_fk db (if gp_router_id g = legacy \<and> gp_interface_id g = Some li
      then g\<lparr>gp_router_id := target, gp_interface_id := Some ti\<rparr> else g)"
    if "g \<in> set (traffic_gaps db)" for g
    using that assms(1-3) by (auto simp: db_wf_def wf_gaps_def gap_fk_def dest!: bspec[OF _ that])
  have gaps: "traffic_gaps db' = map (\<lambda>g. if gp_router_id g = legacy \<and>
      gp_interface_id g = Some li then g\<lparr>gp_router_id := target, gp_interface_id := Some ti\<rparr> else g)
      (traffic_gaps db)"
    using assms(4) by (auto simp: move_history_def Let_def split: if_splits)
  have "gap_checks g \<and> gap_fk db g" if "g \<in> set (traffic_gaps db')" for g
  proof -
    obtain h where h: "h \<in> set (traffic_gaps db)" and g: "g = (if gp_router_id h = legacy \<and>
      gp_interface_id h = Some li then h\<lparr>gp_router_id := target, gp_interface_id := Some ti\<rparr> else h)"
      using \<open>g \<in> set (traffic_gaps db')\<close> unfolding gaps set_map by (rule imageE) blast
    have "gap_checks h" using h assms(1) by (simp add: db_wf_def wf_gaps_def)
    then have "gap_checks g" unfolding g by simp
    then show ?thesis using fk[OF h] unfolding g by simp
  qed
  then have "\<forall>g \<in> set (traffic_gaps db'). gap_checks g \<and> gap_fk db g" by blast
  moreover have "gap_fk db' = gap_fk db"
    using re ie by (simp add: gap_fk_def fun_eq_iff split: option.splits)
  moreover have "counter_checkpoints db' = counter_checkpoints db" "seq_routers db' = seq_routers db"
    "seq_interfaces db' = seq_interfaces db"
    using assms(4) by (auto simp: move_history_def Let_def split: if_splits)
  ultimately show "db_wf db'"
    using assms(1) dist re ie r i
    by (simp add: db_wf_def wf_routers_def wf_interfaces_def wf_samples_def wf_rollups_def
        wf_checkpoints_def wf_gaps_def)
qed

lemma move_checkpoints_wf:
  assumes "db_wf db" "router_exists db target" "move_checkpoints db target legacy li = Inr db'"
  shows "db_wf db'" and "routers db' = routers db"
  using assms by (auto simp: move_checkpoints_def Let_def db_wf_def wf_checkpoints_def
      router_exists_def interface_exists_def split: if_splits)

lemma adopt_interface_wf:
  assumes wf: "db_wf db" and t: "router_exists db target"
    and ok: "adopt_interface target legacy t0 db p = Inr db'"
  shows "db_wf db'" and "routers db' = routers db"
proof -
  obtain li key where p: "p = (li, key)" by (cases p)
  show "db_wf db'" "routers db' = routers db"
  proof (atomize(full), cases "interface_by_key db target key")
    case None
    define db1 where "db1 = db\<lparr>router_interfaces := map
         (\<lambda>x. if ri_id x = li then x\<lparr>ri_router_id := target,
              ri_last_seen_at_ms := max (ri_last_seen_at_ms x) t0\<rparr> else x) (router_interfaces db)\<rparr>"
    have ids: "map ri_id (router_interfaces db1) = map ri_id (router_interfaces db)"
      unfolding db1_def by simp
    have ie: "interface_exists db1 = interface_exists db"
      by (simp add: fun_eq_iff interface_exists_def ids del: set_map)
    have re: "router_exists db1 = router_exists db"
      by (simp add: fun_eq_iff router_exists_def db1_def)
    have "wf_interfaces db1"
      unfolding wf_interfaces_def ids re using wf t by (auto simp: db1_def db_wf_def wf_interfaces_def)
    then have wf1: "db_wf db1"
      using wf rows_wf_mono[of db db1] re ie by (simp add: db_wf_def db1_def wf_routers_def)
    obtain db2 where 2: "move_history db1 target li legacy li = Inr db2"
      and 3: "move_checkpoints db2 target legacy li = Inr db'"
      using ok None by (auto simp: adopt_interface_def p db1_def and_then_Inr_iff)
    note m = move_history_wf[OF wf1 _ _ 2]
    have "db_wf db2" "routers db2 = routers db1"
      using m t by (auto simp: re)
    then show "db_wf db' \<and> routers db' = routers db"
      using move_checkpoints_wf[OF _ _ 3] t by (simp add: router_exists_def db1_def)
  next
    case (Some y)
    obtain db1 where 1: "move_history db target (ri_id y) legacy li = Inr db1"
      and db': "db' = delete_interface (db1\<lparr>counter_checkpoints := filter
          (\<lambda>c. \<not> (cp_router_id c = legacy \<and> cp_interface_id c = li)) (counter_checkpoints db1)\<rparr>) li"
      using ok Some by (auto simp: adopt_interface_def p and_then_Inr_iff Let_def)
    have "interface_exists db (ri_id y)"
      using find_SomeD Some by (fastforce simp: interface_by_key_def interface_exists_def)
    then have "db_wf db1" "routers db1 = routers db"
      using move_history_wf[OF wf t _ 1] by auto
    moreover have "db_wf (d\<lparr>counter_checkpoints := filter P (counter_checkpoints d)\<rparr>)"
      if "db_wf d" for d P
      using that by (auto simp: db_wf_def wf_checkpoints_def distinct_map_filter')
    ultimately show "db_wf db' \<and> routers db' = routers db"
      unfolding db' by (intro conjI delete_interface_wf) (auto simp: delete_interface_def)
  qed
qed

lemma fold_result_invariant:
  assumes "fold_result f s xs = Inr s'" and "I s"
    and "\<And>s x s'. x \<in> set xs \<Longrightarrow> I s \<Longrightarrow> f s x = Inr s' \<Longrightarrow> I s'"
  shows "I s'"
  using assms by (induction xs arbitrary: s) (auto simp: and_then_Inr_iff)

lemma adopt_router_wf:
  assumes wf: "db_wf db" and t: "router_exists db target" and ne: "legacy \<noteq> target"
    and ok: "adopt_router target t0 db legacy = Inr db'"
  shows "db_wf db' \<and> router_exists db' target"
proof -
  obtain ps db1 where f: "fold_result (adopt_interface target legacy t0) db ps = Inr db1"
    and db': "\<exists>f. db' = delete_router (update_router (db1\<lparr>traffic_gaps := map
               (\<lambda>g. if gp_router_id g = legacy \<and> gp_interface_id g = None
                     then g\<lparr>gp_router_id := target\<rparr> else g) (traffic_gaps db1)\<rparr>) target f) legacy
          \<and> (\<forall>x. rr_id (f x) = rr_id x)"
    using ok by (auto simp: adopt_router_def and_then_Inr_iff Let_def) force
  have step: "db_wf s' \<and> router_exists s' target"
    if "db_wf s \<and> router_exists s target" "adopt_interface target legacy t0 s p = Inr s'" for s p s'
    using that adopt_interface_wf[of s target legacy t0 p s'] by (auto simp: router_exists_def)
  have "db_wf db1 \<and> router_exists db1 target"
    by (rule fold_result_invariant[OF f]) (use wf t step in blast)+
  moreover define db2 where "db2 = db1\<lparr>traffic_gaps := map
               (\<lambda>g. if gp_router_id g = legacy \<and> gp_interface_id g = None
                     then g\<lparr>gp_router_id := target\<rparr> else g) (traffic_gaps db1)\<rparr>"
  have keys: "map gap_key (filter (\<lambda>g. gp_interface_id g \<noteq> None) (map
               (\<lambda>g. if gp_router_id g = legacy \<and> gp_interface_id g = None
                     then g\<lparr>gp_router_id := target\<rparr> else g) gs)) =
       map gap_key (filter (\<lambda>g. gp_interface_id g \<noteq> None) gs)" for gs
    by (induction gs) (auto simp: gap_key_def)
  ultimately have "db_wf db2 \<and> router_exists db2 target"
    by (auto simp: db2_def db_wf_def wf_gaps_def gap_keys_unique_def keys gap_checks_def gap_fk_def
        simp del: filter_map)
  then show ?thesis
    using db' ne unfolding db2_def[symmetric]
    by (auto simp: update_router_wf delete_router_exists intro!: delete_router_wf)
qed

lemma adopt_legacy_history_wf:
  assumes "db_wf db" "router_exists db target" "adopt_legacy_history db target t0 = Inr db'"
  shows "db_wf db' \<and> router_exists db' target"
  using assms(3) unfolding adopt_legacy_history_def
  by (rule fold_result_invariant) (use assms in \<open>auto dest: adopt_router_wf[rotated 3]\<close>)

lemma resolve_router_id_wf:
  assumes "db_wf db" "resolve_router_id db uuid identity target t0 = Inr (rid, db')"
  shows "db_wf db' \<and> router_exists db' rid"
proof -
  have found: "x \<in> set (routers db)"
    if "router_by_hardware_identity db h = Some x \<or> router_by_fallback_target db tg = Some x \<or>
        router_by_fallback_only db tg = Some x" for h tg x
  proof -
    have mx: "max_on k xs = Some y \<Longrightarrow> y \<in> set xs" for k :: "router_record \<Rightarrow> int \<times> int" and xs y
      by (induction xs arbitrary: y) (auto split: option.splits if_splits)
    have mn: "min_on k xs = Some y \<Longrightarrow> y \<in> set xs" for k :: "router_record \<Rightarrow> int" and xs y
      by (induction xs arbitrary: y) (auto split: option.splits if_splits)
    show ?thesis
      using that mx mn
      by (fastforce simp: router_by_hardware_identity_def router_by_fallback_target_def
          router_by_fallback_only_def dest: find_SomeD)
  qed
  have ex: "router_exists db (rr_id x)" if "x \<in> set (routers db)" for x
    using that by (auto simp: router_exists_def)
  show ?thesis
  proof (cases identity)
    case None
    then show ?thesis
      using assms found[of _ _ target] ex
      by (auto simp: resolve_router_id_def update_router_wf split: option.splits dest: insert_router_wf)
  next
    case (Some h)
    then show ?thesis
      using assms found[of h _ target] ex
      by (auto simp: resolve_router_id_def update_router_wf split: option.splits dest: insert_router_wf)
  qed
qed

lemma resolve_router_wf:
  assumes "db_wf db" "resolve_router db uuid hw target t0 = (Inr r, db')"
  shows "db_wf db'" and "router_by_id db' (rr_id r) = Some r"
proof -
  obtain rid db1 where 1: "resolve_router_id db uuid (non_blank hw) (trim target) t0 = Inr (rid, db1)"
    and 2: "adopt_legacy_history db1 rid t0 = Inr db'" and 3: "router_by_id db' rid = Some r"
    using assms(2) by (auto simp: resolve_router_def Let_def and_then_Inr_iff ok_or_Inr_iff split: if_splits)
  show "db_wf db'"
    using resolve_router_id_wf[OF assms(1) 1] adopt_legacy_history_wf[OF _ _ 2] by blast
  show "router_by_id db' (rr_id r) = Some r"
    using 3 find_SomeD[of _ "routers db'" r] by (auto simp: router_by_id_def)
qed

section \<open>The operations meet the contract\<close>

interpretation commit_sample: atomic_operation db_wf
  "\<lambda>(s, c) db. commit_sample_and_checkpoint db s c"
  by unfold_locales
    (auto simp: commit_sample_and_checkpoint_def intro: commit_sample_wf)

interpretation commit_gap: atomic_operation db_wf
  "\<lambda>(g, c) db. commit_gap_and_checkpoint db g c"
  by unfold_locales (auto simp: commit_gap_and_checkpoint_def intro: commit_gap_wf)

interpretation initialize_checkpoint: atomic_operation db_wf
  "\<lambda>c db. initialize_checkpoint_if_absent db c"
  by unfold_locales (auto simp: initialize_checkpoint_if_absent_def intro: initialize_checkpoint_wf)

interpretation resolve: atomic_operation db_wf
  "\<lambda>(uuid, hw, target, t0) db. resolve_router db uuid hw target t0"
  by unfold_locales (auto simp: resolve_router_def Let_def intro: resolve_router_wf split: if_splits)

lemma find_update:
  assumes "find P xs = Some x" and "\<And>y. P y \<Longrightarrow> P (f y)"
  shows "find P (map (\<lambda>y. if P y then f y else y) xs) = Some (f x)"
  using assms by (induction xs) (auto split: if_splits)

lemma upsert_interface_reloads:
  assumes "upsert_interface_row db r key name kind hw t = Inr db'"
  shows "interface_by_key db' r key \<noteq> None"
proof (cases "interface_by_key db r key")
  case None
  then show ?thesis
    using assms by (auto simp: upsert_interface_row_def interface_by_key_def find_snoc split: if_splits)
next
  case (Some x)
  then have "find (\<lambda>x. ri_router_id x = r \<and> ri_interface_key x = key)
      (router_interfaces db) = Some x"
    by (simp add: interface_by_key_def)
  from find_update[OF this] show ?thesis
    using assms Some by (auto simp: upsert_interface_row_def interface_by_key_def)
qed

lemma upsert_router_interface_atomic:
  "upsert_router_interface db r key name kind hw t = (Inl e, db') \<Longrightarrow> db' = db"
  by (auto simp: upsert_router_interface_def ok_or_def split: if_splits sum.splits option.splits
      dest: upsert_interface_reloads)

interpretation upsert_interface: atomic_operation db_wf
  "\<lambda>(r, key, name, kind, hw, t) db. upsert_router_interface db r key name kind hw t"
  by unfold_locales (auto intro: upsert_router_interface_wf dest: upsert_router_interface_atomic)

section \<open>Sequences of calls\<close>

datatype store_call =
    CommitSample traffic_sample_input counter_checkpoint
  | CommitGap traffic_gap_input counter_checkpoint
  | InitializeCheckpoint counter_checkpoint
  | UpsertInterface i64 string string string "string option" i64
  | ResolveRouter string "string option" string i64

definition void :: "'e + 'a \<Rightarrow> 'e + unit" where
  "void m = (case m of Inl e \<Rightarrow> Inl e | Inr _ \<Rightarrow> Inr ())"

fun run_call :: "store_call \<Rightarrow> traffic_db \<Rightarrow> unit db_result \<times> traffic_db" where
  "run_call (CommitSample s c) db = apfst void (commit_sample_and_checkpoint db s c)"
| "run_call (CommitGap g c) db = apfst void (commit_gap_and_checkpoint db g c)"
| "run_call (InitializeCheckpoint c) db = apfst void (initialize_checkpoint_if_absent db c)"
| "run_call (UpsertInterface r key name kind hw t) db =
     apfst void (upsert_router_interface db r key name kind hw t)"
| "run_call (ResolveRouter uuid hw target t) db = apfst void (resolve_router db uuid hw target t)"

lemma void_simps [simp]: "void m = Inl e \<longleftrightarrow> m = Inl e" "void m = Inr u \<longleftrightarrow> (\<exists>x. m = Inr x)"
  by (auto simp: void_def split: sum.splits)

lemma apfst_void_InlD: "apfst void p = (Inl e, db') \<Longrightarrow> p = (Inl e, db')"
  by (cases p) auto

lemma apfst_void_InrD: "apfst void p = (Inr u, db') \<Longrightarrow> \<exists>x. p = (Inr x, db')"
  by (cases p) auto

lemma store_atomic:
  "commit_sample_and_checkpoint db s c = (Inl e, db') \<Longrightarrow> db' = db"
  "commit_gap_and_checkpoint db g c = (Inl e, db') \<Longrightarrow> db' = db"
  "initialize_checkpoint_if_absent db c = (Inl e, db') \<Longrightarrow> db' = db"
  "upsert_router_interface db r key name kind hw t = (Inl e, db') \<Longrightarrow> db' = db"
  "resolve_router db uuid hw target t = (Inl e, db') \<Longrightarrow> db' = db"
  using commit_sample.atomic[of "(s, c)"] commit_gap.atomic[of "(g, c)"] initialize_checkpoint.atomic
    resolve.atomic[of "(uuid, hw, target, t)"]
  by (auto dest: upsert_router_interface_atomic)

interpretation store: atomic_operation db_wf run_call
proof
  fix a s e s' assume "run_call a s = (Inl e, s')"
  then show "s' = s"
    by (cases a) (auto dest!: apfst_void_InlD store_atomic)
next
  fix a s r s' assume "db_wf s" "run_call a s = (Inr r, s')"
  then show "db_wf s'"
    by (cases a) (auto dest!: apfst_void_InrD intro: commit_sample_wf commit_gap_wf
        initialize_checkpoint_wf upsert_router_interface_wf resolve_router_wf)
qed

section \<open>Replays\<close>

lemma find_sample_append:
  "find_sample db s = None \<Longrightarrow> find_sample (put_checkpoint (append_sample db s) c) s =
     Some ((new_sample_row s)\<lparr>sm_id := seq_samples db + 1\<rparr>)"
  by (simp add: find_sample_def find_snoc sample_key_def new_sample_row_def)

lemma gap_details_append:
  "gap_details_for_connection db g = None \<Longrightarrow>
   gap_details_for_connection (put_checkpoint (append_gap db g) c) g = Some (unwrap_or [] (tgi_details g))"
  by (simp add: gap_details_for_connection_def find_snoc gap_key_def new_gap_row_def)

lemma owns_put [simp]: "owns_interface (put_checkpoint db c) = owns_interface db"
  and owns_append [simp]: "owns_interface (append_sample db s) = owns_interface db"
    "owns_interface (append_gap db g) = owns_interface db"
  by (simp_all add: owns_interface_def fun_eq_iff)

lemma replay_sample:
  assumes "commit_sample_and_checkpoint db s c = (Inr True, db')"
  shows "commit_sample_and_checkpoint db' s c = (Inr False, db')"
proof -
  note d = commit_sample_InrD[OF assms]
  have db': "db' = put_checkpoint (append_sample db s) c" by (rule d(6)) simp
  have cp: "checkpoint_for_connection db' (cp_router_id c) (cp_interface_id c) = Some c"
    unfolding db' by (simp add: checkpoint_for_put checkpoint_key_def)
  have row: "find_sample db' s = Some ((new_sample_row s)\<lparr>sm_id := seq_samples db + 1\<rparr>)"
    unfolding db' by (rule find_sample_append) (rule d(9), simp)
  have m: "sample_matches ((new_sample_row s)\<lparr>sm_id := seq_samples db + 1\<rparr>) s"
    using d(1) by (simp add: sample_matches_def new_sample_row_def validate_sample_Inr_iff f64_eq_refl)
  have own: "owns_interface db' (tsi_router_id s) (tsi_interface_id s)"
    using d(3,4) by (simp add: db' sample_refers_to_def)
  have "commit_sample_tx db' s c = Inr (False, db')"
    using own row m cp by (simp add: commit_sample_tx_def conflicts_with_checkpoint_def checkpoint_matches_def)
  then show ?thesis
    using d(1-3) by (simp add: commit_sample_and_checkpoint_def sample_refers_to_def)
qed

lemma replay_gap:
  assumes "commit_gap_and_checkpoint db g c = (Inr True, db')"
  shows "commit_gap_and_checkpoint db' g c = (Inr False, db')"
proof -
  note d = commit_gap_InrD[OF assms]
  have db': "db' = put_checkpoint (append_gap db g) c" by (rule d(6)) simp
  have cp: "checkpoint_for_connection db' (cp_router_id c) (cp_interface_id c) = Some c"
    unfolding db' by (simp add: checkpoint_for_put checkpoint_key_def)
  have row: "gap_details_for_connection db' g = Some (unwrap_or [] (tgi_details g))"
    unfolding db' by (rule gap_details_append) (rule d(9), simp)
  have own: "ensure_interface_owner db' (tgi_router_id g) (tgi_interface_id g) = Inr ()"
    using d(4) by (simp add: db' ensure_interface_owner_def router_exists_def split: if_splits option.splits)
  have "commit_gap_tx db' g c = Inr (False, db')"
    using own row cp by (simp add: commit_gap_tx_def conflicts_with_checkpoint_def checkpoint_matches_def)
  then show ?thesis
    using d(1-3) by (simp add: commit_gap_and_checkpoint_def gap_refers_to_def)
qed

section \<open>Properties\<close>

definition example_db :: traffic_db where
  "example_db = snd (run_call (UpsertInterface 1 ''routeros:*1'' ''ether1'' ''wan'' None 1000)
     (snd (run_call (ResolveRouter ''uuid-1'' (Some ''HX1'') ''192.168.88.1'' 1000) empty_db)))"

lemma example_db_value:
  "example_db = empty_db\<lparr>
     routers := [\<lparr>rr_id = 1, rr_internal_uuid = ''uuid-1'', rr_hardware_identity = Some ''HX1'',
        rr_fallback_target = ''192.168.88.1'', rr_identity_source = ''hardware'',
        rr_first_seen_at_ms = 1000, rr_last_seen_at_ms = 1000\<rparr>],
     router_interfaces := [\<lparr>ri_id = 1, ri_router_id = 1, ri_interface_key = ''routeros:*1'',
        ri_name = ''ether1'', ri_kind = ''wan'', ri_hardware_id = None,
        ri_first_seen_at_ms = 1000, ri_last_seen_at_ms = 1000\<rparr>],
     seq_routers := 1, seq_interfaces := 1\<rparr>"
  by (simp add: example_db_def empty_db_def resolve_router_def resolve_router_id_def
      router_by_hardware_identity_def router_by_fallback_only_def insert_router_def router_checks_def
      adopt_legacy_history_def router_by_id_def transaction_def trim_def is_whitespace_def
      non_blank_def upsert_router_interface_def upsert_interface_row_def interface_by_key_def
      router_exists_def Let_def)

lemma example_db_wf: "db_wf example_db"
  unfolding example_db_def by (intro store.preserves db_wf_empty)

definition example_gap_input :: traffic_gap_input where
  "example_gap_input = \<lparr>tgi_router_id = 1, tgi_interface_id = Some 1, tgi_started_at_ms = 1000,
     tgi_ended_at_ms = 2000, tgi_reason = ''counter_reset'', tgi_details = None\<rparr>"

definition example_sample_input :: traffic_sample_input where
  "example_sample_input = \<lparr>tsi_router_id = 1, tsi_interface_id = 1, tsi_started_at_ms = 1000,
     tsi_ended_at_ms = 2000, tsi_duration_ms = 1000, tsi_download_bytes = 500, tsi_upload_bytes = 7,
     tsi_download_bps = Finite 4000, tsi_upload_bps = Finite 56, tsi_quality = Exact,
     tsi_source = ''routeros-counter''\<rparr>"

definition example_checkpoint :: counter_checkpoint where
  "example_checkpoint = \<lparr>cp_router_id = 1, cp_interface_id = 1, cp_rx_counter = ''600'',
     cp_tx_counter = ''7'', cp_observed_at_ms = 2000, cp_reboot_marker = None\<rparr>"

lemma example_commit:
  "commit_sample_and_checkpoint example_db example_sample_input example_checkpoint =
     (Inr True, put_checkpoint (append_sample example_db example_sample_input) example_checkpoint)"
  by (rule commit_sample_succeeds[OF example_db_wf])
    (simp_all add: example_db_value empty_db_def example_sample_input_def example_checkpoint_def
      validate_sample_Inr_iff validate_checkpoint_Inr_iff sample_refers_to_def owns_interface_def
      find_sample_def checkpoint_for_connection_def in_i64_def I64_MAX_def I64_MIN_def sat_sub_def
      trim_def is_whitespace_def valid_counter_def is_ascii_digit_def)

lemma example_gap_commit:
  "commit_gap_and_checkpoint example_db example_gap_input example_checkpoint =
     (Inr True, put_checkpoint (append_gap example_db example_gap_input) example_checkpoint)"
  by (rule commit_gap_succeeds[OF example_db_wf])
    (simp_all add: example_db_value empty_db_def example_gap_input_def example_checkpoint_def
      validate_gap_Inr_iff validate_checkpoint_Inr_iff gap_refers_to_def owns_interface_def
      gap_details_for_connection_def checkpoint_for_connection_def
      trim_def is_whitespace_def valid_counter_def is_ascii_digit_def)




text \<open>Committing a sample with its checkpoint is idempotent: once it has been stored, the
  checkpoint is the given one and lies strictly after the one it replaced, and the same call
  again reports that nothing was stored and leaves the database as it is.\<close>

theorem commit_sample_idempotent:
  assumes "commit_sample_and_checkpoint db s c = (Inr True, db')"
  shows "commit_sample_and_checkpoint db' s c = (Inr False, db') \<and>
     checkpoint_for_connection db' (cp_router_id c) (cp_interface_id c) = Some c \<and>
     (case checkpoint_for_connection db (cp_router_id c) (cp_interface_id c) of
        None \<Rightarrow> True | Some old \<Rightarrow> cp_observed_at_ms old < cp_observed_at_ms c)"
proof -
  note d = commit_sample_InrD[OF assms]
  have "db' = put_checkpoint (append_sample db s) c" by (rule d(6)) simp
  then have "checkpoint_for_connection db' (cp_router_id c) (cp_interface_id c) = Some c"
    by (simp add: checkpoint_for_put checkpoint_key_def)
  then show ?thesis using replay_sample[OF assms] d(10) by (auto split: option.splits)
qed

theorem commit_sample_idempotent_witness:
  "fst (commit_sample_and_checkpoint
     (put_checkpoint (append_sample example_db example_sample_input) example_checkpoint)
     example_sample_input example_checkpoint) = Inr False"
  using commit_sample_idempotent[OF example_commit] by simp

text \<open>The same for a gap: once stored, a replay of the call changes nothing, and the
  checkpoint has moved to the end of the gap.\<close>

theorem commit_gap_idempotent:
  assumes "commit_gap_and_checkpoint db g c = (Inr True, db')"
  shows "commit_gap_and_checkpoint db' g c = (Inr False, db') \<and>
     checkpoint_for_connection db' (cp_router_id c) (cp_interface_id c) = Some c \<and>
     tgi_ended_at_ms g = cp_observed_at_ms c"
proof -
  note d = commit_gap_InrD[OF assms]
  have "db' = put_checkpoint (append_gap db g) c" by (rule d(6)) simp
  then have "checkpoint_for_connection db' (cp_router_id c) (cp_interface_id c) = Some c"
    by (simp add: checkpoint_for_put checkpoint_key_def)
  then show ?thesis using replay_gap[OF assms] d(3) by (simp add: gap_refers_to_def)
qed

theorem commit_gap_idempotent_witness:
  "fst (commit_gap_and_checkpoint
     (put_checkpoint (append_gap example_db example_gap_input) example_checkpoint)
     example_gap_input example_checkpoint) = Inr False"
  using commit_gap_idempotent[OF example_gap_commit] by simp

text \<open>No write is lost to a constraint: in a database that keeps its schema, a valid sample
  of an owned interface whose key is new and whose checkpoint advances is always stored.\<close>

theorem valid_sample_is_stored:
  assumes "db_wf db" "validate_sample s = Inr ()" "validate_checkpoint c = Inr ()"
    "sample_refers_to s c" "owns_interface db (cp_router_id c) (cp_interface_id c)"
    "in_i64 (tsi_started_at_ms s)" "in_i64 (tsi_ended_at_ms s)" "find_sample db s = None"
    "case checkpoint_for_connection db (cp_router_id c) (cp_interface_id c) of
       None \<Rightarrow> True | Some old \<Rightarrow> cp_observed_at_ms old < cp_observed_at_ms c"
  shows "fst (commit_sample_and_checkpoint db s c) = Inr True"
  by (subst commit_sample_succeeds[OF assms(1-8)]) (use assms(9) in auto)

theorem valid_sample_is_stored_witness:
  "fst (commit_sample_and_checkpoint example_db example_sample_input example_checkpoint) = Inr True"
  by (rule valid_sample_is_stored[OF example_db_wf])
    (simp_all add: example_db_value empty_db_def example_sample_input_def example_checkpoint_def
      validate_sample_Inr_iff validate_checkpoint_Inr_iff sample_refers_to_def owns_interface_def
      find_sample_def checkpoint_for_connection_def in_i64_def I64_MAX_def I64_MIN_def sat_sub_def
      trim_def is_whitespace_def valid_counter_def is_ascii_digit_def)

end
