(* ===== verification/Exact_Persistence.thy ===== *)
theory Exact_Persistence
  imports Traffic_Integrity
begin

text \<open>
  The poller's durable traffic accounting (\<open>persist_exact_traffic\<close> and
  \<open>persist_counter_observation\<close> of \<open>poller/engine.rs\<close>): every observation of an interface's
  counters ends in an exact sample, in a gap, or in a first baseline, each of which moves
  the stored checkpoint to the observation.  The baselines are the poller's hash map from
  interface ids; a \<open>Duration\<close> is a number of nanoseconds.
\<close>

section \<open>State and inputs\<close>

record counter_baseline =
  cb_rx_counter :: u64
  cb_tx_counter :: u64
  cb_observed_at_ms :: i64
  cb_monotonic :: instant
  cb_uptime_seconds :: "u64 option"
  cb_boot_epoch_seconds :: "i64 option"
  cb_reboot_marker :: "string option"
  cb_member_signature :: "string option"

record counter_observation =
  co_router_id :: i64
  co_interface_id :: i64
  co_rx_counter :: u64
  co_tx_counter :: u64
  co_observed_at_ms :: i64
  co_monotonic :: instant
  co_uptime_seconds :: "u64 option"
  co_member_signature :: "string option"
  co_forced_gap :: "(string \<times> string) option"

datatype persistence_outcome = Initialized | ExactSample | Gap

record exact_persistence_result =
  ep_router_id :: i64
  ep_aggregate_interface_id :: i64
  ep_errors :: "string list"

type_synonym baselines = "i64 \<rightharpoonup> counter_baseline"

definition AGGREGATE_INTERFACE_KEY :: string where
  "AGGREGATE_INTERFACE_KEY = ''__aggregate__''"

definition EXACT_TRAFFIC_SOURCE :: string where
  "EXACT_TRAFFIC_SOURCE = ''routeros-counter''"

section \<open>Clocks\<close>

definition as_secs_f64 :: "nat \<Rightarrow> f64" where
  "as_secs_f64 nanos =
     f64_add (f64_of_int (int (nanos div 1000000000)))
       (f64_div (f64_of_int (int (nanos mod 1000000000))) (Finite 1000000000))"

definition estimated_boot_epoch :: "i64 \<Rightarrow> u64 option \<Rightarrow> i64 option" where
  "estimated_boot_epoch observed uptime =
     map_option (\<lambda>u. sat_sub (observed div 1000) (unwrap_or I64_MAX (i64_try_from (unat u)))) uptime"

definition boot_marker :: "i64 \<Rightarrow> u64 option \<Rightarrow> string option" where
  "boot_marker observed uptime =
     map_option (\<lambda>e. ''boot-epoch:'' @ show_int e) (estimated_boot_epoch observed uptime)"

definition sampling_clocks_are_consistent :: "i64 \<Rightarrow> nat \<Rightarrow> bool" where
  "sampling_clocks_are_consistent wall_elapsed_ms monotonic_elapsed =
     (if wall_elapsed_ms \<le> 0 \<or> monotonic_elapsed = 0 then False
      else let monotonic_ms = unwrap_or I64_MAX (i64_try_from (monotonic_elapsed div 1000000));
               difference = abs_diff wall_elapsed_ms monotonic_ms;
               tolerance = min U64_MAX (250 + nat \<bar>monotonic_ms\<bar> div 100)
           in difference \<le> tolerance)"

definition baseline_from_observation ::
  "counter_observation \<Rightarrow> string option \<Rightarrow> counter_baseline" where
  "baseline_from_observation obs marker =
     \<lparr>cb_rx_counter = co_rx_counter obs, cb_tx_counter = co_tx_counter obs,
      cb_observed_at_ms = co_observed_at_ms obs, cb_monotonic = co_monotonic obs,
      cb_uptime_seconds = co_uptime_seconds obs,
      cb_boot_epoch_seconds = estimated_boot_epoch (co_observed_at_ms obs) (co_uptime_seconds obs),
      cb_reboot_marker = marker, cb_member_signature = co_member_signature obs\<rparr>"

section \<open>Persisting one observation\<close>

definition checkpoint_of :: "counter_observation \<Rightarrow> string option \<Rightarrow> counter_checkpoint" where
  "checkpoint_of obs marker =
     \<lparr>cp_router_id = co_router_id obs, cp_interface_id = co_interface_id obs,
      cp_rx_counter = show_nat (unat (co_rx_counter obs)),
      cp_tx_counter = show_nat (unat (co_tx_counter obs)),
      cp_observed_at_ms = co_observed_at_ms obs, cp_reboot_marker = marker\<rparr>"

definition gap_of :: "counter_observation \<Rightarrow> i64 \<Rightarrow> string \<Rightarrow> string \<Rightarrow> traffic_gap_input" where
  "gap_of obs started reason details =
     \<lparr>tgi_router_id = co_router_id obs, tgi_interface_id = Some (co_interface_id obs),
      tgi_started_at_ms = started, tgi_ended_at_ms = co_observed_at_ms obs,
      tgi_reason = reason, tgi_details = Some details\<rparr>"

definition timestamp_error :: "i64 \<Rightarrow> string \<Rightarrow> i64 \<Rightarrow> db_error" where
  "timestamp_error observed what previous = Verification
     (''counter sample timestamp '' @ show_int observed @ '' does not advance '' @ what @ '' ''
      @ show_int previous)"

type_synonym persist_result = "persistence_outcome db_result \<times> traffic_db \<times> baselines"

definition commit_gap_step ::
  "traffic_db \<Rightarrow> baselines \<Rightarrow> counter_observation \<Rightarrow> string option \<Rightarrow> traffic_gap_input \<Rightarrow> persist_result" where
  "commit_gap_step db bl obs marker gap =
     (case commit_gap_and_checkpoint db gap (checkpoint_of obs marker) of
        (Inl e, db') \<Rightarrow> (Inl e, db', bl)
      | (Inr _, db') \<Rightarrow>
          (Inr Gap, db', bl(co_interface_id obs \<mapsto> baseline_from_observation obs marker)))"

text \<open>No baseline in this process: the first observation of an interface, or a restart.\<close>

definition persist_without_baseline ::
  "traffic_db \<Rightarrow> baselines \<Rightarrow> counter_observation \<Rightarrow> persist_result" where
  "persist_without_baseline db bl obs =
     (let marker = boot_marker (co_observed_at_ms obs) (co_uptime_seconds obs);
          checkpoint = checkpoint_of obs marker;
          bl' = bl(co_interface_id obs \<mapsto> baseline_from_observation obs marker) in
      case initialize_checkpoint_if_absent db checkpoint of
        (Inl e, db') \<Rightarrow> (Inl e, db', bl)
      | (Inr True, db') \<Rightarrow> (Inr Initialized, db', bl')
      | (Inr False, db') \<Rightarrow>
          (case get_counter_checkpoint db' (co_router_id obs) (co_interface_id obs) of
             None \<Rightarrow> (Inl (Verification
               ''counter checkpoint disappeared after initialization conflict''), db', bl)
           | Some existing \<Rightarrow>
               if co_observed_at_ms obs = cp_observed_at_ms existing
                  \<and> cp_rx_counter existing = cp_rx_counter checkpoint
                  \<and> cp_tx_counter existing = cp_tx_counter checkpoint
                  \<and> cp_reboot_marker existing = marker
               then (Inr Initialized, db', bl')
               else if co_observed_at_ms obs \<le> cp_observed_at_ms existing
               then (Inl (timestamp_error (co_observed_at_ms obs) ''checkpoint''
                       (cp_observed_at_ms existing)), db', bl)
               else commit_gap_step db' bl obs marker
                      (gap_of obs (cp_observed_at_ms existing) ''poller_discontinuity''
                        ''counter baseline was unavailable in the current process'')))"

definition observation_rates ::
  "counter_baseline \<Rightarrow> counter_observation \<Rightarrow> counter_rate \<times> counter_rate" where
  "observation_rates prev obs =
     (let elapsed_secs = as_secs_f64 (co_monotonic obs - cb_monotonic prev) in
      (calculate_counter_rate (Some (cb_rx_counter prev)) (co_rx_counter obs)
         (cb_uptime_seconds prev) (co_uptime_seconds obs) (Some elapsed_secs),
       calculate_counter_rate (Some (cb_tx_counter prev)) (co_tx_counter obs)
         (cb_uptime_seconds prev) (co_uptime_seconds obs) (Some elapsed_secs)))"

definition observation_rebooted :: "counter_baseline \<Rightarrow> counter_observation \<Rightarrow> bool" where
  "observation_rebooted prev obs \<longleftrightarrow>
     uptime_decreased (cb_uptime_seconds prev) (co_uptime_seconds obs) \<or>
     (case (cb_boot_epoch_seconds prev,
            estimated_boot_epoch (co_observed_at_ms obs) (co_uptime_seconds obs)) of
        (Some p, Some c) \<Rightarrow> 5 < abs_diff p c
      | _ \<Rightarrow> False)"

definition observation_marker :: "counter_baseline \<Rightarrow> counter_observation \<Rightarrow> string option" where
  "observation_marker prev obs =
     (let current = boot_marker (co_observed_at_ms obs) (co_uptime_seconds obs) in
      if observation_rebooted prev obs then current
      else case cb_reboot_marker prev of Some m \<Rightarrow> Some m | None \<Rightarrow> current)"

definition uptime_continuous :: "counter_baseline \<Rightarrow> counter_observation \<Rightarrow> bool" where
  "uptime_continuous prev obs \<longleftrightarrow> cb_uptime_seconds prev \<noteq> None \<and> co_uptime_seconds obs \<noteq> None"

definition wall_elapsed :: "counter_baseline \<Rightarrow> counter_observation \<Rightarrow> i64" where
  "wall_elapsed prev obs = sat_sub (co_observed_at_ms obs) (cb_observed_at_ms prev)"

definition clock_consistent :: "counter_baseline \<Rightarrow> counter_observation \<Rightarrow> bool" where
  "clock_consistent prev obs \<longleftrightarrow>
     sampling_clocks_are_consistent (wall_elapsed prev obs) (co_monotonic obs - cb_monotonic prev)"

text \<open>The deltas and rates of an exact sample, when both counters have one that SQLite can hold.\<close>

definition exact_deltas :: "counter_rate \<Rightarrow> counter_rate \<Rightarrow> (i64 \<times> i64 \<times> f64 \<times> f64) option" where
  "exact_deltas rx tx =
     (case (cr_delta_bytes rx, cr_delta_bytes tx, cr_bits_per_second rx, cr_bits_per_second tx) of
        (Some drx, Some dtx, Some brx, Some btx) \<Rightarrow>
          (case (i64_try_from (unat drx), i64_try_from (unat dtx)) of
             (Some d, Some u) \<Rightarrow> Some (d, u, brx, btx)
           | _ \<Rightarrow> None)
      | _ \<Rightarrow> None)"

definition gap_reason :: "counter_baseline \<Rightarrow> counter_observation \<Rightarrow> string \<times> string" where
  "gap_reason prev obs =
     (case observation_rates prev obs of (rx, tx) \<Rightarrow>
      if cb_member_signature prev \<noteq> co_member_signature obs
      then (''wan_membership_changed'', ''aggregate WAN interface membership changed'')
      else case co_forced_gap obs of Some forced \<Rightarrow> forced
      | None \<Rightarrow>
        if \<not> uptime_continuous prev obs
        then (''uptime_unavailable'', ''router uptime was unavailable for reboot detection'')
        else if observation_rebooted prev obs
        then (''router_rebooted'', ''router uptime decreased between samples'')
        else if \<not> clock_consistent prev obs
        then (''clock_discontinuity'', ''wall-clock and monotonic sample intervals diverged'')
        else if cr_transition rx = Reset \<or> cr_transition tx = Reset
        then (''counter_reset'', ''one or more interface counters decreased'')
        else if cr_transition rx = InvalidElapsed \<or> cr_transition tx = InvalidElapsed
        then (''invalid_elapsed'', ''counter sample elapsed time was invalid'')
        else (''counter_discontinuity'',
              ''counter delta could not be represented as an exact SQLite integer''))"

text \<open>The exact sample of an observation, when every condition for one holds.\<close>

definition exact_sample :: "counter_baseline \<Rightarrow> counter_observation \<Rightarrow> traffic_sample_input option" where
  "exact_sample prev obs =
     (if cb_member_signature prev = co_member_signature obs \<and> co_forced_gap obs = None
         \<and> \<not> observation_rebooted prev obs \<and> uptime_continuous prev obs \<and> clock_consistent prev obs
      then map_option (\<lambda>(download_bytes, upload_bytes, download_bps, upload_bps).
        \<lparr>tsi_router_id = co_router_id obs, tsi_interface_id = co_interface_id obs,
         tsi_started_at_ms = cb_observed_at_ms prev, tsi_ended_at_ms = co_observed_at_ms obs,
         tsi_duration_ms = wall_elapsed prev obs, tsi_download_bytes = download_bytes,
         tsi_upload_bytes = upload_bytes, tsi_download_bps = download_bps,
         tsi_upload_bps = upload_bps, tsi_quality = Exact, tsi_source = EXACT_TRAFFIC_SOURCE\<rparr>)
        (exact_deltas (fst (observation_rates prev obs)) (snd (observation_rates prev obs)))
      else None)"

definition persist_with_baseline ::
  "traffic_db \<Rightarrow> baselines \<Rightarrow> counter_observation \<Rightarrow> counter_baseline \<Rightarrow> persist_result" where
  "persist_with_baseline db bl obs prev =
     (if co_observed_at_ms obs \<le> cb_observed_at_ms prev
      then (Inl (timestamp_error (co_observed_at_ms obs) ''baseline'' (cb_observed_at_ms prev)), db, bl)
      else let marker = observation_marker prev obs in
        case exact_sample prev obs of
          Some sample \<Rightarrow>
            (case commit_sample_and_checkpoint db sample (checkpoint_of obs marker) of
               (Inl e, db') \<Rightarrow> (Inl e, db', bl)
             | (Inr _, db') \<Rightarrow> (Inr ExactSample, db',
                 bl(co_interface_id obs \<mapsto> baseline_from_observation obs marker)))
        | None \<Rightarrow>
            commit_gap_step db bl obs marker
              (gap_of obs (cb_observed_at_ms prev) (fst (gap_reason prev obs)) (snd (gap_reason prev obs))))"

definition persist_counter_observation ::
  "traffic_db \<Rightarrow> baselines \<Rightarrow> counter_observation \<Rightarrow> persist_result" where
  "persist_counter_observation db bl obs =
     (case bl (co_interface_id obs) of
        None \<Rightarrow> persist_without_baseline db bl obs
      | Some prev \<Rightarrow> persist_with_baseline db bl obs prev)"

section \<open>Rates of an exact sample are finite\<close>

lemma f64_add_FiniteD:
  "f64_add a b = Finite x \<Longrightarrow> \<exists>u v. a = Finite u \<and> b = Finite v \<and> x = rnd (u + v)"
  by (cases "(a, b)" rule: f64_add.cases) (auto simp: to_f64_def Let_def split: if_splits)

lemma to_f64_FiniteD: "to_f64 y = Finite x \<Longrightarrow> x = rnd y"
  by (auto simp: to_f64_def Let_def split: if_splits)

text \<open>A positive duration is at least a nanosecond, also after rounding.\<close>

lemma as_secs_f64_lower:
  assumes "as_secs_f64 n = Finite x" and "0 < n"
  shows "pow2 (- 30) \<le> x"
proof -
  let ?s = "n div 1000000000" and ?m = "n mod 1000000000"
  obtain u v where u: "f64_of_int (int ?s) = Finite u"
    and v: "f64_div (f64_of_int (int ?m)) (Finite 1000000000) = Finite v" and x: "x = rnd (u + v)"
    using f64_add_FiniteD[OF assms(1)[unfolded as_secs_f64_def]] by blast
  have u': "u = rnd (of_int (int ?s))" by (rule to_f64_FiniteD[OF u[unfolded f64_of_int_def]])
  have m: "f64_of_int (int ?m) = Finite (of_int (int ?m))"
    by (rule f64_of_int_small) (simp add: less_trans[OF mod_less_divisor])
  have v': "v = rnd (of_int (int ?m) / 1000000000)"
    using v unfolding m by (simp add: to_f64_FiniteD)
  have nn: "0 \<le> u" "0 \<le> v" unfolding u' v' by (rule rnd_nonneg; simp)+
  have "pow2 (- 30) \<le> u + v"
  proof (cases "?s = 0")
    case True
    then have "0 < ?m" using assms(2) by (metis div_mult_mod_eq add_0 mult_0 )
    then have "1 \<le> (of_int (int ?m) :: rat)" by simp
    then have "pow2 (- 30) \<le> of_int (int ?m) / 1000000000" by (simp add: pow2_def)
    then have "pow2 (- 30) \<le> v" unfolding v' by (rule rnd_ge_pow2) simp
    then show ?thesis using nn by linarith
  next
    case False
    then have "1 \<le> (of_int (int ?s) :: rat)" by simp
    then have "pow2 0 \<le> of_int (int ?s)" by (simp add: pow2_def)
    then have "pow2 0 \<le> u" unfolding u' by (rule rnd_ge_pow2) simp
    then show ?thesis using nn pow2_mono[of "- 30" 0] by linarith
  qed
  then show ?thesis unfolding x by (rule rnd_ge_pow2) simp
qed

lemma f64_of_u64_bound: "\<exists>a. f64_of_u64 w = Finite a \<and> 0 \<le> a \<and> a \<le> pow2 64"
proof -
  have lt: "uint w < 2 ^ 64" using uint_lt2p[of w] by simp
  have "(of_int (uint w) :: rat) < of_int (2 ^ 64)" using lt by (simp only: of_int_less_iff)
  then have le: "(of_int (uint w) :: rat) \<le> pow2 64" by (simp add: pow2_def)
  have nn: "0 \<le> (of_int (uint w) :: rat)" by (simp only: of_int_0_le_iff uint_ge_0)
  have "(of_int (uint w) :: rat) \<le> pow2 1023" by (rule order_trans[OF le pow2_mono]) simp
  from to_f64_finite[OF nn this] show ?thesis
    unfolding f64_of_u64_def f64_of_int_def using rnd_le_pow2[OF nn le] by simp
qed

lemma rate_value_finite:
  assumes "pow2 (- 30) \<le> x"
  shows "is_finite (f64_div (f64_mul (f64_of_u64 w) (Finite 8)) (Finite x))"
proof -
  obtain a where a: "f64_of_u64 w = Finite a" "0 \<le> a" "a \<le> pow2 64"
    using f64_of_u64_bound by blast
  have x: "0 < x" using assms pow2_pos[of "- 30"] by linarith
  have 8: "pow2 64 * 8 = pow2 67" by (simp add: pow2_def)
  have a8: "a * 8 \<le> pow2 67" "0 \<le> a * 8" using a 8 by linarith+
  have "a * 8 \<le> pow2 1023" by (rule order_trans[OF a8(1) pow2_mono]) simp
  note m = to_f64_finite[OF a8(2) this]
  have r: "rnd (a * 8) \<le> pow2 67" by (rule rnd_le_pow2[OF a8(2,1)]) simp
  have "rnd (a * 8) / x \<le> pow2 67 / pow2 (- 30)"
    using r m(2) assms by (intro frac_le) auto
  also have "\<dots> = pow2 97" by (simp add: pow2_def)
  also have "\<dots> \<le> pow2 1023" by (rule pow2_mono) simp
  finally have "rnd (a * 8) / x \<le> pow2 1023" .
  moreover have "0 \<le> rnd (a * 8) / x" using m(2) x by simp
  ultimately show ?thesis
    using to_f64_finite[of "rnd (a * 8) / x"] m(1) a(1) x by simp
qed

lemma observation_rate_finite:
  assumes "cr_bits_per_second (calculate_counter_rate p c pu cu (Some (as_secs_f64 n))) = Some r"
    and "0 < n"
  shows "is_finite r"
  using assms(1)
proof (rule rate_bps_shape)
  fix delta x
  assume "Some (as_secs_f64 n) = Some (Finite x)"
    and r: "r = f64_div (f64_mul (f64_of_u64 delta) (Finite 8)) (Finite x)"
  then have "pow2 (- 30) \<le> x" using as_secs_f64_lower assms(2) by simp
  then show "is_finite r" unfolding r by (rule rate_value_finite)
qed

section \<open>The sample an observation makes\<close>

lemma exact_deltas_Some_iff:
  "exact_deltas rx tx = Some (d, u, brx, btx) \<longleftrightarrow>
   (\<exists>drx dtx. cr_delta_bytes rx = Some drx \<and> cr_delta_bytes tx = Some dtx \<and>
      cr_bits_per_second rx = Some brx \<and> cr_bits_per_second tx = Some btx \<and>
      i64_try_from (unat drx) = Some d \<and> i64_try_from (unat dtx) = Some u)"
  by (auto simp: exact_deltas_def split: option.splits)

lemma exact_sample_SomeD:
  assumes "exact_sample prev obs = Some s"
  shows "tsi_router_id s = co_router_id obs" "tsi_interface_id s = co_interface_id obs"
    "tsi_started_at_ms s = cb_observed_at_ms prev" "tsi_ended_at_ms s = co_observed_at_ms obs"
    "tsi_duration_ms s = wall_elapsed prev obs" "tsi_source s = EXACT_TRAFFIC_SOURCE"
    "tsi_quality s = Exact"
    "tsi_download_bytes s = int (unat (co_rx_counter obs - cb_rx_counter prev))"
    "tsi_upload_bytes s = int (unat (co_tx_counter obs - cb_tx_counter prev))"
    "is_finite (tsi_download_bps s)" "is_finite (tsi_upload_bps s)"
    "f64_le (Finite 0) (tsi_download_bps s)" "f64_le (Finite 0) (tsi_upload_bps s)"
    "\<not> observation_rebooted prev obs" "clock_consistent prev obs"
    "cb_member_signature prev = co_member_signature obs" "co_forced_gap obs = None"
    "uptime_continuous prev obs"
proof -
  let ?n = "co_monotonic obs - cb_monotonic prev"
  obtain d u brx btx where
    conds: "cb_member_signature prev = co_member_signature obs" "co_forced_gap obs = None"
      "\<not> observation_rebooted prev obs" "uptime_continuous prev obs" "clock_consistent prev obs"
    and ex: "exact_deltas (fst (observation_rates prev obs)) (snd (observation_rates prev obs))
        = Some (d, u, brx, btx)"
    and s: "s = \<lparr>tsi_router_id = co_router_id obs, tsi_interface_id = co_interface_id obs,
         tsi_started_at_ms = cb_observed_at_ms prev, tsi_ended_at_ms = co_observed_at_ms obs,
         tsi_duration_ms = wall_elapsed prev obs, tsi_download_bytes = d,
         tsi_upload_bytes = u, tsi_download_bps = brx,
         tsi_upload_bps = btx, tsi_quality = Exact, tsi_source = EXACT_TRAFFIC_SOURCE\<rparr>"
    using assms by (auto simp: exact_sample_def split: if_splits)
  have n: "0 < ?n"
    using conds(5) by (auto simp: clock_consistent_def sampling_clocks_are_consistent_def split: if_splits)
  obtain drx dtx where dd: "cr_delta_bytes (fst (observation_rates prev obs)) = Some drx"
      "cr_delta_bytes (snd (observation_rates prev obs)) = Some dtx"
      "cr_bits_per_second (fst (observation_rates prev obs)) = Some brx"
      "cr_bits_per_second (snd (observation_rates prev obs)) = Some btx"
      "i64_try_from (unat drx) = Some d" "i64_try_from (unat dtx) = Some u"
    using ex unfolding exact_deltas_Some_iff by blast
  have "drx = co_rx_counter obs - cb_rx_counter prev" "dtx = co_tx_counter obs - cb_tx_counter prev"
    using dd(1,2) by (auto simp: observation_rates_def Let_def rate_delta_iff)
  then have du: "d = int (unat (co_rx_counter obs - cb_rx_counter prev))"
    "u = int (unat (co_tx_counter obs - cb_tx_counter prev))"
    using dd(5,6) i64_try_from_SomeD by blast+
  have "is_finite brx" "is_finite btx" "f64_le (Finite 0) brx" "f64_le (Finite 0) btx"
    using dd(3,4) observation_rate_finite[OF _ n] rate_bps_nonneg
    by (auto simp: observation_rates_def Let_def)
  then show "is_finite (tsi_download_bps s)" "is_finite (tsi_upload_bps s)"
    "f64_le (Finite 0) (tsi_download_bps s)" "f64_le (Finite 0) (tsi_upload_bps s)"
    by (simp_all add: s)
qed (use assms in \<open>auto simp: exact_sample_def exact_deltas_Some_iff observation_rates_def Let_def
      rate_delta_iff dest: i64_try_from_SomeD split: if_splits\<close>)

section \<open>The timeline of an interface\<close>

text \<open>How many samples and gaps of an interface cover the millisecond \<open>t\<close>.\<close>

definition covering :: "traffic_db \<Rightarrow> i64 \<Rightarrow> i64 \<Rightarrow> i64 \<Rightarrow> nat" where
  "covering db r i t =
     length (filter (\<lambda>s. sm_router_id s = r \<and> sm_interface_id s = i \<and>
        sm_started_at_ms s \<le> t \<and> t < sm_ended_at_ms s) (traffic_samples db))
   + length (filter (\<lambda>g. gp_router_id g = r \<and> gp_interface_id g = Some i \<and>
        gp_started_at_ms g \<le> t \<and> t < gp_ended_at_ms g) (traffic_gaps db))"

text \<open>From \<open>t0\<close> to \<open>t1\<close> the samples and gaps follow each other without hole and without overlap.\<close>

definition tiles :: "traffic_db \<Rightarrow> i64 \<Rightarrow> i64 \<Rightarrow> i64 \<Rightarrow> i64 \<Rightarrow> bool" where
  "tiles db r i t0 t1 \<longleftrightarrow> t0 \<le> t1 \<and>
     (\<forall>t. covering db r i t = (if t0 \<le> t \<and> t < t1 then 1 else 0))"

definition recorded :: "traffic_db \<Rightarrow> i64 \<Rightarrow> i64 \<Rightarrow> bool" where
  "recorded db r i \<longleftrightarrow>
     (case checkpoint_for_connection db r i of
        None \<Rightarrow> \<forall>t. covering db r i t = 0
      | Some c \<Rightarrow> \<exists>t0. tiles db r i t0 (cp_observed_at_ms c))"

definition owned_checkpoints :: "traffic_db \<Rightarrow> bool" where
  "owned_checkpoints db \<longleftrightarrow>
     (\<forall>r i c. checkpoint_for_connection db r i = Some c \<longrightarrow>
        owns_interface db r i \<and> in_i64 (cp_observed_at_ms c))"

definition baselines_match :: "traffic_db \<Rightarrow> baselines \<Rightarrow> bool" where
  "baselines_match db bl \<longleftrightarrow>
     (\<forall>i b. bl i = Some b \<longrightarrow> (\<exists>r c. checkpoint_for_connection db r i = Some c \<and>
        cp_observed_at_ms c = cb_observed_at_ms b \<and>
        cp_rx_counter c = show_nat (unat (cb_rx_counter b)) \<and>
        cp_tx_counter c = show_nat (unat (cb_tx_counter b))))"

definition persist_inv :: "traffic_db \<Rightarrow> baselines \<Rightarrow> bool" where
  "persist_inv db bl \<longleftrightarrow> db_wf db \<and> owned_checkpoints db \<and> (\<forall>r i. recorded db r i) \<and>
     baselines_match db bl"

definition observation_ok :: "traffic_db \<Rightarrow> counter_observation \<Rightarrow> bool" where
  "observation_ok db obs \<longleftrightarrow>
     owns_interface db (co_router_id obs) (co_interface_id obs) \<and> in_i64 (co_observed_at_ms obs) \<and>
     (case co_forced_gap obs of None \<Rightarrow> True | Some (reason, _) \<Rightarrow> trim reason \<noteq> [])"

lemma covering_put [simp]: "covering (put_checkpoint db c) = covering db"
  by (simp add: covering_def fun_eq_iff)

lemma covering_append_sample:
  "covering (append_sample db s) r i t = covering db r i t +
     (if tsi_router_id s = r \<and> tsi_interface_id s = i \<and> tsi_started_at_ms s \<le> t \<and>
         t < tsi_ended_at_ms s then 1 else 0)"
  by (simp add: covering_def new_sample_row_def)

lemma covering_append_gap:
  "covering (append_gap db g) r i t = covering db r i t +
     (if tgi_router_id g = r \<and> tgi_interface_id g = Some i \<and> tgi_started_at_ms g \<le> t \<and>
         t < tgi_ended_at_ms g then 1 else 0)"
  by (simp add: covering_def new_gap_row_def)

lemma owner_unique:
  assumes "wf_interfaces db" "owns_interface db r i" "owns_interface db r' i"
  shows "r' = r"
proof -
  have inj: "inj_on ri_id (set (router_interfaces db))"
    using assms(1) by (simp add: wf_interfaces_def distinct_map)
  show ?thesis using assms(2,3) inj by (auto simp: owns_interface_def list_ex_iff inj_on_def)
qed

lemma sample_covered:
  assumes "s \<in> set (traffic_samples db)" "sm_started_at_ms s < sm_ended_at_ms s"
  shows "0 < covering db (sm_router_id s) (sm_interface_id s) (sm_ended_at_ms s - 1)"
proof -
  have "filter (\<lambda>x. sm_router_id x = sm_router_id s \<and> sm_interface_id x = sm_interface_id s \<and>
        sm_started_at_ms x \<le> sm_ended_at_ms s - 1 \<and> sm_ended_at_ms s - 1 < sm_ended_at_ms x)
        (traffic_samples db) \<noteq> []"
    using assms by (auto simp: filter_empty_conv intro!: bexI[of _ s])
  then show ?thesis by (simp add: covering_def)
qed

lemma gap_covered:
  assumes "g \<in> set (traffic_gaps db)" "gp_started_at_ms g < gp_ended_at_ms g"
    "gp_interface_id g = Some i"
  shows "0 < covering db (gp_router_id g) i (gp_ended_at_ms g - 1)"
proof -
  have "filter (\<lambda>x. gp_router_id x = gp_router_id g \<and> gp_interface_id x = Some i \<and>
        gp_started_at_ms x \<le> gp_ended_at_ms g - 1 \<and> gp_ended_at_ms g - 1 < gp_ended_at_ms x)
        (traffic_gaps db) \<noteq> []"
    using assms by (auto simp: filter_empty_conv intro!: bexI[of _ g])
  then show ?thesis by (simp add: covering_def)
qed

text \<open>A recorded interface has nothing that ends after its checkpoint.\<close>

lemma recorded_bound:
  assumes "recorded db r i" "0 < covering db r i t"
  shows "\<exists>c. checkpoint_for_connection db r i = Some c \<and> t < cp_observed_at_ms c"
  using assms by (auto simp: recorded_def tiles_def split: option.splits if_splits)

lemma recorded_cong:
  assumes "checkpoint_for_connection db' r i = checkpoint_for_connection db r i"
    and "\<And>t. covering db' r i t = covering db r i t" and "recorded db r i"
  shows "recorded db' r i"
proof -
  have "tiles db' r i = tiles db r i" by (simp add: tiles_def fun_eq_iff assms(2))
  then show ?thesis using assms by (cases "checkpoint_for_connection db r i") (auto simp: recorded_def)
qed

lemma no_duplicate_sample:
  assumes "persist_inv db bl" "checkpoint_for_connection db r i = Some c"
    "tsi_router_id s = r" "tsi_interface_id s = i" "cp_observed_at_ms c < tsi_ended_at_ms s"
  shows "find_sample db s = None"
proof (rule ccontr)
  assume "find_sample db s \<noteq> None"
  then obtain x where x: "x \<in> set (traffic_samples db)" "sample_key x = (r, i, tsi_ended_at_ms s, tsi_source s)"
    using assms(3,4) by (auto simp: find_sample_def dest: find_SomeD)
  then have k: "sm_router_id x = r" "sm_interface_id x = i" "sm_ended_at_ms x = tsi_ended_at_ms s"
    by (auto simp: sample_key_def)
  have "sm_started_at_ms x < sm_ended_at_ms x"
    using assms(1) x(1) by (auto simp: persist_inv_def db_wf_def wf_samples_def sample_checks_def)
  from sample_covered[OF x(1) this] have "0 < covering db r i (tsi_ended_at_ms s - 1)" by (simp add: k)
  moreover have "recorded db r i" using assms(1) by (simp add: persist_inv_def)
  ultimately have "tsi_ended_at_ms s - 1 < cp_observed_at_ms c"
    using recorded_bound assms(2) by fastforce
  then show False using assms(5) by linarith
qed

lemma no_duplicate_gap:
  assumes "persist_inv db bl" "checkpoint_for_connection db r i = Some c"
    "tgi_router_id g = r" "tgi_interface_id g = Some i" "cp_observed_at_ms c < tgi_ended_at_ms g"
  shows "gap_details_for_connection db g = None"
proof (rule ccontr)
  assume "gap_details_for_connection db g \<noteq> None"
  then obtain x where x: "x \<in> set (traffic_gaps db)" "gap_key x = (r, Some i, tgi_started_at_ms g,
      tgi_ended_at_ms g, tgi_reason g)"
    using assms(3,4) by (auto simp: gap_details_for_connection_def dest: find_SomeD)
  then have k: "gp_router_id x = r" "gp_interface_id x = Some i" "gp_ended_at_ms x = tgi_ended_at_ms g"
    by (auto simp: gap_key_def)
  have "gp_started_at_ms x < gp_ended_at_ms x"
    using assms(1) x(1) by (auto simp: persist_inv_def db_wf_def wf_gaps_def gap_checks_def)
  from gap_covered[OF x(1) this k(2)] have "0 < covering db r i (tgi_ended_at_ms g - 1)" by (simp add: k)
  moreover have "recorded db r i" using assms(1) by (simp add: persist_inv_def)
  ultimately have "tgi_ended_at_ms g - 1 < cp_observed_at_ms c"
    using recorded_bound assms(2) by fastforce
  then show False using assms(5) by linarith
qed

section \<open>One observation preserves the timeline\<close>

lemma tiles_extend:
  assumes "tiles db r i t0 t1" "t1 < t2"
    and "\<And>t. covering db' r i t = covering db r i t + (if t1 \<le> t \<and> t < t2 then 1 else 0)"
  shows "tiles db' r i t0 t2"
  using assms by (auto simp: tiles_def)

text \<open>The common part of a sample and of a gap: an interval from the old checkpoint to the
  new one is added, and the checkpoint moves.\<close>

lemma advance_inv:
  assumes inv: "persist_inv db bl" and own: "owns_interface db r i"
    and old: "checkpoint_for_connection db r i = Some old" and adv: "cp_observed_at_ms old < cp_observed_at_ms c"
    and rng: "in_i64 (cp_observed_at_ms c)" and key: "checkpoint_key c = (r, i)"
    and cov: "\<And>r' i' t. covering db1 r' i' t = covering db r' i' t +
        (if r' = r \<and> i' = i \<and> cp_observed_at_ms old \<le> t \<and> t < cp_observed_at_ms c then 1 else 0)"
    and same: "checkpoint_for_connection db1 = checkpoint_for_connection db"
      "owns_interface db1 = owns_interface db"
    and wf: "db_wf (put_checkpoint db1 c)"
    and b: "cb_observed_at_ms b = cp_observed_at_ms c"
      "show_nat (unat (cb_rx_counter b)) = cp_rx_counter c"
      "show_nat (unat (cb_tx_counter b)) = cp_tx_counter c"
  shows "persist_inv (put_checkpoint db1 c) (bl(i \<mapsto> b))"
proof -
  let ?d = "put_checkpoint db1 c"
  have cp: "checkpoint_for_connection ?d r' i' =
      (if r' = r \<and> i' = i then Some c else checkpoint_for_connection db r' i')" for r' i'
    using key same by (auto simp: checkpoint_for_put)
  have "owned_checkpoints ?d"
    using inv own rng by (auto simp: persist_inv_def owned_checkpoints_def cp same)
  moreover have "recorded ?d r' i'" for r' i'
  proof (cases "r' = r \<and> i' = i")
    case True
    obtain t0 where "tiles db r i t0 (cp_observed_at_ms old)"
      using inv old by (auto simp: persist_inv_def recorded_def split: option.splits)
        (metis option.simps(5))
    then have "tiles ?d r i t0 (cp_observed_at_ms c)"
      by (rule tiles_extend[OF _ adv]) (simp add: cov)
    then show ?thesis using True by (auto simp: recorded_def cp)
  next
    case False
    show ?thesis
      by (rule recorded_cong[of _ _ _ db])
        (use inv False cov[of r' i'] in \<open>auto simp: persist_inv_def cp\<close>)
  qed
  moreover have "baselines_match ?d (bl(i \<mapsto> b))"
    unfolding baselines_match_def
  proof (intro allI impI)
    fix i' b' assume bl: "(bl(i \<mapsto> b)) i' = Some b'"
    show "\<exists>r c. checkpoint_for_connection ?d r i' = Some c \<and> cp_observed_at_ms c = cb_observed_at_ms b' \<and>
        cp_rx_counter c = show_nat (unat (cb_rx_counter b')) \<and> cp_tx_counter c = show_nat (unat (cb_tx_counter b'))"
    proof (cases "i' = i")
      case True
      then show ?thesis using bl b cp[of r i] by (intro exI[of _ r]) simp
    next
      case False
      then have "bl i' = Some b'" using bl by simp
      then show ?thesis
        using inv False unfolding persist_inv_def baselines_match_def by (simp add: cp)
    qed
  qed
  ultimately show ?thesis using wf by (simp add: persist_inv_def)
qed

lemma valid_counter_show [simp]: "valid_counter (show_nat n)"
  by (simp add: valid_counter_def show_nat_digits)

lemma validate_checkpoint_of [simp]: "validate_checkpoint (checkpoint_of obs marker) = Inr ()"
  by (simp add: validate_checkpoint_Inr_iff checkpoint_of_def)

lemma checkpoint_of_simps [simp]:
  "cp_router_id (checkpoint_of obs m) = co_router_id obs"
  "cp_interface_id (checkpoint_of obs m) = co_interface_id obs"
  "cp_observed_at_ms (checkpoint_of obs m) = co_observed_at_ms obs"
  "cp_rx_counter (checkpoint_of obs m) = show_nat (unat (co_rx_counter obs))"
  "cp_tx_counter (checkpoint_of obs m) = show_nat (unat (co_tx_counter obs))"
  "cp_reboot_marker (checkpoint_of obs m) = m"
  "checkpoint_key (checkpoint_of obs m) = (co_router_id obs, co_interface_id obs)"
  by (simp_all add: checkpoint_of_def checkpoint_key_def)

lemma baseline_simps [simp]:
  "cb_observed_at_ms (baseline_from_observation obs m) = co_observed_at_ms obs"
  "cb_rx_counter (baseline_from_observation obs m) = co_rx_counter obs"
  "cb_tx_counter (baseline_from_observation obs m) = co_tx_counter obs"
  by (simp_all add: baseline_from_observation_def)

lemma gap_of_simps [simp]:
  "tgi_router_id (gap_of obs a b c) = co_router_id obs"
  "tgi_interface_id (gap_of obs a b c) = Some (co_interface_id obs)"
  "tgi_started_at_ms (gap_of obs a b c) = a" "tgi_ended_at_ms (gap_of obs a b c) = co_observed_at_ms obs"
  "tgi_reason (gap_of obs a b c) = b"
  by (simp_all add: gap_of_def)

lemma gap_reason_nonblank:
  "observation_ok db obs \<Longrightarrow> trim (fst (gap_reason prev obs)) \<noteq> []"
  by (auto simp: gap_reason_def observation_ok_def trim_def is_whitespace_def
      split: option.splits prod.splits if_splits)

text \<open>A gap from the stored checkpoint to a later observation is always accepted.\<close>

lemma commit_gap_step_ok:
  fixes details :: string
  assumes inv: "persist_inv db bl" and ok: "observation_ok db obs"
    and old: "checkpoint_for_connection db (co_router_id obs) (co_interface_id obs) = Some old"
    and adv: "cp_observed_at_ms old < co_observed_at_ms obs" and reason: "trim reason \<noteq> []"
  defines "gap \<equiv> gap_of obs (cp_observed_at_ms old) reason details"
  shows "commit_gap_step db bl obs m gap = (Inr Gap, put_checkpoint (append_gap db gap) (checkpoint_of obs m),
      bl(co_interface_id obs \<mapsto> baseline_from_observation obs m))"
    and "persist_inv (put_checkpoint (append_gap db gap) (checkpoint_of obs m))
      (bl(co_interface_id obs \<mapsto> baseline_from_observation obs m))"
proof -
  have own: "owns_interface db (co_router_id obs) (co_interface_id obs)" and
    rng: "in_i64 (co_observed_at_ms obs)"
    using ok by (auto simp: observation_ok_def)
  have new: "gap_details_for_connection db gap = None"
    by (rule no_duplicate_gap[OF inv old]) (simp_all add: gap_def adv)
  have commit: "commit_gap_and_checkpoint db gap (checkpoint_of obs m) =
      (Inr True, put_checkpoint (append_gap db gap) (checkpoint_of obs m))"
    by (rule commit_gap_succeeds)
      (use inv own new adv reason old in \<open>auto simp: persist_inv_def validate_gap_Inr_iff gap_refers_to_def gap_def\<close>)
  then show "commit_gap_step db bl obs m gap = (Inr Gap, put_checkpoint (append_gap db gap) (checkpoint_of obs m),
      bl(co_interface_id obs \<mapsto> baseline_from_observation obs m))"
    by (simp add: commit_gap_step_def)
  have wf: "db_wf (put_checkpoint (append_gap db gap) (checkpoint_of obs m))"
    using inv commit commit_gap_wf by (auto simp: persist_inv_def)
  show "persist_inv (put_checkpoint (append_gap db gap) (checkpoint_of obs m))
      (bl(co_interface_id obs \<mapsto> baseline_from_observation obs m))"
    by (rule advance_inv[OF inv own old]) (use adv rng wf in \<open>auto simp: covering_append_gap gap_def\<close>)
qed

lemma commit_exact_ok:
  assumes inv: "persist_inv db bl" and ok: "observation_ok db obs"
    and old: "checkpoint_for_connection db (co_router_id obs) (co_interface_id obs) = Some old"
    and prev: "cp_observed_at_ms old = cb_observed_at_ms prev"
    and adv: "cb_observed_at_ms prev < co_observed_at_ms obs"
    and s: "exact_sample prev obs = Some s"
  shows "commit_sample_and_checkpoint db s (checkpoint_of obs m) =
      (Inr True, put_checkpoint (append_sample db s) (checkpoint_of obs m))"
    and "persist_inv (put_checkpoint (append_sample db s) (checkpoint_of obs m))
      (bl(co_interface_id obs \<mapsto> baseline_from_observation obs m))"
proof -
  note f = exact_sample_SomeD[OF s]
  have own: "owns_interface db (co_router_id obs) (co_interface_id obs)" and
    rng: "in_i64 (co_observed_at_ms obs)" "in_i64 (cb_observed_at_ms prev)"
    using ok old inv prev[symmetric] by (auto simp: observation_ok_def persist_inv_def owned_checkpoints_def)
  have nl: "\<not> f64_less a (Finite 0)" if "f64_le (Finite 0) a" for a
    using that by (auto simp: f64_le_0_iff)
  have valid: "validate_sample s = Inr ()"
    using f adv nl by (simp add: validate_sample_Inr_iff wall_elapsed_def EXACT_TRAFFIC_SOURCE_def
        trim_def is_whitespace_def)
  have new: "find_sample db s = None"
    by (rule no_duplicate_sample[OF inv old]) (use f adv prev in simp_all)
  show commit: "commit_sample_and_checkpoint db s (checkpoint_of obs m) =
      (Inr True, put_checkpoint (append_sample db s) (checkpoint_of obs m))"
    by (rule commit_sample_succeeds)
      (use inv own valid new f rng adv prev old in \<open>auto simp: persist_inv_def sample_refers_to_def\<close>)
  have wf: "db_wf (put_checkpoint (append_sample db s) (checkpoint_of obs m))"
    using inv commit commit_sample_wf by (auto simp: persist_inv_def)
  show "persist_inv (put_checkpoint (append_sample db s) (checkpoint_of obs m))
      (bl(co_interface_id obs \<mapsto> baseline_from_observation obs m))"
    by (rule advance_inv[OF inv own old])
      (use adv rng wf f prev in \<open>auto simp: covering_append_sample\<close>)
qed

lemma initialize_ok:
  assumes inv: "persist_inv db bl" and ok: "observation_ok db obs"
    and none: "checkpoint_for_connection db (co_router_id obs) (co_interface_id obs) = None"
  shows "initialize_checkpoint_if_absent db (checkpoint_of obs m) =
      (Inr True, put_checkpoint db (checkpoint_of obs m))"
    and "persist_inv (put_checkpoint db (checkpoint_of obs m))
      (bl(co_interface_id obs \<mapsto> baseline_from_observation obs m))"
proof -
  let ?c = "checkpoint_of obs m" and ?r = "co_router_id obs" and ?i = "co_interface_id obs"
  have own: "owns_interface db ?r ?i" and rng: "in_i64 (co_observed_at_ms obs)"
    using ok by (auto simp: observation_ok_def)
  then have ex: "router_exists db ?r" "interface_exists db ?i"
    using inv owns_interface_exists by (auto simp: persist_inv_def db_wf_def)
  have nk: "(?r, ?i) \<notin> checkpoint_key ` set (counter_checkpoints db)"
    using none by (auto simp: checkpoint_for_key find_None_iff)
  show init: "initialize_checkpoint_if_absent db ?c = (Inr True, put_checkpoint db ?c)"
    using ex own nk by (simp add: initialize_checkpoint_if_absent_def ensure_interface_owner_def
        insert_checkpoint_or_ignore_def put_checkpoint_def)
  have cp: "checkpoint_for_connection (put_checkpoint db ?c) r' i' =
      (if r' = ?r \<and> i' = ?i then Some ?c else checkpoint_for_connection db r' i')" for r' i'
    by (auto simp: checkpoint_for_put)
  have rec: "recorded (put_checkpoint db ?c) r' i'" for r' i'
  proof (cases "r' = ?r \<and> i' = ?i")
    case True
    have "recorded db ?r ?i" using inv by (simp add: persist_inv_def)
    then have "\<forall>t. covering db ?r ?i t = 0" using none by (simp add: recorded_def)
    then have "tiles (put_checkpoint db ?c) ?r ?i (co_observed_at_ms obs) (co_observed_at_ms obs)"
      by (simp add: tiles_def)
    then show ?thesis using True by (auto simp: recorded_def cp)
  next
    case False
    show ?thesis
      by (rule recorded_cong[of _ _ _ db]) (use inv False in \<open>auto simp: persist_inv_def cp\<close>)
  qed
  have "baselines_match (put_checkpoint db ?c) (bl(?i \<mapsto> baseline_from_observation obs m))"
    unfolding baselines_match_def
  proof (intro allI impI)
    fix i' b' assume b': "(bl(?i \<mapsto> baseline_from_observation obs m)) i' = Some b'"
    show "\<exists>r c. checkpoint_for_connection (put_checkpoint db ?c) r i' = Some c \<and>
        cp_observed_at_ms c = cb_observed_at_ms b' \<and> cp_rx_counter c = show_nat (unat (cb_rx_counter b')) \<and>
        cp_tx_counter c = show_nat (unat (cb_tx_counter b'))"
    proof (cases "i' = ?i")
      case True
      then show ?thesis using b' by (intro exI[of _ ?r] exI[of _ ?c]) (auto simp: cp)
    next
      case False
      then show ?thesis
        using b' inv unfolding persist_inv_def baselines_match_def by (simp add: cp)
    qed
  qed
  moreover have "db_wf (put_checkpoint db ?c)"
    using inv init initialize_checkpoint_wf by (auto simp: persist_inv_def)
  moreover have "owned_checkpoints (put_checkpoint db ?c)"
    using inv own rng by (simp add: persist_inv_def owned_checkpoints_def cp)
  ultimately show "persist_inv (put_checkpoint db ?c) (bl(?i \<mapsto> baseline_from_observation obs m))"
    using rec by (simp add: persist_inv_def)
qed

section \<open>The outcome of every observation\<close>

definition checkpoint_reached :: "traffic_db \<Rightarrow> counter_observation \<Rightarrow> bool" where
  "checkpoint_reached db obs \<longleftrightarrow>
     (\<exists>c. checkpoint_for_connection db (co_router_id obs) (co_interface_id obs) = Some c \<and>
        cp_observed_at_ms c = co_observed_at_ms obs \<and>
        cp_rx_counter c = show_nat (unat (co_rx_counter obs)) \<and>
        cp_tx_counter c = show_nat (unat (co_tx_counter obs)))"

definition checkpoint_not_older :: "traffic_db \<Rightarrow> counter_observation \<Rightarrow> bool" where
  "checkpoint_not_older db obs \<longleftrightarrow>
     (\<exists>c. checkpoint_for_connection db (co_router_id obs) (co_interface_id obs) = Some c \<and>
        co_observed_at_ms obs \<le> cp_observed_at_ms c)"

lemma reached_put [simp]: "checkpoint_reached (put_checkpoint db (checkpoint_of obs m)) obs"
  by (simp add: checkpoint_reached_def checkpoint_for_put)

lemma baseline_checkpoint:
  assumes inv: "persist_inv db bl" and ok: "observation_ok db obs"
    and bl: "bl (co_interface_id obs) = Some prev"
  obtains c where "checkpoint_for_connection db (co_router_id obs) (co_interface_id obs) = Some c"
    and "cp_observed_at_ms c = cb_observed_at_ms prev"
proof -
  obtain r c where c: "checkpoint_for_connection db r (co_interface_id obs) = Some c"
      "cp_observed_at_ms c = cb_observed_at_ms prev"
    using inv bl unfolding persist_inv_def baselines_match_def by blast
  then have "owns_interface db r (co_interface_id obs)"
    using inv by (auto simp: persist_inv_def owned_checkpoints_def)
  then have "r = co_router_id obs"
    using inv ok owner_unique by (auto simp: persist_inv_def db_wf_def observation_ok_def)
  then show thesis using c that by blast
qed

lemma baselines_match_update:
  assumes "persist_inv db bl" "checkpoint_reached db obs"
  shows "persist_inv db (bl(co_interface_id obs \<mapsto> baseline_from_observation obs m))"
  using assms unfolding persist_inv_def baselines_match_def checkpoint_reached_def
  by (auto split: if_splits)

lemma persist_with_baseline_cases:
  assumes inv: "persist_inv db bl" and ok: "observation_ok db obs"
    and bl: "bl (co_interface_id obs) = Some prev"
    and run: "persist_with_baseline db bl obs prev = (res, db', bl')"
  shows "(\<exists>e. res = Inl e \<and> db' = db \<and> bl' = bl \<and> checkpoint_not_older db obs) \<or>
     (\<exists>s m. res = Inr ExactSample \<and> exact_sample prev obs = Some s \<and>
        db' = put_checkpoint (append_sample db s) (checkpoint_of obs m) \<and> persist_inv db' bl' \<and>
        bl' = bl(co_interface_id obs \<mapsto> baseline_from_observation obs m)) \<or>
     (\<exists>g m. res = Inr Gap \<and> exact_sample prev obs = None \<and>
        tgi_started_at_ms g = cb_observed_at_ms prev \<and> gap_refers_to g (checkpoint_of obs m) \<and>
        db' = put_checkpoint (append_gap db g) (checkpoint_of obs m) \<and> persist_inv db' bl' \<and>
        bl' = bl(co_interface_id obs \<mapsto> baseline_from_observation obs m))"
proof (cases "co_observed_at_ms obs \<le> cb_observed_at_ms prev")
  case True
  obtain c where "checkpoint_for_connection db (co_router_id obs) (co_interface_id obs) = Some c"
    "cp_observed_at_ms c = cb_observed_at_ms prev"
    by (rule baseline_checkpoint[OF inv ok bl])
  then show ?thesis
    using True run by (auto simp: persist_with_baseline_def checkpoint_not_older_def)
next
  case False
  obtain c where c: "checkpoint_for_connection db (co_router_id obs) (co_interface_id obs) = Some c"
    "cp_observed_at_ms c = cb_observed_at_ms prev"
    by (rule baseline_checkpoint[OF inv ok bl])
  define m where "m = observation_marker prev obs"
  have adv: "cb_observed_at_ms prev < co_observed_at_ms obs" using False by simp
  show ?thesis
  proof (cases "exact_sample prev obs")
    case (Some s)
    note e = commit_exact_ok[OF inv ok c adv Some, of m]
    have "res = Inr ExactSample \<and> db' = put_checkpoint (append_sample db s) (checkpoint_of obs m) \<and>
        bl' = bl(co_interface_id obs \<mapsto> baseline_from_observation obs m)"
      using run False Some e(1) by (auto simp: persist_with_baseline_def m_def Let_def)
    then show ?thesis using Some e(2) by blast
  next
    case None
    define g where "g = gap_of obs (cp_observed_at_ms c) (fst (gap_reason prev obs)) (snd (gap_reason prev obs))"
    have "cp_observed_at_ms c < co_observed_at_ms obs" using adv c by simp
    note k = commit_gap_step_ok[OF inv ok c(1) this gap_reason_nonblank[OF ok, of prev],
        where details = "snd (gap_reason prev obs)" and m = m]
    have "res = Inr Gap \<and> db' = put_checkpoint (append_gap db g) (checkpoint_of obs m) \<and>
        bl' = bl(co_interface_id obs \<mapsto> baseline_from_observation obs m)"
      using run False None k(1) c(2) by (auto simp: persist_with_baseline_def m_def g_def Let_def)
    moreover have "tgi_started_at_ms g = cb_observed_at_ms prev" "gap_refers_to g (checkpoint_of obs m)"
      using c(2) by (simp_all add: g_def gap_refers_to_def)
    ultimately show ?thesis using None k(2) unfolding g_def[symmetric] by blast
  qed
qed

lemma persist_without_baseline_cases:
  assumes inv: "persist_inv db bl" and ok: "observation_ok db obs"
    and run: "persist_without_baseline db bl obs = (res, db', bl')"
  shows "(\<exists>e. res = Inl e \<and> db' = db \<and> bl' = bl \<and> checkpoint_not_older db obs) \<or>
     (\<exists>out. res = Inr out \<and> out \<noteq> ExactSample \<and> checkpoint_reached db' obs \<and> persist_inv db' bl' \<and>
        traffic_samples db' = traffic_samples db \<and>
        (\<exists>m. bl' = bl(co_interface_id obs \<mapsto> baseline_from_observation obs m)))"
proof -
  define m where "m = boot_marker (co_observed_at_ms obs) (co_uptime_seconds obs)"
  show ?thesis
  proof (cases "checkpoint_for_connection db (co_router_id obs) (co_interface_id obs)")
    case None
    note i = initialize_ok[OF inv ok None, of m]
    have "res = Inr Initialized" "db' = put_checkpoint db (checkpoint_of obs m)"
      "bl' = bl(co_interface_id obs \<mapsto> baseline_from_observation obs m)"
      using run i(1) by (simp_all add: persist_without_baseline_def m_def[symmetric] Let_def)
    then show ?thesis using i(2) by (intro disjI2 exI[of _ Initialized]) auto
  next
    case (Some c)
    have own: "owns_interface db (co_router_id obs) (co_interface_id obs)"
      using ok by (simp add: observation_ok_def)
    then have ex: "router_exists db (co_router_id obs)" "interface_exists db (co_interface_id obs)"
      using inv owns_interface_exists by (auto simp: persist_inv_def db_wf_def)
    have "checkpoint_key c = (co_router_id obs, co_interface_id obs)" "c \<in> set (counter_checkpoints db)"
      using Some find_SomeD by (fastforce simp: checkpoint_for_key)+
    then have init: "initialize_checkpoint_if_absent db (checkpoint_of obs m) = (Inr False, db)"
      using ex own by (force simp: initialize_checkpoint_if_absent_def ensure_interface_owner_def
          insert_checkpoint_or_ignore_def)
    note run' = run[unfolded persist_without_baseline_def Let_def m_def[symmetric] init]
    show ?thesis
    proof (cases "co_observed_at_ms obs = cp_observed_at_ms c \<and>
        cp_rx_counter c = show_nat (unat (co_rx_counter obs)) \<and>
        cp_tx_counter c = show_nat (unat (co_tx_counter obs)) \<and> cp_reboot_marker c = m")
      case True
      then have r: "checkpoint_reached db obs" using Some by (simp add: checkpoint_reached_def)
      have "res = Inr Initialized" "db' = db"
        "bl' = bl(co_interface_id obs \<mapsto> baseline_from_observation obs m)"
        using run' Some True by (auto simp: get_counter_checkpoint_def)
      then show ?thesis
        using r baselines_match_update[OF inv r] by (intro disjI2 exI[of _ Initialized]) auto
    next
      case False
      show ?thesis
      proof (cases "co_observed_at_ms obs \<le> cp_observed_at_ms c")
        case True
        then show ?thesis
          using run' False Some by (auto simp: get_counter_checkpoint_def checkpoint_not_older_def)
      next
        case later: False
        then have adv: "cp_observed_at_ms c < co_observed_at_ms obs" by simp
        have "trim ''poller_discontinuity'' \<noteq> []" by (simp add: trim_def is_whitespace_def)
        note k = commit_gap_step_ok[OF inv ok Some adv this,
            where details = "''counter baseline was unavailable in the current process''" and m = m]
        show ?thesis
          using run' False later Some k by (intro disjI2 exI[of _ Gap]) (auto simp: get_counter_checkpoint_def)
      qed
    qed
  qed
qed

lemma persist_cases:
  assumes inv: "persist_inv db bl" and ok: "observation_ok db obs"
    and run: "persist_counter_observation db bl obs = (res, db', bl')"
  shows "(\<exists>e. res = Inl e \<and> db' = db \<and> bl' = bl \<and> checkpoint_not_older db obs) \<or>
     (\<exists>out. res = Inr out \<and> checkpoint_reached db' obs \<and> persist_inv db' bl' \<and>
        (\<exists>m. bl' = bl(co_interface_id obs \<mapsto> baseline_from_observation obs m)))"
proof (cases "bl (co_interface_id obs)")
  case None
  then show ?thesis
    using run persist_without_baseline_cases[OF inv ok] by (auto simp: persist_counter_observation_def)
next
  case (Some prev)
  then have "persist_with_baseline db bl obs prev = (res, db', bl')"
    using run by (simp add: persist_counter_observation_def)
  from persist_with_baseline_cases[OF inv ok Some this] show ?thesis by auto
qed

lemma persist_preserves:
  "persist_inv db bl \<Longrightarrow> observation_ok db obs \<Longrightarrow>
   persist_counter_observation db bl obs = (res, db', bl') \<Longrightarrow> persist_inv db' bl'"
  using persist_cases[of db bl obs res db' bl'] by auto

lemma commit_gap_interfaces:
  "commit_gap_and_checkpoint db g c = (res, db') \<Longrightarrow> router_interfaces db' = router_interfaces db"
proof (cases res)
  case (Inr b)
  assume "commit_gap_and_checkpoint db g c = (res, db')"
  from commit_gap_InrD(5,6)[OF this[unfolded Inr]] show ?thesis by (cases b) simp_all
qed (auto dest: store_atomic)

lemma commit_sample_interfaces:
  "commit_sample_and_checkpoint db s c = (res, db') \<Longrightarrow> router_interfaces db' = router_interfaces db"
proof (cases res)
  case (Inr b)
  assume "commit_sample_and_checkpoint db s c = (res, db')"
  from commit_sample_InrD(5,6)[OF this[unfolded Inr]] show ?thesis by (cases b) simp_all
qed (auto dest: store_atomic)

lemma initialize_interfaces:
  "initialize_checkpoint_if_absent db c = (res, db') \<Longrightarrow> router_interfaces db' = router_interfaces db"
proof (cases res)
  case (Inr b)
  assume "initialize_checkpoint_if_absent db c = (res, db')"
  from initialize_checkpoint_InrD(3,4)[OF this[unfolded Inr]] show ?thesis by (cases b) simp_all
qed (auto dest: store_atomic)

lemma commit_gap_step_interfaces:
  "commit_gap_step db bl obs m g = (res, db', bl') \<Longrightarrow> router_interfaces db' = router_interfaces db"
  by (auto simp: commit_gap_step_def split: prod.splits sum.splits dest: commit_gap_interfaces)

lemma persist_interfaces:
  assumes "persist_counter_observation db bl obs = (res, db', bl')"
  shows "router_interfaces db' = router_interfaces db"
proof (cases "bl (co_interface_id obs)")
  case (Some prev)
  then show ?thesis
    using assms
    by (auto simp: persist_counter_observation_def persist_with_baseline_def Let_def
        split: if_splits option.splits prod.splits sum.splits
        dest: commit_gap_step_interfaces commit_sample_interfaces)
next
  case None
  then show ?thesis
    using assms
    by (auto simp: persist_counter_observation_def persist_without_baseline_def Let_def
        split: if_splits option.splits prod.splits sum.splits bool.splits
        dest!: commit_gap_step_interfaces initialize_interfaces)
qed

lemma persist_owns:
  "persist_counter_observation db bl obs = (res, db', bl') \<Longrightarrow> owns_interface db' = owns_interface db"
  by (simp add: owns_interface_def fun_eq_iff persist_interfaces)

section \<open>Runs of the poller\<close>

text \<open>What the poller does to the store and to its baselines over time: it persists
  observations, it upserts interface rows, and it drops baselines (a member without a
  counter, an interface that is no longer active, a new router scope, a restart).\<close>

inductive poller_step :: "traffic_db \<times> baselines \<Rightarrow> traffic_db \<times> baselines \<Rightarrow> bool" where
  observe: "observation_ok db obs \<Longrightarrow> persist_counter_observation db bl obs = (res, db', bl') \<Longrightarrow>
    poller_step (db, bl) (db', bl')"
| upsert: "upsert_router_interface db r key name kind hw t = (res, db') \<Longrightarrow>
    poller_step (db, bl) (db', bl)"
| forget: "poller_step (db, bl) (db, bl |` keep)"

inductive_cases poller_stepE: "poller_step s s'"

lemma owns_interface_keys:
  "owns_interface db r i \<longleftrightarrow> (i, r) \<in> set (map (\<lambda>x. (ri_id x, ri_router_id x)) (router_interfaces db))"
  by (force simp: owns_interface_def list_ex_iff)

lemma upsert_interface_owns:
  assumes "upsert_interface_row db r key name kind hw t = Inr db'" "owns_interface db r' i"
  shows "owns_interface db' r' i"
proof (cases "interface_by_key db r key")
  case None
  then show ?thesis
    using assms by (auto simp: upsert_interface_row_def owns_interface_def split: if_splits)
next
  case (Some x)
  have keys: "map (\<lambda>x. (ri_id x, ri_router_id x)) (map (\<lambda>x. if P x then x\<lparr>ri_name := a, ri_kind := b,
       ri_hardware_id := h x, ri_last_seen_at_ms := c\<rparr> else x) xs) =
     map (\<lambda>x. (ri_id x, ri_router_id x)) xs" for P a b c h xs
    by (rule map_key_update) simp
  have "map (\<lambda>x. (ri_id x, ri_router_id x)) (router_interfaces db') =
     map (\<lambda>x. (ri_id x, ri_router_id x)) (router_interfaces db)"
    using assms(1) Some by (auto simp: upsert_interface_row_def keys simp del: map_map)
  then show ?thesis using assms(2) by (simp add: owns_interface_keys del: set_map)
qed

lemma upsert_interface_tables:
  assumes "upsert_interface_row db r key name kind hw t = Inr db'"
  shows "checkpoint_for_connection db' = checkpoint_for_connection db" "covering db' = covering db"
  using assms by (auto simp: upsert_interface_row_def checkpoint_for_connection_def covering_def
      fun_eq_iff split: option.splits if_splits)

lemma upsert_interface_inv:
  assumes "persist_inv db bl" "upsert_router_interface db r key name kind hw t = (res, db')"
  shows "persist_inv db' bl"
proof (cases "db' = db")
  case False
  then have row: "upsert_interface_row db r key name kind hw t = Inr db'"
    using assms(2) by (auto simp: upsert_router_interface_def split: if_splits sum.splits)
  note t = upsert_interface_tables[OF row]
  have "recorded db' r i" if "recorded db r i" for r i
    by (rule recorded_cong[OF _ _ that]) (simp_all add: t)
  moreover have "owned_checkpoints db'"
    using assms(1) upsert_interface_owns[OF row] by (auto simp: persist_inv_def owned_checkpoints_def t)
  ultimately show ?thesis
    using assms(1) upsert_interface_row_wf[OF _ row] by (simp add: persist_inv_def baselines_match_def t)
qed (use assms in simp)

lemma poller_step_inv: "poller_step (db, bl) (db', bl') \<Longrightarrow> persist_inv db bl \<Longrightarrow> persist_inv db' bl'"
proof (erule poller_stepE)
  fix keep db1 bl1 assume "persist_inv db bl" "(db, bl) = (db1, bl1)" "(db', bl') = (db1, bl1 |` keep)"
  then show "persist_inv db' bl'"
    by (auto simp: persist_inv_def baselines_match_def restrict_map_def)
qed (auto intro: persist_preserves upsert_interface_inv)

lemma poller_steps_inv:
  "poller_step\<^sup>*\<^sup>* s s' \<Longrightarrow> persist_inv (fst s) (snd s) \<Longrightarrow> persist_inv (fst s') (snd s')"
  by (induction rule: rtranclp_induct) (auto dest: poller_step_inv)

definition no_history :: "traffic_db \<Rightarrow> bool" where
  "no_history db \<longleftrightarrow> traffic_samples db = [] \<and> traffic_gaps db = [] \<and> counter_checkpoints db = []"

lemma no_history_inv: "db_wf db \<Longrightarrow> no_history db \<Longrightarrow> persist_inv db Map.empty"
  by (simp add: no_history_def persist_inv_def owned_checkpoints_def recorded_def baselines_match_def
      checkpoint_for_connection_def covering_def)

text \<open>A list of observations of one interface, persisted one after the other.\<close>

fun persist_run ::
  "traffic_db \<Rightarrow> baselines \<Rightarrow> counter_observation list \<Rightarrow>
   persistence_outcome db_result list \<times> traffic_db \<times> baselines" where
  "persist_run db bl [] = ([], db, bl)"
| "persist_run db bl (obs # rest) =
     (case persist_counter_observation db bl obs of (res, db1, bl1) \<Rightarrow>
        (case persist_run db1 bl1 rest of (ress, db2, bl2) \<Rightarrow> (res # ress, db2, bl2)))"

lemma persist_exact_appends:
  assumes inv: "persist_inv db bl" and ok: "observation_ok db obs"
    and bl: "bl (co_interface_id obs) = Some prev"
    and run: "persist_counter_observation db bl obs = (Inr ExactSample, db', bl')"
  shows "\<exists>row. traffic_samples db' = traffic_samples db @ [row] \<and>
      sm_download_bytes row = int (unat (co_rx_counter obs - cb_rx_counter prev)) \<and>
      sm_upload_bytes row = int (unat (co_tx_counter obs - cb_tx_counter prev))"
    and "\<exists>m. bl' = bl(co_interface_id obs \<mapsto> baseline_from_observation obs m)"
proof -
  have "persist_with_baseline db bl obs prev = (Inr ExactSample, db', bl')"
    using run bl by (simp add: persist_counter_observation_def)
  from persist_with_baseline_cases[OF inv ok bl this]
  obtain s m where s: "exact_sample prev obs = Some s"
    and db': "db' = put_checkpoint (append_sample db s) (checkpoint_of obs m)"
    and bl': "bl' = bl(co_interface_id obs \<mapsto> baseline_from_observation obs m)"
    by auto
  show "\<exists>m. bl' = bl(co_interface_id obs \<mapsto> baseline_from_observation obs m)" using bl' by blast
  show "\<exists>row. traffic_samples db' = traffic_samples db @ [row] \<and>
      sm_download_bytes row = int (unat (co_rx_counter obs - cb_rx_counter prev)) \<and>
      sm_upload_bytes row = int (unat (co_tx_counter obs - cb_tx_counter prev))"
    using exact_sample_SomeD(8,9)[OF s] by (simp add: db' new_sample_row_def)
qed

lemma word_of_unat: "word_of_int (int (unat (w :: u64))) = w"
  by simp

lemma persist_run_total:
  assumes "persist_inv db bl" "bl i = Some prev"
    and "\<forall>obs \<in> set os. co_interface_id obs = i \<and> observation_ok db obs"
    and "persist_run db bl os = (replicate (length os) (Inr ExactSample), db', bl')"
  shows "\<exists>rows. traffic_samples db' = traffic_samples db @ rows \<and> length rows = length os \<and>
     word_of_int (\<Sum>s\<leftarrow>rows. sm_download_bytes s) =
       (last (cb_rx_counter prev # map co_rx_counter os) - cb_rx_counter prev :: u64)"
  using assms
proof (induction os arbitrary: db bl prev)
  case (Cons obs os)
  obtain res db1 bl1 where p: "persist_counter_observation db bl obs = (res, db1, bl1)"
    using prod_cases3 by blast
  have res: "res = Inr ExactSample"
    and rest: "persist_run db1 bl1 os = (replicate (length os) (Inr ExactSample), db', bl')"
    using Cons.prems(4) p by (auto split: prod.splits)
  have ok: "observation_ok db obs" and i: "co_interface_id obs = i" using Cons.prems(3) by auto
  note app = persist_exact_appends[OF Cons.prems(1) ok _ p[unfolded res], of prev]
  obtain row m where row: "traffic_samples db1 = traffic_samples db @ [row]"
      "sm_download_bytes row = int (unat (co_rx_counter obs - cb_rx_counter prev))"
    and bl1: "bl1 = bl(i \<mapsto> baseline_from_observation obs m)"
    using app Cons.prems(2) i by auto
  have inv1: "persist_inv db1 bl1" by (rule persist_preserves[OF Cons.prems(1) ok p])
  have "owns_interface db1 = owns_interface db" by (rule persist_owns[OF p])
  then have "\<forall>obs \<in> set os. co_interface_id obs = i \<and> observation_ok db1 obs"
    using Cons.prems(3) by (auto simp: observation_ok_def)
  then obtain rows where rows: "traffic_samples db' = traffic_samples db1 @ rows" "length rows = length os"
    "word_of_int (\<Sum>s\<leftarrow>rows. sm_download_bytes s) =
       (last (co_rx_counter obs # map co_rx_counter os) - co_rx_counter obs :: u64)"
    using Cons.IH[OF inv1 _ _ rest, of "baseline_from_observation obs m"] bl1 by auto
  have "word_of_int (\<Sum>s\<leftarrow>row # rows. sm_download_bytes s) =
      (last (cb_rx_counter prev # map co_rx_counter (obs # os)) - cb_rx_counter prev :: u64)"
    using rows(3) row(2) by simp
  then show ?case using rows(1,2) row(1) by (intro exI[of _ "row # rows"]) simp
qed simp

section \<open>One poll: every WAN interface and their aggregate\<close>

text \<open>The text of an error value; a SQLite error carries a message of the library, which is
  not represented.\<close>

fun display_db_error :: "db_error \<Rightarrow> string" where
  "display_db_error Sqlite = ''SQLite error''"
| "display_db_error SqliteCorrupt = ''SQLite error''"
| "display_db_error (Io m) = ''I/O error: '' @ m"
| "display_db_error (InUse path) = ''database is already in use: '' @ path"
| "display_db_error (InsufficientSpace path required_bytes available_bytes) =
     ''insufficient free space at '' @ path @ '': need '' @ show_nat required_bytes @ '' bytes, have '' @
     show_nat available_bytes @ '' bytes''"
| "display_db_error (ChecksumMismatch expected actual) =
     ''backup checksum mismatch: expected '' @ expected @ '', calculated '' @ actual"
| "display_db_error (Integrity m) = ''database integrity check failed: '' @ m"
| "display_db_error (UnsupportedVersion found supported) =
     ''database schema version '' @ show_int found @ '' is newer than supported version ''
       @ show_int supported"
| "display_db_error (Verification m) = ''database verification failed: '' @ m"
| "display_db_error (InvalidCommand m) = ''invalid database command: '' @ m"
| "display_db_error (TrafficQueryTooLarge n) =
     ''traffic query exceeds the '' @ show_nat n @ '' source-row limit''"
| "display_db_error TrafficQueryCancelled = ''traffic query was cancelled''"
| "display_db_error TrafficQueryTimedOut = ''traffic query exceeded its processing deadline''"

definition durable_interface_key :: "interface_entry \<Rightarrow> string" where
  "durable_interface_key iface =
     (if trim (if_id iface) = [] then ''name:'' @ if_name iface else ''routeros:'' @ if_id iface)"

record persist_loop =
  pl_db :: traffic_db
  pl_baselines :: baselines
  pl_errors :: "string list"
  pl_active :: "i64 list"
  pl_rx :: u64
  pl_tx :: u64
  pl_complete :: bool
  pl_continuous :: bool
  pl_members :: "i64 list"

definition u64_checked_add :: "u64 \<Rightarrow> u64 \<Rightarrow> u64 option" where
  "u64_checked_add a b = (if unat a + unat b < 2 ^ 64 then Some (a + b) else None)"

definition observation_of_member ::
  "i64 \<Rightarrow> router_data \<Rightarrow> i64 \<Rightarrow> u64 \<Rightarrow> u64 \<Rightarrow> counter_observation" where
  "observation_of_member router_id data interface_id rx tx =
     \<lparr>co_router_id = router_id, co_interface_id = interface_id, co_rx_counter = rx, co_tx_counter = tx,
      co_observed_at_ms = cs_unix_ms (rd_counter_sample_time data),
      co_monotonic = cs_monotonic (rd_counter_sample_time data),
      co_uptime_seconds = sd_uptime_seconds (rd_system data),
      co_member_signature = None, co_forced_gap = None\<rparr>"

text \<open>The persisting of one member and its contribution to the aggregate counters.\<close>

definition persist_member ::
  "i64 \<Rightarrow> router_data \<Rightarrow> interface_entry \<Rightarrow> i64 \<Rightarrow> u64 \<Rightarrow> u64 \<Rightarrow> persist_loop \<Rightarrow> persist_loop" where
  "persist_member router_id data iface interface_id rx tx st =
     (case persist_counter_observation (pl_db st) (pl_baselines st)
             (observation_of_member router_id data interface_id rx tx) of (res, db', bl') \<Rightarrow>
      let st1 = st\<lparr>pl_db := db', pl_baselines := bl'\<rparr>;
          st2 = (case res of
              Inr ExactSample \<Rightarrow> st1
            | Inr _ \<Rightarrow> st1\<lparr>pl_continuous := False\<rparr>
            | Inl e \<Rightarrow> st1\<lparr>pl_continuous := False, pl_errors := pl_errors st1 @
                [''failed to persist WAN interface '' @ if_name iface @ '': '' @ display_db_error e]\<rparr>)
      in case (u64_checked_add (pl_rx st2) rx, u64_checked_add (pl_tx st2) tx) of
           (Some r, Some t) \<Rightarrow> st2\<lparr>pl_rx := r, pl_tx := t\<rparr>
         | _ \<Rightarrow> st2\<lparr>pl_complete := False,
                  pl_errors := pl_errors st2 @ [''aggregate WAN counters overflowed u64'']\<rparr>)"

definition persist_wan :: "i64 \<Rightarrow> router_data \<Rightarrow> persist_loop \<Rightarrow> string \<Rightarrow> persist_loop" where
  "persist_wan router_id data st wan_name =
     (case find (\<lambda>iface. if_name iface = wan_name) (rd_interfaces data) of
        None \<Rightarrow> st\<lparr>pl_complete := False, pl_errors := pl_errors st @
          [''WAN interface '' @ wan_name @ '' disappeared during sampling'']\<rparr>
      | Some iface \<Rightarrow>
          let hardware_id = (if trim (if_mac_address iface) \<noteq> [] then Some (if_mac_address iface) else None) in
          (case upsert_router_interface (pl_db st) router_id (durable_interface_key iface)
                  (if_name iface) ''wan'' hardware_id (cs_unix_ms (rd_counter_sample_time data)) of
             (Inl e, db') \<Rightarrow> st\<lparr>pl_db := db', pl_complete := False, pl_errors := pl_errors st @
               [''failed to resolve WAN interface '' @ if_name iface @ '': '' @ display_db_error e]\<rparr>
           | (Inr record, db') \<Rightarrow>
               let st1 = st\<lparr>pl_db := db', pl_active := ri_id record # pl_active st,
                            pl_members := pl_members st @ [ri_id record]\<rparr> in
               (case (if_rx_byte iface, if_tx_byte iface) of
                  (Some rx, Some tx) \<Rightarrow> persist_member router_id data iface (ri_id record) rx tx st1
                | _ \<Rightarrow> st1\<lparr>pl_complete := False, pl_baselines := (pl_baselines st1)(ri_id record := None),
                    pl_errors := pl_errors st1 @ [''WAN interface '' @ if_name iface
                      @ '' omitted a byte counter; exact sampling paused'']\<rparr>)))"

definition aggregate_observation ::
  "i64 \<Rightarrow> router_data \<Rightarrow> i64 \<Rightarrow> persist_loop \<Rightarrow> counter_observation" where
  "aggregate_observation router_id data aggregate_id st =
     \<lparr>co_router_id = router_id, co_interface_id = aggregate_id,
      co_rx_counter = pl_rx st, co_tx_counter = pl_tx st,
      co_observed_at_ms = cs_unix_ms (rd_counter_sample_time data),
      co_monotonic = cs_monotonic (rd_counter_sample_time data),
      co_uptime_seconds = sd_uptime_seconds (rd_system data),
      co_member_signature = Some (join_with '','' (map show_int (sort (pl_members st)))),
      co_forced_gap = (if pl_continuous st then None
        else Some (''wan_member_discontinuity'',
                   ''one or more aggregate WAN members lacked an exact interval''))\<rparr>"

definition persist_aggregate ::
  "i64 \<Rightarrow> router_data \<Rightarrow> i64 \<Rightarrow> persist_loop \<Rightarrow> persist_loop" where
  "persist_aggregate router_id data aggregate_id st =
     (if pl_complete st
      then (case persist_counter_observation (pl_db st) (pl_baselines st)
                   (aggregate_observation router_id data aggregate_id st) of
              (Inl e, db', bl') \<Rightarrow> st\<lparr>pl_db := db', pl_baselines := bl', pl_errors := pl_errors st @
                [''failed to persist aggregate WAN traffic: '' @ display_db_error e]\<rparr>
            | (Inr _, db', bl') \<Rightarrow> st\<lparr>pl_db := db', pl_baselines := bl'\<rparr>)
      else st\<lparr>pl_baselines := (pl_baselines st)(aggregate_id := None)\<rparr>)"

definition persist_exact_traffic ::
  "traffic_db \<Rightarrow> baselines \<Rightarrow> i64 \<Rightarrow> router_data \<Rightarrow> string list \<Rightarrow>
   exact_persistence_result db_result \<times> traffic_db \<times> baselines" where
  "persist_exact_traffic db bl router_id data wan_names =
     (case upsert_router_interface db router_id AGGREGATE_INTERFACE_KEY ''Aggregate'' ''aggregate'' None
             (cs_unix_ms (rd_counter_sample_time data)) of
        (Inl e, db') \<Rightarrow> (Inl e, db', bl)
      | (Inr aggregate, db') \<Rightarrow>
          let st0 = \<lparr>pl_db = db', pl_baselines = bl, pl_errors = [], pl_active = [ri_id aggregate],
                     pl_rx = 0, pl_tx = 0, pl_complete = (wan_names \<noteq> []),
                     pl_continuous = (wan_names \<noteq> []), pl_members = []\<rparr>;
              st1 = foldl (persist_wan router_id data) st0 wan_names;
              st2 = persist_aggregate router_id data (ri_id aggregate) st1
          in (Inr \<lparr>ep_router_id = router_id, ep_aggregate_interface_id = ri_id aggregate,
                   ep_errors = pl_errors st2\<rparr>,
              pl_db st2, pl_baselines st2 |` set (pl_active st2)))"

section \<open>A poll keeps the timelines\<close>

lemma interface_by_key_owns:
  "interface_by_key db r key = Some x \<Longrightarrow> owns_interface db r (ri_id x)"
  by (auto simp: interface_by_key_def owns_interface_def list_ex_iff dest: find_SomeD)

lemma upsert_returns_owned:
  "upsert_router_interface db r key name kind hw t = (Inr x, db') \<Longrightarrow> owns_interface db' r (ri_id x)"
  by (auto simp: upsert_router_interface_def ok_or_Inr_iff split: if_splits sum.splits
      intro: interface_by_key_owns)

lemma upsert_router_interface_owns:
  assumes "upsert_router_interface db r key name kind hw t = (res, db')" "owns_interface db r' i"
  shows "owns_interface db' r' i"
  using assms by (auto simp: upsert_router_interface_def split: if_splits sum.splits
      dest: upsert_interface_owns)

lemma restrict_le: "bl |` A \<subseteq>\<^sub>m bl"
  by (simp add: map_le_def)

lemma forget_inv: "persist_inv db bl \<Longrightarrow> bl' \<subseteq>\<^sub>m bl \<Longrightarrow> persist_inv db bl'"
  unfolding persist_inv_def baselines_match_def map_le_def by (metis domI)

definition loop_inv :: "i64 \<Rightarrow> i64 \<Rightarrow> persist_loop \<Rightarrow> bool" where
  "loop_inv r a st \<longleftrightarrow> persist_inv (pl_db st) (pl_baselines st) \<and> owns_interface (pl_db st) r a"

lemma persist_member_inv:
  assumes "loop_inv r a st" "owns_interface (pl_db st) r i"
    and "in_i64 (cs_unix_ms (rd_counter_sample_time data))"
  shows "loop_inv r a (persist_member r data iface i rx tx st)"
proof -
  let ?o = "observation_of_member r data i rx tx"
  obtain res db' bl' where p: "persist_counter_observation (pl_db st) (pl_baselines st) ?o = (res, db', bl')"
    using prod_cases3 by blast
  have ok: "observation_ok (pl_db st) ?o"
    using assms by (simp add: observation_ok_def observation_of_member_def)
  have "persist_inv db' bl'" using persist_preserves[OF _ ok p] assms(1) by (simp add: loop_inv_def)
  moreover have "owns_interface db' r a" using persist_owns[OF p] assms(1) by (simp add: loop_inv_def)
  ultimately show ?thesis
    by (auto simp: persist_member_def p loop_inv_def Let_def
        split: sum.splits persistence_outcome.splits option.splits)
qed

lemma persist_wan_inv:
  assumes "loop_inv r a st" and "in_i64 (cs_unix_ms (rd_counter_sample_time data))"
  shows "loop_inv r a (persist_wan r data st wan)"
proof (cases "find (\<lambda>iface. if_name iface = wan) (rd_interfaces data)")
  case None
  then show ?thesis using assms by (simp add: persist_wan_def loop_inv_def)
next
  case (Some iface)
  define hw where "hw = (if trim (if_mac_address iface) \<noteq> [] then Some (if_mac_address iface) else None)"
  obtain res db' where u: "upsert_router_interface (pl_db st) r (durable_interface_key iface)
      (if_name iface) ''wan'' hw (cs_unix_ms (rd_counter_sample_time data)) = (res, db')"
    by (cases "upsert_router_interface (pl_db st) r (durable_interface_key iface)
      (if_name iface) ''wan'' hw (cs_unix_ms (rd_counter_sample_time data))")
  have inv: "persist_inv db' (pl_baselines st)" "owns_interface db' r a"
    using upsert_interface_inv[OF _ u] upsert_router_interface_owns[OF u] assms(1)
    by (auto simp: loop_inv_def)
  show ?thesis
  proof (cases res)
    case (Inl e)
    then show ?thesis using Some u inv by (simp add: persist_wan_def hw_def[symmetric] loop_inv_def)
  next
    case (Inr rec)
    have own: "owns_interface db' r (ri_id rec)" using u Inr upsert_returns_owned by blast
    define st1 where "st1 = st\<lparr>pl_db := db', pl_active := ri_id rec # pl_active st,
        pl_members := pl_members st @ [ri_id rec]\<rparr>"
    have st1: "loop_inv r a st1" "owns_interface (pl_db st1) r (ri_id rec)"
      using inv own by (simp_all add: st1_def loop_inv_def)
    have drop: "persist_inv db' ((pl_baselines st)(ri_id rec := None))"
      by (rule forget_inv[OF inv(1)]) (auto simp: map_le_def)
    show ?thesis
      using Some u Inr persist_member_inv[OF st1 assms(2)] drop inv
      by (auto simp: persist_wan_def hw_def[symmetric] st1_def[symmetric] Let_def split: option.splits)
        (auto simp: st1_def loop_inv_def)
  qed
qed

lemma persist_aggregate_inv:
  assumes "loop_inv r a st" and "in_i64 (cs_unix_ms (rd_counter_sample_time data))"
  shows "loop_inv r a (persist_aggregate r data a st)"
proof (cases "pl_complete st")
  case True
  let ?o = "aggregate_observation r data a st"
  obtain res db' bl' where p: "persist_counter_observation (pl_db st) (pl_baselines st) ?o = (res, db', bl')"
    using prod_cases3 by blast
  have ok: "observation_ok (pl_db st) ?o"
    using assms by (auto simp: observation_ok_def aggregate_observation_def loop_inv_def trim_def
        is_whitespace_def)
  have "persist_inv db' bl'" using persist_preserves[OF _ ok p] assms(1) by (simp add: loop_inv_def)
  moreover have "owns_interface db' r a" using persist_owns[OF p] assms(1) by (simp add: loop_inv_def)
  ultimately show ?thesis
    using True by (auto simp: persist_aggregate_def p loop_inv_def split: sum.splits)
next
  case False
  have "persist_inv (pl_db st) ((pl_baselines st)(a := None))"
    by (rule forget_inv[of _ "pl_baselines st"]) (use assms in \<open>auto simp: loop_inv_def map_le_def\<close>)
  then show ?thesis using False assms by (simp add: persist_aggregate_def loop_inv_def)
qed

lemma persist_exact_traffic_inv:
  assumes inv: "persist_inv db bl" and rng: "in_i64 (cs_unix_ms (rd_counter_sample_time data))"
    and run: "persist_exact_traffic db bl r data names = (res, db', bl')"
  shows "persist_inv db' bl'"
proof -
  obtain ures db1 where u: "upsert_router_interface db r AGGREGATE_INTERFACE_KEY ''Aggregate''
      ''aggregate'' None (cs_unix_ms (rd_counter_sample_time data)) = (ures, db1)"
    by (cases "upsert_router_interface db r AGGREGATE_INTERFACE_KEY ''Aggregate''
      ''aggregate'' None (cs_unix_ms (rd_counter_sample_time data))")
  have inv1: "persist_inv db1 bl" by (rule upsert_interface_inv[OF inv u])
  show ?thesis
  proof (cases ures)
    case (Inl e)
    then show ?thesis using run u inv1 by (simp add: persist_exact_traffic_def)
  next
    case (Inr agg)
    have own: "owns_interface db1 r (ri_id agg)" using u Inr upsert_returns_owned by blast
    have fold: "loop_inv r (ri_id agg) (foldl (persist_wan r data) st ns)"
      if "loop_inv r (ri_id agg) st" for st ns
      using that by (induction ns arbitrary: st) (auto intro: persist_wan_inv[OF _ rng])
    have "loop_inv r (ri_id agg) (persist_aggregate r data (ri_id agg) (foldl (persist_wan r data)
        \<lparr>pl_db = db1, pl_baselines = bl, pl_errors = [], pl_active = [ri_id agg], pl_rx = 0, pl_tx = 0,
         pl_complete = (names \<noteq> []), pl_continuous = (names \<noteq> []), pl_members = []\<rparr> names))"
      by (intro persist_aggregate_inv[OF _ rng] fold) (simp add: loop_inv_def inv1 own)
    then show ?thesis
      using run u Inr by (auto simp: persist_exact_traffic_def Let_def loop_inv_def
          intro: forget_inv[OF _ restrict_le])
  qed
qed

section \<open>Properties\<close>

definition example_observation :: "nat \<Rightarrow> counter_observation" where
  "example_observation n =
     \<lparr>co_router_id = 1, co_interface_id = 1, co_rx_counter = of_nat (100 + 500 * n),
      co_tx_counter = of_nat (7 * n), co_observed_at_ms = 1000 + 1000 * int n,
      co_monotonic = 1000000000 * n, co_uptime_seconds = Some (of_nat (50 + n)),
      co_member_signature = None, co_forced_gap = None\<rparr>"

lemma example_db_inv: "persist_inv example_db Map.empty"
proof (rule no_history_inv)
  show "db_wf example_db"
    unfolding example_db_def by (intro store.preserves db_wf_empty)
qed (simp add: example_db_value no_history_def empty_db_def)

lemma example_observation_ok: "n < 1000 \<Longrightarrow> observation_ok example_db (example_observation n)"
  by (simp add: observation_ok_def example_observation_def example_db_value empty_db_def
      owns_interface_def in_i64_def I64_MAX_def I64_MIN_def)

definition example_marker :: "string option" where
  "example_marker = boot_marker 1000 (Some 50)"

definition example_db1 :: traffic_db where
  "example_db1 = put_checkpoint example_db (checkpoint_of (example_observation 0) example_marker)"

definition example_baseline :: counter_baseline where
  "example_baseline = baseline_from_observation (example_observation 0) example_marker"

lemma example_first:
  "persist_counter_observation example_db Map.empty (example_observation 0) =
    (Inr Initialized, example_db1, [1 \<mapsto> example_baseline])" 
proof -
  have "checkpoint_for_connection example_db (co_router_id (example_observation 0)) (co_interface_id (example_observation 0)) = None"
    by (simp add: example_db_value empty_db_def checkpoint_for_connection_def)
  from initialize_ok(1)[OF example_db_inv example_observation_ok this, of example_marker]
  show ?thesis
    by (simp add: persist_counter_observation_def persist_without_baseline_def Let_def example_db1_def
      example_baseline_def) (simp add: example_observation_def example_marker_def)
qed

lemma example_sample:
  "exact_sample example_baseline (example_observation 1) = Some
     \<lparr>tsi_router_id = 1, tsi_interface_id = 1, tsi_started_at_ms = 1000, tsi_ended_at_ms = 2000,
      tsi_duration_ms = 1000, tsi_download_bytes = 500, tsi_upload_bytes = 7,
      tsi_download_bps = Finite 4000, tsi_upload_bps = Finite 56, tsi_quality = Exact,
      tsi_source = EXACT_TRAFFIC_SOURCE\<rparr>"
  by (simp add: exact_sample_def example_baseline_def baseline_from_observation_def example_observation_def
     observation_rebooted_def uptime_continuous_def clock_consistent_def wall_elapsed_def observation_rates_def
     calculate_counter_rate_def as_secs_f64_def f64_of_u64_def exact_deltas_def i64_try_from_def I64_MAX_def
     I64_MIN_def sat_sub_def clamp_i64_def sampling_clocks_are_consistent_def unwrap_or_def abs_diff_def U64_MAX_def
     estimated_boot_epoch_def word_le_nat_alt)

definition example_sample1 :: traffic_sample_input where
  "example_sample1 = the (exact_sample example_baseline (example_observation 1))"

definition example_marker1 :: "string option" where
  "example_marker1 = observation_marker example_baseline (example_observation 1)"

definition example_db2 :: traffic_db where
  "example_db2 = put_checkpoint (append_sample example_db1 example_sample1)
     (checkpoint_of (example_observation 1) example_marker1)"

definition example_baselines2 :: baselines where
  "example_baselines2 = [1 \<mapsto> baseline_from_observation (example_observation 1) example_marker1]"

lemma example_ids [simp]:
  "co_interface_id (example_observation n) = 1" "co_router_id (example_observation n) = 1"
  "co_observed_at_ms (example_observation n) = 1000 + 1000 * int n"
  by (simp_all add: example_observation_def)

lemma example_inv1: "persist_inv example_db1 [1 \<mapsto> example_baseline]"
  by (rule persist_preserves[OF example_db_inv example_observation_ok example_first]) simp

lemma example_ok1: "n < 1000 \<Longrightarrow> observation_ok example_db1 (example_observation n)"
  using example_observation_ok[of n] persist_owns[OF example_first] by (simp add: observation_ok_def)

lemma example_second:
  "persist_counter_observation example_db1 [1 \<mapsto> example_baseline] (example_observation 1) =
     (Inr ExactSample, example_db2, example_baselines2)"
proof -
  have c: "checkpoint_for_connection example_db1 (co_router_id (example_observation 1))
      (co_interface_id (example_observation 1)) = Some (checkpoint_of (example_observation 0) example_marker)"
    by (simp add: example_db1_def checkpoint_for_put)
  have s: "exact_sample example_baseline (example_observation 1) = Some example_sample1"
    unfolding example_sample1_def example_sample by simp
  have b: "cb_observed_at_ms example_baseline = 1000" by (simp add: example_baseline_def)
  from commit_exact_ok(1)[OF example_inv1 example_ok1 c _ _ s, of example_marker1] show ?thesis
    by (simp add: persist_counter_observation_def persist_with_baseline_def s b Let_def
        example_marker1_def[symmetric] example_db2_def example_baselines2_def del: One_nat_def)
qed

lemma example_reachable:
  "poller_step\<^sup>*\<^sup>* (example_db, Map.empty) (example_db2, example_baselines2)"
proof -
  have "poller_step (example_db, Map.empty) (example_db1, [1 \<mapsto> example_baseline])"
    by (rule observe[OF example_observation_ok example_first]) simp
  moreover have "poller_step (example_db1, [1 \<mapsto> example_baseline]) (example_db2, example_baselines2)"
    by (rule observe[OF example_ok1 example_second]) simp
  ultimately show ?thesis by (meson rtranclp.rtrancl_into_rtrancl rtranclp.rtrancl_refl)
qed

lemma example_db2_checkpoint:
  "checkpoint_for_connection example_db2 1 1 =
     Some (checkpoint_of (example_observation 1) example_marker1)"
  by (simp add: example_db2_def checkpoint_for_put)

definition example_data :: router_data where
  "example_data = \<lparr>rd_counter_sample_time = \<lparr>cs_monotonic = 5000000000, cs_unix_ms = 5000\<rparr>,
     rd_system = \<lparr>sd_hardware_identity = Some ''HX1'', sd_uptime = ''54s'', sd_uptime_seconds = Some 54,
       sd_cpu_load = Finite 3, sd_free_memory = 1, sd_total_memory = 2, sd_free_hdd = 3, sd_total_hdd = 4,
       sd_architecture_name = ''arm64'', sd_board_name = ''RB5009'', sd_version = ''7.16''\<rparr>,
     rd_identity = \<lparr>id_name = ''home''\<rparr>, rd_ip_addresses = [], rd_ipv6_addresses = [],
     rd_interfaces = [\<lparr>if_id = ''*1'', if_name = ''ether1'', if_type = ''ether'', if_mac_address = [],
       if_running = True, if_rx_byte = Some 2100, if_tx_byte = Some 28, if_default_name = ''ether1''\<rparr>],
     rd_routes = [], rd_ipv6_routes = [], rd_arp_entries = [], rd_ipv6_neighbors = [],
     rd_dhcp_leases = [], rd_wireless_clients = [], rd_connection_count = 0,
     rd_ipv6_connection_count = 0\<rparr>"



text \<open>Persisting an observation of an owned interface fails only when its timestamp does
  not advance the stored checkpoint, and then nothing changes; otherwise the checkpoint
  becomes the observation.  No outcome leaves a sample without its checkpoint.\<close>

theorem persist_outcome:
  assumes "persist_inv db bl" and "observation_ok db obs"
    and "persist_counter_observation db bl obs = (res, db', bl')"
  shows "(case res of
      Inl _ \<Rightarrow> db' = db \<and> bl' = bl \<and> checkpoint_not_older db obs
    | Inr _ \<Rightarrow> checkpoint_reached db' obs \<and> persist_inv db' bl')"
  using persist_cases[OF assms] by auto

theorem persist_outcome_witness:
  "checkpoint_reached example_db2 (example_observation 1) \<and> persist_inv example_db2 example_baselines2"
  using persist_outcome[OF example_inv1 example_ok1 example_second] by simp



text \<open>An exact sample is only made when the clocks agree, the router did not reboot and
  its uptime is known at both ends, and then its bytes are the counter differences, its
  interval is the one between the two observations, and its rates are finite and not
  negative.\<close>

theorem exact_sample_is_exact:
  assumes "exact_sample prev obs = Some s"
  shows "\<not> observation_rebooted prev obs \<and> clock_consistent prev obs \<and> uptime_continuous prev obs \<and>
     tsi_download_bytes s = int (unat (co_rx_counter obs - cb_rx_counter prev)) \<and>
     tsi_upload_bytes s = int (unat (co_tx_counter obs - cb_tx_counter prev)) \<and>
     tsi_started_at_ms s = cb_observed_at_ms prev \<and> tsi_ended_at_ms s = co_observed_at_ms obs \<and>
     is_finite (tsi_download_bps s) \<and> f64_le (Finite 0) (tsi_download_bps s) \<and>
     is_finite (tsi_upload_bps s) \<and> f64_le (Finite 0) (tsi_upload_bps s)"
  using exact_sample_SomeD[OF assms] by simp

theorem exact_sample_is_exact_witness:
  "\<not> observation_rebooted example_baseline (example_observation 1) \<and>
   exact_sample example_baseline (example_observation 1) \<noteq> None"
  using exact_sample_is_exact[OF example_sample] example_sample by simp

text \<open>A whole poll, with all its WAN interfaces and their aggregate, keeps the timeline of
  every interface, whatever the router reports.\<close>

theorem poll_keeps_timelines:
  assumes "persist_inv db bl" and "in_i64 (cs_unix_ms (rd_counter_sample_time data))"
    and "persist_exact_traffic db bl router_id data wan_names = (res, db', bl')"
  shows "persist_inv db' bl' \<and> (\<forall>r i c. checkpoint_for_connection db' r i = Some c \<longrightarrow>
     (\<exists>t0. tiles db' r i t0 (cp_observed_at_ms c)))"
proof -
  have inv: "persist_inv db' bl'" by (rule persist_exact_traffic_inv[OF assms])
  then have "\<forall>r i. recorded db' r i" by (simp add: persist_inv_def)
  then show ?thesis using inv by (auto simp: recorded_def split: option.splits)
qed

theorem poll_keeps_timelines_witness:
  "case persist_exact_traffic example_db2 example_baselines2 1 example_data [''ether1''] of
     (_, db', bl') \<Rightarrow> persist_inv db' bl'"
proof -
  obtain res db' bl' where run: "persist_exact_traffic example_db2 example_baselines2 1 example_data
      [''ether1''] = (res, db', bl')"
    using prod_cases3 by blast
  have "in_i64 (cs_unix_ms (rd_counter_sample_time example_data))"
    by (simp add: example_data_def in_i64_def I64_MAX_def I64_MIN_def)
  from poll_keeps_timelines[OF persist_preserves[OF example_inv1 example_ok1 example_second] this run]
  show ?thesis by (simp add: run)
qed

end
