(* ===== verification/Traffic_Query.thy ===== *)
theory Traffic_Query
  imports Traffic_Integrity
begin

text \<open>
  Reading the exact history (\<open>query_traffic_v4\<close> of \<open>db/traffic_v4.rs\<close>): samples and rollups of one
  interface are merged in the order of their ends, checked for overlap, clipped to the
  requested range and spread over equal buckets; a row that is cut is allocated
  proportionally and counts as estimated.  A Rust \<open>BTreeMap\<close> of buckets is an association list
  sorted by bucket start, an \<open>i128\<close> byte total an integer.
\<close>

section \<open>Queries and results\<close>

definition MAX_TRAFFIC_SOURCE_ROWS :: nat where "MAX_TRAFFIC_SOURCE_ROWS = 1000000"

record traffic_query =
  tq_router_id :: i64
  tq_interface_id :: i64
  tq_from_ms :: i64
  tq_to_ms :: i64
  tq_max_points :: nat

record traffic_bucket =
  tb_started_at_ms :: i64
  tb_ended_at_ms :: i64
  tb_download_bps :: f64
  tb_upload_bps :: f64
  tb_exact_download_bytes :: string
  tb_exact_upload_bytes :: string
  tb_estimated_download_bytes :: string
  tb_estimated_upload_bytes :: string
  tb_exact_duration_ms :: i64
  tb_estimated_duration_ms :: i64
  tb_sample_count :: i64

record traffic_totals =
  tt_download_bytes :: string
  tt_upload_bytes :: string
  tt_exact_download_bytes :: string
  tt_exact_upload_bytes :: string
  tt_estimated_download_bytes :: string
  tt_estimated_upload_bytes :: string

record traffic_coverage =
  tc_requested_duration_ms :: i64
  tc_exact_duration_ms :: i64
  tc_estimated_duration_ms :: i64
  tc_covered_duration_ms :: i64
  tc_completeness :: f64
  tc_gap_count :: nat

record traffic_query_result =
  tr_bucket_size_ms :: i64
  tr_points :: "traffic_bucket list"
  tr_totals :: traffic_totals
  tr_coverage :: traffic_coverage

record traffic_contribution =
  cn_started_at_ms :: i64
  cn_ended_at_ms :: i64
  cn_exact_download_bytes :: int
  cn_exact_upload_bytes :: int
  cn_estimated_download_bytes :: int
  cn_estimated_upload_bytes :: int
  cn_exact_duration_ms :: i64
  cn_estimated_duration_ms :: i64
  cn_sample_count :: i64

record bucket_accumulator =
  ba_exact_download_bytes :: int
  ba_exact_upload_bytes :: int
  ba_estimated_download_bytes :: int
  ba_estimated_upload_bytes :: int
  ba_exact_duration_ms :: i64
  ba_estimated_duration_ms :: i64
  ba_sample_count :: i64

definition empty_accumulator :: bucket_accumulator where
  "empty_accumulator = \<lparr>ba_exact_download_bytes = 0, ba_exact_upload_bytes = 0,
     ba_estimated_download_bytes = 0, ba_estimated_upload_bytes = 0,
     ba_exact_duration_ms = 0, ba_estimated_duration_ms = 0, ba_sample_count = 0\<rparr>"

type_synonym buckets = "(i64 \<times> bucket_accumulator) list"

definition validate_traffic_query :: "traffic_query \<Rightarrow> nat \<Rightarrow> unit db_result" where
  "validate_traffic_query q budget =
     (if tq_to_ms q \<le> tq_from_ms q \<or> tq_max_points q = 0 \<or> 50000 < tq_max_points q \<or> budget = 0
      then Inl (InvalidCommand ''traffic query requires an increasing range, 1..=50000 max_points, and a positive source-row budget'')
      else Inr ())"

section \<open>Proportional allocation\<close>

definition proportional_slice :: "int \<Rightarrow> i64 \<Rightarrow> i64 \<Rightarrow> i64 \<Rightarrow> int db_result" where
  "proportional_slice v duration rel_start rel_end =
     (if v < 0 \<or> duration \<le> 0 \<or> rel_start < 0 \<or> rel_end < rel_start \<or> duration < rel_end
      then Inl (Verification ''traffic contribution cannot be proportionally allocated'')
      else case checked_i128 (v * rel_start) of
        None \<Rightarrow> Inl (Verification ''traffic allocation overflowed'')
      | Some before \<Rightarrow>
          (case checked_i128 (v * rel_end) of
             None \<Rightarrow> Inl (Verification ''traffic allocation overflowed'')
           | Some after \<Rightarrow> Inr (after div duration - before div duration)))"

definition cn_order_key :: "traffic_contribution \<Rightarrow> i64 \<times> i64" where
  "cn_order_key c = (cn_ended_at_ms c, cn_started_at_ms c)"

definition cn_duration_ms :: "traffic_contribution \<Rightarrow> i64" where
  "cn_duration_ms c = sat_sub (cn_ended_at_ms c) (cn_started_at_ms c)"

definition cn_covered_duration_ms :: "traffic_contribution \<Rightarrow> i64" where
  "cn_covered_duration_ms c = sat_add (cn_exact_duration_ms c) (cn_estimated_duration_ms c)"

definition add_segment ::
  "bucket_accumulator \<Rightarrow> traffic_contribution \<Rightarrow> i64 \<Rightarrow> i64 \<Rightarrow> bucket_accumulator db_result" where
  "add_segment acc c segment_start segment_end =
     (let source_duration = cn_duration_ms c;
          relative_start = sat_sub segment_start (cn_started_at_ms c);
          relative_end = sat_sub segment_end (cn_started_at_ms c) in
      if segment_start = cn_started_at_ms c \<and> segment_end = cn_ended_at_ms c
      then Inr (acc\<lparr>
        ba_exact_download_bytes := ba_exact_download_bytes acc + cn_exact_download_bytes c,
        ba_exact_upload_bytes := ba_exact_upload_bytes acc + cn_exact_upload_bytes c,
        ba_estimated_download_bytes := ba_estimated_download_bytes acc + cn_estimated_download_bytes c,
        ba_estimated_upload_bytes := ba_estimated_upload_bytes acc + cn_estimated_upload_bytes c,
        ba_exact_duration_ms := sat_add (ba_exact_duration_ms acc) (cn_exact_duration_ms c),
        ba_estimated_duration_ms := sat_add (ba_estimated_duration_ms acc) (cn_estimated_duration_ms c),
        ba_sample_count := sat_add (ba_sample_count acc) (cn_sample_count c)\<rparr>)
      else
        and_then (proportional_slice (cn_exact_download_bytes c + cn_estimated_download_bytes c)
                    source_duration relative_start relative_end) (\<lambda>download.
        and_then (proportional_slice (cn_exact_upload_bytes c + cn_estimated_upload_bytes c)
                    source_duration relative_start relative_end) (\<lambda>upload.
        and_then (proportional_slice (cn_covered_duration_ms c)
                    source_duration relative_start relative_end) (\<lambda>covered.
        and_then (ok_or (Verification ''traffic duration allocation overflowed'') (checked_i64 covered)) (\<lambda>covered.
          Inr (acc\<lparr>
            ba_estimated_download_bytes := ba_estimated_download_bytes acc + download,
            ba_estimated_upload_bytes := ba_estimated_upload_bytes acc + upload,
            ba_estimated_duration_ms := sat_add (ba_estimated_duration_ms acc)
              (min covered (sat_sub segment_end segment_start)),
            ba_sample_count := sat_add (ba_sample_count acc) (cn_sample_count c)\<rparr>))))))"

section \<open>Reading the rows\<close>

definition in_query_range :: "traffic_query \<Rightarrow> i64 \<Rightarrow> i64 \<Rightarrow> bool" where
  "in_query_range q started ended \<longleftrightarrow> tq_from_ms q < ended \<and> started < tq_to_ms q"

definition query_samples :: "traffic_db \<Rightarrow> traffic_query \<Rightarrow> sample_row list" where
  "query_samples db q = filter (\<lambda>s. sm_router_id s = tq_router_id q \<and> sm_interface_id s = tq_interface_id q
     \<and> in_query_range q (sm_started_at_ms s) (sm_ended_at_ms s)) (traffic_samples db)"

definition query_rollups :: "traffic_db \<Rightarrow> traffic_query \<Rightarrow> rollup_row list" where
  "query_rollups db q = filter (\<lambda>u. ru_router_id u = tq_router_id q \<and> ru_interface_id u = tq_interface_id q
     \<and> in_query_range q (ru_bucket_start_ms u) (ru_bucket_end_ms u)) (traffic_rollups db)"

definition sample_contribution :: "sample_row \<Rightarrow> traffic_contribution" where
  "sample_contribution s =
     (let exact = (sm_quality s = ''exact''); estimated = (sm_quality s = ''estimated'') in
      \<lparr>cn_started_at_ms = sm_started_at_ms s, cn_ended_at_ms = sm_ended_at_ms s,
       cn_exact_download_bytes = (if exact then sm_download_bytes s else 0),
       cn_exact_upload_bytes = (if exact then sm_upload_bytes s else 0),
       cn_estimated_download_bytes = (if estimated then sm_download_bytes s else 0),
       cn_estimated_upload_bytes = (if estimated then sm_upload_bytes s else 0),
       cn_exact_duration_ms = (if exact then sm_duration_ms s else 0),
       cn_estimated_duration_ms = (if estimated then sm_duration_ms s else 0),
       cn_sample_count = 1\<rparr>)"

definition rollup_contribution :: "rollup_row \<Rightarrow> traffic_contribution" where
  "rollup_contribution u =
     \<lparr>cn_started_at_ms = ru_bucket_start_ms u, cn_ended_at_ms = ru_bucket_end_ms u,
      cn_exact_download_bytes = ru_exact_download_bytes u,
      cn_exact_upload_bytes = ru_exact_upload_bytes u,
      cn_estimated_download_bytes = ru_estimated_download_bytes u,
      cn_estimated_upload_bytes = ru_estimated_upload_bytes u,
      cn_exact_duration_ms = ru_exact_duration_ms u,
      cn_estimated_duration_ms = ru_estimated_duration_ms u,
      cn_sample_count = ru_sample_count u\<rparr>"

text \<open>The two statements with their \<open>ORDER BY end, start, id\<close>.\<close>

definition sample_contributions :: "traffic_db \<Rightarrow> traffic_query \<Rightarrow> traffic_contribution list" where
  "sample_contributions db q = map sample_contribution
     (sort_key (\<lambda>s. (sm_ended_at_ms s, sm_started_at_ms s, sm_id s)) (query_samples db q))"

definition rollup_contributions :: "traffic_db \<Rightarrow> traffic_query \<Rightarrow> traffic_contribution list" where
  "rollup_contributions db q = map rollup_contribution
     (sort_key (\<lambda>u. (ru_bucket_end_ms u, ru_bucket_start_ms u, ru_id u)) (query_rollups db q))"

record traffic_source_summary =
  ss_row_count :: nat
  ss_max_duration_ms :: i64

text \<open>\<open>COUNT(*)\<close> and \<open>COALESCE(MAX(end - start), 1)\<close> over at most \<open>limit\<close> rows.\<close>

definition bounded_source_summary :: "i64 list \<Rightarrow> nat \<Rightarrow> traffic_source_summary db_result" where
  "bounded_source_summary durations limit =
     (if I64_MAX < int limit
      then Inl (InvalidCommand ''traffic source-row budget cannot be represented'')
      else let rows = take limit durations in
        Inr \<lparr>ss_row_count = length rows,
             ss_max_duration_ms = (if rows = [] then 1 else Max (set rows))\<rparr>)"

definition bounded_sample_summary :: "traffic_db \<Rightarrow> traffic_query \<Rightarrow> nat \<Rightarrow> traffic_source_summary db_result" where
  "bounded_sample_summary db q limit =
     bounded_source_summary (map (\<lambda>s. sm_ended_at_ms s - sm_started_at_ms s) (query_samples db q)) limit"

definition bounded_rollup_summary :: "traffic_db \<Rightarrow> traffic_query \<Rightarrow> nat \<Rightarrow> traffic_source_summary db_result" where
  "bounded_rollup_summary db q limit =
     bounded_source_summary (map (\<lambda>u. ru_bucket_end_ms u - ru_bucket_start_ms u) (query_rollups db q)) limit"

definition plan_traffic_sources :: "traffic_db \<Rightarrow> traffic_query \<Rightarrow> nat \<Rightarrow> i64 db_result" where
  "plan_traffic_sources db q budget =
     and_then (bounded_sample_summary db q (budget + 1)) (\<lambda>samples.
       if budget < ss_row_count samples then Inl (TrafficQueryTooLarge budget)
       else let remaining = budget - ss_row_count samples in
         and_then (bounded_rollup_summary db q (remaining + 1)) (\<lambda>rollups.
           if remaining < ss_row_count rollups then Inl (TrafficQueryTooLarge budget)
           else Inr (max (max (ss_max_duration_ms samples) (ss_max_duration_ms rollups)) 1)))"

section \<open>Folding the contributions into buckets\<close>

definition validate_traffic_contribution ::
  "traffic_contribution \<Rightarrow> i64 option \<Rightarrow> unit db_result" where
  "validate_traffic_contribution c previous_end =
     (let duration = cn_duration_ms c;
          bytes_valid = 0 \<le> cn_exact_download_bytes c \<and> 0 \<le> cn_exact_upload_bytes c
            \<and> 0 \<le> cn_estimated_download_bytes c \<and> 0 \<le> cn_estimated_upload_bytes c;
          coverage_valid = 0 \<le> cn_exact_duration_ms c \<and> 0 \<le> cn_estimated_duration_ms c
            \<and> cn_covered_duration_ms c \<le> duration in
      if duration \<le> 0 \<or> \<not> bytes_valid \<or> \<not> coverage_valid \<or> cn_sample_count c \<le> 0
         \<or> (cn_covered_duration_ms c = 0 \<and>
            0 < cn_exact_download_bytes c + cn_exact_upload_bytes c
              + cn_estimated_download_bytes c + cn_estimated_upload_bytes c)
      then Inl (Verification ''stored traffic contribution has invalid bytes, duration, or sample count'')
      else if (case previous_end of None \<Rightarrow> False | Some e \<Rightarrow> cn_started_at_ms c < e)
      then Inl (Verification ''stored traffic contributions overlap for one interface'')
      else Inr ())"

definition bucket_at :: "buckets \<Rightarrow> i64 \<Rightarrow> bucket_accumulator" where
  "bucket_at bs k = (case map_of bs k of None \<Rightarrow> empty_accumulator | Some a \<Rightarrow> a)"

definition put_bucket :: "buckets \<Rightarrow> i64 \<Rightarrow> bucket_accumulator \<Rightarrow> buckets" where
  "put_bucket bs k a = upsert k a (\<lambda>_. a) bs"

definition bucket_start_of :: "traffic_query \<Rightarrow> i64 \<Rightarrow> i64 \<Rightarrow> i64" where
  "bucket_start_of q width t =
     sat_add (tq_from_ms q) (sat_mul (sat_sub t (tq_from_ms q) div width) width)"

function accumulate_segments ::
  "traffic_contribution \<Rightarrow> traffic_query \<Rightarrow> i64 \<Rightarrow> i64 \<Rightarrow> i64 \<Rightarrow> buckets \<Rightarrow> buckets db_result" where
  "accumulate_segments c q width clipped_end segment_start bs =
     (if segment_start < clipped_end
      then let bucket_start = bucket_start_of q width segment_start;
               bucket_end = min (sat_add bucket_start width) (tq_to_ms q);
               segment_end = min clipped_end bucket_end in
        if segment_end \<le> segment_start
        then Inl (Verification ''traffic bucket boundaries did not advance'')
        else case add_segment (bucket_at bs bucket_start) c segment_start segment_end of
            Inl e \<Rightarrow> Inl e
          | Inr acc \<Rightarrow> accumulate_segments c q width clipped_end segment_end (put_bucket bs bucket_start acc)
      else Inr bs)"
  by pat_completeness auto
termination
  by (relation "measure (\<lambda>(c, q, width, clipped_end, segment_start, bs). nat (clipped_end - segment_start))")
    auto

declare accumulate_segments.simps [simp del]

definition accumulate_traffic_contribution ::
  "traffic_contribution \<Rightarrow> traffic_query \<Rightarrow> i64 \<Rightarrow> buckets \<Rightarrow> bucket_accumulator \<Rightarrow>
   (buckets \<times> bucket_accumulator) db_result" where
  "accumulate_traffic_contribution c q width bs totals =
     (let clipped_start = max (cn_started_at_ms c) (tq_from_ms q);
          clipped_end = min (cn_ended_at_ms c) (tq_to_ms q) in
      and_then (add_segment totals c clipped_start clipped_end) (\<lambda>totals'.
      and_then (accumulate_segments c q width clipped_end clipped_start bs) (\<lambda>bs'.
        Inr (bs', totals'))))"

text \<open>The two-way merge: the row with the smaller (end, start), a sample before a rollup.\<close>

fun next_contribution ::
  "traffic_contribution list \<Rightarrow> traffic_contribution list \<Rightarrow>
   (traffic_contribution \<times> traffic_contribution list \<times> traffic_contribution list) option" where
  "next_contribution [] [] = None"
| "next_contribution (s # ss) [] = Some (s, ss, [])"
| "next_contribution [] (r # rs) = Some (r, [], rs)"
| "next_contribution (s # ss) (r # rs) =
     (if cn_order_key s \<le> cn_order_key r then Some (s, ss, r # rs) else Some (r, s # ss, rs))"

lemma next_contribution_length:
  "next_contribution ss rs = Some (c, ss', rs') \<Longrightarrow>
   length ss + length rs = Suc (length ss' + length rs')"
  by (cases "(ss, rs)" rule: next_contribution.cases) (auto split: if_splits)

type_synonym fold_state = "i64 option \<times> nat \<times> buckets \<times> bucket_accumulator"

definition fold_step ::
  "traffic_query \<Rightarrow> i64 \<Rightarrow> nat \<Rightarrow> fold_state \<Rightarrow> traffic_contribution \<Rightarrow> fold_state db_result" where
  "fold_step q width budget st c =
     (case st of (previous_end, processed, bs, totals) \<Rightarrow>
      if budget < processed + 1 then Inl (TrafficQueryTooLarge budget)
      else and_then (validate_traffic_contribution c previous_end) (\<lambda>_.
           and_then (accumulate_traffic_contribution c q width bs totals) (\<lambda>(bs', totals').
             Inr (Some (cn_ended_at_ms c), processed + 1, bs', totals'))))"

function fold_contributions ::
  "traffic_query \<Rightarrow> i64 \<Rightarrow> nat \<Rightarrow> traffic_contribution list \<Rightarrow> traffic_contribution list \<Rightarrow>
   fold_state \<Rightarrow> fold_state db_result" where
  "fold_contributions q width budget ss rs st =
     (case next_contribution ss rs of
        None \<Rightarrow> Inr st
      | Some (c, ss', rs') \<Rightarrow>
          and_then (fold_step q width budget st c) (fold_contributions q width budget ss' rs'))"
  by pat_completeness auto
termination
  by (relation "measure (\<lambda>(q, width, budget, ss, rs, st). length ss + length rs)")
    (auto dest!: next_contribution_length[OF sym] next_contribution_length)

declare fold_contributions.simps [simp del]

definition fold_traffic_contributions ::
  "traffic_db \<Rightarrow> traffic_query \<Rightarrow> i64 \<Rightarrow> nat \<Rightarrow> (buckets \<times> bucket_accumulator) db_result" where
  "fold_traffic_contributions db q width budget =
     and_then (fold_contributions q width budget (sample_contributions db q) (rollup_contributions db q)
        (None, 0, [], empty_accumulator)) (\<lambda>(_, _, bs, totals). Inr (bs, totals))"

section \<open>The result\<close>

definition f64_clamp :: "f64 \<Rightarrow> f64 \<Rightarrow> f64 \<Rightarrow> f64" where
  "f64_clamp x lo hi = (if f64_less x lo then lo else if f64_less hi x then hi else x)"

definition bucket_point :: "traffic_query \<Rightarrow> i64 \<Rightarrow> i64 \<times> bucket_accumulator \<Rightarrow> traffic_bucket" where
  "bucket_point q width entry = (case entry of (started, b) \<Rightarrow>
     let duration = max (sat_add (ba_exact_duration_ms b) (ba_estimated_duration_ms b)) 1 in
     \<lparr>tb_started_at_ms = started,
      tb_ended_at_ms = min (sat_add started width) (tq_to_ms q),
      tb_download_bps = f64_div (f64_mul (f64_of_int (ba_exact_download_bytes b
          + ba_estimated_download_bytes b)) (Finite 8000)) (f64_of_int duration),
      tb_upload_bps = f64_div (f64_mul (f64_of_int (ba_exact_upload_bytes b
          + ba_estimated_upload_bytes b)) (Finite 8000)) (f64_of_int duration),
      tb_exact_download_bytes = show_int (ba_exact_download_bytes b),
      tb_exact_upload_bytes = show_int (ba_exact_upload_bytes b),
      tb_estimated_download_bytes = show_int (ba_estimated_download_bytes b),
      tb_estimated_upload_bytes = show_int (ba_estimated_upload_bytes b),
      tb_exact_duration_ms = ba_exact_duration_ms b,
      tb_estimated_duration_ms = ba_estimated_duration_ms b,
      tb_sample_count = ba_sample_count b\<rparr>)"

definition build_traffic_query_result ::
  "traffic_query \<Rightarrow> i64 \<Rightarrow> buckets \<Rightarrow> bucket_accumulator \<Rightarrow> nat \<Rightarrow> traffic_query_result db_result" where
  "build_traffic_query_result q width bs totals gap_count =
     (let range = sat_sub (tq_to_ms q) (tq_from_ms q);
          covered = sat_add (ba_exact_duration_ms totals) (ba_estimated_duration_ms totals) in
      if range < covered
      then Inl (Verification (''traffic coverage '' @ show_int covered
             @ ''ms exceeds requested range '' @ show_int range @ ''ms''))
      else Inr \<lparr>tr_bucket_size_ms = width, tr_points = map (bucket_point q width) bs,
        tr_totals = \<lparr>
          tt_download_bytes = show_int (ba_exact_download_bytes totals + ba_estimated_download_bytes totals),
          tt_upload_bytes = show_int (ba_exact_upload_bytes totals + ba_estimated_upload_bytes totals),
          tt_exact_download_bytes = show_int (ba_exact_download_bytes totals),
          tt_exact_upload_bytes = show_int (ba_exact_upload_bytes totals),
          tt_estimated_download_bytes = show_int (ba_estimated_download_bytes totals),
          tt_estimated_upload_bytes = show_int (ba_estimated_upload_bytes totals)\<rparr>,
        tr_coverage = \<lparr>
          tc_requested_duration_ms = range,
          tc_exact_duration_ms = ba_exact_duration_ms totals,
          tc_estimated_duration_ms = ba_estimated_duration_ms totals,
          tc_covered_duration_ms = covered,
          tc_completeness = f64_clamp (f64_div (f64_of_int covered) (f64_of_int range)) (Finite 0) (Finite 1),
          tc_gap_count = gap_count\<rparr>\<rparr>)"

definition gap_count_of :: "traffic_db \<Rightarrow> traffic_query \<Rightarrow> nat" where
  "gap_count_of db q = length (filter (\<lambda>g. gp_router_id g = tq_router_id q
     \<and> (gp_interface_id g = None \<or> gp_interface_id g = Some (tq_interface_id q))
     \<and> in_query_range q (gp_started_at_ms g) (gp_ended_at_ms g)) (traffic_gaps db))"

definition minimum_bucket_size :: "traffic_query \<Rightarrow> i64" where
  "minimum_bucket_size q =
     max ((sat_add (sat_sub (tq_to_ms q) (tq_from_ms q)) (int (tq_max_points q) - 1))
            div int (tq_max_points q)) 1"

definition query_traffic_v4_on_connection ::
  "traffic_db \<Rightarrow> traffic_query \<Rightarrow> nat \<Rightarrow> traffic_query_result db_result" where
  "query_traffic_v4_on_connection db q budget =
     and_then (ensure_interface_owner db (tq_router_id q) (Some (tq_interface_id q))) (\<lambda>_.
     and_then (plan_traffic_sources db q budget) (\<lambda>resolution.
       let width = max (minimum_bucket_size q) resolution in
       and_then (fold_traffic_contributions db q width budget) (\<lambda>(bs, totals).
         if tq_max_points q < length bs
         then Inl (Verification (''traffic query produced '' @ show_nat (length bs)
                @ '' points for a '' @ show_nat (tq_max_points q) @ ''-point limit''))
         else build_traffic_query_result q width bs totals (gap_count_of db q))))"

text \<open>A query that can be cancelled is checked when it starts, when it has its connection, and
  when it ends; the three observations are arguments.\<close>

record traffic_query_control =
  qc_cancelled :: bool
  qc_deadline :: "instant option"

definition interruption :: "traffic_query_control \<Rightarrow> instant \<Rightarrow> db_error option" where
  "interruption control now =
     (if qc_cancelled control then Some TrafficQueryCancelled
      else if (case qc_deadline control of None \<Rightarrow> False | Some d \<Rightarrow> d \<le> now)
      then Some TrafficQueryTimedOut else None)"

definition with_traffic_read_snapshot ::
  "db_error option \<Rightarrow> db_error option \<Rightarrow> db_error option \<Rightarrow> 'a db_result \<Rightarrow> 'a db_result" where
  "with_traffic_read_snapshot at_start at_connection at_end operation =
     (case at_start of Some e \<Rightarrow> Inl e | None \<Rightarrow>
     (case at_connection of Some e \<Rightarrow> Inl e | None \<Rightarrow>
     (case at_end of Some e \<Rightarrow> Inl e | None \<Rightarrow> operation)))"

definition query_traffic_v4 :: "traffic_db \<Rightarrow> traffic_query \<Rightarrow> traffic_query_result db_result" where
  "query_traffic_v4 db q =
     and_then (validate_traffic_query q MAX_TRAFFIC_SOURCE_ROWS) (\<lambda>_.
       with_traffic_read_snapshot None None None
         (query_traffic_v4_on_connection db q MAX_TRAFFIC_SOURCE_ROWS))"

datatype traffic_interface_selector = Aggregate | InterfaceKey string | WanName string

record traffic_history_request =
  hr_fallback_target :: string
  hr_selector :: traffic_interface_selector
  hr_from_ms :: i64
  hr_to_ms :: i64
  hr_max_points :: nat

datatype traffic_history_lookup =
    RouterNotFound
  | InterfaceNotFound
  | Found router_record router_interface_record "router_interface_record list" traffic_query_result

definition select_interface ::
  "traffic_db \<Rightarrow> i64 \<Rightarrow> traffic_interface_selector \<Rightarrow> router_interface_record option" where
  "select_interface db router sel = (case sel of
      InterfaceKey key \<Rightarrow> interface_by_key db router key
    | WanName name \<Rightarrow> traffic_interface_for_query db router (Some name)
    | Aggregate \<Rightarrow> traffic_interface_for_query db router None)"

definition query_traffic_history ::
  "traffic_db \<Rightarrow> traffic_history_request \<Rightarrow> traffic_history_lookup db_result" where
  "query_traffic_history db request =
     and_then (current_router_for_target db (hr_fallback_target request)) (\<lambda>router.
       case router of
         None \<Rightarrow> Inr RouterNotFound
       | Some router \<Rightarrow>
           (case select_interface db (rr_id router) (hr_selector request) of
              None \<Rightarrow> Inr InterfaceNotFound
            | Some iface \<Rightarrow>
                and_then (query_traffic_v4_on_connection db
                    \<lparr>tq_router_id = rr_id router, tq_interface_id = ri_id iface,
                     tq_from_ms = hr_from_ms request, tq_to_ms = hr_to_ms request,
                     tq_max_points = hr_max_points request\<rparr> MAX_TRAFFIC_SOURCE_ROWS)
                  (\<lambda>result. Inr (Found router iface (router_wan_interfaces db (rr_id router)) result))))"

definition query_traffic_history_cancellable ::
  "traffic_db \<Rightarrow> traffic_history_request \<Rightarrow> db_error option \<Rightarrow> db_error option \<Rightarrow> db_error option \<Rightarrow>
   traffic_history_lookup db_result" where
  "query_traffic_history_cancellable db request at_start at_connection at_end =
     and_then (validate_traffic_query
        \<lparr>tq_router_id = 0, tq_interface_id = 0, tq_from_ms = hr_from_ms request,
         tq_to_ms = hr_to_ms request, tq_max_points = hr_max_points request\<rparr> MAX_TRAFFIC_SOURCE_ROWS)
       (\<lambda>_. with_traffic_read_snapshot at_start at_connection at_end (query_traffic_history db request))"

end
