(* ===== verification/Traffic_Query_Facts.thy ===== *)
theory Traffic_Query_Facts
  imports Traffic_Query "HOL-Library.Multiset"
begin

text \<open>
  What a traffic query promises: the allocation of a row over its segments loses and
  invents nothing, the buckets of the answer add up to its totals, they lie on the grid of
  the query and are never more than asked for, the coverage never exceeds the range, and
  the rows used do not overlap.
\<close>

section \<open>Proportional allocation\<close>

definition slice :: "int \<Rightarrow> int \<Rightarrow> int \<Rightarrow> int \<Rightarrow> int" where
  "slice v d s e = v * e div d - v * s div d"

lemma slice_add: "slice v d s m + slice v d m e = slice v d s e"
  by (simp add: slice_def)

lemma slice_whole: "0 < d \<Longrightarrow> slice v d 0 d = v"
  by (simp add: slice_def)

lemma slice_nonneg: "0 \<le> v \<Longrightarrow> 0 < d \<Longrightarrow> s \<le> e \<Longrightarrow> 0 \<le> slice v d s e"
  by (simp add: slice_def zdiv_mono1 mult_left_mono)

lemma slice_le_value:
  assumes "0 \<le> v" "0 < d" "0 \<le> s" "s \<le> e" "e \<le> d"
  shows "slice v d s e \<le> v"
proof -
  have "slice v d 0 s + slice v d s e + slice v d e d = v"
    using slice_add slice_whole[OF assms(2)] by metis
  then show ?thesis using slice_nonneg[of v d 0 s] slice_nonneg[of v d e d] assms by linarith
qed

text \<open>A covered duration never takes more than the length of its segment.\<close>

lemma slice_le_length:
  assumes "0 \<le> v" "v \<le> d" "0 < d" "s \<le> e"
  shows "slice v d s e \<le> e - s"
proof -
  have "v * e \<le> v * s + d * (e - s)"
    using mult_right_mono[of v d "e - s"] assms by (simp add: algebra_simps)
  then have "v * e div d \<le> (v * s + d * (e - s)) div d"
    using assms(3) by (rule zdiv_mono1)
  also have "\<dots> = v * s div d + (e - s)" using assms(3) by simp
  finally show ?thesis by (simp add: slice_def)
qed

lemma i128_product:
  assumes "0 \<le> v" "v \<le> 2 * I64_MAX" "0 \<le> x" "x \<le> I64_MAX"
  shows "in_i128 (v * x)"
proof -
  have "v * x \<le> (2 * I64_MAX) * I64_MAX" using assms by (intro mult_mono) auto
  also have "\<dots> \<le> I128_MAX" by (simp add: int_bounds)
  finally show ?thesis using assms by (simp add: in_i128_def I128_MIN_def)
      (meson mult_nonneg_nonneg order_trans neg_le_0_iff_le zero_le_numeral)
qed

lemma proportional_slice_ok:
  assumes "0 \<le> v" "v \<le> 2 * I64_MAX" "0 < d" "d \<le> I64_MAX" "0 \<le> s" "s \<le> e" "e \<le> d"
  shows "proportional_slice v d s e = Inr (slice v d s e)"
proof -
  have "in_i128 (v * s)" "in_i128 (v * e)" using assms by (intro i128_product; linarith)+
  then show ?thesis using assms by (simp add: proportional_slice_def checked_i128_def slice_def)
qed

lemma proportional_slice_InrD:
  "proportional_slice v d s e = Inr x \<Longrightarrow>
   x = slice v d s e \<and> 0 \<le> v \<and> 0 < d \<and> 0 \<le> s \<and> s \<le> e \<and> e \<le> d"
  by (auto simp: proportional_slice_def checked_i128_def slice_def split: if_splits)

section \<open>Adding a segment\<close>

definition ba_download :: "bucket_accumulator \<Rightarrow> int" where
  "ba_download a = ba_exact_download_bytes a + ba_estimated_download_bytes a"

definition ba_upload :: "bucket_accumulator \<Rightarrow> int" where
  "ba_upload a = ba_exact_upload_bytes a + ba_estimated_upload_bytes a"

definition ba_duration :: "bucket_accumulator \<Rightarrow> int" where
  "ba_duration a = ba_exact_duration_ms a + ba_estimated_duration_ms a"

definition cn_download :: "traffic_contribution \<Rightarrow> int" where
  "cn_download c = cn_exact_download_bytes c + cn_estimated_download_bytes c"

definition cn_upload :: "traffic_contribution \<Rightarrow> int" where
  "cn_upload c = cn_exact_upload_bytes c + cn_estimated_upload_bytes c"

definition cn_covered :: "traffic_contribution \<Rightarrow> int" where
  "cn_covered c = cn_exact_duration_ms c + cn_estimated_duration_ms c"

definition cn_length :: "traffic_contribution \<Rightarrow> int" where
  "cn_length c = cn_ended_at_ms c - cn_started_at_ms c"

text \<open>A row as the validation accepts it, with its times in the range of Unix times.\<close>

definition cn_ok :: "traffic_contribution \<Rightarrow> bool" where
  "cn_ok c \<longleftrightarrow> 0 \<le> cn_started_at_ms c \<and> cn_started_at_ms c < cn_ended_at_ms c \<and>
     cn_ended_at_ms c \<le> I64_MAX \<and>
     0 \<le> cn_exact_download_bytes c \<and> cn_exact_download_bytes c \<le> I64_MAX \<and>
     0 \<le> cn_exact_upload_bytes c \<and> cn_exact_upload_bytes c \<le> I64_MAX \<and>
     0 \<le> cn_estimated_download_bytes c \<and> cn_estimated_download_bytes c \<le> I64_MAX \<and>
     0 \<le> cn_estimated_upload_bytes c \<and> cn_estimated_upload_bytes c \<le> I64_MAX \<and>
     0 \<le> cn_exact_duration_ms c \<and> 0 \<le> cn_estimated_duration_ms c \<and>
     cn_covered c \<le> cn_length c \<and> 0 < cn_sample_count c"

definition segment_of :: "traffic_contribution \<Rightarrow> int \<Rightarrow> int \<Rightarrow> int \<Rightarrow> int" where
  "segment_of c v s e = slice v (cn_length c) (s - cn_started_at_ms c) (e - cn_started_at_ms c)"

lemma cn_duration_ok: "cn_ok c \<Longrightarrow> cn_duration_ms c = cn_length c"
  by (simp add: cn_duration_ms_def cn_length_def cn_ok_def sat_sub_exact in_i64_def I64_MIN_def)

lemma cn_length_bounds: "cn_ok c \<Longrightarrow> 0 < cn_length c \<and> cn_length c \<le> I64_MAX"
  by (simp add: cn_length_def cn_ok_def)

lemma cn_covered_ok: "cn_ok c \<Longrightarrow> cn_covered_duration_ms c = cn_covered c"
  using cn_length_bounds[of c]
  by (simp add: cn_covered_duration_ms_def cn_covered_def cn_ok_def sat_add_def in_i64_def I64_MIN_def)

lemma cn_bytes_bounds:
  "cn_ok c \<Longrightarrow> 0 \<le> cn_download c \<and> cn_download c \<le> 2 * I64_MAX"
  "cn_ok c \<Longrightarrow> 0 \<le> cn_upload c \<and> cn_upload c \<le> 2 * I64_MAX"
  "cn_ok c \<Longrightarrow> 0 \<le> cn_covered c \<and> cn_covered c \<le> 2 * I64_MAX"
  using cn_length_bounds[of c] by (auto simp: cn_ok_def cn_download_def cn_upload_def cn_covered_def)

lemma segment_of_add: "segment_of c v s m + segment_of c v m e = segment_of c v s e"
  by (simp add: segment_of_def slice_add)

lemma segment_of_whole:
  "cn_ok c \<Longrightarrow> segment_of c v (cn_started_at_ms c) (cn_ended_at_ms c) = v"
  using slice_whole[of "cn_length c" v] cn_length_bounds[of c]
  by (simp add: segment_of_def cn_length_def)

lemma segment_covered_bounds:
  assumes "cn_ok c" "s \<le> e"
  shows "0 \<le> segment_of c (cn_covered c) s e" "segment_of c (cn_covered c) s e \<le> e - s"
  using assms slice_nonneg[of "cn_covered c" "cn_length c"] cn_length_bounds[of c] cn_bytes_bounds(3)[of c]
    slice_le_length[of "cn_covered c" "cn_length c" "s - cn_started_at_ms c" "e - cn_started_at_ms c"]
  by (auto simp: segment_of_def cn_ok_def)

text \<open>Adding a segment of a row always succeeds and adds its share of the bytes and of the
  covered time.\<close>

lemma add_segment_ok:
  assumes c: "cn_ok c" and se: "cn_started_at_ms c \<le> s" "s \<le> e" "e \<le> cn_ended_at_ms c"
    and acc: "0 \<le> ba_exact_duration_ms acc" "0 \<le> ba_estimated_duration_ms acc"
      "ba_duration acc + (e - s) \<le> I64_MAX"
  obtains acc' where "add_segment acc c s e = Inr acc'"
    and "ba_download acc' = ba_download acc + segment_of c (cn_download c) s e"
    and "ba_upload acc' = ba_upload acc + segment_of c (cn_upload c) s e"
    and "ba_duration acc' = ba_duration acc + segment_of c (cn_covered c) s e"
    and "0 \<le> ba_exact_duration_ms acc'" "0 \<le> ba_estimated_duration_ms acc'"
proof -
  note bnd = cn_length_bounds[OF c] cn_bytes_bounds[OF c]
  have rel: "sat_sub s (cn_started_at_ms c) = s - cn_started_at_ms c"
    "sat_sub e (cn_started_at_ms c) = e - cn_started_at_ms c" "sat_sub e s = e - s"
    using c se by (auto intro!: sat_sub_exact simp: cn_ok_def in_i64_def I64_MIN_def)
  note cov = segment_covered_bounds[OF c se(2)]
  show thesis
  proof (cases "s = cn_started_at_ms c \<and> e = cn_ended_at_ms c")
    case True
    have cc: "cn_covered c \<le> e - s" using c True by (simp add: cn_ok_def cn_length_def)
    have sat: "sat_add (ba_exact_duration_ms acc) (cn_exact_duration_ms c) =
        ba_exact_duration_ms acc + cn_exact_duration_ms c"
      "sat_add (ba_estimated_duration_ms acc) (cn_estimated_duration_ms c) =
        ba_estimated_duration_ms acc + cn_estimated_duration_ms c"
      using acc c cc by (auto simp: sat_add_def in_i64_def I64_MIN_def ba_duration_def cn_covered_def cn_ok_def
          intro!: clamp_i64_id)
    obtain acc' where "add_segment acc c s e = Inr acc'"
      using True by (simp add: add_segment_def)
    then show ?thesis
      by (rule that) (use True acc c sat segment_of_whole[OF c] \<open>add_segment acc c s e = Inr acc'\<close> in
          \<open>auto simp: add_segment_def ba_download_def ba_upload_def ba_duration_def cn_download_def
            cn_upload_def cn_covered_def cn_ok_def\<close>)
  next
    case False
    have ps: "proportional_slice v (cn_length c) (s - cn_started_at_ms c) (e - cn_started_at_ms c) =
        Inr (segment_of c v s e)" if "0 \<le> v \<and> v \<le> 2 * I64_MAX" for v
      unfolding segment_of_def using that bnd se by (intro proportional_slice_ok) (auto simp: cn_length_def)
    have i: "in_i64 (segment_of c (cn_covered c) s e)"
      using cov acc by (simp add: in_i64_def I64_MIN_def ba_duration_def)
    have sat: "sat_add (ba_estimated_duration_ms acc) (segment_of c (cn_covered c) s e) =
        ba_estimated_duration_ms acc + segment_of c (cn_covered c) s e"
      using cov acc by (auto simp: sat_add_def in_i64_def I64_MIN_def ba_duration_def intro!: clamp_i64_id)
    note eval = add_segment_def rel cn_duration_ok[OF c] cn_covered_ok[OF c] cn_download_def[symmetric]
      cn_upload_def[symmetric] checked_i64_def min_absorb1
    obtain acc' where r: "add_segment acc c s e = Inr acc'"
      using False ps bnd i by (simp add: eval)
    show ?thesis
      by (rule that[OF r]) (use False acc ps bnd i sat cov r in
          \<open>auto simp: eval ba_download_def ba_upload_def ba_duration_def\<close>)
  qed
qed

section \<open>Buckets\<close>

definition query_ok :: "traffic_query \<Rightarrow> bool" where
  "query_ok q \<longleftrightarrow> 0 \<le> tq_from_ms q \<and> tq_from_ms q < tq_to_ms q \<and>
     tq_to_ms q \<le> I64_MAX - 50000"

definition on_grid :: "traffic_query \<Rightarrow> int \<Rightarrow> int \<Rightarrow> bool" where
  "on_grid q w k \<longleftrightarrow> tq_from_ms q \<le> k \<and> k < tq_to_ms q \<and> (k - tq_from_ms q) mod w = 0"

definition bucket_ok :: "traffic_query \<Rightarrow> int \<Rightarrow> int \<Rightarrow> int \<Rightarrow> bucket_accumulator \<Rightarrow> bool" where
  "bucket_ok q w p k a \<longleftrightarrow> on_grid q w k \<and> k \<le> p \<and>
     0 \<le> ba_exact_duration_ms a \<and> 0 \<le> ba_estimated_duration_ms a \<and>
     ba_duration a \<le> min p (min (k + w) (tq_to_ms q)) - k"

definition buckets_ok :: "traffic_query \<Rightarrow> int \<Rightarrow> int \<Rightarrow> buckets \<Rightarrow> bool" where
  "buckets_ok q w p bs \<longleftrightarrow> sorted_keys bs \<and> (\<forall>(k, a) \<in> set bs. bucket_ok q w p k a)"

definition bucket_sum :: "(bucket_accumulator \<Rightarrow> int) \<Rightarrow> buckets \<Rightarrow> int" where
  "bucket_sum g bs = sum_list (map (g \<circ> snd) bs)"

lemma empty_accumulator_sums [simp]:
  "ba_download empty_accumulator = 0" "ba_upload empty_accumulator = 0" "ba_duration empty_accumulator = 0"
  "ba_exact_duration_ms empty_accumulator = 0" "ba_estimated_duration_ms empty_accumulator = 0"
  by (simp_all add: empty_accumulator_def ba_download_def ba_upload_def ba_duration_def)

lemma bucket_sum_put:
  assumes "sorted_keys bs" "g empty_accumulator = 0"
  shows "bucket_sum g (put_bucket bs k a) = bucket_sum g bs - g (bucket_at bs k) + g a"
proof -
  have above: "map_of bs k = None" if "sorted_keys bs" "\<forall>k' \<in> fst ` set bs. k < k'" for bs :: buckets
    using that by (force simp: map_of_eq_None_iff)
  show ?thesis
    using assms
  proof (induction bs)
    case (Cons x bs)
    obtain k' v where x: "x = (k', v)" by (cases x)
    consider "k < k'" | "k = k'" | "k' < k" by linarith
    then show ?case
    proof cases
      case 1
      then have "map_of bs k = None" "k \<noteq> k'"
        using Cons.prems(1) by (force simp: x sorted_keys_Cons map_of_eq_None_iff)+
      then show ?thesis using 1 Cons.prems by (simp add: x bucket_sum_def put_bucket_def bucket_at_def)
    next
      case 3
      then show ?thesis
        using Cons by (simp add: x bucket_sum_def put_bucket_def bucket_at_def sorted_keys_Cons)
    qed (simp add: x bucket_sum_def put_bucket_def bucket_at_def)
  qed (simp add: bucket_sum_def put_bucket_def bucket_at_def)
qed

lemma put_bucket_set:
  "(k', a') \<in> set (put_bucket bs k a) \<Longrightarrow> (k', a') = (k, a) \<or> (k', a') \<in> set bs"
  by (induction bs) (auto simp: put_bucket_def split: if_splits)

lemma put_bucket_sorted: "sorted_keys bs \<Longrightarrow> sorted_keys (put_bucket bs k a)"
  by (simp add: put_bucket_def upsert_sorted)

lemma bucket_at_cases: "bucket_at bs k = empty_accumulator \<or> (k, bucket_at bs k) \<in> set bs"
  by (auto simp: bucket_at_def split: option.splits dest: map_of_SomeD)

lemma bucket_ok_mono: "bucket_ok q w p k a \<Longrightarrow> p \<le> p' \<Longrightarrow> bucket_ok q w p' k a"
  by (auto simp: bucket_ok_def)

lemma buckets_ok_mono: "buckets_ok q w p bs \<Longrightarrow> p \<le> p' \<Longrightarrow> buckets_ok q w p' bs"
  by (auto simp: buckets_ok_def intro: bucket_ok_mono)

lemma bucket_start_ok:
  assumes "query_ok q" "0 < w" "tq_from_ms q \<le> t" "t < tq_to_ms q"
  shows "bucket_start_of q w t = tq_from_ms q + (t - tq_from_ms q) div w * w"
    and "on_grid q w (bucket_start_of q w t)" and "bucket_start_of q w t \<le> t"
    and "t < bucket_start_of q w t + w"
proof -
  let ?f = "tq_from_ms q" and ?n = "(t - tq_from_ms q) div w"
  have e: "?n * w + (t - ?f) mod w = t - ?f" by (rule div_mult_mod_eq)
  have m: "0 \<le> (t - ?f) mod w" "(t - ?f) mod w < w" using assms(2) by simp_all
  have "0 \<le> ?n" using assms by (simp add: pos_imp_zdiv_nonneg_iff)
  then have n0: "0 \<le> ?n * w" using assms(2) by simp
  have n1: "?n * w \<le> t - ?f" "t - ?f < ?n * w + w"
    using e m by linarith+
  note n = n0 n1
  have "sat_sub t ?f = t - ?f"
    using assms by (auto intro!: sat_sub_exact simp: query_ok_def in_i64_def I64_MIN_def)
  moreover have "sat_mul ?n w = ?n * w" "sat_add ?f (?n * w) = ?f + ?n * w"
    using assms n by (auto simp: sat_mul_def sat_add_def query_ok_def in_i64_def I64_MIN_def intro!: clamp_i64_id)
  ultimately show eq: "bucket_start_of q w t = ?f + ?n * w" by (simp add: bucket_start_of_def)
  show "on_grid q w (bucket_start_of q w t)" "bucket_start_of q w t \<le> t" "t < bucket_start_of q w t + w"
    unfolding eq on_grid_def using n assms by auto
qed

lemma sat_add_pos: "0 \<le> k \<Longrightarrow> 0 < w \<Longrightarrow> k < t \<Longrightarrow> t \<le> I64_MAX \<Longrightarrow> min (sat_add k w) t = min (k + w) t"
  by (auto simp: sat_add_def clamp_i64_def I64_MIN_def)

text \<open>Spreading a row over the buckets always succeeds; the buckets gain exactly its share.\<close>

lemma accumulate_segments_ok:
  assumes c: "cn_ok c" and q: "query_ok q" and w: "0 < w"
    and ce: "ce \<le> cn_ended_at_ms c" "ce \<le> tq_to_ms q"
  shows "cn_started_at_ms c \<le> s \<Longrightarrow> tq_from_ms q \<le> s \<Longrightarrow> s \<le> ce \<Longrightarrow> buckets_ok q w s bs \<Longrightarrow>
    \<exists>bs'. accumulate_segments c q w ce s bs = Inr bs' \<and> buckets_ok q w ce bs' \<and>
      bucket_sum ba_download bs' = bucket_sum ba_download bs + segment_of c (cn_download c) s ce \<and>
      bucket_sum ba_upload bs' = bucket_sum ba_upload bs + segment_of c (cn_upload c) s ce \<and>
      bucket_sum ba_duration bs' = bucket_sum ba_duration bs + segment_of c (cn_covered c) s ce"
proof (induction "nat (ce - s)" arbitrary: s bs rule: less_induct)
  case less
  show ?case
  proof (cases "s < ce")
    case False
    then show ?thesis
      using less.prems by (subst accumulate_segments.simps) (auto simp: segment_of_def slice_def)
  next
    case True
    define k where "k = bucket_start_of q w s"
    note st = bucket_start_ok[OF q w less.prems(2), folded k_def]
    have s_to: "s < tq_to_ms q" using True ce by simp
    note st = bucket_start_ok[OF q w less.prems(2) s_to, folded k_def]
    define be where "be = min (sat_add k w) (tq_to_ms q)"
    have be: "be = min (k + w) (tq_to_ms q)"
      unfolding be_def using st q w s_to
      by (intro sat_add_pos) (auto simp: on_grid_def query_ok_def)
    define se where "se = min ce be"
    have se: "s < se" "se \<le> ce" "se \<le> k + w" "se \<le> tq_to_ms q"
      using True st(4) s_to by (auto simp: se_def be)
    define acc where "acc = bucket_at bs k"
    have acc: "0 \<le> ba_exact_duration_ms acc" "0 \<le> ba_estimated_duration_ms acc"
      "ba_duration acc \<le> s - k"
      using bucket_at_cases[of bs k] less.prems(4) st(3)
      by (auto simp: acc_def buckets_ok_def bucket_ok_def)
    have room: "ba_duration acc + (se - s) \<le> I64_MAX"
      using acc se st(2) q by (auto simp: on_grid_def query_ok_def)
    obtain acc' where a: "add_segment acc c s se = Inr acc'"
      "ba_download acc' = ba_download acc + segment_of c (cn_download c) s se"
      "ba_upload acc' = ba_upload acc + segment_of c (cn_upload c) s se"
      "ba_duration acc' = ba_duration acc + segment_of c (cn_covered c) s se"
      "0 \<le> ba_exact_duration_ms acc'" "0 \<le> ba_estimated_duration_ms acc'"
      by (rule add_segment_ok[OF c less.prems(1) _ _ acc(1,2) room]) (use se ce in auto)
    define bs1 where "bs1 = put_bucket bs k acc'"
    have ok1: "bucket_ok q w se k acc'"
      using a acc se st segment_covered_bounds(2)[OF c, of s se] by (auto simp: bucket_ok_def)
    have "buckets_ok q w se bs1"
      using less.prems(4) buckets_ok_mono[OF less.prems(4), of se] se ok1 put_bucket_sorted
      by (auto simp: bs1_def buckets_ok_def dest!: put_bucket_set)
    moreover have "nat (ce - se) < nat (ce - s)" using se by simp
    ultimately obtain bs' where bs': "accumulate_segments c q w ce se bs1 = Inr bs'" "buckets_ok q w ce bs'"
      "bucket_sum ba_download bs' = bucket_sum ba_download bs1 + segment_of c (cn_download c) se ce"
      "bucket_sum ba_upload bs' = bucket_sum ba_upload bs1 + segment_of c (cn_upload c) se ce"
      "bucket_sum ba_duration bs' = bucket_sum ba_duration bs1 + segment_of c (cn_covered c) se ce"
      using less.hyps[of se bs1] se less.prems by auto
    have srt: "sorted_keys bs" using less.prems(4) by (simp add: buckets_ok_def)
    have sums: "bucket_sum g bs1 = bucket_sum g bs - g acc + g acc'" if "g empty_accumulator = 0" for g
      unfolding bs1_def acc_def by (rule bucket_sum_put[OF srt]) (rule that)
    have "accumulate_segments c q w ce s bs = Inr bs'"
      using True bs'(1) a(1) se
      by (subst accumulate_segments.simps)
        (simp add: Let_def k_def[symmetric] be_def[symmetric] se_def[symmetric] acc_def[symmetric]
          bs1_def[symmetric] not_le)
    then show ?thesis
      using bs' a sums[of ba_download] sums[of ba_upload] sums[of ba_duration]
        segment_of_add[of c _ s se ce, symmetric]
      by simp
  qed
qed

section \<open>The fold over all rows\<close>

text \<open>The order in which the two streams are consumed.\<close>

function merged :: "traffic_contribution list \<Rightarrow> traffic_contribution list \<Rightarrow> traffic_contribution list" where
  "merged ss rs = (case next_contribution ss rs of None \<Rightarrow> []
     | Some (c, ss', rs') \<Rightarrow> c # merged ss' rs')"
  by pat_completeness auto
termination
  by (relation "measure (\<lambda>(ss, rs). length ss + length rs)") (auto dest: next_contribution_length)

declare merged.simps [simp del]

lemma next_contribution_None: "next_contribution ss rs = None \<longleftrightarrow> ss = [] \<and> rs = []"
  by (cases "(ss, rs)" rule: next_contribution.cases) auto

lemma next_contribution_mset:
  "next_contribution ss rs = Some (c, ss', rs') \<Longrightarrow> mset ss + mset rs = add_mset c (mset ss' + mset rs')"
  by (cases "(ss, rs)" rule: next_contribution.cases) (auto split: if_splits)

lemma merged_mset: "mset (merged ss rs) = mset ss + mset rs"
proof (induction ss rs rule: merged.induct)
  case (1 ss rs)
  then show ?case
    by (subst merged.simps)
      (auto simp: next_contribution_None dest!: next_contribution_mset split: option.splits prod.splits)
qed

lemma merged_set: "set (merged ss rs) = set ss \<union> set rs"
  using arg_cong[OF merged_mset[of ss rs], of set_mset] by simp

lemma merged_length: "length (merged ss rs) = length ss + length rs"
  by (metis merged_mset size_mset size_union)

text \<open>The streaming loop is the fold of its step over the merged rows.\<close>

lemma fold_contributions_merged:
  "fold_contributions q w budget ss rs st = fold_result (fold_step q w budget) st (merged ss rs)"
proof (induction ss rs arbitrary: st rule: merged.induct)
  case (1 ss rs)
  show ?case
  proof (cases "next_contribution ss rs")
    case None
    then show ?thesis by (subst fold_contributions.simps, subst merged.simps) simp
  next
    case (Some t)
    obtain c ss' rs' where t: "t = (c, ss', rs')" by (cases t)
    have "fold_contributions q w budget ss' rs' = (\<lambda>st. fold_result (fold_step q w budget) st (merged ss' rs'))"
      using 1[OF Some t[symmetric]] t by auto
    then show ?thesis
      using Some t by (subst fold_contributions.simps, subst merged.simps) simp
  qed
qed

definition reached :: "traffic_query \<Rightarrow> i64 option \<Rightarrow> int" where
  "reached q prev = (case prev of None \<Rightarrow> tq_from_ms q
     | Some e \<Rightarrow> max (tq_from_ms q) (min e (tq_to_ms q)))"

fun state_ok :: "traffic_query \<Rightarrow> int \<Rightarrow> fold_state \<Rightarrow> bool" where
  "state_ok q w (prev, n, bs, tot) \<longleftrightarrow>
     buckets_ok q w (reached q prev) bs \<and>
     0 \<le> ba_exact_duration_ms tot \<and> 0 \<le> ba_estimated_duration_ms tot \<and>
     ba_duration tot \<le> reached q prev - tq_from_ms q \<and>
     bucket_sum ba_download bs = ba_download tot \<and> bucket_sum ba_upload bs = ba_upload tot \<and>
     bucket_sum ba_duration bs = ba_duration tot"

definition used_ok :: "traffic_query \<Rightarrow> traffic_contribution \<Rightarrow> bool" where
  "used_ok q c \<longleftrightarrow> cn_ok c \<and> in_query_range q (cn_started_at_ms c) (cn_ended_at_ms c) \<and>
     (cn_covered c = 0 \<longrightarrow> cn_download c + cn_upload c = 0)"

definition follows :: "i64 option \<Rightarrow> traffic_contribution \<Rightarrow> bool" where
  "follows prev c \<longleftrightarrow> (case prev of None \<Rightarrow> True | Some e \<Rightarrow> e \<le> cn_started_at_ms c)"

lemma validate_contribution_ok:
  "used_ok q c \<Longrightarrow> follows prev c \<Longrightarrow> validate_traffic_contribution c prev = Inr ()"
  using cn_length_bounds[of c] cn_duration_ok[of c] cn_covered_ok[of c]
  by (auto simp: validate_traffic_contribution_def used_ok_def follows_def cn_ok_def Let_def
      cn_download_def cn_upload_def split: option.splits)

lemma validate_contribution_follows:
  "validate_traffic_contribution c prev = Inr u \<Longrightarrow> follows prev c"
  by (auto simp: validate_traffic_contribution_def follows_def Let_def not_less
      split: option.splits if_splits)

lemma fold_step_ok:
  assumes q: "query_ok q" and w: "0 < w" and st: "state_ok q w (prev, n, bs, tot)"
    and c: "used_ok q c" and f: "follows prev c" and b: "n < budget"
  shows "\<exists>bs' tot'. fold_step q w budget (prev, n, bs, tot) c = Inr (Some (cn_ended_at_ms c), n + 1, bs', tot') \<and>
     state_ok q w (Some (cn_ended_at_ms c), n + 1, bs', tot')"
proof -
  define cs ce where "cs = max (cn_started_at_ms c) (tq_from_ms q)" and "ce = min (cn_ended_at_ms c) (tq_to_ms q)"
  have ok: "cn_ok c" using c by (simp add: used_ok_def)
  have order: "cn_started_at_ms c \<le> cs" "tq_from_ms q \<le> cs" "cs < ce" "ce \<le> cn_ended_at_ms c" "ce \<le> tq_to_ms q"
    using c q by (auto simp: cs_def ce_def used_ok_def in_query_range_def cn_ok_def query_ok_def)
  have pre: "reached q prev \<le> cs"
    using f order q by (auto simp: reached_def follows_def cs_def query_ok_def split: option.splits)
  have post: "reached q (Some (cn_ended_at_ms c)) = ce"
    using order by (auto simp: reached_def ce_def)
  have room: "ba_duration tot + (ce - cs) \<le> I64_MAX"
    using st pre order q by (auto simp: query_ok_def)
  have tot: "0 \<le> ba_exact_duration_ms tot" "0 \<le> ba_estimated_duration_ms tot" using st by auto
  obtain tot' where t: "add_segment tot c cs ce = Inr tot'"
    "ba_download tot' = ba_download tot + segment_of c (cn_download c) cs ce"
    "ba_upload tot' = ba_upload tot + segment_of c (cn_upload c) cs ce"
    "ba_duration tot' = ba_duration tot + segment_of c (cn_covered c) cs ce"
    "0 \<le> ba_exact_duration_ms tot'" "0 \<le> ba_estimated_duration_ms tot'"
    by (rule add_segment_ok[OF ok order(1) _ order(4) tot room]) (use order in auto)
  have "buckets_ok q w cs bs" using st pre buckets_ok_mono by auto
  from accumulate_segments_ok[OF ok q w order(4,5) order(1,2) _ this]
  obtain bs' where bs': "accumulate_segments c q w ce cs bs = Inr bs'" "buckets_ok q w ce bs'"
    "bucket_sum ba_download bs' = bucket_sum ba_download bs + segment_of c (cn_download c) cs ce"
    "bucket_sum ba_upload bs' = bucket_sum ba_upload bs + segment_of c (cn_upload c) cs ce"
    "bucket_sum ba_duration bs' = bucket_sum ba_duration bs + segment_of c (cn_covered c) cs ce"
    using order by auto
  have "fold_step q w budget (prev, n, bs, tot) c = Inr (Some (cn_ended_at_ms c), n + 1, bs', tot')"
    using b validate_contribution_ok[OF c f] t(1) bs'(1)
    by (simp add: fold_step_def accumulate_traffic_contribution_def Let_def cs_def[symmetric] ce_def[symmetric])
  moreover have "state_ok q w (Some (cn_ended_at_ms c), n + 1, bs', tot')"
    using st t bs' post pre segment_covered_bounds(2)[OF ok, of cs ce] order by auto
  ultimately show ?thesis by blast
qed

lemma fold_step_InrD:
  "fold_step q w budget (prev, n, bs, tot) c = Inr st' \<Longrightarrow>
   follows prev c \<and> n < budget \<and> (\<exists>bs' tot'. st' = (Some (cn_ended_at_ms c), n + 1, bs', tot'))"
  by (auto simp: fold_step_def and_then_Inr_iff split: if_splits dest: validate_contribution_follows)

text \<open>Each row starts where the one before it has ended, or later.\<close>

primrec chain_from :: "i64 option \<Rightarrow> traffic_contribution list \<Rightarrow> bool" where
  "chain_from prev [] \<longleftrightarrow> True"
| "chain_from prev (c # cs) \<longleftrightarrow> follows prev c \<and> chain_from (Some (cn_ended_at_ms c)) cs"

lemma fold_rows_ok:
  assumes "query_ok q" "0 < w" and "\<forall>c \<in> set cs. used_ok q c" and "state_ok q w (prev, n, bs, tot)"
    and "chain_from prev cs" "n + length cs \<le> budget"
  shows "\<exists>prev' bs' tot'. fold_result (fold_step q w budget) (prev, n, bs, tot) cs = Inr (prev', n + length cs, bs', tot') \<and>
     state_ok q w (prev', n + length cs, bs', tot')"
  using assms(3-)
proof (induction cs arbitrary: prev n bs tot)
  case (Cons c cs)
  obtain bs1 tot1 where 1: "fold_step q w budget (prev, n, bs, tot) c = Inr (Some (cn_ended_at_ms c), n + 1, bs1, tot1)"
    "state_ok q w (Some (cn_ended_at_ms c), n + 1, bs1, tot1)"
    using fold_step_ok[OF assms(1,2) Cons.prems(2), of c budget] Cons.prems by auto
  then show ?case
    using Cons.IH[OF _ 1(2)] Cons.prems by auto
qed auto

lemma fold_rows_InrD:
  assumes "query_ok q" "0 < w" and "\<forall>c \<in> set cs. used_ok q c" and "state_ok q w st"
    and "fold_result (fold_step q w budget) st cs = Inr st'"
  shows "state_ok q w st' \<and> chain_from (fst st) cs \<and> fst (snd st) + length cs \<le> max budget (fst (snd st))"
  using assms(3-)
proof (induction cs arbitrary: st)
  case (Cons c cs)
  obtain prev n bs tot where st: "st = (prev, n, bs, tot)" by (cases st)
  obtain st1 where 1: "fold_step q w budget st c = Inr st1"
    and rest: "fold_result (fold_step q w budget) st1 cs = Inr st'"
    using Cons.prems(3) by (auto simp: and_then_Inr_iff)
  have d: "follows prev c" "n < budget" using fold_step_InrD 1 st by blast+
  obtain bs1 tot1 where st1: "st1 = (Some (cn_ended_at_ms c), n + 1, bs1, tot1)" "state_ok q w st1"
    using fold_step_ok[OF assms(1,2) _ _ d(1) d(2), of bs tot] Cons.prems(1,2) 1 st by auto
  then show ?case
    using Cons.IH[OF _ st1(2) rest] Cons.prems(1) d st by auto
qed simp

lemma chain_from_disjoint:
  assumes "chain_from prev cs" "\<forall>c \<in> set cs. cn_ok c"
  shows "sorted_wrt (\<lambda>a b. cn_ended_at_ms a \<le> cn_started_at_ms b) cs \<and>
     (\<forall>e. prev = Some e \<longrightarrow> (\<forall>c \<in> set cs. e \<le> cn_started_at_ms c))"
  using assms
proof (induction cs arbitrary: prev)
  case (Cons c cs)
  then have "sorted_wrt (\<lambda>a b. cn_ended_at_ms a \<le> cn_started_at_ms b) cs"
    "\<forall>x \<in> set cs. cn_ended_at_ms c \<le> cn_started_at_ms x" by auto
  then show ?case
    using Cons.prems by (fastforce simp: follows_def cn_ok_def)
qed simp

lemma initial_state_ok: "state_ok q w (None, 0, [], empty_accumulator)"
  by (simp add: buckets_ok_def bucket_sum_def reached_def)

section \<open>From the stored rows to the answer\<close>

definition sample_ok :: "sample_row \<Rightarrow> bool" where
  "sample_ok s \<longleftrightarrow> sample_checks s \<and> 0 \<le> sm_started_at_ms s \<and> sm_ended_at_ms s \<le> I64_MAX \<and>
     sm_duration_ms s = sm_ended_at_ms s - sm_started_at_ms s \<and>
     sm_download_bytes s \<le> I64_MAX \<and> sm_upload_bytes s \<le> I64_MAX"

definition rollup_ok :: "rollup_row \<Rightarrow> bool" where
  "rollup_ok u \<longleftrightarrow> rollup_checks u \<and> 0 \<le> ru_bucket_start_ms u \<and> ru_bucket_end_ms u \<le> I64_MAX \<and>
     ru_exact_duration_ms u + ru_estimated_duration_ms u \<le> ru_bucket_end_ms u - ru_bucket_start_ms u \<and>
     0 < ru_exact_duration_ms u + ru_estimated_duration_ms u \<and>
     ru_exact_download_bytes u \<le> I64_MAX \<and> ru_exact_upload_bytes u \<le> I64_MAX \<and>
     ru_estimated_download_bytes u \<le> I64_MAX \<and> ru_estimated_upload_bytes u \<le> I64_MAX"

definition history_ok :: "traffic_db \<Rightarrow> bool" where
  "history_ok db \<longleftrightarrow> (\<forall>s \<in> set (traffic_samples db). sample_ok s) \<and>
     (\<forall>u \<in> set (traffic_rollups db). rollup_ok u)"

definition used_rows :: "traffic_db \<Rightarrow> traffic_query \<Rightarrow> traffic_contribution list" where
  "used_rows db q = merged (sample_contributions db q) (rollup_contributions db q)"

lemma sample_contribution_used:
  assumes "sample_ok s" "in_query_range q (sm_started_at_ms s) (sm_ended_at_ms s)"
  shows "used_ok q (sample_contribution s)"
  using assms
  by (auto simp: used_ok_def cn_ok_def sample_contribution_def sample_ok_def sample_checks_def Let_def
      cn_covered_def cn_length_def cn_download_def cn_upload_def I64_MAX_def)

lemma rollup_contribution_used:
  assumes "rollup_ok u" "in_query_range q (ru_bucket_start_ms u) (ru_bucket_end_ms u)"
  shows "used_ok q (rollup_contribution u)"
  using assms
  by (auto simp: used_ok_def cn_ok_def rollup_contribution_def rollup_ok_def rollup_checks_def
      cn_covered_def cn_length_def)

lemma used_rows_ok: "history_ok db \<Longrightarrow> \<forall>c \<in> set (used_rows db q). used_ok q c"
  by (auto simp: used_rows_def merged_set sample_contributions_def rollup_contributions_def
      query_samples_def query_rollups_def history_ok_def
      intro: sample_contribution_used rollup_contribution_used)

lemma used_rows_length:
  "length (used_rows db q) = length (query_samples db q) + length (query_rollups db q)"
  by (simp add: used_rows_def merged_length sample_contributions_def rollup_contributions_def)

lemma minimum_bucket_size_ok:
  assumes "query_ok q" "1 \<le> tq_max_points q" "tq_max_points q \<le> 50000"
  shows "0 < minimum_bucket_size q"
    and "tq_to_ms q - tq_from_ms q \<le> minimum_bucket_size q * int (tq_max_points q)"
proof -
  let ?r = "tq_to_ms q - tq_from_ms q" and ?n = "int (tq_max_points q)"
  show "0 < minimum_bucket_size q" by (simp add: minimum_bucket_size_def)
  have r: "sat_sub (tq_to_ms q) (tq_from_ms q) = ?r"
    using assms by (intro sat_sub_exact) (auto simp: query_ok_def in_i64_def I64_MIN_def)
  have a: "sat_add ?r (?n - 1) = ?r + (?n - 1)"
    unfolding sat_add_def using assms
    by (intro clamp_i64_id) (auto simp: query_ok_def in_i64_def I64_MIN_def)
  have n: "0 < ?n" using assms(2) by simp
  have "?r + (?n - 1) = (?r + (?n - 1)) div ?n * ?n + (?r + (?n - 1)) mod ?n" by simp
  moreover have "(?r + (?n - 1)) mod ?n \<le> ?n - 1" using n by (simp add: zle_diff1_eq)
  ultimately have "?r \<le> (?r + (?n - 1)) div ?n * ?n" by linarith
  also have "\<dots> \<le> minimum_bucket_size q * ?n"
    unfolding minimum_bucket_size_def r a using n by (intro mult_right_mono) auto
  finally show "?r \<le> minimum_bucket_size q * ?n" .
qed

lemma bucket_count:
  assumes q: "query_ok q" and w: "0 < w" and bs: "buckets_ok q w p bs"
    and range: "tq_to_ms q - tq_from_ms q \<le> w * int n"
  shows "length bs \<le> n"
proof -
  let ?i = "\<lambda>k. nat ((k - tq_from_ms q) div w)"
  have grid: "on_grid q w k" if "k \<in> fst ` set bs" for k
    using that bs by (auto simp: buckets_ok_def bucket_ok_def)
  have inj: "inj_on ?i (fst ` set bs)"
  proof (rule inj_onI)
    fix k k' assume k: "k \<in> fst ` set bs" "k' \<in> fst ` set bs" "?i k = ?i k'"
    have "(k - tq_from_ms q) div w = (k' - tq_from_ms q) div w"
      using k grid[of k] grid[of k'] w by (auto simp: on_grid_def pos_imp_zdiv_nonneg_iff eq_nat_nat_iff)
    moreover have "(k - tq_from_ms q) mod w = (k' - tq_from_ms q) mod w"
      using grid k by (simp add: on_grid_def)
    ultimately show "k = k'" by (metis div_mult_mod_eq diff_add_cancel)
  qed
  have "?i ` fst ` set bs \<subseteq> {..<n}"
  proof
    fix i assume "i \<in> ?i ` fst ` set bs"
    then obtain k where k: "k \<in> fst ` set bs" "i = ?i k" by auto
    have "k - tq_from_ms q < w * int n" using grid[OF k(1)] range by (simp add: on_grid_def)
    have "(k - tq_from_ms q) div w < int n"
    proof (rule ccontr)
      assume "\<not> (k - tq_from_ms q) div w < int n"
      then have "int n * w \<le> (k - tq_from_ms q) div w * w" using w by (intro mult_right_mono) auto
      also have "\<dots> \<le> k - tq_from_ms q"
        using pos_mod_sign[OF w, of "k - tq_from_ms q"] div_mult_mod_eq[of "k - tq_from_ms q" w] by linarith
      finally show False using \<open>k - tq_from_ms q < w * int n\<close> by (simp add: mult.commute)
    qed
    then show "i \<in> {..<n}" using k grid[OF k(1)] w by (simp add: on_grid_def nat_less_iff pos_imp_zdiv_nonneg_iff)
  qed
  then have "card (?i ` fst ` set bs) \<le> n" by (metis card_lessThan card_mono finite_lessThan)
  then have "card (fst ` set bs) \<le> n" by (simp add: card_image[OF inj])
  moreover have "distinct (map fst bs)"
    using bs by (auto simp: buckets_ok_def sorted_keys_def strict_sorted_iff)
  ultimately show ?thesis by (metis distinct_card image_set length_map)
qed

lemma plan_InrD:
  assumes "plan_traffic_sources db q budget = Inr res"
  shows "1 \<le> res" and "length (query_samples db q) + length (query_rollups db q) \<le> budget"
  using assms
  by (auto simp: plan_traffic_sources_def bounded_sample_summary_def bounded_rollup_summary_def
      bounded_source_summary_def and_then_Inr_iff Let_def min_def split: if_splits)

lemma plan_ok:
  assumes "length (query_samples db q) + length (query_rollups db q) \<le> budget" "int budget + 1 \<le> I64_MAX"
  shows "\<exists>res \<ge> 1. plan_traffic_sources db q budget = Inr res"
  using assms
  by (auto simp: plan_traffic_sources_def bounded_sample_summary_def bounded_rollup_summary_def
      bounded_source_summary_def Let_def min_def)

lemma fold_traffic_contributions_alt:
  "fold_traffic_contributions db q w budget =
     and_then (fold_result (fold_step q w budget) (None, 0, [], empty_accumulator) (used_rows db q))
       (\<lambda>(_, _, bs, totals). Inr (bs, totals))"
  by (simp add: fold_traffic_contributions_def fold_contributions_merged used_rows_def)

text \<open>Everything a successful fold establishes.\<close>

lemma fold_traffic_InrD:
  assumes "query_ok q" "0 < w" "history_ok db" "fold_traffic_contributions db q w budget = Inr (bs, totals)"
  shows "buckets_ok q w (tq_to_ms q) bs" "bucket_sum ba_download bs = ba_download totals"
    "bucket_sum ba_upload bs = ba_upload totals" "bucket_sum ba_duration bs = ba_duration totals"
    "0 \<le> ba_exact_duration_ms totals" "0 \<le> ba_estimated_duration_ms totals"
    "ba_duration totals \<le> tq_to_ms q - tq_from_ms q" "chain_from None (used_rows db q)"
proof -
  obtain prev n where f: "fold_result (fold_step q w budget) (None, 0, [], empty_accumulator) (used_rows db q)
      = Inr (prev, n, bs, totals)"
    using assms(4) by (auto simp: fold_traffic_contributions_alt and_then_Inr_iff)
  note d = fold_rows_InrD[OF assms(1,2) used_rows_ok[OF assms(3)] initial_state_ok f]
  have r: "reached q prev \<le> tq_to_ms q"
    using assms(1) by (auto simp: reached_def query_ok_def split: option.splits)
  then show "buckets_ok q w (tq_to_ms q) bs" using d buckets_ok_mono by auto
  show "bucket_sum ba_download bs = ba_download totals"
    "bucket_sum ba_upload bs = ba_upload totals" "bucket_sum ba_duration bs = ba_duration totals"
    "0 \<le> ba_exact_duration_ms totals" "0 \<le> ba_estimated_duration_ms totals"
    "ba_duration totals \<le> tq_to_ms q - tq_from_ms q" "chain_from None (used_rows db q)"
    using d r by auto
qed

lemma fold_traffic_ok:
  assumes "query_ok q" "0 < w" "history_ok db" "chain_from None (used_rows db q)"
    "length (used_rows db q) \<le> budget"
  shows "\<exists>bs totals. fold_traffic_contributions db q w budget = Inr (bs, totals)"
proof -
  obtain prev bs totals n where "fold_result (fold_step q w budget) (None, 0, [], empty_accumulator)
      (used_rows db q) = Inr (prev, n, bs, totals)"
    using fold_rows_ok[OF assms(1,2) used_rows_ok[OF assms(3)] initial_state_ok assms(4), of budget] assms(5)
    by auto
  then show ?thesis by (auto simp: fold_traffic_contributions_alt)
qed

section \<open>The whole query\<close>

definition query_valid :: "traffic_db \<Rightarrow> traffic_query \<Rightarrow> bool" where
  "query_valid db q \<longleftrightarrow> history_ok db \<and> query_ok q"

lemma query_InrD:
  assumes v: "query_valid db q" and r: "query_traffic_v4 db q = Inr r"
  obtains w bs totals where "0 < w" and "minimum_bucket_size q \<le> w"
    and "fold_traffic_contributions db q w MAX_TRAFFIC_SOURCE_ROWS = Inr (bs, totals)"
    and "length bs \<le> tq_max_points q"
    and "build_traffic_query_result q w bs totals (gap_count_of db q) = Inr r"
proof -
  obtain res where res: "plan_traffic_sources db q MAX_TRAFFIC_SOURCE_ROWS = Inr res"
    and rest: "\<exists>bs totals. fold_traffic_contributions db q (max (minimum_bucket_size q) res) MAX_TRAFFIC_SOURCE_ROWS
        = Inr (bs, totals) \<and> length bs \<le> tq_max_points q \<and>
      build_traffic_query_result q (max (minimum_bucket_size q) res) bs totals (gap_count_of db q) = Inr r"
    using r by (auto simp: query_traffic_v4_def with_traffic_read_snapshot_def
        query_traffic_v4_on_connection_def and_then_Inr_iff Let_def split: if_splits)
  show thesis
    using rest plan_InrD(1)[OF res] by (auto intro!: that[of "max (minimum_bucket_size q) res"])
qed

definition point_total :: "(traffic_bucket \<Rightarrow> string) \<Rightarrow> (traffic_bucket \<Rightarrow> string) \<Rightarrow> traffic_bucket list \<Rightarrow> int" where
  "point_total f g ps = (\<Sum>p\<leftarrow>ps. the (parse_int (f p)) + the (parse_int (g p)))"

lemma point_totals:
  "point_total tb_exact_download_bytes tb_estimated_download_bytes (map (bucket_point q w) bs) = bucket_sum ba_download bs"
  "point_total tb_exact_upload_bytes tb_estimated_upload_bytes (map (bucket_point q w) bs) = bucket_sum ba_upload bs"
  "(\<Sum>p\<leftarrow>map (bucket_point q w) bs. tb_exact_duration_ms p + tb_estimated_duration_ms p) = bucket_sum ba_duration bs"
  by (induction bs) (auto simp: point_total_def bucket_sum_def bucket_point_def ba_download_def ba_upload_def
      ba_duration_def Let_def)

lemma build_InrD:
  assumes "build_traffic_query_result q w bs totals g = Inr r"
  shows "tr_points r = map (bucket_point q w) bs" "tr_bucket_size_ms r = w"
    "the (parse_int (tt_download_bytes (tr_totals r))) = ba_download totals"
    "the (parse_int (tt_upload_bytes (tr_totals r))) = ba_upload totals"
    "tc_covered_duration_ms (tr_coverage r) = sat_add (ba_exact_duration_ms totals) (ba_estimated_duration_ms totals)"
    "tc_requested_duration_ms (tr_coverage r) = sat_sub (tq_to_ms q) (tq_from_ms q)"
    "tc_completeness (tr_coverage r) = f64_clamp (f64_div (f64_of_int (tc_covered_duration_ms (tr_coverage r)))
        (f64_of_int (tc_requested_duration_ms (tr_coverage r)))) (Finite 0) (Finite 1)"
  using assms by (auto simp: build_traffic_query_result_def Let_def ba_download_def ba_upload_def split: if_splits)

lemma range_exact: "query_ok q \<Longrightarrow> sat_sub (tq_to_ms q) (tq_from_ms q) = tq_to_ms q - tq_from_ms q"
  by (intro sat_sub_exact) (auto simp: query_ok_def in_i64_def I64_MIN_def I64_MAX_def)

lemma duration_exact:
  assumes "query_ok q" "0 \<le> ba_exact_duration_ms t" "0 \<le> ba_estimated_duration_ms t"
    "ba_duration t \<le> tq_to_ms q - tq_from_ms q"
  shows "sat_add (ba_exact_duration_ms t) (ba_estimated_duration_ms t) = ba_duration t"
  using assms by (auto simp: sat_add_def ba_duration_def query_ok_def in_i64_def I64_MIN_def I64_MAX_def
      intro!: clamp_i64_id)

lemma f64_of_int_bound:
  assumes "0 \<le> z" "z \<le> I64_MAX"
  shows "\<exists>x \<ge> 0. f64_of_int z = Finite x \<and> x \<le> pow2 63 \<and> (0 < z \<longrightarrow> 1 \<le> x)"
proof -
  have "of_int z \<le> (of_int I64_MAX :: rat)" using assms(2) by (simp only: of_int_le_iff)
  also have "\<dots> \<le> pow2 63" by (simp add: I64_MAX_def pow2_def)
  finally have le: "(of_int z :: rat) \<le> pow2 63" .
  have nn: "0 \<le> (of_int z :: rat)" using assms(1) by simp
  have "(of_int z :: rat) \<le> pow2 1023" by (rule order_trans[OF le pow2_mono]) simp
  note f = to_f64_finite[OF nn this]
  have one: "1 \<le> rnd (of_int z)" if "0 < z"
  proof -
    have "1 \<le> (of_int z :: rat)" using that by simp
    then have "pow2 0 \<le> (of_int z :: rat)" by (simp add: pow2_def)
    then have "pow2 0 \<le> rnd (of_int z)" by (rule rnd_ge_pow2) simp
    then show ?thesis by (simp add: pow2_def)
  qed
  show ?thesis using f rnd_le_pow2[OF nn le] one by (auto simp: f64_of_int_def)
qed

lemma f64_div_finite_or_inf:
  assumes "f64_of_int a = Finite x" "f64_of_int b = Finite y" "0 \<le> x" "1 \<le> y"
  shows "\<exists>z. f64_clamp (f64_div (f64_of_int a) (f64_of_int b)) (Finite 0) (Finite 1) = Finite z \<and> 0 \<le> z \<and> z \<le> 1"
proof -
  have "f64_le (Finite 0) (to_f64 (x / y))" by (rule to_f64_nonneg) (use assms in simp)
  then show ?thesis using assms by (auto simp: f64_clamp_def f64_le_0_iff)
qed

section \<open>An example\<close>

text \<open>Two stored samples of a second each, and a query whose range cuts both.\<close>

definition example_history :: traffic_db where
  "example_history = append_sample (append_sample example_db example_sample_input)
     (example_sample_input\<lparr>tsi_started_at_ms := 2000, tsi_ended_at_ms := 3000\<rparr>)"

definition example_query :: traffic_query where
  "example_query = \<lparr>tq_router_id = 1, tq_interface_id = 1, tq_from_ms = 1500, tq_to_ms = 3000, tq_max_points = 2\<rparr>"

definition example_answer :: traffic_query_result where
  "example_answer = \<lparr>tr_bucket_size_ms = 1000,
     tr_points = [
       \<lparr>tb_started_at_ms = 1500, tb_ended_at_ms = 2500, tb_download_bps = Finite 4000, tb_upload_bps = Finite 56,
        tb_exact_download_bytes = ''0'', tb_exact_upload_bytes = ''0'',
        tb_estimated_download_bytes = ''500'', tb_estimated_upload_bytes = ''7'',
        tb_exact_duration_ms = 0, tb_estimated_duration_ms = 1000, tb_sample_count = 2\<rparr>,
       \<lparr>tb_started_at_ms = 2500, tb_ended_at_ms = 3000, tb_download_bps = Finite 4000, tb_upload_bps = Finite 64,
        tb_exact_download_bytes = ''0'', tb_exact_upload_bytes = ''0'',
        tb_estimated_download_bytes = ''250'', tb_estimated_upload_bytes = ''4'',
        tb_exact_duration_ms = 0, tb_estimated_duration_ms = 500, tb_sample_count = 1\<rparr>],
     tr_totals = \<lparr>tt_download_bytes = ''750'', tt_upload_bytes = ''11'',
        tt_exact_download_bytes = ''500'', tt_exact_upload_bytes = ''7'',
        tt_estimated_download_bytes = ''250'', tt_estimated_upload_bytes = ''4''\<rparr>,
     tr_coverage = \<lparr>tc_requested_duration_ms = 1500, tc_exact_duration_ms = 1000,
        tc_estimated_duration_ms = 500, tc_covered_duration_ms = 1500, tc_completeness = Finite 1, tc_gap_count = 0\<rparr>\<rparr>"

lemma example_rows: "map (\<lambda>s. sm_ended_at_ms s - sm_started_at_ms s) (traffic_samples example_history) = [1000, 1000]"
  by (simp add: example_history_def append_sample_def example_db_value empty_db_def example_sample_input_def new_sample_row_def)

lemma example_samples: "query_samples example_history example_query = traffic_samples example_history" "query_rollups example_history example_query = []"
  by (simp_all add: query_samples_def query_rollups_def example_history_def example_query_def append_sample_def example_db_value empty_db_def example_sample_input_def in_query_range_def new_sample_row_def)

lemma example_contributions: "sample_contributions example_history example_query = [
   \<lparr>cn_started_at_ms = 1000, cn_ended_at_ms = 2000, cn_exact_download_bytes = 500, cn_exact_upload_bytes = 7,
    cn_estimated_download_bytes = 0, cn_estimated_upload_bytes = 0, cn_exact_duration_ms = 1000, cn_estimated_duration_ms = 0, cn_sample_count = 1\<rparr>,
   \<lparr>cn_started_at_ms = 2000, cn_ended_at_ms = 3000, cn_exact_download_bytes = 500, cn_exact_upload_bytes = 7,
    cn_estimated_download_bytes = 0, cn_estimated_upload_bytes = 0, cn_exact_duration_ms = 1000, cn_estimated_duration_ms = 0, cn_sample_count = 1\<rparr>]"
  "rollup_contributions example_history example_query = []"
   by (simp_all add: sample_contributions_def rollup_contributions_def example_samples)
    (simp add: example_history_def append_sample_def example_db_value empty_db_def example_sample_input_def
     sample_contribution_def new_sample_row_def less_eq_prod_def Let_def)

lemma example_fold: "fold_traffic_contributions example_history example_query 1000 MAX_TRAFFIC_SOURCE_ROWS =
  Inr ([(1500, \<lparr>ba_exact_download_bytes = 0, ba_exact_upload_bytes = 0,
     ba_estimated_download_bytes = 500, ba_estimated_upload_bytes = 7,
     ba_exact_duration_ms = 0, ba_estimated_duration_ms = 1000, ba_sample_count = 2\<rparr>),
    (2500, \<lparr>ba_exact_download_bytes = 0, ba_exact_upload_bytes = 0,
     ba_estimated_download_bytes = 250, ba_estimated_upload_bytes = 4,
     ba_exact_duration_ms = 0, ba_estimated_duration_ms = 500, ba_sample_count = 1\<rparr>)],
     \<lparr>ba_exact_download_bytes = 500, ba_exact_upload_bytes = 7,
     ba_estimated_download_bytes = 250, ba_estimated_upload_bytes = 4,
     ba_exact_duration_ms = 1000, ba_estimated_duration_ms = 500, ba_sample_count = 2\<rparr>)"
  unfolding fold_traffic_contributions_def example_contributions
  by (simp add: fold_contributions.simps fold_step_def validate_traffic_contribution_def cn_duration_ms_def cn_covered_duration_ms_def
    sat_sub_def sat_add_def sat_mul_def clamp_i64_def I64_MAX_def I64_MIN_def MAX_TRAFFIC_SOURCE_ROWS_def
    accumulate_traffic_contribution_def accumulate_segments.simps bucket_start_of_def add_segment_def proportional_slice_def
    checked_i128_def checked_i64_def in_i64_def in_i128_def I128_MAX_def I128_MIN_def example_query_def empty_accumulator_def bucket_at_def put_bucket_def Let_def)

lemma example_answered: "query_traffic_v4 example_history example_query = Inr example_answer"
proof -
  have own: "ensure_interface_owner example_history 1 (Some 1) = Inr ()"
    by (simp add: ensure_interface_owner_def owns_interface_def router_exists_def example_history_def append_sample_def example_db_value empty_db_def)
  have plan: "plan_traffic_sources example_history example_query MAX_TRAFFIC_SOURCE_ROWS = Inr 1000"
    by (simp add: plan_traffic_sources_def bounded_sample_summary_def bounded_rollup_summary_def example_samples example_rows
      bounded_source_summary_def MAX_TRAFFIC_SOURCE_ROWS_def I64_MAX_def)
  have bucket: "minimum_bucket_size example_query = 750"
    by (simp add: minimum_bucket_size_def example_query_def sat_add_def sat_sub_def clamp_i64_def I64_MAX_def I64_MIN_def)
  have gaps: "gap_count_of example_history example_query = 0"
    by (simp add: gap_count_of_def example_history_def append_sample_def example_db_value empty_db_def)
  have answer: "build_traffic_query_result example_query 1000 [(1500, \<lparr>ba_exact_download_bytes = 0, ba_exact_upload_bytes = 0,
     ba_estimated_download_bytes = 500, ba_estimated_upload_bytes = 7,
     ba_exact_duration_ms = 0, ba_estimated_duration_ms = 1000, ba_sample_count = 2\<rparr>),
    (2500, \<lparr>ba_exact_download_bytes = 0, ba_exact_upload_bytes = 0,
     ba_estimated_download_bytes = 250, ba_estimated_upload_bytes = 4,
     ba_exact_duration_ms = 0, ba_estimated_duration_ms = 500, ba_sample_count = 1\<rparr>)]
     \<lparr>ba_exact_download_bytes = 500, ba_exact_upload_bytes = 7,
     ba_estimated_download_bytes = 250, ba_estimated_upload_bytes = 4,
     ba_exact_duration_ms = 1000, ba_estimated_duration_ms = 500, ba_sample_count = 2\<rparr> 0 = Inr example_answer"
    by (simp add: build_traffic_query_result_def example_answer_def bucket_point_def example_query_def sat_add_def sat_sub_def
       clamp_i64_def I64_MAX_def I64_MIN_def f64_clamp_def show_int_def show_nat.simps digit_char_def char_of_def bit_0 Let_def)
  show ?thesis
    using own plan bucket gaps answer example_fold
    by (simp add: query_traffic_v4_def validate_traffic_query_def with_traffic_read_snapshot_def query_traffic_v4_on_connection_def Let_def)
      (simp add: example_query_def MAX_TRAFFIC_SOURCE_ROWS_def)
qed

lemma example_valid: "query_valid example_history example_query"
  by (simp add: query_valid_def history_ok_def query_ok_def sample_ok_def sample_checks_def example_query_def
      example_history_def append_sample_def example_db_value empty_db_def example_sample_input_def
      new_sample_row_def I64_MAX_def f64_le_0_iff)

section \<open>Properties\<close>

text \<open>Allocating a row to segments loses nothing: for values up to two counters and any
  times, the allocation succeeds without overflow, lies between zero and the value, is
  additive over adjacent segments and gives the whole value to the whole row.\<close>

theorem proportional_slice_conserves:
  assumes "0 \<le> v" "v \<le> 2 * I64_MAX" "0 < d" "d \<le> I64_MAX" "0 \<le> s" "s \<le> m" "m \<le> e" "e \<le> d"
  shows "\<exists>a b. proportional_slice v d s m = Inr a \<and> proportional_slice v d m e = Inr b \<and>
     proportional_slice v d s e = Inr (a + b) \<and> 0 \<le> a \<and> 0 \<le> b \<and> a + b \<le> v \<and>
     proportional_slice v d 0 d = Inr v"
  using assms proportional_slice_ok[of v d s m] proportional_slice_ok[of v d m e] proportional_slice_ok[of v d s e]
    proportional_slice_ok[of v d 0 d] slice_add[of v d s m e] slice_whole[of d v]
    slice_nonneg[of v d s m] slice_nonneg[of v d m e] slice_le_value[of v d s e]
  by auto

theorem proportional_slice_conserves_witness:
  "\<exists>a b. proportional_slice 1000 300 0 100 = Inr a \<and> proportional_slice 1000 300 100 300 = Inr b \<and>
     proportional_slice 1000 300 0 300 = Inr (a + b) \<and> 0 \<le> a \<and> 0 \<le> b \<and> a + b \<le> 1000 \<and>
     proportional_slice 1000 300 0 300 = Inr 1000"
  by (rule proportional_slice_conserves) (simp_all add: I64_MAX_def)

text \<open>The answer to a query adds up: the bytes of its points, in both directions, are the
  bytes of its totals, and the durations of its points are its covered time.\<close>

theorem query_points_add_up:
  assumes "query_valid db q" and "query_traffic_v4 db q = Inr r"
  shows "point_total tb_exact_download_bytes tb_estimated_download_bytes (tr_points r)
       = the (parse_int (tt_download_bytes (tr_totals r))) \<and>
     point_total tb_exact_upload_bytes tb_estimated_upload_bytes (tr_points r)
       = the (parse_int (tt_upload_bytes (tr_totals r))) \<and>
     (\<Sum>p\<leftarrow>tr_points r. tb_exact_duration_ms p + tb_estimated_duration_ms p)
       = tc_covered_duration_ms (tr_coverage r)"
proof (rule query_InrD[OF assms])
  fix w bs totals
  assume w: "0 < w" and f: "fold_traffic_contributions db q w MAX_TRAFFIC_SOURCE_ROWS = Inr (bs, totals)"
    and b: "build_traffic_query_result q w bs totals (gap_count_of db q) = Inr r"
  have q: "query_ok q" and h: "history_ok db" using assms(1) by (auto simp: query_valid_def)
  note d = fold_traffic_InrD[OF q w h f]
  show ?thesis
    unfolding build_InrD[OF b] point_totals d(2-4)[symmetric] duration_exact[OF q d(5-7)] by simp
qed

theorem query_points_add_up_witness:
  "point_total tb_exact_download_bytes tb_estimated_download_bytes (tr_points example_answer)
     = the (parse_int ''750'')"
  using query_points_add_up[OF example_valid example_answered] by (simp add: example_answer_def)

text \<open>An answer has at most the requested number of points, and its covered time never
  exceeds the requested range, so that the completeness lies between 0 and 1.\<close>

theorem query_answer_bounds:
  assumes "query_valid db q" and "query_traffic_v4 db q = Inr r"
  shows "length (tr_points r) \<le> tq_max_points q \<and>
     0 \<le> tc_covered_duration_ms (tr_coverage r) \<and>
     tc_covered_duration_ms (tr_coverage r) \<le> tc_requested_duration_ms (tr_coverage r) \<and>
     tc_requested_duration_ms (tr_coverage r) = tq_to_ms q - tq_from_ms q \<and>
     (\<exists>z. tc_completeness (tr_coverage r) = Finite z \<and> 0 \<le> z \<and> z \<le> 1)"
proof (rule query_InrD[OF assms])
  fix w bs totals
  assume w: "0 < w" and f: "fold_traffic_contributions db q w MAX_TRAFFIC_SOURCE_ROWS = Inr (bs, totals)"
    and len: "length bs \<le> tq_max_points q"
    and b: "build_traffic_query_result q w bs totals (gap_count_of db q) = Inr r"
  have q: "query_ok q" and h: "history_ok db" using assms(1) by (auto simp: query_valid_def)
  note d = fold_traffic_InrD[OF q w h f] and e = build_InrD[OF b]
  note dur = duration_exact[OF q d(5-7)]
  have rng: "0 \<le> ba_duration totals" "0 < tq_to_ms q - tq_from_ms q" "tq_to_ms q - tq_from_ms q \<le> I64_MAX"
    using d q by (auto simp: ba_duration_def query_ok_def)
  obtain x where x: "0 \<le> x" "f64_of_int (ba_duration totals) = Finite x"
    using f64_of_int_bound[of "ba_duration totals"] rng d(7) by auto
  obtain y where y: "1 \<le> y" "f64_of_int (tq_to_ms q - tq_from_ms q) = Finite y"
    using f64_of_int_bound[of "tq_to_ms q - tq_from_ms q"] rng by auto
  show ?thesis
    using f64_div_finite_or_inf[OF x(2) y(2) x(1) y(1)] d rng len
    by (simp add: e(1,5,6,7) dur range_exact[OF q])
qed

theorem query_answer_bounds_witness:
  "length (tr_points example_answer) \<le> 2 \<and> tc_covered_duration_ms (tr_coverage example_answer) \<le> 1500"
  using query_answer_bounds[OF example_valid example_answered] by (simp add: example_query_def)

text \<open>Points lie on the grid of the query and never claim more than their own length: each
  starts inside the range at a multiple of the bucket width, the starts increase strictly,
  and the exact and estimated time of a point fit between its start and its end.\<close>

theorem query_points_on_grid:
  assumes "query_valid db q" and "query_traffic_v4 db q = Inr r"
  shows "sorted_wrt (<) (map tb_started_at_ms (tr_points r)) \<and>
     (\<forall>p \<in> set (tr_points r). on_grid q (tr_bucket_size_ms r) (tb_started_at_ms p) \<and>
        0 \<le> tb_exact_duration_ms p \<and> 0 \<le> tb_estimated_duration_ms p \<and>
        tb_exact_duration_ms p + tb_estimated_duration_ms p \<le> tb_ended_at_ms p - tb_started_at_ms p)"
proof (rule query_InrD[OF assms])
  fix w bs totals
  assume w: "0 < w" and f: "fold_traffic_contributions db q w MAX_TRAFFIC_SOURCE_ROWS = Inr (bs, totals)"
    and b: "build_traffic_query_result q w bs totals (gap_count_of db q) = Inr r"
  have q: "query_ok q" and h: "history_ok db" using assms(1) by (auto simp: query_valid_def)
  note d = fold_traffic_InrD[OF q w h f] and e = build_InrD[OF b]
  have starts: "map tb_started_at_ms (tr_points r) = map fst bs"
    by (auto simp: e(1) bucket_point_def split_beta Let_def)
  have "sorted_wrt (<) (map fst bs)" using d(1) by (simp add: buckets_ok_def sorted_keys_def)
  moreover have "on_grid q w (tb_started_at_ms p) \<and> 0 \<le> tb_exact_duration_ms p \<and> 0 \<le> tb_estimated_duration_ms p \<and>
      tb_exact_duration_ms p + tb_estimated_duration_ms p \<le> tb_ended_at_ms p - tb_started_at_ms p"
    if "p \<in> set (tr_points r)" for p
  proof -
    obtain k a where p: "p = bucket_point q w (k, a)" "(k, a) \<in> set bs"
      using \<open>p \<in> set (tr_points r)\<close> e(1) by auto
    have ok: "bucket_ok q w (tq_to_ms q) k a" using d(1) p(2) by (auto simp: buckets_ok_def)
    have "min (sat_add k w) (tq_to_ms q) = min (k + w) (tq_to_ms q)"
      by (rule sat_add_pos) (use ok w q in \<open>auto simp: bucket_ok_def on_grid_def query_ok_def\<close>)
    then show ?thesis
      using ok by (auto simp: p(1) bucket_point_def Let_def bucket_ok_def ba_duration_def)
  qed
  ultimately show ?thesis unfolding starts e(2) by blast
qed

theorem query_points_on_grid_witness:
  "sorted_wrt (<) (map tb_started_at_ms (tr_points example_answer)) \<and> on_grid example_query 1000 2500"
  using query_points_on_grid[OF example_valid example_answered] by (simp add: example_answer_def)



end
