(* ===== verification/Traffic_Rollup.thy ===== *)
theory Traffic_Rollup
  imports Traffic_Query_Facts
begin

text \<open>
  Ageing the exact history (\<open>rollup_exact_samples\<close> and \<open>prune_exact_history\<close> of
  \<open>db/traffic_v4.rs\<close>): a bounded batch of old samples is cut at bucket borders, accumulated
  into rollup rows and removed (or shortened), and rows past the retention are deleted.
  Products of bucket numbers and sizes are integers: they are within one bucket of a stored
  timestamp.
\<close>

section \<open>Accumulating a batch\<close>

definition ROLLUP_SAMPLE_BATCH_SIZE :: nat where "ROLLUP_SAMPLE_BATCH_SIZE = 10000"
definition RETENTION_DELETE_BATCH_SIZE :: nat where "RETENTION_DELETE_BATCH_SIZE = 10000"
definition USIZE_MAX :: nat where "USIZE_MAX = 18446744073709551615"

record raw_remainder =
  rm_id :: i64
  rm_started_at_ms :: i64
  rm_ended_at_ms :: i64
  rm_download_bytes :: int
  rm_upload_bytes :: int

text \<open>Per (router, interface, bucket start): the bucket, the start and the end of what the
  batch put into it.\<close>

type_synonym rollup_entry = "bucket_accumulator \<times> i64 \<times> i64"
type_synonym rollup_buckets = "((i64 \<times> i64 \<times> i64) \<times> rollup_entry) list"

definition validate_raw_sample_for_rollup :: "sample_row \<Rightarrow> unit db_result" where
  "validate_raw_sample_for_rollup s =
     (if sm_ended_at_ms s \<le> sm_started_at_ms s
       \<or> sm_duration_ms s \<noteq> sat_sub (sm_ended_at_ms s) (sm_started_at_ms s)
       \<or> sm_download_bytes s < 0 \<or> sm_upload_bytes s < 0
       \<or> \<not> (sm_quality s = ''exact'' \<or> sm_quality s = ''estimated'')
      then Inl (Verification ''raw traffic sample is invalid during rollup'')
      else Inr ())"

definition rollup_entry_at :: "rollup_buckets \<Rightarrow> i64 \<times> i64 \<times> i64 \<Rightarrow> i64 \<Rightarrow> rollup_entry" where
  "rollup_entry_at bs key start =
     (case map_of bs key of None \<Rightarrow> (empty_accumulator, start, start) | Some e \<Rightarrow> e)"

definition add_to_rollup_bucket ::
  "bool \<Rightarrow> int \<Rightarrow> int \<Rightarrow> i64 \<Rightarrow> bucket_accumulator \<Rightarrow> bucket_accumulator" where
  "add_to_rollup_bucket exact download upload duration b =
     (let b' = (if exact
        then b\<lparr>ba_exact_download_bytes := ba_exact_download_bytes b + download,
               ba_exact_upload_bytes := ba_exact_upload_bytes b + upload,
               ba_exact_duration_ms := sat_add (ba_exact_duration_ms b) duration\<rparr>
        else b\<lparr>ba_estimated_download_bytes := ba_estimated_download_bytes b + download,
               ba_estimated_upload_bytes := ba_estimated_upload_bytes b + upload,
               ba_estimated_duration_ms := sat_add (ba_estimated_duration_ms b) duration\<rparr>) in
      b'\<lparr>ba_sample_count := sat_add (ba_sample_count b') 1\<rparr>)"

text \<open>One pass of the inner loop: the segment from \<open>start\<close> to the end of its bucket.\<close>

definition roll_segment ::
  "i64 \<Rightarrow> sample_row \<Rightarrow> i64 \<Rightarrow> bool \<Rightarrow> rollup_buckets \<Rightarrow> i64 \<Rightarrow> (rollup_buckets \<times> i64) db_result" where
  "roll_segment width s planned_end split bs start =
     (let bucket_start = start div width * width;
          bucket_end = sat_add bucket_start width;
          segment_end = min planned_end bucket_end;
          relative_start = sat_sub start (sm_started_at_ms s);
          relative_end = sat_sub segment_end (sm_started_at_ms s) in
      and_then (proportional_slice (sm_download_bytes s) (sm_duration_ms s) relative_start relative_end) (\<lambda>download.
      and_then (proportional_slice (sm_upload_bytes s) (sm_duration_ms s) relative_start relative_end) (\<lambda>upload.
        let key = (sm_router_id s, sm_interface_id s, bucket_start) in
        case rollup_entry_at bs key start of (bucket, batch_start, accumulated_end) \<Rightarrow>
          if start < accumulated_end
          then Inl (Verification ''raw traffic samples overlap during rollup'')
          else let e = (add_to_rollup_bucket (sm_quality s = ''exact'' \<and> \<not> split) download upload
                          (sat_sub segment_end start) bucket, batch_start, segment_end) in
            Inr (upsert key e (\<lambda>_. e) bs, segment_end))))"

text \<open>The inner loop spends one unit of the segment budget per pass.\<close>

fun roll_segments ::
  "i64 \<Rightarrow> sample_row \<Rightarrow> i64 \<Rightarrow> bool \<Rightarrow> rollup_buckets \<Rightarrow> nat \<Rightarrow> i64 \<Rightarrow>
   (rollup_buckets \<times> nat \<times> i64) db_result" where
  "roll_segments width s planned_end split bs 0 start = Inr (bs, 0, start)"
| "roll_segments width s planned_end split bs (Suc n) start =
     (if start < planned_end
      then and_then (roll_segment width s planned_end split bs start) (\<lambda>(bs', segment_end).
             roll_segments width s planned_end split bs' n segment_end)
      else Inr (bs, Suc n, start))"

record rollup_progress =
  rp_buckets :: rollup_buckets
  rp_consumed :: "i64 list"
  rp_remainders :: "raw_remainder list"
  rp_remaining_segments :: nat

definition split_sample :: "i64 \<Rightarrow> sample_row \<Rightarrow> i64 \<Rightarrow> bool" where
  "split_sample width s planned_end \<longleftrightarrow>
     sm_started_at_ms s div width \<noteq> (planned_end - 1) div width \<or> planned_end \<noteq> sm_ended_at_ms s"

text \<open>One pass of the outer loop; a spent budget leaves the loop, so later samples change nothing.\<close>

definition roll_sample ::
  "i64 \<Rightarrow> i64 \<Rightarrow> rollup_progress \<Rightarrow> sample_row \<Rightarrow> rollup_progress db_result" where
  "roll_sample before width p s =
     (if rp_remaining_segments p = 0 then Inr p
      else and_then (validate_raw_sample_for_rollup s) (\<lambda>_.
        let planned_end = min (sm_ended_at_ms s) before in
        if planned_end \<le> sm_started_at_ms s then Inr p
        else and_then (roll_segments width s planned_end (split_sample width s planned_end)
               (rp_buckets p) (rp_remaining_segments p) (sm_started_at_ms s)) (\<lambda>(bs, n, consumed_end).
          let p' = p\<lparr>rp_buckets := bs, rp_remaining_segments := n\<rparr> in
          if consumed_end = sm_ended_at_ms s
          then Inr (p'\<lparr>rp_consumed := rp_consumed p @ [sm_id s]\<rparr>)
          else
            and_then (proportional_slice (sm_download_bytes s) (sm_duration_ms s) 0
                        (sat_sub consumed_end (sm_started_at_ms s))) (\<lambda>consumed_download.
            and_then (proportional_slice (sm_upload_bytes s) (sm_duration_ms s) 0
                        (sat_sub consumed_end (sm_started_at_ms s))) (\<lambda>consumed_upload.
              Inr (p'\<lparr>rp_remainders := rp_remainders p @ [\<lparr>rm_id = sm_id s,
                 rm_started_at_ms = consumed_end, rm_ended_at_ms = sm_ended_at_ms s,
                 rm_download_bytes = sm_download_bytes s - consumed_download,
                 rm_upload_bytes = sm_upload_bytes s - consumed_upload\<rparr>]\<rparr>))))))"

section \<open>Writing the rollup rows\<close>

text \<open>SQLite adds integers exactly until a sum leaves 64 bits, and in floating point from there.\<close>

definition sql_add :: "i64 + f64 \<Rightarrow> i64 \<Rightarrow> i64 + f64" where
  "sql_add x y = (case x of
      Inl a \<Rightarrow> if in_i64 (a + y) then Inl (a + y) else Inr (f64_add (f64_of_int a) (f64_of_int y))
    | Inr r \<Rightarrow> Inr (f64_add r (f64_of_int y)))"

definition sql_sum :: "i64 \<Rightarrow> i64 list \<Rightarrow> f64" where
  "sql_sum a ys = (case foldl sql_add (Inl a) ys of Inl z \<Rightarrow> f64_of_int z | Inr r \<Rightarrow> r)"

definition sql_rate :: "f64 \<Rightarrow> i64 \<Rightarrow> f64" where
  "sql_rate bytes duration = f64_div (f64_mul bytes (Finite 8000)) (f64_of_int duration)"

definition new_rollup_row :: "i64 \<Rightarrow> (i64 \<times> i64 \<times> i64) \<times> rollup_entry \<Rightarrow> rollup_row" where
  "new_rollup_row width entry = (case entry of ((router, iface, bucket_start), b, batch_start, bucket_end) \<Rightarrow>
     \<lparr>ru_id = 0, ru_router_id = router, ru_interface_id = iface,
      ru_bucket_start_ms = bucket_start, ru_bucket_end_ms = bucket_end, ru_bucket_size_ms = width,
      ru_exact_download_bytes = ba_exact_download_bytes b, ru_exact_upload_bytes = ba_exact_upload_bytes b,
      ru_estimated_download_bytes = ba_estimated_download_bytes b,
      ru_estimated_upload_bytes = ba_estimated_upload_bytes b,
      ru_exact_duration_ms = ba_exact_duration_ms b, ru_estimated_duration_ms = ba_estimated_duration_ms b,
      ru_sample_count = ba_sample_count b,
      ru_download_avg_bps = sql_rate (sql_sum (ba_exact_download_bytes b) [ba_estimated_download_bytes b])
        (max 1 (ba_exact_duration_ms b + ba_estimated_duration_ms b)),
      ru_upload_avg_bps = sql_rate (sql_sum (ba_exact_upload_bytes b) [ba_estimated_upload_bytes b])
        (max 1 (ba_exact_duration_ms b + ba_estimated_duration_ms b)),
      ru_source = ''raw-rollup''\<rparr>)"

text \<open>\<open>DO UPDATE SET\<close> and its \<open>WHERE\<close>: \<open>old\<close> is the stored row, \<open>new\<close> the excluded one.\<close>

definition merged_rollup_row :: "rollup_row \<Rightarrow> rollup_row \<Rightarrow> rollup_row" where
  "merged_rollup_row old new = old\<lparr>
     ru_exact_download_bytes := ru_exact_download_bytes old + ru_exact_download_bytes new,
     ru_exact_upload_bytes := ru_exact_upload_bytes old + ru_exact_upload_bytes new,
     ru_estimated_download_bytes := ru_estimated_download_bytes old + ru_estimated_download_bytes new,
     ru_estimated_upload_bytes := ru_estimated_upload_bytes old + ru_estimated_upload_bytes new,
     ru_exact_duration_ms := ru_exact_duration_ms old + ru_exact_duration_ms new,
     ru_estimated_duration_ms := ru_estimated_duration_ms old + ru_estimated_duration_ms new,
     ru_sample_count := ru_sample_count old + ru_sample_count new,
     ru_download_avg_bps := sql_rate (sql_sum (ru_exact_download_bytes old)
        [ru_estimated_download_bytes old, ru_exact_download_bytes new, ru_estimated_download_bytes new])
        (max 1 (ru_exact_duration_ms old + ru_estimated_duration_ms old
          + ru_exact_duration_ms new + ru_estimated_duration_ms new)),
     ru_upload_avg_bps := sql_rate (sql_sum (ru_exact_upload_bytes old)
        [ru_estimated_upload_bytes old, ru_exact_upload_bytes new, ru_estimated_upload_bytes new])
        (max 1 (ru_exact_duration_ms old + ru_estimated_duration_ms old
          + ru_exact_duration_ms new + ru_estimated_duration_ms new)),
     ru_bucket_end_ms := max (ru_bucket_end_ms old) (ru_bucket_end_ms new)\<rparr>"

definition rollup_merge_allowed :: "rollup_row \<Rightarrow> rollup_row \<Rightarrow> i64 \<Rightarrow> bool" where
  "rollup_merge_allowed old new batch_start \<longleftrightarrow>
     ru_exact_duration_ms old + ru_estimated_duration_ms old
       + ru_exact_duration_ms new + ru_estimated_duration_ms new \<le> ru_bucket_size_ms new
     \<and> ru_bucket_end_ms old \<le> batch_start
     \<and> ru_exact_download_bytes old \<le> I64_MAX - ru_exact_download_bytes new
     \<and> ru_exact_upload_bytes old \<le> I64_MAX - ru_exact_upload_bytes new
     \<and> ru_estimated_download_bytes old \<le> I64_MAX - ru_estimated_download_bytes new
     \<and> ru_estimated_upload_bytes old \<le> I64_MAX - ru_estimated_upload_bytes new
     \<and> ru_sample_count old \<le> I64_MAX - ru_sample_count new"

definition upsert_rollup_row ::
  "traffic_db \<Rightarrow> rollup_row \<Rightarrow> i64 \<Rightarrow> (nat \<times> traffic_db) db_result" where
  "upsert_rollup_row db row batch_start =
     (if \<not> (rollup_checks row \<and> router_exists db (ru_router_id row) \<and> interface_exists db (ru_interface_id row))
      then Inl Sqlite
      else case find (\<lambda>old. rollup_key old = rollup_key row) (traffic_rollups db) of
        None \<Rightarrow> Inr (1, db\<lparr>traffic_rollups := traffic_rollups db @ [row\<lparr>ru_id := seq_rollups db + 1\<rparr>],
                          seq_rollups := seq_rollups db + 1\<rparr>)
      | Some old \<Rightarrow>
          if rollup_merge_allowed old row batch_start
          then if rollup_checks (merged_rollup_row old row)
               then Inr (1, db\<lparr>traffic_rollups := map (\<lambda>u. if rollup_key u = rollup_key row
                      then merged_rollup_row u row else u) (traffic_rollups db)\<rparr>)
               else Inl Sqlite
          else Inr (0, db))"

definition store_rollup_entry ::
  "i64 \<Rightarrow> traffic_db \<Rightarrow> (i64 \<times> i64 \<times> i64) \<times> rollup_entry \<Rightarrow> traffic_db db_result" where
  "store_rollup_entry width db entry = (case entry of (_, b, batch_start, _) \<Rightarrow>
     if \<not> in_i64 (ba_exact_download_bytes b)
     then Inl (Verification ''rollup download byte total overflowed SQLite'')
     else if \<not> in_i64 (ba_exact_upload_bytes b)
     then Inl (Verification ''rollup upload byte total overflowed SQLite'')
     else if \<not> in_i64 (ba_estimated_download_bytes b)
     then Inl (Verification ''estimated rollup download byte total overflowed SQLite'')
     else if \<not> in_i64 (ba_estimated_upload_bytes b)
     then Inl (Verification ''estimated rollup upload byte total overflowed SQLite'')
     else let covered = sat_add (ba_exact_duration_ms b) (ba_estimated_duration_ms b) in
       if covered \<le> 0 \<or> width < covered
       then Inl (Verification ''rollup bucket contains invalid or overlapping sample coverage'')
       else and_then (upsert_rollup_row db (new_rollup_row width entry) batch_start) (\<lambda>(changed, db').
         if changed \<noteq> 1
         then Inl (Verification ''rollup bucket update violates coverage ordering or integer limits'')
         else Inr db'))"

section \<open>Shortening and removing the samples\<close>

definition shortened_sample :: "raw_remainder \<Rightarrow> sample_row \<Rightarrow> sample_row" where
  "shortened_sample r s =
     (let duration = sat_sub (rm_ended_at_ms r) (rm_started_at_ms r) in
      s\<lparr>sm_started_at_ms := rm_started_at_ms r, sm_duration_ms := duration,
        sm_download_bytes := rm_download_bytes r, sm_upload_bytes := rm_upload_bytes r,
        sm_download_bps := sql_rate (f64_of_int (rm_download_bytes r)) duration,
        sm_upload_bps := sql_rate (f64_of_int (rm_upload_bytes r)) duration,
        sm_quality := ''estimated''\<rparr>)"

definition update_remainder :: "traffic_db \<Rightarrow> raw_remainder \<Rightarrow> traffic_db db_result" where
  "update_remainder db r =
     (if \<not> in_i64 (rm_download_bytes r)
      then Inl (Verification ''raw download remainder overflowed SQLite'')
      else if \<not> in_i64 (rm_upload_bytes r)
      then Inl (Verification ''raw upload remainder overflowed SQLite'')
      else let hits = filter (\<lambda>s. sm_id s = rm_id r) (traffic_samples db) in
        if \<not> (\<forall>s \<in> set hits. sample_checks (shortened_sample r s)) then Inl Sqlite
        else if length hits \<noteq> 1
        then Inl (Verification ''raw traffic remainder disappeared during rollup'')
        else Inr (db\<lparr>traffic_samples := map (\<lambda>s. if sm_id s = rm_id r then shortened_sample r s else s)
               (traffic_samples db)\<rparr>))"

definition delete_consumed :: "traffic_db \<Rightarrow> i64 \<Rightarrow> traffic_db db_result" where
  "delete_consumed db i =
     (if length (filter (\<lambda>s. sm_id s = i) (traffic_samples db)) \<noteq> 1
      then Inl (Verification ''raw traffic sample disappeared during rollup'')
      else Inr (db\<lparr>traffic_samples := filter (\<lambda>s. sm_id s \<noteq> i) (traffic_samples db)\<rparr>))"

definition rollup_candidates :: "traffic_db \<Rightarrow> i64 \<Rightarrow> nat \<Rightarrow> sample_row list" where
  "rollup_candidates db before batch_size =
     take batch_size (sort_key (\<lambda>s. (sm_started_at_ms s, sm_id s))
       (filter (\<lambda>s. sm_started_at_ms s < before) (traffic_samples db)))"

definition rollup_tx :: "traffic_db \<Rightarrow> i64 \<Rightarrow> i64 \<Rightarrow> nat \<Rightarrow> (nat \<times> traffic_db) db_result" where
  "rollup_tx db before width batch_size =
     and_then (fold_result (roll_sample before width)
        \<lparr>rp_buckets = [], rp_consumed = [], rp_remainders = [], rp_remaining_segments = batch_size * 2\<rparr>
        (rollup_candidates db before batch_size)) (\<lambda>p.
     and_then (fold_result (store_rollup_entry width) db (rp_buckets p)) (\<lambda>db1.
     and_then (fold_result update_remainder db1 (rp_remainders p)) (\<lambda>db2.
     and_then (fold_result delete_consumed db2 (rp_consumed p)) (\<lambda>db3.
       Inr (length (rp_consumed p), db3)))))"

definition rollup_exact_samples_batch ::
  "traffic_db \<Rightarrow> i64 \<Rightarrow> i64 \<Rightarrow> nat \<Rightarrow> nat db_result \<times> traffic_db" where
  "rollup_exact_samples_batch db before width batch_size =
     transaction db
       (if width \<le> 0 then Inl (InvalidCommand ''rollup bucket size must be positive'')
        else if USIZE_MAX < batch_size * 2
        then Inl (InvalidCommand ''rollup segment budget exceeds process limits'')
        else if I64_MAX < int batch_size
        then Inl (InvalidCommand ''rollup batch size exceeds SQLite limits'')
        else if batch_size = 0 then Inl (InvalidCommand ''rollup batch size must be positive'')
        else rollup_tx db before width batch_size)"

definition rollup_exact_samples :: "traffic_db \<Rightarrow> i64 \<Rightarrow> i64 \<Rightarrow> nat db_result \<times> traffic_db" where
  "rollup_exact_samples db before width =
     rollup_exact_samples_batch db before width ROLLUP_SAMPLE_BATCH_SIZE"

section \<open>Retention\<close>

text \<open>\<open>DELETE \<dots> WHERE id IN (SELECT id \<dots> ORDER BY end, id LIMIT n)\<close>.\<close>

definition delete_oldest :: "('a \<Rightarrow> i64) \<Rightarrow> ('a \<Rightarrow> i64) \<Rightarrow> i64 \<Rightarrow> nat \<Rightarrow> 'a list \<Rightarrow> 'a list" where
  "delete_oldest end_of id_of before batch_size rows =
     (let doomed = map id_of (take batch_size
            (sort_key (\<lambda>x. (end_of x, id_of x)) (filter (\<lambda>x. end_of x \<le> before) rows))) in
      filter (\<lambda>x. id_of x \<notin> set doomed) rows)"

definition prune_exact_history_batch ::
  "traffic_db \<Rightarrow> i64 \<Rightarrow> nat \<Rightarrow> nat db_result \<times> traffic_db" where
  "prune_exact_history_batch db before batch_size =
     transaction db
       (if I64_MAX < int batch_size
        then Inl (InvalidCommand ''retention batch size exceeds SQLite limits'')
        else if batch_size = 0 then Inl (InvalidCommand ''retention batch size must be positive'')
        else
          let samples = delete_oldest sm_ended_at_ms sm_id before batch_size (traffic_samples db);
              rollups = delete_oldest ru_bucket_end_ms ru_id before batch_size (traffic_rollups db);
              gaps = delete_oldest gp_ended_at_ms gp_id before batch_size (traffic_gaps db) in
          Inr ((length (traffic_samples db) - length samples)
                 + (length (traffic_rollups db) - length rollups)
                 + (length (traffic_gaps db) - length gaps),
               db\<lparr>traffic_samples := samples, traffic_rollups := rollups, traffic_gaps := gaps\<rparr>))"

definition prune_exact_history :: "traffic_db \<Rightarrow> i64 \<Rightarrow> nat db_result \<times> traffic_db" where
  "prune_exact_history db before =
     prune_exact_history_batch db before RETENTION_DELETE_BATCH_SIZE"

end
