(* ===== verification/Traffic_Rollup_Facts.thy ===== *)
theory Traffic_Rollup_Facts
  imports Traffic_Rollup
begin

text \<open>
  What ageing keeps of the history: bytes and covered time of any interface are moved, never
  lost or invented; estimated bytes never become exact; every row stays valid; each batch
  makes progress; and retention deletes old rows only.
\<close>

section \<open>Amounts\<close>

datatype quantity = Download | Upload | Duration

fun sample_amount :: "quantity \<Rightarrow> sample_row \<Rightarrow> int" where
  "sample_amount Download s = sm_download_bytes s"
| "sample_amount Upload s = sm_upload_bytes s"
| "sample_amount Duration s = sm_duration_ms s"

fun bucket_exact :: "quantity \<Rightarrow> bucket_accumulator \<Rightarrow> int" where
  "bucket_exact Download b = ba_exact_download_bytes b"
| "bucket_exact Upload b = ba_exact_upload_bytes b"
| "bucket_exact Duration b = ba_exact_duration_ms b"

fun bucket_estimated :: "quantity \<Rightarrow> bucket_accumulator \<Rightarrow> int" where
  "bucket_estimated Download b = ba_estimated_download_bytes b"
| "bucket_estimated Upload b = ba_estimated_upload_bytes b"
| "bucket_estimated Duration b = ba_estimated_duration_ms b"

fun rollup_exact :: "quantity \<Rightarrow> rollup_row \<Rightarrow> int" where
  "rollup_exact Download u = ru_exact_download_bytes u"
| "rollup_exact Upload u = ru_exact_upload_bytes u"
| "rollup_exact Duration u = ru_exact_duration_ms u"

fun rollup_estimated :: "quantity \<Rightarrow> rollup_row \<Rightarrow> int" where
  "rollup_estimated Download u = ru_estimated_download_bytes u"
| "rollup_estimated Upload u = ru_estimated_upload_bytes u"
| "rollup_estimated Duration u = ru_estimated_duration_ms u"

definition bucket_amount :: "quantity \<Rightarrow> bucket_accumulator \<Rightarrow> int" where
  "bucket_amount q b = bucket_exact q b + bucket_estimated q b"

definition exact_sample_amount :: "quantity \<Rightarrow> sample_row \<Rightarrow> int" where
  "exact_sample_amount q s = (if sm_quality s = ''exact'' then sample_amount q s else 0)"

text \<open>Sums over the rows of the interfaces a predicate selects.\<close>

definition sample_here :: "(i64 \<Rightarrow> i64 \<Rightarrow> bool) \<Rightarrow> sample_row \<Rightarrow> int \<Rightarrow> int" where
  "sample_here P s x = (if P (sm_router_id s) (sm_interface_id s) then x else 0)"

definition sample_total :: "(sample_row \<Rightarrow> int) \<Rightarrow> (i64 \<Rightarrow> i64 \<Rightarrow> bool) \<Rightarrow> sample_row list \<Rightarrow> int" where
  "sample_total f P ss = (\<Sum>s\<leftarrow>ss. sample_here P s (f s))"

definition rollup_total :: "(rollup_row \<Rightarrow> int) \<Rightarrow> (i64 \<Rightarrow> i64 \<Rightarrow> bool) \<Rightarrow> rollup_row list \<Rightarrow> int" where
  "rollup_total f P us = (\<Sum>u\<leftarrow>us. if P (ru_router_id u) (ru_interface_id u) then f u else 0)"

fun entry_value :: "(bucket_accumulator \<Rightarrow> int) \<Rightarrow> (i64 \<Rightarrow> i64 \<Rightarrow> bool) \<Rightarrow> (i64 \<times> i64 \<times> i64) \<times> rollup_entry \<Rightarrow> int" where
  "entry_value f P ((r, i, k), (b, st, en)) = (if P r i then f b else 0)"

definition bucket_total :: "(bucket_accumulator \<Rightarrow> int) \<Rightarrow> (i64 \<Rightarrow> i64 \<Rightarrow> bool) \<Rightarrow> rollup_buckets \<Rightarrow> int" where
  "bucket_total f P bs = sum_list (map (entry_value f P) bs)"

definition raw_amount :: "quantity \<Rightarrow> (i64 \<Rightarrow> i64 \<Rightarrow> bool) \<Rightarrow> traffic_db \<Rightarrow> int" where
  "raw_amount q P db = sample_total (sample_amount q) P (traffic_samples db)"

definition history_amount :: "quantity \<Rightarrow> (i64 \<Rightarrow> i64 \<Rightarrow> bool) \<Rightarrow> traffic_db \<Rightarrow> int" where
  "history_amount q P db = raw_amount q P db
     + rollup_total (\<lambda>u. rollup_exact q u + rollup_estimated q u) P (traffic_rollups db)"

definition exact_amount :: "quantity \<Rightarrow> (i64 \<Rightarrow> i64 \<Rightarrow> bool) \<Rightarrow> traffic_db \<Rightarrow> int" where
  "exact_amount q P db = sample_total (exact_sample_amount q) P (traffic_samples db)
     + rollup_total (rollup_exact q) P (traffic_rollups db)"

lemma sum_list_upsert_value:
  fixes g :: "'k::linorder \<times> 'v \<Rightarrow> int"
  assumes "sorted_keys m"
  shows "sum_list (map g (upsert k e (\<lambda>_. e) m)) =
    sum_list (map g m) + g (k, e) - (case map_of m k of None \<Rightarrow> 0 | Some v \<Rightarrow> g (k, v))"
  using assms
proof (induction k e "\<lambda>_::'v. e" m rule: upsert.induct)
  case (2 k e k' v m)
  have "k < k' \<Longrightarrow> map_of m k = None"
    using "2.prems" by (force simp: sorted_keys_Cons map_of_eq_None_iff)
  then show ?case using 2 by (auto simp: sorted_keys_Cons)
qed simp

text \<open>Rows that only change within a sub-list change a sum by what they change it there.\<close>

lemma sum_list_changed_rows:
  fixes g g' :: "'a \<Rightarrow> int"
  assumes "distinct (map f t)" "distinct (map f xs)" "set xs \<subseteq> set t"
    and "\<And>y. y \<in> set t \<Longrightarrow> f y \<notin> f ` set xs \<Longrightarrow> g' y = g y"
  shows "sum_list (map g' t) - sum_list (map g t) = sum_list (map g' xs) - sum_list (map g xs)"
proof -
  have d: "distinct t" "distinct xs" "inj_on f (set t)" using assms by (auto simp: distinct_map)
  have "(\<Sum>y\<in>set t. g' y - g y) = (\<Sum>y\<in>set xs. g' y - g y)"
  proof (rule sum.mono_neutral_right)
    show "\<forall>y \<in> set t - set xs. g' y - g y = 0"
    proof
      fix y
      assume y: "y \<in> set t - set xs"
      then have "f y \<notin> f ` set xs" using d(3) assms(3) by (meson DiffE inj_on_image_mem_iff subset_iff)
      then show "g' y - g y = 0" using assms(4) y by simp
    qed
  qed (use assms(3) in simp_all)
  then show ?thesis
    using d(1,2) by (simp add: sum_list_distinct_conv_sum_set sum_subtractf)
qed

section \<open>Segments\<close>

definition entry_ok :: "(i64 \<times> i64 \<times> i64) \<times> rollup_entry \<Rightarrow> bool" where
  "entry_ok e = (case e of ((r, i, k), (b, st, en)) \<Rightarrow>
     0 \<le> k \<and> k \<le> st \<and> st < en \<and> en \<le> I64_MAX \<and>
     (\<forall>q. 0 \<le> bucket_exact q b \<and> 0 \<le> bucket_estimated q b) \<and>
     bucket_amount Duration b \<le> en - st)"

definition entries_ok :: "rollup_buckets \<Rightarrow> bool" where
  "entries_ok bs \<longleftrightarrow> sorted_keys bs \<and> (\<forall>e \<in> set bs. entry_ok e)"

text \<open>The sample validation and the row invariant agree on what a sample is.\<close>

definition raw_ok :: "sample_row \<Rightarrow> bool" where
  "raw_ok s \<longleftrightarrow> 0 \<le> sm_started_at_ms s \<and> sm_started_at_ms s < sm_ended_at_ms s \<and>
     sm_ended_at_ms s \<le> I64_MAX \<and> sm_duration_ms s = sm_ended_at_ms s - sm_started_at_ms s \<and>
     0 \<le> sm_download_bytes s \<and> sm_download_bytes s \<le> I64_MAX \<and>
     0 \<le> sm_upload_bytes s \<and> sm_upload_bytes s \<le> I64_MAX"

lemma raw_ok_sample: "sample_ok s \<Longrightarrow> raw_ok s"
  by (auto simp: sample_ok_def raw_ok_def sample_checks_def)

lemma raw_ok_amount: "raw_ok s \<Longrightarrow> 0 \<le> sample_amount q s \<and> sample_amount q s \<le> I64_MAX"
  by (cases q) (auto simp: raw_ok_def)

lemma sat_sub_nat: "0 \<le> a \<Longrightarrow> a \<le> b \<Longrightarrow> b \<le> I64_MAX \<Longrightarrow> sat_sub b a = b - a"
  by (auto simp: sat_sub_def in_i64_def I64_MIN_def I64_MAX_def intro!: clamp_i64_id)

lemma sat_add_nat: "0 \<le> a \<Longrightarrow> 0 \<le> b \<Longrightarrow> a + b \<le> I64_MAX \<Longrightarrow> sat_add a b = a + b"
  by (auto simp: sat_add_def in_i64_def I64_MIN_def I64_MAX_def intro!: clamp_i64_id)

definition taken :: "quantity \<Rightarrow> sample_row \<Rightarrow> int \<Rightarrow> int \<Rightarrow> int" where
  "taken q s a b = slice (sample_amount q s) (sm_duration_ms s) (a - sm_started_at_ms s) (b - sm_started_at_ms s)"

lemma taken_add: "taken q s a m + taken q s m b = taken q s a b"
  by (simp add: taken_def slice_add)

lemma taken_empty [simp]: "taken q s a a = 0"
  by (simp add: taken_def slice_def)

lemma taken_duration: "raw_ok s \<Longrightarrow> taken Duration s a b = b - a"
  by (simp add: taken_def slice_def raw_ok_def)

lemma taken_nonneg: "raw_ok s \<Longrightarrow> a \<le> b \<Longrightarrow> 0 \<le> taken q s a b"
  unfolding taken_def by (rule slice_nonneg) (auto simp: raw_ok_amount, auto simp: raw_ok_def)

lemma taken_le: "raw_ok s \<Longrightarrow> sm_started_at_ms s \<le> a \<Longrightarrow> a \<le> b \<Longrightarrow> b \<le> sm_ended_at_ms s \<Longrightarrow>
    taken q s a b \<le> sample_amount q s"
  unfolding taken_def by (rule slice_le_value) (auto simp: raw_ok_amount, auto simp: raw_ok_def)

lemma taken_whole: "raw_ok s \<Longrightarrow> taken q s (sm_started_at_ms s) (sm_ended_at_ms s) = sample_amount q s"
  by (simp add: taken_def raw_ok_def slice_whole)


lemma add_bucket_amount:
  assumes "0 \<le> bucket_exact Duration b" "0 \<le> bucket_estimated Duration b" "0 \<le> f Duration"
    "bucket_amount Duration b + f Duration \<le> I64_MAX"
    and b': "b' = add_to_rollup_bucket x (f Download) (f Upload) (f Duration) b"
  shows "bucket_amount q b' = bucket_amount q b + f q"
    "bucket_exact q b' = bucket_exact q b + (if x then f q else 0)"
  using assms(1-4) unfolding b'
  by (cases q; simp add: add_to_rollup_bucket_def bucket_amount_def sat_add_nat)+

lemma entry_at_ok:
  assumes "entries_ok bs" "0 \<le> k" "k \<le> start" "rollup_entry_at bs (r, i, k) start = (b, st, en)"
    "\<not> start < en"
  shows "k \<le> st" "st \<le> en" "en \<le> start" "0 \<le> bucket_exact q b" "0 \<le> bucket_estimated q b"
    "bucket_amount Duration b \<le> en - st"
proof -
  have "k \<le> st \<and> st \<le> en \<and> (\<forall>q. 0 \<le> bucket_exact q b \<and> 0 \<le> bucket_estimated q b) \<and>
      bucket_amount Duration b \<le> en - st"
  proof (cases "map_of bs (r, i, k)")
    case None
    have "0 \<le> bucket_exact q empty_accumulator \<and> 0 \<le> bucket_estimated q empty_accumulator" for q
      by (cases q) (simp_all add: empty_accumulator_def)
    then show ?thesis
      using None assms by (auto simp: rollup_entry_at_def bucket_amount_def empty_accumulator_def)
  next
    case (Some e)
    then have "entry_ok ((r, i, k), e)" using assms(1) by (auto simp: entries_ok_def dest: map_of_SomeD)
    then show ?thesis using Some assms(4) by (auto simp: rollup_entry_at_def entry_ok_def)
  qed
  then show "k \<le> st" "st \<le> en" "en \<le> start" "0 \<le> bucket_exact q b" "0 \<le> bucket_estimated q b"
    "bucket_amount Duration b \<le> en - st" using assms(5) by auto
qed

lemma bucket_total_upsert:
  assumes "sorted_keys bs" "rollup_entry_at bs (r, i, k) start = (b, st, en)" "f empty_accumulator = 0"
  shows "bucket_total f P (upsert (r, i, k) (b', e') (\<lambda>_. (b', e')) bs) =
    bucket_total f P bs + (if P r i then f b' - f b else 0)"
proof -
  have "(case map_of bs (r, i, k) of None \<Rightarrow> 0 | Some v \<Rightarrow> entry_value f P ((r, i, k), v))
      = (if P r i then f b else 0)"
    using assms(2,3) by (cases "map_of bs (r, i, k)") (auto simp: rollup_entry_at_def)
  then show ?thesis
    using sum_list_upsert_value[OF assms(1), of "entry_value f P" "(r, i, k)" "(b', e')"]
    by (cases e') (simp add: bucket_total_def)
qed

lemma upsert_set: "x \<in> set (upsert k e (\<lambda>_. e) m) \<Longrightarrow> x = (k, e) \<or> x \<in> set m"
  by (induction k e "\<lambda>_::'b. e" m rule: upsert.induct) (auto split: if_splits)

lemma roll_segment_InrD:
  assumes s: "raw_ok s" and w: "0 < width" and bs: "entries_ok bs"
    and range: "sm_started_at_ms s \<le> start" "start < planned" "planned \<le> sm_ended_at_ms s"
    and r: "roll_segment width s planned split bs start = Inr (bs', stop)"
  shows "start < stop" "stop \<le> planned" "entries_ok bs'"
    and "bucket_total (bucket_amount q) P bs' = bucket_total (bucket_amount q) P bs
           + sample_here P s (taken q s start stop)"
    and "bucket_total (bucket_exact q) P bs' = bucket_total (bucket_exact q) P bs
           + sample_here P s (if sm_quality s = ''exact'' \<and> \<not> split then taken q s start stop else 0)"
proof -
  let ?k = "start div width * width"
  have nn: "0 \<le> start" "start < I64_MAX" using s range by (auto simp: raw_ok_def)
  have k: "0 \<le> ?k" "?k \<le> start" "start < ?k + width"
    using nn w div_mult_mod_eq[of start width] pos_mod_bound[of width start] pos_mod_sign[of width start]
    by (simp add: pos_imp_zdiv_nonneg_iff, linarith, linarith)
  obtain b st en where e: "rollup_entry_at bs (sm_router_id s, sm_interface_id s, ?k) start = (b, st, en)"
    by (cases "rollup_entry_at bs (sm_router_id s, sm_interface_id s, ?k) start")
  define last where "last = min planned (sat_add ?k width)"
  have stop: "start < last" "last \<le> planned"
    using k range nn s sat_add_pos[of ?k width planned] w by (auto simp: raw_ok_def last_def)
  have rel: "sat_sub start (sm_started_at_ms s) = start - sm_started_at_ms s"
      "sat_sub last (sm_started_at_ms s) = last - sm_started_at_ms s"
      "sat_sub last start = last - start"
    using s range stop nn by (auto simp: raw_ok_def intro!: sat_sub_nat)
  define exact where "exact \<longleftrightarrow> sm_quality s = ''exact'' \<and> \<not> split"
  define f where "f q = taken q s start last" for q
  define b' where "b' = add_to_rollup_bucket exact (f Download) (f Upload) (f Duration) b"
  have sd: "slice (sm_duration_ms s) (sm_duration_ms s) (start - sm_started_at_ms s) (last - sm_started_at_ms s)
      = last - start"
    using taken_duration[OF s] by (simp add: taken_def)
  have after: "\<not> start < en" "stop = last"
      "bs' = upsert (sm_router_id s, sm_interface_id s, ?k) (b', st, last) (\<lambda>_. (b', st, last)) bs"
    using r by (auto simp: roll_segment_def Let_def result_simps last_def[symmetric] rel e b'_def f_def
        sd exact_def taken_def dest!: proportional_slice_InrD split: if_splits)
  note old = entry_at_ok[OF bs k(1,2) e after(1)]
  have f0: "0 \<le> f q" for q unfolding f_def by (rule taken_nonneg[OF s]) (use stop in simp)
  have fd: "f Duration = last - start" by (simp add: f_def taken_duration[OF s])
  have room: "bucket_amount Duration b + f Duration \<le> I64_MAX"
    using old(1,2,3,6) k stop range s nn fd by (auto simp: raw_ok_def)
  note new = add_bucket_amount[OF old(4,5) f0 room b'_def]
  have nonneg: "0 \<le> bucket_exact q b' \<and> 0 \<le> bucket_estimated q b'" for q
    using old(4,5)[of q] f0[of q] new[of q] by (auto simp: bucket_amount_def split: if_splits)
  show "start < stop" "stop \<le> planned" using stop after by auto
  have sorted: "sorted_keys bs" using bs by (simp add: entries_ok_def)
  have "entry_ok ((sm_router_id s, sm_interface_id s, ?k), (b', st, last))"
    using k(1) old(1,2,3,6) stop range s nonneg new(1)[of Duration] fd by (auto simp: entry_ok_def raw_ok_def)
  then show "entries_ok bs'"
    using bs upsert_set unfolding after(3) by (fastforce simp: entries_ok_def upsert_sorted)
  have zero: "bucket_amount q empty_accumulator = 0" "bucket_exact q empty_accumulator = 0"
    by (cases q; simp add: bucket_amount_def empty_accumulator_def)+
  show "bucket_total (bucket_amount q) P bs' = bucket_total (bucket_amount q) P bs
      + sample_here P s (taken q s start stop)"
    unfolding after(2,3) bucket_total_upsert[where f = "bucket_amount q", OF sorted e zero(1)] by (simp add: new sample_here_def f_def)
  show "bucket_total (bucket_exact q) P bs' = bucket_total (bucket_exact q) P bs
      + sample_here P s (if sm_quality s = ''exact'' \<and> \<not> split then taken q s start stop else 0)"
    unfolding after(2,3) bucket_total_upsert[where f = "bucket_exact q", OF sorted e zero(2)]
    by (simp add: new sample_here_def f_def exact_def)
qed


definition segments_rolled ::
  "sample_row \<Rightarrow> bool \<Rightarrow> rollup_buckets \<Rightarrow> i64 \<Rightarrow> rollup_buckets \<Rightarrow> i64 \<Rightarrow> bool" where
  "segments_rolled s split bs start bs' stop \<longleftrightarrow> entries_ok bs' \<and>
     (\<forall>q P. bucket_total (bucket_amount q) P bs' = bucket_total (bucket_amount q) P bs
        + sample_here P s (taken q s start stop)) \<and>
     (\<forall>q P. bucket_total (bucket_exact q) P bs' = bucket_total (bucket_exact q) P bs
        + sample_here P s (if sm_quality s = ''exact'' \<and> \<not> split then taken q s start stop else 0))"

lemma segments_rolled_empty: "entries_ok bs \<Longrightarrow> segments_rolled s split bs start bs start"
  by (simp add: segments_rolled_def sample_here_def)

lemma segments_rolled_trans:
  "segments_rolled s split bs a bs' m \<Longrightarrow> segments_rolled s split bs' m bs'' b \<Longrightarrow>
   segments_rolled s split bs a bs'' b"
  by (auto simp: segments_rolled_def sample_here_def taken_add)

lemma roll_segments_InrD:
  assumes "raw_ok s" "0 < width" "entries_ok bs" "sm_started_at_ms s \<le> start" "start \<le> planned"
    "planned \<le> sm_ended_at_ms s" "roll_segments width s planned split bs n start = Inr (bs', n', stop)"
  shows "start \<le> stop \<and> stop \<le> planned \<and> segments_rolled s split bs start bs' stop \<and>
    (0 < n \<longrightarrow> start < planned \<longrightarrow> start < stop)"
  using assms
proof (induction width s planned split bs n start rule: roll_segments.induct)
  case (2 width s planned split bs n start)
  show ?case
  proof (cases "start < planned")
    case True
    then obtain bs1 m where one: "roll_segment width s planned split bs start = Inr (bs1, m)"
        "roll_segments width s planned split bs1 n m = Inr (bs', n', stop)"
      using "2.prems" by (auto simp: result_simps)
    note d = roll_segment_InrD[OF "2.prems"(1,2,3,4) True "2.prems"(6) one(1)]
    have "segments_rolled s split bs start bs1 m"
      using d(3-5) by (auto simp: segments_rolled_def)
    moreover have "m \<le> stop \<and> stop \<le> planned \<and> segments_rolled s split bs1 m bs' stop \<and>
        (0 < n \<longrightarrow> m < planned \<longrightarrow> m < stop)"
      by (rule "2.IH") (use True "2.prems" d(1-3) one in auto)
    ultimately show ?thesis using d(1) segments_rolled_trans by fastforce
  qed (use "2.prems" segments_rolled_empty in simp)
qed (simp add: segments_rolled_empty)


section \<open>Samples\<close>

definition apply_remainders :: "raw_remainder list \<Rightarrow> sample_row \<Rightarrow> sample_row" where
  "apply_remainders rs s = fold (\<lambda>r x. if sm_id x = rm_id r then shortened_sample r x else x) rs s"

lemma shortened_keeps [simp]:
  "sm_id (shortened_sample r s) = sm_id s" "sm_router_id (shortened_sample r s) = sm_router_id s"
  "sm_interface_id (shortened_sample r s) = sm_interface_id s"
  "sm_ended_at_ms (shortened_sample r s) = sm_ended_at_ms s" "sm_source (shortened_sample r s) = sm_source s"
  by (simp_all add: shortened_sample_def Let_def)

lemma apply_remainders_simps [simp]:
  "apply_remainders [] s = s"
  "apply_remainders (rs @ [r]) s = (if sm_id s = rm_id r then shortened_sample r (apply_remainders rs s)
     else apply_remainders rs s)"
  "sm_id (apply_remainders rs s) = sm_id s"
proof -
  show keep: "sm_id (apply_remainders rs s) = sm_id s" for rs s
    by (induction rs rule: rev_induct) (simp_all add: apply_remainders_def)
  show "apply_remainders [] s = s" by (simp add: apply_remainders_def)
  show "apply_remainders (rs @ [r]) s = (if sm_id s = rm_id r then shortened_sample r (apply_remainders rs s)
     else apply_remainders rs s)"
    using keep[of rs s] by (simp add: apply_remainders_def)
qed

lemma apply_remainders_keeps [simp]:
  "sm_router_id (apply_remainders rs s) = sm_router_id s"
  "sm_interface_id (apply_remainders rs s) = sm_interface_id s"
  "sm_ended_at_ms (apply_remainders rs s) = sm_ended_at_ms s"
  "sm_source (apply_remainders rs s) = sm_source s"
  by (induction rs rule: rev_induct) simp_all

lemma apply_remainders_untouched: "sm_id s \<notin> rm_id ` set rs \<Longrightarrow> apply_remainders rs s = s"
  by (induction rs rule: rev_induct) auto

definition row_after :: "rollup_progress \<Rightarrow> sample_row \<Rightarrow> sample_row option" where
  "row_after p s = (if sm_id s \<in> set (rp_consumed p) then None
     else Some (apply_remainders (rp_remainders p) s))"

definition after_amount :: "(sample_row \<Rightarrow> int) \<Rightarrow> rollup_progress \<Rightarrow> sample_row \<Rightarrow> int" where
  "after_amount f p s = (case row_after p s of None \<Rightarrow> 0 | Some x \<Rightarrow> f x)"

definition touched :: "rollup_progress \<Rightarrow> i64 set" where
  "touched p = set (rp_consumed p) \<union> rm_id ` set (rp_remainders p)"

definition remainder_ok :: "sample_row \<Rightarrow> raw_remainder \<Rightarrow> bool" where
  "remainder_ok s r \<longleftrightarrow> rm_id r = sm_id s \<and> rm_ended_at_ms r = sm_ended_at_ms s \<and>
     0 \<le> rm_started_at_ms r \<and> rm_started_at_ms r < rm_ended_at_ms r \<and> rm_ended_at_ms r \<le> I64_MAX"

lemma row_after_untouched: "sm_id s \<notin> touched p \<Longrightarrow> row_after p s = Some s"
  by (simp add: row_after_def touched_def apply_remainders_untouched)

definition rolled :: "i64 \<Rightarrow> rollup_progress \<Rightarrow> sample_row \<Rightarrow> rollup_progress \<Rightarrow> bool" where
  "rolled before p s p' \<longleftrightarrow> entries_ok (rp_buckets p') \<and> touched p' \<subseteq> insert (sm_id s) (touched p) \<and>
     (\<forall>x. sm_id x \<noteq> sm_id s \<longrightarrow> row_after p' x = row_after p x) \<and>
     (\<forall>q P. bucket_total (bucket_amount q) P (rp_buckets p') + sample_here P s (after_amount (sample_amount q) p' s)
        = bucket_total (bucket_amount q) P (rp_buckets p) + sample_here P s (sample_amount q s)) \<and>
     (\<forall>q P. bucket_total (bucket_exact q) P (rp_buckets p') + sample_here P s (after_amount (exact_sample_amount q) p' s)
        \<le> bucket_total (bucket_exact q) P (rp_buckets p) + sample_here P s (exact_sample_amount q s)) \<and>
     (\<forall>r \<in> set (rp_remainders p'). r \<in> set (rp_remainders p) \<or> remainder_ok s r) \<and>
     bucket_total (bucket_amount Duration) (\<lambda>_ _. True) (rp_buckets p)
       \<le> bucket_total (bucket_amount Duration) (\<lambda>_ _. True) (rp_buckets p') \<and>
     (0 < rp_remaining_segments p \<longrightarrow> sm_started_at_ms s < before \<longrightarrow>
       bucket_total (bucket_amount Duration) (\<lambda>_ _. True) (rp_buckets p)
         < bucket_total (bucket_amount Duration) (\<lambda>_ _. True) (rp_buckets p'))"

lemma rolled_same:
  assumes "entries_ok (rp_buckets p)" "sm_id s \<notin> touched p"
    "rp_remaining_segments p = 0 \<or> before \<le> sm_started_at_ms s"
  shows "rolled before p s p"
  using assms by (auto simp: rolled_def after_amount_def row_after_untouched)

lemma shortened_amount:
  assumes "raw_ok s" "sm_started_at_ms s \<le> a" "a < sm_ended_at_ms s"
    "r = \<lparr>rm_id = i, rm_started_at_ms = a, rm_ended_at_ms = sm_ended_at_ms s,
       rm_download_bytes = sm_download_bytes s - taken Download s (sm_started_at_ms s) a,
       rm_upload_bytes = sm_upload_bytes s - taken Upload s (sm_started_at_ms s) a\<rparr>"
  shows "sample_amount q (shortened_sample r s) = sample_amount q s - taken q s (sm_started_at_ms s) a"
proof -
  have "sat_sub (sm_ended_at_ms s) a = sm_ended_at_ms s - a"
    by (rule sat_sub_nat) (use assms in \<open>auto simp: raw_ok_def\<close>)
  moreover have "sm_ended_at_ms s - a = sm_duration_ms s - (a - sm_started_at_ms s)"
    using assms(1) by (simp add: raw_ok_def)
  ultimately show ?thesis
    using assms(4) taken_duration[OF assms(1)] by (cases q) (simp_all add: shortened_sample_def Let_def)
qed

lemma sample_here_mono: "x \<le> y \<Longrightarrow> sample_here P s x \<le> sample_here P s y"
  by (simp add: sample_here_def)

lemma sample_here_add: "sample_here P s x + sample_here P s y = sample_here P s (x + y)"
  by (simp add: sample_here_def)

lemma roll_sample_InrD:
  assumes s: "raw_ok s" and w: "0 < width" and p: "entries_ok (rp_buckets p)" "sm_id s \<notin> touched p"
    and r: "roll_sample before width p s = Inr p'"
  shows "rolled before p s p'"
proof (cases "rp_remaining_segments p = 0 \<or> before \<le> sm_started_at_ms s")
  case True
  then have "p' = p" using r s by (auto simp: roll_sample_def Let_def result_simps raw_ok_def split: if_splits)
  then show ?thesis using rolled_same[OF p True] by simp
next
  case False
  define planned where "planned = min (sm_ended_at_ms s) before"
  let ?split = "split_sample width s planned"
  have planned: "sm_started_at_ms s < planned" "planned \<le> sm_ended_at_ms s"
    using False s by (auto simp: planned_def raw_ok_def)
  obtain bs n stop where seg: "roll_segments width s planned ?split (rp_buckets p)
        (rp_remaining_segments p) (sm_started_at_ms s) = Inr (bs, n, stop)"
    and rest: "if stop = sm_ended_at_ms s
       then p' = p\<lparr>rp_buckets := bs, rp_remaining_segments := n, rp_consumed := rp_consumed p @ [sm_id s]\<rparr>
       else \<exists>dl ul. proportional_slice (sm_download_bytes s) (sm_duration_ms s) 0
                   (sat_sub stop (sm_started_at_ms s)) = Inr dl \<and>
              proportional_slice (sm_upload_bytes s) (sm_duration_ms s) 0
                   (sat_sub stop (sm_started_at_ms s)) = Inr ul \<and>
              p' = p\<lparr>rp_buckets := bs, rp_remaining_segments := n,
                rp_remainders := rp_remainders p @ [\<lparr>rm_id = sm_id s,
                 rm_started_at_ms = stop, rm_ended_at_ms = sm_ended_at_ms s,
                 rm_download_bytes = sm_download_bytes s - dl, rm_upload_bytes = sm_upload_bytes s - ul\<rparr>]\<rparr>"
    using r False planned planned_def by (auto simp: roll_sample_def Let_def result_simps split: if_splits)
  have d: "sm_started_at_ms s < stop" "stop \<le> planned"
      "segments_rolled s ?split (rp_buckets p) (sm_started_at_ms s) bs stop"
    using roll_segments_InrD[OF s w p(1) order_refl less_imp_le[OF planned(1)] planned(2) seg] planned False
    by auto
  have fresh: "sm_id s \<notin> set (rp_consumed p)" "sm_id s \<notin> rm_id ` set (rp_remainders p)"
    using p(2) by (auto simp: touched_def)
  let ?t = "\<lambda>q. taken q s (sm_started_at_ms s) stop"
  have t: "0 \<le> ?t q" "?t q \<le> sample_amount q s" for q
    using taken_nonneg[OF s] taken_le[OF s] d(1,2) planned by auto
  have bs: "rp_buckets p' = bs" using rest by (auto split: if_splits)
  have exact: "(if sm_quality s = ''exact'' \<and> \<not> ?split then ?t q else 0) \<le> exact_sample_amount q s" for q
    using t[of q] by (auto simp: exact_sample_amount_def)
  have parts: "(\<forall>q. after_amount (sample_amount q) p' s = sample_amount q s - ?t q \<and>
       after_amount (exact_sample_amount q) p' s = 0) \<and>
     touched p' \<subseteq> insert (sm_id s) (touched p) \<and>
     (\<forall>x. sm_id x \<noteq> sm_id s \<longrightarrow> row_after p' x = row_after p x) \<and>
     (\<forall>r \<in> set (rp_remainders p'). r \<in> set (rp_remainders p) \<or> remainder_ok s r)"
  proof (cases "stop = sm_ended_at_ms s")
    case True
    then have p': "p' = p\<lparr>rp_buckets := bs, rp_remaining_segments := n, rp_consumed := rp_consumed p @ [sm_id s]\<rparr>"
      using rest by simp
    show ?thesis
      using True by (auto simp: p' after_amount_def row_after_def touched_def taken_whole[OF s])
  next
    case False
    let ?r = "\<lparr>rm_id = sm_id s, rm_started_at_ms = stop, rm_ended_at_ms = sm_ended_at_ms s,
       rm_download_bytes = sm_download_bytes s - ?t Download, rm_upload_bytes = sm_upload_bytes s - ?t Upload\<rparr>"
    have "sat_sub stop (sm_started_at_ms s) = stop - sm_started_at_ms s"
      by (rule sat_sub_nat) (use d planned s in \<open>auto simp: raw_ok_def\<close>)
    then have p': "p' = p\<lparr>rp_buckets := bs, rp_remaining_segments := n, rp_remainders := rp_remainders p @ [?r]\<rparr>"
      using rest False by (auto simp: taken_def dest!: proportional_slice_InrD)
    have after: "row_after p' s = Some (shortened_sample ?r s)"
      using fresh by (simp add: p' row_after_def apply_remainders_untouched)
    have "sample_amount q (shortened_sample ?r s) = sample_amount q s - ?t q" for q
      by (rule shortened_amount[OF s]) (use False d planned in auto)
    moreover have "exact_sample_amount q (shortened_sample ?r s) = 0" for q
      by (simp add: exact_sample_amount_def shortened_sample_def Let_def)
    moreover have "remainder_ok s ?r"
      using s False d planned by (auto simp: remainder_ok_def raw_ok_def)
    moreover have "\<forall>x. sm_id x \<noteq> sm_id s \<longrightarrow> row_after p' x = row_after p x"
      by (simp add: p' row_after_def)
    ultimately show ?thesis by (auto simp: after_amount_def after) (auto simp: p' touched_def)
  qed
  have amt: "bucket_total (bucket_amount q) P bs = bucket_total (bucket_amount q) P (rp_buckets p)
      + sample_here P s (?t q)" for q P
    using d(3) by (simp add: segments_rolled_def)
  have ex: "bucket_total (bucket_exact q) P bs = bucket_total (bucket_exact q) P (rp_buckets p)
      + sample_here P s (if sm_quality s = ''exact'' \<and> \<not> ?split then ?t q else 0)" for q P
    using d(3) by (simp add: segments_rolled_def)
  have grow: "bucket_total (bucket_amount Duration) (\<lambda>_ _. True) (rp_buckets p)
      < bucket_total (bucket_amount Duration) (\<lambda>_ _. True) bs"
    using d(1) taken_duration[OF s, of "sm_started_at_ms s" stop] by (simp add: amt sample_here_def)
  have "entries_ok bs" using d(3) by (simp add: segments_rolled_def)
  moreover have "sample_here P s (if sm_quality s = ''exact'' \<and> \<not> ?split then ?t q else 0)
      \<le> sample_here P s (exact_sample_amount q s)" for q P
    by (rule sample_here_mono[OF exact])
  moreover have "sample_here P s 0 = 0" for P by (simp add: sample_here_def)
  ultimately show ?thesis
    using parts grow unfolding rolled_def bs amt ex
    by (simp add: sample_here_add)
qed


definition batch_total :: "(sample_row \<Rightarrow> int) \<Rightarrow> (i64 \<Rightarrow> i64 \<Rightarrow> bool) \<Rightarrow> rollup_progress \<Rightarrow> sample_row list \<Rightarrow> int" where
  "batch_total f P p xs = (\<Sum>s\<leftarrow>xs. sample_here P s (after_amount f p s))"

definition batch_rolled :: "i64 \<Rightarrow> rollup_progress \<Rightarrow> sample_row list \<Rightarrow> rollup_progress \<Rightarrow> bool" where
  "batch_rolled before p xs p' \<longleftrightarrow> entries_ok (rp_buckets p') \<and> touched p' \<subseteq> sm_id ` set xs \<union> touched p \<and>
     (\<forall>x. sm_id x \<notin> sm_id ` set xs \<longrightarrow> row_after p' x = row_after p x) \<and>
     (\<forall>q P. bucket_total (bucket_amount q) P (rp_buckets p') + batch_total (sample_amount q) P p' xs
        = bucket_total (bucket_amount q) P (rp_buckets p) + sample_total (sample_amount q) P xs) \<and>
     (\<forall>q P. bucket_total (bucket_exact q) P (rp_buckets p') + batch_total (exact_sample_amount q) P p' xs
        \<le> bucket_total (bucket_exact q) P (rp_buckets p) + sample_total (exact_sample_amount q) P xs) \<and>
     (\<forall>r \<in> set (rp_remainders p'). r \<in> set (rp_remainders p) \<or> (\<exists>s \<in> set xs. remainder_ok s r)) \<and>
     bucket_total (bucket_amount Duration) (\<lambda>_ _. True) (rp_buckets p)
       \<le> bucket_total (bucket_amount Duration) (\<lambda>_ _. True) (rp_buckets p') \<and>
     (xs \<noteq> [] \<longrightarrow> 0 < rp_remaining_segments p \<longrightarrow> sm_started_at_ms (hd xs) < before \<longrightarrow>
       bucket_total (bucket_amount Duration) (\<lambda>_ _. True) (rp_buckets p)
         < bucket_total (bucket_amount Duration) (\<lambda>_ _. True) (rp_buckets p'))"

lemma roll_batch:
  assumes "0 < width" "\<forall>s \<in> set xs. raw_ok s" "distinct (map sm_id xs)" "entries_ok (rp_buckets p)"
    "touched p \<inter> sm_id ` set xs = {}" "fold_result (roll_sample before width) p xs = Inr p'"
  shows "batch_rolled before p xs p'"
  using assms
proof (induction xs arbitrary: p)
  case (Cons s xs)
  obtain p1 where one: "roll_sample before width p s = Inr p1"
    "fold_result (roll_sample before width) p1 xs = Inr p'"
    using Cons.prems(6) by (auto simp: result_simps)
  have r: "rolled before p s p1"
    by (rule roll_sample_InrD[OF _ Cons.prems(1) Cons.prems(4) _ one(1)]) (use Cons.prems in auto)
  note r = r[unfolded rolled_def]
  have sid: "sm_id s \<notin> sm_id ` set xs" using Cons.prems(3) by auto
  have t: "touched p1 \<subseteq> insert (sm_id s) (touched p)" using r by blast
  have "touched p \<inter> sm_id ` set xs = {}" using Cons.prems(5) by auto
  then have "insert (sm_id s) (touched p) \<inter> sm_id ` set xs = {}" using sid by simp
  then have t': "touched p1 \<inter> sm_id ` set xs = {}" using Int_mono[OF t order_refl] by (metis subset_empty)
  have ih: "batch_rolled before p1 xs p'"
    by (rule Cons.IH[OF Cons.prems(1) _ _ _ t' one(2)]) (use Cons.prems r in auto)
  note ih = ih[unfolded batch_rolled_def]
  have "row_after p' s = row_after p1 s" using ih sid by blast
  then have here: "sample_here P s (after_amount f p' s) = sample_here P s (after_amount f p1 s)" for f P
    by (simp add: after_amount_def)
  have "touched p' \<subseteq> sm_id ` set (s # xs) \<union> touched p" using ih t by auto
  moreover have "row_after p' x = row_after p x" if "sm_id x \<notin> sm_id ` set (s # xs)" for x
  proof -
    have "row_after p' x = row_after p1 x" using ih that by simp
    also have "\<dots> = row_after p x" using r that by simp
    finally show ?thesis .
  qed
  moreover have "bucket_total (bucket_amount q) P (rp_buckets p') + batch_total (sample_amount q) P p' (s # xs)
      = bucket_total (bucket_amount q) P (rp_buckets p) + sample_total (sample_amount q) P (s # xs)" for q P
  proof -
    have "bucket_total (bucket_amount q) P (rp_buckets p') + batch_total (sample_amount q) P p' xs
      = bucket_total (bucket_amount q) P (rp_buckets p1) + sample_total (sample_amount q) P xs" using ih by blast
    moreover have "bucket_total (bucket_amount q) P (rp_buckets p1) + sample_here P s (after_amount (sample_amount q) p1 s)
      = bucket_total (bucket_amount q) P (rp_buckets p) + sample_here P s (sample_amount q s)" using r by blast
    ultimately show ?thesis by (simp add: batch_total_def sample_total_def here)
  qed
  moreover have "bucket_total (bucket_exact q) P (rp_buckets p') + batch_total (exact_sample_amount q) P p' (s # xs)
      \<le> bucket_total (bucket_exact q) P (rp_buckets p) + sample_total (exact_sample_amount q) P (s # xs)" for q P
  proof -
    have "bucket_total (bucket_exact q) P (rp_buckets p') + batch_total (exact_sample_amount q) P p' xs
      \<le> bucket_total (bucket_exact q) P (rp_buckets p1) + sample_total (exact_sample_amount q) P xs" using ih by blast
    moreover have "bucket_total (bucket_exact q) P (rp_buckets p1) + sample_here P s (after_amount (exact_sample_amount q) p1 s)
      \<le> bucket_total (bucket_exact q) P (rp_buckets p) + sample_here P s (exact_sample_amount q s)" using r by blast
    ultimately show ?thesis by (simp add: batch_total_def sample_total_def here)
  qed
  moreover have "u \<in> set (rp_remainders p) \<or> (\<exists>x \<in> set (s # xs). remainder_ok x u)"
    if "u \<in> set (rp_remainders p')" for u
  proof -
    have "u \<in> set (rp_remainders p1) \<or> (\<exists>x \<in> set xs. remainder_ok x u)" using ih that by blast
    then show ?thesis using r by auto
  qed
  moreover have "entries_ok (rp_buckets p')"
    and "bucket_total (bucket_amount Duration) (\<lambda>_ _. True) (rp_buckets p1)
       \<le> bucket_total (bucket_amount Duration) (\<lambda>_ _. True) (rp_buckets p')" using ih by blast+
  ultimately show ?case using r unfolding batch_rolled_def by auto
qed (simp add: batch_total_def sample_total_def batch_rolled_def)


section \<open>Rollup rows\<close>

lemma new_rollup_amount:
  "rollup_exact q (new_rollup_row width (k, b, st, en)) = bucket_exact q b"
  "rollup_estimated q (new_rollup_row width (k, b, st, en)) = bucket_estimated q b"
  by (cases k; cases q; simp add: new_rollup_row_def)+

lemma merged_rollup_amount:
  "rollup_exact q (merged_rollup_row old new) = rollup_exact q old + rollup_exact q new"
  "rollup_estimated q (merged_rollup_row old new) = rollup_estimated q old + rollup_estimated q new"
  by (cases q; simp add: merged_rollup_row_def)+

lemma rollup_ok_iff:
  "rollup_ok u \<longleftrightarrow> rollup_checks u \<and> 0 \<le> ru_bucket_start_ms u \<and> ru_bucket_end_ms u \<le> I64_MAX \<and>
     rollup_exact Duration u + rollup_estimated Duration u \<le> ru_bucket_end_ms u - ru_bucket_start_ms u \<and>
     0 < rollup_exact Duration u + rollup_estimated Duration u \<and>
     rollup_exact Download u \<le> I64_MAX \<and> rollup_exact Upload u \<le> I64_MAX \<and>
     rollup_estimated Download u \<le> I64_MAX \<and> rollup_estimated Upload u \<le> I64_MAX"
  by (simp add: rollup_ok_def)

lemma rollup_ok_checks: "rollup_ok u \<Longrightarrow> rollup_checks u"
  by (simp add: rollup_ok_def)

lemma merged_key [simp]: "rollup_key (merged_rollup_row old new) = rollup_key old"
  "ru_router_id (merged_rollup_row old new) = ru_router_id old"
  "ru_interface_id (merged_rollup_row old new) = ru_interface_id old"
  by (simp_all add: rollup_key_def merged_rollup_row_def)

lemma merged_rollup_ok:
  assumes "rollup_ok old" "rollup_key old = rollup_key new" "rollup_merge_allowed old new st"
    "0 \<le> rollup_exact Duration new + rollup_estimated Duration new"
    "rollup_exact Duration new + rollup_estimated Duration new \<le> ru_bucket_end_ms new - st"
    "ru_bucket_end_ms new \<le> I64_MAX" "rollup_checks (merged_rollup_row old new)"
  shows "rollup_ok (merged_rollup_row old new)"
proof -
  have "ru_bucket_start_ms (merged_rollup_row old new) = ru_bucket_start_ms old"
    "ru_bucket_end_ms (merged_rollup_row old new) = max (ru_bucket_end_ms old) (ru_bucket_end_ms new)"
    by (simp_all add: merged_rollup_row_def)
  then show ?thesis
    using assms unfolding rollup_ok_iff merged_rollup_amount rollup_merge_allowed_def
    by simp
qed

definition rollups_ok :: "traffic_db \<Rightarrow> bool" where
  "rollups_ok db \<longleftrightarrow> wf_rollups db \<and> (\<forall>u \<in> set (traffic_rollups db). rollup_ok u)"

lemma rollup_total_append: "rollup_total f P (us @ vs) = rollup_total f P us + rollup_total f P vs"
  by (simp add: rollup_total_def)

lemma rollup_total_merge:
  assumes "distinct (map rollup_key us)" "old \<in> set us" "rollup_key old = rollup_key new"
    "\<And>u. f (merged_rollup_row u new) = f u + f new"
  shows "rollup_total f P (map (\<lambda>u. if rollup_key u = rollup_key new then merged_rollup_row u new else u) us)
     = rollup_total f P us + (if P (ru_router_id new) (ru_interface_id new) then f new else 0)"
proof -
  let ?g = "\<lambda>u. if P (ru_router_id u) (ru_interface_id u) then f u else 0"
  let ?m = "\<lambda>u. if rollup_key u = rollup_key new then merged_rollup_row u new else u"
  have "sum_list (map (?g \<circ> ?m) us) - sum_list (map ?g us) = sum_list (map (?g \<circ> ?m) [old]) - sum_list (map ?g [old])"
    by (rule sum_list_changed_rows[where f = rollup_key]) (use assms in auto)
  moreover have "(?g \<circ> ?m) old - ?g old = ?g new"
    using assms(3,4) by (auto simp: rollup_key_def)
  ultimately show ?thesis unfolding rollup_total_def map_map by simp
qed


lemma upsert_rollup_InrD:
  assumes ok: "rollups_ok db" and row: "rollup_ok row" and st: "ru_bucket_start_ms row \<le> st"
      "rollup_exact Duration row + rollup_estimated Duration row \<le> ru_bucket_end_ms row - st"
    and r: "upsert_rollup_row db row st = Inr (1, db')"
  obtains us n where "db' = db\<lparr>traffic_rollups := us, seq_rollups := n\<rparr>" "rollups_ok db'"
    "\<And>f P. (\<And>u. f (merged_rollup_row u row) = f u + f row) \<Longrightarrow> (\<And>u i. f (u\<lparr>ru_id := i\<rparr>) = f u) \<Longrightarrow>
       rollup_total f P us = rollup_total f P (traffic_rollups db)
         + (if P (ru_router_id row) (ru_interface_id row) then f row else 0)"
proof -
  have fk: "rollup_checks row" "router_exists db (ru_router_id row)" "interface_exists db (ru_interface_id row)"
    using r by (auto simp: upsert_rollup_row_def split: if_splits)
  have wf: "distinct (map rollup_key (traffic_rollups db))"
    "\<And>u. u \<in> set (traffic_rollups db) \<Longrightarrow> router_exists db (ru_router_id u) \<and>
        interface_exists db (ru_interface_id u) \<and> rollup_ok u"
    using ok by (auto simp: rollups_ok_def wf_rollups_def)
  show thesis
  proof (cases "find (\<lambda>old. rollup_key old = rollup_key row) (traffic_rollups db)")
    case None
    let ?row = "row\<lparr>ru_id := seq_rollups db + 1\<rparr>"
    have db': "db' = db\<lparr>traffic_rollups := traffic_rollups db @ [?row], seq_rollups := seq_rollups db + 1\<rparr>"
      using r fk None by (simp add: upsert_rollup_row_def)
    have "rollup_key row \<notin> rollup_key ` set (traffic_rollups db)"
      using None by (simp add: find_None_iff_key)
    moreover have "rollup_key ?row = rollup_key row" by (simp add: rollup_key_def)
    moreover have "rollup_ok ?row" using row by (simp add: rollup_ok_def rollup_checks_def)
    ultimately have "rollups_ok db'"
      using wf fk by (auto simp: rollups_ok_def wf_rollups_def db' rollup_ok_def)
    then show thesis
      using that[OF db'] by (simp add: rollup_total_append) (simp add: rollup_total_def)
  next
    case (Some old)
    then have old: "old \<in> set (traffic_rollups db)" "rollup_key old = rollup_key row"
      by (auto dest: find_SomeD)
    let ?m = "\<lambda>u. if rollup_key u = rollup_key row then merged_rollup_row u row else u"
    have allowed: "rollup_merge_allowed old row st" "rollup_checks (merged_rollup_row old row)"
      and "db' = db\<lparr>traffic_rollups := map ?m (traffic_rollups db)\<rparr>"
      using r fk Some by (auto simp: upsert_rollup_row_def split: if_splits)
    then have db': "db' = db\<lparr>traffic_rollups := map ?m (traffic_rollups db), seq_rollups := seq_rollups db\<rparr>"
      by simp
    have "rollup_ok (merged_rollup_row old row)"
      by (rule merged_rollup_ok[OF _ old(2) allowed(1) _ st(2) _ allowed(2)])
        (use wf(2)[OF old(1)] row in \<open>auto simp: rollup_ok_def rollup_checks_def\<close>)
    moreover have "u = old" if "u \<in> set (traffic_rollups db)" "rollup_key u = rollup_key row" for u
      using wf(1) old that by (simp add: distinct_map inj_on_def)
    ultimately have each: "rollup_ok (?m u)" if "u \<in> set (traffic_rollups db)" for u
      using that wf(2) by auto
    have keys: "map rollup_key (map ?m (traffic_rollups db)) = map rollup_key (traffic_rollups db)"
      by simp
    have "rollup_ok u \<and> rollup_checks u \<and> router_exists db (ru_router_id u) \<and> interface_exists db (ru_interface_id u)"
      if u: "u \<in> set (map ?m (traffic_rollups db))" for u
    proof -
      obtain v where v: "u = ?m v" "v \<in> set (traffic_rollups db)" using u unfolding set_map by blast
      then have "rollup_ok u" using each by simp
      then show ?thesis using wf(2)[OF v(2)] rollup_ok_checks v(1) by simp
    qed
    moreover have "distinct (map rollup_key (map ?m (traffic_rollups db)))"
      unfolding keys by (rule wf(1))
    moreover define us where "us = map ?m (traffic_rollups db)"
    ultimately have "rollups_ok (db\<lparr>traffic_rollups := us, seq_rollups := seq_rollups db\<rparr>)"
      unfolding rollups_ok_def wf_rollups_def us_def[symmetric] by simp
    then have "rollups_ok db'" unfolding db' us_def .
    then show thesis
      using that[OF db'] rollup_total_merge[OF wf(1) old] by blast
  qed
qed


definition rollups_moved :: "traffic_db \<Rightarrow> traffic_db \<Rightarrow> rollup_buckets \<Rightarrow> bool" where
  "rollups_moved db db' bs \<longleftrightarrow> rollups_ok db' \<and>
     db' = db\<lparr>traffic_rollups := traffic_rollups db', seq_rollups := seq_rollups db'\<rparr> \<and>
     (\<forall>q P. rollup_total (\<lambda>u. rollup_exact q u + rollup_estimated q u) P (traffic_rollups db')
        = rollup_total (\<lambda>u. rollup_exact q u + rollup_estimated q u) P (traffic_rollups db)
          + bucket_total (bucket_amount q) P bs) \<and>
     (\<forall>q P. rollup_total (rollup_exact q) P (traffic_rollups db')
        = rollup_total (rollup_exact q) P (traffic_rollups db) + bucket_total (bucket_exact q) P bs)"

lemma store_entry_InrD:
  assumes ok: "rollups_ok db" and e: "entry_ok e"
    and r: "store_rollup_entry width db e = Inr db'"
  shows "rollups_moved db db' [e]"
proof -
  obtain router iface k b st en where e_def: "e = ((router, iface, k), (b, st, en))" by (metis prod.collapse)
  let ?row = "new_rollup_row width e"
  have b: "0 \<le> k" "k \<le> st" "st < en" "en \<le> I64_MAX" "bucket_amount Duration b \<le> en - st"
    "\<And>q. 0 \<le> bucket_exact q b" "\<And>q. 0 \<le> bucket_estimated q b"
    using e by (auto simp: entry_ok_def e_def)
  have dur: "sat_add (ba_exact_duration_ms b) (ba_estimated_duration_ms b) = bucket_amount Duration b"
    using b(6)[of Duration] b(7)[of Duration] b(1-5) by (simp add: bucket_amount_def sat_add_nat)
  have fits: "in_i64 (ba_exact_download_bytes b)" "in_i64 (ba_exact_upload_bytes b)"
    "in_i64 (ba_estimated_download_bytes b)" "in_i64 (ba_estimated_upload_bytes b)"
    "0 < bucket_amount Duration b" and up: "upsert_rollup_row db ?row st = Inr (1, db')"
    using r by (auto simp: store_rollup_entry_def e_def Let_def dur result_simps split: if_splits)
  have checks: "rollup_checks ?row" using up by (auto simp: upsert_rollup_row_def split: if_splits)
  have fields: "ru_bucket_start_ms ?row = k" "ru_bucket_end_ms ?row = en" "ru_router_id ?row = router"
    "ru_interface_id ?row = iface"
    by (simp_all add: new_rollup_row_def e_def)
  have amounts: "rollup_exact q ?row = bucket_exact q b" "rollup_estimated q ?row = bucket_estimated q b" for q
    by (simp_all only: e_def new_rollup_amount)
  have "rollup_ok ?row"
    using checks b fits unfolding rollup_ok_iff fields amounts
    by (auto simp: bucket_amount_def in_i64_def)
  then obtain us n where db': "db' = db\<lparr>traffic_rollups := us, seq_rollups := n\<rparr>" "rollups_ok db'"
    and sum: "\<And>f P. (\<And>u. f (merged_rollup_row u ?row) = f u + f ?row) \<Longrightarrow> (\<And>u i. f (u\<lparr>ru_id := i\<rparr>) = f u) \<Longrightarrow>
       rollup_total f P us = rollup_total f P (traffic_rollups db)
         + (if P router iface then f ?row else 0)"
    using upsert_rollup_InrD[OF ok _ _ _ up] b unfolding fields amounts bucket_amount_def by metis
  have ids: "rollup_exact q (u\<lparr>ru_id := i\<rparr>) = rollup_exact q u"
    "rollup_estimated q (u\<lparr>ru_id := i\<rparr>) = rollup_estimated q u" for q u i
    by (cases q; simp)+
  have "rollup_total (\<lambda>u. rollup_exact q u + rollup_estimated q u) P us
      = rollup_total (\<lambda>u. rollup_exact q u + rollup_estimated q u) P (traffic_rollups db)
        + bucket_total (bucket_amount q) P [e]" for q P
    by (subst sum) (simp_all add: merged_rollup_amount ids amounts[unfolded e_def] bucket_total_def e_def bucket_amount_def)
  moreover have "rollup_total (rollup_exact q) P us
      = rollup_total (rollup_exact q) P (traffic_rollups db) + bucket_total (bucket_exact q) P [e]" for q P
    by (subst sum) (simp_all add: merged_rollup_amount ids amounts[unfolded e_def] bucket_total_def e_def)
  ultimately show ?thesis using db' by (auto simp: rollups_moved_def)
qed

lemma rollups_moved_trans:
  assumes "rollups_moved db db1 bs" "rollups_moved db1 db2 cs"
  shows "rollups_moved db db2 (bs @ cs)"
proof -
  have "db1 = db\<lparr>traffic_rollups := traffic_rollups db1, seq_rollups := seq_rollups db1\<rparr>"
    "db2 = db1\<lparr>traffic_rollups := traffic_rollups db2, seq_rollups := seq_rollups db2\<rparr>"
    using assms by (simp_all add: rollups_moved_def)
  then have "db2 = db\<lparr>traffic_rollups := traffic_rollups db2, seq_rollups := seq_rollups db2\<rparr>"
    by (cases db; cases db1; cases db2) simp
  then show ?thesis using assms by (simp add: rollups_moved_def bucket_total_def)
qed

lemma store_entries_InrD:
  assumes "rollups_ok db" "\<forall>e \<in> set bs. entry_ok e" "fold_result (store_rollup_entry width) db bs = Inr db'"
  shows "rollups_moved db db' bs"
  using assms
proof (induction bs arbitrary: db)
  case Nil
  then have "db' = db\<lparr>traffic_rollups := traffic_rollups db, seq_rollups := seq_rollups db\<rparr>" by simp
  with Nil show ?case by (auto simp: rollups_moved_def bucket_total_def)
next
  case (Cons e bs)
  then obtain db1 where one: "store_rollup_entry width db e = Inr db1"
    "fold_result (store_rollup_entry width) db1 bs = Inr db'" by (auto simp: result_simps)
  have m: "rollups_moved db db1 [e]" by (rule store_entry_InrD[OF Cons.prems(1) _ one(1)]) (use Cons.prems in simp)
  then have "rollups_moved db1 db' bs"
    using Cons.IH[OF _ _ one(2)] Cons.prems by (simp add: rollups_moved_def)
  then show ?case using rollups_moved_trans[OF m] by simp
qed


section \<open>Rewriting the samples\<close>

lemma shortened_ok:
  assumes "remainder_ok s r" "sample_checks (shortened_sample r s)"
    "in_i64 (rm_download_bytes r)" "in_i64 (rm_upload_bytes r)"
  shows "sample_ok (shortened_sample r s)"
proof -
  have "sat_sub (rm_ended_at_ms r) (rm_started_at_ms r) = rm_ended_at_ms r - rm_started_at_ms r"
    by (rule sat_sub_nat) (use assms(1) in \<open>auto simp: remainder_ok_def\<close>)
  then show ?thesis
    using assms by (simp add: sample_ok_def remainder_ok_def shortened_sample_def Let_def in_i64_def)
qed

lemma remainder_ok_shortened [simp]: "remainder_ok (shortened_sample r s) r' = remainder_ok s r'"
  by (simp add: remainder_ok_def)

lemma update_remainder_InrD:
  "update_remainder db r = Inr db' \<Longrightarrow> in_i64 (rm_download_bytes r) \<and> in_i64 (rm_upload_bytes r) \<and>
     (\<forall>s \<in> set (traffic_samples db). sm_id s = rm_id r \<longrightarrow> sample_checks (shortened_sample r s)) \<and>
     db' = db\<lparr>traffic_samples := map (\<lambda>s. if sm_id s = rm_id r then shortened_sample r s else s) (traffic_samples db)\<rparr>"
  by (auto simp: update_remainder_def Let_def split: if_splits)

lemma delete_InrD:
  "delete_consumed db i = Inr db' \<Longrightarrow>
   db' = db\<lparr>traffic_samples := filter (\<lambda>s. sm_id s \<noteq> i) (traffic_samples db)\<rparr>"
  by (auto simp: delete_consumed_def split: if_splits)

lemma update_remainders_InrD:
  assumes "\<forall>s \<in> set (traffic_samples db). sample_ok s"
    "\<forall>r \<in> set rs. \<forall>s \<in> set (traffic_samples db). rm_id r = sm_id s \<longrightarrow> remainder_ok s r"
    "fold_result update_remainder db rs = Inr db'"
  shows "db' = db\<lparr>traffic_samples := map (apply_remainders rs) (traffic_samples db)\<rparr> \<and>
     (\<forall>s \<in> set (traffic_samples db'). sample_ok s)"
  using assms
proof (induction rs arbitrary: db)
  case Nil
  have "apply_remainders [] = id" by (simp add: fun_eq_iff)
  with Nil show ?case by simp
next
  case (Cons r rs)
  let ?f = "\<lambda>s. if sm_id s = rm_id r then shortened_sample r s else s"
  let ?db = "db\<lparr>traffic_samples := map ?f (traffic_samples db)\<rparr>"
  have fits: "in_i64 (rm_download_bytes r)" "in_i64 (rm_upload_bytes r)"
    and checks: "\<forall>s \<in> set (traffic_samples db). sm_id s = rm_id r \<longrightarrow> sample_checks (shortened_sample r s)"
    and rest: "fold_result update_remainder ?db rs = Inr db'"
    using Cons.prems(3) by (auto simp: result_simps dest!: update_remainder_InrD)
  have ok: "\<forall>s \<in> set (traffic_samples ?db). sample_ok s"
    using Cons.prems(1,2) checks shortened_ok[OF _ _ fits] by auto
  have rem: "\<forall>r' \<in> set rs. \<forall>s \<in> set (traffic_samples ?db). rm_id r' = sm_id s \<longrightarrow> remainder_ok s r'"
    using Cons.prems(2) by auto
  have "apply_remainders (r # rs) = apply_remainders rs \<circ> ?f"
    by (simp add: apply_remainders_def fun_eq_iff)
  then show ?case using Cons.IH[OF ok rem rest] by simp
qed

lemma delete_consumed_InrD:
  "fold_result delete_consumed db is = Inr db' \<Longrightarrow>
   db' = db\<lparr>traffic_samples := filter (\<lambda>s. sm_id s \<notin> set is) (traffic_samples db)\<rparr>"
proof (induction "is" arbitrary: db)
  case (Cons i "is")
  have "fold_result delete_consumed (db\<lparr>traffic_samples := filter (\<lambda>s. sm_id s \<noteq> i) (traffic_samples db)\<rparr>) is = Inr db'"
    using Cons.prems by (auto simp: result_simps dest!: delete_InrD)
  note Cons.IH[OF this]
  moreover have "(\<lambda>s. sm_id s \<notin> set is \<and> sm_id s \<noteq> i) = (\<lambda>s. sm_id s \<noteq> i \<and> sm_id s \<notin> set is)" by auto
  ultimately show ?case by (simp add: conj_commute)
qed simp

lemma after_table:
  "sample_total f P (filter (\<lambda>s. sm_id s \<notin> set (rp_consumed p))
      (map (apply_remainders (rp_remainders p)) ss)) =
   (\<Sum>s\<leftarrow>ss. sample_here P s (after_amount f p s))"
  by (induction ss) (simp_all add: sample_total_def sample_here_def after_amount_def row_after_def)

section \<open>A whole batch\<close>

definition raw_ids_unique :: "traffic_db \<Rightarrow> bool" where
  "raw_ids_unique db \<longleftrightarrow> distinct (map sm_id (traffic_samples db))"

definition ageable :: "traffic_db \<Rightarrow> bool" where
  "ageable db \<longleftrightarrow> db_wf db \<and> history_ok db \<and> raw_ids_unique db"

lemma rollup_candidates_sub: "set (rollup_candidates db before n) \<subseteq> set (traffic_samples db)"
  unfolding rollup_candidates_def by (rule order_trans[OF set_take_subset]) auto

lemma distinct_map_sort_filter:
  "distinct (map f xs) \<Longrightarrow> distinct (map f (take n (sort_key g (filter Q xs))))"
proof -
  assume "distinct (map f xs)"
  then have "distinct (map f (filter Q xs))" by (simp add: distinct_map inj_on_def)
  then have "distinct (map f (sort_key g (filter Q xs)))" by (simp add: distinct_map)
  then show ?thesis by (metis distinct_take take_map)
qed

definition aged_samples :: "rollup_progress \<Rightarrow> sample_row list \<Rightarrow> sample_row list" where
  "aged_samples p ss = filter (\<lambda>s. sm_id s \<notin> set (rp_consumed p)) (map (apply_remainders (rp_remainders p)) ss)"

definition no_progress :: "nat \<Rightarrow> rollup_progress" where
  "no_progress n = \<lparr>rp_buckets = [], rp_consumed = [], rp_remainders = [], rp_remaining_segments = n * 2\<rparr>"

lemma no_progress_simps [simp]:
  "rp_buckets (no_progress n) = []" "rp_consumed (no_progress n) = []" "rp_remainders (no_progress n) = []"
  "rp_remaining_segments (no_progress n) = n * 2" "touched (no_progress n) = {}"
  "row_after (no_progress n) s = Some s" "bucket_total f P [] = 0"
  by (simp_all add: no_progress_def touched_def row_after_def bucket_total_def)

text \<open>What a successful batch did: which samples it rolled, which rollups it stored, and what
  the sample table is now.\<close>

definition batch_of :: "traffic_db \<Rightarrow> i64 \<Rightarrow> nat \<Rightarrow> rollup_progress \<Rightarrow> traffic_db \<Rightarrow> bool" where
  "batch_of db before n p db' \<longleftrightarrow>
     batch_rolled before (no_progress n) (rollup_candidates db before n) p \<and>
     (\<exists>db1. rollups_moved db db1 (rp_buckets p) \<and>
        db' = db\<lparr>traffic_samples := aged_samples p (traffic_samples db),
          traffic_rollups := traffic_rollups db1, seq_rollups := seq_rollups db1\<rparr>) \<and>
     (\<forall>s \<in> set (traffic_samples db'). sample_ok s)"

lemma candidates_distinct: "raw_ids_unique db \<Longrightarrow> distinct (map sm_id (rollup_candidates db before n))"
  unfolding rollup_candidates_def raw_ids_unique_def by (rule distinct_map_sort_filter)

lemma rollup_batch_of:
  assumes a: "ageable db" and r: "rollup_exact_samples_batch db before width n = (Inr k, db')"
  obtains p where "batch_of db before n p db'" "0 < n"
proof -
  let ?xs = "rollup_candidates db before n"
  have w: "0 < width" and n: "0 < n" and tx: "rollup_tx db before width n = Inr (k, db')"
    using r by (auto simp: rollup_exact_samples_batch_def split: if_splits)
  obtain p db1 db2 where p: "fold_result (roll_sample before width) (no_progress n) ?xs = Inr p"
    and db1: "fold_result (store_rollup_entry width) db (rp_buckets p) = Inr db1"
    and db2: "fold_result update_remainder db1 (rp_remainders p) = Inr db2"
    and db': "fold_result delete_consumed db2 (rp_consumed p) = Inr db'"
    using tx by (auto simp: rollup_tx_def result_simps no_progress_def)
  have hist: "\<forall>s \<in> set (traffic_samples db). sample_ok s" and ids: "raw_ids_unique db"
    and rol: "rollups_ok db"
    using a by (auto simp: ageable_def history_ok_def rollups_ok_def db_wf_def)
  have batch: "batch_rolled before (no_progress n) ?xs p"
  proof (rule roll_batch[OF w _ candidates_distinct[OF ids] _ _ p])
    show "\<forall>s \<in> set ?xs. raw_ok s" using hist rollup_candidates_sub raw_ok_sample by blast
  qed (simp_all add: entries_ok_def)
  then have entries: "\<forall>e \<in> set (rp_buckets p). entry_ok e"
    and rems: "\<forall>r \<in> set (rp_remainders p). \<exists>s \<in> set ?xs. remainder_ok s r"
    by (simp_all add: batch_rolled_def entries_ok_def)
  have moved: "rollups_moved db db1 (rp_buckets p)" by (rule store_entries_InrD[OF rol entries db1])
  then have d1: "db1 = db\<lparr>traffic_rollups := traffic_rollups db1, seq_rollups := seq_rollups db1\<rparr>"
    by (simp add: rollups_moved_def)
  have same: "traffic_samples db1 = traffic_samples db" by (subst d1) simp
  have owner: "\<forall>u \<in> set (rp_remainders p). \<forall>s \<in> set (traffic_samples db1). rm_id u = sm_id s \<longrightarrow> remainder_ok s u"
  proof (intro ballI impI)
    fix u s
    assume u: "u \<in> set (rp_remainders p)" "s \<in> set (traffic_samples db1)" "rm_id u = sm_id s"
    then obtain x where x: "x \<in> set ?xs" "remainder_ok x u" using rems by blast
    then have "x \<in> set (traffic_samples db)" "sm_id x = sm_id s"
      using u(3) rollup_candidates_sub by (auto simp: remainder_ok_def)
    then have "x = s" using ids u(2) same by (simp add: raw_ids_unique_def distinct_map inj_on_def)
    then show "remainder_ok s u" using x by simp
  qed
  have "db2 = db1\<lparr>traffic_samples := map (apply_remainders (rp_remainders p)) (traffic_samples db)\<rparr> \<and>
      (\<forall>s \<in> set (traffic_samples db2). sample_ok s)"
    using update_remainders_InrD[OF _ owner db2] hist by (simp add: same)
  then have d2: "db2 = db1\<lparr>traffic_samples := map (apply_remainders (rp_remainders p)) (traffic_samples db)\<rparr>"
    and ok2: "\<forall>s \<in> set (traffic_samples db2). sample_ok s" by blast+
  have db'_eq: "db' = db2\<lparr>traffic_samples := aged_samples p (traffic_samples db)\<rparr>"
    unfolding delete_consumed_InrD[OF db'] d2 aged_samples_def by simp
  also have "\<dots> = db1\<lparr>traffic_samples := aged_samples p (traffic_samples db)\<rparr>" unfolding d2 by simp
  also have "\<dots> = db\<lparr>traffic_samples := aged_samples p (traffic_samples db),
        traffic_rollups := traffic_rollups db1, seq_rollups := seq_rollups db1\<rparr>" by (subst d1) simp
  finally have "db' = db\<lparr>traffic_samples := aged_samples p (traffic_samples db),
        traffic_rollups := traffic_rollups db1, seq_rollups := seq_rollups db1\<rparr>" .
  moreover have "\<forall>s \<in> set (traffic_samples db'). sample_ok s"
    using ok2 by (auto simp: db'_eq d2 aged_samples_def)
  ultimately have "batch_of db before n p db'" using batch moved by (auto simp: batch_of_def)
  then show thesis using that n by blast
qed

lemma aged_total:
  assumes "raw_ids_unique db" "batch_rolled before (no_progress n) (rollup_candidates db before n) p"
  shows "sample_total f P (aged_samples p (traffic_samples db)) = sample_total f P (traffic_samples db)
      + batch_total f P p (rollup_candidates db before n) - sample_total f P (rollup_candidates db before n)"
proof -
  let ?xs = "rollup_candidates db before n"
  have "(\<Sum>s\<leftarrow>traffic_samples db. sample_here P s (after_amount f p s))
      - (\<Sum>s\<leftarrow>traffic_samples db. sample_here P s (f s))
    = (\<Sum>s\<leftarrow>?xs. sample_here P s (after_amount f p s)) - (\<Sum>s\<leftarrow>?xs. sample_here P s (f s))"
  proof (rule sum_list_changed_rows[where f = sm_id])
    show "distinct (map sm_id (traffic_samples db))" using assms(1) by (simp add: raw_ids_unique_def)
    show "distinct (map sm_id ?xs)" by (rule candidates_distinct[OF assms(1)])
    show "set ?xs \<subseteq> set (traffic_samples db)" by (rule rollup_candidates_sub)
    fix y :: sample_row
    assume "sm_id y \<notin> sm_id ` set ?xs"
    then have "row_after p y = row_after (no_progress n) y" using assms(2) unfolding batch_rolled_def by blast
    then show "sample_here P y (after_amount f p y) = sample_here P y (f y)" by (simp add: after_amount_def)
  qed
  then show ?thesis unfolding aged_samples_def after_table by (simp add: sample_total_def batch_total_def)
qed

lemma aged_amounts:
  assumes "raw_ids_unique db" "batch_rolled before (no_progress n) (rollup_candidates db before n) p"
  shows "sample_total (sample_amount q) P (aged_samples p (traffic_samples db)) =
      sample_total (sample_amount q) P (traffic_samples db) - bucket_total (bucket_amount q) P (rp_buckets p)"
    and "sample_total (exact_sample_amount q) P (aged_samples p (traffic_samples db))
        + bucket_total (bucket_exact q) P (rp_buckets p)
      \<le> sample_total (exact_sample_amount q) P (traffic_samples db)"
proof -
  let ?xs = "rollup_candidates db before n"
  have "bucket_total (bucket_amount q) P (rp_buckets p) + batch_total (sample_amount q) P p ?xs
      = 0 + sample_total (sample_amount q) P ?xs"
    and "bucket_total (bucket_exact q) P (rp_buckets p) + batch_total (exact_sample_amount q) P p ?xs
      \<le> 0 + sample_total (exact_sample_amount q) P ?xs"
    using assms(2) by (simp_all add: batch_rolled_def)
  then show "sample_total (sample_amount q) P (aged_samples p (traffic_samples db)) =
      sample_total (sample_amount q) P (traffic_samples db) - bucket_total (bucket_amount q) P (rp_buckets p)"
    and "sample_total (exact_sample_amount q) P (aged_samples p (traffic_samples db))
        + bucket_total (bucket_exact q) P (rp_buckets p)
      \<le> sample_total (exact_sample_amount q) P (traffic_samples db)"
    unfolding aged_total[OF assms] by simp_all
qed

lemma batch_of_amounts:
  assumes "raw_ids_unique db" "batch_of db before n p db'"
  shows "history_amount q P db' = history_amount q P db"
    and "exact_amount q P db' \<le> exact_amount q P db"
    and "raw_amount q P db' = raw_amount q P db - bucket_total (bucket_amount q) P (rp_buckets p)"
proof -
  obtain db1 where d: "batch_rolled before (no_progress n) (rollup_candidates db before n) p"
    "rollups_moved db db1 (rp_buckets p)"
    "db' = db\<lparr>traffic_samples := aged_samples p (traffic_samples db),
          traffic_rollups := traffic_rollups db1, seq_rollups := seq_rollups db1\<rparr>"
    using assms(2) by (auto simp: batch_of_def)
  note a = aged_amounts[OF assms(1) d(1)]
  show "history_amount q P db' = history_amount q P db"
    using d(2) a(1)[of q P] by (simp add: history_amount_def raw_amount_def d(3) rollups_moved_def)
  show "exact_amount q P db' \<le> exact_amount q P db"
    using d(2) a(2)[of q P] by (simp add: exact_amount_def d(3) rollups_moved_def)
  show "raw_amount q P db' = raw_amount q P db - bucket_total (bucket_amount q) P (rp_buckets p)"
    using a(1)[of q P] by (simp add: raw_amount_def d(3))
qed


lemma aged_distinct:
  assumes "distinct (map f ss)" "\<And>rs x. f (apply_remainders rs x) = f x"
  shows "distinct (map f (aged_samples p ss))"
proof -
  have "distinct (map f (map (apply_remainders (rp_remainders p)) ss))"
    using assms by (simp add: comp_def)
  then show ?thesis unfolding aged_samples_def by (rule distinct_map_filter)
qed

lemma batch_of_ageable:
  assumes a: "ageable db" and b: "batch_of db before n p db'"
  shows "ageable db'"
proof -
  obtain db1 where d: "rollups_moved db db1 (rp_buckets p)"
    "db' = db\<lparr>traffic_samples := aged_samples p (traffic_samples db),
          traffic_rollups := traffic_rollups db1, seq_rollups := seq_rollups db1\<rparr>"
    and ok: "\<forall>s \<in> set (traffic_samples db'). sample_ok s"
    using b by (auto simp: batch_of_def)
  have w: "db_wf db" and ids: "raw_ids_unique db" using a by (auto simp: ageable_def)
  have d1: "db1 = db\<lparr>traffic_rollups := traffic_rollups db1, seq_rollups := seq_rollups db1\<rparr>" "rollups_ok db1"
    using d(1) by (simp_all add: rollups_moved_def)
  have "rollups_ok (db\<lparr>traffic_rollups := traffic_rollups db1, seq_rollups := seq_rollups db1\<rparr>)"
    using d1 by simp
  then have rol: "rollups_ok db'" by (simp add: d(2) rollups_ok_def wf_rollups_def router_exists_def interface_exists_def)
  have "sample_checks s \<and> router_exists db (sm_router_id s) \<and> interface_exists db (sm_interface_id s)"
    if s: "s \<in> set (traffic_samples db')" for s
  proof -
    obtain x where "x \<in> set (traffic_samples db)" "s = apply_remainders (rp_remainders p) x"
      using s by (auto simp: d(2) aged_samples_def)
    moreover have "sample_checks s" using s ok by (auto simp: sample_ok_def)
    ultimately show ?thesis using w by (simp add: db_wf_def wf_samples_def)
  qed
  moreover have "distinct (map sample_key (traffic_samples db'))"
    using aged_distinct[of sample_key] w by (simp add: d(2) db_wf_def wf_samples_def sample_key_def)
  ultimately have sam: "wf_samples db'"
    by (simp add: d(2) wf_samples_def router_exists_def interface_exists_def)
  have "wf_routers db' \<and> wf_interfaces db' \<and> wf_checkpoints db' \<and> wf_gaps db'"
    using w unfolding d(2) db_wf_def by simp
  then have "db_wf db'" using sam rol by (simp add: db_wf_def rollups_ok_def)
  moreover have "raw_ids_unique db'"
    using aged_distinct[of sm_id] ids by (simp add: raw_ids_unique_def d(2))
  moreover have "history_ok db'" using ok rol by (simp add: history_ok_def rollups_ok_def)
  ultimately show ?thesis by (simp add: ageable_def)
qed

section \<open>Retention\<close>

lemma delete_oldest_sub: "set (delete_oldest e i before n rows) \<subseteq> set rows"
  by (auto simp: delete_oldest_def Let_def)

lemma delete_oldest_keeps:
  assumes "x \<in> set rows" "before < e x" "distinct (map i rows)"
  shows "x \<in> set (delete_oldest e i before n rows)"
proof -
  have "i x \<noteq> i y" if "y \<in> set (take n (sort_key (\<lambda>x. (e x, i x)) (filter (\<lambda>x. e x \<le> before) rows)))" for y
  proof -
    have "y \<in> set rows" "e y \<le> before" using in_set_takeD[OF that] by auto
    then show ?thesis using assms by (auto simp: distinct_map inj_on_def)
  qed
  then show ?thesis using assms(1) by (auto simp: delete_oldest_def Let_def)
qed

lemma delete_oldest_distinct:
  "distinct (map f rows) \<Longrightarrow> distinct (map f (delete_oldest e i before n rows))"
  unfolding delete_oldest_def Let_def by (rule distinct_map_filter)

text \<open>A batch that is not full has deleted everything that is old.\<close>

lemma delete_oldest_complete:
  assumes "length (filter (\<lambda>x. e x \<le> before) rows) \<le> n" "x \<in> set (delete_oldest e i before n rows)"
  shows "before < e x"
proof (rule ccontr)
  assume "\<not> before < e x"
  let ?old = "sort_key (\<lambda>x. (e x, i x)) (filter (\<lambda>x. e x \<le> before) rows)"
  have "take n ?old = ?old" using assms(1) by simp
  moreover have "x \<in> set ?old" using assms(2) \<open>\<not> before < e x\<close> by (auto simp: delete_oldest_def Let_def)
  ultimately show False using assms(2) by (auto simp: delete_oldest_def Let_def)
qed

lemma length_filter_ids:
  assumes "distinct (map i rows)" "finite A"
  shows "length (filter (\<lambda>x. i x \<in> A) rows) \<le> card A"
proof -
  have "distinct (map i (filter (\<lambda>x. i x \<in> A) rows))" by (rule distinct_map_filter[OF assms(1)])
  from distinct_card[OF this] have "length (filter (\<lambda>x. i x \<in> A) rows) = card (i ` {x \<in> set rows. i x \<in> A})"
    by simp
  also have "\<dots> \<le> card A" by (rule card_mono[OF assms(2)]) auto
  finally show ?thesis .
qed

lemma delete_oldest_quota:
  assumes "distinct (map i rows)"
  shows "length rows \<le> length (delete_oldest e i before n rows) + n"
proof -
  define doomed where "doomed = map i (take n (sort_key (\<lambda>x. (e x, i x)) (filter (\<lambda>x. e x \<le> before) rows)))"
  have "length (filter (\<lambda>x. i x \<in> set doomed) rows) \<le> card (set doomed)"
    by (rule length_filter_ids[OF assms]) simp
  also have "\<dots> \<le> n" using card_length[of doomed] by (simp add: doomed_def)
  finally have "length (filter (\<lambda>x. i x \<in> set doomed) rows) \<le> n" .
  moreover have "length rows = length (filter (\<lambda>x. i x \<in> set doomed) rows)
      + length (filter (\<lambda>x. i x \<notin> set doomed) rows)"
    by (rule sum_length_filter_compl[symmetric])
  ultimately show ?thesis unfolding delete_oldest_def Let_def doomed_def by simp
qed


section \<open>Maintenance as atomic operations\<close>

definition row_ids_unique :: "traffic_db \<Rightarrow> bool" where
  "row_ids_unique db \<longleftrightarrow> distinct (map sm_id (traffic_samples db)) \<and>
     distinct (map ru_id (traffic_rollups db)) \<and> distinct (map gp_id (traffic_gaps db))"

lemma prune_InrD:
  assumes "prune_exact_history_batch db before n = (Inr k, db')"
  shows "0 < n"
    and "db' = db\<lparr>traffic_samples := delete_oldest sm_ended_at_ms sm_id before n (traffic_samples db),
       traffic_rollups := delete_oldest ru_bucket_end_ms ru_id before n (traffic_rollups db),
       traffic_gaps := delete_oldest gp_ended_at_ms gp_id before n (traffic_gaps db)\<rparr>"
    and "k = (length (traffic_samples db) - length (traffic_samples db'))
       + (length (traffic_rollups db) - length (traffic_rollups db'))
       + (length (traffic_gaps db) - length (traffic_gaps db'))"
  using assms by (auto simp: prune_exact_history_batch_def Let_def split: if_splits)

lemma gap_keys_unique_oldest:
  "gap_keys_unique gs \<Longrightarrow> gap_keys_unique (delete_oldest e i before n gs)"
  unfolding gap_keys_unique_def delete_oldest_def Let_def
  by (subst filter_filter, subst conj_commute, subst filter_filter[symmetric]) (rule distinct_map_filter)

lemma prune_wf:
  assumes "db_wf db" "prune_exact_history_batch db before n = (Inr k, db')"
  shows "db_wf db'"
proof -
  have "wf_samples db'"
    using assms(1) delete_oldest_sub[of sm_ended_at_ms sm_id before n "traffic_samples db"]
      delete_oldest_distinct[of sample_key "traffic_samples db"]
    by (auto simp: db_wf_def wf_samples_def prune_InrD(2)[OF assms(2)] router_exists_def interface_exists_def)
  moreover have "wf_rollups db'"
    using assms(1) delete_oldest_sub[of ru_bucket_end_ms ru_id before n "traffic_rollups db"]
      delete_oldest_distinct[of rollup_key "traffic_rollups db"]
    by (auto simp: db_wf_def wf_rollups_def prune_InrD(2)[OF assms(2)] router_exists_def interface_exists_def)
  moreover have "gap_fk db' = gap_fk db"
    by (simp add: fun_eq_iff gap_fk_def prune_InrD(2)[OF assms(2)])
  then have "wf_gaps db'"
    using assms(1) delete_oldest_sub[of gp_ended_at_ms gp_id before n "traffic_gaps db"]
      gap_keys_unique_oldest[of "traffic_gaps db"]
    by (auto simp: db_wf_def wf_gaps_def prune_InrD(2)[OF assms(2)])
  ultimately show ?thesis
    using assms(1) by (simp add: db_wf_def) (simp add: prune_InrD(2)[OF assms(2)])
qed

lemma prune_ageable:
  assumes "ageable db" "prune_exact_history_batch db before n = (Inr k, db')"
  shows "ageable db'"
proof -
  have "history_ok db'"
    using assms(1) delete_oldest_sub[of sm_ended_at_ms sm_id before n "traffic_samples db"]
      delete_oldest_sub[of ru_bucket_end_ms ru_id before n "traffic_rollups db"]
    by (auto simp: ageable_def history_ok_def prune_InrD(2)[OF assms(2)])
  moreover have "raw_ids_unique db'"
    using assms(1) delete_oldest_distinct[of sm_id "traffic_samples db"]
    by (simp add: ageable_def raw_ids_unique_def prune_InrD(2)[OF assms(2)])
  ultimately show ?thesis using prune_wf[OF _ assms(2)] assms(1) by (simp add: ageable_def)
qed

datatype maintenance_call = Rollup i64 i64 nat | Prune i64 nat

fun run_maintenance :: "maintenance_call \<Rightarrow> traffic_db \<Rightarrow> nat db_result \<times> traffic_db" where
  "run_maintenance (Rollup before width n) db = rollup_exact_samples_batch db before width n"
| "run_maintenance (Prune before n) db = prune_exact_history_batch db before n"

lemma rollup_ageable:
  "ageable db \<Longrightarrow> rollup_exact_samples_batch db before width n = (Inr k, db') \<Longrightarrow> ageable db'"
  by (metis rollup_batch_of batch_of_ageable)

interpretation maintenance: atomic_operation ageable run_maintenance
proof
  fix call db e db'
  assume "run_maintenance call db = (Inl e, db')"
  then show "db' = db"
    by (cases call) (simp_all add: rollup_exact_samples_batch_def prune_exact_history_batch_def)
next
  fix call db k db'
  assume "ageable db" "run_maintenance call db = (Inr k, db')"
  then show "ageable db'"
    by (cases call) (auto intro: rollup_ageable prune_ageable)
qed


section \<open>An example\<close>

text \<open>The example history, aged up to the middle of its second sample.\<close>

definition ageing_db :: traffic_db where
  "ageing_db = example_history\<lparr>traffic_samples :=
     map (\<lambda>s. s\<lparr>sm_upload_bytes := 8, sm_upload_bps := Finite 64\<rparr>) (traffic_samples example_history)\<rparr>"

definition ageing_sample :: "i64 \<Rightarrow> i64 \<Rightarrow> sample_row" where
  "ageing_sample i start = \<lparr>sm_id = i, sm_router_id = 1, sm_interface_id = 1, sm_started_at_ms = start,
     sm_ended_at_ms = start + 1000, sm_duration_ms = 1000, sm_download_bytes = 500, sm_upload_bytes = 8,
     sm_download_bps = Finite 4000, sm_upload_bps = Finite 64, sm_quality = ''exact'', sm_source = ''routeros-counter''\<rparr>"

definition ageing_result :: traffic_db where
  "ageing_result = ageing_db\<lparr>
     traffic_samples := [(ageing_sample 2 2000)\<lparr>sm_started_at_ms := 2500, sm_duration_ms := 500,
        sm_download_bytes := 250, sm_upload_bytes := 4, sm_quality := ''estimated''\<rparr>],
     traffic_rollups := [\<lparr>ru_id = 1, ru_router_id = 1, ru_interface_id = 1, ru_bucket_start_ms = 0,
        ru_bucket_end_ms = 2500, ru_bucket_size_ms = 60000, ru_exact_download_bytes = 500,
        ru_exact_upload_bytes = 8, ru_estimated_download_bytes = 250, ru_estimated_upload_bytes = 4,
        ru_exact_duration_ms = 1000, ru_estimated_duration_ms = 500, ru_sample_count = 2,
        ru_download_avg_bps = Finite 4000, ru_upload_avg_bps = Finite 64, ru_source = ''raw-rollup''\<rparr>],
     seq_rollups := 1\<rparr>"

lemma ageing_samples: "traffic_samples ageing_db = [ageing_sample 1 1000, ageing_sample 2 2000]"
  by (simp add: ageing_db_def ageing_sample_def example_history_def append_sample_def example_db_value
      empty_db_def example_sample_input_def new_sample_row_def)

lemma ageing_rest:
  "traffic_rollups ageing_db = []" "seq_rollups ageing_db = 0" "router_exists ageing_db 1" "interface_exists ageing_db 1"
  "traffic_gaps ageing_db = []" "counter_checkpoints ageing_db = []" "seq_routers ageing_db = 1" "seq_interfaces ageing_db = 1"
  "routers ageing_db = routers example_db" "router_interfaces ageing_db = router_interfaces example_db"
  by (simp_all add: ageing_db_def example_history_def append_sample_def example_db_value
      empty_db_def router_exists_def interface_exists_def)

lemma ageing_candidates: "rollup_candidates ageing_db 2500 10 = [ageing_sample 1 1000, ageing_sample 2 2000]"
  by (simp add: rollup_candidates_def ageing_samples) (simp add: ageing_sample_def less_eq_prod_def)

lemma ageing_progress:
  "fold_result (roll_sample 2500 60000)
     \<lparr>rp_buckets = [], rp_consumed = [], rp_remainders = [], rp_remaining_segments = 20\<rparr>
     [ageing_sample 1 1000, ageing_sample 2 2000] =
   Inr \<lparr>rp_buckets = [((1, 1, 0), (\<lparr>ba_exact_download_bytes = 500, ba_exact_upload_bytes = 8,
            ba_estimated_download_bytes = 250, ba_estimated_upload_bytes = 4,
            ba_exact_duration_ms = 1000, ba_estimated_duration_ms = 500, ba_sample_count = 2\<rparr>, 1000, 2500))],
        rp_consumed = [1],
        rp_remainders = [\<lparr>rm_id = 2, rm_started_at_ms = 2500, rm_ended_at_ms = 3000,
          rm_download_bytes = 250, rm_upload_bytes = 4\<rparr>], rp_remaining_segments = 18\<rparr>"
  by (simp add: roll_sample_def ageing_sample_def validate_raw_sample_for_rollup_def split_sample_def
      roll_segments.simps(2)[where n = 19, simplified] roll_segments.simps(2)[where n = 18, simplified]
      roll_segments.simps(2)[where n = 17, simplified]
      roll_segment_def rollup_entry_at_def add_to_rollup_bucket_def proportional_slice_def
      checked_i128_def in_i128_def I128_MAX_def I128_MIN_def sat_sub_def sat_add_def clamp_i64_def
      I64_MAX_def I64_MIN_def empty_accumulator_def Let_def)


lemma ageing_run: "rollup_exact_samples_batch ageing_db 2500 60000 10 = (Inr 1, ageing_result)"
proof -
  let ?e = "((1, 1, 0), (\<lparr>ba_exact_download_bytes = 500, ba_exact_upload_bytes = 8,
            ba_estimated_download_bytes = 250, ba_estimated_upload_bytes = 4,
            ba_exact_duration_ms = 1000, ba_estimated_duration_ms = 500, ba_sample_count = 2\<rparr>, 1000, 2500))"
  let ?us = "traffic_rollups ageing_result"
  let ?r = "\<lparr>rm_id = 2, rm_started_at_ms = 2500, rm_ended_at_ms = 3000, rm_download_bytes = 250, rm_upload_bytes = 4\<rparr>"
  let ?db1 = "ageing_db\<lparr>traffic_rollups := ?us, seq_rollups := 1\<rparr>"
  have store: "store_rollup_entry 60000 ageing_db ?e = Inr ?db1"
    by (simp add: store_rollup_entry_def new_rollup_row_def upsert_rollup_row_def ageing_rest rollup_checks_def
        sql_rate_def sql_sum_def sql_add_def in_i64_def I64_MAX_def I64_MIN_def sat_add_def clamp_i64_def
        f64_le_0_iff ageing_result_def)
  have update: "update_remainder ?db1 ?r = Inr (?db1\<lparr>traffic_samples := ageing_sample 1 1000 # traffic_samples ageing_result\<rparr>)"
    by (simp add: update_remainder_def ageing_samples)
      (simp add: ageing_sample_def shortened_sample_def sample_checks_def sql_rate_def in_i64_def I64_MAX_def
        I64_MIN_def sat_sub_def clamp_i64_def f64_le_0_iff ageing_result_def)
  have delete: "delete_consumed (?db1\<lparr>traffic_samples := ageing_sample 1 1000 # traffic_samples ageing_result\<rparr>) 1
      = Inr ageing_result"
    by (simp add: delete_consumed_def ageing_sample_def ageing_result_def)
  show ?thesis
    using ageing_progress store update delete
    by (simp add: rollup_exact_samples_batch_def rollup_tx_def ageing_candidates USIZE_MAX_def I64_MAX_def)
qed

lemma ageing_ok: "ageable ageing_db"
  by (simp add: ageable_def db_wf_def wf_defs history_ok_def raw_ids_unique_def ageing_samples ageing_rest)
    (simp add: ageing_rest ageing_sample_def sample_ok_def sample_checks_def sample_key_def example_db_value empty_db_def
      router_exists_def interface_exists_def gap_keys_unique_def f64_le_0_iff I64_MAX_def)

section \<open>Properties\<close>

text \<open>C6: Ageing loses no traffic: a successful rollup batch leaves the downloaded and uploaded
  bytes and the covered time of any set of interfaces (raw samples and rollups together)
  exactly as they were, and no byte or second that was estimated is counted as exact.\<close>

theorem rollup_conserves_history:
  assumes "ageable db" and "rollup_exact_samples_batch db before width n = (Inr k, db')"
  shows "history_amount q P db' = history_amount q P db \<and> exact_amount q P db' \<le> exact_amount q P db"
  using assms batch_of_amounts by (metis ageable_def rollup_batch_of)

theorem rollup_conserves_history_witness:
  "history_amount Download (\<lambda>r i. True) ageing_result = history_amount Download (\<lambda>r i. True) ageing_db \<and>
   exact_amount Upload (\<lambda>r i. r = 1) ageing_result \<le> exact_amount Upload (\<lambda>r i. r = 1) ageing_db"
  using rollup_conserves_history[OF ageing_ok ageing_run] by blast

text \<open>C8: Every batch makes progress: as long as a sample starts before the cut-off, a successful
  batch strictly shrinks the raw time that is left, and it never grows; repeated batches
  therefore finish.\<close>

theorem rollup_makes_progress:
  assumes "ageable db" and "rollup_exact_samples_batch db before width n = (Inr k, db')"
    and "s \<in> set (traffic_samples db)" and "sm_started_at_ms s < before"
  shows "raw_amount Duration (\<lambda>_ _. True) db' < raw_amount Duration (\<lambda>_ _. True) db"
proof (rule rollup_batch_of[OF assms(1,2)])
  fix p
  assume b: "batch_of db before n p db'" and n: "0 < n"
  let ?xs = "rollup_candidates db before n"
  have "filter (\<lambda>s. sm_started_at_ms s < before) (traffic_samples db) \<noteq> []"
    using assms(3,4) by (auto simp: filter_empty_conv)
  then have ne: "?xs \<noteq> []"
    using n unfolding rollup_candidates_def by (metis length_0_conv length_sort less_not_refl take_eq_Nil)
  then have "hd ?xs \<in> set ?xs" by simp
  then have "sm_started_at_ms (hd ?xs) < before"
    unfolding rollup_candidates_def by (auto dest!: in_set_takeD)
  then have "0 < bucket_total (bucket_amount Duration) (\<lambda>_ _. True) (rp_buckets p)"
    using b ne n by (simp add: batch_of_def batch_rolled_def)
  then show ?thesis using batch_of_amounts(3)[OF _ b] assms(1) by (simp add: ageable_def)
qed

theorem rollup_makes_progress_witness:
  "raw_amount Duration (\<lambda>_ _. True) ageing_result < raw_amount Duration (\<lambda>_ _. True) ageing_db"
  by (rule rollup_makes_progress[OF ageing_ok ageing_run, where s = "ageing_sample 1 1000"])
    (simp_all add: ageing_samples, simp add: ageing_sample_def)

text \<open>C7: Maintenance keeps the history valid: after any sequence of rollup and retention batches,
  with any cut-offs, sizes and limits and whatever their outcomes, the schema holds and every
  sample and every rollup is still a valid row whose covered time fits its interval, which is
  what the queries require.\<close>

theorem maintenance_keeps_history:
  assumes "ageable db"
  shows "ageable (fold (\<lambda>call db. snd (run_maintenance call db)) calls db)"
  using assms by (rule maintenance.calls.runs)

theorem maintenance_keeps_history_witness:
  "ageable (snd (run_maintenance (Prune 2000 5) (snd (run_maintenance (Rollup 2500 60000 10) ageing_db))))"
  using maintenance_keeps_history[OF ageing_ok, of "[Rollup 2500 60000 10, Prune 2000 5]"] by simp

text \<open>Retention deletes old rows only, and all of them in the end: a row that ends after the
  cut-off stays, at most one batch of each table goes, checkpoints and identities stay, and a
  table with no more old rows than a batch has none left.\<close>

theorem prune_removes_only_old:
  assumes "row_ids_unique db" and "prune_exact_history_batch db before n = (Inr k, db')"
  shows "(\<forall>s \<in> set (traffic_samples db). before < sm_ended_at_ms s \<longrightarrow> s \<in> set (traffic_samples db')) \<and>
    (\<forall>u \<in> set (traffic_rollups db). before < ru_bucket_end_ms u \<longrightarrow> u \<in> set (traffic_rollups db')) \<and>
    (\<forall>g \<in> set (traffic_gaps db). before < gp_ended_at_ms g \<longrightarrow> g \<in> set (traffic_gaps db')) \<and>
    k \<le> 3 * n \<and> counter_checkpoints db' = counter_checkpoints db \<and> routers db' = routers db \<and>
    router_interfaces db' = router_interfaces db \<and>
    (length (filter (\<lambda>s. sm_ended_at_ms s \<le> before) (traffic_samples db)) \<le> n \<longrightarrow>
       (\<forall>s \<in> set (traffic_samples db'). before < sm_ended_at_ms s))"
proof -
  note d = prune_InrD(2)[OF assms(2)] and k = prune_InrD(3)[OF assms(2)]
  have "k \<le> 3 * n"
    using k delete_oldest_quota[of sm_id "traffic_samples db" sm_ended_at_ms before n]
      delete_oldest_quota[of ru_id "traffic_rollups db" ru_bucket_end_ms before n]
      delete_oldest_quota[of gp_id "traffic_gaps db" gp_ended_at_ms before n] assms(1)
    unfolding row_ids_unique_def by (simp add: d)
  then show ?thesis
    using assms(1) by (auto simp: d row_ids_unique_def intro: delete_oldest_keeps dest: delete_oldest_complete[rotated])
qed

theorem prune_removes_only_old_witness:
  "ageing_sample 2 2000 \<in> set (traffic_samples (snd (prune_exact_history_batch ageing_db 2000 5)))"
proof -
  have "row_ids_unique ageing_db"
    by (simp add: row_ids_unique_def ageing_samples ageing_rest) (simp add: ageing_sample_def)
  moreover obtain k db' where r: "prune_exact_history_batch ageing_db 2000 5 = (Inr k, db')"
    by (simp add: prune_exact_history_batch_def transaction_def I64_MAX_def Let_def)
  ultimately have "ageing_sample 2 2000 \<in> set (traffic_samples ageing_db) \<Longrightarrow>
      2000 < sm_ended_at_ms (ageing_sample 2 2000) \<Longrightarrow> ageing_sample 2 2000 \<in> set (traffic_samples db')"
    using prune_removes_only_old by blast
  then show ?thesis by (simp add: r ageing_samples) (simp add: ageing_sample_def)
qed

end
