(* ===== verification/Ip_Text.thy ===== *)
theory Ip_Text
  imports Prelude
begin

text \<open>
  The textual addresses of the standard library (\<open>str::parse::<IpAddr>\<close>): four decimal octets
  without leading zeros, or up to eight groups of one to four hexadecimal digits with one
  optional \<open>::\<close> and an optional trailing IPv4 part.  A parser takes the rest of the input and
  returns its value and what it left, as \<open>core::net::parser\<close> does.
\<close>

datatype ip_addr = V4 "nat list" | V6 "nat list"

definition hex_digit :: "char \<Rightarrow> nat option" where
  "hex_digit c = (let n = (of_char c :: nat) in
     if 48 \<le> n \<and> n \<le> 57 then Some (n - 48)
     else if 97 \<le> n \<and> n \<le> 102 then Some (n - 87)
     else if 65 \<le> n \<and> n \<le> 70 then Some (n - 55) else None)"

definition digit_of :: "nat \<Rightarrow> char \<Rightarrow> nat option" where
  "digit_of radix c = (case hex_digit c of None \<Rightarrow> None | Some d \<Rightarrow> if d < radix then Some d else None)"

fun take_digits :: "nat \<Rightarrow> string \<Rightarrow> nat list \<times> string" where
  "take_digits radix [] = ([], [])"
| "take_digits radix (c # s) = (case digit_of radix c of
      None \<Rightarrow> ([], c # s)
    | Some d \<Rightarrow> (case take_digits radix s of (ds, r) \<Rightarrow> (d # ds, r)))"

definition digits_value :: "nat \<Rightarrow> nat list \<Rightarrow> nat" where
  "digits_value radix ds = foldl (\<lambda>a d. radix * a + d) 0 ds"

text \<open>A number of at most \<open>digits\<close> digits below \<open>bound\<close>; \<open>zero_prefix\<close> allows a leading zero.\<close>

definition read_number :: "nat \<Rightarrow> nat \<Rightarrow> bool \<Rightarrow> nat \<Rightarrow> string \<Rightarrow> (nat \<times> string) option" where
  "read_number radix digits zero_prefix bound s =
     (case take_digits radix s of (ds, r) \<Rightarrow>
        if ds = [] \<or> digits < length ds \<or> (\<not> zero_prefix \<and> hd ds = 0 \<and> 1 < length ds)
           \<or> bound \<le> digits_value radix ds
        then None else Some (digits_value radix ds, r))"

definition read_given_char :: "char \<Rightarrow> string \<Rightarrow> string option" where
  "read_given_char c s = (case s of [] \<Rightarrow> None | x # r \<Rightarrow> if x = c then Some r else None)"

text \<open>\<open>read_separator\<close>: the separator comes before every item but the first.\<close>

definition skip_separator :: "char \<Rightarrow> nat \<Rightarrow> string \<Rightarrow> string option" where
  "skip_separator c i s = (if i = 0 then Some s else read_given_char c s)"

fun read_octets :: "nat list \<Rightarrow> string \<Rightarrow> (nat list \<times> string) option" where
  "read_octets [] s = Some ([], s)"
| "read_octets (i # slots) s =
     (case skip_separator CHR ''.'' i s of None \<Rightarrow> None | Some s1 \<Rightarrow>
     (case read_number 10 3 False 256 s1 of None \<Rightarrow> None | Some (d, s2) \<Rightarrow>
     (case read_octets slots s2 of None \<Rightarrow> None | Some (ds, s3) \<Rightarrow> Some (d # ds, s3))))"

definition read_ipv4 :: "string \<Rightarrow> (nat list \<times> string) option" where
  "read_ipv4 s = read_octets [0, 1, 2, 3] s"

text \<open>\<open>read_groups\<close> fills slots, an embedded IPv4 address two of them and then it ends; the flag
  tells whether it did.\<close>

fun read_groups :: "nat list \<Rightarrow> string \<Rightarrow> nat list \<times> bool \<times> string" where
  "read_groups [] s = ([], False, s)"
| "read_groups (i # slots) s =
     (case skip_separator CHR '':'' i s of None \<Rightarrow> ([], False, s) | Some s1 \<Rightarrow>
     (case (if slots \<noteq> [] then read_ipv4 s1 else None) of
        Some (a, r) \<Rightarrow> ([a ! 0 * 256 + a ! 1, a ! 2 * 256 + a ! 3], True, r)
      | None \<Rightarrow>
          (case read_number 16 4 True 65536 s1 of
             None \<Rightarrow> ([], False, s)
           | Some (g, r) \<Rightarrow> (case read_groups slots r of (gs, v4, r') \<Rightarrow> (g # gs, v4, r')))))"

definition read_ipv6 :: "string \<Rightarrow> (nat list \<times> string) option" where
  "read_ipv6 s = (case read_groups [0..<8] s of (front, v4, r) \<Rightarrow>
     if length front = 8 then Some (front, r)
     else if v4 then None
     else (case read_given_char CHR '':'' r of None \<Rightarrow> None | Some r1 \<Rightarrow>
          (case read_given_char CHR '':'' r1 of None \<Rightarrow> None | Some r2 \<Rightarrow>
          (case read_groups [0..<7 - length front] r2 of (back, _, r3) \<Rightarrow>
             Some (front @ replicate (8 - length front - length back) 0 @ back, r3)))))"

definition parse_ip :: "string \<Rightarrow> ip_addr option" where
  "parse_ip s = (case read_ipv4 s of
      Some (a, r) \<Rightarrow> if r = [] then Some (V4 a) else None
    | None \<Rightarrow> (case read_ipv6 s of
         Some (g, r) \<Rightarrow> if r = [] then Some (V6 g) else None
       | None \<Rightarrow> None))"

definition is_ip :: "string \<Rightarrow> bool" where
  "is_ip s \<longleftrightarrow> parse_ip s \<noteq> None"

lemma parse_ip_examples:
  "parse_ip ''192.168.88.1'' = Some (V4 [192, 168, 88, 1])" "parse_ip ''1.2.3'' = None"
  "parse_ip ''01.2.3.4'' = None" "parse_ip ''256.1.1.1'' = None" "parse_ip ''pppoe-out1'' = None"
  "parse_ip ''::1'' = Some (V6 [0, 0, 0, 0, 0, 0, 0, 1])"
  "parse_ip ''2606:4700:4700::1111'' = Some (V6 [9734, 18176, 18176, 0, 0, 0, 0, 4369])"
  "parse_ip ''::ffff:10.0.0.1'' = Some (V6 [0, 0, 0, 0, 0, 65535, 2560, 1])"
  by (simp_all add: parse_ip_def read_ipv4_def read_ipv6_def skip_separator_def read_given_char_def
      read_number_def digit_of_def hex_digit_def digits_value_def upt_conv_Cons Let_def)
    (simp_all add: numeral_eq_Suc)

end
