(* ===== verification/Wan_Resolution.thy ===== *)
theory Wan_Resolution
  imports Counter_Rate Ip_Text
begin

text \<open>
  The WANs of a router (\<open>resolve_all_wans\<close> of \<open>poller/transform.rs\<close>): every enabled default
  route, IPv4 first, becomes one WAN per interface; the IPv6 routes extend or add WANs; the
  reachable active online WAN with the least (distance, name) is the primary one.
\<close>

definition DASH :: string where "DASH = [CHR 0xE2, CHR 0x80, CHR 0x94]"

definition U32_MAX :: nat where "U32_MAX = 4294967295"

record wan_info =
  wn_interface_name :: string
  wn_ip_address :: string
  wn_gateway :: string
  wn_online :: bool
  wn_is_primary :: bool
  wn_route_active :: bool
  wn_route_reachable :: bool
  wn_distance :: nat
  wn_iface :: "interface_entry option"
  wn_ipv6_address :: "string option"
  wn_ipv6_gateway :: "string option"

definition empty_wan :: wan_info where
  "empty_wan = \<lparr>wn_interface_name = DASH, wn_ip_address = DASH, wn_gateway = DASH, wn_online = False,
     wn_is_primary = False, wn_route_active = False, wn_route_reachable = False,
     wn_distance = U32_MAX, wn_iface = None, wn_ipv6_address = None, wn_ipv6_gateway = None\<rparr>"

section \<open>Routes\<close>

definition is_ascii_alphabetic :: "char \<Rightarrow> bool" where
  "is_ascii_alphabetic c = (let n = (of_char c :: nat) in (65 \<le> n \<and> n \<le> 90) \<or> (97 \<le> n \<and> n \<le> 122))"

text \<open>\<open>split(|c| \<dots>)\<close>: the maximal runs between separators, empty ones included.\<close>

fun split_when :: "(char \<Rightarrow> bool) \<Rightarrow> string \<Rightarrow> string list" where
  "split_when p [] = [[]]"
| "split_when p (x # xs) =
     (if p x then [] # split_when p xs
      else (case split_when p xs of [] \<Rightarrow> [[x]] | f # fs \<Rightarrow> (x # f) # fs))"

definition eq_ignore_ascii_case :: "string \<Rightarrow> string \<Rightarrow> bool" where
  "eq_ignore_ascii_case a b \<longleftrightarrow> map to_ascii_lower a = map to_ascii_lower b"

definition route_is_reachable :: "route_entry \<Rightarrow> bool" where
  "route_is_reachable r \<longleftrightarrow>
     list_ex (\<lambda>word. eq_ignore_ascii_case word ''reachable'')
       (split_when (\<lambda>c. \<not> is_ascii_alphabetic c) (rt_gateway_status r))"

definition route_state_rank :: "bool \<Rightarrow> bool \<Rightarrow> nat" where
  "route_state_rank active reachable =
     (if active \<and> reachable then 0 else if reachable then 1 else 2)"

definition route_sort_key :: "route_entry \<Rightarrow> nat \<times> nat \<times> string" where
  "route_sort_key r = (route_state_rank (rt_active r) (route_is_reachable r), rt_distance r, rt_id r)"

text \<open>\<open>resolve_ipv6_route_iface\<close>, and the same expression of the IPv4 loop: a point-to-point
  route names its interface in the gateway field.\<close>

definition resolve_route_iface :: "route_entry \<Rightarrow> string" where
  "resolve_route_iface r =
     (if rt_interface r = [] \<and> \<not> is_ip (rt_gateway r) then rt_gateway r else rt_interface r)"

definition is_default_route :: "string \<Rightarrow> route_entry \<Rightarrow> bool" where
  "is_default_route dst r \<longleftrightarrow> rt_dst_address r = dst \<and> \<not> rt_disabled r \<and> rt_gateway r \<noteq> []"

definition wan_key :: "string \<Rightarrow> string \<Rightarrow> string" where
  "wan_key iface gateway =
     (if iface = [] then ''gateway:'' @ gateway else ''interface:'' @ iface)"

section \<open>IPv6 lookups\<close>

definition extract_ip_from_cidr :: "string \<Rightarrow> string" where
  "extract_ip_from_cidr cidr = hd (split_char CHR ''/'' cidr)"

definition keep_ipv6 :: "string \<Rightarrow> bool" where
  "keep_ipv6 ip \<longleftrightarrow> \<not> starts_with (to_lowercase ip) ''fe80:'' \<and>
     (starts_with ip ''2'' \<or> starts_with ip ''3'')"

definition build_ipv6_addr_map :: "ipv6_addr_entry list \<Rightarrow> (string \<rightharpoonup> string)" where
  "build_ipv6_addr_map entries =
     fold (\<lambda>a m.
        let ifname = (if ip6_actual_interface a = [] then ip6_interface a else ip6_actual_interface a);
            ip = extract_ip_from_cidr (ip6_address_cidr a) in
        if \<not> keep_ipv6 ip then m
        else (case m ifname of None \<Rightarrow> m(ifname \<mapsto> ip) | Some _ \<Rightarrow> m))
       (filter (\<lambda>a. \<not> ip6_disabled a) entries) Map.empty"

definition build_ipv6_default_iface_set :: "route_entry list \<Rightarrow> string set" where
  "build_ipv6_default_iface_set routes =
     set (map resolve_route_iface (filter (is_default_route ''::/0'') routes))"

definition resolve_ipv6_gateway :: "string \<Rightarrow> route_entry list \<Rightarrow> string option" where
  "resolve_ipv6_gateway iface routes =
     map_option rt_gateway (min_on rt_distance
       (filter (\<lambda>r. resolve_route_iface r = iface)
         (filter (\<lambda>r. rt_dst_address r = ''::/0'' \<and> rt_active r \<and> route_is_reachable r \<and>
            \<not> rt_disabled r \<and> rt_gateway r \<noteq> []) routes)))"

section \<open>Resolution\<close>

definition ip_entry_matches :: "string \<Rightarrow> ip_addr_entry \<Rightarrow> bool" where
  "ip_entry_matches iface ip \<longleftrightarrow>
     (if ip_actual_interface ip = [] then ip_interface ip else ip_actual_interface ip) = iface"

definition iface_running :: "interface_entry option \<Rightarrow> bool" where
  "iface_running i = (case i of None \<Rightarrow> False | Some i \<Rightarrow> if_running i)"

type_synonym wan_state = "string set \<times> wan_info list"

definition add_ipv4_wan ::
  "ip_addr_entry list \<Rightarrow> interface_entry list \<Rightarrow> (string \<rightharpoonup> string) \<Rightarrow> string set \<Rightarrow> route_entry list \<Rightarrow>
   wan_state \<Rightarrow> route_entry \<Rightarrow> wan_state" where
  "add_ipv4_wan ips interfaces ipv6_map ipv6_ifaces ipv6_routes st route = (case st of (seen, wans) \<Rightarrow>
     let name = resolve_route_iface route; key = wan_key name (rt_gateway route) in
     if key \<in> seen then (seen, wans)
     else
       let ip_entry = find (ip_entry_matches name) (filter (\<lambda>ip. \<not> ip_disabled ip) ips);
           iface = find (\<lambda>i. if_name i = name) interfaces;
           ipv6_address = ipv6_map name in
       (insert key seen, wans @ [\<lparr>
          wn_interface_name = name,
          wn_ip_address = (case ip_entry of None \<Rightarrow> DASH | Some e \<Rightarrow> extract_ip_from_cidr (ip_address_cidr e)),
          wn_gateway = rt_gateway route,
          wn_online = (route_is_reachable route \<and> iface_running iface),
          wn_is_primary = False,
          wn_route_active = rt_active route,
          wn_route_reachable = route_is_reachable route,
          wn_distance = rt_distance route,
          wn_iface = iface,
          wn_ipv6_address = ipv6_address,
          wn_ipv6_gateway = (case ipv6_address of None \<Rightarrow> None | Some _ \<Rightarrow>
             if name \<in> ipv6_ifaces then resolve_ipv6_gateway name ipv6_routes else None)\<rparr>]))"

text \<open>An IPv6 route of a WAN that exists: it lends its state when it ranks before it, and its
  reachability in any case.\<close>

definition merge_ipv6_route :: "route_entry \<Rightarrow> wan_info \<Rightarrow> wan_info" where
  "merge_ipv6_route r wan =
     (let existing_rank = (route_state_rank (wn_route_active wan) (wn_route_reachable wan), wn_distance wan, []);
          wan' = (if route_sort_key r < existing_rank
             then wan\<lparr>wn_route_active := rt_active r, wn_route_reachable := route_is_reachable r,
                      wn_distance := rt_distance r\<rparr>
             else wan) in
      wan'\<lparr>wn_online := wn_online wan' \<or> (route_is_reachable r \<and> iface_running (wn_iface wan'))\<rparr>)"

fun update_first :: "('a \<Rightarrow> bool) \<Rightarrow> ('a \<Rightarrow> 'a) \<Rightarrow> 'a list \<Rightarrow> 'a list" where
  "update_first p f [] = []"
| "update_first p f (x # xs) = (if p x then f x # xs else x # update_first p f xs)"

definition add_ipv6_wan ::
  "interface_entry list \<Rightarrow> (string \<rightharpoonup> string) \<Rightarrow> wan_state \<Rightarrow> route_entry \<Rightarrow> wan_state" where
  "add_ipv6_wan interfaces ipv6_map st route = (case st of (seen, wans) \<Rightarrow>
     let name = resolve_route_iface route; key = wan_key name (rt_gateway route) in
     if list_ex (\<lambda>w. wn_interface_name w = name) wans
     then (seen, update_first (\<lambda>w. wn_interface_name w = name) (merge_ipv6_route route) wans)
     else if key \<in> seen then (seen, wans)
     else
       let iface = find (\<lambda>i. if_name i = name) interfaces; ipv6_address = ipv6_map name in
       (insert key seen, wans @ [\<lparr>
          wn_interface_name = name,
          wn_ip_address = DASH,
          wn_gateway = DASH,
          wn_online = (route_is_reachable route \<and> iface_running iface),
          wn_is_primary = False,
          wn_route_active = rt_active route,
          wn_route_reachable = route_is_reachable route,
          wn_distance = rt_distance route,
          wn_iface = iface,
          wn_ipv6_address = ipv6_address,
          wn_ipv6_gateway = map_option (\<lambda>_. rt_gateway route) ipv6_address\<rparr>]))"

definition primary_candidate :: "wan_info \<Rightarrow> bool" where
  "primary_candidate w \<longleftrightarrow> wn_route_active w \<and> wn_route_reachable w \<and> wn_online w"

definition primary_key :: "wan_info \<Rightarrow> nat \<times> string" where
  "primary_key w = (wn_distance w, wn_interface_name w)"

definition mark_primary :: "wan_info list \<Rightarrow> wan_info list" where
  "mark_primary wans =
     (case min_on (\<lambda>i. primary_key (wans ! i)) (filter (\<lambda>i. primary_candidate (wans ! i)) [0..<length wans]) of
        None \<Rightarrow> wans
      | Some i \<Rightarrow> wans[i := (wans ! i)\<lparr>wn_is_primary := True\<rparr>])"

definition wan_sort_key :: "wan_info \<Rightarrow> nat \<times> nat \<times> string" where
  "wan_sort_key w = ((if wn_is_primary w then 0 else if wn_online w then 1 else 2),
     wn_distance w, wn_interface_name w)"

definition resolve_all_wans ::
  "ip_addr_entry list \<Rightarrow> interface_entry list \<Rightarrow> route_entry list \<Rightarrow> ipv6_addr_entry list \<Rightarrow>
   route_entry list \<Rightarrow> wan_info list" where
  "resolve_all_wans ips interfaces routes ipv6_ips ipv6_routes =
     (let ipv6_map = build_ipv6_addr_map ipv6_ips;
          ipv6_ifaces = build_ipv6_default_iface_set ipv6_routes;
          default_routes = sort_key route_sort_key (filter (is_default_route ''0.0.0.0/0'') routes);
          st = foldl (add_ipv4_wan ips interfaces ipv6_map ipv6_ifaces ipv6_routes) ({}, []) default_routes;
          v6_only_routes = sort_key route_sort_key (filter (is_default_route ''::/0'') ipv6_routes);
          wans = snd (foldl (add_ipv6_wan interfaces ipv6_map) st v6_only_routes) in
      sort_key wan_sort_key (mark_primary wans))"

definition resolve_router_wans :: "router_data \<Rightarrow> wan_info list" where
  "resolve_router_wans d = resolve_all_wans (rd_ip_addresses d) (rd_interfaces d) (rd_routes d)
     (rd_ipv6_addresses d) (rd_ipv6_routes d)"

definition wan_interface_names :: "router_data \<Rightarrow> string list" where
  "wan_interface_names d =
     remdups_adj (sort (map if_name (List.map_filter wn_iface (resolve_router_wans d))))"

end
