(* ===== verification/Dashboard.thy ===== *)
theory Dashboard
  imports Wan_Resolution
begin

text \<open>
  The dashboard snapshot (\<open>to_dashboard_snapshot\<close> and the extraction helpers of
  \<open>poller/transform.rs\<close>).  The current time is an argument, in its textual form.
\<close>

definition LIVE_NEIGHBOR_STATES :: "string list" where
  "LIVE_NEIGHBOR_STATES = [''permanent'', ''reachable'', ''stale'', ''delay'', ''probe'']"

section \<open>Uptime strings\<close>

definition unit_seconds :: "char \<Rightarrow> u64" where
  "unit_seconds c = (if c = CHR ''w'' then 604800 else if c = CHR ''d'' then 86400
     else if c = CHR ''h'' then 3600 else if c = CHR ''m'' then 60
     else if c = CHR ''s'' then 1 else 0)"

text \<open>\<open>current.parse::<u64>().unwrap_or(0)\<close>: empty and too large strings give zero.\<close>

definition parse_u64 :: "string \<Rightarrow> u64 option" where
  "parse_u64 s = (case parse_nat s of None \<Rightarrow> None
     | Some n \<Rightarrow> if n < 2 ^ 64 then Some (of_nat n) else None)"

text \<open>The additions and products wrap, as those of a release build do.\<close>

fun uptime_seconds_from :: "string \<Rightarrow> u64 \<Rightarrow> string \<Rightarrow> u64" where
  "uptime_seconds_from current secs [] = secs"
| "uptime_seconds_from current secs (c # s) =
     (if is_ascii_digit c then uptime_seconds_from (current @ [c]) secs s
      else if is_ascii_alphabetic c
      then uptime_seconds_from [] (secs + unwrap_or 0 (parse_u64 current) * unit_seconds c) s
      else uptime_seconds_from current secs s)"

definition parse_routeros_uptime_to_seconds :: "string \<Rightarrow> u64" where
  "parse_routeros_uptime_to_seconds raw = uptime_seconds_from [] 0 (to_lowercase raw)"

definition DAYS :: string where "DAYS = [CHR 0xE5, CHR 0xA4, CHR 0xA9]"
definition HOURS :: string where
  "HOURS = [CHR 0xE5, CHR 0xB0, CHR 0x8F, CHR 0xE6, CHR 0x97, CHR 0xB6]"
definition MINUTES :: string where
  "MINUTES = [CHR 0xE5, CHR 0x88, CHR 0x86, CHR 0xE9, CHR 0x92, CHR 0x9F]"

definition parse_routeros_uptime :: "string \<Rightarrow> string" where
  "parse_routeros_uptime raw =
     (let secs = unat (parse_routeros_uptime_to_seconds raw);
          days = secs div 86400; hours = secs mod 86400 div 3600; mins = secs mod 3600 div 60 in
      if 0 < days then show_nat days @ DAYS @ show_nat hours @ HOURS
      else if 0 < hours then show_nat hours @ HOURS @ show_nat mins @ MINUTES
      else show_nat mins @ MINUTES)"

section \<open>System, gateway and interface summary\<close>

definition extract_system_info :: "system_data \<Rightarrow> system_info" where
  "extract_system_info sys = \<lparr>si_model = sd_board_name sys, si_version = sd_version sys,
     si_uptime = parse_routeros_uptime (sd_uptime sys),
     si_uptime_seconds = unwrap_or 0 (sd_uptime_seconds sys),
     si_cpu_load = sd_cpu_load sys, si_free_memory = sd_free_memory sys,
     si_total_memory = sd_total_memory sys, si_total_hdd = sd_total_hdd sys,
     si_free_hdd = sd_free_hdd sys, si_architecture = sd_architecture_name sys,
     si_board_name = sd_board_name sys\<rparr>"

definition compute_wan_rate :: "wan_info \<Rightarrow> rate_context \<Rightarrow> (f64 \<times> f64) option" where
  "compute_wan_rate wan context =
     (case wn_iface wan of None \<Rightarrow> None | Some i \<Rightarrow> Some (calculate_interface_rates i context))"

definition wan_rate_or_zero :: "wan_info \<Rightarrow> rate_context \<Rightarrow> f64 \<times> f64" where
  "wan_rate_or_zero wan context = unwrap_or (Finite 0, Finite 0) (compute_wan_rate wan context)"

definition build_wan_entry :: "rate_context \<Rightarrow> wan_info \<Rightarrow> wan_entry" where
  "build_wan_entry context wan = (case wan_rate_or_zero wan context of (dl, ul) \<Rightarrow>
     \<lparr>we_wan_name = wn_interface_name wan, we_wan_ip = wn_ip_address wan,
      we_gateway_ip = wn_gateway wan, we_online = wn_online wan, we_download_bps = dl,
      we_upload_bps = ul, we_is_primary = wn_is_primary wan,
      we_wan_ipv6 = wn_ipv6_address wan, we_gateway_ipv6 = wn_ipv6_gateway wan\<rparr>)"

definition build_wan_entries :: "wan_info list \<Rightarrow> rate_context \<Rightarrow> wan_entry list" where
  "build_wan_entries wans context = map (build_wan_entry context) wans"

definition extract_gateway ::
  "wan_info \<Rightarrow> wan_info list \<Rightarrow> dhcp_lease_entry list \<Rightarrow> rate_context \<Rightarrow> gateway_info" where
  "extract_gateway primary wans leases context =
     \<lparr>gi_wan_interface = wn_interface_name primary, gi_wan_ip = wn_ip_address primary,
      gi_gateway_ip = wn_gateway primary, gi_wan_online = list_ex wn_is_primary wans,
      gi_ip_allocations = as_u32 (length (filter (\<lambda>l. dl_status l = ''bound'') leases)),
      gi_wans = build_wan_entries wans context, gi_wan_ipv6 = wn_ipv6_address primary,
      gi_gateway_ipv6 = wn_ipv6_gateway primary\<rparr>"

definition live_neighbor :: "neighbor_entry \<Rightarrow> bool" where
  "live_neighbor n \<longleftrightarrow> nb_status n \<in> set LIVE_NEIGHBOR_STATES \<and> \<not> nb_disabled n \<and> nb_mac_address n \<noteq> []"

text \<open>The size of the set of lower-case MAC addresses.\<close>

definition extract_interface_summary ::
  "interface_entry list \<Rightarrow> neighbor_entry list \<Rightarrow> neighbor_entry list \<Rightarrow> interface_summary" where
  "extract_interface_summary interfaces arp ipv6_neighbors =
     \<lparr>is_ethernet_count = as_u32 (length (filter (\<lambda>i. if_type i = ''ether'' \<or>
          starts_with (if_default_name i) ''ether'') interfaces)),
      is_wifi_count = as_u32 (length (filter (\<lambda>i. if_type i = ''wlan'' \<or> if_type i = ''wifi'' \<or>
          starts_with (if_default_name i) ''wlan'' \<or> starts_with (if_default_name i) ''wifi'') interfaces)),
      is_connected_devices = as_u32 (length (remdups (map (to_lowercase \<circ> nb_mac_address)
          (filter live_neighbor arp @ filter live_neighbor ipv6_neighbors)))),
      is_wifi_online = list_ex (\<lambda>i. (if_type i = ''wlan'' \<or> if_type i = ''wifi'') \<and> if_running i) interfaces\<rparr>"

section \<open>Interface statuses\<close>

definition type_rank :: "string \<Rightarrow> nat" where
  "type_rank t =
     (if t = ''pppoe-out'' \<or> t = ''pppoe-in'' \<or> t = ''l2tp-out'' \<or> t = ''sstp-out'' then 0
      else if t = ''ether'' then 1 else if t = ''wlan'' \<or> t = ''wifi'' then 2
      else if t = ''bridge'' then 3 else 4)"

definition interface_status_of ::
  "rate_context \<Rightarrow> wan_info list \<Rightarrow> interface_entry \<Rightarrow> interface_status" where
  "interface_status_of context wans i = (case calculate_interface_rates i context of (rx, tx) \<Rightarrow>
     let is_wan = if_name i \<in> set (map wn_interface_name wans) in
     \<lparr>ist_name = if_name i, ist_type = if_type i, ist_running = if_running i, ist_rx_bps = rx,
      ist_tx_bps = tx, ist_is_wan = (if is_wan then Some True else None),
      ist_wan_name = (if is_wan then Some (if_name i) else None)\<rparr>)"

definition status_sort_key :: "interface_status \<Rightarrow> nat \<times> string" where
  "status_sort_key s = (type_rank (ist_type s), ist_name s)"

definition extract_interface_statuses ::
  "interface_entry list \<Rightarrow> rate_context \<Rightarrow> wan_info list \<Rightarrow> interface_status list" where
  "extract_interface_statuses interfaces context wans =
     sort_key status_sort_key (map (interface_status_of context wans)
       (filter (\<lambda>i. if_default_name i \<noteq> ''lo'' \<and> if_name i \<noteq> ''lo'') interfaces))"

section \<open>ISP and traffic\<close>

definition isp_name_of :: "identity_data \<Rightarrow> string" where
  "isp_name_of identity = (if id_name identity = [] then ''Unknown ISP'' else id_name identity)"

definition build_wan_isp_entries :: "wan_info list \<Rightarrow> identity_data \<Rightarrow> wan_isp_info list" where
  "build_wan_isp_entries wans identity = map (\<lambda>wan.
     \<lparr>wi_wan_name = wn_interface_name wan, wi_name = isp_name_of identity, wi_online = wn_online wan,
      wi_download_bps = Finite 0, wi_upload_bps = Finite 0\<rparr>) wans"

definition extract_isp ::
  "identity_data \<Rightarrow> wan_info \<Rightarrow> wan_info list \<Rightarrow> rate_context \<Rightarrow> f64 \<Rightarrow> nat \<times> nat option \<Rightarrow> isp_info" where
  "extract_isp identity primary wans context monthly_usage_gb counts =
     (case wan_rate_or_zero primary context of (dl, ul) \<Rightarrow>
      \<lparr>ii_name = isp_name_of identity, ii_online = list_ex wn_is_primary wans,
       ii_monthly_usage_gb = monthly_usage_gb, ii_download_bps = dl, ii_upload_bps = ul,
       ii_connection_count = fst counts, ii_connection_count_ipv6 = snd counts,
       ii_wans = build_wan_isp_entries wans identity\<rparr>)"

definition has_traffic :: "f64 \<times> f64 \<Rightarrow> bool" where
  "has_traffic rate \<longleftrightarrow> f64_less (Finite 0) (fst rate) \<or> f64_less (Finite 0) (snd rate)"

definition build_wan_traffic_points :: "wan_info list \<Rightarrow> rate_context \<Rightarrow> string \<Rightarrow> traffic_point list" where
  "build_wan_traffic_points wans context now = List.map_filter (\<lambda>wan.
     let rate = wan_rate_or_zero wan context in
     if has_traffic rate
     then Some \<lparr>tp_timestamp = now, tp_download_bps = fst rate, tp_upload_bps = snd rate,
                tp_wan_name = Some (wn_interface_name wan)\<rparr>
     else None) wans"

definition total_wan_rate :: "wan_info list \<Rightarrow> rate_context \<Rightarrow> f64 \<times> f64" where
  "total_wan_rate wans context = foldl (\<lambda>(dl, ul) wan.
     case compute_wan_rate wan context of
       Some (wdl, wul) \<Rightarrow> (f64_add dl wdl, f64_add ul wul) | None \<Rightarrow> (dl, ul)) (Finite 0, Finite 0) wans"

definition extract_traffic :: "wan_info list \<Rightarrow> rate_context \<Rightarrow> string \<Rightarrow> traffic_snapshot" where
  "extract_traffic wans context now =
     (let rate = total_wan_rate wans context in
      \<lparr>tsn_points = (if has_traffic rate
         then [\<lparr>tp_timestamp = now, tp_download_bps = fst rate, tp_upload_bps = snd rate,
                tp_wan_name = None\<rparr>] else [])\<rparr>)"

section \<open>Devices\<close>

text \<open>\<open>mac.get(..8)\<close> fails on a shorter string and inside a multi-byte character.\<close>

definition str_get_to :: "string \<Rightarrow> nat \<Rightarrow> string option" where
  "str_get_to s n =
     (if n < length s then (let b = (of_char (s ! n) :: nat) in
          if 128 \<le> b \<and> b < 192 then None else Some (take n s))
      else if n = length s then Some s else None)"

definition infer_device_type :: "string \<Rightarrow> string \<Rightarrow> string" where
  "infer_device_type hostname mac =
     (let h = to_lowercase hostname; has = (\<lambda>words. list_ex (contains_str h) words);
          prefix = to_lowercase (unwrap_or mac (str_get_to mac 8)) in
      if has [''iphone'', ''android'', ''phone'', ''mobile''] then ''phone''
      else if has [''ipad'', ''tablet''] then ''tablet''
      else if has [''macbook'', ''laptop'', ''notebook'', ''thinkpad''] then ''laptop''
      else if has [''raspberry'', ''rpi'', ''pi-hole''] then ''iot''
      else if has [''router'', ''mikrotik'', ''rb''] then ''router''
      else if has [''switch''] then ''switch''
      else if has [''tv'', ''apple tv'', ''roku'', ''chromecast''] then ''media''
      else if has [''camera'', ''cam'', ''nest''] then ''camera''
      else if has [''printer''] then ''printer''
      else if starts_with prefix ''dc:a6:32'' \<or> starts_with prefix ''e4:5f:01'' then ''iot''
      else if starts_with prefix ''f0:18:98'' \<or> starts_with prefix ''a4:d1:d2'' then ''apple''
      else ''desktop'')"

definition lease_for :: "dhcp_lease_entry list \<Rightarrow> string \<Rightarrow> dhcp_lease_entry option" where
  "lease_for leases mac = find (\<lambda>l. to_lowercase (dl_active_mac_address l) = to_lowercase mac
     \<or> to_lowercase (dl_mac_address l) = to_lowercase mac) leases"

definition lease_hostname :: "dhcp_lease_entry option \<Rightarrow> string" where
  "lease_hostname lease = (case lease of None \<Rightarrow> ''Unknown''
     | Some l \<Rightarrow> if dl_host_name l = [] then ''Unknown'' else dl_host_name l)"

definition non_empty :: "string \<Rightarrow> string option" where
  "non_empty s = (if s = [] then None else Some s)"

definition bind_non_empty :: "('a \<Rightarrow> string) \<Rightarrow> 'a option \<Rightarrow> string option" where
  "bind_non_empty f m = (case m of None \<Rightarrow> None | Some x \<Rightarrow> non_empty (f x))"

definition wireless_device ::
  "neighbor_entry list \<Rightarrow> dhcp_lease_entry list \<Rightarrow> wireless_client_entry \<Rightarrow> device" where
  "wireless_device arp leases reg =
     (let lease = lease_for leases (wc_mac_address reg); hostname = lease_hostname lease;
          arp_entry = find (\<lambda>a. to_lowercase (nb_mac_address a) = to_lowercase (wc_mac_address reg)) arp in
      \<lparr>dv_mac = wc_mac_address reg, dv_hostname = hostname,
       dv_ip = (case arp_entry of None \<Rightarrow> DASH | Some a \<Rightarrow> nb_address a),
       dv_device_type = infer_device_type hostname (wc_mac_address reg),
       dv_signal = wc_signal_strength reg,
       dv_connected_duration = parse_routeros_uptime_to_seconds (wc_uptime reg),
       dv_dhcp_status = bind_non_empty dl_status lease,
       dv_dhcp_expires = bind_non_empty dl_expires_after lease,
       dv_interface = bind_non_empty nb_interface arp_entry,
       dv_arp_status = bind_non_empty nb_status arp_entry,
       dv_custom_name = None, dv_custom_type = None\<rparr>)"

definition neighbor_device :: "dhcp_lease_entry list \<Rightarrow> neighbor_entry \<Rightarrow> device" where
  "neighbor_device leases entry =
     (let lease = lease_for leases (nb_mac_address entry); hostname = lease_hostname lease in
      \<lparr>dv_mac = nb_mac_address entry, dv_hostname = hostname, dv_ip = nb_address entry,
       dv_device_type = infer_device_type hostname (nb_mac_address entry), dv_signal = None,
       dv_connected_duration = 0, dv_dhcp_status = bind_non_empty dl_status lease,
       dv_dhcp_expires = bind_non_empty dl_expires_after lease,
       dv_interface = non_empty (nb_interface entry), dv_arp_status = non_empty (nb_status entry),
       dv_custom_name = None, dv_custom_type = None\<rparr>)"

text \<open>Each of the two neighbor tables is filtered against the addresses known before it, then
  its devices are added and their addresses recorded.\<close>

definition extract_wifi ::
  "wireless_client_entry list \<Rightarrow> neighbor_entry list \<Rightarrow> dhcp_lease_entry list \<Rightarrow>
   neighbor_entry list \<Rightarrow> wifi_info" where
  "extract_wifi clients arp leases ipv6_neighbors =
     (let wifi_macs = set (map (to_lowercase \<circ> wc_mac_address) clients);
          unknown = (\<lambda>known n. live_neighbor n \<and> to_lowercase (nb_mac_address n) \<notin> known);
          arp_devices = filter (unknown wifi_macs) arp;
          wifi_macs' = wifi_macs \<union> set (map (to_lowercase \<circ> nb_mac_address) arp_devices);
          ipv6_devices = filter (unknown wifi_macs') ipv6_neighbors in
      \<lparr>wf_interface_count = 0, wf_client_count = as_u32 (length clients),
       wf_packet_loss_pct = Finite 0, wf_retransmit_pct = Finite 0,
       wf_devices = map (wireless_device arp leases) clients
         @ map (neighbor_device leases) arp_devices @ map (neighbor_device leases) ipv6_devices\<rparr>)"

section \<open>The snapshot\<close>

definition rate_context_of :: "router_data \<Rightarrow> previous_counter_sample option \<Rightarrow> rate_context" where
  "rate_context_of d previous =
     \<lparr>rc_previous_counters = map_option pcs_counters previous,
      rc_previous_uptime_seconds = Option.bind previous pcs_uptime_seconds,
      rc_current_uptime_seconds = sd_uptime_seconds (rd_system d),
      rc_elapsed_secs = map_option pcs_elapsed_secs previous\<rparr>"

definition primary_or_empty :: "wan_info list \<Rightarrow> wan_info" where
  "primary_or_empty wans = unwrap_or empty_wan (find wn_is_primary wans)"

definition to_dashboard_snapshot ::
  "string \<Rightarrow> router_data \<Rightarrow> previous_counter_sample option \<Rightarrow> latency_probe list \<Rightarrow> isp_stability \<Rightarrow>
   f64 \<Rightarrow> dashboard_snapshot" where
  "to_dashboard_snapshot now d previous latency_results stability monthly_usage_gb =
     (let context = rate_context_of d previous;
          wans = resolve_router_wans d;
          primary = primary_or_empty wans;
          total_connections = u32_saturating_add (rd_connection_count d) (rd_ipv6_connection_count d);
          connections_ipv6 = (if wn_ipv6_address primary \<noteq> None then Some (rd_ipv6_connection_count d) else None) in
      \<lparr>ds_system = extract_system_info (rd_system d),
       ds_gateway = extract_gateway primary wans (rd_dhcp_leases d) context,
       ds_interfaces = extract_interface_summary (rd_interfaces d) (rd_arp_entries d) (rd_ipv6_neighbors d),
       ds_isp = extract_isp (rd_identity d) primary wans context monthly_usage_gb
          (total_connections, connections_ipv6),
       ds_traffic = extract_traffic wans context now,
       ds_latency_probes = latency_results,
       ds_wifi = extract_wifi (rd_wireless_clients d) (rd_arp_entries d) (rd_dhcp_leases d) (rd_ipv6_neighbors d),
       ds_stability = stability,
       ds_interface_statuses = extract_interface_statuses (rd_interfaces d) context wans,
       ds_timestamp = now,
       ds_wans = build_wan_entries wans context,
       ds_wans_isp = build_wan_isp_entries wans (rd_identity d),
       ds_wan_traffic_points = build_wan_traffic_points wans context now\<rparr>)"

section \<open>Default probe targets\<close>

definition isp_dns_targets :: "string list \<Rightarrow> (string \<times> string \<times> string) list" where
  "isp_dns_targets servers =
     map (\<lambda>(i, server). (''ISP DNS '' @ show_nat (i + 1), server, ''isp'')) (enumerate 0 servers)"

definition default_latency_probe_targets :: "string list \<Rightarrow> (string \<times> string \<times> string) list" where
  "default_latency_probe_targets dns_servers =
     [(''Cloudflare DNS'', ''1.1.1.1'', ''dns''), (''Google DNS'', ''8.8.8.8'', ''dns''),
      (''Quad9 DNS'', ''9.9.9.9'', ''dns''), (''AliDNS'', ''223.5.5.5'', ''dns''),
      (''DNSPod'', ''119.29.29.29'', ''dns''), (''AWS'', ''amazon.com'', ''cloud''),
      (''Azure'', ''azure.microsoft.com'', ''cloud''), (''Alibaba Cloud'', ''aliyun.com'', ''cloud''),
      (''Tencent Cloud'', ''cloud.tencent.com'', ''cloud''), (''Cloudflare'', ''cloudflare.com'', ''cdn''),
      (''Akamai'', ''akamai.com'', ''cdn''), (''Fastly'', ''fastly.com'', ''cdn''),
      (''GitHub'', ''github.com'', ''repo''), (''Docker Hub'', ''hub.docker.com'', ''repo''),
      (''npm Registry'', ''registry.npmjs.org'', ''repo''), (''crates.io'', ''crates.io'', ''repo'')]
     @ isp_dns_targets dns_servers
     @ [(''Cloudflare DNS v6'', ''2606:4700:4700::1111'', ''dns''),
        (''Google DNS v6'', ''2001:4860:4860::8888'', ''dns''), (''Quad9 DNS v6'', ''2620:fe::fe'', ''dns'')]"

end
