(* ===== verification/Wan_Facts.thy ===== *)
theory Wan_Facts
  imports Wan_Resolution "HOL-Library.Multiset"
begin

text \<open>
  What the WAN list promises: one entry per interface of an enabled default route, online
  exactly when its interface runs and some route through it is reachable, and the best usable
  entry, if any, is the only primary one and comes first.
\<close>

section \<open>Keys\<close>

lemma wan_key_eq: "wan_key n g = wan_key n' g' \<Longrightarrow> n = n'"
  by (simp add: wan_key_def split: if_splits)

abbreviation route_key :: "route_entry \<Rightarrow> string" where
  "route_key r \<equiv> wan_key (resolve_route_iface r) (rt_gateway r)"

lemma wan_key_named: "n \<noteq> [] \<Longrightarrow> wan_key n g = ''interface:'' @ n"
  by (simp add: wan_key_def)

section \<open>The invariant of the two loops\<close>

definition named :: "wan_info list \<Rightarrow> wan_info list" where
  "named wans = filter (\<lambda>w. wn_interface_name w \<noteq> []) wans"

definition wan_names :: "wan_info list \<Rightarrow> string set" where
  "wan_names wans = wn_interface_name ` set wans"

text \<open>\<open>rs\<close> are the routes seen so far.\<close>

definition reachable_through :: "route_entry list \<Rightarrow> string \<Rightarrow> bool" where
  "reachable_through rs name \<longleftrightarrow> (\<exists>r \<in> set rs. resolve_route_iface r = name \<and> route_is_reachable r)"

definition wan_ok :: "interface_entry list \<Rightarrow> route_entry list \<Rightarrow> wan_info \<Rightarrow> bool" where
  "wan_ok interfaces rs w \<longleftrightarrow> \<not> wn_is_primary w \<and>
     wn_iface w = find (\<lambda>i. if_name i = wn_interface_name w) interfaces \<and>
     (wn_interface_name w \<noteq> [] \<longrightarrow>
        (wn_online w \<longleftrightarrow> iface_running (wn_iface w) \<and> reachable_through rs (wn_interface_name w)))"

definition wans_ok :: "interface_entry list \<Rightarrow> route_entry list \<Rightarrow> string set \<Rightarrow> wan_info list \<Rightarrow> bool" where
  "wans_ok interfaces rs seen wans \<longleftrightarrow> seen \<subseteq> route_key ` set rs \<and>
     wan_names wans = resolve_route_iface ` set rs \<and>
     distinct (map wn_interface_name (named wans)) \<and> (\<forall>w \<in> set wans. wan_ok interfaces rs w)"

lemma seen_name: "seen \<subseteq> route_key ` set rs \<Longrightarrow> route_key r \<in> seen \<Longrightarrow>
    resolve_route_iface r \<in> resolve_route_iface ` set rs"
  using wan_key_eq by (metis (no_types, lifting) image_iff subsetD)

lemma reachable_snoc:
  "reachable_through (rs @ [r]) n \<longleftrightarrow>
     reachable_through rs n \<or> (resolve_route_iface r = n \<and> route_is_reachable r)"
  by (auto simp: reachable_through_def)

lemma wans_ok_new:
  assumes ok: "wans_ok interfaces rs seen wans"
    and w: "wn_interface_name w = resolve_route_iface r" "wn_interface_name w \<notin> wan_names wans \<or> wn_interface_name w = []"
      "\<not> wn_is_primary w" "wn_iface w = find (\<lambda>i. if_name i = resolve_route_iface r) interfaces"
      "wn_online w \<longleftrightarrow> route_is_reachable r \<and> iface_running (wn_iface w)"
  shows "wans_ok interfaces (rs @ [r]) (insert (route_key r) seen) (wans @ [w])"
proof -
  have names: "wan_names wans = resolve_route_iface ` set rs" using ok by (simp add: wans_ok_def)
  have "wan_ok interfaces (rs @ [r]) w"
  proof -
    have "\<not> reachable_through rs (wn_interface_name w)" if "wn_interface_name w \<noteq> []"
      using w(2) that names by (force simp: reachable_through_def)
    then show ?thesis using w by (auto simp: wan_ok_def reachable_snoc)
  qed
  moreover have "wan_ok interfaces (rs @ [r]) v" if "v \<in> set wans" for v
  proof -
    have "wan_ok interfaces rs v" using ok that by (simp add: wans_ok_def)
    moreover have "wn_interface_name v \<noteq> resolve_route_iface r" if "wn_interface_name v \<noteq> []"
      using w(1,2) that \<open>v \<in> set wans\<close> by (force simp: wan_names_def)
    ultimately show ?thesis by (auto simp: wan_ok_def reachable_snoc)
  qed
  moreover have "distinct (map wn_interface_name (named (wans @ [w])))"
    using ok w(2) by (auto simp: wans_ok_def named_def wan_names_def)
  ultimately show ?thesis
    using ok w(1) by (auto simp: wans_ok_def wan_names_def)
qed

lemma wans_ok_skip:
  assumes ok: "wans_ok interfaces rs seen wans" and old: "resolve_route_iface r \<in> resolve_route_iface ` set rs"
    and same: "route_is_reachable r \<Longrightarrow> resolve_route_iface r \<noteq> [] \<Longrightarrow> reachable_through rs (resolve_route_iface r)"
  shows "wans_ok interfaces (rs @ [r]) seen wans"
proof -
  have "wan_ok interfaces (rs @ [r]) v" if "wan_ok interfaces rs v" for v
    using that same by (auto simp: wan_ok_def reachable_snoc)
  then show ?thesis using ok old by (auto simp: wans_ok_def)
qed

lemma add_ipv4_wan_new:
  assumes "route_key r \<notin> seen"
  shows "\<exists>w. add_ipv4_wan ips interfaces m ifs v6 (seen, wans) r = (insert (route_key r) seen, wans @ [w]) \<and>
     wn_interface_name w = resolve_route_iface r \<and> \<not> wn_is_primary w \<and>
     wn_iface w = find (\<lambda>i. if_name i = resolve_route_iface r) interfaces \<and>
     (wn_online w \<longleftrightarrow> route_is_reachable r \<and> iface_running (wn_iface w))"
  using assms by (simp add: add_ipv4_wan_def Let_def)

lemma add_ipv6_wan_new:
  assumes "route_key r \<notin> seen" "resolve_route_iface r \<notin> wan_names wans"
  shows "\<exists>w. add_ipv6_wan interfaces m (seen, wans) r = (insert (route_key r) seen, wans @ [w]) \<and>
     wn_interface_name w = resolve_route_iface r \<and> \<not> wn_is_primary w \<and>
     wn_iface w = find (\<lambda>i. if_name i = resolve_route_iface r) interfaces \<and>
     (wn_online w \<longleftrightarrow> route_is_reachable r \<and> iface_running (wn_iface w))"
proof -
  have "\<not> list_ex (\<lambda>w. wn_interface_name w = resolve_route_iface r) wans"
    using assms(2) by (force simp: list_ex_iff wan_names_def)
  then show ?thesis using assms(1) by (simp add: add_ipv6_wan_def Let_def)
qed

lemma add_ipv6_wan_merge:
  assumes "resolve_route_iface r \<in> wan_names wans"
  shows "add_ipv6_wan interfaces m (seen, wans) r =
    (seen, update_first (\<lambda>w. wn_interface_name w = resolve_route_iface r) (merge_ipv6_route r) wans)"
proof -
  have "list_ex (\<lambda>w. wn_interface_name w = resolve_route_iface r) wans"
    using assms by (force simp: list_ex_iff wan_names_def)
  then show ?thesis by (simp add: add_ipv6_wan_def Let_def)
qed

lemma add_ipv4_wan_ok:
  assumes ok: "wans_ok interfaces rs seen wans" and seen: "seen = route_key ` set rs"
    and sorted: "\<forall>r' \<in> set rs. route_sort_key r' \<le> route_sort_key r"
    and r: "add_ipv4_wan ips interfaces m ifs v6 (seen, wans) r = (seen', wans')"
  shows "wans_ok interfaces (rs @ [r]) seen' wans' \<and> seen' = route_key ` set (rs @ [r])"
proof (cases "route_key r \<in> seen")
  case True
  then obtain r' where r': "r' \<in> set rs" "route_key r' = route_key r" using seen by auto
  have name: "resolve_route_iface r' = resolve_route_iface r" using wan_key_eq[OF r'(2)] .
  have "reachable_through rs (resolve_route_iface r)" if "route_is_reachable r"
  proof -
    have "route_sort_key r' \<le> route_sort_key r" using sorted r' by blast
    then have "route_is_reachable r'"
      using that by (auto simp: route_sort_key_def route_state_rank_def less_eq_prod_def split: if_splits)
    then show ?thesis using r'(1) name by (auto simp: reachable_through_def)
  qed
  then have "wans_ok interfaces (rs @ [r]) seen wans"
    by (intro wans_ok_skip[OF ok]) (use r' name in \<open>auto intro!: image_eqI[of _ _ r']\<close>)
  then show ?thesis using r True seen by (auto simp: add_ipv4_wan_def Let_def)
next
  case False
  have new: "resolve_route_iface r \<notin> wan_names wans \<or> resolve_route_iface r = []"
  proof (rule ccontr)
    assume "\<not> (resolve_route_iface r \<notin> wan_names wans \<or> resolve_route_iface r = [])"
    then obtain r' where "r' \<in> set rs" "resolve_route_iface r' = resolve_route_iface r" "resolve_route_iface r \<noteq> []"
      using ok by (auto simp: wans_ok_def)
    then have "route_key r \<in> seen" unfolding seen by (auto simp: wan_key_named intro!: image_eqI[of _ _ r'])
    then show False using False by simp
  qed
  obtain w where a: "add_ipv4_wan ips interfaces m ifs v6 (seen, wans) r = (insert (route_key r) seen, wans @ [w])"
    and w: "wn_interface_name w = resolve_route_iface r" "\<not> wn_is_primary w"
      "wn_iface w = find (\<lambda>i. if_name i = resolve_route_iface r) interfaces"
      "wn_online w \<longleftrightarrow> route_is_reachable r \<and> iface_running (wn_iface w)"
    using add_ipv4_wan_new[OF False] by blast
  have "seen' = insert (route_key r) seen" "wans' = wans @ [w]" using a r by auto
  then show ?thesis
    using wans_ok_new[OF ok w(1) _ w(2-4)] new seen w(1) by simp
qed

lemma add_ipv4_wans_ok:
  assumes "sorted (map route_sort_key rs)"
  shows "\<exists>seen wans. foldl (add_ipv4_wan ips interfaces m ifs v6) ({}, []) rs = (seen, wans) \<and>
     wans_ok interfaces rs seen wans \<and> seen = route_key ` set rs"
  using assms
proof (induction rs rule: rev_induct)
  case Nil
  then show ?case by (simp add: wans_ok_def wan_names_def named_def)
next
  case (snoc r rs)
  then obtain seen wans where st: "foldl (add_ipv4_wan ips interfaces m ifs v6) ({}, []) rs = (seen, wans)"
    "wans_ok interfaces rs seen wans" "seen = route_key ` set rs" by (auto simp: sorted_append)
  have "\<forall>r' \<in> set rs. route_sort_key r' \<le> route_sort_key r" using snoc.prems by (simp add: sorted_append)
  obtain seen' wans' where step: "add_ipv4_wan ips interfaces m ifs v6 (seen, wans) r = (seen', wans')" by fastforce
  have "wans_ok interfaces (rs @ [r]) seen' wans'" "seen' = route_key ` set (rs @ [r])"
    using add_ipv4_wan_ok[OF st(2,3) \<open>\<forall>r' \<in> set rs. _\<close> step] by blast+
  moreover have "foldl (add_ipv4_wan ips interfaces m ifs v6) ({}, []) (rs @ [r]) = (seen', wans')"
    using st(1) step by simp
  ultimately show ?case by blast
qed

lemma update_first_set:
  "w \<in> set (update_first p f ws) \<Longrightarrow> w \<in> set ws \<or> (\<exists>v \<in> set ws. p v \<and> w = f v)"
  by (induction ws) (auto split: if_splits)

lemma update_first_only:
  "length (filter p ws) \<le> 1 \<Longrightarrow> w \<in> set (update_first p f ws) \<Longrightarrow>
   (w \<in> set ws \<and> \<not> p w) \<or> (\<exists>v \<in> set ws. p v \<and> w = f v)"
  by (induction ws) (auto split: if_splits simp: filter_empty_conv)

lemma update_first_map:
  "(\<And>v. g (f v) = g v) \<Longrightarrow> map g (update_first p f ws) = map g ws"
  by (induction ws) auto

lemma merge_keeps [simp]:
  "wn_interface_name (merge_ipv6_route r w) = wn_interface_name w"
  "wn_iface (merge_ipv6_route r w) = wn_iface w" "wn_is_primary (merge_ipv6_route r w) = wn_is_primary w"
  "wn_online (merge_ipv6_route r w) \<longleftrightarrow> wn_online w \<or> (route_is_reachable r \<and> iface_running (wn_iface w))"
  by (simp_all add: merge_ipv6_route_def Let_def)

lemma distinct_named: "distinct (map wn_interface_name (named wans)) \<Longrightarrow> w \<in> set wans \<Longrightarrow> v \<in> set wans \<Longrightarrow>
    wn_interface_name w = wn_interface_name v \<Longrightarrow> wn_interface_name w \<noteq> [] \<Longrightarrow> w = v"
  by (simp add: named_def distinct_map inj_on_def)

lemma named_names: "map wn_interface_name (named wans) = filter (\<lambda>n. n \<noteq> []) (map wn_interface_name wans)"
  by (induction wans) (auto simp: named_def)

lemma distinct_filter_eq: "distinct xs \<Longrightarrow> length (filter (\<lambda>x. x = n) xs) \<le> 1"
  by (induction xs) (auto simp: filter_empty_conv)

lemma named_once:
  assumes "distinct (map wn_interface_name (named wans))" "n \<noteq> []"
  shows "length (filter (\<lambda>w. wn_interface_name w = n) wans) \<le> 1"
proof -
  have "filter (\<lambda>m. m = n) (map wn_interface_name (named wans))
      = map wn_interface_name (filter (\<lambda>w. wn_interface_name w = n) wans)"
    using assms(2) by (induction wans) (auto simp: named_def)
  then show ?thesis using distinct_filter_eq[OF assms(1), of n] by (metis length_map)
qed

lemma add_ipv6_wan_ok:
  assumes ok: "wans_ok interfaces rs seen wans"
    and r: "add_ipv6_wan interfaces m (seen, wans) r = (seen', wans')"
  shows "wans_ok interfaces (rs @ [r]) seen' wans'"
proof (cases "resolve_route_iface r \<in> wan_names wans")
  case True
  let ?n = "resolve_route_iface r"
  let ?ws = "update_first (\<lambda>w. wn_interface_name w = ?n) (merge_ipv6_route r) wans"
  have r': "seen' = seen" "wans' = ?ws"
    using r add_ipv6_wan_merge[OF True, of interfaces m seen] by simp_all
  have names: "map wn_interface_name ?ws = map wn_interface_name wans" by (rule update_first_map) simp
  then have "wan_names ?ws = wan_names wans" unfolding wan_names_def by (metis set_map)
  moreover have "wan_ok interfaces (rs @ [r]) w" if w: "w \<in> set ?ws" for w
  proof (cases "?n = []")
    case True
    then show ?thesis
      using update_first_set[OF w] ok by (auto simp: wans_ok_def wan_ok_def reachable_snoc)
  next
    case False
    have "length (filter (\<lambda>w. wn_interface_name w = ?n) wans) \<le> 1"
      by (rule named_once[OF _ False]) (use ok in \<open>simp add: wans_ok_def\<close>)
    from update_first_only[OF this w] show ?thesis
      using ok by (auto simp: wans_ok_def wan_ok_def reachable_snoc)
  qed
  moreover have "resolve_route_iface ` set (rs @ [r]) = resolve_route_iface ` set rs"
    using True ok by (auto simp: wans_ok_def)
  ultimately show ?thesis
    using ok unfolding r' wans_ok_def named_names names by auto
next
  case False
  have unseen: "route_key r \<notin> seen" using seen_name[of seen rs r] ok False by (auto simp: wans_ok_def)
  obtain w where a: "add_ipv6_wan interfaces m (seen, wans) r = (insert (route_key r) seen, wans @ [w])"
    and w: "wn_interface_name w = resolve_route_iface r" "\<not> wn_is_primary w"
      "wn_iface w = find (\<lambda>i. if_name i = resolve_route_iface r) interfaces"
      "wn_online w \<longleftrightarrow> route_is_reachable r \<and> iface_running (wn_iface w)"
    using add_ipv6_wan_new[OF unseen False] by blast
  have "seen' = insert (route_key r) seen" "wans' = wans @ [w]" using a r by auto
  then show ?thesis using wans_ok_new[OF ok w(1) _ w(2-4)] False w(1) by simp
qed


lemma add_ipv6_wans_ok:
  assumes "wans_ok interfaces rs (fst st) (snd st)"
  shows "wans_ok interfaces (rs @ vs) (fst (foldl (add_ipv6_wan interfaces m) st vs))
     (snd (foldl (add_ipv6_wan interfaces m) st vs))"
  using assms
proof (induction vs rule: rev_induct)
  case (snoc r vs)
  then show ?case using add_ipv6_wan_ok[of interfaces "rs @ vs"] by (metis append.assoc foldl_Cons foldl_Nil foldl_append prod.collapse)
qed simp

section \<open>Choosing the primary\<close>

lemma mark_primary_cases:
  assumes "\<forall>w \<in> set wans. \<not> wn_is_primary w"
  obtains "mark_primary wans = wans" "\<forall>w \<in> set wans. \<not> primary_candidate w"
  | xs w ys where "wans = xs @ w # ys" "mark_primary wans = xs @ w\<lparr>wn_is_primary := True\<rparr> # ys"
      "primary_candidate w" "\<forall>v \<in> set wans. primary_candidate v \<longrightarrow> primary_key w \<le> primary_key v"
proof (cases "min_on (\<lambda>i. primary_key (wans ! i)) (filter (\<lambda>i. primary_candidate (wans ! i)) [0..<length wans])")
  case None
  then have "filter (\<lambda>i. primary_candidate (wans ! i)) [0..<length wans] = []" by simp
  then have "\<forall>w \<in> set wans. \<not> primary_candidate w"
    by (auto simp: filter_empty_conv in_set_conv_nth)
  moreover have "mark_primary wans = wans" using None by (simp add: mark_primary_def)
  ultimately show thesis using that(1) by blast
next
  case (Some i)
  note m = min_on_Some[OF Some]
  have i: "i < length wans" "primary_candidate (wans ! i)" using m by auto
  have "wans = take i wans @ wans ! i # drop (Suc i) wans" by (rule id_take_nth_drop[OF i(1)])
  moreover have "mark_primary wans = take i wans @ (wans ! i)\<lparr>wn_is_primary := True\<rparr> # drop (Suc i) wans"
    using Some by (simp add: mark_primary_def upd_conv_take_nth_drop[OF i(1)])
  moreover have "\<forall>v \<in> set wans. primary_candidate v \<longrightarrow> primary_key (wans ! i) \<le> primary_key v"
    using m by (auto simp: in_set_conv_nth)
  ultimately show thesis using that(2) i(2) by blast
qed

lemma marked_fields:
  assumes "\<forall>w \<in> set wans. \<not> wn_is_primary w"
  shows "map wn_interface_name (mark_primary wans) = map wn_interface_name wans"
    and "map (\<lambda>w. (wn_interface_name w, wn_online w, wn_iface w)) (mark_primary wans)
       = map (\<lambda>w. (wn_interface_name w, wn_online w, wn_iface w)) wans"
  by (rule mark_primary_cases[OF assms]; simp)+

definition enabled_defaults :: "route_entry list \<Rightarrow> route_entry list \<Rightarrow> route_entry list" where
  "enabled_defaults routes ipv6_routes =
     filter (is_default_route ''0.0.0.0/0'') routes @ filter (is_default_route ''::/0'') ipv6_routes"

text \<open>The WANs before one of them is marked and all are sorted.\<close>

lemma resolve_unmarked:
  obtains wans rs seen where "wans_ok interfaces rs seen wans"
    and "set rs = set (enabled_defaults routes ipv6_routes)"
    and "resolve_all_wans ips interfaces routes ipv6_ips ipv6_routes = sort_key wan_sort_key (mark_primary wans)"
proof -
  let ?m = "build_ipv6_addr_map ipv6_ips"
  let ?v4 = "sort_key route_sort_key (filter (is_default_route ''0.0.0.0/0'') routes)"
  let ?v6 = "sort_key route_sort_key (filter (is_default_route ''::/0'') ipv6_routes)"
  let ?st = "foldl (add_ipv4_wan ips interfaces ?m (build_ipv6_default_iface_set ipv6_routes) ipv6_routes) ({}, []) ?v4"
  let ?wans = "snd (foldl (add_ipv6_wan interfaces ?m) ?st ?v6)"
  have "sorted (map route_sort_key ?v4)" by simp
  then have "wans_ok interfaces ?v4 (fst ?st) (snd ?st)"
    using add_ipv4_wans_ok[of ?v4 ips interfaces ?m "build_ipv6_default_iface_set ipv6_routes" ipv6_routes] by auto
  from add_ipv6_wans_ok[OF this, where m = ?m and vs = ?v6]
  have "wans_ok interfaces (?v4 @ ?v6) (fst (foldl (add_ipv6_wan interfaces ?m) ?st ?v6)) ?wans" .
  moreover have "set (?v4 @ ?v6) = set (enabled_defaults routes ipv6_routes)"
    by (auto simp: enabled_defaults_def)
  moreover have "resolve_all_wans ips interfaces routes ipv6_ips ipv6_routes = sort_key wan_sort_key (mark_primary ?wans)"
    by (simp add: resolve_all_wans_def Let_def)
  ultimately show thesis using that by blast
qed

lemma remdups_adj_strict: "sorted xs \<Longrightarrow> sorted_wrt (<) (remdups_adj xs)"
  by (induction xs rule: remdups_adj.induct) (auto intro: le_neq_trans order_less_le_trans)

section \<open>Properties\<close>

lemma wan_names_spec:
  "wn_interface_name ` set (resolve_all_wans ips interfaces routes ipv6_ips ipv6_routes)
     = resolve_route_iface ` set (enabled_defaults routes ipv6_routes) \<and>
   distinct (filter (\<lambda>n. n \<noteq> []) (map wn_interface_name
     (resolve_all_wans ips interfaces routes ipv6_ips ipv6_routes)))"
proof (rule resolve_unmarked)
  fix wans rs seen
  assume ok: "wans_ok interfaces rs seen wans" and rs: "set rs = set (enabled_defaults routes ipv6_routes)"
    and res: "resolve_all_wans ips interfaces routes ipv6_ips ipv6_routes = sort_key wan_sort_key (mark_primary wans)"
  have names: "map wn_interface_name (mark_primary wans) = map wn_interface_name wans"
    by (rule marked_fields(1)) (use ok in \<open>simp add: wans_ok_def wan_ok_def\<close>)
  have "mset (filter (\<lambda>n. n \<noteq> []) (map wn_interface_name (sort_key wan_sort_key (mark_primary wans))))
      = mset (map wn_interface_name (named wans))"
    by (simp add: named_names flip: names)
  then have "distinct (filter (\<lambda>n. n \<noteq> []) (map wn_interface_name (sort_key wan_sort_key (mark_primary wans))))"
    using ok by (metis mset_eq_imp_distinct_iff wans_ok_def)
  moreover have "wn_interface_name ` set (mark_primary wans) = wan_names wans"
    unfolding wan_names_def by (metis names set_map)
  ultimately show ?thesis using ok rs by (simp add: res wans_ok_def)
qed

lemmas wan_names_of_routes = wan_names_spec[THEN conjunct1]


text \<open>A WAN is online exactly when its interface exists and runs and some enabled default
  route through it, of either family, is reachable, whatever the order of the routes.\<close>

theorem wan_online_iff:
  assumes "w \<in> set (resolve_all_wans ips interfaces routes ipv6_ips ipv6_routes)"
    and "wn_interface_name w \<noteq> []"
  shows "wn_online w \<longleftrightarrow>
     iface_running (find (\<lambda>i. if_name i = wn_interface_name w) interfaces) \<and>
     (\<exists>r \<in> set (enabled_defaults routes ipv6_routes).
        resolve_route_iface r = wn_interface_name w \<and> route_is_reachable r)"
proof (rule resolve_unmarked)
  fix wans rs seen
  assume ok: "wans_ok interfaces rs seen wans" and rs: "set rs = set (enabled_defaults routes ipv6_routes)"
    and res: "resolve_all_wans ips interfaces routes ipv6_ips ipv6_routes = sort_key wan_sort_key (mark_primary wans)"
  let ?f = "\<lambda>w. (wn_interface_name w, wn_online w, wn_iface w)"
  have "map ?f (mark_primary wans) = map ?f wans"
    by (rule marked_fields(2)) (use ok in \<open>simp add: wans_ok_def wan_ok_def\<close>)
  from arg_cong[where f = set, OF this] have "?f ` set (mark_primary wans) = ?f ` set wans" by simp
  moreover have "w \<in> set (mark_primary wans)" using assms(1) by (simp add: res)
  ultimately have "?f w \<in> ?f ` set wans" by blast
  then obtain v where "v \<in> set wans" "wn_interface_name v = wn_interface_name w" "wn_online v = wn_online w"
    "wn_iface v = wn_iface w" by auto
  then show ?thesis using ok rs assms(2) by (auto simp: wans_ok_def wan_ok_def reachable_through_def)
qed

definition example_route :: route_entry where
  "example_route = \<lparr>rt_id = ''*1'', rt_dst_address = ''0.0.0.0/0'', rt_gateway = ''10.0.0.1'',
     rt_gateway_status = ''10.0.0.1 reachable via ether1'', rt_interface = ''ether1'', rt_active = True,
     rt_disabled = False, rt_distance = 1\<rparr>"

definition example_interface :: interface_entry where
  "example_interface = \<lparr>if_id = ''*1'', if_name = ''ether1'', if_type = ''ether'', if_mac_address = [],
     if_running = True, if_rx_byte = Some 1000, if_tx_byte = Some 500, if_default_name = ''ether1''\<rparr>"

lemma example_route_facts:
  "enabled_defaults [example_route] [] = [example_route]" "resolve_route_iface example_route = ''ether1''"
  "route_is_reachable example_route"
  by (simp_all add: enabled_defaults_def is_default_route_def resolve_route_iface_def example_route_def
      route_is_reachable_def is_ascii_alphabetic_def eq_ignore_ascii_case_def to_ascii_lower_def Let_def)

theorem wan_online_iff_witness:
  "\<exists>w. w \<in> set (resolve_all_wans [] [example_interface] [example_route] [] []) \<and>
     wn_interface_name w = ''ether1'' \<and> wn_online w"
proof -
  have "''ether1'' \<in> wn_interface_name ` set (resolve_all_wans [] [example_interface] [example_route] [] [])"
    by (simp add: wan_names_of_routes example_route_facts)
  then obtain w where w: "w \<in> set (resolve_all_wans [] [example_interface] [example_route] [] [])"
    "wn_interface_name w = ''ether1''" by auto
  then have "wn_online w"
    using wan_online_iff[OF w(1)] example_route_facts by (simp add: example_interface_def iface_running_def)
  with w show ?thesis by blast
qed

lemma primary_wan_spec:
  fixes ips interfaces routes ipv6_ips ipv6_routes
  defines "wans \<equiv> resolve_all_wans ips interfaces routes ipv6_ips ipv6_routes"
  shows "length (filter wn_is_primary wans) \<le> 1 \<and>
    (\<forall>w \<in> set wans. wn_is_primary w \<longrightarrow> primary_candidate w \<and> hd wans = w \<and>
       (\<forall>v \<in> set wans. primary_candidate v \<longrightarrow> primary_key w \<le> primary_key v)) \<and>
    ((\<exists>v \<in> set wans. primary_candidate v) \<longrightarrow> (\<exists>w \<in> set wans. wn_is_primary w))"
proof (rule resolve_unmarked)
  fix ws rs seen
  assume ok: "wans_ok interfaces rs seen ws"
    and res: "resolve_all_wans ips interfaces routes ipv6_ips ipv6_routes = sort_key wan_sort_key (mark_primary ws)"
  have unmarked: "\<forall>w \<in> set ws. \<not> wn_is_primary w" using ok by (simp add: wans_ok_def wan_ok_def)
  have wans: "set wans = set (mark_primary ws)" "mset wans = mset (mark_primary ws)"
    "sorted (map wan_sort_key wans)"
    unfolding wans_def res by simp_all
  show ?thesis
  proof (rule mark_primary_cases[OF unmarked])
    assume "mark_primary ws = ws" "\<forall>w \<in> set ws. \<not> primary_candidate w"
    then show ?thesis using unmarked wans(1) by (simp add: filter_False)
  next
    fix xs ys :: "wan_info list" and w :: wan_info
    assume split: "ws = xs @ w # ys" and mark0: "mark_primary ws = xs @ w\<lparr>wn_is_primary := True\<rparr> # ys"
      and cand: "primary_candidate w" and best: "\<forall>v \<in> set ws. primary_candidate v \<longrightarrow> primary_key w \<le> primary_key v"
    define p where "p = w\<lparr>wn_is_primary := True\<rparr>"
    have cand': "primary_candidate p" "primary_key p = primary_key w" "wn_is_primary p"
      using cand by (simp_all add: primary_candidate_def primary_key_def p_def)
    have mark: "mark_primary ws = xs @ p # ys" using mark0 by (simp add: p_def)
    have "mset (filter wn_is_primary wans) = mset (filter wn_is_primary (xs @ p # ys))"
      unfolding mset_filter using wans(2) mark by simp
    also have "filter wn_is_primary (xs @ p # ys) = [p]"
      using unmarked split cand'(3) by (simp add: filter_False)
    also have "mset [p] = {#p#}" by simp
    finally have one: "filter wn_is_primary wans = [p]" by (simp only: mset_single_iff)
    have only: "v = p" if "v \<in> set wans" "wn_is_primary v" for v
    proof -
      have "v \<in> set (filter wn_is_primary wans)" using that by simp
      then show ?thesis unfolding one by simp
    qed
    have "p \<in> set wans" using wans(1) mark by simp
    then obtain h t where h: "wans = h # t" by (cases wans) auto
    then have "wan_sort_key h \<le> wan_sort_key p" using wans(3) \<open>p \<in> set wans\<close> by auto
    then have "wn_is_primary h" using cand'(3) by (auto simp: wan_sort_key_def less_eq_prod_def split: if_splits)
    then have "hd wans = p" using only h by simp
    moreover have "primary_key p \<le> primary_key v" if v: "v \<in> set wans" "primary_candidate v" for v
    proof -
      have "v = p \<or> v \<in> set ws" using v(1) wans(1) mark split by auto
      then show ?thesis using best v(2) cand'(2) by auto
    qed
    ultimately show ?thesis using one only cand'(1,3) \<open>p \<in> set wans\<close> by (metis One_nat_def length_Cons list.size(3) order_refl)
  qed
qed

lemma primary_wan_unique:
  fixes ips interfaces routes ipv6_ips ipv6_routes
  defines "wans \<equiv> resolve_all_wans ips interfaces routes ipv6_ips ipv6_routes"
  shows "map primary_key (filter wn_is_primary wans) =
      (if list_ex primary_candidate wans then [Min (primary_key ` set (filter primary_candidate wans))] else [])"
    and "list_all primary_candidate (filter wn_is_primary wans)"
    and "filter wn_is_primary wans = filter wn_is_primary (take 1 wans)"
proof -
  note spec = primary_wan_spec[of ips interfaces routes ipv6_ips ipv6_routes, folded wans_def]
  show "list_all primary_candidate (filter wn_is_primary wans)" using spec by (simp add: list_all_iff)
  show take: "filter wn_is_primary wans = filter wn_is_primary (take 1 wans)"
  proof (cases wans)
    case (Cons w ws)
    have "filter wn_is_primary ws = []"
    proof (rule ccontr)
      assume h: "filter wn_is_primary ws \<noteq> []"
      then obtain v where v: "v \<in> set ws" "wn_is_primary v" by (auto simp: filter_empty_conv)
      then have "w = v" using spec Cons by auto
      then have "1 < length (filter wn_is_primary wans)" using v h Cons by simp
      then show False using spec by simp
    qed
    then show ?thesis using Cons by simp
  qed simp
  show "map primary_key (filter wn_is_primary wans) =
      (if list_ex primary_candidate wans then [Min (primary_key ` set (filter primary_candidate wans))] else [])"
  proof (cases "list_ex primary_candidate wans")
    case True
    then obtain w where w: "w \<in> set wans" "wn_is_primary w" using spec by (auto simp: list_ex_iff)
    then have hd: "hd wans = w" and cand: "primary_candidate w"
      and least: "\<And>v. v \<in> set wans \<Longrightarrow> primary_candidate v \<Longrightarrow> primary_key w \<le> primary_key v"
      using spec by auto
    have "filter wn_is_primary wans = [w]"
      unfolding take using w hd by (cases wans) auto
    moreover have "Min (primary_key ` set (filter primary_candidate wans)) = primary_key w"
      by (rule Min_eqI) (use w cand least in auto)
    ultimately show ?thesis using True by simp
  next
    case False
    then have "filter wn_is_primary wans = []" using spec by (auto simp: filter_empty_conv list_ex_iff)
    then show ?thesis using False by simp
  qed
qed


text \<open>The interfaces whose counters are stored are exactly the existing interfaces among the
  WANs, in strictly increasing order.\<close>

theorem wan_interface_names_spec:
  "sorted_wrt (<) (wan_interface_names d) \<and>
   set (wan_interface_names d) = {if_name i | i w. w \<in> set (resolve_router_wans d) \<and> wn_iface w = Some i}"
proof -
  have "set (wan_interface_names d) = {if_name i | i w. w \<in> set (resolve_router_wans d) \<and> wn_iface w = Some i}"
    by (force simp: wan_interface_names_def List.map_filter_def)
  then show ?thesis by (simp add: wan_interface_names_def remdups_adj_strict)
qed

end
