(* ===== verification/Dashboard_Facts.thy ===== *)
theory Dashboard_Facts
  imports Dashboard Wan_Facts
begin

text \<open>
  What a dashboard snapshot promises its readers: its lists of WANs agree, its rates are not
  negative, its interface list is complete and ordered, and its devices are those of the
  router's tables.
\<close>

section \<open>Rates\<close>

abbreviation nonneg :: "f64 \<Rightarrow> bool" where
  "nonneg x \<equiv> f64_le (Finite 0) x"

abbreviation nonneg_pair :: "f64 \<times> f64 \<Rightarrow> bool" where
  "nonneg_pair r \<equiv> nonneg (fst r) \<and> nonneg (snd r)"

lemma nonneg_0 [simp]: "nonneg (Finite 0)"
  by (simp add: f64_le_0_iff)

lemma f64_add_nonneg: "nonneg a \<Longrightarrow> nonneg b \<Longrightarrow> nonneg (f64_add a b)"
  by (auto simp: f64_le_0_iff[of a] f64_le_0_iff[of b] intro!: to_f64_nonneg) (simp_all add: f64_le_0_iff)

lemma interface_rates_nonneg: "calculate_interface_rates i ctx = (a, b) \<Longrightarrow> nonneg a \<and> nonneg b"
  by (auto simp: calculate_interface_rates_def Let_def unwrap_or_def rate_of_counter_def
      split: option.splits dest: rate_bps_nonneg)

lemma compute_wan_rate_nonneg: "compute_wan_rate w ctx = Some (a, b) \<Longrightarrow> nonneg a \<and> nonneg b"
  by (auto simp: compute_wan_rate_def interface_rates_nonneg split: option.splits)

lemma wan_rate_nonneg: "wan_rate_or_zero w ctx = (a, b) \<Longrightarrow> nonneg a \<and> nonneg b"
  by (auto simp: wan_rate_or_zero_def unwrap_or_def compute_wan_rate_nonneg split: option.splits)

lemma add_wan_rate_nonneg:
  assumes "nonneg_pair r"
  shows "nonneg_pair (case r of (dl, ul) \<Rightarrow> case compute_wan_rate w ctx of
     Some (wdl, wul) \<Rightarrow> (f64_add dl wdl, f64_add ul wul) | None \<Rightarrow> (dl, ul))"
proof (cases "compute_wan_rate w ctx")
  case (Some q)
  obtain a b where "q = (a, b)" by (cases q)
  then show ?thesis
    using Some assms compute_wan_rate_nonneg[of w ctx a b] by (cases r) (simp add: f64_add_nonneg)
qed (use assms in \<open>cases r; simp\<close>)

lemma total_rate_nonneg: "nonneg_pair (total_wan_rate wans ctx)"
proof -
  have "nonneg_pair (foldl (\<lambda>(dl, ul) wan. case compute_wan_rate wan ctx of
       Some (wdl, wul) \<Rightarrow> (f64_add dl wdl, f64_add ul wul) | None \<Rightarrow> (dl, ul)) r wans)"
    if "nonneg_pair r" for r
    using that
  proof (induction wans arbitrary: r)
    case (Cons w wans)
    show ?case using Cons.IH[OF add_wan_rate_nonneg[OF Cons.prems, of w ctx]] by (cases r) simp
  qed simp
  then show ?thesis by (simp add: total_wan_rate_def)
qed

text \<open>Every rate a snapshot shows.\<close>

definition snapshot_rates :: "dashboard_snapshot \<Rightarrow> f64 list" where
  "snapshot_rates s =
     concat (map (\<lambda>w. [we_download_bps w, we_upload_bps w]) (ds_wans s)) @
     concat (map (\<lambda>w. [wi_download_bps w, wi_upload_bps w]) (ds_wans_isp s)) @
     concat (map (\<lambda>p. [tp_download_bps p, tp_upload_bps p]) (tsn_points (ds_traffic s) @ ds_wan_traffic_points s)) @
     concat (map (\<lambda>i. [ist_rx_bps i, ist_tx_bps i]) (ds_interface_statuses s)) @
     [ii_download_bps (ds_isp s), ii_upload_bps (ds_isp s)]"

lemma snapshot_fields:
  fixes now d previous latency stability usage
  defines "s \<equiv> to_dashboard_snapshot now d previous latency stability usage"
    and "wans \<equiv> resolve_router_wans d" and "ctx \<equiv> rate_context_of d previous"
  shows "ds_wans s = build_wan_entries wans ctx" "ds_wans_isp s = build_wan_isp_entries wans (rd_identity d)"
    "ds_traffic s = extract_traffic wans ctx now"
    "ds_wan_traffic_points s = build_wan_traffic_points wans ctx now"
    "ds_interface_statuses s = extract_interface_statuses (rd_interfaces d) ctx wans"
    "\<exists>counts. ds_isp s = extract_isp (rd_identity d) (primary_or_empty wans) wans ctx usage counts"
    "ds_gateway s = extract_gateway (primary_or_empty wans) wans (rd_dhcp_leases d) ctx"
    "ds_wifi s = extract_wifi (rd_wireless_clients d) (rd_arp_entries d) (rd_dhcp_leases d) (rd_ipv6_neighbors d)"
  unfolding s_def wans_def ctx_def by (auto simp: to_dashboard_snapshot_def Let_def)

text \<open>No rate of a snapshot is negative: neither those of the WANs and interfaces nor their
  sums, whatever the counters did since the last poll.\<close>

theorem snapshot_rates_nonnegative:
  "list_all nonneg (snapshot_rates (to_dashboard_snapshot now d previous latency stability usage))"
proof -
  let ?c = "rate_context_of d previous"
  obtain counts where isp: "ds_isp (to_dashboard_snapshot now d previous latency stability usage) =
      extract_isp (rd_identity d) (primary_or_empty (resolve_router_wans d)) (resolve_router_wans d) ?c usage counts"
    using snapshot_fields(6) by blast
  have "nonneg (we_download_bps (build_wan_entry ?c w)) \<and> nonneg (we_upload_bps (build_wan_entry ?c w))" for w
    by (auto simp: build_wan_entry_def split: prod.splits dest: wan_rate_nonneg)
  moreover have "nonneg (ist_rx_bps (interface_status_of ?c wans i)) \<and> nonneg (ist_tx_bps (interface_status_of ?c wans i))" for wans i
    by (auto simp: interface_status_of_def Let_def split: prod.splits dest: interface_rates_nonneg)
  moreover have "nonneg (tp_download_bps p) \<and> nonneg (tp_upload_bps p)"
    if "p \<in> set (tsn_points (extract_traffic wans ?c now))" for p wans
    using that total_rate_nonneg[of wans ?c] by (auto simp: extract_traffic_def Let_def split: if_splits)
  moreover have "nonneg (tp_download_bps p) \<and> nonneg (tp_upload_bps p)"
    if "p \<in> set (build_wan_traffic_points wans ?c now)" for p wans
    using that wan_rate_nonneg[OF prod.collapse[symmetric]]
    by (auto simp: build_wan_traffic_points_def List.map_filter_def Let_def split: if_splits)
  moreover have "nonneg (ii_download_bps (extract_isp j p wans ?c usage counts)) \<and>
      nonneg (ii_upload_bps (extract_isp j p wans ?c usage counts))" for j p wans
    by (auto simp: extract_isp_def split: prod.splits dest: wan_rate_nonneg)
  ultimately show ?thesis
    unfolding snapshot_rates_def snapshot_fields isp
    by (auto simp: list_all_iff build_wan_entries_def build_wan_isp_entries_def extract_interface_statuses_def)
qed

text \<open>The WAN lists of a snapshot agree with each other and with the resolved WANs, entry by
  entry; gateway and ISP are online exactly when some WAN is active, reachable and online, and
  then the first entry is the primary one and the one the gateway card shows.\<close>

theorem snapshot_wans_agree:
  fixes now d previous latency stability usage
  defines "s \<equiv> to_dashboard_snapshot now d previous latency stability usage"
    and "wans \<equiv> resolve_router_wans d"
  shows "map (\<lambda>w. (we_wan_name w, we_online w, we_is_primary w)) (ds_wans s)
       = map (\<lambda>w. (wn_interface_name w, wn_online w, wn_is_primary w)) wans \<and>
     map (\<lambda>w. (wi_wan_name w, wi_online w)) (ds_wans_isp s)
       = map (\<lambda>w. (wn_interface_name w, wn_online w)) wans \<and>
     gi_wans (ds_gateway s) = ds_wans s \<and> ii_wans (ds_isp s) = ds_wans_isp s \<and>
     (gi_wan_online (ds_gateway s) \<longleftrightarrow> list_ex primary_candidate wans) \<and>
     (ii_online (ds_isp s) \<longleftrightarrow> list_ex primary_candidate wans) \<and>
     (list_ex we_is_primary (take 1 (ds_wans s)) \<longleftrightarrow> list_ex primary_candidate wans) \<and>
     gi_wan_interface (ds_gateway s) =
       (if list_ex primary_candidate wans then we_wan_name (hd (ds_wans s)) else DASH)"
proof -
  note best = primary_wan_spec[of "rd_ip_addresses d" "rd_interfaces d" "rd_routes d" "rd_ipv6_addresses d"
      "rd_ipv6_routes d", folded resolve_router_wans_def, folded wans_def]
  have some: "list_ex wn_is_primary wans \<longleftrightarrow> list_ex primary_candidate wans"
    using best unfolding list_ex_iff by blast
  obtain counts where isp: "ds_isp s =
      extract_isp (rd_identity d) (primary_or_empty wans) wans (rate_context_of d previous) usage counts"
    using snapshot_fields(6) unfolding s_def wans_def by blast
  have pe: "primary_or_empty wans = (if list_ex primary_candidate wans then hd wans else empty_wan)"
    and first: "list_ex wn_is_primary (take 1 wans) \<longleftrightarrow> list_ex primary_candidate wans"
  proof -
    have *: "wans \<noteq> [] \<and> wn_is_primary (hd wans)" if "list_ex primary_candidate wans"
      using that some best by (fastforce simp: list_ex_iff)
    then show "list_ex wn_is_primary (take 1 wans) \<longleftrightarrow> list_ex primary_candidate wans"
      using some by (cases wans) auto
    show "primary_or_empty wans = (if list_ex primary_candidate wans then hd wans else empty_wan)"
    proof (cases "list_ex primary_candidate wans")
      case True
      then show ?thesis using * by (cases wans) (auto simp: primary_or_empty_def unwrap_or_def)
    next
      case False
      then have "find wn_is_primary wans = None" using some by (simp add: find_None_iff list_ex_iff)
      then show ?thesis using False by (simp add: primary_or_empty_def unwrap_or_def)
    qed
  qed
  have ne: "wans \<noteq> []" if "list_ex primary_candidate wans" using that by auto
  have name: "we_wan_name (hd (map (build_wan_entry c) wans)) = wn_interface_name (hd wans)"
    if "list_ex primary_candidate wans" for c
    using ne[OF that] by (cases wans) (simp_all add: build_wan_entry_def split: prod.splits)
  have prim: "we_is_primary (build_wan_entry c w) = wn_is_primary w" for c w
    by (simp add: build_wan_entry_def split: prod.splits)
  have heads: "list_ex we_is_primary (take 1 (build_wan_entries wans c)) \<longleftrightarrow> list_ex primary_candidate wans" for c
    unfolding first[symmetric] by (cases wans) (simp_all add: build_wan_entries_def prim)
  show ?thesis
    unfolding isp unfolding s_def snapshot_fields wans_def[symmetric] heads
    by (simp add: some name pe empty_wan_def build_wan_entries_def build_wan_entry_def build_wan_isp_entries_def extract_gateway_def
        extract_isp_def split: prod.splits)
qed


text \<open>The interface list of a snapshot holds exactly the interfaces of the router that are
  not the loopback, ordered by kind and name, and marks as WAN exactly those that carry an
  enabled default route.\<close>

theorem interface_statuses_complete:
  fixes now d previous latency stability usage
  defines "ss \<equiv> ds_interface_statuses (to_dashboard_snapshot now d previous latency stability usage)"
  shows "sorted (map status_sort_key ss) \<and>
     mset (map ist_name ss) = mset (map if_name
       (filter (\<lambda>i. if_default_name i \<noteq> ''lo'' \<and> if_name i \<noteq> ''lo'') (rd_interfaces d))) \<and>
     list_all (\<lambda>t. (ist_is_wan t = Some True \<longleftrightarrow>
        ist_name t \<in> resolve_route_iface ` set (enabled_defaults (rd_routes d) (rd_ipv6_routes d))) \<and>
        ist_wan_name t = (if ist_is_wan t = Some True then Some (ist_name t) else None)) ss"
proof -
  let ?is = "filter (\<lambda>i. if_default_name i \<noteq> ''lo'' \<and> if_name i \<noteq> ''lo'') (rd_interfaces d)"
  let ?of = "interface_status_of (rate_context_of d previous) (resolve_router_wans d)"
  have ss: "ss = sort_key status_sort_key (map ?of ?is)"
    by (simp add: ss_def snapshot_fields extract_interface_statuses_def)
  have name: "ist_name (?of i) = if_name i" for i
    by (simp add: interface_status_of_def Let_def split: prod.splits)
  have wan: "ist_is_wan (?of i) = (if if_name i \<in> wn_interface_name ` set (resolve_router_wans d) then Some True else None)"
    "ist_wan_name (?of i) = (if if_name i \<in> wn_interface_name ` set (resolve_router_wans d) then Some (if_name i) else None)" for i
    by (simp_all add: interface_status_of_def Let_def split: prod.splits)
  have names: "wn_interface_name ` set (resolve_router_wans d)
      = resolve_route_iface ` set (enabled_defaults (rd_routes d) (rd_ipv6_routes d))"
    unfolding resolve_router_wans_def by (rule wan_names_of_routes)
  have "mset (map ist_name ss) = mset (map (ist_name \<circ> ?of) ?is)"
    unfolding ss by (simp add: multiset.map_comp)
  also have "map (ist_name \<circ> ?of) ?is = map if_name ?is" by (simp add: name)
  finally show ?thesis unfolding ss by (simp add: name wan names list_all_iff)
qed

section \<open>Devices\<close>

definition mac_of :: "device \<Rightarrow> string" where
  "mac_of v = to_lowercase (dv_mac v)"

lemma filtered_union:
  "K \<union> g ` {n \<in> A. L n \<and> g n \<notin> K} \<union> g ` {n \<in> V. L n \<and> g n \<notin> K \<union> g ` {n \<in> A. L n \<and> g n \<notin> K}}
     = K \<union> g ` {n \<in> A \<union> V. L n}"
proof -
  have "g ` {n \<in> A. L n} \<subseteq> K \<union> g ` {n \<in> A. L n \<and> g n \<notin> K}" by blast
  moreover have "g ` {n \<in> V. L n} \<subseteq> B \<union> g ` {n \<in> V. L n \<and> g n \<notin> B}" for B by blast
  ultimately show ?thesis by blast
qed

text \<open>The devices of a snapshot are exactly the wireless clients and the live neighbors of
  both address families, told apart by lower-case MAC address: every such address appears, no
  other does, and a device found in a neighbor table is not listed again for an address that
  the wireless table, or for an IPv6 neighbor also the ARP table, already had.\<close>

theorem devices_are_known_macs:
  fixes clients arp leases ipv6_neighbors
  defines "w \<equiv> extract_wifi clients arp leases ipv6_neighbors"
  shows "mac_of ` set (wf_devices w) =
      to_lowercase ` (wc_mac_address ` set clients \<union> nb_mac_address ` {n \<in> set arp \<union> set ipv6_neighbors. live_neighbor n}) \<and>
    (\<exists>ds as vs. wf_devices w = ds @ as @ vs \<and> length ds = length clients \<and>
       mac_of ` set ds = to_lowercase ` wc_mac_address ` set clients \<and>
       mac_of ` set as \<inter> mac_of ` set ds = {} \<and> mac_of ` set vs \<inter> (mac_of ` set ds \<union> mac_of ` set as) = {})"
proof -
  let ?known = "set (map (to_lowercase \<circ> wc_mac_address) clients)"
  let ?as = "filter (\<lambda>n. live_neighbor n \<and> to_lowercase (nb_mac_address n) \<notin> ?known) arp"
  let ?known' = "?known \<union> set (map (to_lowercase \<circ> nb_mac_address) ?as)"
  let ?vs = "filter (\<lambda>n. live_neighbor n \<and> to_lowercase (nb_mac_address n) \<notin> ?known') ipv6_neighbors"
  let ?D = "map (wireless_device arp leases) clients"
  let ?A = "map (neighbor_device leases) ?as"
  let ?V = "map (neighbor_device leases) ?vs"
  have dev: "wf_devices w = ?D @ ?A @ ?V" by (simp add: w_def extract_wifi_def Let_def)
  have mac: "mac_of (wireless_device arp leases c) = to_lowercase (wc_mac_address c)"
    "mac_of (neighbor_device leases n) = to_lowercase (nb_mac_address n)" for c n
    by (simp_all add: mac_of_def wireless_device_def neighbor_device_def Let_def)
  have macs: "mac_of ` set ?D = ?known" "mac_of ` set ?A = (to_lowercase \<circ> nb_mac_address) ` set ?as"
    "mac_of ` set ?V = (to_lowercase \<circ> nb_mac_address) ` set ?vs"
    by (auto simp: mac image_iff)
  have disj: "mac_of ` set ?A \<inter> mac_of ` set ?D = {}" "mac_of ` set ?V \<inter> (mac_of ` set ?D \<union> mac_of ` set ?A) = {}"
    unfolding macs by auto
  have all: "?known \<union> (to_lowercase \<circ> nb_mac_address) ` set ?as \<union> (to_lowercase \<circ> nb_mac_address) ` set ?vs =
      to_lowercase ` (wc_mac_address ` set clients \<union> nb_mac_address ` {n \<in> set arp \<union> set ipv6_neighbors. live_neighbor n})"
    using filtered_union[of ?known "to_lowercase \<circ> nb_mac_address" "set arp" live_neighbor "set ipv6_neighbors"]
    by (simp add: image_Un image_comp conj_commute)
  have D: "mac_of ` set ?D = to_lowercase ` wc_mac_address ` set clients" unfolding macs by (simp add: image_comp)
  have "mac_of ` set (wf_devices w) = mac_of ` set ?D \<union> mac_of ` set ?A \<union> mac_of ` set ?V"
    unfolding dev by (simp add: image_Un Un_assoc)
  then have first: "mac_of ` set (wf_devices w) = to_lowercase `
      (wc_mac_address ` set clients \<union> nb_mac_address ` {n \<in> set arp \<union> set ipv6_neighbors. live_neighbor n})"
    unfolding macs all .
  show ?thesis
    by (rule conjI[OF first], rule exI[of _ ?D], rule exI[of _ ?A], rule exI[of _ ?V])
      (intro conjI dev length_map D disj)
qed

section \<open>Uptime\<close>

lemma uptime_digits:
  "list_all is_ascii_digit ds \<Longrightarrow> uptime_seconds_from cur acc (ds @ s) = uptime_seconds_from (cur @ ds) acc s"
  by (induction ds arbitrary: cur) auto

lemma uptime_part:
  assumes "n < 2 ^ 64" "is_ascii_alphabetic c" "\<not> is_ascii_digit c"
  shows "uptime_seconds_from [] acc (show_nat n @ c # s) = uptime_seconds_from [] (acc + of_nat n * unit_seconds c) s"
  using assms by (simp add: uptime_digits show_nat_digits parse_u64_def unwrap_or_def)

lemma to_lowercase_digits: "list_all is_ascii_digit ds \<Longrightarrow> to_lowercase ds = ds"
  by (induction ds) (auto simp: to_lowercase_def to_ascii_lower_def is_ascii_digit_def Let_def)

lemma to_lowercase_append: "to_lowercase (a @ b) = to_lowercase a @ to_lowercase b"
  by (simp add: to_lowercase_def)

text \<open>An uptime as RouterOS writes it, in weeks, days, hours, minutes and seconds, is read back
  as its number of seconds, for any counts whose total fits in 64 bits.\<close>

theorem uptime_roundtrip:
  assumes "604800 * w + 86400 * d + 3600 * h + 60 * m + s < 2 ^ 64"
  shows "unat (parse_routeros_uptime_to_seconds (show_nat w @ ''w'' @ show_nat d @ ''d'' @ show_nat h @ ''h''
     @ show_nat m @ ''m'' @ show_nat s @ ''s'')) = 604800 * w + 86400 * d + 3600 * h + 60 * m + s"
proof -
  have fits: "w < 2 ^ 64" "d < 2 ^ 64" "h < 2 ^ 64" "m < 2 ^ 64" "s < 2 ^ 64" using assms by simp_all
  let ?u = "show_nat w @ CHR ''w'' # show_nat d @ CHR ''d'' # show_nat h @ CHR ''h'' # show_nat m @ CHR ''m'' # show_nat s @ CHR ''s'' # []"
  have letters: "is_ascii_alphabetic c \<and> \<not> is_ascii_digit c \<and> to_ascii_lower c = c"
    if "c \<in> set ''wdhms''" for c
    using that by (auto simp: is_ascii_alphabetic_def is_ascii_digit_def to_ascii_lower_def Let_def)
  have "to_lowercase ?u = ?u"
    using letters by (simp add: to_lowercase_append to_lowercase_digits show_nat_digits) (simp add: to_lowercase_def to_lowercase_digits[OF show_nat_digits, unfolded to_lowercase_def])
  then have "parse_routeros_uptime_to_seconds ?u
     = of_nat w * 604800 + of_nat d * 86400 + of_nat h * 3600 + of_nat m * 60 + of_nat s"
    using letters fits by (simp add: parse_routeros_uptime_to_seconds_def uptime_part unit_seconds_def)
  also have "\<dots> = of_nat (604800 * w + 86400 * d + 3600 * h + 60 * m + s)" by simp
  finally have v: "parse_routeros_uptime_to_seconds ?u = of_nat (604800 * w + 86400 * d + 3600 * h + 60 * m + s)" .
  have "unat (of_nat (604800 * w + 86400 * d + 3600 * h + 60 * m + s) :: u64) = 604800 * w + 86400 * d + 3600 * h + 60 * m + s"
    unfolding unat_of_nat using assms by (simp del: of_nat_add of_nat_mult)
  then show ?thesis using v by (simp del: of_nat_add of_nat_mult)
qed

theorem uptime_roundtrip_witness:
  "unat (parse_routeros_uptime_to_seconds (show_nat 1 @ ''w'' @ show_nat 2 @ ''d'' @ show_nat 20 @ ''h''
     @ show_nat 12 @ ''m'' @ show_nat 5 @ ''s'')) = 850325"
  using uptime_roundtrip[of 1 2 20 12 5] by simp

end
