(* ===== verification/Ws_Limits.thy ===== *)
theory Ws_Limits
  imports Ip_Text Contracts
begin

text \<open>
  The admission of WebSocket connections: the limits per server, session and source address
  (\<open>ws/limits.rs\<close>) and the count of live sessions that shutdown waits for (\<open>ws/tracker.rs\<close>).
  A permit is the value the connection task holds; dropping it gives its place back.
\<close>

section \<open>Addresses\<close>

text \<open>\<open>Ipv6Addr::to_ipv4_mapped\<close>: an address \<open>::ffff:a.b.c.d\<close> is that IPv4 address.\<close>

definition normalize_ip :: "ip_addr \<Rightarrow> ip_addr" where
  "normalize_ip source = (case source of
      V4 octets \<Rightarrow> V4 octets
    | V6 groups \<Rightarrow>
        if take 6 groups = [0, 0, 0, 0, 0, 65535]
        then V4 (concat (map (\<lambda>g. [g div 256, g mod 256]) (drop 6 groups)))
        else V6 groups)"

section \<open>Limits\<close>

definition MAX_CONNECTIONS_GLOBAL :: nat where "MAX_CONNECTIONS_GLOBAL = 64"
definition MAX_CONNECTIONS_PER_SESSION :: nat where "MAX_CONNECTIONS_PER_SESSION = 4"
definition MAX_CONNECTIONS_PER_SOURCE :: nat where "MAX_CONNECTIONS_PER_SOURCE = 16"

datatype ws_connection_limit = GlobalLimit | SessionLimit | SourceLimit

record connection_counts =
  cc_total :: nat
  cc_by_session :: "string \<rightharpoonup> nat"
  cc_by_source :: "ip_addr \<rightharpoonup> nat"

record ws_connection_limiter =
  wl_counts :: connection_counts
  wl_global_limit :: nat
  wl_session_limit :: nat
  wl_source_limit :: nat

record ws_connection_permit =
  wp_session_id :: string
  wp_source :: ip_addr

definition new_limiter :: "nat \<Rightarrow> nat \<Rightarrow> nat \<Rightarrow> ws_connection_limiter" where
  "new_limiter global session source =
     \<lparr>wl_counts = \<lparr>cc_total = 0, cc_by_session = Map.empty, cc_by_source = Map.empty\<rparr>,
      wl_global_limit = global, wl_session_limit = session, wl_source_limit = source\<rparr>"

definition count_of :: "('k \<rightharpoonup> nat) \<Rightarrow> 'k \<Rightarrow> nat" where
  "count_of counts k = (case counts k of None \<Rightarrow> 0 | Some n \<Rightarrow> n)"

definition try_acquire ::
  "ws_connection_limiter \<Rightarrow> string \<Rightarrow> ip_addr \<Rightarrow>
   (ws_connection_limit + ws_connection_permit) \<times> ws_connection_limiter" where
  "try_acquire l session_id source =
     (let source = normalize_ip source; counts = wl_counts l in
      if wl_global_limit l \<le> cc_total counts then (Inl GlobalLimit, l)
      else if wl_session_limit l \<le> count_of (cc_by_session counts) session_id then (Inl SessionLimit, l)
      else if wl_source_limit l \<le> count_of (cc_by_source counts) source then (Inl SourceLimit, l)
      else (Inr \<lparr>wp_session_id = session_id, wp_source = source\<rparr>,
            l\<lparr>wl_counts :=
              \<lparr>cc_total = cc_total counts + 1,
               cc_by_session = (cc_by_session counts)(session_id \<mapsto> count_of (cc_by_session counts) session_id + 1),
               cc_by_source = (cc_by_source counts)(source \<mapsto> count_of (cc_by_source counts) source + 1)\<rparr>\<rparr>))"

definition decrement_or_remove :: "'k \<Rightarrow> ('k \<rightharpoonup> nat) \<Rightarrow> ('k \<rightharpoonup> nat)" where
  "decrement_or_remove k counts = (case counts k of
      None \<Rightarrow> counts
    | Some n \<Rightarrow> if n \<le> 1 then counts(k := None) else counts(k \<mapsto> n - 1))"

definition drop_permit :: "ws_connection_permit \<Rightarrow> ws_connection_limiter \<Rightarrow> ws_connection_limiter" where
  "drop_permit p l = l\<lparr>wl_counts :=
     \<lparr>cc_total = cc_total (wl_counts l) - 1,
      cc_by_session = decrement_or_remove (wp_session_id p) (cc_by_session (wl_counts l)),
      cc_by_source = decrement_or_remove (wp_source p) (cc_by_source (wl_counts l))\<rparr>\<rparr>"

section \<open>The session tracker\<close>

record ws_session_tracker =
  tk_accepting :: bool
  tk_active :: nat
  tk_notified :: bool

definition new_tracker :: ws_session_tracker where
  "new_tracker = \<lparr>tk_accepting = True, tk_active = 0, tk_notified = False\<rparr>"

text \<open>\<open>Notify::notify_one\<close> leaves one permit for the next waiter.\<close>

definition notify_if_empty :: "ws_session_tracker \<Rightarrow> ws_session_tracker" where
  "notify_if_empty t = (if tk_active t = 0 then t\<lparr>tk_notified := True\<rparr> else t)"

definition try_register :: "ws_session_tracker \<Rightarrow> bool \<times> ws_session_tracker" where
  "try_register t = (if \<not> tk_accepting t then (False, t) else (True, t\<lparr>tk_active := tk_active t + 1\<rparr>))"

definition stop_accepting :: "ws_session_tracker \<Rightarrow> ws_session_tracker" where
  "stop_accepting t = notify_if_empty (t\<lparr>tk_accepting := False\<rparr>)"

definition drop_guard :: "ws_session_tracker \<Rightarrow> ws_session_tracker" where
  "drop_guard t = notify_if_empty (t\<lparr>tk_active := tk_active t - 1\<rparr>)"

section \<open>Upgrades\<close>

text \<open>\<open>ws_upgrade\<close> after the address is known: the permit is dropped again when the tracker
  refuses.\<close>

datatype ws_refusal = TooManyConnections | ShuttingDown

definition ws_upgrade ::
  "string \<Rightarrow> ip_addr \<Rightarrow> ws_connection_limiter \<Rightarrow> ws_session_tracker \<Rightarrow>
   (ws_refusal + ws_connection_permit) \<times> ws_connection_limiter \<times> ws_session_tracker" where
  "ws_upgrade session_id source l t = (case try_acquire l session_id source of
      (Inl _, l') \<Rightarrow> (Inl TooManyConnections, l', t)
    | (Inr p, l') \<Rightarrow> (case try_register t of
          (False, t') \<Rightarrow> (Inl ShuttingDown, drop_permit p l', t')
        | (True, t') \<Rightarrow> (Inr p, l', t')))"

section \<open>The server and its connections\<close>

text \<open>The limiter and the tracker with the connections that are open: each holds its permit and
  its guard until it closes.\<close>

record ws_server =
  sv_limiter :: ws_connection_limiter
  sv_tracker :: ws_session_tracker
  sv_open :: "ws_connection_permit list"

datatype ws_call = Open string ip_addr | Close nat | Stop

definition close_connection :: "nat \<Rightarrow> ws_server \<Rightarrow> ws_server" where
  "close_connection i v = (if i < length (sv_open v)
     then v\<lparr>sv_limiter := drop_permit (sv_open v ! i) (sv_limiter v),
            sv_tracker := drop_guard (sv_tracker v),
            sv_open := take i (sv_open v) @ drop (Suc i) (sv_open v)\<rparr>
     else v)"

fun server_step :: "ws_call \<Rightarrow> ws_server \<Rightarrow> ws_server" where
  "server_step (Open session_id source) v =
     (case ws_upgrade session_id source (sv_limiter v) (sv_tracker v) of (r, l, t) \<Rightarrow>
        v\<lparr>sv_limiter := l, sv_tracker := t,
          sv_open := (case r of Inl _ \<Rightarrow> sv_open v | Inr p \<Rightarrow> sv_open v @ [p])\<rparr>)"
| "server_step (Close i) v = close_connection i v"
| "server_step Stop v = v\<lparr>sv_tracker := stop_accepting (sv_tracker v)\<rparr>"

definition new_server :: ws_server where
  "new_server = \<lparr>sv_limiter = new_limiter MAX_CONNECTIONS_GLOBAL MAX_CONNECTIONS_PER_SESSION MAX_CONNECTIONS_PER_SOURCE,
     sv_tracker = new_tracker, sv_open = []\<rparr>"

section \<open>The counters are exact\<close>

abbreviation opened :: "('a \<Rightarrow> 'k) \<Rightarrow> 'k \<Rightarrow> 'a list \<Rightarrow> nat" where
  "opened f k ps \<equiv> length (filter (\<lambda>p. f p = k) ps)"

definition counts_exactly :: "('k \<rightharpoonup> nat) \<Rightarrow> ('a \<Rightarrow> 'k) \<Rightarrow> 'a list \<Rightarrow> bool" where
  "counts_exactly m f ps \<longleftrightarrow> (\<forall>k. m k = (if opened f k ps = 0 then None else Some (opened f k ps)))"

lemma count_of_exact: "counts_exactly m f ps \<Longrightarrow> count_of m k = opened f k ps"
  by (auto simp: counts_exactly_def count_of_def)

lemma counts_exactly_snoc:
  "counts_exactly m f ps \<Longrightarrow> counts_exactly (m(f p \<mapsto> Suc (count_of m (f p)))) f (ps @ [p])"
  by (auto simp: counts_exactly_def count_of_def)

lemma opened_remove:
  assumes "i < length ps"
  shows "opened f k ps = opened f k (take i ps @ drop (Suc i) ps) + (if f (ps ! i) = k then 1 else 0)"
proof -
  have "opened f k (take i ps @ ps ! i # drop (Suc i) ps)
      = opened f k (take i ps @ drop (Suc i) ps) + (if f (ps ! i) = k then 1 else 0)" by simp
  then show ?thesis by (simp only: id_take_nth_drop[OF assms, symmetric])
qed

lemma counts_exactly_remove:
  assumes "counts_exactly m f ps" "i < length ps"
  shows "counts_exactly (decrement_or_remove (f (ps ! i)) m) f (take i ps @ drop (Suc i) ps)"
  using assms(1) opened_remove[OF assms(2), of f]
  by (auto simp: counts_exactly_def decrement_or_remove_def split: option.splits if_splits)

definition server_ok :: "ws_server \<Rightarrow> bool" where
  "server_ok v \<longleftrightarrow>
     cc_total (wl_counts (sv_limiter v)) = length (sv_open v) \<and>
     tk_active (sv_tracker v) = length (sv_open v) \<and>
     counts_exactly (cc_by_session (wl_counts (sv_limiter v))) wp_session_id (sv_open v) \<and>
     counts_exactly (cc_by_source (wl_counts (sv_limiter v))) wp_source (sv_open v) \<and>
     wl_global_limit (sv_limiter v) = MAX_CONNECTIONS_GLOBAL \<and>
     wl_session_limit (sv_limiter v) = MAX_CONNECTIONS_PER_SESSION \<and>
     wl_source_limit (sv_limiter v) = MAX_CONNECTIONS_PER_SOURCE \<and>
     length (sv_open v) \<le> MAX_CONNECTIONS_GLOBAL \<and>
     (\<forall>s. opened wp_session_id s (sv_open v) \<le> MAX_CONNECTIONS_PER_SESSION) \<and>
     (\<forall>a. opened wp_source a (sv_open v) \<le> MAX_CONNECTIONS_PER_SOURCE)"


lemma new_server_ok: "server_ok new_server"
  by (simp add: server_ok_def new_server_def new_limiter_def new_tracker_def counts_exactly_def)

lemmas limiter_defs = try_acquire_def drop_permit_def try_register_def stop_accepting_def drop_guard_def
  notify_if_empty_def

lemma drop_fresh_permit:
  assumes "try_acquire l s a = (Inr p, l')"
    and "counts_exactly (cc_by_session (wl_counts l)) wp_session_id ps"
    and "counts_exactly (cc_by_source (wl_counts l)) wp_source ps"
  shows "drop_permit p l' = l"
proof -
  have undo: "decrement_or_remove k (m(k \<mapsto> count_of m k + 1)) = m"
    if "counts_exactly m f ps" for m :: "'k \<rightharpoonup> nat" and k f
    using that by (auto simp: decrement_or_remove_def counts_exactly_def count_of_def fun_eq_iff)
  show ?thesis
    using assms(1) undo[OF assms(2)] undo[OF assms(3)]
    by (auto simp: try_acquire_def drop_permit_def Let_def split: if_splits)
qed

lemma upgrade_ok:
  assumes ok: "server_ok v" and up: "ws_upgrade s a (sv_limiter v) (sv_tracker v) = (r, l, t)"
  shows "r = Inl x \<Longrightarrow> l = sv_limiter v \<and> t = sv_tracker v"
    and "r = Inr p \<Longrightarrow> server_ok (v\<lparr>sv_limiter := l, sv_tracker := t, sv_open := sv_open v @ [p]\<rparr>)"
proof -
  note ok' = ok[unfolded server_ok_def]
  assume "r = Inl x"
  then show "l = sv_limiter v \<and> t = sv_tracker v"
    using up ok' drop_fresh_permit[of "sv_limiter v" s a]
    by (fastforce simp: ws_upgrade_def try_register_def try_acquire_def Let_def split: prod.splits sum.splits if_splits)
next
  note ok' = ok[unfolded server_ok_def]
  let ?c = "wl_counts (sv_limiter v)"
  assume "r = Inr p"
  then have acq: "try_acquire (sv_limiter v) s a = (Inr p, l)" and t: "t = (sv_tracker v)\<lparr>tk_active := tk_active (sv_tracker v) + 1\<rparr>"
    using up by (auto simp: ws_upgrade_def try_register_def split: prod.splits sum.splits if_splits)
  have c: "count_of (cc_by_session ?c) k = opened wp_session_id k (sv_open v)"
    "count_of (cc_by_source ?c) a' = opened wp_source a' (sv_open v)" for k a'
    using ok' by (simp_all add: count_of_exact)
  from acq have p: "p = \<lparr>wp_session_id = s, wp_source = normalize_ip a\<rparr>"
    and room: "length (sv_open v) < MAX_CONNECTIONS_GLOBAL" "opened wp_session_id s (sv_open v) < MAX_CONNECTIONS_PER_SESSION"
      "opened wp_source (normalize_ip a) (sv_open v) < MAX_CONNECTIONS_PER_SOURCE"
    and l: "l = (sv_limiter v)\<lparr>wl_counts := \<lparr>cc_total = cc_total ?c + 1,
       cc_by_session = (cc_by_session ?c)(wp_session_id p \<mapsto> count_of (cc_by_session ?c) (wp_session_id p) + 1),
       cc_by_source = (cc_by_source ?c)(wp_source p \<mapsto> count_of (cc_by_source ?c) (wp_source p) + 1)\<rparr>\<rparr>"
    using ok' by (auto simp: try_acquire_def Let_def c split: if_splits)
  have "counts_exactly (cc_by_session (wl_counts l)) wp_session_id (sv_open v @ [p])"
    "counts_exactly (cc_by_source (wl_counts l)) wp_source (sv_open v @ [p])"
    unfolding l using ok' by (simp_all add: counts_exactly_snoc)
  moreover have "opened wp_session_id k (sv_open v @ [p]) \<le> MAX_CONNECTIONS_PER_SESSION" for k
    using ok' room p by (cases "k = s") (auto simp: Suc_le_eq)
  moreover have "opened wp_source k (sv_open v @ [p]) \<le> MAX_CONNECTIONS_PER_SOURCE" for k
    using ok' room p by (cases "k = normalize_ip a") (auto simp: Suc_le_eq)
  ultimately show "server_ok (v\<lparr>sv_limiter := l, sv_tracker := t, sv_open := sv_open v @ [p]\<rparr>)"
    using ok' room unfolding server_ok_def by (simp add: t l)
qed

lemma close_ok:
  assumes ok: "server_ok v" shows "server_ok (close_connection i v)"
proof (cases "i < length (sv_open v)")
  case True
  let ?ps = "take i (sv_open v) @ drop (Suc i) (sv_open v)"
  note ok' = ok[unfolded server_ok_def]
  have "counts_exactly (cc_by_session (wl_counts (sv_limiter (close_connection i v)))) wp_session_id ?ps"
    "counts_exactly (cc_by_source (wl_counts (sv_limiter (close_connection i v)))) wp_source ?ps"
    using ok' True by (simp_all add: close_connection_def drop_permit_def counts_exactly_remove)
  moreover have "opened wp_session_id k ?ps \<le> MAX_CONNECTIONS_PER_SESSION" for k
    using ok' opened_remove[OF True, of wp_session_id k] by (auto dest: spec[of _ k])
  moreover have "opened wp_source k ?ps \<le> MAX_CONNECTIONS_PER_SOURCE" for k
    using ok' opened_remove[OF True, of wp_source k] by (auto dest: spec[of _ k])
  moreover have "length (sv_open v) - Suc 0 \<le> MAX_CONNECTIONS_GLOBAL" using ok' by auto
  ultimately show ?thesis
    using ok' True unfolding server_ok_def by (simp add: close_connection_def limiter_defs)
qed (use ok in \<open>simp add: close_connection_def\<close>)

interpretation server: transition_system server_ok server_step
proof
  fix v call assume v: "server_ok v"
  show "server_ok (server_step call v)"
  proof (cases call)
    case (Open s a)
    obtain r l t where up: "ws_upgrade s a (sv_limiter v) (sv_tracker v) = (r, l, t)" by (cases "ws_upgrade s a (sv_limiter v) (sv_tracker v)")
    show ?thesis using Open upgrade_ok[OF v up] up v by (cases r) auto
  next
    case (Close i)
    then show ?thesis using close_ok[OF v] by simp
  next
    case Stop
    then show ?thesis using v by (simp add: server_ok_def limiter_defs)
  qed
qed

text \<open>Once shutdown has begun no connection is added, and when the last one is gone the waiter has
  been notified.\<close>

definition draining :: "ws_server \<Rightarrow> bool" where
  "draining v \<longleftrightarrow> \<not> tk_accepting (sv_tracker v) \<and> (sv_open v = [] \<longrightarrow> tk_notified (sv_tracker v))"

lemma upgrade_refused: "\<not> tk_accepting t \<Longrightarrow> ws_upgrade s a l t = (r, l', t') \<Longrightarrow> (\<exists>e. r = Inl e) \<and> t' = t"
  by (auto simp: ws_upgrade_def try_register_def split: prod.splits sum.splits if_splits)

interpretation shutdown: stable_fact server_ok server_step draining "\<lambda>_. True"
proof
  fix v call
  assume ok: "server_ok v" and d: "draining v"
  then have active: "tk_active (sv_tracker v) = length (sv_open v)" by (simp add: server_ok_def)
  show "draining (server_step call v)"
  proof (cases call)
    case (Open s a)
    obtain r l t where up: "ws_upgrade s a (sv_limiter v) (sv_tracker v) = (r, l, t)" by (cases "ws_upgrade s a (sv_limiter v) (sv_tracker v)")
    then show ?thesis using Open d upgrade_refused[OF _ up] by (auto simp: draining_def)
  next
    case (Close i)
    then show ?thesis using d active
      by (auto simp: draining_def close_connection_def drop_guard_def notify_if_empty_def)
  next
    case Stop
    then show ?thesis using d active by (auto simp: draining_def stop_accepting_def notify_if_empty_def)
  qed
qed

text \<open>C20: The connection limits hold exactly, whatever connections open and close in whatever
  order: there are never more than 64 connections, 4 of a session and 16 of an address, a new
  one is refused only for a limit that the open connections reach, a closed one gives its
  place back, and the tracker counts the open ones.\<close>

theorem ws_limits_exact:
  fixes calls
  defines "v \<equiv> fold server_step calls new_server"
  shows "length (sv_open v) \<le> 64 \<and> opened wp_session_id s (sv_open v) \<le> 4 \<and> opened wp_source a (sv_open v) \<le> 16 \<and>
    tk_active (sv_tracker v) = length (sv_open v) \<and>
    fst (try_acquire (sv_limiter v) s a) =
      (if length (sv_open v) = 64 then Inl GlobalLimit
       else if opened wp_session_id s (sv_open v) = 4 then Inl SessionLimit
       else if opened wp_source (normalize_ip a) (sv_open v) = 16 then Inl SourceLimit
       else Inr \<lparr>wp_session_id = s, wp_source = normalize_ip a\<rparr>)"
proof -
  have ok: "server_ok v" unfolding v_def by (rule server.runs[OF new_server_ok])
  then have c: "count_of (cc_by_session (wl_counts (sv_limiter v))) s = opened wp_session_id s (sv_open v)"
    "count_of (cc_by_source (wl_counts (sv_limiter v))) (normalize_ip a) = opened wp_source (normalize_ip a) (sv_open v)"
    by (simp_all add: server_ok_def count_of_exact)
  have le: "length (sv_open v) \<le> 64" "opened wp_session_id s (sv_open v) \<le> 4" "opened wp_source k (sv_open v) \<le> 16" for k
    using ok by (simp_all add: server_ok_def MAX_CONNECTIONS_GLOBAL_def MAX_CONNECTIONS_PER_SESSION_def MAX_CONNECTIONS_PER_SOURCE_def)
  have eq: "(m \<le> n) = (n = m)" if "n \<le> m" for m n :: nat using that by auto
  have "tk_active (sv_tracker v) = length (sv_open v)" using ok by (simp add: server_ok_def)
  moreover have "fst (try_acquire (sv_limiter v) s a) =
      (if length (sv_open v) = 64 then Inl GlobalLimit
       else if opened wp_session_id s (sv_open v) = 4 then Inl SessionLimit
       else if opened wp_source (normalize_ip a) (sv_open v) = 16 then Inl SourceLimit
       else Inr \<lparr>wp_session_id = s, wp_source = normalize_ip a\<rparr>)"
    using ok unfolding server_ok_def
    by (simp add: try_acquire_def Let_def c eq[OF le(1)] eq[OF le(2)] eq[OF le(3)]
        MAX_CONNECTIONS_GLOBAL_def MAX_CONNECTIONS_PER_SESSION_def MAX_CONNECTIONS_PER_SOURCE_def)
  ultimately show ?thesis using le by blast
qed

end
