(* ===== verification/Session_Store.thy ===== *)
theory Session_Store
  imports Contracts
begin

text \<open>
  The administrator, the setup token, the sessions and the pairing codes of the database
  (\<open>db/mod.rs\<close>, on the tables \<open>migrate_v3_security\<close> and \<open>migrate_v7_oidc_sessions\<close> create).
  A statement is a list operation; a violated constraint is the error \<open>SqliteFailure\<close>, and an
  error or a rollback leaves the tables as they were.  Blobs are byte strings; the clock, ids
  and hashes are arguments.
\<close>

section \<open>Rows\<close>

datatype sqlite_error = SqliteFailure | InvalidQuery

record admin_record =
  ad_username :: string
  ad_password_hash :: string
  ad_credential_version :: i64

record setup_token_row =
  st_token_hash :: string
  st_expires_at :: i64
  st_used_at :: "i64 option"

record auth_session_record =
  as_id :: string
  as_token_hash :: string
  as_csrf_hash :: string
  as_username :: string
  as_role :: string
  as_kind :: string
  as_auth_method :: string
  as_display_name :: string
  as_provider_name :: "string option"
  as_identity_issuer :: "string option"
  as_identity_subject :: "string option"
  as_oidc_policy_fingerprint :: "string option"
  as_label :: "string option"
  as_created_at :: i64
  as_last_seen_at :: i64
  as_idle_expires_at :: "i64 option"
  as_absolute_expires_at :: i64
  as_revoked_at :: "i64 option"

record pairing_record =
  pg_id :: string
  pg_role :: string
  pg_label :: string
  pg_expires_at :: i64

record pairing_row =
  pc_id :: string
  pc_code_hash :: string
  pc_role :: string
  pc_label :: string
  pc_created_by :: string
  pc_created_at :: i64
  pc_expires_at :: i64
  pc_used_at :: "i64 option"

text \<open>Both the administrator and the setup token are tables whose only row has the id 1.\<close>

record auth_db =
  adb_admin :: "admin_record option"
  adb_setup :: "setup_token_row option"
  adb_sessions :: "auth_session_record list"
  adb_pairings :: "pairing_row list"

definition empty_auth_db :: auth_db where
  "empty_auth_db = \<lparr>adb_admin = None, adb_setup = None, adb_sessions = [], adb_pairings = []\<rparr>"

section \<open>Statements\<close>

definition update_where :: "('a \<Rightarrow> bool) \<Rightarrow> ('a \<Rightarrow> 'a) \<Rightarrow> 'a list \<Rightarrow> 'a list" where
  "update_where P f xs = map (\<lambda>x. if P x then f x else x) xs"

definition changed_rows :: "('a \<Rightarrow> bool) \<Rightarrow> 'a list \<Rightarrow> nat" where
  "changed_rows P xs = length (filter P xs)"

definition roles :: "string list" where "roles = [''viewer'', ''admin'']"
definition kinds :: "string list" where "kinds = [''standard'', ''fixed'']"
definition auth_methods :: "string list" where "auth_methods = [''password'', ''oidc'', ''pairing'']"

definition session_checks :: "auth_session_record \<Rightarrow> bool" where
  "session_checks s \<longleftrightarrow> as_role s \<in> set roles \<and> as_kind s \<in> set kinds \<and> as_auth_method s \<in> set auth_methods"

definition insert_session_inner :: "auth_session_record \<Rightarrow> auth_db \<Rightarrow> sqlite_error + auth_db" where
  "insert_session_inner s db =
     (if as_id s \<in> as_id ` set (adb_sessions db) \<or> as_token_hash s \<in> as_token_hash ` set (adb_sessions db)
         \<or> \<not> session_checks s
      then Inl SqliteFailure
      else Inr (db\<lparr>adb_sessions := adb_sessions db @ [s]\<rparr>))"

definition insert_admin :: "string \<Rightarrow> string \<Rightarrow> auth_db \<Rightarrow> sqlite_error + auth_db" where
  "insert_admin username password_hash db = (case adb_admin db of
      Some _ \<Rightarrow> Inl SqliteFailure
    | None \<Rightarrow> Inr (db\<lparr>adb_admin := Some \<lparr>ad_username = username, ad_password_hash = password_hash,
        ad_credential_version = 1\<rparr>\<rparr>))"

definition insert_pairing_row :: "pairing_row \<Rightarrow> auth_db \<Rightarrow> sqlite_error + auth_db" where
  "insert_pairing_row p db =
     (if pc_id p \<in> pc_id ` set (adb_pairings db) \<or> pc_code_hash p \<in> pc_code_hash ` set (adb_pairings db)
         \<or> pc_role p \<notin> set roles \<or> pc_created_by p \<notin> as_id ` set (adb_sessions db)
      then Inl SqliteFailure
      else Inr (db\<lparr>adb_pairings := adb_pairings db @ [p]\<rparr>))"

definition unexpired :: "i64 \<Rightarrow> auth_session_record \<Rightarrow> bool" where
  "unexpired now s \<longleftrightarrow> as_revoked_at s = None \<and> now < as_absolute_expires_at s \<and>
     (case as_idle_expires_at s of None \<Rightarrow> True | Some t \<Rightarrow> now < t)"

definition is_session :: "string \<Rightarrow> string \<Rightarrow> string \<Rightarrow> string \<Rightarrow> auth_session_record \<Rightarrow> bool" where
  "is_session i username role kind s \<longleftrightarrow>
     as_id s = i \<and> as_username s = username \<and> as_role s = role \<and> as_kind s = kind"

definition session_is_active_inner ::
  "auth_db \<Rightarrow> string \<Rightarrow> string \<Rightarrow> string \<Rightarrow> string \<Rightarrow> i64 \<Rightarrow> bool" where
  "session_is_active_inner db i username role kind now =
     list_ex (\<lambda>s. is_session i username role kind s \<and> unexpired now s) (adb_sessions db)"

definition revoke_where :: "(auth_session_record \<Rightarrow> bool) \<Rightarrow> i64 \<Rightarrow> auth_db \<Rightarrow> auth_db" where
  "revoke_where P now db = db\<lparr>adb_sessions :=
     update_where (\<lambda>s. P s \<and> as_revoked_at s = None) (\<lambda>s. s\<lparr>as_revoked_at := Some now\<rparr>) (adb_sessions db)\<rparr>"

text \<open>A transaction: an error drops its changes.\<close>

definition in_tx :: "auth_db \<Rightarrow> sqlite_error + ('a \<times> auth_db) \<Rightarrow> (sqlite_error + 'a) \<times> auth_db" where
  "in_tx db m = (case m of Inl e \<Rightarrow> (Inl e, db) | Inr (x, db') \<Rightarrow> (Inr x, db'))"

section \<open>The administrator\<close>

definition create_admin :: "string \<Rightarrow> string \<Rightarrow> auth_db \<Rightarrow> (sqlite_error + unit) \<times> auth_db" where
  "create_admin username password_hash db =
     in_tx db (and_then (insert_admin username password_hash db) (\<lambda>db'. Inr ((), db')))"

text \<open>\<open>now\<close> is \<open>unixepoch()\<close>.\<close>

definition replace_admin_password ::
  "string \<Rightarrow> string \<Rightarrow> i64 \<Rightarrow> auth_db \<Rightarrow> (sqlite_error + unit) \<times> auth_db" where
  "replace_admin_password username password_hash now db =
     (let db1 = db\<lparr>adb_admin := map_option (\<lambda>a. a\<lparr>ad_username := username, ad_password_hash := password_hash,
                 ad_credential_version := ad_credential_version a + 1\<rparr>) (adb_admin db)\<rparr>;
          db2 = revoke_where (\<lambda>_. True) now db1;
          db3 = db2\<lparr>adb_pairings := update_where (\<lambda>p. pc_used_at p = None)
                 (\<lambda>p. p\<lparr>pc_used_at := Some now\<rparr>) (adb_pairings db2)\<rparr> in
      in_tx db (Inr ((), db3)))"

section \<open>The setup token\<close>

definition store_setup_token_if_no_admin ::
  "string \<Rightarrow> i64 \<Rightarrow> auth_db \<Rightarrow> (sqlite_error + bool) \<times> auth_db" where
  "store_setup_token_if_no_admin token_hash expires_at db =
     (if adb_admin db \<noteq> None then (Inr False, db)
      else (Inr True, db\<lparr>adb_setup :=
        Some \<lparr>st_token_hash = token_hash, st_expires_at = expires_at, st_used_at = None\<rparr>\<rparr>))"

definition setup_token_usable :: "string \<Rightarrow> i64 \<Rightarrow> setup_token_row option \<Rightarrow> bool" where
  "setup_token_usable token_hash now t = (case t of None \<Rightarrow> False
     | Some t \<Rightarrow> st_token_hash t = token_hash \<and> st_used_at t = None \<and> now < st_expires_at t)"

definition setup_token_is_valid :: "string \<Rightarrow> i64 \<Rightarrow> auth_db \<Rightarrow> bool" where
  "setup_token_is_valid token_hash now db \<longleftrightarrow> setup_token_usable token_hash now (adb_setup db) \<and> adb_admin db = None"

definition expired_setup_token_hash :: "i64 \<Rightarrow> auth_db \<Rightarrow> string option" where
  "expired_setup_token_hash now db = (case adb_setup db of None \<Rightarrow> None
     | Some t \<Rightarrow> if st_used_at t = None \<and> st_expires_at t \<le> now then Some (st_token_hash t) else None)"

definition current_setup_token_hash :: "auth_db \<Rightarrow> string option" where
  "current_setup_token_hash db = (case adb_setup db of None \<Rightarrow> None
     | Some t \<Rightarrow> if st_used_at t = None then Some (st_token_hash t) else None)"

definition invalidate_setup_token_if_matches ::
  "string \<Rightarrow> i64 \<Rightarrow> auth_db \<Rightarrow> (sqlite_error + bool) \<times> auth_db" where
  "invalidate_setup_token_if_matches token_hash now db = (case adb_setup db of
      None \<Rightarrow> (Inr False, db)
    | Some t \<Rightarrow> if st_token_hash t = token_hash \<and> st_used_at t = None
        then (Inr True, db\<lparr>adb_setup := Some \<lparr>st_token_hash = [], st_expires_at = 0, st_used_at = Some now\<rparr>\<rparr>)
        else (Inr False, db))"

definition consume_setup_and_create_admin_and_session ::
  "string \<Rightarrow> i64 \<Rightarrow> string \<Rightarrow> string \<Rightarrow> auth_session_record \<Rightarrow> auth_db \<Rightarrow> (sqlite_error + bool) \<times> auth_db" where
  "consume_setup_and_create_admin_and_session token_hash now username password_hash session db =
     (if as_username session \<noteq> username \<or> as_role session \<noteq> ''admin'' \<or> as_kind session \<noteq> ''standard''
         \<or> as_auth_method session \<noteq> ''password''
      then (Inl InvalidQuery, db)
      else if \<not> setup_token_is_valid token_hash now db then (Inr False, db)
      else in_tx db
        (and_then (insert_admin username password_hash
            (db\<lparr>adb_setup := map_option (\<lambda>t. t\<lparr>st_used_at := Some now\<rparr>) (adb_setup db)\<rparr>)) (\<lambda>db1.
         and_then (insert_session_inner session db1) (\<lambda>db2. Inr (True, db2)))))"

section \<open>Sessions\<close>

definition insert_standard_session_if_admin_version ::
  "auth_session_record \<Rightarrow> i64 \<Rightarrow> auth_db \<Rightarrow> (sqlite_error + bool) \<times> auth_db" where
  "insert_standard_session_if_admin_version session expected_version db =
     (let unchanged = (case adb_admin db of None \<Rightarrow> False
        | Some a \<Rightarrow> ad_username a = as_username session \<and> ad_credential_version a = expected_version) in
      if \<not> unchanged \<or> as_kind session \<noteq> ''standard'' \<or> as_role session \<noteq> ''admin''
         \<or> as_auth_method session \<noteq> ''password''
      then (Inr False, db)
      else in_tx db (and_then (insert_session_inner session db) (\<lambda>db'. Inr (True, db'))))"

definition insert_oidc_session :: "auth_session_record \<Rightarrow> auth_db \<Rightarrow> (sqlite_error + unit) \<times> auth_db" where
  "insert_oidc_session session db =
     (if as_kind session \<noteq> ''standard'' \<or> as_auth_method session \<noteq> ''oidc'' \<or> as_identity_issuer session = None
         \<or> as_identity_subject session = None \<or> as_oidc_policy_fingerprint session = None
      then (Inl InvalidQuery, db)
      else in_tx db (and_then (insert_session_inner session db) (\<lambda>db'. Inr ((), db'))))"

definition session_by_token_hash :: "string \<Rightarrow> auth_db \<Rightarrow> auth_session_record option" where
  "session_by_token_hash token_hash db = find (\<lambda>s. as_token_hash s = token_hash) (adb_sessions db)"

definition IDLE_SECS :: int where "IDLE_SECS = 43200"

definition touched :: "i64 \<Rightarrow> auth_session_record \<Rightarrow> auth_session_record" where
  "touched now s = s\<lparr>as_last_seen_at := now,
     as_idle_expires_at := (if as_kind s = ''standard'' then Some (now + IDLE_SECS) else None)\<rparr>"

definition touch_session_if_active_throttled ::
  "string \<Rightarrow> string \<Rightarrow> string \<Rightarrow> string \<Rightarrow> i64 \<Rightarrow> i64 \<Rightarrow> auth_db \<Rightarrow> (sqlite_error + bool) \<times> auth_db" where
  "touch_session_if_active_throttled i username role kind now minimum_interval db =
     (let P = (\<lambda>s. is_session i username role kind s \<and> unexpired now s \<and>
            as_last_seen_at s \<le> now - minimum_interval);
          db' = db\<lparr>adb_sessions := update_where P (touched now) (adb_sessions db)\<rparr>;
          active = (if changed_rows P (adb_sessions db) = 1 then True
            else session_is_active_inner db' i username role kind now) in
      in_tx db (Inr (active, db')))"

definition list_sessions :: "auth_db \<Rightarrow> auth_session_record list" where
  "list_sessions db = sort_key (\<lambda>s. - as_created_at s) (adb_sessions db)"

definition revoke_session :: "string \<Rightarrow> i64 \<Rightarrow> auth_db \<Rightarrow> (sqlite_error + bool) \<times> auth_db" where
  "revoke_session i now db =
     (Inr (changed_rows (\<lambda>s. as_id s = i \<and> as_revoked_at s = None) (adb_sessions db) = 1),
      revoke_where (\<lambda>s. as_id s = i) now db)"

text \<open>A NULL fingerprint is another policy too.\<close>

definition revoke_oidc_sessions_with_other_policy ::
  "string option \<Rightarrow> i64 \<Rightarrow> auth_db \<Rightarrow> (sqlite_error + nat) \<times> auth_db" where
  "revoke_oidc_sessions_with_other_policy fingerprint now db =
     (let P = (\<lambda>s. as_auth_method s = ''oidc'' \<and>
            (case fingerprint of None \<Rightarrow> True | Some f \<Rightarrow> as_oidc_policy_fingerprint s \<noteq> Some f)) in
      (Inr (changed_rows (\<lambda>s. P s \<and> as_revoked_at s = None) (adb_sessions db)), revoke_where P now db))"

section \<open>Pairing codes\<close>

definition may_pair :: "auth_session_record \<Rightarrow> i64 \<Rightarrow> bool" where
  "may_pair s now \<longleftrightarrow> as_role s = ''admin'' \<and> unexpired now s"

definition credential_version_is :: "i64 option \<Rightarrow> auth_db \<Rightarrow> bool" where
  "credential_version_is expected db = (case expected of None \<Rightarrow> True
     | Some v \<Rightarrow> (case adb_admin db of None \<Rightarrow> False | Some a \<Rightarrow> ad_credential_version a = v))"

definition insert_pairing_if_authorized ::
  "pairing_record \<Rightarrow> string \<Rightarrow> string \<Rightarrow> string \<Rightarrow> string \<Rightarrow> string \<Rightarrow> i64 \<Rightarrow> i64 option \<Rightarrow> auth_db \<Rightarrow>
   (sqlite_error + bool) \<times> auth_db" where
  "insert_pairing_if_authorized pairing code_hash creator_id creator_username creator_role creator_kind now
       expected_version db =
     (if \<not> list_ex (\<lambda>s. is_session creator_id creator_username creator_role creator_kind s \<and> may_pair s now
            \<and> credential_version_is expected_version db) (adb_sessions db)
      then (Inr False, db)
      else in_tx db (and_then (insert_pairing_row
        \<lparr>pc_id = pg_id pairing, pc_code_hash = code_hash, pc_role = pg_role pairing, pc_label = pg_label pairing,
         pc_created_by = creator_id, pc_created_at = now, pc_expires_at = pg_expires_at pairing,
         pc_used_at = None\<rparr> db) (\<lambda>db'. Inr (True, db'))))"

text \<open>The rows of the join with the creator's session that can be redeemed.\<close>

definition redeemable :: "string \<Rightarrow> i64 \<Rightarrow> auth_db \<Rightarrow> (pairing_row \<times> auth_session_record) list" where
  "redeemable code_hash now db =
     filter (\<lambda>(p, c). as_id c = pc_created_by p \<and> pc_code_hash p = code_hash \<and> pc_used_at p = None
        \<and> now < pc_expires_at p \<and> may_pair c now)
       (List.product (adb_pairings db) (adb_sessions db))"

definition pairing_is_eligible :: "string \<Rightarrow> i64 \<Rightarrow> auth_db \<Rightarrow> bool" where
  "pairing_is_eligible code_hash now db \<longleftrightarrow> redeemable code_hash now db \<noteq> []"

definition paired_session ::
  "pairing_row \<Rightarrow> auth_session_record \<Rightarrow> i64 \<Rightarrow> string \<Rightarrow> string \<Rightarrow> string \<Rightarrow> i64 \<Rightarrow> i64 \<Rightarrow> auth_session_record" where
  "paired_session p creator now session_id token_hash csrf_hash viewer_lifetime admin_lifetime =
     \<lparr>as_id = session_id, as_token_hash = token_hash, as_csrf_hash = csrf_hash,
      as_username = as_username creator, as_role = pc_role p, as_kind = ''fixed'',
      as_auth_method = ''pairing'', as_display_name = as_display_name creator,
      as_provider_name = None, as_identity_issuer = None, as_identity_subject = None,
      as_oidc_policy_fingerprint = None, as_label = Some (pc_label p), as_created_at = now,
      as_last_seen_at = now, as_idle_expires_at = None,
      as_absolute_expires_at = sat_add now (if pc_role p = ''viewer'' then viewer_lifetime else admin_lifetime),
      as_revoked_at = None\<rparr>"

definition consume_pairing_and_insert_session ::
  "string \<Rightarrow> i64 \<Rightarrow> string \<Rightarrow> string \<Rightarrow> string \<Rightarrow> i64 \<Rightarrow> i64 \<Rightarrow> auth_db \<Rightarrow>
   (sqlite_error + auth_session_record option) \<times> auth_db" where
  "consume_pairing_and_insert_session code_hash now session_id token_hash csrf_hash viewer_lifetime admin_lifetime db =
     (case redeemable code_hash now db of
        [] \<Rightarrow> (Inr None, db)
      | (p, creator) # _ \<Rightarrow>
          let session = paired_session p creator now session_id token_hash csrf_hash viewer_lifetime admin_lifetime;
              P = (\<lambda>q. pc_id q = pc_id p \<and> pc_used_at q = None) in
          in_tx db (and_then (insert_session_inner session db) (\<lambda>db1.
            if changed_rows P (adb_pairings db1) \<noteq> 1 then Inr (None, db)
            else Inr (Some session, db1\<lparr>adb_pairings :=
              update_where P (\<lambda>q. q\<lparr>pc_used_at := Some now\<rparr>) (adb_pairings db1)\<rparr>))))"

end
