(* ===== verification/App_Error.thy ===== *)
theory App_Error
  imports Session_Store
begin

text \<open>
  The application error and the HTTP answer it becomes (\<open>error.rs\<close>, \<open>ConfigError\<close> of
  \<open>config.rs\<close>).  The text of a transport or serialization error is its library's; a request id
  is not part of the answer here.
\<close>

datatype var_error = NotPresent | NotUnicode string

datatype config_error =
    MissingRequired string
  | InvalidFormat string
  | EnvError var_error

fun display_var_error :: "var_error \<Rightarrow> string" where
  "display_var_error NotPresent = ''environment variable not found''"
| "display_var_error (NotUnicode t) = ''environment variable was not valid unicode: '' @ t"

fun display_config_error :: "config_error \<Rightarrow> string" where
  "display_config_error (MissingRequired k) = ''Missing required environment variable: '' @ k"
| "display_config_error (InvalidFormat k) = ''Invalid format for environment variable: '' @ k"
| "display_config_error (EnvError e) = ''Environment variable error: '' @ display_var_error e"

datatype app_error =
    RouterApi string
  | HttpError string
  | Serialization string
  | Config config_error
  | RouterUnreachable
  | InvalidData string
  | InvalidRequest nat string string
  | Unauthorized
  | Forbidden string
  | Conflict string
  | RateLimited nat
  | NotFound
  | MethodNotAllowed
  | Secret string
  | Database sqlite_error
  | Internal string

record error_response =
  er_status :: nat
  er_code :: string
  er_message :: string
  er_retry_after :: "nat option"

definition error_triple :: "app_error \<Rightarrow> nat \<times> string \<times> string" where
  "error_triple e = (case e of
      RouterApi _ \<Rightarrow> (502, ''router_api_error'', ''The router request failed'')
    | HttpError _ \<Rightarrow> (502, ''router_unreachable'', ''The router request failed'')
    | Serialization _ \<Rightarrow> (500, ''serialization_error'', ''An internal serialization error occurred'')
    | Config c \<Rightarrow> (500, ''configuration_error'', display_config_error c)
    | RouterUnreachable \<Rightarrow> (503, ''router_unreachable'', ''Router is unreachable'')
    | Database _ \<Rightarrow> (500, ''database_error'', ''A database operation failed'')
    | InvalidData m \<Rightarrow> (422, ''invalid_data'', m)
    | InvalidRequest status code m \<Rightarrow> (status, code, m)
    | Unauthorized \<Rightarrow> (401, ''unauthorized'', ''Authentication required'')
    | Forbidden m \<Rightarrow> (403, ''forbidden'', m)
    | Conflict m \<Rightarrow> (409, ''conflict'', m)
    | RateLimited _ \<Rightarrow> (429, ''rate_limited'', ''Too many authentication attempts'')
    | NotFound \<Rightarrow> (404, ''not_found'', ''Route not found'')
    | MethodNotAllowed \<Rightarrow> (405, ''method_not_allowed'', ''Method not allowed'')
    | Secret _ \<Rightarrow> (500, ''secret_error'', ''Credential storage is unavailable'')
    | Internal _ \<Rightarrow> (500, ''internal_error'', ''An internal error occurred''))"

definition into_response :: "app_error \<Rightarrow> error_response" where
  "into_response e = (case error_triple e of (status, code, message) \<Rightarrow>
     \<lparr>er_status = status, er_code = code, er_message = message,
      er_retry_after = (case e of RateLimited secs \<Rightarrow> Some secs | _ \<Rightarrow> None)\<rparr>)"

text \<open>A database call inside a handler: the \<open>?\<close> operator wraps its error.\<close>

definition lift_db :: "sqlite_error + 'a \<Rightarrow> app_error + 'a" where
  "lift_db r = (case r of Inl e \<Rightarrow> Inl (Database e) | Inr x \<Rightarrow> Inr x)"

lemma lift_db_simps [simp]: "lift_db (Inl e) = Inl (Database e)" "lift_db (Inr x) = Inr x"
  by (simp_all add: lift_db_def)

text \<open>The text of an internal error never reaches the client: only the errors the client itself
  caused carry their own message.\<close>

lemma internal_text_hidden: "er_message (into_response (Internal a)) = er_message (into_response (Internal b))"
  by (simp add: into_response_def error_triple_def)

end
