(* ===== verification/Auth_Text.thy ===== *)
theory Auth_Text
  imports App_Error Ws_Limits
begin

text \<open>
  The checks of \<open>auth.rs\<close> on text: headers and cookies, origin and CSRF token, names, passwords
  and tokens, the address of a client.  A header map is the list of its fields in order, names
  in lower case; digests are the argument \<open>hash_token\<close>.
\<close>

unbundle bit_operations_syntax

section \<open>Headers and cookies\<close>

type_synonym headers = "(string \<times> string) list"

definition SESSION_COOKIE :: string where "SESSION_COOKIE = ''__Host-routerview_session''"
definition CSRF_COOKIE :: string where "CSRF_COOKIE = ''__Host-routerview_csrf''"
definition CLIENT_IP_HEADER :: string where "CLIENT_IP_HEADER = ''x-real-ip''"

definition get_all :: "headers \<Rightarrow> string \<Rightarrow> string list" where
  "get_all hs name = map snd (filter (\<lambda>h. fst h = name) hs)"

text \<open>\<open>HeaderValue::to_str\<close> and \<open>HeaderValue::from_str\<close> accept visible ASCII and the tab.\<close>

definition visible_ascii :: "char \<Rightarrow> bool" where
  "visible_ascii c \<longleftrightarrow> (32 \<le> (of_char c :: nat) \<and> (of_char c :: nat) < 127) \<or> of_char c = (9 :: nat)"

definition to_str :: "string \<Rightarrow> string option" where
  "to_str v = (if list_all visible_ascii v then Some v else None)"

fun split_once :: "char \<Rightarrow> string \<Rightarrow> (string \<times> string) option" where
  "split_once c [] = None"
| "split_once c (x # xs) =
     (if x = c then Some ([], xs) else map_option (apfst (Cons x)) (split_once c xs))"

definition cookie_values :: "headers \<Rightarrow> string \<Rightarrow> string list" where
  "cookie_values hs name =
     map snd (filter (\<lambda>kv. fst kv = name)
       (List.map_filter (\<lambda>cookie. split_once CHR ''='' (trim cookie))
         (concat (map (split_char CHR '';'') (List.map_filter to_str (get_all hs ''cookie''))))))"

definition cookie_value :: "headers \<Rightarrow> string \<Rightarrow> string option" where
  "cookie_value hs name = (case cookie_values hs name of [] \<Rightarrow> None | v # _ \<Rightarrow> Some v)"

definition append_cookie :: "string list \<Rightarrow> string \<Rightarrow> app_error + string list" where
  "append_cookie cookies value =
     (if list_all visible_ascii value then Inr (cookies @ [value])
      else Inl (Internal ''failed to create session cookie''))"

definition append_session_cookies ::
  "string list \<Rightarrow> auth_session_record \<Rightarrow> string \<Rightarrow> string \<Rightarrow> i64 \<Rightarrow> app_error + string list" where
  "append_session_cookies cookies session token csrf now =
     (let max_age = show_int (sat_sub (as_absolute_expires_at session) now) in
      and_then (append_cookie cookies (SESSION_COOKIE @ ''='' @ token @ ''; Path=/; Max-Age='' @ max_age @
          ''; Secure; HttpOnly; SameSite=Strict'')) (\<lambda>cookies1.
        append_cookie cookies1 (CSRF_COOKIE @ ''='' @ csrf @ ''; Path=/; Max-Age='' @ max_age @
          ''; Secure; SameSite=Strict'')))"

definition append_clear_cookies :: "string list \<Rightarrow> app_error + string list" where
  "append_clear_cookies cookies =
     and_then (append_cookie cookies (SESSION_COOKIE @ ''=; Path=/; Max-Age=0; Secure; HttpOnly; SameSite=Strict''))
       (\<lambda>cookies1. append_cookie cookies1 (CSRF_COOKIE @ ''=; Path=/; Max-Age=0; Secure; SameSite=Strict''))"

section \<open>Comparison\<close>

text \<open>The bytes of a string, and zero past its end.\<close>

definition byte_at :: "string \<Rightarrow> nat \<Rightarrow> nat" where
  "byte_at s i = (if i < length s then of_char (s ! i) else 0)"

definition constant_time_eq :: "string \<Rightarrow> string \<Rightarrow> bool" where
  "constant_time_eq left right \<longleftrightarrow>
     fold (\<lambda>i difference. difference OR (byte_at left i XOR byte_at right i))
       [0..<max (length left) (length right)] (length left XOR length right) = 0"

section \<open>Origin and CSRF token\<close>

definition validate_origin :: "headers \<Rightarrow> string \<Rightarrow> app_error + unit" where
  "validate_origin hs public_origin =
     (case (case get_all hs ''origin'' of [] \<Rightarrow> None | v # _ \<Rightarrow> to_str v) of
        None \<Rightarrow> Inl (Forbidden ''missing Origin header'')
      | Some origin \<Rightarrow> if origin \<noteq> public_origin then Inl (Forbidden ''request origin is not allowed'') else Inr ())"

definition nonempty_text :: "string \<Rightarrow> string option" where
  "nonempty_text v = (case to_str v of None \<Rightarrow> None | Some t \<Rightarrow> if t = [] then None else Some t)"

definition validate_csrf :: "(string \<Rightarrow> string) \<Rightarrow> headers \<Rightarrow> string \<Rightarrow> app_error + unit" where
  "validate_csrf hash_token hs expected_hash =
     (case get_all hs ''x-csrf-token'' of
        [] \<Rightarrow> Inl (Forbidden ''missing CSRF token'')
      | h # more_headers \<Rightarrow> (case nonempty_text h of
          None \<Rightarrow> Inl (Forbidden ''missing CSRF token'')
        | Some header_token \<Rightarrow>
            if more_headers \<noteq> [] then Inl (Forbidden ''invalid CSRF token'')
            else (case cookie_values hs CSRF_COOKIE of
                [] \<Rightarrow> Inl (Forbidden ''missing CSRF cookie'')
              | cookie_token # more_cookies \<Rightarrow>
                  if cookie_token = [] then Inl (Forbidden ''missing CSRF cookie'')
                  else if more_cookies \<noteq> [] then Inl (Forbidden ''invalid CSRF token'')
                  else if \<not> constant_time_eq (hash_token header_token) (hash_token cookie_token)
                     \<or> \<not> constant_time_eq (hash_token header_token) expected_hash
                  then Inl (Forbidden ''invalid CSRF token'') else Inr ())))"

section \<open>Names, passwords and tokens\<close>

definition is_ascii_lowercase :: "char \<Rightarrow> bool" where
  "is_ascii_lowercase c \<longleftrightarrow> 97 \<le> (of_char c :: nat) \<and> (of_char c :: nat) \<le> 122"

definition is_ascii_alphanumeric :: "char \<Rightarrow> bool" where
  "is_ascii_alphanumeric c \<longleftrightarrow> is_ascii_digit c \<or> is_ascii_lowercase c \<or>
     (65 \<le> (of_char c :: nat) \<and> (of_char c :: nat) \<le> 90)"

definition username_char :: "char \<Rightarrow> bool" where
  "username_char c \<longleftrightarrow> is_ascii_lowercase c \<or> is_ascii_digit c \<or> c \<in> set ''._-''"

text \<open>\<open>digest\<close> is the base64 text of the SHA-256 digest.\<close>

definition login_key_username :: "(string \<Rightarrow> string) \<Rightarrow> string \<Rightarrow> string" where
  "login_key_username digest value =
     (let normalized = to_lowercase (trim value) in
      if length normalized \<le> 64 \<and> list_all username_char normalized then normalized
      else ''invalid:'' @ digest normalized)"

definition quoted :: "string \<Rightarrow> string" where
  "quoted s = CHR 0x27 # s @ [CHR 0x27]"

definition normalize_username :: "string \<Rightarrow> app_error + string" where
  "normalize_username value =
     (let v = to_lowercase (trim value) in
      if \<not> (3 \<le> length v \<and> length v \<le> 64) \<or> \<not> list_all username_char v
      then Inl (InvalidData
        (''username must be 3 to 64 lowercase ASCII letters, digits, '' @ quoted ''.'' @ '', '' @ quoted ''_''
          @ '' or '' @ quoted ''-''))
      else Inr v)"

definition validate_password :: "string \<Rightarrow> app_error + unit" where
  "validate_password v =
     (if \<not> (12 \<le> length v \<and> length v \<le> 128)
      then Inl (InvalidData ''password must be 12 to 128 UTF-8 bytes'') else Inr ())"

definition validated_token_hash :: "(string \<Rightarrow> string) \<Rightarrow> string \<Rightarrow> app_error + string" where
  "validated_token_hash hash_token token =
     (let t = trim token in
      if length t \<noteq> 43 \<or> \<not> list_all (\<lambda>c. is_ascii_alphanumeric c \<or> c = CHR ''-'' \<or> c = CHR ''_'') t
      then Inl Unauthorized else Inr (hash_token t))"

definition password_hash_for_login :: "admin_record option \<Rightarrow> string \<Rightarrow> string \<Rightarrow> string \<times> bool" where
  "password_hash_for_login admin username dummy_password_hash = (case admin of
      Some a \<Rightarrow> if constant_time_eq (ad_username a) username then (ad_password_hash a, True)
                else (dummy_password_hash, False)
    | None \<Rightarrow> (dummy_password_hash, False))"

section \<open>The address of a client\<close>

definition invalid_proxy_client_ip :: app_error where
  "invalid_proxy_client_ip = Forbidden ''trusted proxy supplied an invalid client address''"

text \<open>\<open>trusted\<close> is membership in one of the trusted networks.\<close>

definition resolve_client_ip :: "(ip_addr \<Rightarrow> bool) \<Rightarrow> ip_addr \<Rightarrow> headers \<Rightarrow> app_error + ip_addr" where
  "resolve_client_ip trusted peer hs =
     (let peer = normalize_ip peer in
      if \<not> trusted peer then Inr peer
      else (case get_all hs CLIENT_IP_HEADER of
          [] \<Rightarrow> Inl invalid_proxy_client_ip
        | v # rest \<Rightarrow>
            if rest \<noteq> [] then Inl invalid_proxy_client_ip
            else (case to_str v of
                None \<Rightarrow> Inl invalid_proxy_client_ip
              | Some forwarded \<Rightarrow>
                  if forwarded = [] \<or> trim forwarded \<noteq> forwarded \<or> CHR '','' \<in> set forwarded
                  then Inl invalid_proxy_client_ip
                  else (case parse_ip forwarded of
                      None \<Rightarrow> Inl invalid_proxy_client_ip
                    | Some a \<Rightarrow> Inr (normalize_ip a)))))"

section \<open>The comparison is equality\<close>

lemma xor_eq_0: "a XOR b = 0 \<longleftrightarrow> a = (b :: nat)"
proof
  assume "a XOR b = 0"
  then have "bit a n = bit b n" for n using bit_xor_iff[of a b n] by simp
  then show "a = b" by (rule bit_eqI)
qed simp

lemma or_is_0: "a OR b = 0 \<longleftrightarrow> a = 0 \<and> b = (0 :: nat)"
proof
  assume "a OR b = 0"
  then have "\<not> bit a n \<and> \<not> bit b n" for n using bit_or_iff[of a b n] by simp
  then show "a = 0 \<and> b = 0" by (auto intro: bit_eqI)
qed simp

lemma fold_or_0: "fold (\<lambda>i d. d OR f i) is d = (0 :: nat) \<longleftrightarrow> d = 0 \<and> (\<forall>i \<in> set is. f i = 0)"
  by (induction "is" arbitrary: d) (auto simp: or_is_0)

lemma constant_time_eq_iff [simp]: "constant_time_eq left right \<longleftrightarrow> left = right"
proof
  assume "constant_time_eq left right"
  then have len: "length left = length right"
    and eq: "\<And>i. i < length left \<Longrightarrow> byte_at left i = byte_at right i"
    by (auto simp: constant_time_eq_def fold_or_0 xor_eq_0)
  have "left ! i = right ! i" if "i < length left" for i
    using eq[OF that] that len by (simp add: byte_at_def)
  then show "left = right" using len by (simp add: list_eq_iff_nth_eq)
qed (simp only: constant_time_eq_def fold_or_0 xor_eq_0, simp)

end
