(* ===== verification/Failure_Limiter.thy ===== *)
theory Failure_Limiter
  imports Ip_Text "HOL-Library.AList"
begin

text \<open>
  The backoff of failed authentications (\<open>FailureLimiter\<close> of \<open>auth.rs\<close>).  An \<open>Instant\<close> is a
  number of nanoseconds; a hash map whose size is read is an association list with distinct
  keys, and among equally old entries the first one is evicted.
\<close>

section \<open>State\<close>

definition NANOS :: nat where "NANOS = 1000000000"
definition AUTH_FAILURE_CAPACITY :: nat where "AUTH_FAILURE_CAPACITY = 1024"
definition AUTH_FAILURE_TTL :: nat where "AUTH_FAILURE_TTL = 15 * 60 * NANOS"
definition AUTH_BACKOFF_MAX_SECS :: nat where "AUTH_BACKOFF_MAX_SECS = 60"

record failure_state =
  fs_failures :: nat
  fs_blocked_until :: nat
  fs_last_failure :: nat
  fs_last_seen :: nat

type_synonym 'k failure_entries = "('k \<times> failure_state) list"

datatype login_failure_key = LoginUsername string | LoginSource ip_addr
datatype pairing_failure_key = PairingSource ip_addr | Overflow
datatype admin_pairing_failure_key = AdminSession string | AdminSource ip_addr

record pairing_attempt =
  pa_key :: pairing_failure_key
  pa_started_at :: nat

section \<open>Operations\<close>

definition retry_after_seconds :: "nat \<Rightarrow> nat \<Rightarrow> nat" where
  "retry_after_seconds blocked_until now =
     (let remaining = blocked_until - now in
      remaining div NANOS + (if remaining mod NANOS \<noteq> 0 then 1 else 0))"

definition failure_expired :: "nat \<Rightarrow> failure_state \<Rightarrow> bool" where
  "failure_expired now st \<longleftrightarrow> AUTH_FAILURE_TTL \<le> now - fs_last_seen st"

definition retry_after :: "'k \<Rightarrow> nat \<Rightarrow> 'k failure_entries \<Rightarrow> 'k failure_entries \<times> nat option" where
  "retry_after key now entries = (case map_of entries key of
      None \<Rightarrow> (entries, None)
    | Some st \<Rightarrow>
        if failure_expired now st then (AList.delete key entries, None)
        else (AList.update key (st\<lparr>fs_last_seen := now\<rparr>) entries,
              if now < fs_blocked_until st then Some (retry_after_seconds (fs_blocked_until st) now) else None))"

definition expire_failure_entries :: "nat \<Rightarrow> 'k failure_entries \<Rightarrow> 'k failure_entries" where
  "expire_failure_entries now entries = filter (\<lambda>e. \<not> failure_expired now (snd e)) entries"

definition backoff_secs :: "nat \<Rightarrow> nat" where
  "backoff_secs failures = min (2 ^ (failures - 1)) AUTH_BACKOFF_MAX_SECS"

definition failed_again :: "nat \<Rightarrow> failure_state option \<Rightarrow> failure_state" where
  "failed_again now st =
     (let failures = (case st of None \<Rightarrow> 0 | Some s \<Rightarrow> fs_failures s);
          failures' = min (min 255 (failures + 1)) 7 in
      \<lparr>fs_failures = failures', fs_blocked_until = now + backoff_secs failures' * NANOS,
       fs_last_failure = now, fs_last_seen = now\<rparr>)"

definition record_failure_entry_locked :: "'k \<Rightarrow> nat \<Rightarrow> 'k failure_entries \<Rightarrow> 'k failure_entries \<times> nat" where
  "record_failure_entry_locked key now entries =
     (let st = failed_again now (map_of entries key) in
      (AList.update key st entries, backoff_secs (fs_failures st)))"

definition evict_oldest :: "'k failure_entries \<Rightarrow> 'k failure_entries" where
  "evict_oldest entries = (case min_on (fs_last_seen \<circ> snd) entries of
      None \<Rightarrow> entries | Some e \<Rightarrow> AList.delete (fst e) entries)"

definition record_failure_locked :: "'k \<Rightarrow> nat \<Rightarrow> 'k failure_entries \<Rightarrow> 'k failure_entries \<times> nat" where
  "record_failure_locked key now entries =
     record_failure_entry_locked key now
       (if map_of entries key = None \<and> AUTH_FAILURE_CAPACITY \<le> length entries
        then evict_oldest entries else entries)"

definition record_failure :: "'k \<Rightarrow> nat \<Rightarrow> 'k failure_entries \<Rightarrow> 'k failure_entries \<times> nat" where
  "record_failure key now entries = record_failure_locked key now (expire_failure_entries now entries)"

definition clear_if_latest :: "'k \<Rightarrow> nat \<Rightarrow> 'k failure_entries \<Rightarrow> 'k failure_entries" where
  "clear_if_latest key attempt_started_at entries = (case map_of entries key of
      None \<Rightarrow> entries
    | Some st \<Rightarrow> if fs_last_failure st = attempt_started_at then AList.delete key entries else entries)"

text \<open>The error of an attempt is the number of seconds to wait.\<close>

definition begin_failure_attempt_locked ::
  "'k \<Rightarrow> nat \<Rightarrow> 'k failure_entries \<Rightarrow> 'k failure_entries \<times> (nat + unit)" where
  "begin_failure_attempt_locked key now entries = (case map_of entries key of
      None \<Rightarrow> (fst (record_failure_entry_locked key now entries), Inr ())
    | Some st \<Rightarrow>
        if failure_expired now st
        then (fst (record_failure_entry_locked key now (AList.delete key entries)), Inr ())
        else let seen = AList.update key (st\<lparr>fs_last_seen := now\<rparr>) entries in
          if now < fs_blocked_until st
          then (seen, Inl (retry_after_seconds (fs_blocked_until st) now))
          else (fst (record_failure_entry_locked key now seen), Inr ()))"

definition is_source :: "pairing_failure_key \<Rightarrow> bool" where
  "is_source key = (case key of PairingSource _ \<Rightarrow> True | Overflow \<Rightarrow> False)"

definition tracked_sources :: "pairing_failure_key failure_entries \<Rightarrow> nat" where
  "tracked_sources entries = length (filter (is_source \<circ> fst) entries)"

text \<open>An address that is not tracked when the table is full: the shared bucket rejects it, or
  expiry makes room for it, or it falls into the shared bucket.\<close>

definition overflow_key_for ::
  "ip_addr \<Rightarrow> nat \<Rightarrow> pairing_failure_key failure_entries \<Rightarrow>
   pairing_failure_key failure_entries \<times> (nat + pairing_failure_key)" where
  "overflow_key_for source now entries =
     (let entries1 = (case map_of entries Overflow of
            None \<Rightarrow> entries
          | Some st \<Rightarrow> if failure_expired now st then AList.delete Overflow entries else entries);
          entries2 = (case map_of entries1 Overflow of
            None \<Rightarrow> entries1
          | Some st \<Rightarrow> AList.update Overflow (st\<lparr>fs_last_seen := now\<rparr>) entries1);
          blocked = (case map_of entries1 Overflow of
            None \<Rightarrow> None
          | Some st \<Rightarrow> if now < fs_blocked_until st
              then Some (retry_after_seconds (fs_blocked_until st) now) else None) in
      case blocked of
        Some wait \<Rightarrow> (entries2, Inl wait)
      | None \<Rightarrow>
          let entries3 = expire_failure_entries now entries2 in
          if tracked_sources entries3 < AUTH_FAILURE_CAPACITY
          then (AList.delete Overflow entries3, Inr (PairingSource source))
          else (entries3, Inr Overflow))"

definition begin_pairing_attempt ::
  "ip_addr \<Rightarrow> nat \<Rightarrow> pairing_failure_key failure_entries \<Rightarrow>
   pairing_failure_key failure_entries \<times> (nat + pairing_attempt)" where
  "begin_pairing_attempt source now entries =
     (case (if map_of entries (PairingSource source) \<noteq> None \<or> length entries < AUTH_FAILURE_CAPACITY
            then (entries, Inr (PairingSource source))
            else overflow_key_for source now entries) of
        (entries', Inl wait) \<Rightarrow> (entries', Inl wait)
      | (entries', Inr key) \<Rightarrow>
          (case begin_failure_attempt_locked key now entries' of
             (entries'', Inl wait) \<Rightarrow> (entries'', Inl wait)
           | (entries'', Inr _) \<Rightarrow> (entries'', Inr \<lparr>pa_key = key, pa_started_at = now\<rparr>)))"

end
