(* ===== verification/Session_Facts.thy ===== *)
theory Session_Facts
  imports Session_Store
begin

text \<open>
  What the session store promises: its tables keep their constraints, a revoked session and a
  used pairing code never come back, the initial setup happens once, and the throttled touch
  answers exactly whether the session is active.
\<close>

section \<open>Calls\<close>

datatype auth_call =
    CreateAdmin string string
  | ReplaceAdmin string string i64
  | StoreSetup string i64
  | InvalidateSetup string i64
  | ConsumeSetup string i64 string string auth_session_record
  | InsertStandard auth_session_record i64
  | InsertOidc auth_session_record
  | Touch string string string string i64 i64
  | RevokeSession string i64
  | RevokeOidc "string option" i64
  | InsertPairing pairing_record string string string string string i64 "i64 option"
  | ConsumePairing string i64 string string string i64 i64

datatype auth_answer = Done | Flag bool | Count nat | Granted "auth_session_record option"

definition answer :: "('a \<Rightarrow> auth_answer) \<Rightarrow> (sqlite_error + 'a) \<times> auth_db \<Rightarrow> (sqlite_error + auth_answer) \<times> auth_db" where
  "answer f r = (map_sum id f (fst r), snd r)"

fun run_auth :: "auth_call \<Rightarrow> auth_db \<Rightarrow> (sqlite_error + auth_answer) \<times> auth_db" where
  "run_auth (CreateAdmin u h) db = answer (\<lambda>_. Done) (create_admin u h db)"
| "run_auth (ReplaceAdmin u h now) db = answer (\<lambda>_. Done) (replace_admin_password u h now db)"
| "run_auth (StoreSetup t e) db = answer Flag (store_setup_token_if_no_admin t e db)"
| "run_auth (InvalidateSetup t now) db = answer Flag (invalidate_setup_token_if_matches t now db)"
| "run_auth (ConsumeSetup t now u h s) db = answer Flag (consume_setup_and_create_admin_and_session t now u h s db)"
| "run_auth (InsertStandard s v) db = answer Flag (insert_standard_session_if_admin_version s v db)"
| "run_auth (InsertOidc s) db = answer (\<lambda>_. Done) (insert_oidc_session s db)"
| "run_auth (Touch i u r k now m) db = answer Flag (touch_session_if_active_throttled i u r k now m db)"
| "run_auth (RevokeSession i now) db = answer Flag (revoke_session i now db)"
| "run_auth (RevokeOidc f now) db = answer Count (revoke_oidc_sessions_with_other_policy f now db)"
| "run_auth (InsertPairing p c ci cu cr ck now v) db = answer Flag (insert_pairing_if_authorized p c ci cu cr ck now v db)"
| "run_auth (ConsumePairing c now i t x vl al) db = answer Granted (consume_pairing_and_insert_session c now i t x vl al db)"

abbreviation run_auths :: "auth_call list \<Rightarrow> auth_db \<Rightarrow> auth_db" where
  "run_auths calls db \<equiv> fold (\<lambda>call db. snd (run_auth call db)) calls db"

section \<open>Well-formed tables\<close>

text \<open>What the columns say of each other: a fixed session comes from a pairing and does not idle
  out, a password session is the administrator's, an OIDC session carries its identity.\<close>

definition session_shape :: "auth_session_record \<Rightarrow> bool" where
  "session_shape s \<longleftrightarrow> session_checks s \<and> (as_kind s = ''fixed'' \<longleftrightarrow> as_auth_method s = ''pairing'') \<and>
     (as_kind s = ''fixed'' \<longrightarrow> as_idle_expires_at s = None) \<and>
     (as_auth_method s = ''password'' \<longrightarrow> as_role s = ''admin'') \<and>
     (as_auth_method s = ''oidc'' \<longrightarrow> as_identity_issuer s \<noteq> None \<and> as_identity_subject s \<noteq> None \<and>
        as_oidc_policy_fingerprint s \<noteq> None)"

definition auth_wf :: "auth_db \<Rightarrow> bool" where
  "auth_wf db \<longleftrightarrow>
     distinct (map as_id (adb_sessions db)) \<and> distinct (map as_token_hash (adb_sessions db)) \<and>
     list_all session_shape (adb_sessions db) \<and>
     distinct (map pc_id (adb_pairings db)) \<and> distinct (map pc_code_hash (adb_pairings db)) \<and>
     list_all (\<lambda>p. pc_role p \<in> set roles \<and> pc_created_by p \<in> as_id ` set (adb_sessions db)) (adb_pairings db)"

lemma auth_wf_empty [simp]: "auth_wf empty_auth_db"
  by (simp add: auth_wf_def empty_auth_db_def)

lemma auth_wf_frame [simp]:
  "auth_wf (db\<lparr>adb_admin := a\<rparr>) = auth_wf db" "auth_wf (db\<lparr>adb_setup := t\<rparr>) = auth_wf db"
  by (simp_all add: auth_wf_def)

lemma update_where_map: "(\<And>x. g (f x) = g x) \<Longrightarrow> map g (update_where P f xs) = map g xs"
  by (simp add: update_where_def)

lemma update_where_all:
  "(\<And>x. Q x \<Longrightarrow> Q (f x)) \<Longrightarrow> list_all Q xs \<Longrightarrow> list_all Q (update_where P f xs)"
  by (induction xs) (simp_all add: update_where_def)

lemma image_map: "f ` set xs = set (map f xs)"
  by simp

lemma update_sessions_wf:
  assumes "auth_wf db" "\<And>s. as_id (f s) = as_id s" "\<And>s. as_token_hash (f s) = as_token_hash s"
    and "\<And>s. session_shape s \<Longrightarrow> session_shape (f s)"
  shows "auth_wf (db\<lparr>adb_sessions := update_where P f (adb_sessions db)\<rparr>)"
  using assms update_where_all[of session_shape f "adb_sessions db" P]
  by (simp add: auth_wf_def update_where_map image_map del: set_map)

lemma update_pairings_wf:
  assumes "auth_wf db"
  shows "auth_wf (db\<lparr>adb_pairings := update_where P (\<lambda>p. p\<lparr>pc_used_at := u\<rparr>) (adb_pairings db)\<rparr>)"
  using assms by (simp add: auth_wf_def update_where_map update_where_all)

lemma revoked_shape [simp]: "session_shape (s\<lparr>as_revoked_at := t\<rparr>) = session_shape s"
  by (simp add: session_shape_def session_checks_def)

lemma touched_shape [simp]: "session_shape s \<Longrightarrow> session_shape (touched now s)"
  by (auto simp: session_shape_def session_checks_def touched_def)

lemma revoke_where_wf: "auth_wf db \<Longrightarrow> auth_wf (revoke_where P now db)"
  unfolding revoke_where_def by (rule update_sessions_wf) simp_all

lemma insert_session_Inr_iff:
  "insert_session_inner s db = Inr db' \<longleftrightarrow> as_id s \<notin> as_id ` set (adb_sessions db) \<and>
     as_token_hash s \<notin> as_token_hash ` set (adb_sessions db) \<and> session_checks s \<and>
     db' = db\<lparr>adb_sessions := adb_sessions db @ [s]\<rparr>"
  by (auto simp: insert_session_inner_def)

lemma insert_session_wf:
  "insert_session_inner s db = Inr db' \<Longrightarrow> auth_wf db \<Longrightarrow> session_shape s \<Longrightarrow> auth_wf db'"
  by (auto simp: insert_session_Inr_iff auth_wf_def list_all_iff)

lemma insert_pairing_wf: "insert_pairing_row p db = Inr db' \<Longrightarrow> auth_wf db \<Longrightarrow> auth_wf db'"
  by (auto simp: insert_pairing_row_def auth_wf_def list_all_iff split: if_splits)

lemma in_tx_simps [simp]:
  "in_tx db m = (Inl e, db') \<longleftrightarrow> m = Inl e \<and> db' = db" "in_tx db m = (Inr x, db') \<longleftrightarrow> m = Inr (x, db')"
  by (auto simp: in_tx_def split: sum.splits)

lemma insert_admin_Inr_iff:
  "insert_admin u h db = Inr db' \<longleftrightarrow> adb_admin db = None \<and>
     db' = db\<lparr>adb_admin := Some \<lparr>ad_username = u, ad_password_hash = h, ad_credential_version = 1\<rparr>\<rparr>"
  by (auto simp: insert_admin_def split: option.splits)

lemma redeemable_set:
  "(p, c) \<in> set (redeemable h now db) \<longleftrightarrow> p \<in> set (adb_pairings db) \<and> c \<in> set (adb_sessions db) \<and>
     as_id c = pc_created_by p \<and> pc_code_hash p = h \<and> pc_used_at p = None \<and> now < pc_expires_at p \<and> may_pair c now"
  by (auto simp: redeemable_def)

lemma paired_shape: "pc_role p \<in> set roles \<Longrightarrow> session_shape (paired_session p c now i t x vl al)"
  by (simp add: session_shape_def session_checks_def paired_session_def kinds_def auth_methods_def)

section \<open>How a call changes the tables\<close>

definition session_kept :: "auth_session_record \<Rightarrow> auth_session_record \<Rightarrow> bool" where
  "session_kept s s' \<longleftrightarrow> (\<exists>seen idle revoked.
     s' = s\<lparr>as_last_seen_at := seen, as_idle_expires_at := idle, as_revoked_at := revoked\<rparr> \<and>
     (as_revoked_at s \<noteq> None \<longrightarrow> revoked = as_revoked_at s))"

definition pairing_kept :: "pairing_row \<Rightarrow> pairing_row \<Rightarrow> bool" where
  "pairing_kept p p' \<longleftrightarrow> (\<exists>used. p' = p\<lparr>pc_used_at := used\<rparr> \<and> (pc_used_at p \<noteq> None \<longrightarrow> used = pc_used_at p))"

definition admin_kept :: "admin_record option \<Rightarrow> admin_record option \<Rightarrow> bool" where
  "admin_kept a a' \<longleftrightarrow> (case a of None \<Rightarrow> True
     | Some x \<Rightarrow> (case a' of None \<Rightarrow> False | Some y \<Rightarrow> ad_credential_version x \<le> ad_credential_version y))"

lemma admin_kept_refl [simp]: "admin_kept a a"
  by (simp add: admin_kept_def split: option.splits)

lemma admin_kept_trans: "admin_kept a b \<Longrightarrow> admin_kept b c \<Longrightarrow> admin_kept a c"
  by (auto simp: admin_kept_def split: option.splits)

lemma admin_kept_exists: "admin_kept a a' \<Longrightarrow> a \<noteq> None \<Longrightarrow> a' \<noteq> None"
  by (auto simp: admin_kept_def split: option.splits)

text \<open>Rows are never deleted; a revocation and a use are never taken back; nor is the administrator.\<close>

definition evolves :: "auth_db \<Rightarrow> auth_db \<Rightarrow> bool" where
  "evolves db db' \<longleftrightarrow>
     (\<exists>f new. adb_sessions db' = map f (adb_sessions db) @ new \<and> (\<forall>s. session_kept s (f s))) \<and>
     (\<exists>g new. adb_pairings db' = map g (adb_pairings db) @ new \<and> (\<forall>p. pairing_kept p (g p))) \<and>
     admin_kept (adb_admin db) (adb_admin db')"

lemma session_keptI:
  assumes "s' = s\<lparr>as_last_seen_at := seen, as_idle_expires_at := idle, as_revoked_at := revoked\<rparr>"
    and "as_revoked_at s \<noteq> None \<longrightarrow> revoked = as_revoked_at s"
  shows "session_kept s s'"
  using assms unfolding session_kept_def by blast

lemma pairing_keptI: "p' = p\<lparr>pc_used_at := used\<rparr> \<Longrightarrow> (pc_used_at p \<noteq> None \<longrightarrow> used = pc_used_at p) \<Longrightarrow> pairing_kept p p'"
  unfolding pairing_kept_def by blast

lemma session_kept_refl [simp]: "session_kept s s"
  by (rule session_keptI[where seen = "as_last_seen_at s" and idle = "as_idle_expires_at s" and revoked = "as_revoked_at s"]) simp_all

lemma pairing_kept_refl [simp]: "pairing_kept p p"
  by (rule pairing_keptI[where used = "pc_used_at p"]) simp_all

lemma session_kept_revoke: "as_revoked_at s = None \<Longrightarrow> session_kept s (s\<lparr>as_revoked_at := Some t\<rparr>)"
  by (rule session_keptI[where seen = "as_last_seen_at s" and idle = "as_idle_expires_at s" and revoked = "Some t"]) simp_all

lemma session_kept_touch: "session_kept s (touched now s)"
  by (rule session_keptI[where seen = now and idle = "as_idle_expires_at (touched now s)" and revoked = "as_revoked_at s"]) (simp_all add: touched_def)

lemma pairing_kept_use: "pc_used_at p = None \<Longrightarrow> pairing_kept p (p\<lparr>pc_used_at := Some t\<rparr>)"
  by (rule pairing_keptI[where used = "Some t"]) simp_all

lemma evolvesI:
  assumes "adb_sessions db' = map f (adb_sessions db) @ new" "\<And>s. session_kept s (f s)"
    and "adb_pairings db' = map g (adb_pairings db) @ new'" "\<And>p. pairing_kept p (g p)"
    and "admin_kept (adb_admin db) (adb_admin db')"
  shows "evolves db db'"
  using assms unfolding evolves_def by blast

lemmas kept_intros = session_kept_revoke session_kept_touch pairing_kept_use


lemma evolves_refl [simp]: "evolves db db"
  by (rule evolvesI[where f = id and new = "[]" and g = id and new' = "[]"]) simp_all

lemma evolves_sessions:
  assumes "\<And>s. P s \<Longrightarrow> session_kept s (f s)"
  shows "evolves db (db\<lparr>adb_sessions := update_where P f (adb_sessions db)\<rparr>)"
  by (rule evolvesI[where f = "\<lambda>s. if P s then f s else s" and new = "[]" and g = id and new' = "[]"])
    (simp_all add: update_where_def assms)

lemma evolves_pairings:
  assumes "\<And>p. P p \<Longrightarrow> pairing_kept p (g p)"
  shows "evolves db (db\<lparr>adb_pairings := update_where P g (adb_pairings db)\<rparr>)"
  by (rule evolvesI[where g = "\<lambda>p. if P p then g p else p" and new = "[]" and f = id and new' = "[]"])
    (simp_all add: update_where_def assms)

lemma evolves_new_session: "evolves db (db\<lparr>adb_sessions := adb_sessions db @ [s]\<rparr>)"
  by (rule evolvesI[where f = id and new = "[s]" and g = id and new' = "[]"]) simp_all

lemma evolves_new_pairing: "evolves db (db\<lparr>adb_pairings := adb_pairings db @ [p]\<rparr>)"
  by (rule evolvesI[where f = id and new = "[]" and g = id and new' = "[p]"]) simp_all

lemma evolves_admin: "admin_kept (adb_admin db) a \<Longrightarrow> evolves db (db\<lparr>adb_admin := a\<rparr>)"
  by (rule evolvesI[where f = id and new = "[]" and g = id and new' = "[]"]) auto

lemma evolves_setup: "evolves db (db\<lparr>adb_setup := t\<rparr>)"
  by (rule evolvesI[where f = id and new = "[]" and g = id and new' = "[]"]) simp_all

lemma session_kept_trans:
  assumes "session_kept a b" "session_kept b c" shows "session_kept a c"
proof -
  obtain n i r n' i' r' where
    "b = a\<lparr>as_last_seen_at := n, as_idle_expires_at := i, as_revoked_at := r\<rparr>" "as_revoked_at a \<noteq> None \<longrightarrow> r = as_revoked_at a"
    "c = b\<lparr>as_last_seen_at := n', as_idle_expires_at := i', as_revoked_at := r'\<rparr>" "as_revoked_at b \<noteq> None \<longrightarrow> r' = as_revoked_at b"
    using assms unfolding session_kept_def by blast
  then show ?thesis by (intro session_keptI[where seen = n' and idle = i' and revoked = r']) auto
qed

lemma pairing_kept_trans:
  assumes "pairing_kept a b" "pairing_kept b c" shows "pairing_kept a c"
proof -
  obtain u u' where "b = a\<lparr>pc_used_at := u\<rparr>" "pc_used_at a \<noteq> None \<longrightarrow> u = pc_used_at a"
    "c = b\<lparr>pc_used_at := u'\<rparr>" "pc_used_at b \<noteq> None \<longrightarrow> u' = pc_used_at b"
    using assms unfolding pairing_kept_def by blast
  then show ?thesis by (intro pairing_keptI[where used = u']) auto
qed

lemma evolves_trans: assumes "evolves a b" "evolves b c" shows "evolves a c"
proof -
  obtain f new where f: "adb_sessions b = map f (adb_sessions a) @ new" "\<And>s. session_kept s (f s)"
    using assms(1) unfolding evolves_def by blast
  obtain f' new' where f': "adb_sessions c = map f' (adb_sessions b) @ new'" "\<And>s. session_kept s (f' s)"
    using assms(2) unfolding evolves_def by blast
  obtain g pn where g: "adb_pairings b = map g (adb_pairings a) @ pn" "\<And>p. pairing_kept p (g p)"
    using assms(1) unfolding evolves_def by blast
  obtain g' pn' where g': "adb_pairings c = map g' (adb_pairings b) @ pn'" "\<And>p. pairing_kept p (g' p)"
    using assms(2) unfolding evolves_def by blast
  show ?thesis
  proof (rule evolvesI)
    show "adb_sessions c = map (f' \<circ> f) (adb_sessions a) @ (map f' new @ new')" using f(1) f'(1) by simp
    show "adb_pairings c = map (g' \<circ> g) (adb_pairings a) @ (map g' pn @ pn')" using g(1) g'(1) by simp
    show "session_kept s ((f' \<circ> f) s)" for s unfolding o_apply by (rule session_kept_trans[OF f(2) f'(2)])
    show "pairing_kept p ((g' \<circ> g) p)" for p unfolding o_apply by (rule pairing_kept_trans[OF g(2) g'(2)])
    show "admin_kept (adb_admin a) (adb_admin c)" using assms admin_kept_trans unfolding evolves_def by blast
  qed
qed

lemma evolves_revoke: "evolves db (revoke_where P now db)"
  unfolding revoke_where_def by (rule evolves_sessions) (simp add: session_kept_revoke)

section \<open>Every call\<close>

lemma answer_simps [simp]:
  "answer f r = (Inl e, db') \<longleftrightarrow> r = (Inl e, db')"
  "answer f r = (Inr y, db') \<longleftrightarrow> (\<exists>x. r = (Inr x, db') \<and> y = f x)"
  by (cases r; cases "fst r"; auto simp: answer_def)+

lemmas call_defs = create_admin_def replace_admin_password_def store_setup_token_if_no_admin_def
  invalidate_setup_token_if_matches_def consume_setup_and_create_admin_and_session_def
  insert_standard_session_if_admin_version_def insert_oidc_session_def
  touch_session_if_active_throttled_def revoke_session_def revoke_oidc_sessions_with_other_policy_def
  insert_pairing_if_authorized_def consume_pairing_and_insert_session_def

lemma run_auth_atomic: "run_auth call db = (Inl e, db') \<Longrightarrow> db' = db"
  by (cases call) (auto simp: call_defs Let_def split: if_splits option.splits list.splits prod.splits)


definition good_call :: "auth_db \<Rightarrow> auth_db \<Rightarrow> bool" where
  "good_call db db' \<longleftrightarrow> evolves db db' \<and> (auth_wf db \<longrightarrow> auth_wf db')"

lemma good_refl [simp]: "good_call db db"
  by (simp add: good_call_def)

lemma good_trans: "good_call a b \<Longrightarrow> good_call b c \<Longrightarrow> good_call a c"
  using evolves_trans by (auto simp: good_call_def)

lemma good_revoke: "good_call db (revoke_where P now db)"
  by (simp add: good_call_def evolves_revoke revoke_where_wf)

lemma good_setup: "good_call db (db\<lparr>adb_setup := t\<rparr>)"
  by (simp add: good_call_def evolves_setup)

lemma good_admin: "admin_kept (adb_admin db) a \<Longrightarrow> good_call db (db\<lparr>adb_admin := a\<rparr>)"
  by (simp add: good_call_def evolves_admin)

lemma good_use: "(\<And>p. P p \<Longrightarrow> pc_used_at p = None) \<Longrightarrow>
   good_call db (db\<lparr>adb_pairings := update_where P (\<lambda>p. p\<lparr>pc_used_at := Some t\<rparr>) (adb_pairings db)\<rparr>)"
  by (simp add: good_call_def update_pairings_wf evolves_pairings pairing_kept_use)

lemma good_touch: "good_call db (db\<lparr>adb_sessions := update_where P (touched now) (adb_sessions db)\<rparr>)"
proof -
  have "auth_wf db \<Longrightarrow> auth_wf (db\<lparr>adb_sessions := update_where P (touched now) (adb_sessions db)\<rparr>)"
    by (rule update_sessions_wf) (simp_all, simp_all add: touched_def)
  moreover have "evolves db (db\<lparr>adb_sessions := update_where P (touched now) (adb_sessions db)\<rparr>)"
    by (rule evolves_sessions) (rule session_kept_touch)
  ultimately show ?thesis unfolding good_call_def by blast
qed

lemma good_session: "insert_session_inner s db = Inr db' \<Longrightarrow> (session_checks s \<Longrightarrow> session_shape s) \<Longrightarrow> good_call db db'"
  by (auto simp: good_call_def insert_session_wf insert_session_Inr_iff evolves_new_session)

lemma good_pairing: "insert_pairing_row p db = Inr db' \<Longrightarrow> good_call db db'"
  by (auto simp: good_call_def insert_pairing_wf) (auto simp: insert_pairing_row_def evolves_new_pairing split: if_splits)

lemma replace_good: "replace_admin_password u h now db = (Inr x, db') \<Longrightarrow> good_call db db'"
  by (auto simp: replace_admin_password_def Let_def admin_kept_def split: option.splits
      intro!: good_trans[OF good_admin good_trans[OF good_revoke good_use]])

lemma setup_good:
  assumes "consume_setup_and_create_admin_and_session t now u h s db = (Inr x, db')"
  shows "good_call db db'"
proof -
  have "(x = False \<and> db' = db) \<or> (as_role s = ''admin'' \<and> as_kind s = ''standard'' \<and> as_auth_method s = ''password'' \<and>
     (\<exists>db1. insert_admin u h (db\<lparr>adb_setup := map_option (\<lambda>t. t\<lparr>st_used_at := Some now\<rparr>) (adb_setup db)\<rparr>) = Inr db1 \<and>
        insert_session_inner s db1 = Inr db'))"
    using assms by (auto simp: consume_setup_and_create_admin_and_session_def result_simps split: if_splits)
  then show ?thesis
  proof (elim disjE conjE exE)
    fix db1
    assume k: "as_role s = ''admin''" "as_kind s = ''standard''" "as_auth_method s = ''password''"
      and a: "insert_admin u h (db\<lparr>adb_setup := map_option (\<lambda>t. t\<lparr>st_used_at := Some now\<rparr>) (adb_setup db)\<rparr>) = Inr db1"
      and i: "insert_session_inner s db1 = Inr db'"
    have "good_call db db1" using a by (auto simp: insert_admin_Inr_iff admin_kept_def intro!: good_trans[OF good_setup good_admin])
    moreover have "good_call db1 db'" by (rule good_session[OF i]) (use k in \<open>simp add: session_shape_def\<close>)
    ultimately show ?thesis by (rule good_trans)
  qed simp
qed

lemma standard_good:
  "insert_standard_session_if_admin_version s v db = (Inr x, db') \<Longrightarrow> good_call db db'"
  by (auto simp: insert_standard_session_if_admin_version_def Let_def result_simps session_shape_def
      split: if_splits intro: good_session)

lemma oidc_good: "insert_oidc_session s db = (Inr x, db') \<Longrightarrow> good_call db db'"
  by (auto simp: insert_oidc_session_def result_simps session_shape_def split: if_splits intro: good_session)

lemma touch_good: "touch_session_if_active_throttled i u r k now m db = (Inr x, db') \<Longrightarrow> good_call db db'"
  by (auto simp: touch_session_if_active_throttled_def Let_def intro: good_touch)

lemma insert_pairing_good:
  "insert_pairing_if_authorized p c ci cu cr ck now v db = (Inr x, db') \<Longrightarrow> good_call db db'"
  by (auto simp: insert_pairing_if_authorized_def result_simps split: if_splits intro: good_pairing)

lemma consume_pairing_cases:
  assumes "consume_pairing_and_insert_session c now i t x vl al db = (Inr r, db')"
  obtains "r = None" "db' = db"
  | p creator db1 where "(p, creator) \<in> set (redeemable c now db)"
      "r = Some (paired_session p creator now i t x vl al)"
      "insert_session_inner (paired_session p creator now i t x vl al) db = Inr db1"
      "changed_rows (\<lambda>q. pc_id q = pc_id p \<and> pc_used_at q = None) (adb_pairings db1) = 1"
      "db' = db1\<lparr>adb_pairings := update_where (\<lambda>q. pc_id q = pc_id p \<and> pc_used_at q = None)
          (\<lambda>q. q\<lparr>pc_used_at := Some now\<rparr>) (adb_pairings db1)\<rparr>"
proof (cases "redeemable c now db")
  case (Cons h rest)
  obtain p creator where h: "h = (p, creator)" by (cases h)
  then have "(p, creator) \<in> set (redeemable c now db)" using Cons by simp
  moreover have "(r = None \<and> db' = db) \<or> (\<exists>db1. r = Some (paired_session p creator now i t x vl al) \<and>
      insert_session_inner (paired_session p creator now i t x vl al) db = Inr db1 \<and>
      changed_rows (\<lambda>q. pc_id q = pc_id p \<and> pc_used_at q = None) (adb_pairings db1) = 1 \<and>
      db' = db1\<lparr>adb_pairings := update_where (\<lambda>q. pc_id q = pc_id p \<and> pc_used_at q = None)
          (\<lambda>q. q\<lparr>pc_used_at := Some now\<rparr>) (adb_pairings db1)\<rparr>)"
    using assms Cons h by (auto simp: consume_pairing_and_insert_session_def Let_def result_simps split: if_splits)
  ultimately show ?thesis using that by blast
qed (use assms that in \<open>simp add: consume_pairing_and_insert_session_def\<close>)

lemma consume_pairing_good:
  assumes "consume_pairing_and_insert_session c now i t x vl al db = (Inr r, db')" "auth_wf db"
  shows "good_call db db'"
  using assms(1)
proof (cases rule: consume_pairing_cases)
  case (2 p creator db1)
  have "pc_role p \<in> set roles"
    using 2(1) assms(2) by (auto simp: redeemable_set auth_wf_def list_all_iff)
  then have "good_call db db1" using good_session[OF 2(3)] by (simp add: paired_shape)
  moreover have "good_call db1 db'" unfolding 2(5) by (rule good_use) simp
  ultimately show ?thesis by (rule good_trans)
qed simp

lemma run_auth_good:
  assumes "run_auth call db = (Inr r, db')" "auth_wf db"
  shows "good_call db db'"
proof (cases call)
  case (CreateAdmin u h)
  then show ?thesis using assms by (auto simp: create_admin_def result_simps insert_admin_Inr_iff admin_kept_def intro!: good_admin)
next
  case (StoreSetup t e)
  then show ?thesis using assms by (auto simp: store_setup_token_if_no_admin_def good_setup split: if_splits)
next
  case (InvalidateSetup t now)
  then show ?thesis using assms
    by (auto simp: invalidate_setup_token_if_matches_def good_setup split: if_splits option.splits)
next
  case (RevokeSession i now)
  then show ?thesis using assms by (auto simp: revoke_session_def good_revoke)
next
  case (RevokeOidc f now)
  then show ?thesis using assms by (auto simp: revoke_oidc_sessions_with_other_policy_def Let_def good_revoke)
qed (use assms in \<open>auto dest: replace_good setup_good standard_good oidc_good touch_good insert_pairing_good
    consume_pairing_good\<close>)

interpretation auth: atomic_operation auth_wf run_auth
  by unfold_locales (auto dest: run_auth_atomic run_auth_good simp: good_call_def)

lemma run_auth_evolves: "auth_wf db \<Longrightarrow> evolves db (snd (run_auth call db))"
  by (metis evolves_refl good_call_def old.sum.exhaust prod.collapse run_auth_atomic run_auth_good)


lemma run_auths_wf: "auth_wf db \<Longrightarrow> auth_wf (run_auths calls db)"
  by (rule auth.calls.runs)

section \<open>What never comes back\<close>

definition revoked_in :: "string \<Rightarrow> auth_db \<Rightarrow> bool" where
  "revoked_in i db = list_ex (\<lambda>s. as_id s = i \<and> as_revoked_at s \<noteq> None) (adb_sessions db)"

definition used_in :: "string \<Rightarrow> auth_db \<Rightarrow> bool" where
  "used_in h db = list_ex (\<lambda>p. pc_code_hash p = h \<and> pc_used_at p \<noteq> None) (adb_pairings db)"

lemma session_kept_revoked: "session_kept s s' \<Longrightarrow> as_id s' = as_id s \<and> (as_revoked_at s \<noteq> None \<longrightarrow> as_revoked_at s' \<noteq> None)"
  by (auto simp: session_kept_def)

lemma pairing_kept_used: "pairing_kept p p' \<Longrightarrow> pc_code_hash p' = pc_code_hash p \<and> (pc_used_at p \<noteq> None \<longrightarrow> pc_used_at p' \<noteq> None)"
  by (auto simp: pairing_kept_def)

lemma evolves_revoked: assumes "evolves db db'" "revoked_in i db" shows "revoked_in i db'"
proof -
  obtain f new where f: "adb_sessions db' = map f (adb_sessions db) @ new" "\<And>s. session_kept s (f s)"
    using assms(1) unfolding evolves_def by blast
  obtain s where s: "s \<in> set (adb_sessions db)" "as_id s = i" "as_revoked_at s \<noteq> None"
    using assms(2) by (auto simp: revoked_in_def list_ex_iff)
  then have "f s \<in> set (adb_sessions db')" "as_id (f s) = i" "as_revoked_at (f s) \<noteq> None"
    using f(1) session_kept_revoked[OF f(2), of s] by auto
  then show ?thesis by (auto simp: revoked_in_def list_ex_iff)
qed

lemma evolves_used: assumes "evolves db db'" "used_in h db" shows "used_in h db'"
proof -
  obtain g new where g: "adb_pairings db' = map g (adb_pairings db) @ new" "\<And>p. pairing_kept p (g p)"
    using assms(1) unfolding evolves_def by blast
  obtain p where p: "p \<in> set (adb_pairings db)" "pc_code_hash p = h" "pc_used_at p \<noteq> None"
    using assms(2) by (auto simp: used_in_def list_ex_iff)
  then have "g p \<in> set (adb_pairings db')" "pc_code_hash (g p) = h" "pc_used_at (g p) \<noteq> None"
    using g(1) pairing_kept_used[OF g(2), of p] by auto
  then show ?thesis by (auto simp: used_in_def list_ex_iff)
qed

interpretation revoked: stable_fact auth_wf "\<lambda>call db. snd (run_auth call db)" "revoked_in i" "\<lambda>_. True" for i
  by unfold_locales (blast intro: evolves_revoked run_auth_evolves)

interpretation used: stable_fact auth_wf "\<lambda>call db. snd (run_auth call db)" "used_in h" "\<lambda>_. True" for h
  by unfold_locales (blast intro: evolves_used run_auth_evolves)

interpretation administered: stable_fact auth_wf "\<lambda>call db. snd (run_auth call db)" "\<lambda>db. adb_admin db \<noteq> None" "\<lambda>_. True"
  by unfold_locales (metis admin_kept_exists evolves_def run_auth_evolves)

text \<open>The credential version has passed a given one.\<close>

definition superseded :: "i64 \<Rightarrow> auth_db \<Rightarrow> bool" where
  "superseded v db = (case adb_admin db of None \<Rightarrow> False | Some a \<Rightarrow> v < ad_credential_version a)"

interpretation superseded: stable_fact auth_wf "\<lambda>call db. snd (run_auth call db)" "superseded v" "\<lambda>_. True" for v
proof
  fix db call assume "auth_wf db" "superseded v db"
  then show "superseded v (snd (run_auth call db))"
    using run_auth_evolves[of db call] by (auto simp: evolves_def admin_kept_def superseded_def split: option.splits)
qed

lemma all_allowed [simp]: "list_all (\<lambda>_. True) xs"
  by (simp add: list_all_iff)

lemma distinct_same: "distinct (map f xs) \<Longrightarrow> x \<in> set xs \<Longrightarrow> y \<in> set xs \<Longrightarrow> f x = f y \<Longrightarrow> x = y"
  by (auto simp: distinct_map dest: inj_onD)

lemma revoked_inactive:
  assumes "auth_wf db" "revoked_in i db" shows "\<not> session_is_active_inner db i u r k now"
proof
  assume "session_is_active_inner db i u r k now"
  then obtain s where s: "s \<in> set (adb_sessions db)" "as_id s = i" "as_revoked_at s = None"
    by (auto simp: session_is_active_inner_def list_ex_iff is_session_def unexpired_def)
  obtain s' where s': "s' \<in> set (adb_sessions db)" "as_id s' = i" "as_revoked_at s' \<noteq> None"
    using assms(2) by (auto simp: revoked_in_def list_ex_iff)
  have "s = s'" using assms(1) s s' by (auto simp: auth_wf_def intro: distinct_same)
  then show False using s s' by simp
qed

lemma used_not_redeemable:
  assumes "auth_wf db" "used_in h db" shows "redeemable h now db = []"
proof (rule ccontr)
  assume "redeemable h now db \<noteq> []"
  then obtain p c where "(p, c) \<in> set (redeemable h now db)" by (cases "redeemable h now db") auto
  then have p: "p \<in> set (adb_pairings db)" "pc_code_hash p = h" "pc_used_at p = None" by (auto simp: redeemable_set)
  obtain p' where p': "p' \<in> set (adb_pairings db)" "pc_code_hash p' = h" "pc_used_at p' \<noteq> None"
    using assms(2) by (auto simp: used_in_def list_ex_iff)
  have "p = p'" using assms(1) p p' by (auto simp: auth_wf_def intro: distinct_same)
  then show False using p p' by simp
qed

section \<open>The throttled touch\<close>

lemma at_most_one:
  assumes "distinct (map f xs)" "\<And>x y. P x \<Longrightarrow> P y \<Longrightarrow> f x = f y"
  shows "changed_rows P xs \<le> 1"
proof -
  have "distinct (map f (filter P xs))" using assms(1) by (simp add: distinct_map_filter)
  moreover have "card (f ` set (filter P xs)) \<le> 1"
  proof (cases "filter P xs")
    case (Cons y ys)
    have "y \<in> set (filter P xs)" using Cons by simp
    then have y: "P y" by simp
    have "f ` set (filter P xs) \<subseteq> {f y}" using assms(2)[OF _ y] by (simp add: image_subset_iff)
    then show ?thesis using card_mono[of "{f y}"] by simp
  qed simp
  ultimately show ?thesis using distinct_card[of "map f (filter P xs)"] by (simp add: changed_rows_def)
qed

lemma update_none: "changed_rows P xs = 0 \<Longrightarrow> update_where P f xs = xs"
  by (auto simp: changed_rows_def update_where_def filter_empty_conv map_idI)

lemma touch_is_active:
  assumes "auth_wf db"
  shows "fst (touch_session_if_active_throttled i u r k now m db) = Inr (session_is_active_inner db i u r k now)"
proof -
  let ?P = "\<lambda>s. is_session i u r k s \<and> unexpired now s \<and> as_last_seen_at s \<le> now - m"
  have "changed_rows ?P (adb_sessions db) \<le> 1"
    by (rule at_most_one[of as_id]) (use assms in \<open>auto simp: auth_wf_def is_session_def\<close>)
  moreover have "session_is_active_inner db i u r k now" if "changed_rows ?P (adb_sessions db) = 1"
    using that by (auto simp: changed_rows_def session_is_active_inner_def list_ex_iff length_Suc_conv filter_eq_Cons_iff)
  moreover have "update_where ?P (touched now) (adb_sessions db) = adb_sessions db" if "changed_rows ?P (adb_sessions db) = 0"
    using that by (rule update_none)
  ultimately show ?thesis
    by (cases "changed_rows ?P (adb_sessions db) = 1") (auto simp: touch_session_if_active_throttled_def Let_def in_tx_def le_Suc_eq)
qed


section \<open>Example\<close>

definition example_session :: auth_session_record where
  "example_session = \<lparr>as_id = ''s1'', as_token_hash = ''t1'', as_csrf_hash = ''c1'', as_username = ''root'',
     as_role = ''admin'', as_kind = ''standard'', as_auth_method = ''password'', as_display_name = ''root'',
     as_provider_name = None, as_identity_issuer = None, as_identity_subject = None,
     as_oidc_policy_fingerprint = None, as_label = None, as_created_at = 100, as_last_seen_at = 100,
     as_idle_expires_at = Some 43300, as_absolute_expires_at = 604900, as_revoked_at = None\<rparr>"

definition example_pairing :: pairing_record where
  "example_pairing = \<lparr>pg_id = ''p1'', pg_role = ''viewer'', pg_label = ''tablet'', pg_expires_at = 800\<rparr>"

definition example_start :: "auth_call list" where
  "example_start = [StoreSetup ''setup'' 900]"

definition example_paired :: "auth_call list" where
  "example_paired = example_start @ [ConsumeSetup ''setup'' 100 ''root'' ''hash'' example_session,
     InsertPairing example_pairing ''code'' ''s1'' ''root'' ''admin'' ''standard'' 200 None]"

lemmas example_defs = example_session_def example_pairing_def example_start_def example_paired_def
  answer_def insert_session_inner_def insert_admin_def insert_pairing_row_def in_tx_def
  session_checks_def roles_def kinds_def auth_methods_def setup_token_is_valid_def setup_token_usable_def
  is_session_def may_pair_def unexpired_def credential_version_is_def empty_auth_db_def

lemma example_setup:
  "consume_setup_and_create_admin_and_session ''setup'' 100 ''root'' ''hash'' example_session
     (run_auths example_start empty_auth_db) =
   (Inr True, \<lparr>adb_admin = Some \<lparr>ad_username = ''root'', ad_password_hash = ''hash'', ad_credential_version = 1\<rparr>,
      adb_setup = Some \<lparr>st_token_hash = ''setup'', st_expires_at = 900, st_used_at = Some 100\<rparr>,
      adb_sessions = [example_session], adb_pairings = []\<rparr>)"
  by (simp add: example_defs call_defs)

lemma example_code:
  "run_auths example_paired empty_auth_db =
   \<lparr>adb_admin = Some \<lparr>ad_username = ''root'', ad_password_hash = ''hash'', ad_credential_version = 1\<rparr>,
      adb_setup = Some \<lparr>st_token_hash = ''setup'', st_expires_at = 900, st_used_at = Some 100\<rparr>,
      adb_sessions = [example_session], adb_pairings = [\<lparr>pc_id = ''p1'', pc_code_hash = ''code'', pc_role = ''viewer'',
        pc_label = ''tablet'', pc_created_by = ''s1'', pc_created_at = 200, pc_expires_at = 800, pc_used_at = None\<rparr>]\<rparr>"
  by (simp add: example_defs call_defs)

section \<open>Properties\<close>

text \<open>C18: The tables keep their constraints under any sequence of calls with any arguments: ids,
  token hashes and code hashes are unique, roles and kinds are the declared ones, a fixed
  session is one of a pairing and has no idle limit, a password session is the
  administrator's, an OIDC session carries its identity, and the creator of a pairing exists.\<close>

theorem auth_store_keeps_schema: "auth_wf (run_auths calls empty_auth_db)"
  by (rule auth.calls.runs) simp

text \<open>The throttled touch answers exactly whether the session is active, whether or not it is
  the time to write, and it changes nothing but the times of last use and of idle expiry.\<close>

theorem touch_agrees_with_active:
  fixes calls i u r k now m
  defines "db \<equiv> run_auths calls empty_auth_db"
  shows "fst (touch_session_if_active_throttled i u r k now m db) = Inr (session_is_active_inner db i u r k now) \<and>
    map (\<lambda>s. s\<lparr>as_last_seen_at := 0, as_idle_expires_at := None\<rparr>)
        (adb_sessions (snd (touch_session_if_active_throttled i u r k now m db)))
      = map (\<lambda>s. s\<lparr>as_last_seen_at := 0, as_idle_expires_at := None\<rparr>) (adb_sessions db)"
proof -
  have "auth_wf db" unfolding db_def by (rule run_auths_wf) simp
  then show ?thesis
    by (auto simp: touch_is_active) (auto simp: touch_session_if_active_throttled_def Let_def in_tx_def
        update_where_def touched_def)
qed

text \<open>C14: A pairing code is redeemed at most once and only on behalf of an administrator's session:
  the code was unused and unexpired and its creator active, the new session has the role and
  label of the code and the user name of its creator, and no later call ever redeems it again.\<close>

theorem pairing_is_single_use:
  fixes calls
  defines "db \<equiv> run_auths calls empty_auth_db"
  assumes "consume_pairing_and_insert_session c now i t x vl al db = (Inr (Some s), db')"
  shows "(\<exists>(p, creator) \<in> set (redeemable c now db).
      as_role creator = ''admin'' \<and> unexpired now creator \<and> pc_used_at p = None \<and> now < pc_expires_at p \<and>
      s = paired_session p creator now i t x vl al) \<and> s \<in> set (adb_sessions db') \<and>
    fst (consume_pairing_and_insert_session c now' i' t' x' vl' al' (run_auths follow db')) = Inr None"
proof -
  have wf: "auth_wf db" unfolding db_def by (rule run_auths_wf) simp
  have wf': "auth_wf db'" using consume_pairing_good[OF assms(2) wf] wf by (simp add: good_call_def)
  show ?thesis
    using assms(2)
  proof (cases rule: consume_pairing_cases)
    case (2 p creator db1)
    have p: "p \<in> set (adb_pairings db1)" "pc_code_hash p = c" "pc_used_at p = None"
      using 2(1,3) by (auto simp: redeemable_set insert_session_Inr_iff)
    have "p\<lparr>pc_used_at := Some now\<rparr> \<in> set (adb_pairings db')"
      unfolding 2(5) using p by (force simp: update_where_def)
    then have "used_in c db'"
      unfolding used_in_def list_ex_iff by (rule bexI[rotated]) (simp add: p)
    then have "used_in c (run_auths follow db')" by (rule used.stays_forever[OF wf']) simp
    then have "redeemable c now' (run_auths follow db') = []" by (rule used_not_redeemable[OF run_auths_wf[OF wf']])
    then have "fst (consume_pairing_and_insert_session c now' i' t' x' vl' al' (run_auths follow db')) = Inr None"
      by (simp add: consume_pairing_and_insert_session_def)
    moreover have "s \<in> set (adb_sessions db')" using 2(2,3,5) by (auto simp: insert_session_Inr_iff)
    moreover have "\<exists>(p, creator) \<in> set (redeemable c now db).
      as_role creator = ''admin'' \<and> unexpired now creator \<and> pc_used_at p = None \<and> now < pc_expires_at p \<and>
      s = paired_session p creator now i t x vl al"
      using 2(1,2) by (auto simp: redeemable_set may_pair_def intro!: bexI[of _ "(p, creator)"])
    ultimately show ?thesis by blast
  qed simp
qed

theorem pairing_is_single_use_witness:
  "fst (consume_pairing_and_insert_session ''code'' 400 ''s3'' ''t3'' ''c3'' 10 10 (run_auths [RevokeSession ''s2'' 350]
     (snd (consume_pairing_and_insert_session ''code'' 300 ''s2'' ''t2'' ''c2'' 10 10
        (run_auths example_paired empty_auth_db))))) = Inr None"
proof -
  obtain s db' where c: "consume_pairing_and_insert_session ''code'' 300 ''s2'' ''t2'' ''c2'' 10 10
      (run_auths example_paired empty_auth_db) = (Inr (Some s), db')"
    by (simp add: example_code consume_pairing_and_insert_session_def redeemable_def example_session_def may_pair_def
        unexpired_def insert_session_inner_def paired_session_def session_checks_def roles_def kinds_def
        auth_methods_def changed_rows_def Let_def in_tx_def)
  show ?thesis
    using pairing_is_single_use[OF c, of 400 "''s3''" "''t3''" "''c3''" 10 10 "[RevokeSession ''s2'' 350]"]
    unfolding c by simp
qed

text \<open>C16: A revocation is final: a session that was revoked is never active again, whatever calls
  follow, and neither a touch nor a pairing on its behalf succeeds.\<close>

theorem revocation_is_final:
  fixes calls follow
  defines "db \<equiv> run_auths calls empty_auth_db"
  shows "list_all (\<lambda>s. \<not> session_is_active_inner (run_auths follow db) (as_id s) u r k now \<and>
      fst (touch_session_if_active_throttled (as_id s) u r k now m (run_auths follow db)) = Inr False \<and>
      fst (insert_pairing_if_authorized p h (as_id s) u r k now v (run_auths follow db)) = Inr False)
    (filter (\<lambda>s. as_revoked_at s \<noteq> None) (adb_sessions db))"
  unfolding list_all_iff
proof
  fix s assume "s \<in> set (filter (\<lambda>s. as_revoked_at s \<noteq> None) (adb_sessions db))"
  then have "revoked_in (as_id s) db" by (auto simp: revoked_in_def list_ex_iff)
  moreover have wf: "auth_wf db" unfolding db_def by (rule run_auths_wf) simp
  ultimately have r: "revoked_in (as_id s) (run_auths follow db)" by (intro revoked.stays_forever) simp_all
  have wf': "auth_wf (run_auths follow db)" by (rule run_auths_wf[OF wf])
  have inactive: "\<not> session_is_active_inner (run_auths follow db) (as_id s) u r k now" by (rule revoked_inactive[OF wf' r])
  then have "\<not> list_ex (\<lambda>z. is_session (as_id s) u r k z \<and> may_pair z now \<and> credential_version_is v (run_auths follow db))
      (adb_sessions (run_auths follow db))"
    by (auto simp: session_is_active_inner_def list_ex_iff may_pair_def)
  then show "\<not> session_is_active_inner (run_auths follow db) (as_id s) u r k now \<and>
      fst (touch_session_if_active_throttled (as_id s) u r k now m (run_auths follow db)) = Inr False \<and>
      fst (insert_pairing_if_authorized p h (as_id s) u r k now v (run_auths follow db)) = Inr False"
    using inactive touch_is_active[OF wf'] by (simp add: insert_pairing_if_authorized_def)
qed

text \<open>C15: A change of the administrator's password ends everything issued before it: no session
  that existed is active again, no pairing code that existed can be redeemed, and a login or
  an administrator's pairing whose password was checked before the change is refused, whatever
  calls follow.\<close>

theorem password_change_ends_everything:
  fixes calls follow name hash at_time
  defines "db \<equiv> run_auths calls empty_auth_db"
    and "later \<equiv> run_auths follow (snd (replace_admin_password name hash at_time (run_auths calls empty_auth_db)))"
  shows "list_all (\<lambda>s. \<not> session_is_active_inner later (as_id s) u r k now) (adb_sessions db) \<and>
    list_all (\<lambda>p. redeemable (pc_code_hash p) now later = []) (adb_pairings db) \<and>
    (case adb_admin db of None \<Rightarrow> True | Some a \<Rightarrow>
       fst (insert_standard_session_if_admin_version s (ad_credential_version a) later) = Inr False \<and>
       fst (insert_pairing_if_authorized p h i u r k now (Some (ad_credential_version a)) later) = Inr False)"
proof -
  let ?db1 = "snd (replace_admin_password name hash at_time db)"
  have wf: "auth_wf db" unfolding db_def by (rule run_auths_wf) simp
  have wf1: "auth_wf ?db1" using auth.calls.keeps_inv[OF wf, of "ReplaceAdmin name hash at_time"] by (simp add: answer_def)
  have wf2: "auth_wf later" unfolding later_def db_def[symmetric] by (rule run_auths_wf[OF wf1])
  have "revoked_in (as_id s) ?db1" if "s \<in> set (adb_sessions db)" for s
  proof -
    let ?f = "\<lambda>s. if as_revoked_at s = None then s\<lparr>as_revoked_at := Some at_time\<rparr> else s"
    have "adb_sessions ?db1 = map ?f (adb_sessions db)"
      by (simp add: replace_admin_password_def Let_def in_tx_def revoke_where_def update_where_def)
    then have "?f s \<in> set (adb_sessions ?db1)" using that by simp
    moreover have "as_id (?f s) = as_id s" "as_revoked_at (?f s) \<noteq> None" by simp_all
    ultimately show ?thesis unfolding revoked_in_def list_ex_iff by blast
  qed
  then have "revoked_in (as_id s) later" if "s \<in> set (adb_sessions db)" for s
    unfolding later_def db_def[symmetric] using that by (intro revoked.stays_forever[OF wf1]) simp_all
  moreover have "used_in (pc_code_hash p) ?db1" if "p \<in> set (adb_pairings db)" for p
  proof -
    let ?g = "\<lambda>p. if pc_used_at p = None then p\<lparr>pc_used_at := Some at_time\<rparr> else p"
    have "adb_pairings ?db1 = map ?g (adb_pairings db)"
      by (simp add: replace_admin_password_def Let_def in_tx_def revoke_where_def update_where_def)
    then have "?g p \<in> set (adb_pairings ?db1)" using that by simp
    moreover have "pc_code_hash (?g p) = pc_code_hash p" "pc_used_at (?g p) \<noteq> None" by simp_all
    ultimately show ?thesis unfolding used_in_def list_ex_iff by blast
  qed
  then have "used_in (pc_code_hash p) later" if "p \<in> set (adb_pairings db)" for p
    unfolding later_def db_def[symmetric] using that by (intro used.stays_forever[OF wf1]) simp_all
  moreover have "case adb_admin db of None \<Rightarrow> True | Some a \<Rightarrow>
       fst (insert_standard_session_if_admin_version s (ad_credential_version a) later) = Inr False \<and>
       fst (insert_pairing_if_authorized p h i u r k now (Some (ad_credential_version a)) later) = Inr False"
  proof (cases "adb_admin db")
    case (Some a)
    have "superseded (ad_credential_version a) ?db1"
      using Some by (simp add: superseded_def replace_admin_password_def Let_def in_tx_def revoke_where_def)
    then have "superseded (ad_credential_version a) later"
      unfolding later_def db_def[symmetric] by (intro superseded.stays_forever[OF wf1]) simp_all
    then show ?thesis
      using Some by (auto simp: superseded_def insert_standard_session_if_admin_version_def Let_def
          insert_pairing_if_authorized_def credential_version_is_def list_ex_iff split: option.splits)
  qed simp
  ultimately show ?thesis by (auto simp: list_all_iff revoked_inactive[OF wf2] used_not_redeemable[OF wf2])
qed

text \<open>C17: The initial setup happens once: when it succeeds, the administrator and the session it
  was given are stored, and from then on every setup token is refused, no new one is issued
  and no other administrator can be created, whatever calls follow.\<close>

theorem setup_happens_once:
  fixes calls follow db'
  assumes "consume_setup_and_create_admin_and_session t now u h s (run_auths calls empty_auth_db) = (Inr True, db')"
  defines "later \<equiv> run_auths follow db'"
  shows "adb_admin db' = Some \<lparr>ad_username = u, ad_password_hash = h, ad_credential_version = 1\<rparr> \<and>
    s \<in> set (adb_sessions db') \<and> as_role s = ''admin'' \<and>
    \<not> setup_token_is_valid t' now' later \<and>
    fst (store_setup_token_if_no_admin t' e later) = Inr False \<and>
    fst (consume_setup_and_create_admin_and_session t' now' (as_username s) h' s later) = Inr False \<and>
    fst (create_admin u' h' later) = Inl SqliteFailure"
proof -
  let ?db = "run_auths calls empty_auth_db"
  have wf: "auth_wf ?db" by (rule run_auths_wf) simp
  have wf': "auth_wf db'" using setup_good[OF assms(1)] wf by (simp add: good_call_def)
  have s: "as_role s = ''admin''" "as_kind s = ''standard''" "as_auth_method s = ''password''" "as_username s = u"
    and stored: "adb_admin db' = Some \<lparr>ad_username = u, ad_password_hash = h, ad_credential_version = 1\<rparr>"
      "s \<in> set (adb_sessions db')"
    using assms(1) by (auto simp: consume_setup_and_create_admin_and_session_def result_simps insert_admin_Inr_iff
        insert_session_Inr_iff split: if_splits)
  have "adb_admin later \<noteq> None" unfolding later_def by (rule administered.stays_forever[OF wf']) (simp_all add: stored)
  then obtain a where "adb_admin later = Some a" by blast
  then show ?thesis
    using s stored by (simp add: setup_token_is_valid_def store_setup_token_if_no_admin_def create_admin_def insert_admin_def
        in_tx_def consume_setup_and_create_admin_and_session_def)
qed

theorem setup_happens_once_witness:
  "fst (create_admin ''eve'' ''h'' (run_auths [StoreSetup ''t'' 99999]
     (snd (consume_setup_and_create_admin_and_session ''setup'' 100 ''root'' ''hash'' example_session
       (run_auths example_start empty_auth_db))))) = Inl SqliteFailure"
proof -
  obtain db' where c: "consume_setup_and_create_admin_and_session ''setup'' 100 ''root'' ''hash'' example_session
      (run_auths example_start empty_auth_db) = (Inr True, db')"
    by (simp add: example_setup)
  show ?thesis unfolding c using setup_happens_once[OF c, where follow = "[StoreSetup ''t'' 99999]"] by simp
qed

end
