(* ===== verification/Auth.thy ===== *)
theory Auth
  imports Auth_Text Failure_Limiter Session_Facts
begin

text \<open>
  The authentication handlers of \<open>auth.rs\<close>.  A handler takes the server's state and returns its
  answer with the new state.  Digests, password hashing and network membership are arguments
  (\<open>auth_env\<close>); the readings of the clocks, the random tokens and whether a hashing slot is free
  are inputs of the request.
\<close>

section \<open>State and inputs\<close>

definition STANDARD_IDLE_SECS :: int where "STANDARD_IDLE_SECS = 12 * 60 * 60"
definition STANDARD_ABSOLUTE_SECS :: int where "STANDARD_ABSOLUTE_SECS = 7 * 24 * 60 * 60"
definition FIXED_VIEWER_SECS :: int where "FIXED_VIEWER_SECS = 180 * 24 * 60 * 60"
definition FIXED_ADMIN_SECS :: int where "FIXED_ADMIN_SECS = 30 * 24 * 60 * 60"
definition PAIRING_SECS :: int where "PAIRING_SECS = 10 * 60"
definition SETUP_SECS :: int where "SETUP_SECS = 15 * 60"
definition HTTP_SESSION_TOUCH_SECS :: int where "HTTP_SESSION_TOUCH_SECS = 5 * 60"
definition SETUP_TOKEN_FILE_MAX_BYTES :: nat where "SETUP_TOKEN_FILE_MAX_BYTES = 128"

record auth_env =
  ae_hash_token :: "string \<Rightarrow> string"
  ae_digest_name :: "string \<Rightarrow> string"
  ae_verify_password :: "string \<Rightarrow> string \<Rightarrow> app_error + bool"
  ae_hash_password :: "string \<Rightarrow> app_error + string"
  ae_dummy_password_hash :: string
  ae_trusted_proxy :: "ip_addr \<Rightarrow> bool"
  ae_public_origin :: string
  ae_policy_fingerprint :: "string option"

text \<open>The setup token file is its content, when it exists.\<close>

record auth_state =
  au_db :: auth_db
  au_login_failures :: "login_failure_key failure_entries"
  au_setup_attempts :: "ip_addr failure_entries"
  au_pairing_attempts :: "pairing_failure_key failure_entries"
  au_admin_pairing_failures :: "admin_pairing_failure_key failure_entries"
  au_token_file :: "string option"
  au_setup_stopped :: bool

record fresh_values =
  fr_id :: string
  fr_token :: string
  fr_csrf :: string

record auth_inputs =
  in_checked :: nat
  in_started :: nat
  in_unix :: i64
  in_unix_later :: i64
  in_slot_free :: bool
  in_fresh :: fresh_values

record session_context =
  sc_id :: string
  sc_username :: string
  sc_role :: string
  sc_kind :: string
  sc_auth_method :: string
  sc_display_name :: string
  sc_provider_name :: "string option"
  sc_oidc_policy_fingerprint :: "string option"
  sc_csrf_hash :: string

record me_response =
  me_username :: string
  me_display_name :: string
  me_role :: string
  me_session_kind :: string
  me_auth_method :: string
  me_provider_name :: "string option"
  me_capabilities :: "string list"

record session_reply =
  sr_cookies :: "string list"
  sr_me :: me_response

type_synonym 'a handled = "(app_error + 'a) \<times> auth_state"

section \<open>Sessions\<close>

definition is_admin :: "session_context \<Rightarrow> bool" where
  "is_admin s \<longleftrightarrow> sc_role s = ''admin''"

definition context_of :: "auth_session_record \<Rightarrow> session_context" where
  "context_of s = \<lparr>sc_id = as_id s, sc_username = as_username s, sc_role = as_role s, sc_kind = as_kind s,
     sc_auth_method = as_auth_method s, sc_display_name = as_display_name s,
     sc_provider_name = as_provider_name s, sc_oidc_policy_fingerprint = as_oidc_policy_fingerprint s,
     sc_csrf_hash = as_csrf_hash s\<rparr>"

definition me_for :: "session_context \<Rightarrow> me_response" where
  "me_for s = \<lparr>me_username = sc_username s, me_display_name = sc_display_name s, me_role = sc_role s,
     me_session_kind = sc_kind s, me_auth_method = sc_auth_method s, me_provider_name = sc_provider_name s,
     me_capabilities = (if is_admin s then [''read'', ''configure'', ''manage_devices'', ''manage_sessions'']
       else [''read''])\<rparr>"

definition new_session ::
  "auth_env \<Rightarrow> fresh_values \<Rightarrow> i64 \<Rightarrow> string \<Rightarrow> string \<Rightarrow> string \<Rightarrow> string option \<Rightarrow> i64 \<Rightarrow> auth_session_record" where
  "new_session env fresh now username role kind label lifetime =
     \<lparr>as_id = fr_id fresh, as_token_hash = ae_hash_token env (fr_token fresh),
      as_csrf_hash = ae_hash_token env (fr_csrf fresh), as_username = username, as_role = role, as_kind = kind,
      as_auth_method = (if kind = ''fixed'' then ''pairing'' else ''password''), as_display_name = username,
      as_provider_name = None, as_identity_issuer = None, as_identity_subject = None,
      as_oidc_policy_fingerprint = None, as_label = label, as_created_at = now, as_last_seen_at = now,
      as_idle_expires_at = (if kind = ''standard'' then Some (now + STANDARD_IDLE_SECS) else None),
      as_absolute_expires_at = now + lifetime, as_revoked_at = None\<rparr>"

definition session_response :: "auth_session_record \<Rightarrow> string \<Rightarrow> string \<Rightarrow> i64 \<Rightarrow> app_error + session_reply" where
  "session_response session token csrf now =
     and_then (append_session_cookies [] session token csrf now) (\<lambda>cookies.
       Inr \<lparr>sr_cookies = cookies, sr_me = me_for (context_of session)\<rparr>)"

text \<open>\<open>OidcManager::session_policy_valid\<close>: the fingerprints of the current policy and of the session.\<close>

definition session_policy_valid :: "auth_env \<Rightarrow> string \<Rightarrow> string option \<Rightarrow> bool" where
  "session_policy_valid env auth_method fingerprint \<longleftrightarrow> auth_method \<noteq> ''oidc'' \<or>
     (case (ae_policy_fingerprint env, fingerprint) of
        (Some expected, Some actual) \<Rightarrow> constant_time_eq expected actual | _ \<Rightarrow> False)"

definition set_db :: "auth_state \<Rightarrow> ((sqlite_error + 'a) \<times> auth_db) \<Rightarrow> 'a handled" where
  "set_db st r = (lift_db (fst r), st\<lparr>au_db := snd r\<rparr>)"

definition authenticate_headers ::
  "auth_env \<Rightarrow> i64 \<Rightarrow> headers \<Rightarrow> auth_state \<Rightarrow> session_context option \<times> auth_state" where
  "authenticate_headers env now hs st = (case cookie_value hs SESSION_COOKIE of
      None \<Rightarrow> (None, st)
    | Some token \<Rightarrow> (case session_by_token_hash (ae_hash_token env token) (au_db st) of
        None \<Rightarrow> (None, st)
      | Some s \<Rightarrow>
          let revoked = st\<lparr>au_db := snd (revoke_session (as_id s) now (au_db st))\<rparr> in
          if \<not> unexpired now s
          then (None, if as_revoked_at s = None then revoked else st)
          else if \<not> session_policy_valid env (as_auth_method s) (as_oidc_policy_fingerprint s)
          then (None, revoked)
          else (Some (context_of s), st)))"

definition is_mutation :: "string \<Rightarrow> bool" where
  "is_mutation http_method \<longleftrightarrow> http_method \<notin> set [''GET'', ''HEAD'', ''OPTIONS'']"

text \<open>The middleware before every protected route: the session the handler receives.\<close>

definition require_auth ::
  "auth_env \<Rightarrow> i64 \<Rightarrow> i64 \<Rightarrow> string \<Rightarrow> string \<Rightarrow> headers \<Rightarrow> auth_state \<Rightarrow> session_context handled" where
  "require_auth env authenticated_at now http_method path hs st =
     (case authenticate_headers env authenticated_at hs st of
        (None, st1) \<Rightarrow> (Inl Unauthorized, st1)
      | (Some session, st1) \<Rightarrow>
          let is_websocket = (path = ''/ws''); mutation = is_mutation http_method;
              checks = and_then (if is_websocket \<or> mutation then validate_origin hs (ae_public_origin env) else Inr ())
                (\<lambda>_. if mutation
                  then and_then (validate_csrf (ae_hash_token env) hs (sc_csrf_hash session)) (\<lambda>_.
                    if \<not> is_admin session \<and> path \<noteq> ''/api/auth/logout''
                    then Inl (Forbidden ''viewer sessions cannot modify application state'') else Inr ())
                  else Inr ()) in
          case checks of
            Inl e \<Rightarrow> (Inl e, st1)
          | Inr _ \<Rightarrow>
              let touched = (if is_websocket
                 then (Inr (session_is_active_inner (au_db st1) (sc_id session) (sc_username session)
                         (sc_role session) (sc_kind session) now), au_db st1)
                 else touch_session_if_active_throttled (sc_id session) (sc_username session) (sc_role session)
                         (sc_kind session) now HTTP_SESSION_TOUCH_SECS (au_db st1)) in
              (case set_db st1 touched of
                 (Inl e, st2) \<Rightarrow> (Inl e, st2)
               | (Inr active, st2) \<Rightarrow> if \<not> active then (Inl Unauthorized, st2) else (Inr session, st2)))"

definition revalidate_session :: "auth_env \<Rightarrow> i64 \<Rightarrow> session_context \<Rightarrow> auth_state \<Rightarrow> bool" where
  "revalidate_session env now s st \<longleftrightarrow>
     session_policy_valid env (sc_auth_method s) (sc_oidc_policy_fingerprint s) \<and>
     session_is_active_inner (au_db st) (sc_id s) (sc_username s) (sc_role s) (sc_kind s) now"

section \<open>Passwords\<close>

definition acquire_argon2 :: "bool \<Rightarrow> app_error + unit" where
  "acquire_argon2 slot_free = (if slot_free then Inr () else Inl (RateLimited 1))"

definition acquire_pairing_slot :: "bool \<Rightarrow> app_error + unit" where
  "acquire_pairing_slot slot_free = (if slot_free then Inr () else Inl (RateLimited 1))"

text \<open>Every key is asked, and the longest wait counts.\<close>

fun retry_after_any :: "'k list \<Rightarrow> nat \<Rightarrow> 'k failure_entries \<Rightarrow> 'k failure_entries \<times> nat option" where
  "retry_after_any [] now es = (es, None)"
| "retry_after_any (k # ks) now es = (case retry_after k now es of (es1, w) \<Rightarrow>
     (case retry_after_any ks now es1 of (es2, w') \<Rightarrow>
       (es2, (case (w, w') of (None, w') \<Rightarrow> w' | (w, None) \<Rightarrow> w | (Some a, Some b) \<Rightarrow> Some (max a b)))))"

definition record_failures :: "'k list \<Rightarrow> nat \<Rightarrow> 'k failure_entries \<Rightarrow> 'k failure_entries" where
  "record_failures ks now es = fold (\<lambda>k es. fst (record_failure k now es)) ks es"

definition clear_failures :: "'k list \<Rightarrow> nat \<Rightarrow> 'k failure_entries \<Rightarrow> 'k failure_entries" where
  "clear_failures ks started es = fold (\<lambda>k es. clear_if_latest k started es) ks es"

definition bounded_password :: "string \<Rightarrow> string" where
  "bounded_password p = (if length p \<le> 128 then p else ''invalid-password-input'')"

section \<open>Login and logout\<close>

definition login ::
  "auth_env \<Rightarrow> auth_inputs \<Rightarrow> ip_addr \<Rightarrow> headers \<Rightarrow> string \<Rightarrow> string \<Rightarrow> auth_state \<Rightarrow> session_reply handled" where
  "login env inp peer hs username password st =
     (let name = login_key_username (ae_digest_name env) username in
      case resolve_client_ip (ae_trusted_proxy env) peer hs of
        Inl e \<Rightarrow> (Inl e, st)
      | Inr source \<Rightarrow>
      let ks = [LoginUsername name, LoginSource source] in
      case retry_after_any ks (in_checked inp) (au_login_failures st) of
        (es, Some wait) \<Rightarrow> (Inl (RateLimited wait), st\<lparr>au_login_failures := es\<rparr>)
      | (es, None) \<Rightarrow>
      let st1 = st\<lparr>au_login_failures := es\<rparr>; admin = adb_admin (au_db st1) in
      case password_hash_for_login admin name (ae_dummy_password_hash env) of (encoded, username_matches) \<Rightarrow>
      case acquire_argon2 (in_slot_free inp) of
        Inl e \<Rightarrow> (Inl e, st1)
      | Inr _ \<Rightarrow>
      let bounded = (length password \<le> 128);
          st2 = st1\<lparr>au_login_failures := record_failures ks (in_started inp) (au_login_failures st1)\<rparr> in
      case ae_verify_password env (bounded_password password) encoded of
        Inl e \<Rightarrow> (Inl e, st2)
      | Inr password_matches \<Rightarrow>
      if \<not> username_matches \<or> \<not> password_matches \<or> \<not> bounded then (Inl Unauthorized, st2)
      else case admin of
        None \<Rightarrow> (Inl (Internal ''administrator record disappeared during authentication''), st2)
      | Some a \<Rightarrow>
      let session = new_session env (in_fresh inp) (in_unix inp) (ad_username a) ''admin'' ''standard'' None
            STANDARD_ABSOLUTE_SECS in
      case set_db st2 (insert_standard_session_if_admin_version session (ad_credential_version a) (au_db st2)) of
        (Inl e, st3) \<Rightarrow> (Inl e, st3)
      | (Inr inserted, st3) \<Rightarrow>
      if \<not> inserted then (Inl Unauthorized, st3)
      else (session_response session (fr_token (in_fresh inp)) (fr_csrf (in_fresh inp)) (in_unix_later inp),
            st3\<lparr>au_login_failures := clear_failures ks (in_started inp) (au_login_failures st3)\<rparr>))"

definition logout :: "i64 \<Rightarrow> session_context \<Rightarrow> auth_state \<Rightarrow> string list handled" where
  "logout now session st = (case set_db st (revoke_session (sc_id session) now (au_db st)) of
      (Inl e, st1) \<Rightarrow> (Inl e, st1)
    | (Inr _, st1) \<Rightarrow> (append_clear_cookies [], st1))"

text \<open>\<open>revoke_session\<close>, the handler.\<close>

definition revoke_session_handler :: "i64 \<Rightarrow> string \<Rightarrow> auth_state \<Rightarrow> unit handled" where
  "revoke_session_handler now i st = (case set_db st (revoke_session i now (au_db st)) of
      (Inl e, st1) \<Rightarrow> (Inl e, st1)
    | (Inr revoked, st1) \<Rightarrow>
        (if revoked then Inr () else Inl (InvalidData ''unknown or revoked session''), st1))"

definition require_admin_session :: "session_context \<Rightarrow> app_error + unit" where
  "require_admin_session s =
     (if is_admin s then Inr () else Inl (Forbidden ''administrator capability is required''))"

text \<open>\<open>list_sessions\<close>, the handler: each session with whether it is active.\<close>

definition list_sessions_handler ::
  "auth_env \<Rightarrow> i64 \<Rightarrow> session_context \<Rightarrow> auth_state \<Rightarrow> app_error + (auth_session_record \<times> bool) list" where
  "list_sessions_handler env now session st =
     and_then (require_admin_session session) (\<lambda>_. Inr (map (\<lambda>s. (s,
       session_policy_valid env (as_auth_method s) (as_oidc_policy_fingerprint s) \<and> unexpired now s))
       (list_sessions (au_db st))))"

section \<open>Pairing\<close>

record pairing_reply =
  pp_code :: string
  pp_expires_at :: i64
  pp_role :: string
  pp_label :: string

text \<open>The password check of an administrator's pairing: the credential version it was made with, and
  the keys whose failures a success clears.\<close>

definition confirm_admin_password ::
  "auth_env \<Rightarrow> auth_inputs \<Rightarrow> session_context \<Rightarrow> ip_addr \<Rightarrow> headers \<Rightarrow> string option \<Rightarrow> auth_state \<Rightarrow>
   (i64 \<times> admin_pairing_failure_key list) handled" where
  "confirm_admin_password env inp session peer hs password st =
     (case resolve_client_ip (ae_trusted_proxy env) peer hs of
        Inl e \<Rightarrow> (Inl e, st)
      | Inr source \<Rightarrow>
      let ks = [AdminSession (sc_id session), AdminSource source] in
      case retry_after_any ks (in_checked inp) (au_admin_pairing_failures st) of
        (es, Some wait) \<Rightarrow> (Inl (RateLimited wait), st\<lparr>au_admin_pairing_failures := es\<rparr>)
      | (es, None) \<Rightarrow>
      let st1 = st\<lparr>au_admin_pairing_failures := es\<rparr> in
      case adb_admin (au_db st1) of
        None \<Rightarrow> (Inl Unauthorized, st1)
      | Some admin \<Rightarrow>
      case password of
        None \<Rightarrow> (Inl (InvalidData ''password is required for an admin pairing''), st1)
      | Some p \<Rightarrow>
      case acquire_argon2 (in_slot_free inp) of
        Inl e \<Rightarrow> (Inl e, st1)
      | Inr _ \<Rightarrow>
      let st2 = st1\<lparr>au_admin_pairing_failures :=
            record_failures ks (in_started inp) (au_admin_pairing_failures st1)\<rparr> in
      case ae_verify_password env (bounded_password p) (ad_password_hash admin) of
        Inl e \<Rightarrow> (Inl e, st2)
      | Inr verified \<Rightarrow>
      if \<not> verified \<or> \<not> length p \<le> 128 then (Inl Unauthorized, st2)
      else (Inr (ad_credential_version admin, ks), st2))"

definition issue_pairing ::
  "auth_env \<Rightarrow> auth_inputs \<Rightarrow> session_context \<Rightarrow> string \<Rightarrow> string \<Rightarrow> i64 option \<Rightarrow>
   admin_pairing_failure_key list \<Rightarrow> auth_state \<Rightarrow> pairing_reply handled" where
  "issue_pairing env inp session label role version ks st =
     (let code = fr_token (in_fresh inp); now = in_unix inp;
          pairing = \<lparr>pg_id = fr_id (in_fresh inp), pg_role = role, pg_label = label,
            pg_expires_at = now + PAIRING_SECS\<rparr> in
      case set_db st (insert_pairing_if_authorized pairing (ae_hash_token env code) (sc_id session)
              (sc_username session) (sc_role session) (sc_kind session) now version (au_db st)) of
        (Inl e, st1) \<Rightarrow> (Inl e, st1)
      | (Inr inserted, st1) \<Rightarrow>
        if \<not> inserted then (Inl Unauthorized, st1)
        else (Inr \<lparr>pp_code = code, pp_expires_at = pg_expires_at pairing, pp_role = role, pp_label = label\<rparr>,
              st1\<lparr>au_admin_pairing_failures :=
                clear_failures ks (in_started inp) (au_admin_pairing_failures st1)\<rparr>))"

definition create_pairing ::
  "auth_env \<Rightarrow> auth_inputs \<Rightarrow> session_context \<Rightarrow> ip_addr \<Rightarrow> headers \<Rightarrow> string \<Rightarrow> string \<Rightarrow> string option \<Rightarrow>
   auth_state \<Rightarrow> pairing_reply handled" where
  "create_pairing env inp session peer hs label role password st =
     (let label = trim label in
      if label = [] \<or> 80 < length label
      then (Inl (InvalidData ''pairing label must contain 1 to 80 characters''), st)
      else if role \<notin> set roles then (Inl (InvalidData ''pairing role must be viewer or admin''), st)
      else if role = ''admin''
      then (case confirm_admin_password env inp session peer hs password st of
          (Inl e, st1) \<Rightarrow> (Inl e, st1)
        | (Inr (version, ks), st1) \<Rightarrow> issue_pairing env inp session label role (Some version) ks st1)
      else issue_pairing env inp session label role None [] st)"

definition pair ::
  "auth_env \<Rightarrow> auth_inputs \<Rightarrow> ip_addr \<Rightarrow> headers \<Rightarrow> string \<Rightarrow> auth_state \<Rightarrow> session_reply handled" where
  "pair env inp peer hs code st =
     (case resolve_client_ip (ae_trusted_proxy env) peer hs of
        Inl e \<Rightarrow> (Inl e, st)
      | Inr source \<Rightarrow>
      case begin_pairing_attempt source (in_started inp) (au_pairing_attempts st) of
        (es, Inl wait) \<Rightarrow> (Inl (RateLimited wait), st\<lparr>au_pairing_attempts := es\<rparr>)
      | (es, Inr attempt) \<Rightarrow>
      let st1 = st\<lparr>au_pairing_attempts := es\<rparr> in
      case validated_token_hash (ae_hash_token env) code of
        Inl e \<Rightarrow> (Inl e, st1)
      | Inr code_hash \<Rightarrow>
      case acquire_pairing_slot (in_slot_free inp) of
        Inl e \<Rightarrow> (Inl e, st1)
      | Inr _ \<Rightarrow>
      if \<not> pairing_is_eligible code_hash (in_unix inp) (au_db st1) then (Inl Unauthorized, st1)
      else case set_db st1 (consume_pairing_and_insert_session code_hash (in_unix_later inp)
              (fr_id (in_fresh inp)) (ae_hash_token env (fr_token (in_fresh inp)))
              (ae_hash_token env (fr_csrf (in_fresh inp))) FIXED_VIEWER_SECS FIXED_ADMIN_SECS (au_db st1)) of
        (Inl e, st2) \<Rightarrow> (Inl e, st2)
      | (Inr None, st2) \<Rightarrow> (Inl Unauthorized, st2)
      | (Inr (Some session), st2) \<Rightarrow>
          (session_response session (fr_token (in_fresh inp)) (fr_csrf (in_fresh inp)) (in_unix_later inp),
           st2\<lparr>au_pairing_attempts :=
             clear_if_latest (pa_key attempt) (pa_started_at attempt) (au_pairing_attempts st2)\<rparr>))"

end
