(* ===== verification/Auth_Setup.thy ===== *)
theory Auth_Setup
  imports Auth
begin

text \<open>
  The initial setup of \<open>auth.rs\<close>: the one-time token and its file, the setup handlers, the
  administrator from the command line, and the session of a completed OIDC login.  A file
  operation other than the writing of the token does not fail; whether that one succeeds is an
  input.
\<close>

section \<open>The token file\<close>

definition trim_line_end :: "string \<Rightarrow> string" where
  "trim_line_end s = rev (dropWhile (\<lambda>c. c = CHR 0x0D \<or> c = CHR 0x0A) (rev s))"

definition remove_setup_token_file :: "auth_state \<Rightarrow> auth_state" where
  "remove_setup_token_file st = st\<lparr>au_token_file := None\<rparr>"

definition remove_setup_token_file_if_matches :: "auth_env \<Rightarrow> string \<Rightarrow> auth_state \<Rightarrow> bool \<times> auth_state" where
  "remove_setup_token_file_if_matches env expected_hash st = (case au_token_file st of
      None \<Rightarrow> (False, st)
    | Some content \<Rightarrow>
        if SETUP_TOKEN_FILE_MAX_BYTES < length content then (False, st)
        else if \<not> constant_time_eq (ae_hash_token env (trim_line_end content)) expected_hash then (False, st)
        else (True, remove_setup_token_file st))"

text \<open>The file is written under another name and renamed, so a failure leaves the old one.\<close>

definition write_setup_token_file :: "bool \<Rightarrow> string \<Rightarrow> auth_state \<Rightarrow> unit handled" where
  "write_setup_token_file writable token st =
     (if writable then (Inr (), st\<lparr>au_token_file := Some (token @ [CHR 0x0A])\<rparr>)
      else (Inl (Internal ''failed to write setup token file''), st))"

section \<open>Issuing and cleaning up\<close>

record setup_token_response =
  tr_token :: string
  tr_expires_at :: i64

definition issue_setup_token ::
  "auth_env \<Rightarrow> string \<Rightarrow> i64 \<Rightarrow> i64 \<Rightarrow> bool \<Rightarrow> auth_state \<Rightarrow> setup_token_response option handled" where
  "issue_setup_token env token now later writable st =
     (let token_hash = ae_hash_token env token; expires_at = now + SETUP_SECS in
      case set_db st (store_setup_token_if_no_admin token_hash expires_at (au_db st)) of
        (Inl e, st1) \<Rightarrow> (Inl e, st1)
      | (Inr stored, st1) \<Rightarrow>
        if \<not> stored then (Inr None, remove_setup_token_file st1)
        else (case write_setup_token_file writable token st1 of
            (Inl e, st2) \<Rightarrow>
              (Inl e, snd (remove_setup_token_file_if_matches env token_hash
                (st2\<lparr>au_db := snd (invalidate_setup_token_if_matches token_hash later (au_db st2))\<rparr>)))
          | (Inr _, st2) \<Rightarrow> (Inr (Some \<lparr>tr_token = token, tr_expires_at = expires_at\<rparr>), st2)))"

definition issue_setup_token_http ::
  "auth_env \<Rightarrow> string \<Rightarrow> i64 \<Rightarrow> i64 \<Rightarrow> bool \<Rightarrow> auth_state \<Rightarrow> setup_token_response handled" where
  "issue_setup_token_http env token now later writable st =
     (case issue_setup_token env token now later writable st of
        (Inl e, st1) \<Rightarrow> (Inl e, st1)
      | (Inr None, st1) \<Rightarrow> (Inl (Conflict ''initial setup has already been completed''), st1)
      | (Inr (Some issued), st1) \<Rightarrow> (Inr issued, st1))"

definition cleanup_setup_token ::
  "auth_env \<Rightarrow> string option \<Rightarrow> i64 \<Rightarrow> auth_state \<Rightarrow> bool handled" where
  "cleanup_setup_token env token_hash now st = (case token_hash of
      None \<Rightarrow> (Inr False, st)
    | Some h \<Rightarrow> (case set_db st (invalidate_setup_token_if_matches h now (au_db st)) of
          (Inl e, st1) \<Rightarrow> (Inl e, st1)
        | (Inr invalidated, st1) \<Rightarrow>
            if \<not> invalidated then (Inr False, st1)
            else (Inr True, snd (remove_setup_token_file_if_matches env h st1))))"

definition cleanup_current_setup_token :: "auth_env \<Rightarrow> i64 \<Rightarrow> auth_state \<Rightarrow> bool handled" where
  "cleanup_current_setup_token env now st = cleanup_setup_token env (current_setup_token_hash (au_db st)) now st"

definition cleanup_expired_setup_token :: "auth_env \<Rightarrow> i64 \<Rightarrow> auth_state \<Rightarrow> bool handled" where
  "cleanup_expired_setup_token env now st = cleanup_setup_token env (expired_setup_token_hash now (au_db st)) now st"

section \<open>Setup\<close>

definition validate_setup_token :: "auth_env \<Rightarrow> string \<Rightarrow> i64 \<Rightarrow> auth_db \<Rightarrow> app_error + string" where
  "validate_setup_token env token now db =
     and_then (validated_token_hash (ae_hash_token env) token) (\<lambda>token_hash.
       if \<not> setup_token_is_valid token_hash now db then Inl Unauthorized else Inr token_hash)"

definition setup_done :: app_error where
  "setup_done = Conflict ''initial setup has already been completed''"

definition setup_inner ::
  "auth_env \<Rightarrow> auth_inputs \<Rightarrow> string \<Rightarrow> string \<Rightarrow> string \<Rightarrow> (ip_addr \<times> nat) option \<Rightarrow> auth_state \<Rightarrow>
   session_reply handled" where
  "setup_inner env inp token username password attempt st =
     (if adb_admin (au_db st) \<noteq> None then (Inl setup_done, st)
      else case and_then (normalize_username username) (\<lambda>name.
          and_then (validate_password password) (\<lambda>_.
          and_then (validate_setup_token env token (in_unix inp) (au_db st)) (\<lambda>token_hash.
          and_then (acquire_argon2 (in_slot_free inp)) (\<lambda>_.
          and_then (ae_hash_password env password) (\<lambda>password_hash.
          let session = new_session env (in_fresh inp) (in_unix inp) name ''admin'' ''standard'' None
                STANDARD_ABSOLUTE_SECS in
          and_then (session_response session (fr_token (in_fresh inp)) (fr_csrf (in_fresh inp)) (in_unix inp))
            (\<lambda>reply. Inr (name, token_hash, password_hash, session, reply))))))) of
        Inl e \<Rightarrow> (Inl e, st)
      | Inr (name, token_hash, password_hash, session, reply) \<Rightarrow>
        (case set_db st (consume_setup_and_create_admin_and_session token_hash (in_unix_later inp) name
                password_hash session (au_db st)) of
           (Inl e, st1) \<Rightarrow> (Inl e, st1)
         | (Inr consumed, st1) \<Rightarrow>
             if \<not> consumed
             then (Inl (if adb_admin (au_db st1) \<noteq> None then setup_done else Unauthorized), st1)
             else
               let st2 = snd (remove_setup_token_file_if_matches env token_hash st1);
                   st3 = (case attempt of None \<Rightarrow> st2
                     | Some (source, started) \<Rightarrow>
                         st2\<lparr>au_setup_attempts := clear_if_latest source started (au_setup_attempts st2)\<rparr>) in
               (Inr reply, st3\<lparr>au_setup_stopped := True\<rparr>)))"

definition setup_legacy ::
  "auth_env \<Rightarrow> auth_inputs \<Rightarrow> string \<Rightarrow> string \<Rightarrow> string \<Rightarrow> auth_state \<Rightarrow> session_reply handled" where
  "setup_legacy env inp token username password st = setup_inner env inp token username password None st"

definition setup_checks ::
  "auth_env \<Rightarrow> ip_addr \<Rightarrow> headers \<Rightarrow> string \<Rightarrow> string \<Rightarrow> auth_state \<Rightarrow> app_error + ip_addr" where
  "setup_checks env peer hs username password st =
     and_then (validate_origin hs (ae_public_origin env)) (\<lambda>_.
     and_then (if adb_admin (au_db st) \<noteq> None then Inl setup_done else Inr ()) (\<lambda>_.
     and_then (normalize_username username) (\<lambda>_.
     and_then (validate_password password) (\<lambda>_.
     resolve_client_ip (ae_trusted_proxy env) peer hs))))"

definition initial_setup ::
  "auth_env \<Rightarrow> auth_inputs \<Rightarrow> ip_addr \<Rightarrow> headers \<Rightarrow> string \<Rightarrow> string \<Rightarrow> string \<Rightarrow> auth_state \<Rightarrow>
   session_reply handled" where
  "initial_setup env inp peer hs token username password st =
     (case setup_checks env peer hs username password st of
        Inl e \<Rightarrow> (Inl e, st)
      | Inr source \<Rightarrow>
        (case retry_after source (in_started inp) (au_setup_attempts st) of
           (es, Some wait) \<Rightarrow> (Inl (RateLimited wait), st\<lparr>au_setup_attempts := es\<rparr>)
         | (es, None) \<Rightarrow>
             setup_inner env inp token username password (Some (source, in_started inp))
               (st\<lparr>au_setup_attempts := fst (record_failure source (in_started inp) es)\<rparr>)))"

section \<open>Other ways in\<close>

definition create_admin_from_cli ::
  "auth_env \<Rightarrow> string \<Rightarrow> string \<Rightarrow> bool \<Rightarrow> i64 \<Rightarrow> auth_db \<Rightarrow> (app_error + unit) \<times> auth_db" where
  "create_admin_from_cli env username password replace now db =
     (case and_then (normalize_username username) (\<lambda>name.
           and_then (validate_password password) (\<lambda>_.
           and_then (ae_hash_password env password) (\<lambda>h. Inr (name, h)))) of
        Inl e \<Rightarrow> (Inl e, db)
      | Inr (name, h) \<Rightarrow>
        if replace
        then if adb_admin db = None
             then (Inl (InvalidData ''cannot reset an administrator before setup''), db)
             else (case replace_admin_password name h now db of (r, db') \<Rightarrow> (lift_db r, db'))
        else (case create_admin name h db of
            (Inl SqliteFailure, db') \<Rightarrow> (Inl (Conflict ''an administrator already exists''), db')
          | (r, db') \<Rightarrow> (lift_db r, db')))"

record oidc_identity =
  oi_issuer :: string
  oi_subject :: string
  oi_username :: string
  oi_display_name :: string
  oi_role :: string
  oi_provider_name :: string
  oi_policy_fingerprint :: string

definition oidc_session :: "auth_env \<Rightarrow> auth_inputs \<Rightarrow> oidc_identity \<Rightarrow> auth_session_record" where
  "oidc_session env inp identity =
     (new_session env (in_fresh inp) (in_unix inp) (oi_username identity) (oi_role identity) ''standard'' None
        STANDARD_ABSOLUTE_SECS)
       \<lparr>as_auth_method := ''oidc'', as_display_name := oi_display_name identity,
        as_provider_name := Some (oi_provider_name identity), as_identity_issuer := Some (oi_issuer identity),
        as_identity_subject := Some (oi_subject identity),
        as_oidc_policy_fingerprint := Some (oi_policy_fingerprint identity)\<rparr>"

text \<open>The answer is the cookies and the location to go to.\<close>

definition establish_oidc_session ::
  "auth_env \<Rightarrow> auth_inputs \<Rightarrow> oidc_identity \<Rightarrow> string \<Rightarrow> auth_state \<Rightarrow> (string list \<times> string) handled" where
  "establish_oidc_session env inp identity completion_location st =
     (if adb_admin (au_db st) = None then (Inl Unauthorized, st)
      else let session = oidc_session env inp identity in
        (case set_db st (insert_oidc_session session (au_db st)) of
           (Inl e, st1) \<Rightarrow> (Inl e, st1)
         | (Inr _, st1) \<Rightarrow>
             (and_then (append_session_cookies [] session (fr_token (in_fresh inp)) (fr_csrf (in_fresh inp))
                  (in_unix_later inp)) (\<lambda>cookies.
                if list_all visible_ascii completion_location then Inr (cookies, completion_location)
                else Inl (Internal ''failed to construct OIDC completion redirect'')), st1)))"

record auth_status =
  st_setup_required :: bool
  st_authenticated :: bool

definition status :: "auth_env \<Rightarrow> i64 \<Rightarrow> headers \<Rightarrow> auth_state \<Rightarrow> auth_status \<times> auth_state" where
  "status env now hs st = (case authenticate_headers env now hs st of (session, st1) \<Rightarrow>
     (\<lparr>st_setup_required = (adb_admin (au_db st) = None), st_authenticated = (session \<noteq> None)\<rparr>, st1))"

end
