(* ===== verification/Failure_Limiter_Facts.thy ===== *)
theory Failure_Limiter_Facts
  imports Failure_Limiter Contracts
begin

text \<open>
  What the backoff promises: the tables stay small whatever the attempts, and the penalty of an
  address survives any flood of attempts from other addresses.
\<close>

section \<open>Tables\<close>

definition keys_with :: "('k \<Rightarrow> bool) \<Rightarrow> ('k \<times> 'v) list \<Rightarrow> nat" where
  "keys_with P entries = length (filter (P \<circ> fst) entries)"

lemma keys_with_update:
  "keys_with P (AList.update k v es) = keys_with P es + (if P k \<and> k \<notin> fst ` set es then 1 else 0)"
  by (induction es) (auto simp: keys_with_def)

lemma keys_with_delete:
  "keys_with P (AList.delete k es) + (if P k \<and> k \<in> fst ` set es then 1 else 0) \<le> keys_with P es"
proof (induction es)
  case (Cons e es)
  have "keys_with P (AList.delete k es) \<le> keys_with P es" using Cons.IH by linarith
  moreover have "(k, b) \<in> set es \<Longrightarrow> k \<in> fst ` set es" for b by force
  ultimately show ?case using Cons.IH by (auto simp: keys_with_def)
qed (simp add: keys_with_def)

lemma keys_with_filter: "keys_with P (filter Q es) \<le> keys_with P es"
  by (induction es) (auto simp: keys_with_def)

lemma length_keys: "length es = keys_with (\<lambda>_. True) es"
  by (simp add: keys_with_def)

lemma map_of_filter:
  "distinct (map fst es) \<Longrightarrow> map_of (filter (\<lambda>e. P (snd e)) es) k =
     (case map_of es k of None \<Rightarrow> None | Some v \<Rightarrow> if P v then Some v else None)"
  by (induction es) (auto simp: map_of_eq_None_iff[symmetric] split: option.splits if_splits)

lemma distinct_map_fst_filter: "distinct (map fst es) \<Longrightarrow> distinct (map fst (filter P es))"
  by (induction es) auto

lemma map_of_Some_key: "map_of es k = Some v \<Longrightarrow> k \<in> fst ` set es"
  by (force dest: map_of_SomeD)

text \<open>The entries an operation may keep, change to an older penalty seen again, or add.\<close>

definition penalty_ok :: "failure_state \<Rightarrow> bool" where
  "penalty_ok st \<longleftrightarrow> 1 \<le> fs_failures st \<and> fs_failures st \<le> 7 \<and>
     fs_blocked_until st = fs_last_failure st + backoff_secs (fs_failures st) * NANOS"

definition table_ok :: "'k failure_entries \<Rightarrow> bool" where
  "table_ok es \<longleftrightarrow> distinct (map fst es) \<and> (\<forall>e \<in> set es. penalty_ok (snd e))"

lemma table_ok_Nil [simp]: "table_ok []"
  by (simp add: table_ok_def)

lemma table_ok_update: "table_ok es \<Longrightarrow> penalty_ok st \<Longrightarrow> table_ok (AList.update k st es)"
proof -
  assume es: "table_ok es" and st: "penalty_ok st"
  have "set (AList.update k st es) \<subseteq> insert (k, st) (set es)" by (induction es) auto
  then show ?thesis using es st distinct_update[of es k st] by (auto simp: table_ok_def)
qed

lemma table_ok_delete: "table_ok es \<Longrightarrow> table_ok (AList.delete k es)"
  by (auto simp: table_ok_def distinct_delete AList.delete_eq distinct_map_fst_filter)

lemma table_ok_filter: "table_ok es \<Longrightarrow> table_ok (filter P es)"
  by (auto simp: table_ok_def distinct_map_fst_filter)

lemma table_ok_lookup: "table_ok es \<Longrightarrow> map_of es k = Some st \<Longrightarrow> penalty_ok st"
  by (force simp: table_ok_def dest: map_of_SomeD)

lemma seen_ok [simp]: "penalty_ok (st\<lparr>fs_last_seen := now\<rparr>) = penalty_ok st"
  by (simp add: penalty_ok_def)

lemma failed_again_ok: "penalty_ok (failed_again now st)"
  by (simp add: penalty_ok_def failed_again_def Let_def)

lemmas table_intros = table_ok_update table_ok_delete table_ok_filter failed_again_ok

lemma record_entry_simps [simp]:
  "fst (record_failure_entry_locked k now es) = AList.update k (failed_again now (map_of es k)) es"
  by (simp add: record_failure_entry_locked_def Let_def)


section \<open>The login and setup limiter\<close>

datatype 'k limiter_call = Retry 'k nat | Fail 'k nat | Clear 'k nat

fun limiter_step :: "'k limiter_call \<Rightarrow> 'k failure_entries \<Rightarrow> 'k failure_entries" where
  "limiter_step (Retry k now) es = fst (retry_after k now es)"
| "limiter_step (Fail k now) es = fst (record_failure k now es)"
| "limiter_step (Clear k started) es = clear_if_latest k started es"

definition bounded_table :: "'k failure_entries \<Rightarrow> bool" where
  "bounded_table es \<longleftrightarrow> table_ok es \<and> length es \<le> AUTH_FAILURE_CAPACITY"

lemma length_update: "length (AList.update k v es) = length es + (if k \<in> fst ` set es then 0 else 1)"
  using keys_with_update[of "\<lambda>_. True" k v es] by (simp add: keys_with_def)

lemma length_delete: "length (AList.delete k es) + (if k \<in> fst ` set es then 1 else 0) \<le> length es"
  using keys_with_delete[of "\<lambda>_. True" k es] by (simp add: keys_with_def)

lemma retry_after_ok:
  assumes "table_ok es" shows "table_ok (fst (retry_after k now es)) \<and> length (fst (retry_after k now es)) \<le> length es"
proof (cases "map_of es k")
  case (Some st)
  then show ?thesis
    using assms length_delete[of k es] table_ok_lookup[OF assms Some]
    by (auto simp: retry_after_def length_update map_of_Some_key[OF Some] intro!: table_intros)
qed (simp add: retry_after_def assms)

lemma clear_if_latest_ok:
  assumes "table_ok es" shows "table_ok (clear_if_latest k t es) \<and> length (clear_if_latest k t es) \<le> length es"
  using assms length_delete[of k es]
  by (auto simp: clear_if_latest_def intro!: table_intros split: option.splits)

lemma evict_oldest_ok:
  assumes "table_ok es"
  shows "table_ok (evict_oldest es) \<and> (es \<noteq> [] \<longrightarrow> length (evict_oldest es) < length es) \<and>
    fst ` set (evict_oldest es) \<subseteq> fst ` set es"
proof (cases "min_on (fs_last_seen \<circ> snd) es")
  case (Some e)
  then have e: "e \<in> set es" by (simp add: min_on_Some)
  have evict: "evict_oldest es = AList.delete (fst e) es" by (simp only: evict_oldest_def Some option.case)
  have "fst ` set (AList.delete (fst e) es) \<subseteq> fst ` set es" by (auto simp: AList.delete_eq)
  moreover have "fst e \<in> fst ` set es" using e by simp
  ultimately show ?thesis
    unfolding evict using assms length_delete[of "fst e" es] by (simp add: table_ok_delete)
qed (use assms in \<open>simp add: evict_oldest_def\<close>)

lemma record_failure_ok:
  assumes "bounded_table es" shows "bounded_table (fst (record_failure k now es))"
proof -
  let ?e = "expire_failure_entries now es"
  have e: "table_ok ?e" "length ?e \<le> AUTH_FAILURE_CAPACITY"
    using assms le_trans[OF length_filter_le[of "\<lambda>e. \<not> failure_expired now (snd e)" es]]
    by (simp_all add: bounded_table_def expire_failure_entries_def table_ok_filter)
  define es' where "es' = (if map_of ?e k = None \<and> AUTH_FAILURE_CAPACITY \<le> length ?e then evict_oldest ?e else ?e)"
  have "table_ok es'" using e evict_oldest_ok[OF e(1)] by (simp add: es'_def)
  moreover have "length es' + (if k \<in> fst ` set es' then 0 else 1) \<le> AUTH_FAILURE_CAPACITY"
    using e evict_oldest_ok[OF e(1)]
    by (auto simp: es'_def map_of_eq_None_iff AUTH_FAILURE_CAPACITY_def)
  ultimately show ?thesis
    by (auto simp: record_failure_def record_failure_locked_def es'_def[symmetric] bounded_table_def length_update
        intro: table_intros)
qed

interpretation limiter: transition_system bounded_table limiter_step
proof
  fix es :: "'b failure_entries" and call
  assume es: "bounded_table es"
  then have ok: "table_ok es" and len: "length es \<le> AUTH_FAILURE_CAPACITY" by (simp_all add: bounded_table_def)
  have "bounded_table (fst (retry_after k now es))" "bounded_table (clear_if_latest k now es)" for k now
    using retry_after_ok[OF ok, of k now] clear_if_latest_ok[OF ok, of k now] len
    by (simp_all add: bounded_table_def)
  then show "bounded_table (limiter_step call es)"
    using record_failure_ok[OF es] by (cases call) simp_all
qed

section \<open>The pairing limiter\<close>

datatype pairing_call = Attempt ip_addr nat | ClearPairing pairing_failure_key nat

fun pairing_step :: "pairing_call \<Rightarrow> pairing_failure_key failure_entries \<Rightarrow> pairing_failure_key failure_entries" where
  "pairing_step (Attempt source now) es = fst (begin_pairing_attempt source now es)"
| "pairing_step (ClearPairing k started) es = clear_if_latest k started es"

definition pairing_table :: "pairing_failure_key failure_entries \<Rightarrow> bool" where
  "pairing_table es \<longleftrightarrow> table_ok es \<and> tracked_sources es \<le> AUTH_FAILURE_CAPACITY"

lemma not_source [simp]: "\<not> is_source k \<longleftrightarrow> k = Overflow"
  by (cases k) (simp_all add: is_source_def)

lemma tracked_keys: "tracked_sources es = keys_with is_source es"
  by (simp add: tracked_sources_def keys_with_def)

lemma begin_failure_ok:
  assumes "table_ok es"
  shows "table_ok (fst (begin_failure_attempt_locked k now es)) \<and>
    keys_with P (fst (begin_failure_attempt_locked k now es))
      \<le> keys_with P es + (if P k \<and> k \<notin> fst ` set es then 1 else 0)"
proof (cases "map_of es k")
  case None
  then have "k \<notin> fst ` set es" by (simp add: map_of_eq_None_iff)
  then show ?thesis
    unfolding begin_failure_attempt_locked_def None option.case
    using assms None by (simp add: keys_with_update table_ok_update failed_again_ok)
next
  case (Some st)
  note ok = table_ok_lookup[OF assms Some]
  have key: "k \<in> fst ` set es" by (rule map_of_Some_key[OF Some])
  let ?seen = "AList.update k (st\<lparr>fs_last_seen := now\<rparr>) es" and ?gone = "AList.delete k es"
  have keys: "k \<notin> fst ` set ?gone" "k \<in> fst ` set ?seen"
    by (auto simp: AList.delete_eq dom_update)
  have tables: "table_ok ?seen" "table_ok ?gone"
    using assms ok by (simp_all add: table_ok_update table_ok_delete)
  have counts: "keys_with P ?seen = keys_with P es" "keys_with P ?gone + (if P k then 1 else 0) \<le> keys_with P es"
    using keys_with_update[of P k _ es] keys_with_delete[of P k es] key by simp_all
  have after: "keys_with P (AList.update k v ?gone) \<le> keys_with P es" "keys_with P (AList.update k v ?seen) = keys_with P es" for v
    using counts keys by (simp_all add: keys_with_update)
  show ?thesis
    unfolding begin_failure_attempt_locked_def Some option.case Let_def
    using assms tables counts after by (simp add: table_ok_update failed_again_ok)
qed

lemma overflow_key_ok:
  assumes "pairing_table es" "overflow_key_for s now es = (es', r)"
  shows "pairing_table es' \<and> (\<forall>k. r = Inr k \<longrightarrow>
     (k = PairingSource s \<and> tracked_sources es' < AUTH_FAILURE_CAPACITY) \<or> k = Overflow)"
proof -
  define es1 where "es1 = (case map_of es Overflow of None \<Rightarrow> es
     | Some st \<Rightarrow> if failure_expired now st then AList.delete Overflow es else es)"
  define es2 where "es2 = (case map_of es1 Overflow of None \<Rightarrow> es1
     | Some st \<Rightarrow> AList.update Overflow (st\<lparr>fs_last_seen := now\<rparr>) es1)"
  define es3 where "es3 = expire_failure_entries now es2"
  note counts = tracked_keys keys_with_update
  have del: "pairing_table (AList.delete k es)" if "pairing_table es" for es k
    using that keys_with_delete[of is_source k es]
    by (auto simp: pairing_table_def tracked_keys intro: table_ok_delete)
  have p1: "pairing_table es1" using assms(1) del by (auto simp: es1_def split: option.splits)
  have p2: "pairing_table es2"
    using p1 by (auto simp: es2_def pairing_table_def counts is_source_def dest: table_ok_lookup
        intro!: table_ok_update split: option.splits)
  have p3: "pairing_table es3"
    using p2 keys_with_filter[of is_source _ es2]
    by (auto simp: es3_def pairing_table_def expire_failure_entries_def tracked_keys intro: table_ok_filter le_trans)
  have less: "tracked_sources (AList.delete Overflow es3) < AUTH_FAILURE_CAPACITY"
    if "tracked_sources es3 < AUTH_FAILURE_CAPACITY"
    using that keys_with_delete[of is_source Overflow es3] by (simp add: tracked_keys is_source_def)
  from assms(2) show ?thesis
    unfolding overflow_key_for_def Let_def es1_def[symmetric] es2_def[symmetric] es3_def[symmetric]
    using p2 p3 del[OF p3] less by (auto split: option.splits if_splits)
qed

lemma begin_pairing_ok:
  assumes "pairing_table es" shows "pairing_table (fst (begin_pairing_attempt s now es))"
proof -
  define first where "first = (if map_of es (PairingSource s) \<noteq> None \<or> length es < AUTH_FAILURE_CAPACITY
      then (es, Inr (PairingSource s)) else overflow_key_for s now es)"
  obtain es' r where f: "first = (es', r)" by (cases first)
  have len: "tracked_sources es \<le> length es" by (simp add: tracked_sources_def)
  have ok: "pairing_table es'"
    and room: "r = Inr k \<Longrightarrow> tracked_sources es' + (if is_source k \<and> k \<notin> fst ` set es' then 1 else 0) \<le> AUTH_FAILURE_CAPACITY" for k
    using f assms overflow_key_ok[of es s now es' r] len
    by (auto simp: first_def pairing_table_def is_source_def map_of_Some_key split: if_splits)
  show ?thesis
  proof (cases r)
    case (Inr k)
    have "pairing_table (fst (begin_failure_attempt_locked k now es'))"
      using begin_failure_ok[of es' k now is_source] ok room[OF Inr]
      by (simp add: pairing_table_def tracked_keys)
    then show ?thesis
      unfolding begin_pairing_attempt_def first_def[symmetric] f Inr by (auto split: prod.splits sum.splits)
  next
    case (Inl w)
    show ?thesis unfolding begin_pairing_attempt_def first_def[symmetric] f Inl using ok by simp
  qed
qed

lemma clear_pairing_ok: "pairing_table es \<Longrightarrow> pairing_table (clear_if_latest k t es)"
  using clear_if_latest_ok[of es k t] add_leD1[OF keys_with_delete[of is_source k es]]
  by (cases "map_of es k") (auto simp: pairing_table_def clear_if_latest_def tracked_keys)

interpretation pairing: transition_system pairing_table pairing_step
proof
  fix es call assume "pairing_table es"
  then show "pairing_table (pairing_step call es)"
    by (cases call) (simp_all add: begin_pairing_ok clear_pairing_ok)
qed

lemma table_length: assumes "table_ok es" shows "length es \<le> tracked_sources es + 1"
proof -
  let ?rest = "filter (\<lambda>e. \<not> is_source (fst e)) es"
  have "length ?rest = card (fst ` set ?rest)"
    using assms distinct_card[of "map fst ?rest"] by (simp add: table_ok_def distinct_map_fst_filter)
  also have "fst ` set ?rest \<subseteq> {Overflow}" by (auto simp: not_source)
  then have "card (fst ` set ?rest) \<le> 1" using card_mono[of "{Overflow}"] by simp
  finally show ?thesis
    using sum_length_filter_compl[of "is_source \<circ> fst" es] by (simp add: tracked_sources_def)
qed

section \<open>Penalties survive\<close>

text \<open>Calls about other keys, made before the penalty expires.\<close>

definition about_others :: "ip_addr \<Rightarrow> failure_state \<Rightarrow> pairing_call \<Rightarrow> bool" where
  "about_others s st call = (case call of
      Attempt s' now \<Rightarrow> s' \<noteq> s \<and> now < fs_last_seen st + AUTH_FAILURE_TTL
    | ClearPairing k _ \<Rightarrow> k \<noteq> PairingSource s)"

lemma not_expired: "now < fs_last_seen st + AUTH_FAILURE_TTL \<Longrightarrow> \<not> failure_expired now st"
  by (auto simp: failure_expired_def AUTH_FAILURE_TTL_def NANOS_def)

lemma clear_other: "k \<noteq> k' \<Longrightarrow> map_of (clear_if_latest k t es) k' = map_of es k'"
  by (auto simp: clear_if_latest_def delete_conv' split: option.splits)

lemma begin_failure_other:
  "k \<noteq> k' \<Longrightarrow> map_of (fst (begin_failure_attempt_locked k now es)) k' = map_of es k'"
  by (auto simp: begin_failure_attempt_locked_def Let_def update_conv' delete_conv' split: option.splits)

lemma overflow_key_other:
  assumes "table_ok es" "map_of es (PairingSource s) = Some st" "now < fs_last_seen st + AUTH_FAILURE_TTL"
  shows "map_of (fst (overflow_key_for s' now es)) (PairingSource s) = Some st"
proof -
  define es1 where "es1 = (case map_of es Overflow of None \<Rightarrow> es
     | Some st \<Rightarrow> if failure_expired now st then AList.delete Overflow es else es)"
  define es2 where "es2 = (case map_of es1 Overflow of None \<Rightarrow> es1
     | Some st \<Rightarrow> AList.update Overflow (st\<lparr>fs_last_seen := now\<rparr>) es1)"
  define es3 where "es3 = expire_failure_entries now es2"
  have m1: "table_ok es1" "map_of es1 (PairingSource s) = Some st"
    using assms by (auto simp: es1_def delete_conv' intro: table_ok_delete split: option.splits)
  have m2: "table_ok es2" "map_of es2 (PairingSource s) = Some st"
    using m1 by (auto simp: es2_def update_conv' dest: table_ok_lookup intro!: table_ok_update split: option.splits)
  have m3: "map_of es3 (PairingSource s) = Some st"
    using m2 not_expired[OF assms(3)] map_of_filter[of es2 "\<lambda>v. \<not> failure_expired now v" "PairingSource s"]
    by (simp add: es3_def expire_failure_entries_def table_ok_def)
  have m4: "map_of (AList.delete Overflow es3) (PairingSource s) = Some st"
    using m3 by (simp add: delete_conv')
  show ?thesis
    unfolding overflow_key_for_def Let_def es1_def[symmetric] es2_def[symmetric] es3_def[symmetric]
    using m2 m3 m4 by (auto split: option.splits)
qed

lemma overflow_key_result:
  "overflow_key_for s now es = (es', Inr k) \<Longrightarrow> k = PairingSource s \<or> k = Overflow"
  by (auto simp: overflow_key_for_def Let_def split: option.splits if_splits)

lemma begin_pairing_other:
  assumes "table_ok es" "map_of es (PairingSource s) = Some st" "s' \<noteq> s" "now < fs_last_seen st + AUTH_FAILURE_TTL"
  shows "map_of (fst (begin_pairing_attempt s' now es)) (PairingSource s) = Some st"
proof -
  define first where "first = (if map_of es (PairingSource s') \<noteq> None \<or> length es < AUTH_FAILURE_CAPACITY
      then (es, Inr (PairingSource s')) else overflow_key_for s' now es)"
  obtain es' r where f: "first = (es', r)" by (cases first)
  have m: "map_of es' (PairingSource s) = Some st"
    using f assms overflow_key_other[OF assms(1,2,4), of s'] by (auto simp: first_def split: if_splits)
  have k: "k \<noteq> PairingSource s" if "r = Inr k" for k
    using that f assms(3) by (auto simp: first_def dest: overflow_key_result split: if_splits)
  have "map_of (fst (begin_failure_attempt_locked k now es')) (PairingSource s) = Some st" if "r = Inr k" for k
    using begin_failure_other[OF k[OF that]] m by simp
  then show ?thesis
    unfolding begin_pairing_attempt_def first_def[symmetric] f using m
    by (cases r) (auto split: prod.splits sum.splits dest: arg_cong[of _ _ fst])
qed

interpretation penalty: stable_fact pairing_table pairing_step
  "\<lambda>es. map_of es (PairingSource s) = Some st" "about_others s st" for s st
proof
  fix es call
  assume "pairing_table es" "map_of es (PairingSource s) = Some st" "about_others s st call"
  then show "map_of (pairing_step call es) (PairingSource s) = Some st"
    by (cases call) (auto simp: about_others_def pairing_table_def begin_pairing_other clear_other)
qed

lemma attempt_of_tracked:
  assumes "map_of es (PairingSource s) = Some st" "t < fs_last_seen st + AUTH_FAILURE_TTL" "penalty_ok st"
  shows "begin_pairing_attempt s t es =
    (if t < fs_blocked_until st
     then (AList.update (PairingSource s) (st\<lparr>fs_last_seen := t\<rparr>) es, Inl (retry_after_seconds (fs_blocked_until st) t))
     else (AList.update (PairingSource s) (failed_again t (Some st))
             (AList.update (PairingSource s) (st\<lparr>fs_last_seen := t\<rparr>) es),
           Inr \<lparr>pa_key = PairingSource s, pa_started_at = t\<rparr>))"
  using assms not_expired[OF assms(2)]
  by (simp add: begin_pairing_attempt_def begin_failure_attempt_locked_def Let_def failed_again_def update_conv')


text \<open>C19: The penalty of an address survives every flood.  Whatever calls led to its entry, and
  whatever attempts from other addresses and clearings of other entries follow, its next
  attempt within the lifetime of the entry is rejected until the penalty ends, with the
  remaining time as its answer; after that it is admitted and the next penalty is the doubled
  one, up to 64 cut to 60 seconds.\<close>

theorem pairing_penalty_survives:
  fixes calls others s t
  defines "es \<equiv> fold pairing_step (calls @ others) []"
  assumes "map_of (fold pairing_step calls []) (PairingSource s) = Some st"
    and "list_all (about_others s st) others"
    and "t < fs_last_seen st + AUTH_FAILURE_TTL"
  shows "snd (begin_pairing_attempt s t es) =
      (if t < fs_blocked_until st then Inl (retry_after_seconds (fs_blocked_until st) t)
       else Inr \<lparr>pa_key = PairingSource s, pa_started_at = t\<rparr>) \<and>
    map_of (fst (begin_pairing_attempt s t es)) (PairingSource s) = Some
      (if t < fs_blocked_until st then st\<lparr>fs_last_seen := t\<rparr>
       else \<lparr>fs_failures = min (fs_failures st + 1) 7,
             fs_blocked_until = t + min (2 ^ min (fs_failures st) 6) 60 * NANOS,
             fs_last_failure = t, fs_last_seen = t\<rparr>)"
proof -
  have ok: "pairing_table (fold pairing_step calls [])" by (rule pairing.runs) (simp add: pairing_table_def tracked_sources_def)
  have here: "map_of es (PairingSource s) = Some st"
    unfolding es_def fold_append o_apply by (rule penalty.stays_forever) (use ok assms in auto)
  have "penalty_ok st" using ok assms(2) by (auto simp: pairing_table_def dest: table_ok_lookup)
  note this[unfolded penalty_ok_def] attempt_of_tracked[OF here assms(4) this]
  moreover have "min (min 255 (n + 1)) 7 = min (n + 1) (7::nat)" "min (n + 1) 7 - 1 = min n (6::nat)" for n by auto
  ultimately show ?thesis
    by (simp add: update_conv' failed_again_def Let_def backoff_secs_def AUTH_BACKOFF_MAX_SECS_def)
qed

theorem pairing_penalty_survives_witness:
  "snd (begin_pairing_attempt (V4 [10, 0, 0, 1]) 500000000
     (fold pairing_step ([Attempt (V4 [10, 0, 0, 1]) 0] @ [Attempt (V4 [10, 0, 0, 2]) 7]) [])) = Inl 1"
  using pairing_penalty_survives[where calls = "[Attempt (V4 [10, 0, 0, 1]) 0]" and others = "[Attempt (V4 [10, 0, 0, 2]) 7]"
      and s = "V4 [10, 0, 0, 1]" and t = 500000000
      and st = "\<lparr>fs_failures = 1, fs_blocked_until = NANOS, fs_last_failure = 0, fs_last_seen = 0\<rparr>"]
  by (simp add: begin_pairing_attempt_def begin_failure_attempt_locked_def record_failure_entry_locked_def
      failed_again_def backoff_secs_def AUTH_BACKOFF_MAX_SECS_def AUTH_FAILURE_CAPACITY_def about_others_def
      AUTH_FAILURE_TTL_def NANOS_def retry_after_seconds_def Let_def)

text \<open>C2: The tables never outgrow their capacity, whatever calls are made: 1,024 addresses and
  the shared bucket for pairing, 1,024 entries for every other limiter; and no penalty is ever
  longer than 60 seconds from the failure that caused it.\<close>

theorem limiter_is_bounded:
  "length (fold pairing_step calls []) \<le> 1025 \<and> length (fold limiter_step calls' []) \<le> 1024 \<and>
   list_all (\<lambda>e. fs_blocked_until (snd e) \<le> fs_last_failure (snd e) + 60 * NANOS) (fold pairing_step calls []) \<and>
   list_all (\<lambda>e. fs_blocked_until (snd e) \<le> fs_last_failure (snd e) + 60 * NANOS) (fold limiter_step calls' [])"
proof -
  have p: "pairing_table (fold pairing_step calls [])" by (rule pairing.runs) (simp add: pairing_table_def tracked_sources_def)
  have l: "bounded_table (fold limiter_step calls' [])" by (rule limiter.runs) (simp add: bounded_table_def)
  have "backoff_secs n \<le> 60" for n by (simp add: backoff_secs_def AUTH_BACKOFF_MAX_SECS_def)
  then have "penalty_ok st \<Longrightarrow> fs_blocked_until st \<le> fs_last_failure st + 60 * NANOS" for st
    by (simp add: penalty_ok_def)
  then show ?thesis
    using p l table_length[of "fold pairing_step calls []"]
    by (auto simp: pairing_table_def bounded_table_def table_ok_def list_all_iff AUTH_FAILURE_CAPACITY_def)
qed

end
