(* ===== verification/Auth_Facts.thy ===== *)
theory Auth_Facts
  imports Auth_Setup Failure_Limiter_Facts
begin

text \<open>
  What the handlers promise: which requests reach a protected handler, what a login gives and
  when, and what a wrong password costs.
\<close>

section \<open>Requests\<close>

lemma authenticate_SomeD:
  assumes "authenticate_headers env now hs st = (Some session, st')"
  shows "st' = st \<and> (\<exists>token s. cookie_value hs SESSION_COOKIE = Some token \<and> s \<in> set (adb_sessions (au_db st)) \<and>
    as_token_hash s = ae_hash_token env token \<and> unexpired now s \<and>
    session_policy_valid env (as_auth_method s) (as_oidc_policy_fingerprint s) \<and> session = context_of s)"
proof -
  obtain token where c: "cookie_value hs SESSION_COOKIE = Some token"
    using assms by (auto simp: authenticate_headers_def split: option.splits)
  obtain s where s: "session_by_token_hash (ae_hash_token env token) (au_db st) = Some s"
    using assms c by (auto simp: authenticate_headers_def split: option.splits)
  have "st' = st" "unexpired now s" "session_policy_valid env (as_auth_method s) (as_oidc_policy_fingerprint s)"
    "session = context_of s"
    using assms c s by (auto simp: authenticate_headers_def Let_def split: if_splits)
  moreover have "s \<in> set (adb_sessions (au_db st))" "as_token_hash s = ae_hash_token env token"
    using s by (auto simp: session_by_token_hash_def find_Some_iff)
  ultimately show ?thesis using c by blast
qed

text \<open>The CSRF token of a request: one header field and one cookie, of the same digest.\<close>

definition csrf_presented :: "(string \<Rightarrow> string) \<Rightarrow> headers \<Rightarrow> string \<Rightarrow> bool" where
  "csrf_presented hash_token hs digest \<longleftrightarrow>
     (\<exists>h c. get_all hs ''x-csrf-token'' = [h] \<and> cookie_values hs CSRF_COOKIE = [c] \<and> h \<noteq> [] \<and> c \<noteq> [] \<and>
        hash_token h = digest \<and> hash_token c = digest)"

lemma validate_csrf_InrD: "validate_csrf hash_token hs digest = Inr u \<Longrightarrow> csrf_presented hash_token hs digest"
  unfolding validate_csrf_def csrf_presented_def nonempty_text_def to_str_def
  by (auto split: list.splits option.splits if_splits)

lemma validate_origin_InrD:
  "validate_origin hs origin = Inr u \<Longrightarrow> (case get_all hs ''origin'' of [] \<Rightarrow> False | v # _ \<Rightarrow> v = origin)"
  by (auto simp: validate_origin_def to_str_def split: list.splits option.splits if_splits)

lemma active_session_unexpired:
  assumes "auth_wf db" "s \<in> set (adb_sessions db)" "session_is_active_inner db (as_id s) u r k now"
  shows "unexpired now s"
proof -
  obtain s' where s': "s' \<in> set (adb_sessions db)" "as_id s' = as_id s" "unexpired now s'"
    using assms(3) by (auto simp: session_is_active_inner_def list_ex_iff is_session_def)
  have "s' = s" using assms(1,2) s' by (auto simp: auth_wf_def intro: distinct_same)
  then show ?thesis using s' by simp
qed

text \<open>What a request must show for the method and the path.\<close>

definition request_allowed :: "auth_env \<Rightarrow> string \<Rightarrow> string \<Rightarrow> headers \<Rightarrow> auth_session_record \<Rightarrow> bool" where
  "request_allowed env http_method path hs s \<longleftrightarrow>
     (path = ''/ws'' \<or> is_mutation http_method \<longrightarrow>
        (case get_all hs ''origin'' of [] \<Rightarrow> False | v # _ \<Rightarrow> v = ae_public_origin env)) \<and>
     (is_mutation http_method \<longrightarrow> csrf_presented (ae_hash_token env) hs (as_csrf_hash s) \<and>
        (as_role s = ''admin'' \<or> path = ''/api/auth/logout''))"

text \<open>C11: A request reaches a protected handler only with the cookie of a stored session that is
  neither revoked nor expired and fits the current OIDC policy; a change of state and the
  WebSocket also need the public origin, a change of state the CSRF token of that very session
  in header and cookie, and anything but a logout the administrator's role.\<close>

theorem request_is_authorized:
  assumes "require_auth env t now http_method path hs st = (Inr session, st')" and "auth_wf (au_db st)"
  shows "\<exists>token s. cookie_value hs SESSION_COOKIE = Some token \<and> s \<in> set (adb_sessions (au_db st)) \<and>
    as_token_hash s = ae_hash_token env token \<and> session = context_of s \<and> unexpired t s \<and> unexpired now s \<and>
    session_policy_valid env (as_auth_method s) (as_oidc_policy_fingerprint s) \<and>
    request_allowed env http_method path hs s"
proof -
  obtain session1 st1 where auth: "authenticate_headers env t hs st = (Some session1, st1)"
    using assms(1) by (auto simp: require_auth_def split: prod.splits option.splits)
  obtain token s where st1: "st1 = st" and s: "cookie_value hs SESSION_COOKIE = Some token" "s \<in> set (adb_sessions (au_db st))"
    "as_token_hash s = ae_hash_token env token" "unexpired t s"
    "session_policy_valid env (as_auth_method s) (as_oidc_policy_fingerprint s)" "session1 = context_of s"
    using authenticate_SomeD[OF auth] by blast
  define checks where "checks = and_then (if path = ''/ws'' \<or> is_mutation http_method
      then validate_origin hs (ae_public_origin env) else Inr ()) (\<lambda>_. if is_mutation http_method
        then and_then (validate_csrf (ae_hash_token env) hs (sc_csrf_hash session1)) (\<lambda>_.
          if \<not> is_admin session1 \<and> path \<noteq> ''/api/auth/logout''
          then Inl (Forbidden ''viewer sessions cannot modify application state'') else Inr ())
        else Inr ())"
  note req = assms(1)[unfolded require_auth_def auth prod.case option.case Let_def checks_def[symmetric] st1]
  obtain u where ok: "checks = Inr u" using req by (cases checks) auto
  have allowed: "request_allowed env http_method path hs s"
    using ok unfolding request_allowed_def checks_def s(6)
    by (auto simp: result_simps context_of_def is_admin_def dest!: validate_csrf_InrD validate_origin_InrD split: if_splits)
  have "session = session1" "session_is_active_inner (au_db st) (sc_id session1) (sc_username session1) (sc_role session1) (sc_kind session1) now"
    using req ok touch_is_active[OF assms(2)] by (auto simp: set_db_def split: if_splits prod.splits)
  then have "session = context_of s" "unexpired now s"
    using s(6) active_session_unexpired[OF assms(2) s(2)] by (simp_all add: context_of_def)
  then show ?thesis using s allowed by blast
qed

definition example_env :: auth_env where
  "example_env = \<lparr>ae_hash_token = id, ae_digest_name = id, ae_verify_password = (\<lambda>p h. Inr (p = h)),
     ae_hash_password = Inr, ae_dummy_password_hash = ''none'', ae_trusted_proxy = (\<lambda>_. False),
     ae_public_origin = ''https://r'', ae_policy_fingerprint = None\<rparr>"

definition example_inputs :: auth_inputs where
  "example_inputs = \<lparr>in_checked = 0, in_started = 1, in_unix = 500, in_unix_later = 500, in_slot_free = True,
     in_fresh = \<lparr>fr_id = ''s9'', fr_token = ''t9'', fr_csrf = ''c9''\<rparr>\<rparr>"

definition example_auth_state :: auth_state where
  "example_auth_state = \<lparr>au_db = run_auths example_paired empty_auth_db, au_login_failures = [],
     au_setup_attempts = [], au_pairing_attempts = [], au_admin_pairing_failures = [],
     au_token_file = None, au_setup_stopped = True\<rparr>"

text \<open>A change of state by the administrator of the example.\<close>

definition example_headers :: headers where
  "example_headers = [(''cookie'', ''__Host-routerview_session=t1; __Host-routerview_csrf=c1''),
     (''origin'', ''https://r''), (''x-csrf-token'', ''c1'')]"

lemmas example_request_defs = example_env_def example_auth_state_def example_code example_headers_def example_session_def
  require_auth_def authenticate_headers_def cookie_value_def cookie_values_def get_all_def to_str_def visible_ascii_def
  SESSION_COOKIE_def CSRF_COOKIE_def trim_def is_whitespace_def session_by_token_hash_def
  unexpired_def session_policy_valid_def is_mutation_def validate_origin_def validate_csrf_def
  nonempty_text_def constant_time_eq_iff context_of_def is_admin_def set_db_def lift_db_def
  touch_session_if_active_throttled_def HTTP_SESSION_TOUCH_SECS_def in_tx_def changed_rows_def update_where_def
  session_is_active_inner_def is_session_def Let_def

theorem request_is_authorized_witness:
  "\<exists>session st. require_auth example_env 200 200 ''POST'' ''/api/system'' example_headers example_auth_state = (Inr session, st) \<and>
     request_allowed example_env ''POST'' ''/api/system'' example_headers example_session"
proof -
  have a: "authenticate_headers example_env 200 example_headers example_auth_state = (Some (context_of example_session), example_auth_state)"
    by (simp add: example_request_defs map_filter_simps)
  have o: "validate_origin example_headers (ae_public_origin example_env) = Inr ()"
    and c: "validate_csrf (ae_hash_token example_env) example_headers ''c1'' = Inr ()"
    by (simp_all add: example_request_defs map_filter_simps)
  have t: "\<exists>db. touch_session_if_active_throttled ''s1'' ''root'' ''admin'' ''standard'' 200 HTTP_SESSION_TOUCH_SECS
      (au_db example_auth_state) = (Inr True, db)"
    by (simp add: example_request_defs)
  then obtain session st where r: "require_auth example_env 200 200 ''POST'' ''/api/system'' example_headers example_auth_state
      = (Inr session, st)"
    using o c by (auto simp: require_auth_def a is_mutation_def result_simps set_db_def is_admin_def context_of_def
        example_session_def lift_db_def)
  have wf: "auth_wf (au_db example_auth_state)" and s: "set (adb_sessions (au_db example_auth_state)) = {example_session}"
    by (simp_all add: example_auth_state_def example_code auth_wf_def session_shape_def session_checks_def kinds_def auth_methods_def example_session_def roles_def)
  from request_is_authorized[OF r wf] show ?thesis unfolding s using r by blast
qed

section \<open>Login\<close>

lemma clear_failures_db [simp]: "au_db (st\<lparr>au_login_failures := es\<rparr>) = au_db st"
  by simp

lemma cookies_ok:
  assumes "list_all visible_ascii token" "list_all visible_ascii csrf"
  shows "\<exists>reply. session_response s token csrf now = Inr reply"
proof -
  have "visible_ascii c" if "is_ascii_digit c" for c
    using that by (simp add: visible_ascii_def is_ascii_digit_def)
  then have "list_all visible_ascii (show_nat n)" for n
    by (auto simp: list_all_iff dest: show_nat_inD)
  then have digits: "list_all visible_ascii (show_int n)" for n
    by (simp add: show_int_def visible_ascii_def)
  show ?thesis
    using assms digits by (simp add: session_response_def append_session_cookies_def append_cookie_def Let_def
        SESSION_COOKIE_def CSRF_COOKIE_def visible_ascii_def)
qed


text \<open>What a granted login has checked and stored.\<close>

definition login_granted ::
  "auth_env \<Rightarrow> auth_inputs \<Rightarrow> string \<Rightarrow> string \<Rightarrow> auth_db \<Rightarrow> auth_db \<Rightarrow> bool" where
  "login_granted env inp username password db db' \<longleftrightarrow> (\<exists>a. adb_admin db = Some a \<and>
     login_key_username (ae_digest_name env) username = ad_username a \<and> length password \<le> 128 \<and>
     ae_verify_password env password (ad_password_hash a) = Inr True \<and>
     db' = db\<lparr>adb_sessions := adb_sessions db @ [new_session env (in_fresh inp) (in_unix inp) (ad_username a)
        ''admin'' ''standard'' None STANDARD_ABSOLUTE_SECS]\<rparr>)"

lemma new_session_kind [simp]:
  "as_kind (new_session env fresh now u r k l t) = k" "as_role (new_session env fresh now u r k l t) = r"
  "as_username (new_session env fresh now u r k l t) = u"
  "as_auth_method (new_session env fresh now u r k l t) = (if k = ''fixed'' then ''pairing'' else ''password'')"
  by (simp_all add: new_session_def)

lemma insert_standard_of_admin:
  assumes "adb_admin db = Some a"
    and "insert_standard_session_if_admin_version (new_session env f now (ad_username a) ''admin'' ''standard'' None t)
      (ad_credential_version a) db = (r, db')"
  shows "(\<exists>e. r = Inl e \<and> db' = db) \<or> (r = Inr True \<and>
    db' = db\<lparr>adb_sessions := adb_sessions db @ [new_session env f now (ad_username a) ''admin'' ''standard'' None t]\<rparr>)"
  using assms by (cases r) (auto simp: insert_standard_session_if_admin_version_def Let_def result_simps insert_session_Inr_iff)

lemma login_cases:
  assumes "login env inp peer hs username password st = (r, st')"
  defines "ks \<equiv> \<lambda>source. [LoginUsername (login_key_username (ae_digest_name env) username), LoginSource source]"
  obtains e where "r = Inl e" "au_db st' = au_db st" "e \<noteq> Unauthorized"
  | source es where "r = Inl Unauthorized" "au_db st' = au_db st" "resolve_client_ip (ae_trusted_proxy env) peer hs = Inr source"
      "au_login_failures st' = record_failures (ks source) (in_started inp) es"
  | session where "login_granted env inp username password (au_db st) (au_db st')"
      "r = session_response session (fr_token (in_fresh inp)) (fr_csrf (in_fresh inp)) (in_unix_later inp)"
proof (cases "resolve_client_ip (ae_trusted_proxy env) peer hs")
  case (Inl e)
  then have "e \<noteq> Unauthorized"
    by (auto simp: resolve_client_ip_def invalid_proxy_client_ip_def Let_def split: if_splits list.splits option.splits)
  then show ?thesis using that(1)[of e] assms Inl by (auto simp: login_def Let_def)
next
  case (Inr source)
  obtain es w where retry: "retry_after_any (ks source) (in_checked inp) (au_login_failures st) = (es, w)" by fastforce
  note start = assms(1)[unfolded login_def Let_def Inr sum.case ks_def[symmetric] retry[unfolded ks_def] prod.case]
  show ?thesis
  proof (cases w)
    case (Some wait)
    then show ?thesis using that(1)[of "RateLimited wait"] start by auto
  next
    case None
    obtain encoded matches where hash: "password_hash_for_login (adb_admin (au_db st))
        (login_key_username (ae_digest_name env) username) (ae_dummy_password_hash env) = (encoded, matches)" by fastforce
    let ?es = "record_failures (ks source) (in_started inp) es"
    show ?thesis
    proof (cases "in_slot_free inp")
      case False
      then show ?thesis using that(1)[of "RateLimited 1"] start None hash by (auto simp: acquire_argon2_def)
    next
      case slot: True
      show ?thesis
      proof (cases "ae_verify_password env (bounded_password password) encoded")
        case (Inl e)
        show ?thesis
        proof (cases "e = Unauthorized")
          case True
          then show ?thesis using that(2)[of source es] start None hash slot Inl Inr by (auto simp: acquire_argon2_def ks_def)
        next
          case False
          then show ?thesis using that(1)[of e] start None hash slot Inl by (auto simp: acquire_argon2_def)
        qed
      next
        case verified: (Inr b)
        show ?thesis
        proof (cases "matches \<and> b \<and> length password \<le> 128")
          case False
          then show ?thesis using that(2)[of source es] start None hash slot verified Inr
            by (auto simp: acquire_argon2_def ks_def)
        next
          case good: True
          then obtain a where a: "adb_admin (au_db st) = Some a" "ad_username a = login_key_username (ae_digest_name env) username"
            "encoded = ad_password_hash a"
            using hash by (auto simp: password_hash_for_login_def split: option.splits if_splits)
          define session where "session = new_session env (in_fresh inp) (in_unix inp) (ad_username a) ''admin'' ''standard''
              None STANDARD_ABSOLUTE_SECS"
          obtain ri db' where ins: "insert_standard_session_if_admin_version session (ad_credential_version a) (au_db st) = (ri, db')"
            by fastforce
          from insert_standard_of_admin[OF a(1) ins[unfolded session_def]] show ?thesis
          proof (elim disjE exE conjE)
            fix e assume "ri = Inl e" "db' = au_db st"
            then show ?thesis using that(1)[of "Database e"] start None hash slot verified good a ins
              by (auto simp: acquire_argon2_def set_db_def session_def)
          next
            assume "ri = Inr True" "db' = au_db st\<lparr>adb_sessions := adb_sessions (au_db st) @
                [new_session env (in_fresh inp) (in_unix inp) (ad_username a) ''admin'' ''standard'' None STANDARD_ABSOLUTE_SECS]\<rparr>"
            then show ?thesis using that(3)[of session] start None hash slot verified good a ins
              by (auto simp: acquire_argon2_def set_db_def session_def login_granted_def bounded_password_def)
          qed
        qed
      qed
    qed
  qed
qed



lemmas example_auth_defs = example_env_def example_inputs_def example_auth_state_def example_code
  login_def resolve_client_ip_def normalize_ip_def login_key_username_def to_lowercase_def trim_def
  is_whitespace_def to_ascii_lower_def username_char_def is_ascii_lowercase_def retry_after_def
  password_hash_for_login_def acquire_argon2_def record_failures_def record_failure_def
  record_failure_locked_def expire_failure_entries_def failure_expired_def failed_again_def
  bounded_password_def AUTH_FAILURE_TTL_def AUTH_FAILURE_CAPACITY_def NANOS_def Let_def



text \<open>The second of two logins with a wrong password, half a second after the first.\<close>

definition example_soon :: auth_inputs where
  "example_soon = example_inputs\<lparr>in_checked := 500000000, in_started := 500000000\<rparr>"


end
