(* ===== verification/Env_Config.thy ===== *)
theory Env_Config
  imports Auth_Text
begin

text \<open>
  The configuration from the environment (\<open>config.rs\<close>).  An environment gives for every name a
  value or the reason it has none.  URL and network parsing are libraries' and, like the
  contents of files, arguments (\<open>config_env\<close>); text, numbers and flags are parsed here.
\<close>

section \<open>Numbers and bytes\<close>

text \<open>\<open>str::parse\<close> for an unsigned type: decimal digits after an optional plus sign, in range.\<close>

definition parse_unsigned :: "nat \<Rightarrow> string \<Rightarrow> nat option" where
  "parse_unsigned bound s =
     (case parse_nat (case s of [] \<Rightarrow> [] | c # r \<Rightarrow> if c = CHR ''+'' then r else s) of
        None \<Rightarrow> None | Some n \<Rightarrow> if n < bound then Some n else None)"

definition parse_word :: "string \<Rightarrow> 'a::len word option" where
  "parse_word s = map_option of_nat (parse_unsigned (2 ^ LENGTH('a)) s)"

lemma parse_word_code [code]:
  "(parse_word s :: 'a::len word option) =
     (case parse_nat (case s of [] \<Rightarrow> [] | c # r \<Rightarrow> if c = CHR ''+'' then r else s) of
        None \<Rightarrow> None | Some n \<Rightarrow> if int n < 2 ^ LENGTH('a) then Some (of_nat n) else None)"
proof -
  have "int n < 2 ^ LENGTH('a) \<longleftrightarrow> n < 2 ^ LENGTH('a)" for n by (metis of_nat_less_numeral_power_cancel_iff)
  then show ?thesis by (simp add: parse_word_def parse_unsigned_def split: option.split)
qed

definition show_word :: "'a::len word \<Rightarrow> string" where
  "show_word w = show_nat (unat w)"

lemma parse_show_word [simp]: "parse_word (show_word w) = Some w"
proof -
  obtain c r where s: "show_nat (unat w) = c # r" by (meson show_nat_nonempty neq_Nil_conv)
  then have "c \<noteq> CHR ''+''"
    using show_nat_hd_digit[of "unat w"] by (auto simp: is_ascii_digit_def)
  then show ?thesis
    using s parse_show_nat[of "unat w"] by (simp add: parse_word_def show_word_def parse_unsigned_def)
qed

definition byte :: "char \<Rightarrow> nat" where "byte c = of_char c"

definition continuation :: "char \<Rightarrow> bool" where
  "continuation c \<longleftrightarrow> 0x80 \<le> byte c \<and> byte c \<le> 0xBF"

text \<open>The bytes that may follow a first byte: how many, and the range of the second.\<close>

definition sequence_of :: "nat \<Rightarrow> (nat \<times> nat \<times> nat) option" where
  "sequence_of b =
     (if b < 0x80 then Some (0, 0, 0)
      else if 0xC2 \<le> b \<and> b \<le> 0xDF then Some (1, 0x80, 0xBF)
      else if b = 0xE0 then Some (2, 0xA0, 0xBF)
      else if b = 0xED then Some (2, 0x80, 0x9F)
      else if 0xE1 \<le> b \<and> b \<le> 0xEF then Some (2, 0x80, 0xBF)
      else if b = 0xF0 then Some (3, 0x90, 0xBF)
      else if 0xF1 \<le> b \<and> b \<le> 0xF3 then Some (3, 0x80, 0xBF)
      else if b = 0xF4 then Some (3, 0x80, 0x8F) else None)"

function utf8_valid :: "string \<Rightarrow> bool" where
  "utf8_valid [] \<longleftrightarrow> True"
| "utf8_valid (c # s) \<longleftrightarrow> (case sequence_of (byte c) of
      None \<Rightarrow> False
    | Some (n, lo, hi) \<Rightarrow> n \<le> length s \<and> list_all continuation (take n s) \<and>
        (0 < n \<longrightarrow> lo \<le> byte (hd s) \<and> byte (hd s) \<le> hi) \<and> utf8_valid (drop n s))"
  by pat_completeness auto
termination by (relation "measure length") auto

text \<open>\<open>char::is_control\<close>: the C0 and C1 controls, the latter two bytes long.\<close>

fun has_control :: "string \<Rightarrow> bool" where
  "has_control [] \<longleftrightarrow> False"
| "has_control (c # s) \<longleftrightarrow> byte c < 0x20 \<or> byte c = 0x7F \<or>
     (byte c = 0xC2 \<and> s \<noteq> [] \<and> byte (hd s) \<le> 0x9F) \<or> has_control s"

definition is_ascii_whitespace :: "char \<Rightarrow> bool" where
  "is_ascii_whitespace c \<longleftrightarrow> byte c \<in> {32, 9, 10, 12, 13}"

section \<open>The record and its libraries\<close>

datatype router_type = RouterOs

datatype url_host = Domain string | Ipv4Host "nat list" | Ipv6Host "nat list"

record parsed_url =
  pu_scheme :: string
  pu_host :: "url_host option"
  pu_host_str :: "string option"
  pu_username :: string
  pu_password :: "string option"
  pu_path :: string
  pu_query :: "string option"
  pu_fragment :: "string option"
  pu_origin :: string

record file_info =
  fi_is_file :: bool
  fi_bytes :: string

record 'n config_env =
  ce_var :: "string \<Rightarrow> var_error + string"
  ce_parse_net :: "string \<Rightarrow> 'n option"
  ce_parse_url :: "string \<Rightarrow> parsed_url option"
  ce_file :: "string \<Rightarrow> file_info option"

record oidc_config =
  oc_issuer_url :: string
  oc_client_id :: string
  oc_client_secret :: string
  oc_provider_name :: string
  oc_groups_claim :: string
  oc_viewer_group :: string
  oc_admin_group :: string
  oc_additional_scopes :: "string list"
  oc_ca_pem :: "string option"
  oc_redirect_url :: string

record 'n config =
  cf_router_type :: router_type
  cf_router_host :: string
  cf_router_port :: "16 word"
  cf_router_scheme :: string
  cf_router_username :: string
  cf_router_password :: string
  cf_accept_invalid_certs :: bool
  cf_poll_interval_secs :: u64
  cf_server_port :: "16 word"
  cf_setup_port :: "16 word"
  cf_setup_token_file :: string
  cf_public_origin :: string
  cf_trusted_proxy_cidrs :: "'n list"
  cf_master_key_file :: string
  cf_router_management_cidrs :: "'n list"
  cf_allow_insecure_router_http :: bool
  cf_probe_interval_secs :: u64
  cf_db_path :: string
  cf_db_raw_retention_days :: u64
  cf_db_total_retention_days :: u64
  cf_latency_good_ms :: u64
  cf_latency_poor_ms :: u64
  cf_oidc :: "oidc_config option"

type_synonym 'a configured = "config_error + 'a"

section \<open>Variables\<close>

definition var_ok :: "'n config_env \<Rightarrow> string \<Rightarrow> string option" where
  "var_ok ce key = (case ce_var ce key of Inl _ \<Rightarrow> None | Inr v \<Rightarrow> Some v)"

definition env_host :: "'n config_env \<Rightarrow> string \<Rightarrow> string \<Rightarrow> string option" where
  "env_host ce new_key legacy_key = (case var_ok ce new_key of Some v \<Rightarrow> Some v | None \<Rightarrow> var_ok ce legacy_key)"

definition parse_env :: "'n config_env \<Rightarrow> string \<Rightarrow> 'a::len word \<Rightarrow> 'a word configured" where
  "parse_env ce key default_value = (case ce_var ce key of
      Inr v \<Rightarrow> ok_or (InvalidFormat key) (parse_word v)
    | Inl NotPresent \<Rightarrow> Inr default_value
    | Inl e \<Rightarrow> Inl (EnvError e))"

definition parse_env_host ::
  "'n config_env \<Rightarrow> string \<Rightarrow> string \<Rightarrow> 'a::len word \<Rightarrow> 'a word configured" where
  "parse_env_host ce new_key legacy_key default_value = (case ce_var ce new_key of
      Inr v \<Rightarrow> ok_or (InvalidFormat new_key) (parse_word v)
    | Inl _ \<Rightarrow> parse_env ce legacy_key default_value)"

definition parse_bool_value :: "string \<Rightarrow> var_error + string \<Rightarrow> bool \<Rightarrow> bool configured" where
  "parse_bool_value key v default_value = (case v of
      Inr s \<Rightarrow> (let t = to_lowercase s in
        if t \<in> set [''1'', ''true'', ''yes''] then Inr True
        else if t \<in> set [''0'', ''false'', ''no''] then Inr False
        else Inl (InvalidFormat key))
    | Inl NotPresent \<Rightarrow> Inr default_value
    | Inl e \<Rightarrow> Inl (EnvError e))"

definition parse_bool_env :: "'n config_env \<Rightarrow> string \<Rightarrow> bool \<Rightarrow> bool configured" where
  "parse_bool_env ce key default_value = parse_bool_value key (ce_var ce key) default_value"

text \<open>Collecting into a \<open>Result\<close>: the first error, or all values.\<close>

fun collect_results :: "('e + 'a) list \<Rightarrow> 'e + 'a list" where
  "collect_results [] = Inr []"
| "collect_results (m # ms) = and_then m (\<lambda>x. and_then (collect_results ms) (\<lambda>xs. Inr (x # xs)))"

definition parse_cidrs :: "'n config_env \<Rightarrow> string \<Rightarrow> string \<Rightarrow> 'n list configured" where
  "parse_cidrs ce key v = collect_results (List.map (\<lambda>network.
      ok_or (InvalidFormat (key @ '' contains invalid network '' @ quoted network)) (ce_parse_net ce network))
     (filter (\<lambda>n. n \<noteq> []) (List.map trim (split_char CHR '','' v))))"

definition parse_optional_cidrs_env :: "'n config_env \<Rightarrow> string \<Rightarrow> 'n list configured" where
  "parse_optional_cidrs_env ce key = (case ce_var ce key of
      Inr v \<Rightarrow> parse_cidrs ce key v
    | Inl NotPresent \<Rightarrow> Inr []
    | Inl e \<Rightarrow> Inl (EnvError e))"

section \<open>URLs\<close>

definition is_loopback :: "url_host \<Rightarrow> bool" where
  "is_loopback h = (case h of
      Domain d \<Rightarrow> to_lowercase d = ''localhost''
    | Ipv4Host a \<Rightarrow> a \<noteq> [] \<and> hd a = 127
    | Ipv6Host a \<Rightarrow> a = [0, 0, 0, 0, 0, 0, 0, 1])"

definition validate_oidc_issuer_url :: "'n config_env \<Rightarrow> string \<Rightarrow> string \<Rightarrow> string configured" where
  "validate_oidc_issuer_url ce v key =
     (case ce_parse_url ce v of
        None \<Rightarrow> Inl (InvalidFormat (key @ '' must be an absolute URL''))
      | Some u \<Rightarrow>
          if pu_host_str u = None \<or> pu_username u \<noteq> [] \<or> pu_password u \<noteq> None \<or> pu_query u \<noteq> None
             \<or> pu_fragment u \<noteq> None \<or> pu_scheme u \<notin> set [''http'', ''https'']
          then Inl (InvalidFormat (key @ '' must contain an http(s) URL without credentials, query, or fragment''))
          else if pu_scheme u \<noteq> ''https'' \<and> \<not> (case pu_host u of None \<Rightarrow> False | Some h \<Rightarrow> is_loopback h)
          then Inl (InvalidFormat (key @ '' must use HTTPS except for loopback development''))
          else Inr v)"

definition normalize_public_origin :: "'n config_env \<Rightarrow> string \<Rightarrow> string configured" where
  "normalize_public_origin ce v =
     (case ce_parse_url ce v of
        None \<Rightarrow> Inl (InvalidFormat ''PUBLIC_ORIGIN must be an absolute URL'')
      | Some u \<Rightarrow>
          if pu_scheme u \<notin> set [''http'', ''https''] \<or> pu_host_str u = None \<or> pu_username u \<noteq> []
             \<or> pu_password u \<noteq> None \<or> pu_path u \<noteq> ''/'' \<or> pu_query u \<noteq> None \<or> pu_fragment u \<noteq> None
          then Inl (InvalidFormat ''PUBLIC_ORIGIN must contain only an http(s) scheme and authority'')
          else if pu_scheme u \<noteq> ''https'' \<and> pu_host_str u \<noteq> Some ''localhost''
          then Inl (InvalidFormat ''PUBLIC_ORIGIN must use HTTPS except for localhost development'')
          else Inr (pu_origin u))"

section \<open>OIDC settings\<close>

definition read_bounded_file :: "'n config_env \<Rightarrow> string \<Rightarrow> nat \<Rightarrow> string \<Rightarrow> string configured" where
  "read_bounded_file ce path maximum key = (case ce_file ce path of
      None \<Rightarrow> Inl (InvalidFormat (key @ '' cannot be read''))
    | Some f \<Rightarrow>
        if \<not> fi_is_file f \<or> maximum < length (fi_bytes f)
        then Inl (InvalidFormat (key @ '' must be a regular file no larger than '' @ show_nat maximum @ '' bytes''))
        else Inr (fi_bytes f))"

definition read_client_secret :: "'n config_env \<Rightarrow> string \<Rightarrow> string configured" where
  "read_client_secret ce path =
     and_then (read_bounded_file ce path (4 * 1024) ''OIDC_CLIENT_SECRET_FILE'') (\<lambda>bytes.
       let secret = rev (dropWhile (\<lambda>c. c = CHR 0x0D \<or> c = CHR 0x0A) (rev bytes)) in
       if secret = [] then Inl (InvalidFormat ''OIDC_CLIENT_SECRET_FILE must contain a non-empty secret'')
       else if \<not> utf8_valid secret then Inl (InvalidFormat ''OIDC_CLIENT_SECRET_FILE must contain UTF-8 text'')
       else Inr secret)"

text \<open>The fields between the characters of a class.\<close>

fun split_on :: "(char \<Rightarrow> bool) \<Rightarrow> string \<Rightarrow> string list" where
  "split_on P [] = [[]]"
| "split_on P (x # xs) =
     (if P x then [] # split_on P xs
      else (case split_on P xs of [] \<Rightarrow> [[x]] | f # fs \<Rightarrow> (x # f) # fs))"

definition scope_char :: "char \<Rightarrow> bool" where
  "scope_char c \<longleftrightarrow> byte c = 0x21 \<or> (0x23 \<le> byte c \<and> byte c \<le> 0x5B) \<or> (0x5D \<le> byte c \<and> byte c \<le> 0x7E)"

fun add_scopes :: "string list \<Rightarrow> string list \<Rightarrow> string list configured" where
  "add_scopes scopes [] = Inr scopes"
| "add_scopes scopes (s # rest) =
     (if 128 < length s \<or> \<not> list_all scope_char s
      then Inl (InvalidFormat ''OIDC_ADDITIONAL_SCOPES contains an invalid scope'')
      else if s \<notin> set [''openid'', ''profile'', ''email''] \<and> s \<notin> set scopes
      then add_scopes (scopes @ [s]) rest
      else add_scopes scopes rest)"

definition parse_additional_scopes :: "string \<Rightarrow> string list configured" where
  "parse_additional_scopes v =
     and_then (add_scopes [] (filter (\<lambda>s. s \<noteq> [])
         (split_on (\<lambda>c. c = CHR '','' \<or> is_ascii_whitespace c) v))) (\<lambda>scopes.
       if 32 < length scopes
       then Inl (InvalidFormat ''OIDC_ADDITIONAL_SCOPES must contain at most 32 scopes'')
       else Inr scopes)"

definition validate_display_config :: "string \<Rightarrow> string \<Rightarrow> nat \<Rightarrow> unit configured" where
  "validate_display_config key v maximum =
     (if maximum < length v \<or> has_control v
      then Inl (InvalidFormat (key @ '' must not exceed '' @ show_nat maximum @ '' bytes or contain control characters''))
      else Inr ())"

definition required :: "'n config_env \<Rightarrow> string \<Rightarrow> string configured" where
  "required ce key = (case ce_var ce key of
      Inl _ \<Rightarrow> Inl (MissingRequired key)
    | Inr v \<Rightarrow> if trim v = [] then Inl (InvalidFormat (key @ '' must not be empty'')) else Inr (trim v))"

definition claim_char :: "char \<Rightarrow> bool" where
  "claim_char c \<longleftrightarrow> is_ascii_alphanumeric c \<or> c \<in> set ''_-.''"

definition validate_groups_claim :: "string \<Rightarrow> unit configured" where
  "validate_groups_claim v =
     (if v = [] \<or> 128 < length v \<or> \<not> list_all claim_char v
      then Inl (InvalidFormat ''OIDC_GROUPS_CLAIM must be a simple top-level claim name'') else Inr ())"

definition load_ca :: "'n config_env \<Rightarrow> string option configured" where
  "load_ca ce = (case var_ok ce ''OIDC_CA_FILE'' of
      None \<Rightarrow> Inr None
    | Some path \<Rightarrow> if trim path = [] then Inr None
        else and_then (read_bounded_file ce (trim path) (1024 * 1024) ''OIDC_CA_FILE'') (\<lambda>b. Inr (Some b)))"

definition load_oidc_config_with :: "'n config_env \<Rightarrow> string \<Rightarrow> oidc_config option configured" where
  "load_oidc_config_with ce public_origin =
     and_then (parse_bool_value ''OIDC_ENABLED'' (ce_var ce ''OIDC_ENABLED'') False) (\<lambda>enabled.
     if \<not> enabled then Inr None else
     and_then (required ce ''OIDC_ISSUER_URL'') (\<lambda>issuer.
     and_then (validate_oidc_issuer_url ce issuer ''OIDC_ISSUER_URL'') (\<lambda>issuer_url.
     and_then (required ce ''OIDC_CLIENT_ID'') (\<lambda>client_id.
     if 512 < length client_id then Inl (InvalidFormat ''OIDC_CLIENT_ID must not exceed 512 bytes'') else
     and_then (required ce ''OIDC_CLIENT_SECRET_FILE'') (\<lambda>path.
     and_then (read_client_secret ce path) (\<lambda>client_secret.
     and_then (required ce ''OIDC_PROVIDER_NAME'') (\<lambda>provider_name.
     and_then (validate_display_config ''OIDC_PROVIDER_NAME'' provider_name 80) (\<lambda>_.
     let groups_claim = trim (case var_ok ce ''OIDC_GROUPS_CLAIM'' of None \<Rightarrow> ''groups'' | Some v \<Rightarrow> v) in
     and_then (validate_groups_claim groups_claim) (\<lambda>_.
     and_then (required ce ''OIDC_VIEWER_GROUP'') (\<lambda>viewer_group.
     and_then (required ce ''OIDC_ADMIN_GROUP'') (\<lambda>admin_group.
     and_then (validate_display_config ''OIDC_VIEWER_GROUP'' viewer_group 256) (\<lambda>_.
     and_then (validate_display_config ''OIDC_ADMIN_GROUP'' admin_group 256) (\<lambda>_.
     if viewer_group = admin_group
     then Inl (InvalidFormat ''OIDC_VIEWER_GROUP and OIDC_ADMIN_GROUP must be different'') else
     and_then (parse_additional_scopes (case var_ok ce ''OIDC_ADDITIONAL_SCOPES'' of None \<Rightarrow> [] | Some v \<Rightarrow> v))
       (\<lambda>additional_scopes.
     and_then (load_ca ce) (\<lambda>ca_pem.
     Inr (Some \<lparr>oc_issuer_url = issuer_url, oc_client_id = client_id, oc_client_secret = client_secret,
       oc_provider_name = provider_name, oc_groups_claim = groups_claim, oc_viewer_group = viewer_group,
       oc_admin_group = admin_group, oc_additional_scopes = additional_scopes, oc_ca_pem = ca_pem,
       oc_redirect_url = public_origin @ ''/api/auth/oidc/callback''\<rparr>))))))))))))))))"

section \<open>The whole configuration\<close>

definition env_scheme :: "'n config_env \<Rightarrow> string configured" where
  "env_scheme ce =
     (let scheme = (case env_host ce ''ROUTER_SCHEME'' ''ROUTEROS_SCHEME'' of
          None \<Rightarrow> ''https'' | Some s \<Rightarrow> to_lowercase s) in
      if scheme \<notin> set [''http'', ''https'']
      then Inl (InvalidFormat (''ROUTER_SCHEME (or ROUTEROS_SCHEME) must be '' @ quoted ''http'' @ '' or '' @ quoted ''https''))
      else Inr scheme)"

definition env_router_type :: "'n config_env \<Rightarrow> router_type configured" where
  "env_router_type ce =
     (let t = to_lowercase (case env_host ce ''ROUTER_TYPE'' ''ROUTEROS_TYPE'' of None \<Rightarrow> ''routeros'' | Some s \<Rightarrow> s) in
      if t = ''routeros'' then Inr RouterOs
      else Inl (InvalidFormat (''Unknown router type: '' @ quoted t @ ''. Supported: routeros'')))"

definition env_management_cidrs :: "'n config_env \<Rightarrow> 'n list configured" where
  "env_management_cidrs ce =
     and_then (parse_cidrs ce ''ROUTER_MANAGEMENT_CIDRS'' (case var_ok ce ''ROUTER_MANAGEMENT_CIDRS'' of
         None \<Rightarrow> ''10.0.0.0/8,172.16.0.0/12,192.168.0.0/16,fc00::/7'' | Some v \<Rightarrow> v)) (\<lambda>nets.
       if nets = [] then Inl (InvalidFormat ''ROUTER_MANAGEMENT_CIDRS must contain at least one network'')
       else Inr nets)"

definition from_env :: "'n config_env \<Rightarrow> 'n config configured" where
  "from_env ce =
     and_then (env_scheme ce) (\<lambda>scheme.
     and_then (env_router_type ce) (\<lambda>rtype.
     and_then (parse_bool_env ce ''ALLOW_INSECURE_ROUTER_HTTP'' False) (\<lambda>allow_http.
     if scheme = ''http'' \<and> \<not> allow_http
     then Inl (InvalidFormat ''ROUTER_SCHEME=http requires ALLOW_INSECURE_ROUTER_HTTP=true'') else
     and_then (env_management_cidrs ce) (\<lambda>nets.
     and_then (normalize_public_origin ce (case var_ok ce ''PUBLIC_ORIGIN'' of None \<Rightarrow> ''https://localhost'' | Some v \<Rightarrow> v))
       (\<lambda>public_origin.
     and_then (parse_optional_cidrs_env ce ''TRUSTED_PROXY_CIDRS'') (\<lambda>proxies.
     and_then (load_oidc_config_with ce public_origin) (\<lambda>oidc.
     and_then (parse_env_host ce ''ROUTER_PORT'' ''ROUTEROS_PORT'' (if scheme = ''http'' then 80 else 443)) (\<lambda>port.
     and_then (parse_env ce ''POLL_INTERVAL_SECS'' 3) (\<lambda>poll.
     and_then (parse_env ce ''SERVER_PORT'' 3001) (\<lambda>server_port.
     and_then (parse_env ce ''SETUP_PORT'' 3002) (\<lambda>setup_port.
     and_then (ok_or (MissingRequired ''ROUTERVIEW_MASTER_KEY_FILE'') (var_ok ce ''ROUTERVIEW_MASTER_KEY_FILE'')) (\<lambda>key_file.
     and_then (parse_env ce ''PROBE_INTERVAL_SECS'' 60) (\<lambda>probe.
     and_then (parse_env ce ''DB_RAW_RETENTION_DAYS'' 7) (\<lambda>raw_days.
     and_then (parse_env ce ''DB_TOTAL_RETENTION_DAYS'' 90) (\<lambda>total_days.
     and_then (parse_env ce ''LATENCY_GOOD_MS'' 30) (\<lambda>good.
     and_then (parse_env ce ''LATENCY_POOR_MS'' 100) (\<lambda>poor.
     Inr \<lparr>cf_router_type = rtype,
       cf_router_host = (case env_host ce ''ROUTER_HOST'' ''ROUTEROS_HOST'' of None \<Rightarrow> ''192.168.88.1'' | Some v \<Rightarrow> v),
       cf_router_port = port, cf_router_scheme = scheme,
       cf_router_username = (case env_host ce ''ROUTER_USERNAME'' ''ROUTEROS_USERNAME'' of None \<Rightarrow> ''admin'' | Some v \<Rightarrow> v),
       cf_router_password = (case env_host ce ''ROUTER_PASSWORD'' ''ROUTEROS_PASSWORD'' of None \<Rightarrow> [] | Some v \<Rightarrow> v),
       cf_accept_invalid_certs = (case env_host ce ''ROUTER_INSECURE_TLS'' ''ROUTEROS_INSECURE_TLS'' of
           None \<Rightarrow> False | Some v \<Rightarrow> to_lowercase v = ''true'' \<or> v = ''1''),
       cf_poll_interval_secs = poll, cf_server_port = server_port, cf_setup_port = setup_port,
       cf_setup_token_file = (case var_ok ce ''SETUP_TOKEN_FILE'' of None \<Rightarrow> ''/tmp/routerview-setup-token'' | Some v \<Rightarrow> v),
       cf_public_origin = public_origin, cf_trusted_proxy_cidrs = proxies, cf_master_key_file = key_file,
       cf_router_management_cidrs = nets, cf_allow_insecure_router_http = allow_http,
       cf_probe_interval_secs = probe,
       cf_db_path = (case var_ok ce ''DB_PATH'' of None \<Rightarrow> ''traffic.db'' | Some v \<Rightarrow> v),
       cf_db_raw_retention_days = raw_days, cf_db_total_retention_days = total_days,
       cf_latency_good_ms = good, cf_latency_poor_ms = poor, cf_oidc = oidc\<rparr>)))))))))))))))))"

end
