(* ===== verification/Secrets.thy ===== *)
theory Secrets
  imports Env_Config "HOL-Library.AList" "HOL-Library.List_Lexorder" "HOL-Library.Char_ord"
begin

text \<open>
  Encrypted secrets (\<open>secrets.rs\<close>) and the maintenance of their master key
  (\<open>db/key_management.rs\<close>).  The cryptographic functions and the two text encodings are a
  library's (\<open>crypto\<close>); a nonce is an input.  The tables are a map of settings and the list of
  stored secrets by name.
\<close>

section \<open>The cipher\<close>

record crypto =
  cy_sha256 :: "string \<Rightarrow> string"
  cy_hex :: "string \<Rightarrow> string"
  cy_unhex :: "string \<Rightarrow> string option"
  cy_unbase64 :: "string \<Rightarrow> string option"
  cy_expand :: "string \<Rightarrow> string \<Rightarrow> string \<Rightarrow> string option"
  cy_seal :: "string \<Rightarrow> string \<Rightarrow> string \<Rightarrow> string \<Rightarrow> string option"
  cy_unseal :: "string \<Rightarrow> string \<Rightarrow> string \<Rightarrow> string \<Rightarrow> string option"

record encrypted_secret =
  es_ciphertext :: string
  es_nonce :: string
  es_key_id :: string

record secret_cipher =
  sk_master_key :: string
  sk_key_id :: string

datatype secret_error =
    ReadKey string
  | InvalidKey
  | Derive
  | Encrypt
  | Decrypt
  | InvalidNonce
  | WrongKey string string

fun display_secret_error :: "secret_error \<Rightarrow> string" where
  "display_secret_error (ReadKey path) = ''failed to read master key file '' @ path"
| "display_secret_error InvalidKey =
     ''master key must contain exactly 32 raw bytes, 64 hex characters, or base64 for 32 bytes''"
| "display_secret_error Derive = ''failed to derive the field encryption key''"
| "display_secret_error Encrypt = ''failed to encrypt secret''"
| "display_secret_error Decrypt =
     ''failed to decrypt secret; the database or associated metadata may be corrupt''"
| "display_secret_error InvalidNonce = ''encrypted secret has an invalid nonce''"
| "display_secret_error (WrongKey expected actual) =
     ''master key mismatch (database key id '' @ expected @ '', supplied key id '' @ actual @ '')''"

definition is_ascii_hexdigit :: "char \<Rightarrow> bool" where
  "is_ascii_hexdigit c \<longleftrightarrow> is_ascii_digit c \<or> c \<in> set ''abcdefABCDEF''"

definition decode_master_key :: "crypto \<Rightarrow> string \<Rightarrow> secret_error + string" where
  "decode_master_key cy raw =
     (if length raw = 32 then Inr raw
      else if \<not> utf8_valid raw then Inl InvalidKey
      else let t = trim raw in
        case (if length t = 64 \<and> list_all is_ascii_hexdigit t then cy_unhex cy t else cy_unbase64 cy t) of
          None \<Rightarrow> Inl InvalidKey
        | Some k \<Rightarrow> if length k = 32 then Inr k else Inl InvalidKey)"

definition cipher_from_file :: "crypto \<Rightarrow> string \<Rightarrow> string option \<Rightarrow> secret_error + secret_cipher" where
  "cipher_from_file cy path content =
     and_then (ok_or (ReadKey path) content) (\<lambda>raw.
     and_then (decode_master_key cy raw) (\<lambda>key.
     Inr \<lparr>sk_master_key = key, sk_key_id = cy_hex cy (take 8 (cy_sha256 cy key))\<rparr>))"

definition derive_field_key :: "crypto \<Rightarrow> secret_cipher \<Rightarrow> string \<Rightarrow> string \<Rightarrow> secret_error + string" where
  "derive_field_key cy c instance_id field_name =
     ok_or Derive (cy_expand cy instance_id (sk_master_key c) (''routerview/'' @ field_name @ ''/v1''))"

definition aad :: "secret_cipher \<Rightarrow> string \<Rightarrow> string \<Rightarrow> string" where
  "aad c instance_id field_name = ''routerview:'' @ instance_id @ '':'' @ field_name @ '':'' @ sk_key_id c"

definition encrypt ::
  "crypto \<Rightarrow> secret_cipher \<Rightarrow> string \<Rightarrow> string \<Rightarrow> string \<Rightarrow> string \<Rightarrow> secret_error + encrypted_secret" where
  "encrypt cy c nonce instance_id field_name plaintext =
     and_then (derive_field_key cy c instance_id field_name) (\<lambda>key.
     and_then (ok_or Encrypt (cy_seal cy key nonce (aad c instance_id field_name) plaintext)) (\<lambda>ciphertext.
     Inr \<lparr>es_ciphertext = ciphertext, es_nonce = nonce, es_key_id = sk_key_id c\<rparr>))"

definition decrypt ::
  "crypto \<Rightarrow> secret_cipher \<Rightarrow> string \<Rightarrow> string \<Rightarrow> encrypted_secret \<Rightarrow> secret_error + string" where
  "decrypt cy c instance_id field_name secret =
     (if es_key_id secret \<noteq> sk_key_id c then Inl (WrongKey (es_key_id secret) (sk_key_id c))
      else if length (es_nonce secret) \<noteq> 24 then Inl InvalidNonce
      else and_then (derive_field_key cy c instance_id field_name) (\<lambda>key.
        ok_or Decrypt (cy_unseal cy key (es_nonce secret) (aad c instance_id field_name) (es_ciphertext secret))))"

text \<open>What the authenticated cipher documents: opening what was sealed gives the message.\<close>

definition seals :: "crypto \<Rightarrow> bool" where
  "seals cy \<longleftrightarrow> (\<forall>key nonce a msg sealed. cy_seal cy key nonce a msg = Some sealed \<longrightarrow>
     cy_unseal cy key nonce a sealed = Some msg)"

lemma decrypt_encrypt:
  assumes "seals cy" "encrypt cy c nonce instance_id field_name plaintext = Inr secret" "length nonce = 24"
  shows "decrypt cy c instance_id field_name secret = Inr plaintext"
  using assms by (auto simp: encrypt_def decrypt_def seals_def result_simps)

section \<open>The tables\<close>

record config_db =
  cd_config :: "string \<rightharpoonup> string"
  cd_secrets :: "(string \<times> encrypted_secret) list"

definition load_secret :: "string \<Rightarrow> config_db \<Rightarrow> encrypted_secret option" where
  "load_secret name db = map_of (cd_secrets db) name"

definition load_secrets :: "config_db \<Rightarrow> (string \<times> encrypted_secret) list" where
  "load_secrets db = sort_key fst (cd_secrets db)"

definition secrets_unique :: "config_db \<Rightarrow> bool" where
  "secrets_unique db \<longleftrightarrow> distinct (map fst (cd_secrets db))"

section \<open>Verifying and rotating the key\<close>

datatype key_management_error =
    MissingInstanceId
  | CurrentKey string secret_error
  | NewKey secret_error
  | EncryptSecret string secret_error
  | ReadBack string secret_error
  | PlaintextMismatch string
  | CiphertextMismatch string
  | SecretSetChanged

record key_verification_report =
  kv_key_id :: string
  kv_secrets_verified :: nat

record key_rotation_report =
  kr_previous_key_id :: string
  kr_new_key_id :: string
  kr_secrets_rotated :: nat

record rotated_secret =
  rs_name :: string
  rs_plaintext :: string
  rs_encrypted :: encrypted_secret

definition instance_id_for ::
  "config_db \<Rightarrow> (string \<times> encrypted_secret) list \<Rightarrow> key_management_error + string option" where
  "instance_id_for db secrets =
     (if secrets = [] then Inr None
      else case cd_config db ''instance_id'' of
        None \<Rightarrow> Inl MissingInstanceId
      | Some v \<Rightarrow> if v = [] then Inl MissingInstanceId else Inr (Some v))"

definition decrypt_current ::
  "crypto \<Rightarrow> secret_cipher \<Rightarrow> string \<Rightarrow> string \<times> encrypted_secret \<Rightarrow> key_management_error + string" where
  "decrypt_current cy c instance_id s = (case decrypt cy c instance_id (fst s) (snd s) of
      Inl e \<Rightarrow> Inl (CurrentKey (fst s) e) | Inr p \<Rightarrow> Inr p)"

definition verify_key ::
  "crypto \<Rightarrow> secret_cipher \<Rightarrow> config_db \<Rightarrow> key_management_error + key_verification_report" where
  "verify_key cy c db =
     (let secrets = load_secrets db in
      and_then (instance_id_for db secrets) (\<lambda>i.
      and_then (case i of None \<Rightarrow> Inr [] | Some instance_id \<Rightarrow>
          collect_results (map (decrypt_current cy c instance_id) secrets)) (\<lambda>_.
      Inr \<lparr>kv_key_id = sk_key_id c, kv_secrets_verified = length secrets\<rparr>)))"

text \<open>The replacement of one secret; every secret is replaced before any row is written.\<close>

definition replacement_of ::
  "crypto \<Rightarrow> secret_cipher \<Rightarrow> secret_cipher \<Rightarrow> (string \<Rightarrow> string) \<Rightarrow> string \<Rightarrow> string \<times> encrypted_secret \<Rightarrow>
   key_management_error + rotated_secret" where
  "replacement_of cy current new nonces instance_id s =
     and_then (decrypt_current cy current instance_id s) (\<lambda>plaintext.
     (case encrypt cy new (nonces (fst s)) instance_id (fst s) plaintext of
        Inl e \<Rightarrow> Inl (EncryptSecret (fst s) e)
      | Inr encrypted \<Rightarrow> Inr \<lparr>rs_name = fst s, rs_plaintext = plaintext, rs_encrypted = encrypted\<rparr>))"

fun write_replacements :: "rotated_secret list \<Rightarrow> config_db \<Rightarrow> key_management_error + config_db" where
  "write_replacements [] db = Inr db"
| "write_replacements (r # rs) db =
     (if length (filter (\<lambda>s. fst s = rs_name r) (cd_secrets db)) \<noteq> 1 then Inl SecretSetChanged
      else write_replacements rs (db\<lparr>cd_secrets :=
        map (\<lambda>s. if fst s = rs_name r then (fst s, rs_encrypted r) else s) (cd_secrets db)\<rparr>))"

definition check_read_back ::
  "crypto \<Rightarrow> secret_cipher \<Rightarrow> string \<Rightarrow> (string \<times> encrypted_secret) \<times> rotated_secret \<Rightarrow>
   key_management_error + unit" where
  "check_read_back cy new instance_id z = (case z of (actual, expected) \<Rightarrow>
     if fst actual \<noteq> rs_name expected then Inl SecretSetChanged
     else case decrypt cy new instance_id (fst actual) (snd actual) of
       Inl e \<Rightarrow> Inl (ReadBack (fst actual) e)
     | Inr plaintext \<Rightarrow>
         if plaintext \<noteq> rs_plaintext expected then Inl (PlaintextMismatch (fst actual))
         else if snd actual \<noteq> rs_encrypted expected then Inl (CiphertextMismatch (fst actual))
         else Inr ())"

definition rotate_transaction ::
  "crypto \<Rightarrow> secret_cipher \<Rightarrow> secret_cipher \<Rightarrow> (string \<Rightarrow> string) \<Rightarrow> config_db \<Rightarrow>
   key_management_error + (key_rotation_report \<times> config_db)" where
  "rotate_transaction cy current new nonces db =
     (let stored = load_secrets db;
          report = (\<lambda>n. \<lparr>kr_previous_key_id = sk_key_id current, kr_new_key_id = sk_key_id new,
            kr_secrets_rotated = n\<rparr>) in
      and_then (instance_id_for db stored) (\<lambda>i.
      case i of
        None \<Rightarrow> Inr (report 0, db)
      | Some instance_id \<Rightarrow>
          and_then (collect_results (map (replacement_of cy current new nonces instance_id) stored)) (\<lambda>replacements.
          and_then (write_replacements replacements db) (\<lambda>db1.
          let read_back = load_secrets db1 in
          if length read_back \<noteq> length replacements then Inl SecretSetChanged
          else and_then (collect_results (map (check_read_back cy new instance_id) (zip read_back replacements)))
            (\<lambda>_. Inr (report (length replacements), db1))))))"

definition rotate_with_cipher ::
  "crypto \<Rightarrow> secret_cipher \<Rightarrow> secret_cipher \<Rightarrow> (string \<Rightarrow> string) \<Rightarrow> config_db \<Rightarrow>
   (key_management_error + key_rotation_report) \<times> config_db" where
  "rotate_with_cipher cy current new nonces db = (case rotate_transaction cy current new nonces db of
      Inl e \<Rightarrow> (Inl e, db) | Inr (report, db') \<Rightarrow> (Inr report, db'))"

definition rotate_key ::
  "crypto \<Rightarrow> secret_cipher \<Rightarrow> string \<Rightarrow> string option \<Rightarrow> (string \<Rightarrow> string) \<Rightarrow> config_db \<Rightarrow>
   (key_management_error + key_rotation_report) \<times> config_db" where
  "rotate_key cy current path content nonces db = (case cipher_from_file cy path content of
      Inl e \<Rightarrow> (Inl (NewKey e), db)
    | Inr new \<Rightarrow> rotate_with_cipher cy current new nonces db)"

end
