(* ===== verification/Secrets_Facts.thy ===== *)
theory Secrets_Facts
  imports Secrets
begin

text \<open>
  What a rotation of the master key promises: all secrets or none, each with its plaintext.
\<close>

lemma collect_results_InrD:
  "collect_results ms = Inr xs \<Longrightarrow> length xs = length ms \<and> (\<forall>i < length ms. ms ! i = Inr (xs ! i))"
proof (induction ms arbitrary: xs)
  case (Cons m ms)
  then obtain x ys where "m = Inr x" "collect_results ms = Inr ys" "xs = x # ys"
    by (auto simp: result_simps)
  then show ?case using Cons.IH by (auto simp: nth_Cons split: nat.split)
qed simp

lemma write_replacements_InrD:
  "write_replacements rs db = Inr db' \<Longrightarrow> cd_config db' = cd_config db \<and>
     map fst (cd_secrets db') = map fst (cd_secrets db) \<and>
     (\<forall>r \<in> set rs. count_list (map fst (cd_secrets db)) (rs_name r) = 1)"
proof (induction rs arbitrary: db)
  case (Cons r rs)
  have keep: "map fst (map (\<lambda>s. if fst s = rs_name r then (fst s, rs_encrypted r) else s) xs) = map fst xs" for xs :: "(string \<times> encrypted_secret) list"
    by (induction xs) auto
  have count: "count_list (map fst xs) k = length (filter (\<lambda>s. fst s = k) xs)" for k and xs :: "(string \<times> encrypted_secret) list"
    by (induction xs) auto
  from Cons.prems have one: "length (filter (\<lambda>s. fst s = rs_name r) (cd_secrets db)) = 1"
    and rest: "write_replacements rs (db\<lparr>cd_secrets :=
        map (\<lambda>s. if fst s = rs_name r then (fst s, rs_encrypted r) else s) (cd_secrets db)\<rparr>) = Inr db'"
    by (auto split: if_splits)
  from Cons.IH[OF rest] one show ?case by (simp add: keep count del: map_map)
qed simp

lemma single_lookup:
  "count_list (map fst xs) k = 1 \<Longrightarrow> (k, v) \<in> set xs \<Longrightarrow> map_of xs k = Some v"
proof (induction xs)
  case (Cons x xs)
  show ?case
  proof (cases "fst x = k")
    case True
    then have "k \<notin> fst ` set xs" using Cons.prems(1) by (simp add: count_list_0_iff)
    then show ?thesis using Cons.prems(2) True by (cases x) force
  next
    case False
    then show ?thesis using Cons by (cases x) auto
  qed
qed simp

lemma load_secrets_set [simp]: "set (load_secrets db) = set (cd_secrets db)" "length (load_secrets db) = length (cd_secrets db)"
  by (simp_all add: load_secrets_def)

text \<open>A secret that reads the same before and after, under the old and the new key.\<close>

definition same_secret ::
  "crypto \<Rightarrow> secret_cipher \<Rightarrow> secret_cipher \<Rightarrow> config_db \<Rightarrow> config_db \<Rightarrow> string \<Rightarrow> bool" where
  "same_secret cy current new db db' name \<longleftrightarrow> (\<exists>i old fresh plaintext.
     cd_config db ''instance_id'' = Some i \<and> load_secret name db = Some old \<and> load_secret name db' = Some fresh \<and>
     decrypt cy current i name old = Inr plaintext \<and> decrypt cy new i name fresh = Inr plaintext)"

lemma rotate_transaction_InrD:
  assumes "rotate_transaction cy current new nonces db = Inr (report, db')"
  shows "cd_config db' = cd_config db \<and> map fst (cd_secrets db') = map fst (cd_secrets db) \<and>
    kr_secrets_rotated report = length (cd_secrets db) \<and>
    list_all (same_secret cy current new db db') (map fst (cd_secrets db))"
proof (cases "load_secrets db = []")
  case True
  then have "cd_secrets db = []" using load_secrets_set(2)[of db] by simp
  then show ?thesis using assms True by (auto simp: rotate_transaction_def instance_id_for_def Let_def)
next
  case False
  define stored where "stored = load_secrets db"
  from assms False obtain i rs where i: "cd_config db ''instance_id'' = Some i"
    and rs: "collect_results (map (replacement_of cy current new nonces i) stored) = Inr rs"
    and w: "write_replacements rs db = Inr db'"
    and len: "length (load_secrets db') = length rs"
    and backs: "\<exists>u. collect_results (map (check_read_back cy new i) (zip (load_secrets db') rs)) = Inr u"
    and report: "kr_secrets_rotated report = length rs"
    by (auto simp: rotate_transaction_def instance_id_for_def Let_def result_simps stored_def split: option.splits if_splits)
  note rs' = collect_results_InrD[OF rs] and w' = write_replacements_InrD[OF w]
  have n: "length rs = length stored" "length stored = length (cd_secrets db)" using rs' by (auto simp: stored_def)
  have step: "same_secret cy current new db db' (fst (stored ! k))" if k: "k < length stored" for k
  proof -
    obtain name old where s: "stored ! k = (name, old)" by fastforce
    have "replacement_of cy current new nonces i (name, old) = Inr (rs ! k)" using rs' k s by (metis length_map nth_map)
    then have p: "decrypt cy current i name old = Inr (rs_plaintext (rs ! k))" and rn: "rs_name (rs ! k) = name"
      by (auto simp: replacement_of_def decrypt_current_def result_simps split: sum.splits dest!: sym[of _ "rs ! k"])
    obtain u where u: "collect_results (map (check_read_back cy new i) (zip (load_secrets db') rs)) = Inr u" using backs by blast
    have "check_read_back cy new i (load_secrets db' ! k, rs ! k) = Inr (u ! k)"
      using collect_results_InrD[OF u] k n len by auto
    then obtain fresh where f: "load_secrets db' ! k = (name, fresh)" "decrypt cy new i name fresh = Inr (rs_plaintext (rs ! k))"
      using rn by (cases "load_secrets db' ! k") (auto simp: check_read_back_def split: if_splits sum.splits)
    have in_db: "(name, old) \<in> set (cd_secrets db)"
      using nth_mem[OF k] s by (simp add: stored_def)
    have in_db': "(name, fresh) \<in> set (cd_secrets db')"
      using nth_mem[of k "load_secrets db'"] f(1) k n len by simp
    have "rs ! k \<in> set rs" using k n by simp
    then have one: "count_list (map fst (cd_secrets db)) name = 1" using w' rn by blast
    then have "load_secret name db = Some old" "load_secret name db' = Some fresh"
      using single_lookup[OF one in_db] single_lookup[OF _ in_db'] w' unfolding load_secret_def by simp_all
    then show ?thesis using i p f(2) s by (auto simp: same_secret_def)
  qed
  have "same_secret cy current new db db' name" if "name \<in> set (map fst (cd_secrets db))" for name
  proof -
    have "name \<in> fst ` set stored" using that by (simp add: stored_def)
    then obtain k where "k < length stored" "fst (stored ! k) = name" by (force simp: in_set_conv_nth)
    then show ?thesis using step by blast
  qed
  then show ?thesis using w' report n by (simp add: list_all_iff)
qed

text \<open>C29: A rotation of the master key is all or nothing.  When it fails the database is as it
  was; when it succeeds the settings are unchanged and every secret, under its old name, reads
  with the new key as exactly what the old key read before.\<close>

theorem rotation_keeps_secrets:
  assumes "rotate_key cy current path content nonces db = (r, db')"
  shows "case r of
      Inl e \<Rightarrow> db' = db
    | Inr report \<Rightarrow> cd_config db' = cd_config db \<and> map fst (cd_secrets db') = map fst (cd_secrets db) \<and>
        kr_secrets_rotated report = length (cd_secrets db) \<and>
        (\<exists>new. cipher_from_file cy path content = Inr new \<and>
           list_all (same_secret cy current new db db') (map fst (cd_secrets db)))"
  using assms rotate_transaction_InrD[of cy current _ nonces db]
  by (auto simp: rotate_key_def rotate_with_cipher_def split: sum.splits)

text \<open>A cipher for examples: the key and the associated data are written before the message.\<close>

definition example_crypto :: crypto where
  "example_crypto = \<lparr>cy_sha256 = id, cy_hex = id, cy_unhex = (\<lambda>_. None), cy_unbase64 = (\<lambda>_. None),
     cy_expand = (\<lambda>salt key info. Some (take 1 key)),
     cy_seal = (\<lambda>key nonce a msg. Some (key @ msg)),
     cy_unseal = (\<lambda>key nonce a sealed.
       if take (length key) sealed = key then Some (drop (length key) sealed) else None)\<rparr>"

definition example_key :: "char \<Rightarrow> string" where
  "example_key c = replicate 32 c"

definition example_cipher :: secret_cipher where
  "example_cipher = \<lparr>sk_master_key = example_key CHR ''a'', sk_key_id = ''aaaaaaaa''\<rparr>"

definition example_secrets :: config_db where
  "example_secrets = \<lparr>cd_config = [''instance_id'' \<mapsto> ''i1''],
     cd_secrets = [(''router_password'', \<lparr>es_ciphertext = ''apw'', es_nonce = replicate 24 CHR ''n'', es_key_id = ''aaaaaaaa''\<rparr>)]\<rparr>"

lemmas example_secret_defs = example_crypto_def example_key_def example_cipher_def example_secrets_def
  rotate_key_def rotate_with_cipher_def rotate_transaction_def cipher_from_file_def decode_master_key_def
  load_secrets_def instance_id_for_def replacement_of_def decrypt_current_def decrypt_def encrypt_def
  derive_field_key_def check_read_back_def load_secret_def Let_def

theorem rotation_keeps_secrets_witness:
  "\<exists>report db'. rotate_key example_crypto example_cipher ''new.key'' (Some (example_key CHR ''b'')) (\<lambda>_. replicate 24 CHR ''m'')
       example_secrets = (Inr report, db') \<and>
     map fst (cd_secrets db') = [''router_password''] \<and> cd_config db' ''instance_id'' = Some ''i1''"
proof -
  obtain report db' where r: "rotate_key example_crypto example_cipher ''new.key'' (Some (example_key CHR ''b''))
      (\<lambda>_. replicate 24 CHR ''m'') example_secrets = (Inr report, db')"
    by (simp add: example_secret_defs)
  from rotation_keeps_secrets[OF r] show ?thesis using r by (simp add: example_secrets_def)
qed

end
