(* ===== verification/Config_Store.thy ===== *)
theory Config_Store
  imports Secrets App_Error
begin

text \<open>
  The runtime configuration: the environment's defaults under the stored overrides
  (\<open>config_store.rs\<close>), the settings table (\<open>db/mod.rs\<close>) and its update over the API
  (\<open>api/system.rs\<close>).  An update reads the configuration in memory, commits to the database and
  then replaces the one in memory; the three steps of different requests may interleave.
\<close>

section \<open>The settings table\<close>

definition sat_succ :: "u64 \<Rightarrow> u64" where
  "sat_succ w = (if w = - 1 then w else w + 1)"

definition put_all :: "(string \<times> string) list \<Rightarrow> (string \<rightharpoonup> string) \<Rightarrow> (string \<rightharpoonup> string)" where
  "put_all values m = fold (\<lambda>(k, v) m. m(k \<mapsto> v)) values m"

definition put_secret :: "string \<Rightarrow> encrypted_secret \<Rightarrow> config_db \<Rightarrow> config_db" where
  "put_secret name encrypted db = db\<lparr>cd_secrets := AList.update name encrypted (cd_secrets db)\<rparr>"

definition stored_revision :: "config_db \<Rightarrow> u64" where
  "stored_revision db = (case cd_config db ''config_revision'' of None \<Rightarrow> 0
     | Some v \<Rightarrow> (case parse_word v of None \<Rightarrow> 0 | Some w \<Rightarrow> w))"

text \<open>Whether the expected revision, if any, was the stored one; only then anything changes.\<close>

definition save_config_transaction ::
  "(string \<times> string) list \<Rightarrow> (string \<times> encrypted_secret) option \<Rightarrow> string option \<Rightarrow> u64 option \<Rightarrow> config_db \<Rightarrow>
   bool \<times> config_db" where
  "save_config_transaction values secret delete_secret expected_revision db =
     (let current = stored_revision db in
      if expected_revision \<noteq> None \<and> expected_revision \<noteq> Some current then (False, db)
      else
        let db1 = db\<lparr>cd_config := put_all values (cd_config db)\<rparr>;
            db2 = (case secret of None \<Rightarrow> db1 | Some (name, encrypted) \<Rightarrow> put_secret name encrypted db1);
            db3 = (case delete_secret of None \<Rightarrow> db2
              | Some name \<Rightarrow> db2\<lparr>cd_secrets := AList.delete name (cd_secrets db2)\<rparr>);
            db4 = (case expected_revision of None \<Rightarrow> db3
              | Some _ \<Rightarrow> db3\<lparr>cd_config := (cd_config db3)(''config_revision'' \<mapsto> show_word (sat_succ current))\<rparr>) in
        (True, db4))"

definition instance_id :: "string \<Rightarrow> config_db \<Rightarrow> string \<times> config_db" where
  "instance_id uuid db = (case cd_config db ''instance_id'' of
      Some i \<Rightarrow> (i, db)
    | None \<Rightarrow> (uuid, db\<lparr>cd_config := (cd_config db)(''instance_id'' \<mapsto> uuid)\<rparr>))"

definition migrate_plaintext_router_password :: "encrypted_secret \<Rightarrow> config_db \<Rightarrow> config_db" where
  "migrate_plaintext_router_password encrypted db =
     (put_secret ''router_password'' encrypted db)
       \<lparr>cd_config := (cd_config db)(''router_password'' := None, ''routeros_password'' := None)\<rparr>"

section \<open>The merged configuration\<close>

record 'n merged_config =
  mc_revision :: u64
  mc_router_type :: router_type
  mc_router_host :: string
  mc_router_port :: "16 word"
  mc_router_scheme :: string
  mc_router_username :: string
  mc_router_password :: string
  mc_accept_invalid_certs :: bool
  mc_poll_interval_secs :: u64
  mc_probe_interval_secs :: u64
  mc_server_port :: "16 word"
  mc_db_raw_retention_days :: u64
  mc_db_total_retention_days :: u64
  mc_theme :: string
  mc_latency_good_ms :: u64
  mc_latency_poor_ms :: u64
  mc_router_management_cidrs :: "'n list"
  mc_allow_insecure_router_http :: bool

definition or_else :: "'a option \<Rightarrow> 'a option \<Rightarrow> 'a option" where
  "or_else a b = (case a of None \<Rightarrow> b | Some x \<Rightarrow> Some x)"

definition text_or :: "string \<Rightarrow> string option \<Rightarrow> string" where
  "text_or d v = (case v of None \<Rightarrow> d | Some s \<Rightarrow> s)"

definition word_or :: "'a::len word \<Rightarrow> string option \<Rightarrow> 'a word" where
  "word_or d v = (case v of None \<Rightarrow> d | Some s \<Rightarrow> (case parse_word s of None \<Rightarrow> d | Some w \<Rightarrow> w))"

definition from_env_and_db :: "'n config \<Rightarrow> (string \<rightharpoonup> string) \<Rightarrow> 'n merged_config" where
  "from_env_and_db env get =
     \<lparr>mc_revision = word_or 0 (get ''config_revision''),
      mc_router_type = (case get ''router_type'' of None \<Rightarrow> cf_router_type env
        | Some s \<Rightarrow> if to_lowercase s = ''routeros'' then RouterOs else cf_router_type env),
      mc_router_host = text_or (cf_router_host env) (or_else (get ''router_host'') (get ''routeros_host'')),
      mc_router_port = word_or (cf_router_port env) (or_else (get ''router_port'') (get ''routeros_port'')),
      mc_router_scheme = (case or_else (get ''router_scheme'') (get ''routeros_scheme'') of
          None \<Rightarrow> cf_router_scheme env
        | Some s \<Rightarrow> if to_lowercase s \<in> set [''http'', ''https''] then to_lowercase s else cf_router_scheme env),
      mc_router_username = text_or (cf_router_username env) (or_else (get ''router_username'') (get ''routeros_username'')),
      mc_router_password = text_or (cf_router_password env) (or_else (get ''router_password'') (get ''routeros_password'')),
      mc_accept_invalid_certs = (case get ''accept_invalid_certs'' of None \<Rightarrow> cf_accept_invalid_certs env
        | Some s \<Rightarrow> s = ''true'' \<or> s = ''1''),
      mc_poll_interval_secs = word_or (cf_poll_interval_secs env) (get ''poll_interval_secs''),
      mc_probe_interval_secs = word_or (cf_probe_interval_secs env) (get ''probe_interval_secs''),
      mc_server_port = word_or (cf_server_port env) (get ''server_port''),
      mc_db_raw_retention_days = word_or (cf_db_raw_retention_days env) (get ''db_raw_retention_days''),
      mc_db_total_retention_days = word_or (cf_db_total_retention_days env) (get ''db_total_retention_days''),
      mc_theme = text_or ''system'' (get ''theme''),
      mc_latency_good_ms = word_or (cf_latency_good_ms env) (get ''latency_good_ms''),
      mc_latency_poor_ms = word_or (cf_latency_poor_ms env) (get ''latency_poor_ms''),
      mc_router_management_cidrs = cf_router_management_cidrs env,
      mc_allow_insecure_router_http = cf_allow_insecure_router_http env\<rparr>"

definition has_connection_config :: "'n merged_config \<Rightarrow> bool" where
  "has_connection_config c \<longleftrightarrow> mc_router_password c \<noteq> []"

definition in_range :: "nat \<Rightarrow> nat \<Rightarrow> u64 \<Rightarrow> bool" where
  "in_range lo hi w \<longleftrightarrow> lo \<le> unat w \<and> unat w \<le> hi"

definition check :: "bool \<Rightarrow> string \<Rightarrow> app_error + unit" where
  "check b message = (if b then Inr () else Inl (InvalidData message))"

definition validate :: "'n merged_config \<Rightarrow> app_error + unit" where
  "validate c =
     and_then (check (mc_router_port c \<noteq> 0) ''router_port must be between 1 and 65535'') (\<lambda>_.
     and_then (check (in_range 1 30 (mc_poll_interval_secs c)) ''poll_interval_secs must be between 1 and 30'') (\<lambda>_.
     and_then (check (in_range 10 600 (mc_probe_interval_secs c)) ''probe_interval_secs must be between 10 and 600'') (\<lambda>_.
     and_then (check (in_range 1 30 (mc_db_raw_retention_days c)) ''db_raw_retention_days must be between 1 and 30'') (\<lambda>_.
     and_then (check (in_range 7 365 (mc_db_total_retention_days c)
         \<and> \<not> mc_db_total_retention_days c < mc_db_raw_retention_days c)
       ''db_total_retention_days must be between 7 and 365 and not less than raw retention'') (\<lambda>_.
     and_then (check (in_range 1 500 (mc_latency_good_ms c)) ''latency_good_ms must be between 1 and 500'') (\<lambda>_.
     and_then (check (in_range 1 2000 (mc_latency_poor_ms c)) ''latency_poor_ms must be between 1 and 2000'') (\<lambda>_.
     and_then (check (mc_latency_good_ms c < mc_latency_poor_ms c) ''latency_good_ms must be less than latency_poor_ms'') (\<lambda>_.
     and_then (check (trim (mc_router_host c) \<noteq> [] \<and> length (mc_router_host c) \<le> 253)
       ''router_host must contain 1 to 253 characters'') (\<lambda>_.
     and_then (check (trim (mc_router_username c) \<noteq> [] \<and> length (mc_router_username c) \<le> 128)
       ''router_username must contain 1 to 128 characters'') (\<lambda>_.
     and_then (check (mc_router_scheme c = ''https'' \<or> (mc_router_scheme c = ''http'' \<and> mc_allow_insecure_router_http c))
       ''HTTP router management is disabled by deployment policy'') (\<lambda>_.
     check (mc_theme c \<in> set [''system'', ''light'', ''dark'']) ''theme must be system, light, or dark'')))))))))))"

section \<open>Loading\<close>

definition passwords_conflict :: "app_error" where
  "passwords_conflict =
     InvalidData ''conflicting router_password and routeros_password values; remove one before migration''"

definition encrypted_conflict :: "app_error" where
  "encrypted_conflict =
     InvalidData ''encrypted and plaintext router passwords conflict; refusing automatic migration''"

definition lift_secret :: "secret_error + 'a \<Rightarrow> app_error + 'a" where
  "lift_secret m = (case m of Inl e \<Rightarrow> Inl (Secret (display_secret_error e)) | Inr x \<Rightarrow> Inr x)"

text \<open>The router's password and the database after its migration.\<close>

definition load_password ::
  "crypto \<Rightarrow> secret_cipher \<Rightarrow> string \<Rightarrow> string \<Rightarrow> string option \<Rightarrow> string \<Rightarrow> config_db \<Rightarrow>
   (app_error + string) \<times> config_db" where
  "load_password cy c nonce i plaintext env_password db = (case load_secret ''router_password'' db of
      Some encrypted \<Rightarrow>
        (case and_then (lift_secret (decrypt cy c i ''router_password'' encrypted)) (\<lambda>p.
            if \<not> utf8_valid p then Inl (Secret ''router password is not valid UTF-8'') else Inr p) of
           Inl e \<Rightarrow> (Inl e, db)
         | Inr p \<Rightarrow>
             (case plaintext of
                None \<Rightarrow> (Inr p, db)
              | Some legacy \<Rightarrow> if legacy \<noteq> p then (Inl encrypted_conflict, db)
                  else (Inr p, migrate_plaintext_router_password encrypted db)))
    | None \<Rightarrow>
        let v = text_or env_password plaintext in
        if v = [] then (Inr v, db)
        else case lift_secret (encrypt cy c nonce i ''router_password'' v) of
          Inl e \<Rightarrow> (Inl e, db)
        | Inr encrypted \<Rightarrow>
            (Inr v, if plaintext \<noteq> None then migrate_plaintext_router_password encrypted db
               else snd (save_config_transaction [] (Some (''router_password'', encrypted)) None None db)))"

definition without_passwords :: "(string \<rightharpoonup> string) \<Rightarrow> (string \<rightharpoonup> string)" where
  "without_passwords m = m(''router_password'' := None, ''routeros_password'' := None)"

definition load_config ::
  "crypto \<Rightarrow> secret_cipher \<Rightarrow> string \<Rightarrow> string \<Rightarrow> 'n config \<Rightarrow> config_db \<Rightarrow>
   (app_error + 'n merged_config) \<times> config_db" where
  "load_config cy c nonce uuid env db =
     (let overrides = cd_config db in
      case instance_id uuid db of (i, db1) \<Rightarrow>
      let canonical = overrides ''router_password''; legacy = overrides ''routeros_password'' in
      if canonical \<noteq> None \<and> legacy \<noteq> None \<and> canonical \<noteq> legacy then (Inl passwords_conflict, db1)
      else
        let plaintext = (case or_else canonical legacy of None \<Rightarrow> None
              | Some p \<Rightarrow> if p = [] then None else Some p) in
        (case load_password cy c nonce i plaintext (cf_router_password env) db1 of
           (Inl e, db2) \<Rightarrow> (Inl e, db2)
         | (Inr password, db2) \<Rightarrow>
             let merged = (from_env_and_db env (without_passwords overrides))\<lparr>mc_router_password := password\<rparr> in
             (and_then (validate merged) (\<lambda>_. Inr merged), db2)))"

section \<open>Updating\<close>

datatype password_mode = Keep | Replace | Clear

datatype bool_value = BoolFlag bool | BoolText string

definition get_bool :: "string \<Rightarrow> bool_value \<Rightarrow> app_error + bool" where
  "get_bool name v = (case v of
      BoolFlag b \<Rightarrow> Inr b
    | BoolText s \<Rightarrow> if s \<in> set [''true'', ''1''] then Inr True
        else if s \<in> set [''false'', ''0''] then Inr False
        else Inl (InvalidData (name @ '' must be a boolean'')))"

record config_update_request =
  cu_expected_revision :: "u64 option"
  cu_router_type :: "router_type option"
  cu_router_host :: "string option"
  cu_router_port :: "16 word option"
  cu_router_scheme :: "string option"
  cu_router_username :: "string option"
  cu_router_password :: "string option"
  cu_password_mode :: "password_mode option"
  cu_accept_invalid_certs :: "bool_value option"
  cu_poll_interval_secs :: "u64 option"
  cu_probe_interval_secs :: "u64 option"
  cu_db_raw_retention_days :: "u64 option"
  cu_db_total_retention_days :: "u64 option"
  cu_latency_good_ms :: "u64 option"
  cu_latency_poor_ms :: "u64 option"
  cu_theme :: "string option"
  cu_wizard_completed :: "bool_value option"

definition set_or :: "'a \<Rightarrow> ('b \<Rightarrow> 'a) \<Rightarrow> 'b option \<Rightarrow> 'a" where
  "set_or old f v = (case v of None \<Rightarrow> old | Some x \<Rightarrow> f x)"

definition flag_or :: "bool \<Rightarrow> string \<Rightarrow> bool_value option \<Rightarrow> app_error + bool" where
  "flag_or old name v = (case v of None \<Rightarrow> Inr old | Some b \<Rightarrow> get_bool name b)"

text \<open>The settings of the request over the current ones, all but the password.\<close>

definition apply_request ::
  "config_update_request \<Rightarrow> 'n merged_config \<Rightarrow> app_error + 'n merged_config" where
  "apply_request body c =
     and_then (flag_or (mc_accept_invalid_certs c) ''accept_invalid_certs'' (cu_accept_invalid_certs body)) (\<lambda>certs.
     Inr (c\<lparr>mc_router_type := set_or (mc_router_type c) id (cu_router_type body),
        mc_router_host := set_or (mc_router_host c) trim (cu_router_host body),
        mc_router_port := set_or (mc_router_port c) id (cu_router_port body),
        mc_router_scheme := set_or (mc_router_scheme c) to_lowercase (cu_router_scheme body),
        mc_router_username := set_or (mc_router_username c) trim (cu_router_username body),
        mc_accept_invalid_certs := certs,
        mc_poll_interval_secs := set_or (mc_poll_interval_secs c) id (cu_poll_interval_secs body),
        mc_probe_interval_secs := set_or (mc_probe_interval_secs c) id (cu_probe_interval_secs body),
        mc_db_raw_retention_days := set_or (mc_db_raw_retention_days c) id (cu_db_raw_retention_days body),
        mc_db_total_retention_days := set_or (mc_db_total_retention_days c) id (cu_db_total_retention_days body),
        mc_latency_good_ms := set_or (mc_latency_good_ms c) id (cu_latency_good_ms body),
        mc_latency_poor_ms := set_or (mc_latency_poor_ms c) id (cu_latency_poor_ms body),
        mc_theme := set_or (mc_theme c) to_lowercase (cu_theme body)\<rparr>))"

definition connection_changed :: "'n merged_config \<Rightarrow> 'n merged_config \<Rightarrow> bool" where
  "connection_changed next_config c \<longleftrightarrow>
     mc_router_type next_config \<noteq> mc_router_type c \<or> mc_router_host next_config \<noteq> mc_router_host c
     \<or> mc_router_port next_config \<noteq> mc_router_port c \<or> mc_router_scheme next_config \<noteq> mc_router_scheme c
     \<or> mc_router_username next_config \<noteq> mc_router_username c
     \<or> mc_accept_invalid_certs next_config \<noteq> mc_accept_invalid_certs c"

definition MASK :: string where "MASK = ''********''"

definition effective_password_mode :: "config_update_request \<Rightarrow> password_mode" where
  "effective_password_mode body = (case cu_password_mode body of
      Some m \<Rightarrow> m
    | None \<Rightarrow> (case cu_router_password body of
          None \<Rightarrow> Keep
        | Some p \<Rightarrow> if p \<noteq> [] \<and> p \<noteq> MASK then Replace else Keep))"

text \<open>The configuration with its password, the secret to store and whether to delete the stored one.\<close>

definition apply_password ::
  "crypto \<Rightarrow> secret_cipher \<Rightarrow> string \<Rightarrow> string \<Rightarrow> config_update_request \<Rightarrow> bool \<Rightarrow> 'n merged_config \<Rightarrow>
   app_error + ('n merged_config \<times> encrypted_secret option \<times> bool)" where
  "apply_password cy c nonce i body changed next_config = (case effective_password_mode body of
      Keep \<Rightarrow> if changed
        then Inl (InvalidData
          ''changing router connection fields requires password_mode=replace and a complete credential'')
        else Inr (next_config, None, False)
    | Replace \<Rightarrow>
        and_then (ok_or (InvalidData ''router_password is required when password_mode=replace'')
          (cu_router_password body)) (\<lambda>p.
        if p = [] \<or> 1024 < length p \<or> p = MASK
        then Inl (InvalidData ''router_password must contain 1 to 1024 bytes'')
        else and_then (lift_secret (encrypt cy c nonce i ''router_password'' p)) (\<lambda>encrypted.
          Inr (next_config\<lparr>mc_router_password := p\<rparr>, Some encrypted, False)))
    | Clear \<Rightarrow> Inr (next_config\<lparr>mc_router_password := []\<rparr>, None, True))"

definition show_bool :: "bool \<Rightarrow> string" where
  "show_bool b = (if b then ''true'' else ''false'')"

definition persisted_values :: "'n merged_config \<Rightarrow> (string \<times> string) list" where
  "persisted_values c =
     [(''router_type'', ''routeros''), (''router_host'', mc_router_host c),
      (''router_port'', show_word (mc_router_port c)), (''router_scheme'', mc_router_scheme c),
      (''router_username'', mc_router_username c), (''accept_invalid_certs'', show_bool (mc_accept_invalid_certs c)),
      (''poll_interval_secs'', show_word (mc_poll_interval_secs c)),
      (''probe_interval_secs'', show_word (mc_probe_interval_secs c)),
      (''db_raw_retention_days'', show_word (mc_db_raw_retention_days c)),
      (''db_total_retention_days'', show_word (mc_db_total_retention_days c)),
      (''latency_good_ms'', show_word (mc_latency_good_ms c)),
      (''latency_poor_ms'', show_word (mc_latency_poor_ms c)), (''theme'', mc_theme c)]"

definition wizard_values :: "config_update_request \<Rightarrow> app_error + (string \<times> string) list" where
  "wizard_values body = (case cu_wizard_completed body of
      None \<Rightarrow> Inr []
    | Some v \<Rightarrow> and_then (get_bool ''wizard_completed'' v) (\<lambda>b. Inr [(''wizard_completed'', show_bool b)]))"

record 'n prepared_update =
  pr_expected :: u64
  pr_next :: "'n merged_config"
  pr_values :: "(string \<times> string) list"
  pr_secret :: "encrypted_secret option"
  pr_delete :: bool

text \<open>Up to the transaction: what the request asks of the configuration it read.\<close>

definition prepare_update ::
  "crypto \<Rightarrow> secret_cipher \<Rightarrow> string \<Rightarrow> string \<Rightarrow> config_update_request \<Rightarrow> 'n merged_config \<Rightarrow>
   app_error + 'n prepared_update" where
  "prepare_update cy c nonce i body current =
     and_then (ok_or (InvalidData ''expected_revision is required for configuration updates'')
       (cu_expected_revision body)) (\<lambda>expected.
     if expected \<noteq> mc_revision current
     then Inl (Conflict (''configuration revision changed (expected '' @ show_word expected @ '', current ''
       @ show_word (mc_revision current) @ '')''))
     else and_then (apply_request body current) (\<lambda>next1.
       and_then (apply_password cy c nonce i body (connection_changed next1 current) next1)
         (\<lambda>(next2, secret, delete_password).
       and_then (validate next2) (\<lambda>_.
       and_then (wizard_values body) (\<lambda>wizard.
       Inr \<lparr>pr_expected = expected, pr_next = next2, pr_values = persisted_values next2 @ wizard,
         pr_secret = secret, pr_delete = delete_password\<rparr>)))))"

text \<open>The transaction, and the configuration to put in memory after it.\<close>

definition commit_update ::
  "'n prepared_update \<Rightarrow> config_db \<Rightarrow> (app_error + 'n merged_config) \<times> config_db" where
  "commit_update p db =
     (case save_config_transaction (pr_values p)
         (map_option (\<lambda>e. (''router_password'', e)) (pr_secret p))
         (if pr_delete p then Some ''router_password'' else None) (Some (pr_expected p)) db of
       (saved, db') \<Rightarrow>
         if \<not> saved then (Inl (Conflict ''configuration was modified by another request''), db')
         else (Inr ((pr_next p)\<lparr>mc_revision := sat_succ (pr_expected p)\<rparr>), db'))"

section \<open>Requests that interleave\<close>

datatype 'n config_job = Prepared "'n prepared_update" | Committed "'n merged_config"

record 'n config_server =
  sv_config :: "'n merged_config"
  sv_config_db :: config_db
  sv_jobs :: "'n config_job list"

datatype config_action = Begin config_update_request string | Commit nat | Publish nat

definition drop_job :: "nat \<Rightarrow> 'n config_server \<Rightarrow> 'n config_server" where
  "drop_job k v = v\<lparr>sv_jobs := take k (sv_jobs v) @ drop (Suc k) (sv_jobs v)\<rparr>"

fun config_step :: "crypto \<Rightarrow> secret_cipher \<Rightarrow> string \<Rightarrow> config_action \<Rightarrow> 'n config_server \<Rightarrow> 'n config_server" where
  "config_step cy c i (Begin body nonce) v = (case prepare_update cy c nonce i body (sv_config v) of
      Inl _ \<Rightarrow> v
    | Inr p \<Rightarrow> v\<lparr>sv_jobs := sv_jobs v @ [Prepared p]\<rparr>)"
| "config_step cy c i (Commit k) v =
     (if k < length (sv_jobs v) then (case sv_jobs v ! k of
          Committed _ \<Rightarrow> v
        | Prepared p \<Rightarrow> (case commit_update p (sv_config_db v) of
              (Inl _, db) \<Rightarrow> drop_job k (v\<lparr>sv_config_db := db\<rparr>)
            | (Inr next_config, db) \<Rightarrow>
                v\<lparr>sv_config_db := db, sv_jobs := (sv_jobs v)[k := Committed next_config]\<rparr>))
      else v)"
| "config_step cy c i (Publish k) v =
     (if k < length (sv_jobs v) then (case sv_jobs v ! k of
          Prepared _ \<Rightarrow> v
        | Committed next_config \<Rightarrow> drop_job k (v\<lparr>sv_config := next_config\<rparr>))
      else v)"

end
