(* ===== verification/Config_Facts.thy ===== *)
theory Config_Facts
  imports Config_Store Secrets_Facts
begin

text \<open>
  The stored configuration is the one in memory: what a restart would load, and how concurrent
  updates serialize.
\<close>

section \<open>A database in step with a configuration\<close>

definition no_plaintext :: "config_db \<Rightarrow> bool" where
  "no_plaintext db \<longleftrightarrow> cd_config db ''router_password'' \<in> {None, Some []} \<and>
     cd_config db ''routeros_password'' \<in> {None, Some []}"

definition password_stored :: "crypto \<Rightarrow> secret_cipher \<Rightarrow> string \<Rightarrow> config_db \<Rightarrow> string \<Rightarrow> bool" where
  "password_stored cy c i db password = (case load_secret ''router_password'' db of
      None \<Rightarrow> password = []
    | Some e \<Rightarrow> decrypt cy c i ''router_password'' e = Inr password \<and> utf8_valid password)"

definition in_step ::
  "crypto \<Rightarrow> secret_cipher \<Rightarrow> string \<Rightarrow> 'n config \<Rightarrow> config_db \<Rightarrow> 'n merged_config \<Rightarrow> bool" where
  "in_step cy c i env db cfg \<longleftrightarrow>
     cd_config db ''instance_id'' = Some i \<and> no_plaintext db \<and> validate cfg = Inr () \<and>
     from_env_and_db env (without_passwords (cd_config db)) = cfg\<lparr>mc_router_password := cf_router_password env\<rparr> \<and>
     password_stored cy c i db (mc_router_password cfg)"

lemma validate_password [simp]: "validate (cfg\<lparr>mc_router_password := p\<rparr>) = validate cfg"
  "validate (cfg\<lparr>mc_revision := r\<rparr>) = validate cfg"
  by (simp_all add: validate_def)

lemma in_step_revision: "in_step cy c i env db cfg \<Longrightarrow> mc_revision cfg = stored_revision db"
proof -
  assume "in_step cy c i env db cfg"
  then have "mc_revision (from_env_and_db env (without_passwords (cd_config db))) = mc_revision cfg"
    by (simp add: in_step_def)
  then show ?thesis
    by (simp add: from_env_and_db_def without_passwords_def word_or_def stored_revision_def)
qed

text \<open>What a restart loads: the same, but for a cleared password, which the environment's replaces.\<close>

definition restarted ::
  "crypto \<Rightarrow> secret_cipher \<Rightarrow> string \<Rightarrow> string \<Rightarrow> 'n config \<Rightarrow> config_db \<Rightarrow> 'n merged_config \<Rightarrow>
   app_error + 'n merged_config" where
  "restarted cy c nonce i env db cfg =
     (if load_secret ''router_password'' db = None \<and> cf_router_password env \<noteq> []
      then and_then (lift_secret (encrypt cy c nonce i ''router_password'' (cf_router_password env)))
        (\<lambda>_. Inr (cfg\<lparr>mc_router_password := cf_router_password env\<rparr>))
      else Inr cfg)"

lemma reload_in_step:
  assumes s: "in_step cy c i env db cfg"
  shows "fst (load_config cy c nonce uuid env db) = restarted cy c nonce i env db cfg"
proof -
  have none: "\<not> (cd_config db ''router_password'' \<noteq> None \<and> cd_config db ''routeros_password'' \<noteq> None \<and>
      cd_config db ''router_password'' \<noteq> cd_config db ''routeros_password'')"
    and plain: "(case or_else (cd_config db ''router_password'') (cd_config db ''routeros_password'') of
      None \<Rightarrow> None | Some p \<Rightarrow> if p = [] then None else Some p) = None"
    using s by (auto simp: in_step_def no_plaintext_def or_else_def)
  have merged: "(from_env_and_db env (without_passwords (cd_config db)))\<lparr>mc_router_password := p\<rparr> = cfg\<lparr>mc_router_password := p\<rparr>"
    "validate (cfg\<lparr>mc_router_password := p\<rparr>) = Inr ()" and inst: "instance_id uuid db = (i, db)" for p
    using s by (simp_all add: in_step_def instance_id_def)
  note load = load_config_def Let_def inst prod.case plain
  show ?thesis
  proof (cases "load_secret ''router_password'' db")
    case (Some e)
    then have "load_password cy c nonce i None (cf_router_password env) db = (Inr (mc_router_password cfg), db)"
      using s by (auto simp: in_step_def password_stored_def load_password_def lift_secret_def)
    then show ?thesis
      unfolding load
      using none Some merged[of "mc_router_password cfg"] by (auto simp: restarted_def)
  next
    case None
    then have "mc_router_password cfg = []" using s by (simp add: in_step_def password_stored_def)
    moreover have "load_password cy c nonce i None (cf_router_password env) db =
        (if cf_router_password env = [] then (Inr [], db)
         else case lift_secret (encrypt cy c nonce i ''router_password'' (cf_router_password env)) of
           Inl e \<Rightarrow> (Inl e, db)
         | Inr e \<Rightarrow> (Inr (cf_router_password env), snd (save_config_transaction [] (Some (''router_password'', e)) None None db)))"
      using None by (cases "cf_router_password env = []"; cases "lift_secret (encrypt cy c nonce i ''router_password'' (cf_router_password env))")
        (simp_all add: load_password_def text_or_def Let_def)
    ultimately show ?thesis
      unfolding load
      using none None merged[of "[]"] by (auto simp: merged restarted_def split: sum.splits)
  qed
qed

section \<open>Loading\<close>

lemma lookup_put_secret: "load_secret n (put_secret m e db) = (if n = m then Some e else load_secret n db)"
  by (simp add: load_secret_def put_secret_def update_conv')

lemma cd_config_put_secret [simp]: "cd_config (put_secret m e db) = cd_config db"
  by (simp add: put_secret_def)

lemma save_secret_only:
  "snd (save_config_transaction [] (Some (name, e)) None None db) = put_secret name e db"
  by (simp add: save_config_transaction_def put_all_def Let_def)

lemma migrated:
  "cd_config (migrate_plaintext_router_password e db) =
     (cd_config db)(''router_password'' := None, ''routeros_password'' := None)"
  "load_secret ''router_password'' (migrate_plaintext_router_password e db) = Some e"
  by (simp_all add: migrate_plaintext_router_password_def load_secret_def put_secret_def update_conv')

lemma without_passwords_idem:
  "without_passwords (m(''router_password'' := None, ''routeros_password'' := None)) = without_passwords m"
  by (rule ext) (simp add: without_passwords_def)

lemma no_plaintext_after [simp]:
  "no_plaintext (put_secret m e db) = no_plaintext db" "no_plaintext (migrate_plaintext_router_password e db)"
  by (simp_all add: no_plaintext_def migrated)

lemma password_stored_after:
  assumes "decrypt cy c i ''router_password'' e = Inr p" "utf8_valid p"
  shows "password_stored cy c i (put_secret ''router_password'' e db) p"
    "password_stored cy c i (migrate_plaintext_router_password e db) p"
  using assms by (simp_all add: password_stored_def migrated lookup_put_secret)

text \<open>What the password step leaves: the settings without plaintext, the secret that reads as it.\<close>

lemma load_password_InrD:
  assumes load: "load_password cy c nonce i plaintext env_password db = (Inr p, db')"
    and crypto: "seals cy" "length nonce = 24" and utf8: "utf8_valid (text_or env_password plaintext)"
    and plain: "plaintext \<noteq> Some []" "plaintext = None \<Longrightarrow> no_plaintext db"
  shows "password_stored cy c i db' p \<and> no_plaintext db' \<and>
    without_passwords (cd_config db') = without_passwords (cd_config db) \<and>
    cd_config db' ''instance_id'' = cd_config db ''instance_id''"
proof (cases "load_secret ''router_password'' db")
  case (Some encrypted)
  obtain d: "decrypt cy c i ''router_password'' encrypted = Inr p" "utf8_valid p"
    and db': "db' = (if plaintext = None then db else migrate_plaintext_router_password encrypted db)"
    using load Some
    by (cases "decrypt cy c i ''router_password'' encrypted"; cases plaintext)
      (auto simp: load_password_def lift_secret_def split: if_splits)
  have "password_stored cy c i db p" using d Some by (simp add: password_stored_def)
  then show ?thesis
    using password_stored_after(2)[OF d, of db] plain(2) db' by (cases plaintext) (simp_all add: migrated without_passwords_idem)
next
  case None
  show ?thesis
  proof (cases "text_or env_password plaintext = []")
    case True
    then have "plaintext = None" using plain(1) by (auto simp: text_or_def split: option.splits)
    then show ?thesis using None True load plain(2) by (simp add: load_password_def password_stored_def)
  next
    case False
    obtain encrypted where e: "encrypt cy c nonce i ''router_password'' p = Inr encrypted"
      and p: "p = text_or env_password plaintext"
      and db': "db' = (if plaintext = None then put_secret ''router_password'' encrypted db
          else migrate_plaintext_router_password encrypted db)"
      using load None False
      by (cases "encrypt cy c nonce i ''router_password'' (text_or env_password plaintext)")
        (auto simp: load_password_def lift_secret_def Let_def save_secret_only)
    note after = password_stored_after[OF decrypt_encrypt[OF crypto(1) e crypto(2)] utf8[folded p], of db]
    show ?thesis
      using after plain(2) db' by (cases plaintext) (simp_all add: migrated without_passwords_idem)
  qed
qed

lemma without_passwords_instance: "k \<notin> {''router_password'', ''routeros_password''} \<Longrightarrow> without_passwords m k = m k"
  by (simp add: without_passwords_def)

lemma from_env_instance:
  "from_env_and_db env (without_passwords (m(''instance_id'' \<mapsto> i))) = from_env_and_db env (without_passwords m)"
  by (simp add: from_env_and_db_def without_passwords_def)

lemma load_in_step:
  assumes "load_config cy c nonce uuid env db = (Inr cfg, db')"
    and "seals cy" "length nonce = 24" "utf8_valid (cf_router_password env)"
    and "list_all utf8_valid (List.map_filter id [cd_config db ''router_password'', cd_config db ''routeros_password''])"
  shows "\<exists>i. in_step cy c i env db' cfg"
proof -
  obtain i db1 where i: "instance_id uuid db = (i, db1)" by fastforce
  define canonical legacy where "canonical = cd_config db ''router_password''" and "legacy = cd_config db ''routeros_password''"
  define plaintext where "plaintext = (case or_else canonical legacy of None \<Rightarrow> None | Some p \<Rightarrow> if p = [] then None else Some p)"
  note start = assms(1)[unfolded load_config_def Let_def i prod.case, folded canonical_def legacy_def, folded plaintext_def]
  have agree: "canonical = None \<or> legacy = None \<or> canonical = legacy" using start by (auto split: if_splits)
  obtain p where pw: "load_password cy c nonce i plaintext (cf_router_password env) db1 = (Inr p, db')"
    and cfg: "cfg = (from_env_and_db env (without_passwords (cd_config db)))\<lparr>mc_router_password := p\<rparr>"
    and valid: "validate cfg = Inr ()"
    using start by (auto simp: result_simps split: if_splits prod.splits sum.splits)
  have db1: "cd_config db1 ''instance_id'' = Some i"
    "from_env_and_db env (without_passwords (cd_config db1)) = from_env_and_db env (without_passwords (cd_config db))"
    "cd_config db1 ''router_password'' = canonical" "cd_config db1 ''routeros_password'' = legacy"
    using i by (auto simp: instance_id_def from_env_instance canonical_def legacy_def split: option.splits)
  have "utf8_valid (text_or (cf_router_password env) plaintext)"
    using assms(4,5) by (auto simp: text_or_def plaintext_def or_else_def canonical_def legacy_def map_filter_simps split: option.splits)
  moreover have "plaintext \<noteq> Some []" by (auto simp: plaintext_def split: option.splits)
  moreover have "no_plaintext db1" if "plaintext = None"
    using that agree db1 by (auto simp: no_plaintext_def plaintext_def or_else_def split: option.splits if_splits)
  ultimately have "password_stored cy c i db' p" "no_plaintext db'"
    "without_passwords (cd_config db') = without_passwords (cd_config db1)" "cd_config db' ''instance_id'' = Some i"
    using load_password_InrD[OF pw assms(2,3)] db1(1) by auto
  then have "in_step cy c i env db' cfg"
    using cfg valid db1(2) by (simp add: in_step_def) (simp add: from_env_and_db_def without_passwords_def text_or_def or_else_def)
  then show ?thesis by blast
qed

section \<open>One update\<close>

text \<open>What the preparation fixes: the fields a request cannot touch and the password's secret.\<close>

definition secret_of_update ::
  "crypto \<Rightarrow> secret_cipher \<Rightarrow> string \<Rightarrow> string \<Rightarrow> 'n merged_config \<Rightarrow> 'n prepared_update \<Rightarrow> bool" where
  "secret_of_update cy c i nonce cfg p \<longleftrightarrow>
     (pr_secret p = None \<and> \<not> pr_delete p \<and> mc_router_password (pr_next p) = mc_router_password cfg) \<or>
     (pr_secret p = None \<and> pr_delete p \<and> mc_router_password (pr_next p) = []) \<or>
     (\<exists>e. pr_secret p = Some e \<and> \<not> pr_delete p \<and>
        encrypt cy c nonce i ''router_password'' (mc_router_password (pr_next p)) = Inr e)"

lemma apply_request_keeps:
  "apply_request body cfg = Inr n \<Longrightarrow> mc_revision n = mc_revision cfg \<and> mc_server_port n = mc_server_port cfg \<and>
     mc_router_management_cidrs n = mc_router_management_cidrs cfg \<and>
     mc_allow_insecure_router_http n = mc_allow_insecure_router_http cfg \<and>
     mc_router_password n = mc_router_password cfg"
  by (auto simp: apply_request_def result_simps)

lemma apply_password_InrD:
  "apply_password cy c nonce i body changed n = Inr (n', secret, del) \<Longrightarrow>
     n' = n\<lparr>mc_router_password := mc_router_password n'\<rparr> \<and>
     secret_of_update cy c i nonce n \<lparr>pr_expected = x, pr_next = n', pr_values = vs, pr_secret = secret, pr_delete = del\<rparr>"
  by (cases "effective_password_mode body")
    (auto simp: apply_password_def secret_of_update_def result_simps lift_secret_def split: if_splits sum.splits)

lemma apply_password_utf8:
  "apply_password cy c nonce i body changed n = Inr (n', secret, del) \<Longrightarrow> secret \<noteq> None \<Longrightarrow>
     cu_router_password body = Some (mc_router_password n')"
  by (cases "effective_password_mode body")
    (auto simp: apply_password_def result_simps lift_secret_def split: if_splits sum.splits)

lemma prepare_InrD:
  assumes "prepare_update cy c nonce i body cfg = Inr p"
  shows "pr_expected p = mc_revision cfg \<and> validate (pr_next p) = Inr () \<and>
    mc_revision (pr_next p) = mc_revision cfg \<and> mc_server_port (pr_next p) = mc_server_port cfg \<and>
    mc_router_management_cidrs (pr_next p) = mc_router_management_cidrs cfg \<and>
    mc_allow_insecure_router_http (pr_next p) = mc_allow_insecure_router_http cfg \<and>
    secret_of_update cy c i nonce cfg p \<and>
    (pr_secret p \<noteq> None \<longrightarrow> cu_router_password body = Some (mc_router_password (pr_next p))) \<and>
    (\<exists>w. pr_values p = persisted_values (pr_next p) @ w \<and> (w = [] \<or> (\<exists>b. w = [(''wizard_completed'', show_bool b)])))"
proof -
  obtain expected n1 n2 secret del w where
    e: "expected = mc_revision cfg" and n1: "apply_request body cfg = Inr n1"
    and n2: "apply_password cy c nonce i body (connection_changed n1 cfg) n1 = Inr (n2, secret, del)"
    and v: "validate n2 = Inr ()" and w: "wizard_values body = Inr w"
    and p: "p = \<lparr>pr_expected = expected, pr_next = n2, pr_values = persisted_values n2 @ w, pr_secret = secret, pr_delete = del\<rparr>"
    using assms by (auto simp: prepare_update_def result_simps split: if_splits)
  have next_config: "n2 = n1\<lparr>mc_router_password := mc_router_password n2\<rparr>"
    and secret: "secret_of_update cy c i nonce n1 p"
    using apply_password_InrD[OF n2] p by auto
  have "secret_of_update cy c i nonce cfg p"
    using secret apply_request_keeps[OF n1] by (simp add: secret_of_update_def)
  moreover have "mc_revision n2 = mc_revision n1" "mc_server_port n2 = mc_server_port n1"
    "mc_router_management_cidrs n2 = mc_router_management_cidrs n1"
    "mc_allow_insecure_router_http n2 = mc_allow_insecure_router_http n1"
    by (subst next_config, simp)+
  moreover have "w = [] \<or> (\<exists>b. w = [(''wizard_completed'', show_bool b)])"
    using w by (auto simp: wizard_values_def result_simps split: option.splits)
  ultimately show ?thesis
    using e v p apply_request_keeps[OF n1] apply_password_utf8[OF n2] by auto
qed

lemma put_all_simps [simp]: "put_all [] m = m" "put_all ((k, v) # vs) m = put_all vs (m(k \<mapsto> v))"
  by (simp_all add: put_all_def)

lemma put_all_append: "put_all (vs @ ws) m = put_all ws (put_all vs m)"
  by (simp add: put_all_def)

lemma valid_scheme: "validate cfg = Inr () \<Longrightarrow>
    to_lowercase (mc_router_scheme cfg) = mc_router_scheme cfg \<and> mc_router_scheme cfg \<in> {''http'', ''https''}"
  by (auto simp: validate_def result_simps check_def to_lowercase_def to_ascii_lower_def split: if_splits)

text \<open>Reading the written settings back gives the configuration they were written from.\<close>

lemma read_back_settings:
  fixes cfg :: "'n merged_config"
  assumes "validate cfg = Inr ()" and "mc_server_port cfg = word_or (cf_server_port env) (m ''server_port'')"
    and "mc_router_management_cidrs cfg = cf_router_management_cidrs env"
    and "mc_allow_insecure_router_http cfg = cf_allow_insecure_router_http env"
    and "w = [] \<or> (\<exists>b. w = [(''wizard_completed'', show_bool b)])"
  shows "from_env_and_db env (without_passwords ((put_all (persisted_values cfg @ w) m)(''config_revision'' \<mapsto> show_word r)))
    = cfg\<lparr>mc_revision := r, mc_router_password := cf_router_password env\<rparr>"
proof -
  define s where "s = put_all (persisted_values cfg) m"
  have w: "put_all w s k = s k" if "k \<noteq> ''wizard_completed''" for k
    using assms(5) that by auto
  define g where "g = without_passwords ((put_all (persisted_values cfg @ w) m)(''config_revision'' \<mapsto> show_word r))"
  have g: "g k = (if k \<in> {''router_password'', ''routeros_password''} then None
      else if k = ''config_revision'' then Some (show_word r) else s k)" if "k \<noteq> ''wizard_completed''" for k
    using w[OF that] by (auto simp: g_def without_passwords_def put_all_append s_def)
  have s: "s ''router_type'' = Some ''routeros''" "s ''router_host'' = Some (mc_router_host cfg)"
    "s ''router_port'' = Some (show_word (mc_router_port cfg))" "s ''router_scheme'' = Some (mc_router_scheme cfg)"
    "s ''router_username'' = Some (mc_router_username cfg)"
    "s ''accept_invalid_certs'' = Some (show_bool (mc_accept_invalid_certs cfg))"
    "s ''poll_interval_secs'' = Some (show_word (mc_poll_interval_secs cfg))"
    "s ''probe_interval_secs'' = Some (show_word (mc_probe_interval_secs cfg))"
    "s ''db_raw_retention_days'' = Some (show_word (mc_db_raw_retention_days cfg))"
    "s ''db_total_retention_days'' = Some (show_word (mc_db_total_retention_days cfg))"
    "s ''latency_good_ms'' = Some (show_word (mc_latency_good_ms cfg))"
    "s ''latency_poor_ms'' = Some (show_word (mc_latency_poor_ms cfg))"
    "s ''theme'' = Some (mc_theme cfg)" "s ''server_port'' = m ''server_port''"
    by (simp_all add: s_def persisted_values_def)
  have "mc_router_type cfg = RouterOs" by (cases "mc_router_type cfg") simp
  then show ?thesis
    unfolding g_def[symmetric] from_env_and_db_def
    using valid_scheme[OF assms(1)] assms(2,3,4)
    by (simp add: g s or_else_def text_or_def word_or_def show_bool_def to_lowercase_def to_ascii_lower_def)
qed

lemma commit_InrD:
  "commit_update p db = (Inr n, db') \<Longrightarrow> pr_expected p = stored_revision db \<and>
     n = (pr_next p)\<lparr>mc_revision := sat_succ (pr_expected p)\<rparr> \<and>
     cd_config db' = (put_all (pr_values p) (cd_config db))(''config_revision'' \<mapsto> show_word (sat_succ (pr_expected p))) \<and>
     load_secret ''router_password'' db' =
       (if pr_delete p then None else if pr_secret p \<noteq> None then pr_secret p else load_secret ''router_password'' db)"
  by (auto simp: commit_update_def save_config_transaction_def Let_def load_secret_def put_secret_def update_conv'
      delete_conv' split: if_splits option.splits)

lemma commit_InlD: "commit_update p db = (Inl e, db') \<Longrightarrow> db' = db"
  by (auto simp: commit_update_def save_config_transaction_def Let_def split: if_splits)

lemma persisted_other:
  assumes "k \<in> {''instance_id'', ''router_password'', ''routeros_password'', ''server_port''}"
    and "w = [] \<or> (\<exists>b. w = [(''wizard_completed'', show_bool b)])"
  shows "put_all (persisted_values cfg @ w) m k = m k"
  using assms by (auto simp: put_all_append persisted_values_def)

lemma commit_in_step:
  assumes crypto: "seals cy" "length nonce = 24"
    and utf8: "\<And>x. cu_router_password body = Some x \<Longrightarrow> utf8_valid x"
    and step: "in_step cy c i env db cfg"
    and p: "prepare_update cy c nonce i body cfg = Inr p" and commit: "commit_update p db = (Inr n, db')"
  shows "in_step cy c i env db' n"
proof -
  define e where "e = mc_revision cfg"
  note p' = prepare_InrD[OF p]
  obtain w where w: "pr_values p = persisted_values (pr_next p) @ w"
      "w = [] \<or> (\<exists>b. w = [(''wizard_completed'', show_bool b)])" using p' by blast
  note c' = commit_InrD[OF commit]
  have old: "from_env_and_db env (without_passwords (cd_config db)) = cfg\<lparr>mc_router_password := cf_router_password env\<rparr>"
    and rest: "cd_config db ''instance_id'' = Some i" "no_plaintext db" "password_stored cy c i db (mc_router_password cfg)"
    using step by (simp_all add: in_step_def)
  have "mc_server_port cfg = word_or (cf_server_port env) (cd_config db ''server_port'')"
    "mc_router_management_cidrs cfg = cf_router_management_cidrs env"
    "mc_allow_insecure_router_http cfg = cf_allow_insecure_router_http env"
    using arg_cong[OF old, of mc_server_port] arg_cong[OF old, of mc_router_management_cidrs]
      arg_cong[OF old, of mc_allow_insecure_router_http]
    by (simp_all add: from_env_and_db_def without_passwords_def)
  then have "from_env_and_db env (without_passwords (cd_config db'))
      = (pr_next p)\<lparr>mc_revision := sat_succ (pr_expected p), mc_router_password := cf_router_password env\<rparr>"
    using c' w read_back_settings[of "pr_next p" env "cd_config db" w "sat_succ (pr_expected p)"] p' by simp
  moreover have "cd_config db' ''instance_id'' = cd_config db ''instance_id''"
    "cd_config db' ''router_password'' = cd_config db ''router_password''"
    "cd_config db' ''routeros_password'' = cd_config db ''routeros_password''"
    using c' w(1) persisted_other[OF _ w(2), of _ "pr_next p" "cd_config db"] by auto
  moreover have "password_stored cy c i db' (mc_router_password (pr_next p))"
  proof -
    consider "pr_secret p = None" "\<not> pr_delete p" "mc_router_password (pr_next p) = mc_router_password cfg"
      | "pr_secret p = None" "pr_delete p" "mc_router_password (pr_next p) = []"
      | enc where "pr_secret p = Some enc" "\<not> pr_delete p"
          "encrypt cy c nonce i ''router_password'' (mc_router_password (pr_next p)) = Inr enc"
      using p' by (auto simp: secret_of_update_def)
    then show ?thesis
    proof cases
      case (3 enc)
      then show ?thesis
        using c' decrypt_encrypt[OF crypto(1) 3(3) crypto(2)] utf8 p' by (simp add: password_stored_def)
    qed (use c' rest(3) in \<open>simp_all add: password_stored_def\<close>)
  qed
  ultimately show ?thesis
    using rest(1,2) c' p' by (simp only: in_step_def no_plaintext_def) simp
qed

section \<open>Concurrent updates\<close>

text \<open>The configuration that was committed and is not yet in memory, and the latest one.\<close>

definition committed :: "'n config_server \<Rightarrow> 'n merged_config list" where
  "committed v = List.map_filter (\<lambda>j. case j of Prepared _ \<Rightarrow> None | Committed n \<Rightarrow> Some n) (sv_jobs v)"

definition latest_config :: "'n config_server \<Rightarrow> 'n merged_config" where
  "latest_config v = (case committed v of [] \<Rightarrow> sv_config v | n # _ \<Rightarrow> n)"

text \<open>The same requests one after the other.\<close>

fun serial_updates ::
  "crypto \<Rightarrow> secret_cipher \<Rightarrow> string \<Rightarrow> (config_update_request \<times> string) list \<Rightarrow> 'n merged_config \<Rightarrow> 'n merged_config option" where
  "serial_updates cy c i [] cfg = Some cfg"
| "serial_updates cy c i ((body, nonce) # rest) cfg = (case prepare_update cy c nonce i body cfg of
      Inl _ \<Rightarrow> None
    | Inr p \<Rightarrow> serial_updates cy c i rest ((pr_next p)\<lparr>mc_revision := sat_succ (pr_expected p)\<rparr>))"

lemma serial_updates_snoc:
  "serial_updates cy c i rs cfg = Some cfg' \<Longrightarrow> prepare_update cy c nonce i body cfg' = Inr p \<Longrightarrow>
   serial_updates cy c i (rs @ [(body, nonce)]) cfg = Some ((pr_next p)\<lparr>mc_revision := sat_succ (pr_expected p)\<rparr>)"
  by (induction cy c i rs cfg rule: serial_updates.induct) (auto split: sum.splits)

text \<open>What a request brings: UTF-8 text and a nonce of the cipher's length.\<close>

definition request_ok :: "config_update_request \<times> string \<Rightarrow> bool" where
  "request_ok r \<longleftrightarrow> length (snd r) = 24 \<and>
     (case cu_router_password (fst r) of None \<Rightarrow> True | Some p \<Rightarrow> utf8_valid p)"

definition requests_of :: "config_action list \<Rightarrow> (config_update_request \<times> string) list" where
  "requests_of = List.map_filter (\<lambda>a. case a of Begin body nonce \<Rightarrow> Some (body, nonce) | _ \<Rightarrow> None)"

definition fresh_job ::
  "crypto \<Rightarrow> secret_cipher \<Rightarrow> string \<Rightarrow> (config_update_request \<times> string) list \<Rightarrow> 'n merged_config \<Rightarrow> 'n prepared_update \<Rightarrow> bool" where
  "fresh_job cy c i reqs cfg p \<longleftrightarrow> pr_expected p \<le> mc_revision cfg \<and>
     (pr_expected p = mc_revision cfg \<longrightarrow>
       (\<exists>(body, nonce) \<in> set reqs. prepare_update cy c nonce i body cfg = Inr p))"

definition server_inv ::
  "crypto \<Rightarrow> secret_cipher \<Rightarrow> string \<Rightarrow> 'n config \<Rightarrow> (config_update_request \<times> string) list \<Rightarrow> 'n merged_config \<Rightarrow>
   'n config_server \<Rightarrow> bool" where
  "server_inv cy c i env reqs cfg0 v \<longleftrightarrow>
     in_step cy c i env (sv_config_db v) (latest_config v) \<and>
     (committed v = [] \<or> (length (committed v) = 1 \<and> mc_revision (sv_config v) < mc_revision (latest_config v))) \<and>
     (\<forall>p. Prepared p \<in> set (sv_jobs v) \<longrightarrow> fresh_job cy c i reqs (sv_config v) p) \<and>
     (\<exists>rs. set rs \<subseteq> set reqs \<and> serial_updates cy c i rs cfg0 = Some (latest_config v))"

abbreviation committed_of :: "'n config_job list \<Rightarrow> 'n merged_config list" where
  "committed_of \<equiv> List.map_filter (\<lambda>j. case j of Prepared _ \<Rightarrow> None | Committed n \<Rightarrow> Some n)"

lemma committed_of_append [simp]: "committed_of (xs @ ys) = committed_of xs @ committed_of ys"
  by (simp add: map_filter_def)

lemma committed_of_Cons [simp]:
  "committed_of (Prepared p # js) = committed_of js" "committed_of (Committed n # js) = n # committed_of js"
  "committed_of [] = []"
  by (simp_all add: map_filter_simps)

text \<open>The jobs before and after the one that moves.\<close>

lemma job_split:
  assumes "k < length js"
  obtains as bs where "js = as @ js ! k # bs" "length as = k"
    "take k js @ drop (Suc k) js = as @ bs" "\<And>j. js[k := j] = as @ j # bs"
proof -
  have "js = take k js @ js ! k # drop (Suc k) js" by (rule id_take_nth_drop[OF assms])
  then show ?thesis using that[of "take k js" "drop (Suc k) js"] assms by (simp add: upd_conv_take_nth_drop)
qed

lemma sat_succ_greater:
  assumes "w \<noteq> - 1" shows "w < sat_succ w \<and> unat (sat_succ w) = Suc (unat w)"
proof -
  have "1 + w \<noteq> 0" using assms by (metis add_eq_0_iff)
  then have "unat (1 + w) = Suc (unat w)" by (rule unatSuc)
  then show ?thesis using assms by (simp add: sat_succ_def word_less_nat_alt add.commute)
qed

lemma server_inv_latest: "committed v = [] \<Longrightarrow> latest_config v = sv_config v"
  by (simp add: latest_config_def)

lemma same_latest: "committed v' = committed v \<Longrightarrow> sv_config v' = sv_config v \<Longrightarrow> latest_config v' = latest_config v"
  by (simp add: latest_config_def split: list.split)

lemma begin_inv:
  assumes "server_inv cy c i env reqs cfg0 v" "(body, nonce) \<in> set reqs"
  shows "server_inv cy c i env reqs cfg0 (config_step cy c i (Begin body nonce) v)"
proof (cases "prepare_update cy c nonce i body (sv_config v)")
  case (Inr p)
  have "fresh_job cy c i reqs (sv_config v) p"
    using Inr assms(2) prepare_InrD[OF Inr] by (auto simp: fresh_job_def)
  moreover define v' where "v' = v\<lparr>sv_jobs := sv_jobs v @ [Prepared p]\<rparr>"
  moreover have "committed v' = committed v" by (simp add: v'_def committed_def)
  moreover from this have "latest_config v' = latest_config v" by (rule same_latest) (simp add: v'_def)
  ultimately have "server_inv cy c i env reqs cfg0 v'" using assms(1) by (auto simp: server_inv_def)
  then show ?thesis using Inr by (simp add: v'_def)
qed (use assms in simp)

lemma publish_inv:
  assumes inv: "server_inv cy c i env reqs cfg0 v"
  shows "server_inv cy c i env reqs cfg0 (config_step cy c i (Publish k) v)"
proof (cases "k < length (sv_jobs v)")
  case True
  show ?thesis
  proof (cases "sv_jobs v ! k")
    case (Committed n)
    obtain as bs where js: "sv_jobs v = as @ Committed n # bs"
      and rest: "take k (sv_jobs v) @ drop (Suc k) (sv_jobs v) = as @ bs"
      using job_split[OF True] Committed by metis
    have one: "committed_of as = []" "committed_of bs = []" and less: "mc_revision (sv_config v) < mc_revision n"
      and latest: "latest_config v = n"
      using inv js by (auto simp: server_inv_def committed_def latest_config_def)
    define v' where "v' = drop_job k (v\<lparr>sv_config := n\<rparr>)"
    have v': "sv_config v' = n" "sv_config_db v' = sv_config_db v" "sv_jobs v' = as @ bs"
      using rest by (simp_all add: v'_def drop_job_def)
    then have "committed v' = []" "latest_config v' = n" using one by (simp_all add: committed_def latest_config_def)
    moreover have "fresh_job cy c i reqs n p" if "Prepared p \<in> set (as @ bs)" for p
    proof -
      have "fresh_job cy c i reqs (sv_config v) p" using inv js that by (auto simp: server_inv_def)
      then have "pr_expected p < mc_revision n" using less by (auto simp: fresh_job_def)
      then show ?thesis by (auto simp: fresh_job_def)
    qed
    ultimately have "server_inv cy c i env reqs cfg0 v'" using inv v' latest by (simp add: server_inv_def)
    then show ?thesis using True Committed by (simp add: v'_def)
  qed (use inv in simp)
qed (use inv in simp)

lemma commit_inv:
  assumes crypto: "seals cy" and ok: "list_all request_ok reqs" and inv: "server_inv cy c i env reqs cfg0 v"
    and room: "stored_revision (sv_config_db v) \<noteq> - 1"
  shows "server_inv cy c i env reqs cfg0 (config_step cy c i (Commit k) v)"
proof (cases "k < length (sv_jobs v)")
  case True
  show ?thesis
  proof (cases "sv_jobs v ! k")
    case (Prepared p)
    obtain as bs where js: "sv_jobs v = as @ Prepared p # bs"
      and rest: "take k (sv_jobs v) @ drop (Suc k) (sv_jobs v) = as @ bs"
      and set: "\<And>j. (sv_jobs v)[k := j] = as @ j # bs"
      using job_split[OF True] Prepared by metis
    have fresh: "fresh_job cy c i reqs (sv_config v) q" if "Prepared q \<in> set (sv_jobs v)" for q
      using inv that by (auto simp: server_inv_def)
    obtain r db' where commit: "commit_update p (sv_config_db v) = (r, db')" by fastforce
    show ?thesis
    proof (cases r)
      case (Inl e)
      have "committed (v\<lparr>sv_jobs := as @ bs\<rparr>) = committed v" using js by (simp add: committed_def)
      moreover from this have "latest_config (v\<lparr>sv_jobs := as @ bs\<rparr>) = latest_config v" by (rule same_latest) simp
      ultimately have "server_inv cy c i env reqs cfg0 (v\<lparr>sv_jobs := as @ bs\<rparr>)"
        using inv js by (auto simp: server_inv_def)
      moreover have "config_step cy c i (Commit k) v = v\<lparr>sv_jobs := as @ bs\<rparr>"
        using True Prepared commit Inl commit_InlD[of p "sv_config_db v" e db'] rest by (simp add: drop_job_def)
      ultimately show ?thesis by simp
    next
      case (Inr n)
      note c' = commit_InrD[OF commit[unfolded Inr]]
      have step: "in_step cy c i env (sv_config_db v) (latest_config v)" using inv by (simp add: server_inv_def)
      have expected: "pr_expected p = mc_revision (latest_config v)" using c' in_step_revision[OF step] by simp
      moreover have "pr_expected p \<le> mc_revision (sv_config v)" using fresh[of p] js by (simp add: fresh_job_def)
      ultimately have none: "committed v = []" using inv by (auto simp: server_inv_def)
      then have latest: "latest_config v = sv_config v" by (rule server_inv_latest)
      obtain body nonce where p: "prepare_update cy c nonce i body (sv_config v) = Inr p" and req: "(body, nonce) \<in> set reqs"
        using fresh[of p] js expected latest by (auto simp: fresh_job_def)
      have good: "length nonce = 24" "\<And>x. cu_router_password body = Some x \<Longrightarrow> utf8_valid x"
        using ok req by (auto simp: list_all_iff request_ok_def)
      define v' where "v' = v\<lparr>sv_config_db := db', sv_jobs := as @ Committed n # bs\<rparr>"
      have com: "committed v' = [n]" using none js by (simp add: v'_def committed_def)
      then have l': "latest_config v' = n" by (simp add: latest_config_def)
      have "in_step cy c i env db' n"
        by (rule commit_in_step[OF crypto good step[unfolded latest] p commit[unfolded Inr]])
      moreover have "mc_revision (sv_config v) < mc_revision n"
        using c' expected latest room sat_succ_greater[of "pr_expected p"] by simp
      moreover have "\<exists>rs. set rs \<subseteq> set reqs \<and> serial_updates cy c i rs cfg0 = Some n"
      proof -
        obtain rs where rs: "set rs \<subseteq> set reqs" "serial_updates cy c i rs cfg0 = Some (sv_config v)"
          using inv latest by (auto simp: server_inv_def)
        have "serial_updates cy c i (rs @ [(body, nonce)]) cfg0 = Some n"
          using serial_updates_snoc[OF rs(2) p] c' by simp
        then show ?thesis using rs(1) req by (intro exI[of _ "rs @ [(body, nonce)]"]) simp
      qed
      ultimately have "server_inv cy c i env reqs cfg0 v'"
        using com l' fresh js by (auto simp: server_inv_def v'_def)
      moreover have "config_step cy c i (Commit k) v = v'" using True Prepared commit Inr set by (simp add: v'_def)
      ultimately show ?thesis by simp
    qed
  qed (use inv in simp)
qed (use inv in simp)

lemma stored_revision_step:
  assumes "stored_revision (sv_config_db v) \<noteq> - 1"
  shows "unat (stored_revision (sv_config_db (config_step cy c i a v))) \<le> Suc (unat (stored_revision (sv_config_db v)))"
proof (cases a)
  case (Commit k)
  have "unat (stored_revision db') \<le> Suc (unat (stored_revision (sv_config_db v)))"
    if "commit_update p (sv_config_db v) = (r, db')" for p r db'
  proof (cases r)
    case (Inr n)
    then have "stored_revision db' = sat_succ (stored_revision (sv_config_db v))"
      using commit_InrD[of p "sv_config_db v" n db'] that by (simp add: stored_revision_def)
    then show ?thesis using sat_succ_greater[OF assms] by simp
  next
    case (Inl e)
    then show ?thesis using commit_InlD[of p "sv_config_db v" e db'] that by simp
  qed
  then show ?thesis using Commit by (auto simp: drop_job_def split: config_job.splits prod.splits sum.splits)
qed (auto simp: drop_job_def split: sum.splits config_job.splits)

lemma runs_inv:
  "seals cy \<Longrightarrow> list_all request_ok reqs \<Longrightarrow> set (requests_of steps) \<subseteq> set reqs \<Longrightarrow>
   server_inv cy c i env reqs cfg0 v \<Longrightarrow>
   unat (stored_revision (sv_config_db v)) + length steps < 2 ^ 64 - 1 \<Longrightarrow>
   server_inv cy c i env reqs cfg0 (fold (config_step cy c i) steps v)"
proof (induction steps arbitrary: v)
  case (Cons a steps)
  have room: "stored_revision (sv_config_db v) \<noteq> - 1"
    using Cons.prems(5) by (auto simp: unsigned_minus_1_eq_mask mask_eq_exp_minus_1)
  have "server_inv cy c i env reqs cfg0 (config_step cy c i a v)"
  proof (cases a)
    case (Begin body nonce)
    then have "(body, nonce) \<in> set reqs" using Cons.prems(3) by (simp add: requests_of_def map_filter_simps)
    then show ?thesis using begin_inv[OF Cons.prems(4)] Begin by simp
  next
    case (Commit k)
    show ?thesis using commit_inv[OF Cons.prems(1,2,4) room, of k] Commit by simp
  next
    case (Publish k)
    show ?thesis using publish_inv[OF Cons.prems(4), of k] Publish by simp
  qed
  moreover have "set (requests_of steps) \<subseteq> set reqs"
    using Cons.prems(3) by (cases a) (auto simp: requests_of_def map_filter_simps)
  moreover have "unat (stored_revision (sv_config_db (config_step cy c i a v))) + length steps < 2 ^ 64 - 1"
    using stored_revision_step[OF room, of cy c i a] Cons.prems(5) by simp
  ultimately show ?case using Cons.IH[OF Cons.prems(1,2)] by simp
qed simp

text \<open>The server after its start and any interleaving of requests.\<close>

definition started :: "'n merged_config \<Rightarrow> config_db \<Rightarrow> 'n config_server" where
  "started cfg db = \<lparr>sv_config = cfg, sv_config_db = db, sv_jobs = []\<rparr>"

lemma served_inv:
  assumes "load_config cy c nonce uuid env db = (Inr cfg, db0)" "seals cy" "length nonce = 24"
    and "utf8_valid (cf_router_password env)"
    and "list_all utf8_valid (List.map_filter id [cd_config db ''router_password'', cd_config db ''routeros_password''])"
    and "cd_config db0 ''instance_id'' = Some i"
    and "list_all request_ok (requests_of steps)" "unat (mc_revision cfg) + length steps < 2 ^ 64 - 1"
  shows "server_inv cy c i env (requests_of steps) cfg (fold (config_step cy c i) steps (started cfg db0))"
proof -
  have step: "in_step cy c i env db0 cfg"
    using load_in_step[OF assms(1-5)] assms(6) by (auto simp: in_step_def)
  have "committed (started cfg db0) = []" "latest_config (started cfg db0) = cfg"
    by (simp_all add: started_def committed_def latest_config_def)
  moreover have "serial_updates cy c i [] cfg = Some cfg" by simp
  ultimately have "server_inv cy c i env (requests_of steps) cfg (started cfg db0)"
    using step unfolding server_inv_def by (auto simp: started_def intro!: exI[of _ "[]"])
  then show ?thesis
    using assms(2,7,8) in_step_revision[OF step] by (intro runs_inv) (simp_all add: started_def)
qed

section \<open>An example\<close>

text \<open>No stored settings, the environment's password, and two requests that start from the same
  configuration: the second to commit is turned away.\<close>

definition example_env :: "string config" where
  "example_env = \<lparr>cf_router_type = RouterOs, cf_router_host = ''router'', cf_router_port = 8,
     cf_router_scheme = ''https'', cf_router_username = ''admin'', cf_router_password = ''pw'',
     cf_accept_invalid_certs = False, cf_poll_interval_secs = 2, cf_server_port = 8080, cf_setup_port = 8081,
     cf_setup_token_file = [], cf_public_origin = [], cf_trusted_proxy_cidrs = [], cf_master_key_file = [],
     cf_router_management_cidrs = [], cf_allow_insecure_router_http = False, cf_probe_interval_secs = 10,
     cf_db_path = [], cf_db_raw_retention_days = 7, cf_db_total_retention_days = 7,
     cf_latency_good_ms = 2, cf_latency_poor_ms = 3, cf_oidc = None\<rparr>"

definition theme_request :: "string \<Rightarrow> config_update_request" where
  "theme_request theme = \<lparr>cu_expected_revision = Some 0, cu_router_type = None, cu_router_host = None,
     cu_router_port = None, cu_router_scheme = None, cu_router_username = None, cu_router_password = None,
     cu_password_mode = None, cu_accept_invalid_certs = None, cu_poll_interval_secs = None,
     cu_probe_interval_secs = None, cu_db_raw_retention_days = None, cu_db_total_retention_days = None,
     cu_latency_good_ms = None, cu_latency_poor_ms = None, cu_theme = Some theme, cu_wizard_completed = None\<rparr>"

definition example_nonce :: string where
  "example_nonce = replicate 24 CHR ''n''"

definition example_start :: "(app_error + string merged_config) \<times> config_db" where
  "example_start = load_config example_crypto example_cipher example_nonce ''i1'' example_env
     \<lparr>cd_config = Map.empty, cd_secrets = []\<rparr>"

definition example_steps :: "config_action list" where
  "example_steps = [Begin (theme_request ''dark'') example_nonce, Begin (theme_request ''light'') example_nonce,
     Commit 1, Commit 0, Publish 0]"

definition example_started :: "string merged_config" where
  "example_started = projr (fst example_start)"

definition example_server :: "string config_server" where
  "example_server = fold (config_step example_crypto example_cipher ''i1'') example_steps
     (started example_started (snd example_start))"

lemma example_computed:
  "\<not> isl (fst example_start)" "cd_config (snd example_start) ''instance_id'' = Some ''i1''"
  "mc_revision example_started = 0" "mc_theme (latest_config example_server) = ''light''"
  "list_all request_ok (requests_of example_steps)" "length example_steps = 5"
  "utf8_valid (cf_router_password example_env)" "length example_nonce = 24"
  by code_simp+

lemma example_loaded:
  "load_config example_crypto example_cipher example_nonce ''i1'' example_env
     \<lparr>cd_config = Map.empty, cd_secrets = []\<rparr> = (Inr example_started, snd example_start)"
  using example_computed(1) by (cases "fst example_start") (simp_all add: example_started_def flip: example_start_def, simp add: prod_eq_iff)

lemma seals_example: "seals example_crypto"
  by (simp add: seals_def example_crypto_def)

section \<open>Properties\<close>



text \<open>C28: Concurrent updates of the configuration serialize: however the steps of the requests
  interleave, the latest configuration is the one that some of these requests give one after
  the other, each prepared against the result of the one before it; at most one configuration
  is committed and not yet in memory, and it is newer than the one in memory.\<close>

theorem config_updates_serialize:
  assumes "load_config cy c nonce uuid env db = (Inr cfg, db0)" "seals cy" "length nonce = 24"
    and "utf8_valid (cf_router_password env)"
    and "list_all utf8_valid (List.map_filter id [cd_config db ''router_password'', cd_config db ''routeros_password''])"
    and "cd_config db0 ''instance_id'' = Some i"
    and "list_all request_ok (requests_of steps)" "unat (mc_revision cfg) + length steps < 2 ^ 64 - 1"
  defines "v \<equiv> fold (config_step cy c i) steps (started cfg db0)"
  shows "(\<exists>rs. set rs \<subseteq> set (requests_of steps) \<and> serial_updates cy c i rs cfg = Some (latest_config v)) \<and>
    (committed v = [] \<or> (length (committed v) = 1 \<and> mc_revision (sv_config v) < mc_revision (latest_config v)))"
  using served_inv[OF assms(1-8)] unfolding v_def server_inv_def by blast


theorem config_updates_serialize_witness:
  "(\<exists>rs. set rs \<subseteq> set (requests_of example_steps) \<and>
     serial_updates example_crypto example_cipher ''i1'' rs example_started = Some (latest_config example_server)) \<and>
   (committed example_server = [] \<or> (length (committed example_server) = 1 \<and>
     mc_revision (sv_config example_server) < mc_revision (latest_config example_server)))"
  unfolding example_server_def
  by (rule config_updates_serialize[OF example_loaded seals_example])
    (simp_all add: example_computed map_filter_simps)

end
