(* ===== verification/Ip_Print.thy ===== *)
theory Ip_Print
  imports Ip_Text
begin

text \<open>
  The printed form of an address (\<open>Display\<close> of \<open>std::net::IpAddr\<close>): an IPv6 address in lower case with
  its first longest run of zero groups left out, an embedded IPv4 address in decimal.  Reading a
  printed address gives the address back, and a host name that reads as an IPv4 address is its
  printed form.
\<close>

section \<open>Printing\<close>

definition hex_char :: "nat \<Rightarrow> char" where
  "hex_char d = (if d < 10 then char_of (48 + d) else char_of (87 + d))"

fun show_hex :: "nat \<Rightarrow> string" where
  "show_hex n = (if n < 16 then [hex_char n] else show_hex (n div 16) @ [hex_char (n mod 16)])"

declare show_hex.simps [simp del]

definition show_ipv4 :: "nat list \<Rightarrow> string" where
  "show_ipv4 a = join_with ''.'' (map show_nat a)"

text \<open>The first longest run of zero groups, as its start and length.\<close>

fun zero_span :: "nat \<Rightarrow> nat \<times> nat \<Rightarrow> nat \<times> nat \<Rightarrow> nat list \<Rightarrow> nat \<times> nat" where
  "zero_span i current longest [] = longest"
| "zero_span i current longest (g # gs) =
     (if g = 0
      then let current' = (if snd current = 0 then (i, 1) else (fst current, snd current + 1)) in
        zero_span (i + 1) current' (if snd longest < snd current' then current' else longest) gs
      else zero_span (i + 1) (0, 0) longest gs)"

definition show_groups :: "nat list \<Rightarrow> string" where
  "show_groups gs = join_with '':'' (map show_hex gs)"

definition show_ipv6 :: "nat list \<Rightarrow> string" where
  "show_ipv6 g =
     (if take 6 g = [0, 0, 0, 0, 0, 0xFFFF]
      then ''::ffff:'' @ show_ipv4 [g ! 6 div 256, g ! 6 mod 256, g ! 7 div 256, g ! 7 mod 256]
      else case zero_span 0 (0, 0) (0, 0) g of (start, len) \<Rightarrow>
        if 1 < len then show_groups (take start g) @ ''::'' @ show_groups (drop (start + len) g)
        else show_groups g)"

fun show_ip :: "ip_addr \<Rightarrow> string" where
  "show_ip (V4 a) = show_ipv4 a"
| "show_ip (V6 g) = show_ipv6 g"


section \<open>Reading numbers\<close>

lemma take_digits_split: "take_digits radix s = (ds, r) \<Longrightarrow> \<exists>p. s = p @ r \<and> map (digit_of radix) p = map Some ds"
proof (induction radix s arbitrary: ds rule: take_digits.induct)
  case (2 radix c s)
  then show ?case
  proof (cases "digit_of radix c")
    case (Some d)
    then obtain ds' where t: "take_digits radix s = (ds', r)" "ds = d # ds'" using 2 by (auto split: prod.splits)
    then obtain p where "s = p @ r" "map (digit_of radix) p = map Some ds'" using 2 Some by blast
    then show ?thesis using Some t by (intro exI[of _ "c # p"]) simp
  qed auto
qed simp

lemma take_digits_append:
  assumes "map (digit_of radix) p = map Some ds" "r = [] \<or> digit_of radix (hd r) = None"
  shows "take_digits radix (p @ r) = (ds, r)"
  using assms(1)
proof (induction p arbitrary: ds)
  case Nil
  then show ?case using assms(2) by (cases r) auto
next
  case (Cons c p)
  then obtain d ds' where "ds = d # ds'" "digit_of radix c = Some d" "map (digit_of radix) p = map Some ds'" by auto
  then show ?case using Cons.IH by simp
qed

lemma digits_value_snoc: "digits_value radix (ds @ [d]) = radix * digits_value radix ds + d"
  by (simp add: digits_value_def)

lemma digits_value_ge: "0 < radix \<Longrightarrow> ds \<noteq> [] \<Longrightarrow> hd ds \<noteq> 0 \<Longrightarrow> 0 < digits_value radix ds"
proof (induction ds rule: rev_induct)
  case (snoc d ds)
  then show ?case by (cases "ds = []") (simp_all add: digits_value_snoc, simp add: digits_value_def)
qed simp

lemma digit_of_less: "digit_of radix c = Some d \<Longrightarrow> d < radix"
  by (auto simp: digit_of_def split: option.splits if_splits)

lemma hex_digit_digit_char: "d < 10 \<Longrightarrow> hex_digit (char_of (48 + d)) = Some d"
  by (simp add: hex_digit_def)

lemma digit_of_10: "digit_of 10 c = Some d \<Longrightarrow> c = digit_char d"
  by (auto simp: digit_of_def hex_digit_def digit_char_def Let_def split: option.splits if_splits)

text \<open>A decimal number without a leading zero is printed as it was read.\<close>

lemma show_nat_digits_value:
  assumes "map (digit_of 10) p = map Some ds" "ds \<noteq> []" "hd ds = 0 \<longrightarrow> length ds = 1"
  shows "show_nat (digits_value 10 ds) = p"
  using assms
proof (induction ds arbitrary: p rule: rev_induct)
  case (snoc d ds)
  then obtain q c where p: "p = q @ [c]" "map (digit_of 10) q = map Some ds" "digit_of 10 c = Some d"
    by (cases p rule: rev_cases) auto
  have d: "d < 10" using p(3) digit_of_less by blast
  have c: "c = digit_char d" using p(3) by (rule digit_of_10)
  show ?case
  proof (cases "ds = []")
    case True
    then show ?thesis using p c d by (simp add: digits_value_def show_nat.simps)
  next
    case False
    then have "hd ds \<noteq> 0" using snoc.prems(3) by (cases ds) auto
    then have pos: "0 < digits_value 10 ds" using False by (intro digits_value_ge) auto
    have "show_nat (digits_value 10 ds) = q" using snoc.IH[OF p(2) False] \<open>hd ds \<noteq> 0\<close> by simp
    moreover have "show_nat (10 * digits_value 10 ds + d) = show_nat (digits_value 10 ds) @ [digit_char d]"
      using d pos by (subst show_nat.simps) simp
    ultimately show ?thesis using p(1) c by (simp add: digits_value_snoc)
  qed
qed simp

lemma read_decimal_SomeD:
  assumes "read_number 10 n False b s = Some (v, r)"
  shows "s = show_nat v @ r \<and> v < b"
proof -
  obtain ds where t: "take_digits 10 s = (ds, r)" and v: "v = digits_value 10 ds" "v < b"
    and ds: "ds \<noteq> []" "hd ds = 0 \<longrightarrow> \<not> 1 < length ds"
    using assms by (auto simp: read_number_def split: prod.splits if_splits)
  obtain p where p: "s = p @ r" "map (digit_of 10) p = map Some ds" using take_digits_split[OF t] by blast
  have "hd ds = 0 \<longrightarrow> length ds = 1" using ds by (cases ds) auto
  then show ?thesis using show_nat_digits_value[OF p(2) ds(1)] p(1) v by simp
qed

section \<open>IPv4\<close>

lemma digit_of_digit_char: "d < 10 \<Longrightarrow> digit_of 10 (digit_char d) = Some d"
  by (simp add: digit_of_def hex_digit_def digit_char_def)

lemma take_digits_show_nat:
  assumes "r = [] \<or> digit_of 10 (hd r) = None"
  shows "\<exists>ds. take_digits 10 (show_nat n @ r) = (ds, r) \<and> digits_value 10 ds = n \<and> ds \<noteq> [] \<and>
    length ds = length (show_nat n) \<and> (hd ds = 0 \<longrightarrow> length ds = 1)"
proof -
  have "\<exists>ds. map (digit_of 10) (show_nat n) = map Some ds \<and> digits_value 10 ds = n \<and> ds \<noteq> [] \<and>
      (hd ds = 0 \<longrightarrow> n = 0)"
  proof (induction n rule: show_nat.induct)
    case (1 n)
    show ?case
    proof (cases "n < 10")
      case True
      then have "show_nat n = [digit_char n]" by (simp add: show_nat.simps)
      then show ?thesis using True by (intro exI[of _ "[n]"]) (simp add: digit_of_digit_char digits_value_def)
    next
      case False
      then obtain ds where ds: "map (digit_of 10) (show_nat (n div 10)) = map Some ds" "digits_value 10 ds = n div 10"
        "ds \<noteq> []" "hd ds = 0 \<longrightarrow> n div 10 = 0" using 1[OF False] by metis
      have "show_nat n = show_nat (n div 10) @ [digit_char (n mod 10)]" using False by (subst show_nat.simps) simp
      moreover have "n div 10 \<noteq> 0" using False by simp
      ultimately show ?thesis
        using ds by (intro exI[of _ "ds @ [n mod 10]"]) (simp add: digit_of_digit_char digits_value_snoc)
    qed
  qed
  then obtain ds where ds: "map (digit_of 10) (show_nat n) = map Some ds" "digits_value 10 ds = n" "ds \<noteq> []"
    "hd ds = 0 \<longrightarrow> n = 0" by metis
  then have len: "length ds = length (show_nat n)" by (metis length_map)
  have "n = 0 \<Longrightarrow> length (show_nat n) = 1" by (simp add: show_nat.simps)
  then show ?thesis using ds len take_digits_append[OF ds(1) assms] by auto
qed

lemma length_show_nat: "n < 10 ^ Suc k \<Longrightarrow> length (show_nat n) \<le> Suc k"
proof (induction k arbitrary: n)
  case (Suc k)
  show ?case
  proof (cases "n < 10")
    case False
    then have "show_nat n = show_nat (n div 10) @ [digit_char (n mod 10)]" by (subst show_nat.simps) simp
    moreover have "n div 10 < 10 ^ Suc k" using Suc.prems by (simp add: div_less_iff_less_mult)
    ultimately show ?thesis using Suc.IH by simp
  qed (simp add: show_nat.simps)
qed (simp add: show_nat.simps)

lemma read_decimal:
  assumes "n < 256" "r = [] \<or> digit_of 10 (hd r) = None"
  shows "read_number 10 3 False 256 (show_nat n @ r) = Some (n, r)"
proof -
  obtain ds where ds: "take_digits 10 (show_nat n @ r) = (ds, r)" "digits_value 10 ds = n" "ds \<noteq> []"
      "length ds = length (show_nat n)" "hd ds = 0 \<longrightarrow> length ds = 1"
    using take_digits_show_nat[OF assms(2), of n] by metis
  have "length (show_nat n) \<le> 3" using length_show_nat[of n 2] assms(1) by simp
  then have "length ds \<le> 3" "\<not> (hd ds = 0 \<and> 1 < length ds)" using ds(4,5) by auto
  then show ?thesis using ds(1,2,3) assms(1) by (simp add: read_number_def)
qed

definition octets :: "nat list \<Rightarrow> bool" where
  "octets a \<longleftrightarrow> length a = 4 \<and> list_all (\<lambda>n. n < 256) a"

lemma octets_cases: "octets a \<Longrightarrow> \<exists>p q r s. a = [p, q, r, s] \<and> p < 256 \<and> q < 256 \<and> r < 256 \<and> s < 256"
  by (auto simp: octets_def length_Suc_conv numeral_eq_Suc)

lemma show_ipv4_four: "show_ipv4 [p, q, r, s] =
    show_nat p @ CHR ''.'' # show_nat q @ CHR ''.'' # show_nat r @ CHR ''.'' # show_nat s"
  by (simp add: show_ipv4_def)

lemma not_digit_dot [simp]: "digit_of 10 CHR ''.'' = None" "digit_of 16 CHR '':'' = None" "digit_of 10 CHR '':'' = None"
  by (simp_all add: digit_of_def hex_digit_def)

lemma read_octets_step:
  assumes "n < 256" "r = [] \<or> digit_of 10 (hd r) = None" "read_octets slots r = Some (ds, r')"
  shows "read_octets (i # slots) ((if i = 0 then [] else [CHR ''.'']) @ show_nat n @ r) = Some (n # ds, r')"
  using read_decimal[OF assms(1,2)] assms(3) by (simp add: skip_separator_def read_given_char_def)

lemma read_show_ipv4:
  assumes "octets a" "r = [] \<or> digit_of 10 (hd r) = None"
  shows "read_ipv4 (show_ipv4 a @ r) = Some (a, r)"
proof -
  obtain p q t u where a: "a = [p, q, t, u]" and b: "p < 256" "q < 256" "t < 256" "u < 256"
    using octets_cases[OF assms(1)] by blast
  have dot: "CHR ''.'' # x = [] \<or> digit_of 10 (hd (CHR ''.'' # x)) = None" for x by simp
  have u: "read_octets [3] (CHR ''.'' # show_nat u @ r) = Some ([u], r)"
    using read_octets_step[OF b(4) assms(2), of "[]" "[]" r 3] by simp
  have t: "read_octets [2, 3] (CHR ''.'' # show_nat t @ CHR ''.'' # show_nat u @ r) = Some ([t, u], r)"
    using read_octets_step[OF b(3) dot u, of 2] by simp
  have q: "read_octets [1, 2, 3] (CHR ''.'' # show_nat q @ CHR ''.'' # show_nat t @ CHR ''.'' # show_nat u @ r) = Some ([q, t, u], r)"
    using read_octets_step[OF b(2) dot t, of 1] by simp
  show ?thesis using read_octets_step[OF b(1) dot q, of 0] by (simp add: read_ipv4_def a show_ipv4_four del: read_octets.simps)
qed

text \<open>The other way round: what reads as an IPv4 address is how the address is printed.\<close>

lemma skip_dotD: "skip_separator CHR ''.'' i s = Some s1 \<Longrightarrow> s = (if i = 0 then s1 else CHR ''.'' # s1)"
  by (auto simp: skip_separator_def read_given_char_def split: if_splits list.splits)

lemma read_octets_stepD:
  assumes "read_octets (i # slots) s = Some (ds, r)"
  shows "\<exists>d s2 ds'. s = (if i = 0 then [] else [CHR ''.'']) @ show_nat d @ s2 \<and> d < 256 \<and>
    read_octets slots s2 = Some (ds', r) \<and> ds = d # ds'"
  using assms by (auto split: option.splits prod.splits if_splits dest!: skip_dotD read_decimal_SomeD)

lemma read_ipv4_SomeD:
  assumes "read_ipv4 s = Some (a, r)" shows "octets a \<and> s = show_ipv4 a @ r"
proof -
  note step = read_octets_stepD
  obtain d0 s0 a0 where 0: "s = show_nat d0 @ s0" "d0 < 256" "read_octets [1, 2, 3] s0 = Some (a0, r)" "a = d0 # a0"
    using step[of 0 "[1, 2, 3]" s a r] assms by (auto simp: read_ipv4_def simp del: read_octets.simps)
  obtain d1 s1 a1 where 1: "s0 = CHR ''.'' # show_nat d1 @ s1" "d1 < 256" "read_octets [2, 3] s1 = Some (a1, r)" "a0 = d1 # a1"
    using step[OF 0(3)] by (auto simp del: read_octets.simps)
  obtain d2 s2 a2 where 2: "s1 = CHR ''.'' # show_nat d2 @ s2" "d2 < 256" "read_octets [3] s2 = Some (a2, r)" "a1 = d2 # a2"
    using step[OF 1(3)] by (auto simp del: read_octets.simps)
  obtain d3 s3 a3 where 3: "s2 = CHR ''.'' # show_nat d3 @ s3" "d3 < 256" "read_octets [] s3 = Some (a3, r)" "a2 = d3 # a3"
    using step[OF 2(3)] by (auto simp del: read_octets.simps)
  have "a = [d0, d1, d2, d3]" "s3 = r" using 0(4) 1(4) 2(4) 3(3,4) by auto
  then show ?thesis using 0 1 2 3 by (simp add: octets_def show_ipv4_four)
qed

section \<open>IPv6\<close>

lemma hex_digit_hex_char: "d < 16 \<Longrightarrow> hex_digit (hex_char d) = Some d"
  by (simp add: hex_digit_def hex_char_def)

lemma digit_of_hex_char: "d < 16 \<Longrightarrow> digit_of 16 (hex_char d) = Some d"
  by (simp add: digit_of_def hex_digit_hex_char)

lemma show_hex_digits:
  "\<exists>ds. map (digit_of 16) (show_hex n) = map Some ds \<and> digits_value 16 ds = n \<and> ds \<noteq> []"
proof (induction n rule: show_hex.induct)
  case (1 n)
  show ?case
  proof (cases "n < 16")
    case True
    then have "show_hex n = [hex_char n]" by (simp add: show_hex.simps)
    then show ?thesis using True by (intro exI[of _ "[n]"]) (simp add: digit_of_hex_char digits_value_def)
  next
    case False
    then obtain ds where ds: "map (digit_of 16) (show_hex (n div 16)) = map Some ds" "digits_value 16 ds = n div 16"
      using 1[OF False] by metis
    have "show_hex n = show_hex (n div 16) @ [hex_char (n mod 16)]" using False by (subst show_hex.simps) simp
    then show ?thesis
      using ds by (intro exI[of _ "ds @ [n mod 16]"]) (simp add: digit_of_hex_char digits_value_snoc)
  qed
qed

lemma length_show_hex: "n < 16 ^ Suc k \<Longrightarrow> length (show_hex n) \<le> Suc k"
proof (induction k arbitrary: n)
  case (Suc k)
  show ?case
  proof (cases "n < 16")
    case False
    then have "show_hex n = show_hex (n div 16) @ [hex_char (n mod 16)]" by (subst show_hex.simps) simp
    moreover have "n div 16 < 16 ^ Suc k" using Suc.prems by (simp add: div_less_iff_less_mult)
    ultimately show ?thesis using Suc.IH by simp
  qed (simp add: show_hex.simps)
qed (simp add: show_hex.simps)

definition ends_group :: "string \<Rightarrow> bool" where
  "ends_group r \<longleftrightarrow> r = [] \<or> hd r = CHR '':''"

lemma read_hex:
  assumes "n < 65536" "ends_group r"
  shows "read_number 16 4 True 65536 (show_hex n @ r) = Some (n, r)"
proof -
  obtain ds where ds: "map (digit_of 16) (show_hex n) = map Some ds" "digits_value 16 ds = n" "ds \<noteq> []"
    using show_hex_digits[of n] by metis
  have len: "length ds = length (show_hex n)" using ds(1) by (metis length_map)
  have "length (show_hex n) \<le> 4" using length_show_hex[of n 3] assms(1) by simp
  moreover have "take_digits 16 (show_hex n @ r) = (ds, r)"
    using assms(2) by (intro take_digits_append[OF ds(1)]) (auto simp: ends_group_def)
  ultimately show ?thesis using ds(2,3) len assms(1) by (simp add: read_number_def)
qed

definition is_hex :: "char \<Rightarrow> bool" where
  "is_hex c \<longleftrightarrow> hex_digit c \<noteq> None"

lemma is_hex_shown: "list_all is_hex (show_hex n)" "list_all is_hex (show_nat n)"
proof -
  obtain ds where "map (digit_of 16) (show_hex n) = map Some ds" using show_hex_digits[of n] by metis
  then have "\<forall>c \<in> set (show_hex n). digit_of 16 c \<noteq> None"
    by (metis (no_types, lifting) ex_map_conv imageI list.set_map option.distinct(1))
  moreover have "digit_of 16 c = None" if "hex_digit c = None" for c using that by (simp add: digit_of_def)
  ultimately show "list_all is_hex (show_hex n)" unfolding list_all_iff is_hex_def by metis
  show "list_all is_hex (show_nat n)"
    using show_nat_digits[of n] by (auto simp: list_all_iff is_hex_def hex_digit_def is_ascii_digit_def Let_def)
qed

lemma dropWhile_hex: "list_all is_hex p \<Longrightarrow> dropWhile is_hex (p @ r) = dropWhile is_hex r"
  by (induction p) auto

lemma no_ipv4: "list_all is_hex p \<Longrightarrow> ends_group r \<Longrightarrow> read_ipv4 (p @ r) = None"
proof (rule ccontr)
  assume p: "list_all is_hex p" "ends_group r" and "read_ipv4 (p @ r) \<noteq> None"
  then obtain a r' where a: "octets a" "p @ r = show_ipv4 a @ r'" using read_ipv4_SomeD by fastforce
  obtain b c d e where "a = [b, c, d, e]" using octets_cases[OF a(1)] by blast
  then obtain t where t: "p @ r = show_nat b @ CHR ''.'' # t" using a(2) by (simp add: show_ipv4_four)
  have "dropWhile is_hex r = dropWhile is_hex (CHR ''.'' # t)"
    using arg_cong[OF t, of "dropWhile is_hex"] dropWhile_hex[OF p(1)] dropWhile_hex[OF is_hex_shown(2)] by simp
  then have "dropWhile is_hex r = CHR ''.'' # t" by (simp add: is_hex_def hex_digit_def)
  moreover have "dropWhile is_hex r = r" using p(2) by (cases r) (auto simp: ends_group_def is_hex_def hex_digit_def)
  ultimately show False using p(2) by (simp add: ends_group_def)
qed

lemma no_number: "ends_group r \<Longrightarrow> read_number 16 4 True 65536 r = None"
  by (cases r) (simp_all add: read_number_def ends_group_def)

text \<open>The printed groups from slot \<open>i\<close> on, and where reading them stops.\<close>

definition pieces :: "nat \<Rightarrow> nat list \<Rightarrow> string" where
  "pieces i gs = (if i = 0 then show_groups gs else concat (map (\<lambda>g. CHR '':'' # show_hex g) gs))"

lemma show_groups_Cons: "show_groups (g # gs) = show_hex g @ concat (map (\<lambda>g. CHR '':'' # show_hex g) gs)"
  by (induction gs arbitrary: g) (simp_all add: show_groups_def)

lemma pieces_Cons: "pieces i (g # gs) = (if i = 0 then [] else [CHR '':'']) @ show_hex g @ pieces (Suc i) gs"
  by (simp add: pieces_def show_groups_Cons)

definition stops :: "string \<Rightarrow> bool" where
  "stops r \<longleftrightarrow> r = [] \<or> (\<exists>t. r = CHR '':'' # CHR '':'' # t)"

lemma read_groups_stop: "stops r \<Longrightarrow> read_groups slots r = ([], False, r)"
proof (cases slots)
  case (Cons i rest)
  assume r: "stops r"
  show ?thesis
  proof (cases "skip_separator CHR '':'' i r")
    case (Some s1)
    then have "ends_group s1" using r by (auto simp: stops_def skip_separator_def read_given_char_def ends_group_def split: if_splits)
    then show ?thesis using Some Cons no_number[of s1] no_ipv4[of "[]" s1] by simp
  qed (use Cons in simp)
qed simp

lemma read_groups_pieces:
  "list_all (\<lambda>g. g < 65536) gs \<Longrightarrow> i + length gs \<le> n \<Longrightarrow> stops r \<Longrightarrow>
     read_groups [i..<n] (pieces i gs @ r) = (gs, False, r)"
proof (induction gs arbitrary: i)
  case Nil
  then show ?case by (simp add: pieces_def show_groups_def read_groups_stop)
next
  case (Cons g gs)
  define t where "t = pieces (Suc i) gs @ r"
  have t: "ends_group t"
    using Cons.prems(3) by (cases gs) (auto simp: t_def pieces_def ends_group_def stops_def)
  have "skip_separator CHR '':'' i (pieces i (g # gs) @ r) = Some (show_hex g @ t)"
    by (simp add: pieces_Cons skip_separator_def read_given_char_def t_def)
  moreover have "read_ipv4 (show_hex g @ t) = None" by (rule no_ipv4[OF is_hex_shown(1) t])
  moreover have "read_number 16 4 True 65536 (show_hex g @ t) = Some (g, t)" using Cons.prems(1) t by (simp add: read_hex)
  moreover have "read_groups [Suc i..<n] t = (gs, False, r)" using Cons by (simp add: t_def)
  moreover have "[i..<n] = i # [Suc i..<n]" using Cons.prems(2) by (simp add: upt_conv_Cons)
  ultimately show ?case by (simp del: upt_Suc)
qed

lemma zero_span_zeros:
  assumes "zero_span i (cs, cl) (ls, ll) (drop i g) = (s, l)" "i \<le> length g"
    and "cl = 0 \<or> (cs + cl = i \<and> (\<forall>k. cs \<le> k \<and> k < i \<longrightarrow> g ! k = 0))"
    and "ll = 0 \<or> (ls + ll \<le> length g \<and> (\<forall>k. ls \<le> k \<and> k < ls + ll \<longrightarrow> g ! k = 0))"
  shows "l = 0 \<or> (s + l \<le> length g \<and> (\<forall>k. s \<le> k \<and> k < s + l \<longrightarrow> g ! k = 0))"
  using assms
proof (induction "length g - i" arbitrary: i cs cl ls ll)
  case 0
  then show ?case by simp
next
  case (Suc n)
  then have i: "i < length g" by linarith
  then have d: "drop i g = g ! i # drop (Suc i) g" by (simp add: Cons_nth_drop_Suc)
  have n: "n = length g - Suc i" "Suc i \<le> length g" using Suc.hyps(2) i by linarith+
  show ?case
  proof (cases "g ! i = 0")
    case True
    define c where "c = (if cl = 0 then (i, 1) else (cs, cl + 1))"
    have run: "snd c \<noteq> 0" "fst c + snd c = Suc i" "\<forall>k. fst c \<le> k \<and> k < Suc i \<longrightarrow> g ! k = 0"
      using Suc.prems(3) True by (auto simp: c_def less_Suc_eq)
    define m where "m = (if ll < snd c then c else (ls, ll))"
    have "zero_span (Suc i) (fst c, snd c) (fst m, snd m) (drop (Suc i) g) = (s, l)"
      using Suc.prems(1) True by (simp add: d c_def m_def Let_def split: if_splits)
    moreover have "snd m = 0 \<or> (fst m + snd m \<le> length g \<and> (\<forall>k. fst m \<le> k \<and> k < fst m + snd m \<longrightarrow> g ! k = 0))"
      using run Suc.prems(4) n(2) by (cases "ll < snd c") (auto simp: m_def)
    ultimately show ?thesis using Suc.hyps(1)[OF n(1) _ n(2)] run by blast
  next
    case False
    then have "zero_span (Suc i) (0, 0) (ls, ll) (drop (Suc i) g) = (s, l)" using Suc.prems(1) by (simp add: d)
    then show ?thesis using Suc.hyps(1)[OF n(1) _ n(2)] Suc.prems(4) by simp
  qed
qed

definition groups :: "nat list \<Rightarrow> bool" where
  "groups g \<longleftrightarrow> length g = 8 \<and> list_all (\<lambda>n. n < 65536) g"

lemma rebuild_groups:
  assumes "s + l \<le> length g" "\<forall>k. s \<le> k \<and> k < s + l \<longrightarrow> g ! k = 0"
  shows "take s g @ replicate l 0 @ drop (s + l) g = g"
proof -
  have "take l (drop s g) = replicate l 0"
    using assms by (intro nth_equalityI) auto
  then show ?thesis by (metis append_take_drop_id drop_drop add.commute)
qed

lemma read_show_ipv6:
  assumes g: "groups g" shows "read_ipv6 (show_ipv6 g) = Some (g, [])"
proof (cases "take 6 g = [0, 0, 0, 0, 0, 0xFFFF]")
  case True
  define a where "a = [g ! 6 div 256, g ! 6 mod 256, g ! 7 div 256, g ! 7 mod 256]"
  have b: "g ! 6 < 65536" "g ! 7 < 65536" using g by (simp_all add: groups_def list_all_length)
  have oct: "octets a" using b by (simp add: a_def octets_def div_less_iff_less_mult)
  have drop: "drop 6 g = [g ! 6, g ! 7]"
    using g Cons_nth_drop_Suc[of 6 g] Cons_nth_drop_Suc[of 7 g] by (simp add: groups_def)
  have full: "g = [0, 0, 0, 0, 0, 0xFFFF] @ [g ! 6, g ! 7]" using True drop by (metis append_take_drop_id)
  define t where "t = ''ffff:'' @ show_ipv4 a"
  have shown: "show_ipv6 g = CHR '':'' # CHR '':'' # t" using True by (simp add: show_ipv6_def a_def t_def)
  have "of_char CHR ''f'' = (102::nat)" by simp
  then have "char_of (102::nat) = CHR ''f''" by (metis char_of_char)
  then have "show_hex 65535 = ''ffff''" by (simp add: show_hex.simps hex_char_def)
  then have ffff: "t = show_hex 65535 @ CHR '':'' # show_ipv4 a" by (simp add: t_def)
  have "read_groups [0..<8] (show_ipv6 g) = ([], False, show_ipv6 g)"
    unfolding shown by (rule read_groups_stop) (simp add: stops_def)
  moreover have "read_groups [0..<7] t = ([65535, g ! 6, g ! 7], True, [])"
  proof -
    have "[0..<7] = 0 # 1 # [2..<7]" by (simp add: upt_conv_Cons numeral_eq_Suc)
    moreover have "read_ipv4 (show_ipv4 a) = Some (a, [])" using read_show_ipv4[OF oct, of "[]"] by simp
    moreover have "read_ipv4 t = None" "read_number 16 4 True 65536 t = Some (65535, CHR '':'' # show_ipv4 a)"
      unfolding ffff by (rule no_ipv4[OF is_hex_shown(1)], simp add: ends_group_def, rule read_hex, simp, simp add: ends_group_def)
    moreover have "a ! 0 * 256 + a ! 1 = g ! 6" "a ! 2 * 256 + a ! 3 = g ! 7" by (simp_all add: a_def)
    ultimately show ?thesis by (simp add: skip_separator_def read_given_char_def del: upt_Suc)
  qed
  moreover have "replicate 5 (0 :: nat) = [0, 0, 0, 0, 0]" by (simp add: numeral_eq_Suc)
  ultimately show ?thesis
    using full by (simp add: read_ipv6_def shown read_given_char_def)
next
  case False
  obtain s l where span: "zero_span 0 (0, 0) (0, 0) g = (s, l)" by fastforce
  have len: "length g = 8" "list_all (\<lambda>n. n < 65536) g" using g by (simp_all add: groups_def)
  note span' = zero_span_zeros[of 0 0 0 0 0 g s l, simplified, OF span]
  show ?thesis
  proof (cases "1 < l")
    case True
    then have sl: "s + l \<le> 8" "take s g @ replicate l 0 @ drop (s + l) g = g"
      using span' rebuild_groups[of s l g] len(1) by auto
    define rest_text where "rest_text = show_groups (drop (s + l) g)"
    have shown: "show_ipv6 g = show_groups (take s g) @ ''::'' @ rest_text"
      using False True span by (simp add: show_ipv6_def rest_text_def)
    have "list_all (\<lambda>n. n < 65536) (take s g)" "list_all (\<lambda>n. n < 65536) (drop (s + l) g)"
      using len(2) by (auto simp: list_all_iff dest: in_set_takeD in_set_dropD)
    then have "read_groups [0..<8] (show_ipv6 g) = (take s g, False, ''::'' @ rest_text)"
      "read_groups [0..<7 - s] rest_text = (drop (s + l) g, False, [])"
      using read_groups_pieces[of "take s g" 0 8 "''::'' @ rest_text"] read_groups_pieces[of "drop (s + l) g" 0 "7 - s" "[]"]
        sl(1) True len(1) by (simp_all add: shown rest_text_def pieces_def stops_def)
    then show ?thesis
      using sl True len(1) by (simp add: read_ipv6_def read_given_char_def)
  next
    case short: False
    then have "show_ipv6 g = show_groups g" using False span by (simp add: show_ipv6_def)
    moreover have "read_groups [0..<8] (show_groups g) = (g, False, [])"
      using read_groups_pieces[of g 0 8 "[]"] len by (simp add: pieces_def stops_def)
    ultimately show ?thesis using len by (simp add: read_ipv6_def)
  qed
qed

section \<open>Round trips\<close>

fun well_formed_ip :: "ip_addr \<Rightarrow> bool" where
  "well_formed_ip (V4 a) \<longleftrightarrow> octets a"
| "well_formed_ip (V6 g) \<longleftrightarrow> groups g"

lemma parse_show_ip:
  assumes "well_formed_ip a" shows "parse_ip (show_ip a) = Some a"
proof (cases a)
  case (V4 b)
  then show ?thesis using assms read_show_ipv4[of b "[]"] by (simp add: parse_ip_def)
next
  case (V6 g)
  have "read_ipv4 (show_ipv6 g) = None"
  proof -
    obtain s l where span: "zero_span 0 (0, 0) (0, 0) g = (s, l)" by fastforce
    have pre: "read_ipv4 (show_groups gs @ r) = None" if "gs \<noteq> [] \<or> ends_group r" "ends_group r" for gs r
    proof (cases gs)
      case (Cons h t)
      then have "show_groups gs @ r = show_hex h @ (pieces 1 t @ r)" by (simp add: show_groups_Cons pieces_def)
      moreover have "ends_group (pieces 1 t @ r)" using that(2) by (cases t) (simp_all add: pieces_def ends_group_def)
      ultimately show ?thesis using no_ipv4[OF is_hex_shown(1)] by simp
    qed (use that(2) no_ipv4[of "[]" r] in \<open>simp add: show_groups_def\<close>)
    have "read_ipv4 (''::'' @ t) = None" for t using no_ipv4[of "[]" "''::'' @ t"] by (simp add: ends_group_def)
    then show ?thesis
      using pre[of g "[]"] pre[of "take s g" "''::'' @ show_groups (drop (s + l) g)"] span
      by (simp add: show_ipv6_def ends_group_def)
  qed
  then show ?thesis using assms V6 read_show_ipv6[of g] by (simp add: parse_ip_def)
qed

text \<open>What is read is well formed.\<close>

lemma read_number_bound: "read_number radix n z b s = Some (v, r) \<Longrightarrow> v < b \<and> (\<exists>p. s = p @ r)"
  by (auto simp: read_number_def split: prod.splits if_splits dest: take_digits_split)

lemma skip_suffix: "skip_separator c i s = Some s1 \<Longrightarrow> \<exists>p. s = p @ s1"
  by (auto simp: skip_separator_def read_given_char_def split: if_splits list.splits)

lemma read_groups_bound:
  "read_groups slots s = (gs, v4, r) \<Longrightarrow> list_all (\<lambda>g. g < 65536) gs \<and> length gs \<le> length slots \<and> (\<exists>p. s = p @ r)"
proof (induction slots arbitrary: s gs v4 r)
  case (Cons i slots)
  show ?case
  proof (cases "skip_separator CHR '':'' i s")
    case (Some s1)
    then obtain p1 where p1: "s = p1 @ s1" using skip_suffix by blast
    show ?thesis
    proof (cases "if slots \<noteq> [] then read_ipv4 s1 else None")
      case (Some a)
      then have ne: "slots \<noteq> []" "read_ipv4 s1 = Some (fst a, snd a)" by (auto split: if_splits)
      then have o: "octets (fst a)" "s1 = show_ipv4 (fst a) @ snd a" using read_ipv4_SomeD by blast+
      then obtain b c d e where a: "fst a = [b, c, d, e]" "b < 256" "c < 256" "d < 256" "e < 256"
        using octets_cases by blast
      have "gs = [b * 256 + c, d * 256 + e]" "r = snd a"
        using Cons.prems \<open>skip_separator CHR '':'' i s = Some s1\<close> ne a(1) by (auto split: prod.splits)
      moreover have "Suc 0 \<le> length slots" using ne(1) by (cases slots) auto
      ultimately show ?thesis using a p1 o(2) by auto
    next
      case None
      show ?thesis
      proof (cases "read_number 16 4 True 65536 s1")
        case (Some n)
        obtain gs' r' where t: "read_groups slots (snd n) = (gs', v4, r')" "gs = fst n # gs'" "r = r'"
          using Cons.prems \<open>skip_separator CHR '':'' i s = Some s1\<close> None Some by (auto split: prod.splits)
        obtain p where "s1 = p @ snd n" "fst n < 65536" using read_number_bound[of 16 4 True 65536 s1 "fst n" "snd n"] Some by auto
        moreover obtain q where "snd n = q @ r'" "list_all (\<lambda>g. g < 65536) gs'" "length gs' \<le> length slots"
          using Cons.IH[OF t(1)] by blast
        ultimately show ?thesis using t p1 by auto
      qed (use Cons.prems None Some in auto)
    qed
  qed (use Cons.prems in auto)
qed auto

lemma read_ipv6_groups: "read_ipv6 s = Some (g, r) \<Longrightarrow> groups g"
proof -
  assume h: "read_ipv6 s = Some (g, r)"
  obtain front v4 r0 where f: "read_groups [0..<8] s = (front, v4, r0)" by (cases "read_groups [0..<8] s") auto
  note f' = read_groups_bound[OF f]
  show ?thesis
  proof (cases "length front = 8")
    case True
    then show ?thesis using h f f' by (simp add: read_ipv6_def groups_def)
  next
    case False
    obtain r2 tl v r3 where b: "read_groups [0..<7 - length front] r2 = (tl, v, r3)"
      and g: "g = front @ replicate (8 - length front - length tl) 0 @ tl"
      using h f False by (auto simp: read_ipv6_def split: if_splits option.splits prod.splits)
    have "length front \<le> 7" using f' False by simp
    then show ?thesis using read_groups_bound[OF b] f' g by (auto simp: groups_def list_all_iff)
  qed
qed

lemma parse_ip_well_formed: "parse_ip s = Some a \<Longrightarrow> well_formed_ip a"
  using read_ipv6_groups by (auto simp: parse_ip_def split: option.splits if_splits prod.splits dest: read_ipv4_SomeD)

text \<open>Without a colon only an IPv4 address reads, and it is its own printed form.\<close>

lemma read_groups_no_colon: "CHR '':'' \<notin> set s \<Longrightarrow> list_all (\<lambda>i. 0 < i) slots \<Longrightarrow> read_groups slots s = ([], False, s)"
  by (cases slots; cases s) (auto simp: skip_separator_def read_given_char_def)

lemma read_ipv6_colon:
  assumes "read_ipv6 s = Some (g, r)" shows "CHR '':'' \<in> set s"
proof (rule ccontr)
  assume c: "CHR '':'' \<notin> set s"
  obtain front v4 r0 where f: "read_groups [0..<8] s = (front, v4, r0)" by (cases "read_groups [0..<8] s") auto
  then obtain p where r0: "s = p @ r0" using read_groups_bound by blast
  have slots: "[0..<8] = 0 # [1..<8]" "list_all (\<lambda>i. 0 < i) [1..<8]" by (simp_all add: upt_conv_Cons list_all_iff)
  have "length front \<le> 2"
  proof (cases "read_ipv4 s")
    case None
    show ?thesis
    proof (cases "read_number 16 4 True 65536 s")
      case (Some n)
      then obtain p where "s = p @ snd n" using read_number_bound[of 16 4 True 65536 s "fst n" "snd n"] by auto
      then have "read_groups [1..<8] (snd n) = ([], False, snd n)" using c by (intro read_groups_no_colon slots(2)) auto
      then show ?thesis using f None Some slots(1) by (auto simp: skip_separator_def split: prod.splits simp del: upt_Suc)
    qed (use f None slots(1) in \<open>auto simp: skip_separator_def simp del: upt_Suc\<close>)
  qed (use f slots(1) in \<open>auto simp: skip_separator_def simp del: upt_Suc\<close>)
  moreover have "read_given_char CHR '':'' r0 = None"
    using c r0 by (cases r0) (auto simp: read_given_char_def)
  ultimately show False using assms f by (auto simp: read_ipv6_def split: if_splits)
qed

lemma show_parse_ip_no_colon:
  assumes "parse_ip s = Some a" "CHR '':'' \<notin> set s" shows "show_ip a = s"
proof (cases "read_ipv4 s")
  case None
  then show ?thesis using assms read_ipv6_colon[of s] by (auto simp: parse_ip_def split: option.splits)
next
  case (Some b)
  then obtain c r where c: "read_ipv4 s = Some (c, r)" by (cases b) auto
  then have "s = show_ipv4 c @ r" "r = []" "a = V4 c"
    using assms(1) read_ipv4_SomeD by (auto simp: parse_ip_def split: if_splits)
  then show ?thesis by simp
qed

end
