(* ===== verification/Probes.thy ===== *)
theory Probes
  imports Dashboard Exact_Persistence Env_Config App_Error Ip_Print "HOL-Library.Multiset"
begin

text \<open>
  Latency probes: their targets in the database (\<open>db/mod.rs\<close>) and in memory, the requests that
  replace them (\<open>api/probes.rs\<close>), a batch of pings and its verdict (\<open>poller/engine.rs\<close>).  The
  network is an argument: the name service, whether an ICMP socket opens and each echo's round
  trip in nanoseconds.
\<close>

section \<open>Stored targets\<close>

record probe_target_row =
  pt_id :: int
  pt_name :: string
  pt_host :: string
  pt_category :: string
  pt_sort_order :: int

text \<open>The table and the last identifier it gave out; an identifier is never given twice.\<close>

record probe_db =
  pb_rows :: "probe_target_row list"
  pb_last_id :: int

definition query_probe_targets :: "probe_db \<Rightarrow> probe_target_row list" where
  "query_probe_targets db = sort_key (\<lambda>r. (pt_sort_order r, pt_id r)) (pb_rows db)"

definition insert_target :: "string \<times> string \<times> string \<times> int \<Rightarrow> probe_db \<Rightarrow> probe_db" where
  "insert_target t db = (case t of (name, host, category, order) \<Rightarrow>
     db\<lparr>pb_rows := pb_rows db @ [\<lparr>pt_id = pb_last_id db + 1, pt_name = name, pt_host = host,
          pt_category = category, pt_sort_order = order\<rparr>],
        pb_last_id := pb_last_id db + 1\<rparr>)"

definition replace_all_probe_targets ::
  "probe_target_row list \<Rightarrow> probe_db \<Rightarrow> probe_target_row list \<times> probe_db" where
  "replace_all_probe_targets targets db =
     (let db1 = db\<lparr>pb_rows := []\<rparr>;
          db2 = fold (\<lambda>t. insert_target (pt_name t, pt_host t, pt_category t, pt_sort_order t)) targets db1
      in (query_probe_targets db2, db2))"

definition insert_default_probe_targets :: "probe_db \<Rightarrow> probe_db" where
  "insert_default_probe_targets db =
     fold (\<lambda>(i, (name, host, category)). insert_target (name, host, category, int i))
       (enumerate 0 (default_latency_probe_targets [])) db"

definition reset_probe_targets :: "probe_db \<Rightarrow> probe_target_row list \<times> probe_db" where
  "reset_probe_targets db =
     (let db1 = insert_default_probe_targets (db\<lparr>pb_rows := []\<rparr>) in (query_probe_targets db1, db1))"

definition seed_default_probe_targets :: "probe_db \<Rightarrow> probe_db" where
  "seed_default_probe_targets db = (if pb_rows db \<noteq> [] then db else insert_default_probe_targets db)"

section \<open>Requests\<close>

definition MAX_PROBE_TARGETS :: nat where "MAX_PROBE_TARGETS = 32"
definition MAX_PROBE_NAME_CHARS :: nat where "MAX_PROBE_NAME_CHARS = 64"
definition MAX_PROBE_HOST_BYTES :: nat where "MAX_PROBE_HOST_BYTES = 253"

definition PROBE_CATEGORIES :: "string list" where
  "PROBE_CATEGORIES = [''dns'', ''cloud'', ''cdn'', ''repo'', ''isp'', ''custom'']"

definition is_ascii_alphanumeric :: "char \<Rightarrow> bool" where
  "is_ascii_alphanumeric c \<longleftrightarrow> (let n = (of_char c :: nat) in
     (48 \<le> n \<and> n \<le> 57) \<or> (65 \<le> n \<and> n \<le> 90) \<or> (97 \<le> n \<and> n \<le> 122))"

definition valid_label :: "string \<Rightarrow> bool" where
  "valid_label l \<longleftrightarrow> l \<noteq> [] \<and> length l \<le> 63 \<and> list_all (\<lambda>c. is_ascii_alphanumeric c \<or> c = CHR ''-'') l \<and>
     is_ascii_alphanumeric (hd l) \<and> is_ascii_alphanumeric (last l)"

definition strip_dot :: "string \<Rightarrow> string" where
  "strip_dot s = (if s \<noteq> [] \<and> last s = CHR ''.'' then butlast s else s)"

definition normalize_probe_host :: "string \<Rightarrow> string option" where
  "normalize_probe_host host =
     (if host = [] \<or> MAX_PROBE_HOST_BYTES < length host then None
      else case parse_ip host of
        Some address \<Rightarrow> Some (show_ip address)
      | None \<Rightarrow>
          let hostname = strip_dot host in
          if hostname = [] \<or> \<not> list_all valid_label (split_char CHR ''.'' hostname) then None
          else Some (to_lowercase hostname))"

record probe_target_input =
  pi_name :: string
  pi_host :: string
  pi_category :: string

text \<open>\<open>chars().count()\<close>: the bytes that start a character.\<close>

definition chars_count :: "string \<Rightarrow> nat" where
  "chars_count s = length (filter (\<lambda>c. \<not> continuation c) s)"

definition probe_error :: "nat \<Rightarrow> string \<Rightarrow> app_error" where
  "probe_error index rest = InvalidData (''probe target '' @ show_nat (index + 1) @ rest)"

definition validate_probe_target ::
  "nat \<Rightarrow> string list \<Rightarrow> probe_target_input \<Rightarrow> app_error + probe_target_row" where
  "validate_probe_target index hosts target =
     (let name = trim (pi_name target) in
      if name = [] \<or> MAX_PROBE_NAME_CHARS < chars_count name
      then Inl (probe_error index '' name must contain 1..=64 characters'')
      else and_then (ok_or (probe_error index
          '' host must be an IP address or valid DNS hostname up to 253 bytes'')
          (normalize_probe_host (trim (pi_host target)))) (\<lambda>host.
        if host \<in> set hosts then Inl (probe_error index ('' duplicates host '' @ quoted host))
        else let category = trim (pi_category target) in
          if category \<notin> set PROBE_CATEGORIES
          then Inl (probe_error index '' category is not supported'')
          else Inr \<lparr>pt_id = 0, pt_name = name, pt_host = host, pt_category = category,
            pt_sort_order = int index\<rparr>))"

fun validate_each :: "nat \<Rightarrow> string list \<Rightarrow> probe_target_input list \<Rightarrow> app_error + probe_target_row list" where
  "validate_each index hosts [] = Inr []"
| "validate_each index hosts (t # ts) =
     and_then (validate_probe_target index hosts t) (\<lambda>row.
     and_then (validate_each (index + 1) (pt_host row # hosts) ts) (\<lambda>rows. Inr (row # rows)))"

definition validate_probe_targets :: "probe_target_input list \<Rightarrow> app_error + probe_target_row list" where
  "validate_probe_targets targets =
     (if targets = [] then Inl (InvalidData ''at least one probe target is required'')
      else if MAX_PROBE_TARGETS < length targets
      then Inl (InvalidData ''probe targets cannot exceed 32 entries'')
      else validate_each 0 [] targets)"

text \<open>The table and the list the poller reads, which a request keeps locked while it stores.\<close>

record probe_state =
  ps_db :: probe_db
  ps_live :: "(string \<times> string \<times> string) list"

definition runtime_probe_targets :: "probe_target_row list \<Rightarrow> (string \<times> string \<times> string) list" where
  "runtime_probe_targets rows = map (\<lambda>r. (pt_name r, pt_host r, pt_category r)) rows"

definition list_probes :: "probe_state \<Rightarrow> probe_target_row list" where
  "list_probes st = query_probe_targets (ps_db st)"

definition update_probes ::
  "probe_target_input list \<Rightarrow> probe_state \<Rightarrow> (app_error + probe_target_row list) \<times> probe_state" where
  "update_probes body st = (case validate_probe_targets body of
      Inl e \<Rightarrow> (Inl e, st)
    | Inr rows \<Rightarrow> (case replace_all_probe_targets rows (ps_db st) of (stored, db) \<Rightarrow>
        (Inr stored, \<lparr>ps_db = db, ps_live = runtime_probe_targets stored\<rparr>)))"

definition reset_probes :: "probe_state \<Rightarrow> (app_error + probe_target_row list) \<times> probe_state" where
  "reset_probes st = (case reset_probe_targets (ps_db st) of (stored, db) \<Rightarrow>
     (Inr stored, \<lparr>ps_db = db, ps_live = runtime_probe_targets stored\<rparr>))"

text \<open>What the server loads when it starts, and the requests between two starts.\<close>

definition start_probes :: "probe_db \<Rightarrow> probe_state" where
  "start_probes db = (let db1 = seed_default_probe_targets db in
     \<lparr>ps_db = db1, ps_live = runtime_probe_targets (query_probe_targets db1)\<rparr>)"

datatype probe_action = UpdateProbes "probe_target_input list" | ResetProbes | RestartProbes

fun probe_step :: "probe_action \<Rightarrow> probe_state \<Rightarrow> probe_state" where
  "probe_step (UpdateProbes body) st = snd (update_probes body st)"
| "probe_step ResetProbes st = snd (reset_probes st)"
| "probe_step RestartProbes st = start_probes (ps_db st)"

section \<open>One target\<close>

record network =
  nw_lookup :: "string \<Rightarrow> ip_addr list option"
  nw_socket :: "ip_addr \<Rightarrow> bool"
  nw_echo :: "ip_addr \<Rightarrow> nat \<Rightarrow> nat option"

definition PING_COUNT :: nat where "PING_COUNT = 3"

fun is_v4 :: "ip_addr \<Rightarrow> bool" where
  "is_v4 (V4 _) \<longleftrightarrow> True"
| "is_v4 (V6 _) \<longleftrightarrow> False"

definition resolve_host :: "network \<Rightarrow> string \<Rightarrow> ip_addr option" where
  "resolve_host nw host = (case parse_ip host of
      Some ip \<Rightarrow> Some ip
    | None \<Rightarrow> (case nw_lookup nw host of
        None \<Rightarrow> None
      | Some addrs \<Rightarrow> (case find is_v4 addrs of
          Some ip \<Rightarrow> Some ip
        | None \<Rightarrow> find (\<lambda>a. \<not> is_v4 a) addrs)))"

definition rtt_ms :: "nat \<Rightarrow> f64" where
  "rtt_ms nanos = f64_mul (as_secs_f64 nanos) (f64_of_int 1000)"

definition send_n_pings :: "network \<Rightarrow> ip_addr \<Rightarrow> f64 list" where
  "send_n_pings nw ip = map rtt_ms (List.map_filter (nw_echo nw ip) [0..<PING_COUNT])"

definition classify_latency :: "f64 \<Rightarrow> f64 \<Rightarrow> f64 \<Rightarrow> string" where
  "classify_latency ms good_ms poor_ms =
     (if f64_less ms good_ms then ''good'' else if f64_less ms poor_ms then ''moderate'' else ''poor'')"

definition probe_result :: "string \<times> string \<times> string \<Rightarrow> f64 option \<Rightarrow> string \<Rightarrow> latency_probe" where
  "probe_result t latency status = (case t of (name, host, category) \<Rightarrow>
     \<lparr>lp_target = name, lp_host = host, lp_latency_ms = latency, lp_status = status, lp_category = category\<rparr>)"

definition probe_one :: "network \<Rightarrow> f64 \<Rightarrow> f64 \<Rightarrow> string \<times> string \<times> string \<Rightarrow> latency_probe" where
  "probe_one nw good_ms poor_ms t = (case resolve_host nw (fst (snd t)) of
      None \<Rightarrow> probe_result t None ''down''
    | Some ip \<Rightarrow>
        if \<not> nw_socket nw ip then probe_result t None ''unknown''
        else let latencies = send_n_pings nw ip; success = length latencies in
          if PING_COUNT div 2 < success
          then let avg_ms = f64_div (foldl f64_add (Finite 0) latencies) (f64_of_int (int success)) in
            probe_result t (Some avg_ms) (classify_latency avg_ms good_ms poor_ms)
          else probe_result t None ''down'')"

section \<open>A batch\<close>

text \<open>The answers come in the order in which the pings end, each with the place of its target.\<close>

definition run_probe_futures ::
  "(string \<times> string \<times> string \<Rightarrow> latency_probe) \<Rightarrow> nat list \<Rightarrow> (string \<times> string \<times> string) list \<Rightarrow> latency_probe list" where
  "run_probe_futures probe completed targets =
     (let ts = take MAX_PROBE_TARGETS targets;
          results = map (\<lambda>index. (index, probe (ts ! index))) completed in
      map snd (sort_key fst results))"

definition run_icmp_probes ::
  "network \<Rightarrow> f64 \<Rightarrow> f64 \<Rightarrow> nat list \<Rightarrow> (string \<times> string \<times> string) list \<Rightarrow> latency_probe list" where
  "run_icmp_probes nw good_ms poor_ms completed targets =
     run_probe_futures (probe_one nw good_ms poor_ms) completed targets"

datatype probe_quality = Good | Degraded | Down

definition classify_probe_quality :: "latency_probe list \<Rightarrow> probe_quality" where
  "classify_probe_quality results =
     (let total = length results in
      if total = 0 then Good
      else
        let reachable = length (filter (\<lambda>r. lp_latency_ms r \<noteq> None) results);
            down_count = total - reachable;
            poor_count = length (filter (\<lambda>r. lp_status r = ''poor'') results);
            problem_count = poor_count + down_count in
        if reachable = 0 \<or> total div 2 < down_count then Down
        else if total div 3 < problem_count then Degraded
        else Good)"

text \<open>The history of verdicts and the last results.  An interval of zero seconds would end the
  step with a panic after the verdict is recorded; the run loop goes on.\<close>

definition max_entries :: "u64 \<Rightarrow> nat" where
  "max_entries probe_interval = max 10 (min 120 (30 * 60 div unat probe_interval))"

definition record_probe_results ::
  "u64 \<Rightarrow> latency_probe list \<Rightarrow> probe_quality list \<times> latency_probe list \<Rightarrow> probe_quality list \<times> latency_probe list" where
  "record_probe_results probe_interval results h = (case h of (history, last_results) \<Rightarrow>
     let pushed = history @ [classify_probe_quality results] in
     if probe_interval = 0 then (pushed, last_results)
     else (drop (length pushed - max_entries probe_interval) pushed, results))"

section \<open>Stability\<close>

text \<open>\<open>format!("{:.1}")\<close> of a non-negative number: its exact value to one decimal, ties to even.\<close>

definition show_one_decimal :: "f64 \<Rightarrow> string" where
  "show_one_decimal x = (case x of
      Finite r \<Rightarrow> let tenths = nat (round_half_even (r * 10)) in
        show_nat (tenths div 10) @ ''.'' @ show_nat (tenths mod 10)
    | Infinite s \<Rightarrow> if s then ''-inf'' else ''inf''
    | NaN \<Rightarrow> ''NaN'')"

definition build_stability :: "probe_quality list \<Rightarrow> u64 \<Rightarrow> isp_stability" where
  "build_stability history probe_interval =
     (if history = []
      then \<lparr>st_online_rate = f64_of_int 100,
        st_segments = [\<lparr>sg_color = ''#22c55e'', sg_value = f64_of_int 30, sg_label = Some ''100%''\<rparr>],
        st_window_minutes = 30\<rparr>
      else
        let total = f64_of_int (int (length history));
            good = f64_of_int (int (count_list history Good));
            degraded = f64_of_int (int (count_list history Degraded));
            down = f64_of_int (int (count_list history Down));
            online_rate = f64_mul (f64_div (f64_add good degraded) total) (f64_of_int 100);
            window = as_u32 (max 1 (unat (of_nat (length history) * probe_interval) div 60)) in
        \<lparr>st_online_rate = online_rate,
         st_segments =
           [\<lparr>sg_color = ''#22c55e'', sg_value = good, sg_label = Some (show_one_decimal online_rate @ ''%'')\<rparr>,
            \<lparr>sg_color = ''#f59e0b'', sg_value = degraded,
              sg_label = if f64_less (Finite 0) degraded
                then Some (show_nat (count_list history Degraded)) else None\<rparr>,
            \<lparr>sg_color = ''#6b7280'', sg_value = down, sg_label = None\<rparr>],
         st_window_minutes = window\<rparr>)"

end
