(* ===== verification/Probe_Facts.thy ===== *)
theory Probe_Facts
  imports Probes Contracts
begin

text \<open>
  The probe targets in memory are those of the database, and a list of targets that was accepted
  once is accepted again as it is: host names and addresses are stored in a normal form.
\<close>

section \<open>Normal forms\<close>

lemma trim_idem [simp]: "trim (trim s) = trim s"
proof -
  define t where "t = dropWhile is_whitespace s"
  have "dropWhile is_whitespace (rev (dropWhile is_whitespace (rev t))) = rev (dropWhile is_whitespace (rev t))"
  proof (cases "dropWhile is_whitespace (rev t) = []")
    case False
    have "t = rev (dropWhile is_whitespace (rev t)) @ rev (takeWhile is_whitespace (rev t))"
      by (metis rev_append rev_rev_ident takeWhile_dropWhile_id)
    then have "hd (rev (dropWhile is_whitespace (rev t))) = hd t" "t \<noteq> []" using False by (metis hd_append rev_is_Nil_conv, auto)
    moreover have "\<not> is_whitespace (hd t)" using \<open>t \<noteq> []\<close> hd_dropWhile unfolding t_def by blast
    ultimately show ?thesis
      using False by (cases "rev (dropWhile is_whitespace (rev t))") auto
  qed (simp del: dropWhile_eq_Nil_conv)
  then show ?thesis by (simp add: trim_def dropWhile_idem flip: t_def)
qed

lemma to_ascii_lower_idem [simp]: "to_ascii_lower (to_ascii_lower c) = to_ascii_lower c"
  by (auto simp: to_ascii_lower_def Let_def)

lemma to_lowercase_idem [simp]: "to_lowercase (to_lowercase s) = to_lowercase s"
  by (simp add: to_lowercase_def)

lemma lower_symbol: "of_char c < (65::nat) \<Longrightarrow> to_ascii_lower d = c \<longleftrightarrow> d = c"
  by (auto simp: to_ascii_lower_def Let_def)

lemma lower_alphanumeric [simp]: "is_ascii_alphanumeric (to_ascii_lower c) = is_ascii_alphanumeric c"
  by (auto simp: to_ascii_lower_def is_ascii_alphanumeric_def Let_def)

lemma split_lowercase: "split_char CHR ''.'' (to_lowercase s) = map to_lowercase (split_char CHR ''.'' s)"
  by (induction s) (auto simp: to_lowercase_def lower_symbol split: list.split)

lemma valid_label_lowercase: "valid_label l \<Longrightarrow> valid_label (to_lowercase l)"
  by (auto simp: valid_label_def to_lowercase_def list_all_iff hd_map last_map lower_symbol)

lemma split_char_concat: "concat (split_char c s) = filter (\<lambda>x. x \<noteq> c) s"
  by (induction s) (auto split: list.split)

lemma split_char_ends: "[] \<in> set (tl (split_char c (t @ [c])))"
proof (induction t)
  case (Cons x t)
  then show ?case by (cases "split_char c (t @ [c])") auto
qed simp

lemma valid_label_no_colon: "valid_label l \<Longrightarrow> CHR '':'' \<notin> set l"
proof
  assume "valid_label l" "CHR '':'' \<in> set l"
  then have "is_ascii_alphanumeric CHR '':'' \<or> CHR '':'' = CHR ''-''" unfolding valid_label_def list_all_iff by blast
  then show False by (simp add: is_ascii_alphanumeric_def)
qed

lemma hostname_chars:
  assumes "list_all valid_label (split_char CHR ''.'' s)"
  shows "CHR '':'' \<notin> set s" "s \<noteq> [] \<Longrightarrow> last s \<noteq> CHR ''.''"
proof -
  have "\<forall>x \<in> set (concat (split_char CHR ''.'' s)). x \<noteq> CHR '':''"
    using assms valid_label_no_colon unfolding list_all_iff set_concat by blast
  then show "CHR '':'' \<notin> set s" unfolding split_char_concat by auto
  show "last s \<noteq> CHR ''.''" if ne: "s \<noteq> []"
  proof
    assume "last s = CHR ''.''"
    then obtain t where "s = t @ [CHR ''.'']" using ne by (metis append_butlast_last_id)
    then have "[] \<in> set (split_char CHR ''.'' s)" using split_char_ends[of "CHR ''.''" t] list.set_sel(2)[OF split_char_nonempty] by metis
    then have "valid_label []" using assms unfolding list_all_iff by blast
    then show False by (simp add: valid_label_def)
  qed
qed

lemma length_show_ipv4: "octets a \<Longrightarrow> length (show_ipv4 a) \<le> 15"
proof -
  assume "octets a"
  then obtain p q r s where "a = [p, q, r, s]" "p < 256" "q < 256" "r < 256" "s < 256" using octets_cases by blast
  then show ?thesis
    using length_show_nat[of p 2] length_show_nat[of q 2] length_show_nat[of r 2] length_show_nat[of s 2]
    by (simp add: show_ipv4_four)
qed

lemma length_show_groups: "list_all (\<lambda>n. n < 65536) gs \<Longrightarrow> length (show_groups gs) \<le> 5 * length gs"
proof -
  have pieces: "list_all (\<lambda>n. n < 65536) gs \<Longrightarrow> length (concat (map (\<lambda>g. CHR '':'' # show_hex g) gs)) \<le> 5 * length gs" for gs
  proof (induction gs)
    case (Cons g gs)
    then show ?case using length_show_hex[of g 3] by simp
  qed simp
  assume "list_all (\<lambda>n. n < 65536) gs"
  then show ?thesis
    using pieces[of "tl gs"] length_show_hex[of "hd gs" 3] by (cases gs) (simp_all add: show_groups_Cons, simp add: show_groups_def)
qed

lemma length_show_ip: "well_formed_ip a \<Longrightarrow> length (show_ip a) \<le> 100"
proof (cases a)
  case (V6 g)
  assume "well_formed_ip a"
  then have g: "length g = 8" "list_all (\<lambda>n. n < 65536) g" using V6 by (simp_all add: groups_def)
  have part: "length (show_groups h) \<le> 40" if "set h \<subseteq> set g" "length h \<le> 8" for h
    using length_show_groups[of h] g(2) that by (auto simp: list_all_iff subset_iff)
  have "octets [g ! 6 div 256, g ! 6 mod 256, g ! 7 div 256, g ! 7 mod 256]"
  proof -
    have "g ! 6 < 65536" "g ! 7 < 65536" using g by (simp_all add: list_all_length)
    then show ?thesis by (simp add: octets_def div_less_iff_less_mult)
  qed
  note v4 = length_show_ipv4[OF this]
  obtain s l where span: "zero_span 0 (0, 0) (0, 0) g = (s, l)" by fastforce
  have "length (show_groups (take s g)) + length (show_groups (drop (s + l) g)) \<le> 40 + 40"
    using g(1) by (intro add_le_mono part) (auto simp: set_take_subset set_drop_subset)
  then show ?thesis using V6 v4 span part[of g] g(1) by (simp add: show_ipv6_def)
qed (use length_show_ipv4 in fastforce)

lemma normalize_idem:
  assumes "normalize_probe_host h = Some h'"
  shows "normalize_probe_host h' = Some h'"
proof (cases "parse_ip h")
  case (Some a)
  then have h': "h' = show_ip a" and w: "well_formed_ip a"
    using assms parse_ip_well_formed by (auto simp: normalize_probe_host_def split: if_splits)
  note again = parse_show_ip[OF w]
  have "parse_ip [] = None"
    using no_ipv4[of "[]" "[]"] read_groups_stop[of "[]" "[0..<8]"]
    by (simp add: parse_ip_def read_ipv6_def read_given_char_def ends_group_def stops_def)
  then have "show_ip a \<noteq> []" using again by auto
  moreover have "length (show_ip a) \<le> MAX_PROBE_HOST_BYTES"
    using length_show_ip[OF w] by (simp add: MAX_PROBE_HOST_BYTES_def)
  ultimately show ?thesis using again h' by (simp add: normalize_probe_host_def)
next
  case None
  define hn where "hn = strip_dot h"
  have h: "hn \<noteq> []" "list_all valid_label (split_char CHR ''.'' hn)" "h' = to_lowercase hn"
    "length h \<le> MAX_PROBE_HOST_BYTES"
    using assms None by (auto simp: normalize_probe_host_def hn_def Let_def split: if_splits)
  have valid: "list_all valid_label (split_char CHR ''.'' h')"
    using h(2) valid_label_lowercase by (auto simp: h(3) split_lowercase list_all_iff)
  have ne: "h' \<noteq> []" "length h' \<le> MAX_PROBE_HOST_BYTES"
    using h(1,4) by (auto simp: h(3) to_lowercase_def hn_def strip_dot_def split: if_splits)
  note chars = hostname_chars[OF valid]
  show ?thesis
    using ne valid chars h(3) show_parse_ip_no_colon[OF _ chars(1)]
    by (auto simp: normalize_probe_host_def strip_dot_def split: option.split)
qed

lemma label_no_space: "valid_label l \<Longrightarrow> c \<in> set l \<Longrightarrow> \<not> is_whitespace (to_ascii_lower c)"
proof -
  assume "valid_label l" "c \<in> set l"
  then have "is_ascii_alphanumeric c \<or> c = CHR ''-''" unfolding valid_label_def list_all_iff by blast
  then show ?thesis by (auto simp: is_ascii_alphanumeric_def is_whitespace_def to_ascii_lower_def Let_def)
qed

lemma normalized_no_space: "normalize_probe_host h = Some h' \<Longrightarrow> list_all (\<lambda>c. \<not> is_whitespace c) h'"
proof (cases "parse_ip h")
  case (Some a)
  assume n: "normalize_probe_host h = Some h'"
  have nat: "list_all (\<lambda>c. \<not> is_whitespace c) (show_nat n)" for n
    using show_nat_digits[of n] by (auto simp: list_all_iff is_ascii_digit_def is_whitespace_def)
  have v4: "list_all (\<lambda>c. \<not> is_whitespace c) (show_ipv4 b)" if "octets b" for b
    using octets_cases[OF that] nat by (auto simp: show_ipv4_four) (simp_all add: is_whitespace_def)
  have hex: "list_all (\<lambda>c. \<not> is_whitespace c) (show_hex n)" for n
    using is_hex_shown(1)[of n] by (auto simp: list_all_iff is_hex_def hex_digit_def is_whitespace_def Let_def)
  have gs: "list_all (\<lambda>c. \<not> is_whitespace c) (show_groups g)" for g
  proof (cases g)
    case (Cons k ks)
    have "list_all (\<lambda>c. \<not> is_whitespace c) (concat (map (\<lambda>g. CHR '':'' # show_hex g) ks))"
      using hex by (induction ks) (simp_all, simp add: is_whitespace_def)
    then show ?thesis using hex Cons by (simp add: show_groups_Cons)
  qed (simp add: show_groups_def)
  have w: "well_formed_ip a" using Some by (rule parse_ip_well_formed)
  have "list_all (\<lambda>c. \<not> is_whitespace c) (show_ip a)"
  proof (cases a)
    case (V6 g)
    have "octets [g ! 6 div 256, g ! 6 mod 256, g ! 7 div 256, g ! 7 mod 256]"
    proof -
      have "g ! 6 < 65536" "g ! 7 < 65536" using V6 w by (simp_all add: groups_def list_all_length)
      then show ?thesis by (simp add: octets_def div_less_iff_less_mult)
    qed
    then show ?thesis
      using V6 v4 gs by (simp add: show_ipv6_def split: prod.split) (simp add: is_whitespace_def)
  qed (use v4 w in simp)
  then show ?thesis using n Some by (auto simp: normalize_probe_host_def split: if_splits)
next
  case None
  assume "normalize_probe_host h = Some h'"
  then obtain hn where "list_all valid_label (split_char CHR ''.'' hn)" "h' = to_lowercase hn"
    using None by (auto simp: normalize_probe_host_def Let_def split: if_splits)
  moreover have "\<forall>c \<in> set (concat (split_char CHR ''.'' hn)). \<not> is_whitespace (to_ascii_lower c)"
    using calculation(1) label_no_space unfolding list_all_iff set_concat by blast
  moreover have "\<not> is_whitespace (to_ascii_lower CHR ''.'')" by (simp add: is_whitespace_def to_ascii_lower_def)
  ultimately show ?thesis unfolding split_char_concat to_lowercase_def list_all_iff by fastforce
qed

section \<open>Accepted lists\<close>

definition input_of :: "probe_target_row \<Rightarrow> probe_target_input" where
  "input_of r = \<lparr>pi_name = pt_name r, pi_host = pt_host r, pi_category = pt_category r\<rparr>"

lemma dropWhile_none: "list_all (\<lambda>x. \<not> P x) xs \<Longrightarrow> dropWhile P xs = xs"
  by (cases xs) auto

lemma list_all_rev: "list_all P (rev xs) = list_all P xs"
  by (simp add: list_all_iff)

lemma validate_probe_target_again:
  assumes "validate_probe_target i hosts t = Inr r"
  shows "validate_probe_target i hosts (input_of r) = Inr r \<and> pt_id r = 0 \<and> pt_sort_order r = int i \<and>
    pt_host r \<notin> set hosts"
proof -
  obtain h where h: "normalize_probe_host (trim (pi_host t)) = Some h"
    and r: "r = \<lparr>pt_id = 0, pt_name = trim (pi_name t), pt_host = h, pt_category = trim (pi_category t), pt_sort_order = int i\<rparr>"
    and ok: "trim (pi_name t) \<noteq> []" "chars_count (trim (pi_name t)) \<le> MAX_PROBE_NAME_CHARS" "h \<notin> set hosts"
      "trim (pi_category t) \<in> set PROBE_CATEGORIES"
    using assms by (auto simp: validate_probe_target_def Let_def result_simps split: if_splits)
  have "h = trim h" using normalized_no_space[OF h] by (simp add: trim_def dropWhile_none list_all_rev)
  then show ?thesis
    using normalize_idem[OF h] r ok by (simp add: validate_probe_target_def input_of_def)
qed

text \<open>Validating a list that was accepted gives the same rows; the identifiers do not matter.\<close>

definition unnumbered :: "probe_target_row \<Rightarrow> probe_target_row" where
  "unnumbered r = r\<lparr>pt_id := 0\<rparr>"

lemma validate_each_again:
  "validate_each i hosts ts = Inr rows \<Longrightarrow> validate_each i hosts (map input_of rows) = Inr rows \<and>
     map unnumbered rows = rows \<and> map pt_sort_order rows = map int [i..<i + length rows] \<and>
     distinct (map pt_host rows) \<and> set (map pt_host rows) \<inter> set hosts = {} \<and> length rows = length ts"
proof (induction i hosts ts arbitrary: rows rule: validate_each.induct)
  case (2 i hosts t ts)
  obtain r rs where r: "validate_probe_target i hosts t = Inr r"
    and rs: "validate_each (i + 1) (pt_host r # hosts) ts = Inr rs" and rows: "rows = r # rs"
    using 2(2) by (auto simp: result_simps)
  note r' = validate_probe_target_again[OF r] and rs' = 2(1)[OF rs]
  have "[i..<i + length rows] = i # [i + 1..<i + 1 + length rs]" by (subst upt_conv_Cons) (simp_all add: rows)
  then show ?case using r' rs' by (auto simp: rows unnumbered_def simp del: upt_Suc)
qed simp

lemma validate_again:
  "validate_probe_targets ts = Inr rows \<Longrightarrow> validate_probe_targets (map input_of rows) = Inr rows \<and>
     map unnumbered rows = rows \<and> map pt_sort_order rows = map int [0..<length rows] \<and>
     distinct (map pt_host rows) \<and> rows \<noteq> [] \<and> length rows \<le> MAX_PROBE_TARGETS"
  using validate_each_again[of 0 "[]" ts rows] by (auto simp: validate_probe_targets_def split: if_splits)

section \<open>The table\<close>

definition numbered :: "probe_db \<Rightarrow> bool" where
  "numbered db \<longleftrightarrow> sorted_wrt (<) (map pt_id (pb_rows db)) \<and> (\<forall>r \<in> set (pb_rows db). pt_id r \<le> pb_last_id db)"

definition row_of :: "string \<times> string \<times> string \<times> int \<Rightarrow> probe_target_row" where
  "row_of t = (case t of (name, host, category, order) \<Rightarrow>
     \<lparr>pt_id = 0, pt_name = name, pt_host = host, pt_category = category, pt_sort_order = order\<rparr>)"

lemma insert_targets:
  "numbered db \<Longrightarrow> numbered (fold insert_target ts db) \<and>
     map unnumbered (pb_rows (fold insert_target ts db)) = map unnumbered (pb_rows db) @ map row_of ts"
proof (induction ts arbitrary: db)
  case (Cons t ts)
  have "numbered (insert_target t db)"
    using Cons.prems by (fastforce simp: numbered_def insert_target_def sorted_wrt_append split: prod.split)
  moreover have "map unnumbered (pb_rows (insert_target t db)) = map unnumbered (pb_rows db) @ [row_of t]"
    by (simp add: insert_target_def unnumbered_def row_of_def split: prod.split)
  ultimately show ?case using Cons.IH by simp
qed simp

lemma query_in_order:
  assumes "map pt_sort_order (pb_rows db) = map int [0..<n]"
  shows "query_probe_targets db = pb_rows db"
proof -
  have "sorted_wrt (\<lambda>a b. pt_sort_order a < pt_sort_order b) (pb_rows db)"
    using arg_cong[OF assms, of "sorted_wrt (<)"] by (simp add: sorted_wrt_map)
  then have "sorted (map (\<lambda>r. (pt_sort_order r, pt_id r)) (pb_rows db))"
    unfolding sorted_wrt_map by (rule sorted_wrt_mono_rel[rotated]) (simp add: less_eq_prod_def)
  then show ?thesis unfolding query_probe_targets_def by (rule sort_key_id_if_sorted)
qed

section \<open>The default targets\<close>

definition default_tuples :: "(string \<times> string \<times> string \<times> int) list" where
  "default_tuples = map (\<lambda>(i, (name, host, category)). (name, host, category, int i))
     (enumerate 0 (default_latency_probe_targets []))"

lemma normalize_shown: "well_formed_ip a \<Longrightarrow> show_ip a = h \<Longrightarrow> h \<noteq> [] \<Longrightarrow> normalize_probe_host h = Some h"
  using parse_show_ip[of a] length_show_ip[of a] by (auto simp: normalize_probe_host_def MAX_PROBE_HOST_BYTES_def)

definition plain_host :: "string \<Rightarrow> bool" where
  "plain_host h \<longleftrightarrow> CHR '':'' \<notin> set h \<and> h \<noteq> [] \<and> length h \<le> 100 \<and>
     (case read_ipv4 h of Some (a, r) \<Rightarrow> r = []
      | None \<Rightarrow> strip_dot h = h \<and> list_all valid_label (split_char CHR ''.'' h) \<and> to_lowercase h = h)"

lemma normalize_plain: "plain_host h \<Longrightarrow> normalize_probe_host h = Some h"
proof (cases "read_ipv4 h")
  case None
  assume p: "plain_host h"
  then have "read_ipv6 h = None" using read_ipv6_colon[of h] by (cases "read_ipv6 h") (auto simp: plain_host_def)
  then have "parse_ip h = None" using None by (simp add: parse_ip_def)
  then show ?thesis using p None by (simp add: plain_host_def normalize_probe_host_def MAX_PROBE_HOST_BYTES_def)
next
  case (Some b)
  assume p: "plain_host h"
  obtain a r where "b = (a, r)" by fastforce
  then have "parse_ip h = Some (V4 a)" using p Some by (simp add: plain_host_def parse_ip_def)
  then show ?thesis
    using p show_parse_ip_no_colon[of h "V4 a"] by (simp add: plain_host_def normalize_probe_host_def MAX_PROBE_HOST_BYTES_def)
qed

lemma hex_letters:
  "hex_char 10 = CHR ''a''" "hex_char 11 = CHR ''b''" "hex_char 12 = CHR ''c''" "hex_char 14 = CHR ''e''" "hex_char 15 = CHR ''f''"
  "hex_char 0 = CHR ''0''" "hex_char 1 = CHR ''1''" "hex_char 2 = CHR ''2''" "hex_char 4 = CHR ''4''"
  "hex_char 6 = CHR ''6''" "hex_char 7 = CHR ''7''" "hex_char 8 = CHR ''8''"
  by code_simp+

lemma default_ipv6:
  "show_ip (V6 [0x2606, 0x4700, 0x4700, 0, 0, 0, 0, 0x1111]) = ''2606:4700:4700::1111''"
  "show_ip (V6 [0x2001, 0x4860, 0x4860, 0, 0, 0, 0, 0x8888]) = ''2001:4860:4860::8888''"
  "show_ip (V6 [0x2620, 0xfe, 0, 0, 0, 0, 0, 0xfe]) = ''2620:fe::fe''"
  by (simp_all add: show_ipv6_def show_groups_def show_hex.simps hex_letters hex_letters[simplified])

lemma default_hosts:
  "list_all (\<lambda>t. normalize_probe_host (trim (fst (snd t))) = Some (fst (snd t))) (default_latency_probe_targets [])"
proof -
  have "list_all (\<lambda>t. trim (fst (snd t)) = fst (snd t)) (default_latency_probe_targets [])"
    "list_all (\<lambda>t. plain_host (fst (snd t)) \<or>
       fst (snd t) \<in> set [''2606:4700:4700::1111'', ''2001:4860:4860::8888'', ''2620:fe::fe'']) (default_latency_probe_targets [])"
    by code_simp+
  moreover have "normalize_probe_host h = Some h" if "h \<in> set [''2606:4700:4700::1111'', ''2001:4860:4860::8888'', ''2620:fe::fe'']" for h
    using that normalize_shown[OF _ default_ipv6(1)] normalize_shown[OF _ default_ipv6(2)] normalize_shown[OF _ default_ipv6(3)]
    by (auto simp: groups_def)
  ultimately show ?thesis using normalize_plain unfolding list_all_iff by metis
qed

lemma default_validated: "validate_probe_targets (map input_of (map row_of default_tuples)) = Inr (map row_of default_tuples)"
proof -
  define ok where "ok = (\<lambda>t :: string \<times> string \<times> string \<times> int. normalize_probe_host (trim (fst (snd t))) = Some (fst (snd t)))"
  have hosts: "list_all ok default_tuples"
    using default_hosts by (auto simp: ok_def default_tuples_def list_all_iff nth_enumerate_eq all_set_conv_all_nth split: prod.split)
  have rest: "list_all (\<lambda>(n, h, c, i). trim n = n \<and> n \<noteq> [] \<and> length n \<le> 64 \<and> trim c = c \<and> c \<in> set PROBE_CATEGORIES) default_tuples"
    "distinct (map (\<lambda>(n, h, c, i). h) default_tuples)" "map (\<lambda>(n, h, c, i). i) default_tuples = map int [0..<length default_tuples]"
    "default_tuples \<noteq> []" "length default_tuples \<le> 32"
    by code_simp+
  have "validate_each i hs (map input_of (map row_of ts)) = Inr (map row_of ts)"
    if "list_all ok ts" "list_all (\<lambda>(n, h, c, i). trim n = n \<and> n \<noteq> [] \<and> length n \<le> 64 \<and> trim c = c \<and> c \<in> set PROBE_CATEGORIES) ts"
      "distinct (map (\<lambda>(n, h, c, i). h) ts)" "map (\<lambda>(n, h, c, i). i) ts = map int [i..<i + length ts]"
      "set hs \<inter> set (map (\<lambda>(n, h, c, i). h) ts) = {}" for i hs ts
    using that
  proof (induction ts arbitrary: i hs)
    case (Cons t ts)
    obtain n h c j where t: "t = (n, h, c, j)" by (cases t) auto
    have "length n \<le> 64" using Cons.prems(2) by (simp add: t)
    with length_filter_le have "length (filter (\<lambda>c. \<not> continuation c) n) \<le> 64" by (rule order_trans)
    then have r: "validate_probe_target i hs (input_of (row_of t)) = Inr (row_of t)"
      using Cons.prems by (auto simp: t ok_def validate_probe_target_def input_of_def row_of_def chars_count_def
          MAX_PROBE_NAME_CHARS_def upt_conv_Cons simp del: upt_Suc)
    have "validate_each (i + 1) (pt_host (row_of t) # hs) (map input_of (map row_of ts)) = Inr (map row_of ts)"
      using Cons.prems by (intro Cons.IH) (auto simp: t row_of_def upt_conv_Cons simp del: upt_Suc)
    then show ?case using r by simp
  qed simp
  then show ?thesis
    using hosts rest by (simp add: validate_probe_targets_def MAX_PROBE_TARGETS_def)
qed

section \<open>The running server\<close>

text \<open>What the server keeps: it reads the stored targets, and they are an accepted list.\<close>

definition probes_ok :: "probe_state \<Rightarrow> bool" where
  "probes_ok st \<longleftrightarrow> ps_live st = runtime_probe_targets (list_probes st) \<and>
     list_probes st = pb_rows (ps_db st) \<and>
     validate_probe_targets (map input_of (list_probes st)) = Inr (map unnumbered (list_probes st))"

lemma input_of_unnumbered [simp]: "input_of (unnumbered r) = input_of r"
  by (simp add: input_of_def unnumbered_def)

lemma row_of_fields [simp]: "pt_id r = 0 \<Longrightarrow> row_of (pt_name r, pt_host r, pt_category r, pt_sort_order r) = r"
  by (simp add: row_of_def)

text \<open>An empty table filled with an accepted list.\<close>

lemma filled_ok:
  assumes v: "validate_probe_targets inputs = Inr (map row_of ts)" and e: "pb_rows db = []"
  defines "db' \<equiv> fold insert_target ts db"
  shows "query_probe_targets db' = pb_rows db'" "map unnumbered (pb_rows db') = map row_of ts"
    "probes_ok \<lparr>ps_db = db', ps_live = runtime_probe_targets (query_probe_targets db')\<rparr>"
proof -
  note again = validate_again[OF v]
  show rows: "map unnumbered (pb_rows db') = map row_of ts"
    using insert_targets[of db ts] e by (simp add: db'_def numbered_def)
  have "map pt_sort_order (map unnumbered (pb_rows db')) = map int [0..<length ts]"
    using again unfolding rows by simp
  then show q: "query_probe_targets db' = pb_rows db'"
    by (intro query_in_order[of _ "length ts"]) (simp add: comp_def unnumbered_def)
  have "map input_of (pb_rows db') = map input_of (map unnumbered (pb_rows db'))" by simp
  then show "probes_ok \<lparr>ps_db = db', ps_live = runtime_probe_targets (query_probe_targets db')\<rparr>"
    using again q unfolding probes_ok_def rows by (simp add: list_probes_def rows)
qed

lemma replace_ok:
  assumes v: "validate_probe_targets inputs = Inr rows" and r: "replace_all_probe_targets rows db = (stored, db')"
  shows "stored = pb_rows db'" "map unnumbered stored = rows" "probes_ok \<lparr>ps_db = db', ps_live = runtime_probe_targets stored\<rparr>"
proof -
  define ts where "ts = map (\<lambda>t. (pt_name t, pt_host t, pt_category t, pt_sort_order t)) rows"
  have "map unnumbered rows = rows" using validate_again[OF v] by blast
  then have "\<forall>r \<in> set rows. pt_id r = 0" by (metis (no_types, lifting) in_set_conv_nth length_map nth_map probe_target_row.ext_inject
      probe_target_row.surjective probe_target_row.update_convs(1) unnumbered_def)
  then have ts: "map row_of ts = rows" unfolding ts_def by (simp add: map_idI comp_def)
  have d: "db' = fold insert_target ts (db\<lparr>pb_rows := []\<rparr>)" "stored = query_probe_targets db'"
    using r by (auto simp: replace_all_probe_targets_def Let_def ts_def fold_map comp_def)
  note f = filled_ok[OF v[folded ts], of "db\<lparr>pb_rows := []\<rparr>", folded d(1)]
  show "stored = pb_rows db'" "map unnumbered stored = rows" "probes_ok \<lparr>ps_db = db', ps_live = runtime_probe_targets stored\<rparr>"
    using f ts d(2) by simp_all
qed

lemma reset_ok:
  assumes r: "reset_probe_targets db = (stored, db')"
  shows "stored = pb_rows db'" "map unnumbered stored = map row_of default_tuples"
    "probes_ok \<lparr>ps_db = db', ps_live = runtime_probe_targets stored\<rparr>"
proof -
  have d: "db' = fold insert_target default_tuples (db\<lparr>pb_rows := []\<rparr>)" "stored = query_probe_targets db'"
    using r by (auto simp: reset_probe_targets_def insert_default_probe_targets_def Let_def default_tuples_def
        fold_map comp_def prod.case_distrib)
  note f = filled_ok[OF default_validated, of "db\<lparr>pb_rows := []\<rparr>", folded d(1)]
  show "stored = pb_rows db'" "map unnumbered stored = map row_of default_tuples"
    "probes_ok \<lparr>ps_db = db', ps_live = runtime_probe_targets stored\<rparr>"
    using f d(2) by simp_all
qed

lemma start_fresh: "pb_rows db = [] \<Longrightarrow> probes_ok (start_probes db)"
proof -
  assume e: "pb_rows db = []"
  obtain stored db' where r: "reset_probe_targets db = (stored, db')" by fastforce
  have "db\<lparr>pb_rows := []\<rparr> = db" using e by simp
  then have "insert_default_probe_targets db = db'" "query_probe_targets db' = stored"
    using r by (auto simp only: reset_probe_targets_def Let_def prod.inject)
  then have "start_probes db = \<lparr>ps_db = db', ps_live = runtime_probe_targets stored\<rparr>"
    using e by (simp add: start_probes_def seed_default_probe_targets_def Let_def)
  then show ?thesis using reset_ok(3)[OF r] by simp
qed

lemma probes_ok_nonempty: "probes_ok st \<Longrightarrow> pb_rows (ps_db st) \<noteq> []"
  by (auto simp: probes_ok_def validate_probe_targets_def)

interpretation probe_server: transition_system probes_ok probe_step
proof
  fix st :: probe_state and a
  assume ok: "probes_ok st"
  show "probes_ok (probe_step a st)"
  proof (cases a)
    case (UpdateProbes body)
    show ?thesis
    proof (cases "validate_probe_targets body")
      case (Inr rows)
      obtain stored db' where "replace_all_probe_targets rows (ps_db st) = (stored, db')" by fastforce
      then show ?thesis using replace_ok(3)[OF Inr] Inr UpdateProbes by (simp add: update_probes_def)
    qed (use ok UpdateProbes in \<open>simp add: update_probes_def\<close>)
  next
    case ResetProbes
    obtain stored db' where "reset_probe_targets (ps_db st) = (stored, db')" by fastforce
    then show ?thesis using reset_ok(3) ResetProbes by (simp add: reset_probes_def)
  next
    case RestartProbes
    have "start_probes (ps_db st) = st"
      using ok probes_ok_nonempty[OF ok]
      by (cases st) (simp add: start_probes_def seed_default_probe_targets_def probes_ok_def list_probes_def Let_def)
    then show ?thesis using ok RestartProbes by simp
  qed
qed

text \<open>C30: The poller pings what is stored, and what is stored can be saved again.  After any
  requests and restarts of a server that began with an empty table, the targets the poller reads
  are the stored ones in order, there are between 1 and 32 of them on different hosts, and
  sending the listed targets back is accepted and leaves the poller's targets as they are:
  host names and addresses are kept in a form that normalization does not change.\<close>

theorem probe_targets_stay_valid:
  defines "st \<equiv> \<lambda>acts. fold probe_step acts (start_probes \<lparr>pb_rows = [], pb_last_id = 0\<rparr>)"
  shows "ps_live (st acts) = runtime_probe_targets (list_probes (st acts)) \<and>
    list_probes (st acts) \<noteq> [] \<and> length (list_probes (st acts)) \<le> MAX_PROBE_TARGETS \<and>
    distinct (map pt_host (list_probes (st acts))) \<and>
    (\<exists>rows st'. update_probes (map input_of (list_probes (st acts))) (st acts) = (Inr rows, st') \<and>
       ps_live st' = ps_live (st acts))"
proof -
  have ok: "probes_ok (st acts)" unfolding st_def by (intro probe_server.runs start_fresh) simp
  define rows where "rows = list_probes (st acts)"
  have v: "validate_probe_targets (map input_of rows) = Inr (map unnumbered rows)" and live: "ps_live (st acts) = runtime_probe_targets rows"
    using ok unfolding probes_ok_def rows_def by blast+
  obtain stored db' where r: "replace_all_probe_targets (map unnumbered rows) (ps_db (st acts)) = (stored, db')" by fastforce
  have same: "runtime_probe_targets stored = runtime_probe_targets rows"
    using arg_cong[OF replace_ok(2)[OF v r], of runtime_probe_targets]
    by (simp add: runtime_probe_targets_def comp_def unnumbered_def)
  have "distinct (map pt_host rows)" "rows \<noteq> []" "length rows \<le> MAX_PROBE_TARGETS"
    using validate_again[OF v] by (simp_all add: comp_def unnumbered_def)
  then show ?thesis using v live r same by (simp add: update_probes_def flip: rows_def)
qed

section \<open>A batch of probes\<close>

text \<open>C31: The order in which the pings of a batch end does not matter: the results are those of
  the first 32 targets, each in its place.\<close>

theorem probe_batch_in_target_order:
  assumes "mset completed = mset [0..<length (take MAX_PROBE_TARGETS targets)]"
  shows "run_icmp_probes nw good_ms poor_ms completed targets =
    map (probe_one nw good_ms poor_ms) (take MAX_PROBE_TARGETS targets)"
proof -
  define ts where "ts = take MAX_PROBE_TARGETS targets"
  define f where "f = (\<lambda>index. (index, probe_one nw good_ms poor_ms (ts ! index)))"
  have "sort_key fst (map f completed) = map f [0..<length ts]"
  proof (rule properties_for_sort_key)
    show "mset (map f [0..<length ts]) = mset (map f completed)" using assms by (simp add: ts_def)
    show "sorted (map fst (map f [0..<length ts]))" by (simp add: f_def comp_def)
    fix k assume "k \<in> set (map f [0..<length ts])"
    have d: "distinct completed" using assms by (metis distinct_upt mset_eq_imp_distinct_iff)
    have "filter (\<lambda>x. fst k = fst x) (map f xs) = map f (filter (\<lambda>i. i = fst k) xs)" for xs
      by (induction xs) (auto simp: f_def)
    moreover have "filter (\<lambda>i. i = fst k) xs = (if fst k \<in> set xs then [fst k] else [])" if "distinct xs" for xs
      using that by (induction xs) auto
    moreover have "set completed = set [0..<length ts]" using assms by (metis set_mset_mset ts_def)
    ultimately show "filter (\<lambda>x. fst k = fst x) (map f [0..<length ts]) = filter (\<lambda>x. fst k = fst x) (map f completed)"
      using d by simp
  qed
  moreover have "map (probe_one nw good_ms poor_ms) ts = map (\<lambda>i. probe_one nw good_ms poor_ms (ts ! i)) [0..<length ts]"
    by (rule nth_equalityI) simp_all
  ultimately show ?thesis
    by (simp add: run_icmp_probes_def run_probe_futures_def Let_def f_def comp_def flip: ts_def)
qed

theorem probe_batch_in_target_order_witness:
  "run_icmp_probes \<lparr>nw_lookup = (\<lambda>_. None), nw_socket = (\<lambda>_. True), nw_echo = (\<lambda>_ _. Some 5000000)\<rparr>
     (Finite 30) (Finite 100) [1, 0] [(''a'', ''1.1.1.1'', ''dns''), (''b'', ''nowhere'', ''dns'')] =
   map (probe_one \<lparr>nw_lookup = (\<lambda>_. None), nw_socket = (\<lambda>_. True), nw_echo = (\<lambda>_ _. Some 5000000)\<rparr>
     (Finite 30) (Finite 100)) [(''a'', ''1.1.1.1'', ''dns''), (''b'', ''nowhere'', ''dns'')]"
  by (subst probe_batch_in_target_order) (simp_all add: MAX_PROBE_TARGETS_def)

end
