(* ===== verification/Poll_Engine.thy ===== *)
theory Poll_Engine
  imports Probes Config_Store Traffic_Rollup Traffic_Query
begin

text \<open>
  The poll engine (\<open>poller/engine.rs\<close>), the devices' custom names (\<open>db/mod.rs\<close>,
  \<open>api/devices.rs\<close>) and the readiness answer (\<open>api/system.rs\<close>).  One tick reconnects when it
  has to, fetches, stores the counters, builds the snapshot, puts it in the cache and then sends
  what changed; the sending is a step of its own, since other tasks may run before it.  Clocks,
  the router and the calendar are inputs of a tick.
\<close>

section \<open>Custom names\<close>

record device_override =
  dov_mac :: string
  dov_custom_name :: "string option"
  dov_custom_type :: "string option"
  dov_updated_at :: i64

definition upsert_device_override ::
  "string \<Rightarrow> string option \<Rightarrow> string option \<Rightarrow> i64 \<Rightarrow> device_override list \<Rightarrow> device_override list" where
  "upsert_device_override mac name kind now rows =
     (let others = filter (\<lambda>o'. dov_mac o' \<noteq> mac) rows in
      if name = None \<and> kind = None then others
      else others @ [\<lparr>dov_mac = mac, dov_custom_name = name, dov_custom_type = kind, dov_updated_at = now\<rparr>])"

definition get_all_device_overrides :: "device_override list \<Rightarrow> device_override list" where
  "get_all_device_overrides rows = rows"

definition delete_device_override :: "string \<Rightarrow> device_override list \<Rightarrow> device_override list" where
  "delete_device_override mac rows = filter (\<lambda>o'. dov_mac o' \<noteq> mac) rows"

definition override_device :: "(string \<rightharpoonup> device_override) \<Rightarrow> device \<Rightarrow> device" where
  "override_device overrides d = (case overrides (to_lowercase (dv_mac d)) of
      None \<Rightarrow> d
    | Some ov \<Rightarrow>
        let d1 = (if dov_custom_name ov \<noteq> None then d\<lparr>dv_custom_name := dov_custom_name ov\<rparr> else d) in
        if dov_custom_type ov \<noteq> None then d1\<lparr>dv_custom_type := dov_custom_type ov\<rparr> else d1)"

text \<open>The map by lower-case address; of two rows for the same one the later counts.\<close>

definition apply_device_overrides :: "device_override list \<Rightarrow> wifi_info \<Rightarrow> wifi_info" where
  "apply_device_overrides rows wifi =
     (if rows = [] then wifi
      else wifi\<lparr>wf_devices :=
        map (override_device (map_of (rev (map (\<lambda>o'. (to_lowercase (dov_mac o'), o')) rows)))) (wf_devices wifi)\<rparr>)"

section \<open>The router\<close>

record 'n router_connection =
  rcn_router_type :: router_type
  rcn_host :: string
  rcn_port :: "16 word"
  rcn_scheme :: string
  rcn_username :: string
  rcn_password :: string
  rcn_accept_invalid_certs :: bool
  rcn_management_cidrs :: "'n list"
  rcn_allow_insecure_http :: bool

definition connection_of :: "'n merged_config \<Rightarrow> 'n router_connection" where
  "connection_of cfg =
     \<lparr>rcn_router_type = mc_router_type cfg, rcn_host = mc_router_host cfg, rcn_port = mc_router_port cfg,
      rcn_scheme = mc_router_scheme cfg, rcn_username = mc_router_username cfg,
      rcn_password = mc_router_password cfg, rcn_accept_invalid_certs = mc_accept_invalid_certs cfg,
      rcn_management_cidrs = mc_router_management_cidrs cfg,
      rcn_allow_insecure_http = mc_allow_insecure_router_http cfg\<rparr>"

text \<open>What happens outside during one tick: the router's answers, the clocks, a fresh identifier,
  the calendar (the start of the month of a time, if the time and its month are valid) and the
  reading of a timestamp.  \<open>ti_utc_now\<close> and the read timestamps are nanoseconds.\<close>

record ('c, 'n) poll_input =
  ti_connect :: "'n router_connection \<Rightarrow> app_error + 'c"
  ti_fetch :: "'c \<Rightarrow> app_error + router_data"
  ti_uuid :: string
  ti_started :: instant
  ti_connected :: instant
  ti_finished :: instant
  ti_snapshot_text :: string
  ti_now_text :: string
  ti_utc_now :: int
  ti_month_start :: "i64 \<Rightarrow> i64 option option"
  ti_parse_timestamp :: "string \<Rightarrow> int option"

fun display_app_error :: "app_error \<Rightarrow> string" where
  "display_app_error (RouterApi m) = ''Router API error: '' @ m"
| "display_app_error (HttpError m) = ''HTTP request failed: '' @ m"
| "display_app_error (Serialization m) = ''Serialization error: '' @ m"
| "display_app_error (Config c) = ''Configuration error: '' @ display_config_error c"
| "display_app_error RouterUnreachable = ''Router unreachable''"
| "display_app_error (InvalidData m) = ''Invalid data: '' @ m"
| "display_app_error (InvalidRequest status code m) = ''Invalid request: '' @ m"
| "display_app_error Unauthorized = ''Authentication required''"
| "display_app_error (Forbidden m) = ''Forbidden: '' @ m"
| "display_app_error (Conflict m) = ''Conflict: '' @ m"
| "display_app_error (RateLimited n) = ''Too many requests''"
| "display_app_error NotFound = ''Route not found''"
| "display_app_error MethodNotAllowed = ''Method not allowed''"
| "display_app_error (Secret m) = ''Secret storage error: '' @ m"
| "display_app_error (Database e) = ''Database error: ''"
| "display_app_error (Internal m) = ''Internal error: '' @ m"

section \<open>State\<close>

datatype readiness_state = Starting | Ready | ReadinessDegraded | Stopped

record poll_readiness =
  pr_state :: readiness_state
  pr_router_connected :: bool
  pr_consecutive_failures :: nat
  pr_last_successful_poll :: "string option"
  pr_last_successful_at :: "instant option"
  pr_last_error :: "string option"

text \<open>The engine's own fields, then what it shares with the handlers: the configuration, the
  tables, the probe targets, the cached snapshot and the messages broadcast so far; \<open>en_outbox\<close> is
  what the tick still has to send.\<close>

record ('c, 'n) poll_engine =
  en_client :: "'c option"
  en_last_conn_params :: "'n router_connection"
  en_prev_counters :: "string \<rightharpoonup> u64 \<times> u64"
  en_prev_uptime_seconds :: "u64 option"
  en_last_sample_at :: "instant option"
  en_active_router_id :: "i64 option"
  en_baselines :: baselines
  en_prev_snapshot :: "dashboard_snapshot option"
  en_first_poll :: bool
  en_traffic_history :: "traffic_point list"
  en_wan_traffic_history :: "string \<rightharpoonup> traffic_point list"
  en_last_probe_results :: "latency_probe list"
  en_stability_history :: "probe_quality list"
  en_probe_batch :: "((string \<times> string \<times> string) list \<times> f64 \<times> f64) option"
  en_poll_count :: u64
  en_maintenance_error :: "string option"
  en_reconnect_failures :: nat
  en_reconnect_not_before :: instant
  en_consecutive_failures :: nat
  en_readiness :: poll_readiness
  en_outbox :: "server_message list"
  sh_config :: "'n merged_config"
  sh_db :: traffic_db
  sh_overrides :: "device_override list"
  sh_targets :: "(string \<times> string \<times> string) list"
  sh_cache :: "dashboard_snapshot option"
  sh_log :: "server_message list"

definition new_engine ::
  "instant \<Rightarrow> 'n merged_config \<Rightarrow> traffic_db \<Rightarrow> device_override list \<Rightarrow> (string \<times> string \<times> string) list \<Rightarrow>
   ('c, 'n) poll_engine" where
  "new_engine now cfg db overrides targets =
     \<lparr>en_client = None, en_last_conn_params = connection_of cfg, en_prev_counters = Map.empty,
      en_prev_uptime_seconds = None, en_last_sample_at = None, en_active_router_id = None,
      en_baselines = Map.empty, en_prev_snapshot = None, en_first_poll = True, en_traffic_history = [],
      en_wan_traffic_history = Map.empty, en_last_probe_results = [], en_stability_history = [],
      en_probe_batch = None, en_poll_count = 0, en_maintenance_error = None, en_reconnect_failures = 0,
      en_reconnect_not_before = now, en_consecutive_failures = 0,
      en_readiness = \<lparr>pr_state = Starting, pr_router_connected = False, pr_consecutive_failures = 0,
        pr_last_successful_poll = None, pr_last_successful_at = None, pr_last_error = None\<rparr>,
      en_outbox = [], sh_config = cfg, sh_db = db, sh_overrides = overrides, sh_targets = targets,
      sh_cache = None, sh_log = [ConnectionStatus False None]\<rparr>"

definition clear_counter_baseline :: "('c, 'n) poll_engine \<Rightarrow> ('c, 'n) poll_engine" where
  "clear_counter_baseline e = e\<lparr>en_prev_counters := Map.empty, en_prev_uptime_seconds := None, en_last_sample_at := None\<rparr>"

definition clear_router_scope :: "('c, 'n) poll_engine \<Rightarrow> ('c, 'n) poll_engine" where
  "clear_router_scope e =
     (clear_counter_baseline e)\<lparr>en_baselines := Map.empty, en_prev_snapshot := None, en_first_poll := True,
        en_traffic_history := [], en_wan_traffic_history := Map.empty, sh_cache := None\<rparr>"

definition switch_router_scope :: "i64 \<Rightarrow> ('c, 'n) poll_engine \<Rightarrow> ('c, 'n) poll_engine" where
  "switch_router_scope router_id e =
     (if en_active_router_id e = Some router_id then e
      else clear_router_scope (e\<lparr>en_active_router_id := Some router_id\<rparr>))"

section \<open>Readiness\<close>

definition MAX_RECONNECT_DELAY_SECS :: nat where "MAX_RECONNECT_DELAY_SECS = 30"

definition reconnect_delay :: "nat \<Rightarrow> nat" where
  "reconnect_delay failures =
     min (2 ^ min (failures - 1) 5) MAX_RECONNECT_DELAY_SECS * 1000000000"

definition schedule_reconnect :: "instant \<Rightarrow> ('c, 'n) poll_engine \<Rightarrow> ('c, 'n) poll_engine" where
  "schedule_reconnect now e =
     (let failures = u32_saturating_add (en_reconnect_failures e) 1 in
      e\<lparr>en_reconnect_failures := failures, en_reconnect_not_before := now + reconnect_delay failures\<rparr>)"

definition mark_ready :: "string \<Rightarrow> instant \<Rightarrow> ('c, 'n) poll_engine \<Rightarrow> ('c, 'n) poll_engine" where
  "mark_ready now_text now e =
     e\<lparr>en_consecutive_failures := 0,
       en_readiness := \<lparr>pr_state = Ready, pr_router_connected = True, pr_consecutive_failures = 0,
         pr_last_successful_poll = Some now_text, pr_last_successful_at = Some now, pr_last_error = None\<rparr>\<rparr>"

definition mark_degraded :: "bool \<Rightarrow> string \<Rightarrow> ('c, 'n) poll_engine \<Rightarrow> ('c, 'n) poll_engine" where
  "mark_degraded up message e =
     (let failures = u32_saturating_add (en_consecutive_failures e) 1 in
      e\<lparr>en_consecutive_failures := failures,
        en_readiness := (en_readiness e)\<lparr>pr_state := ReadinessDegraded, pr_router_connected := up,
          pr_consecutive_failures := failures, pr_last_error := Some message\<rparr>\<rparr>)"

definition mark_poll_failure :: "instant \<Rightarrow> string \<Rightarrow> ('c, 'n) poll_engine \<Rightarrow> ('c, 'n) poll_engine" where
  "mark_poll_failure now message e =
     mark_degraded False message
       (schedule_reconnect now (clear_counter_baseline (e\<lparr>en_client := None, en_first_poll := True\<rparr>)))"

definition mark_storage_failure :: "string \<Rightarrow> ('c, 'n) poll_engine \<Rightarrow> ('c, 'n) poll_engine" where
  "mark_storage_failure message e = mark_degraded True message e"

definition mark_connection_failure :: "string \<Rightarrow> ('c, 'n) poll_engine \<Rightarrow> ('c, 'n) poll_engine" where
  "mark_connection_failure message e = mark_degraded False message e"

definition mark_stopped :: "('c, 'n) poll_engine \<Rightarrow> ('c, 'n) poll_engine" where
  "mark_stopped e = e\<lparr>en_readiness := (en_readiness e)\<lparr>pr_state := Stopped, pr_router_connected := False\<rparr>\<rparr>"

definition report_unexpected_exit :: "string \<Rightarrow> poll_readiness \<Rightarrow> poll_readiness" where
  "report_unexpected_exit message r =
     r\<lparr>pr_state := Stopped, pr_router_connected := False,
       pr_consecutive_failures := u32_saturating_add (pr_consecutive_failures r) 1, pr_last_error := Some message\<rparr>"

section \<open>Reconnecting\<close>

definition try_reconnect :: "('c, 'n) poll_input \<Rightarrow> ('c, 'n) poll_engine \<Rightarrow> ('c, 'n) poll_engine" where
  "try_reconnect inp e =
     (let current = connection_of (sh_config e);
          params_changed = (en_last_conn_params e \<noteq> current) in
      if \<not> params_changed \<and> en_client e \<noteq> None then e
      else if \<not> params_changed \<and> ti_started inp < en_reconnect_not_before e then e
      else
        let e1 = (if params_changed
            then (clear_counter_baseline (e\<lparr>en_client := None\<rparr>))
              \<lparr>en_reconnect_failures := 0, en_reconnect_not_before := ti_started inp\<rparr>
            else e) in
        (case ti_connect inp current of
           Inr c \<Rightarrow> e1\<lparr>en_client := Some c, en_last_conn_params := current, en_first_poll := True,
             en_reconnect_failures := 0, en_reconnect_not_before := ti_connected inp\<rparr>
         | Inl err \<Rightarrow>
             let e2 = schedule_reconnect (ti_connected inp) e1;
                 e3 = (if params_changed then e2\<lparr>en_last_conn_params := current\<rparr> else e2) in
             mark_connection_failure (display_app_error err) e3))"

section \<open>Fetching\<close>

definition parse_total :: "string \<Rightarrow> f64 option" where
  "parse_total s = (case s of
      CHR ''-'' # r \<Rightarrow> map_option (\<lambda>n. f64_of_int (- int n)) (parse_nat r)
    | _ \<Rightarrow> map_option (\<lambda>n. f64_of_int (int n)) (parse_nat s))"

definition monthly_usage_gb_v4 ::
  "(i64 \<Rightarrow> i64 option option) \<Rightarrow> traffic_db \<Rightarrow> i64 \<Rightarrow> i64 \<Rightarrow> i64 \<Rightarrow> f64 db_result" where
  "monthly_usage_gb_v4 month_start db router_id aggregate_interface_id now_ms =
     and_then (ok_or (Verification ''counter sample contains an invalid Unix timestamp'') (month_start now_ms)) (\<lambda>m.
     and_then (ok_or (Verification ''failed to calculate month boundary'') m) (\<lambda>start.
     if now_ms \<le> start then Inr (Finite 0)
     else and_then (query_traffic_v4 db \<lparr>tq_router_id = router_id, tq_interface_id = aggregate_interface_id,
         tq_from_ms = start, tq_to_ms = now_ms, tq_max_points = 1\<rparr>) (\<lambda>result.
       and_then (ok_or (Verification ''invalid monthly download total'')
         (parse_total (tt_download_bytes (tr_totals result)))) (\<lambda>download.
       and_then (ok_or (Verification ''invalid monthly upload total'')
         (parse_total (tt_upload_bytes (tr_totals result)))) (\<lambda>upload.
       Inr (f64_div (f64_add download upload) (f64_of_int 1000000000)))))))"

text \<open>The router of the fetched data, its stored counters and the month's usage.\<close>

definition store_sample ::
  "('c, 'n) poll_input \<Rightarrow> router_data \<Rightarrow> ('c, 'n) poll_engine \<Rightarrow> ('c, 'n) poll_engine \<times> string list \<times> f64" where
  "store_sample inp data e =
     (let sampled_at_ms = cs_unix_ms (rd_counter_sample_time data) in
      case resolve_router (sh_db e) (ti_uuid inp) (sd_hardware_identity (rd_system data))
          (rcn_host (en_last_conn_params e)) sampled_at_ms of
        (Inl err, db) \<Rightarrow>
          let e1 = e\<lparr>sh_db := db\<rparr> in
          (if en_active_router_id e1 \<noteq> None then clear_router_scope (e1\<lparr>en_active_router_id := None\<rparr>) else e1,
           [''router identity persistence failed: '' @ display_db_error err], Finite 0)
      | (Inr router, db) \<Rightarrow>
          let e1 = switch_router_scope (rr_id router) (e\<lparr>sh_db := db\<rparr>) in
          (case persist_exact_traffic (sh_db e1) (en_baselines e1) (rr_id router) data (wan_interface_names data) of
             (Inl err, db2, bl) \<Rightarrow>
               (e1\<lparr>sh_db := db2, en_baselines := bl\<rparr>, [''traffic persistence failed: '' @ display_db_error err], Finite 0)
           | (Inr result, db2, bl) \<Rightarrow>
               (let e2 = e1\<lparr>sh_db := db2, en_baselines := bl\<rparr> in
                case monthly_usage_gb_v4 (ti_month_start inp) db2 (rr_id router)
                    (ep_aggregate_interface_id result) sampled_at_ms of
                  Inr usage \<Rightarrow> (e2, ep_errors result, usage)
                | Inl err \<Rightarrow> (e2, ep_errors result @ [''monthly traffic query failed: '' @ display_db_error err],
                    Finite 0))))"

definition counters_of :: "router_data \<Rightarrow> (string \<rightharpoonup> u64 \<times> u64)" where
  "counters_of data = map_of (rev (List.map_filter (\<lambda>iface. case (if_rx_byte iface, if_tx_byte iface) of
     (Some rx, Some tx) \<Rightarrow> Some (if_name iface, (rx, tx)) | _ \<Rightarrow> None) (rd_interfaces data)))"

definition empty_stability :: isp_stability where
  "empty_stability = \<lparr>st_online_rate = f64_of_int 100, st_segments = [], st_window_minutes = 30\<rparr>"

definition fetch_and_transform ::
  "('c, 'n) poll_input \<Rightarrow> 'c \<Rightarrow> ('c, 'n) poll_engine \<Rightarrow>
   (app_error + dashboard_snapshot \<times> string list) \<times> ('c, 'n) poll_engine" where
  "fetch_and_transform inp c e = (case ti_fetch inp c of
      Inl err \<Rightarrow> (Inl err, e)
    | Inr data \<Rightarrow>
        let sampled_at = cs_monotonic (rd_counter_sample_time data) in
        (case store_sample inp data e of (e1, storage_errors, monthly_usage_gb) \<Rightarrow>
          let previous = map_option (\<lambda>earlier. \<lparr>pcs_counters = en_prev_counters e1,
                pcs_uptime_seconds = en_prev_uptime_seconds e1, pcs_elapsed_secs = as_secs_f64 (sampled_at - earlier)\<rparr>)
                (en_last_sample_at e1);
              ip_allocations = as_u32 (length (filter (\<lambda>l. dl_status l = ''bound'') (rd_dhcp_leases data)));
              snapshot = to_dashboard_snapshot (ti_snapshot_text inp) data previous [] empty_stability monthly_usage_gb;
              e2 = e1\<lparr>en_prev_counters := counters_of data,
                en_prev_uptime_seconds := sd_uptime_seconds (rd_system data), en_last_sample_at := Some sampled_at\<rparr> in
          (Inr (snapshot\<lparr>ds_gateway := (ds_gateway snapshot)\<lparr>gi_ip_allocations := ip_allocations\<rparr>\<rparr>, storage_errors),
           e2)))"

section \<open>What changed\<close>

text \<open>The numbers of a part of the dashboard.  The derived equality compares them as IEEE numbers,
  so that two parts are equal when they are the same and hold no NaN.\<close>

definition option_list :: "'a option \<Rightarrow> 'a list" where
  "option_list v = (case v of None \<Rightarrow> [] | Some x \<Rightarrow> [x])"

definition wan_entry_numbers :: "wan_entry \<Rightarrow> f64 list" where
  "wan_entry_numbers w = [we_download_bps w, we_upload_bps w]"

definition wan_isp_numbers :: "wan_isp_info \<Rightarrow> f64 list" where
  "wan_isp_numbers w = [wi_download_bps w, wi_upload_bps w]"

definition isp_numbers :: "isp_info \<Rightarrow> f64 list" where
  "isp_numbers i = [ii_monthly_usage_gb i, ii_download_bps i, ii_upload_bps i] @ concat (map wan_isp_numbers (ii_wans i))"

definition interface_status_numbers :: "interface_status \<Rightarrow> f64 list" where
  "interface_status_numbers i = [ist_rx_bps i, ist_tx_bps i]"

definition changed :: "('a \<Rightarrow> f64 list) \<Rightarrow> 'a \<Rightarrow> 'a \<Rightarrow> 'a option" where
  "changed numbers prev current = (if prev = current \<and> NaN \<notin> set (numbers prev) then None else Some current)"

definition changed_list :: "('a \<Rightarrow> f64 list) \<Rightarrow> 'a list \<Rightarrow> 'a list \<Rightarrow> 'a list option" where
  "changed_list numbers = changed (\<lambda>xs. concat (map numbers xs))"

definition last_option :: "'a list \<Rightarrow> 'a option" where
  "last_option xs = (if xs = [] then None else Some (last xs))"

definition diff_snapshots :: "dashboard_snapshot \<Rightarrow> dashboard_snapshot \<Rightarrow> dashboard_update" where
  "diff_snapshots prev current =
     \<lparr>du_system = changed (\<lambda>s. [si_cpu_load s]) (ds_system prev) (ds_system current),
      du_gateway = changed (\<lambda>g. concat (map wan_entry_numbers (gi_wans g))) (ds_gateway prev) (ds_gateway current),
      du_interfaces = changed (\<lambda>_. []) (ds_interfaces prev) (ds_interfaces current),
      du_isp = changed isp_numbers (ds_isp prev) (ds_isp current),
      du_traffic = last_option (tsn_points (ds_traffic current)),
      du_latency_probes = changed_list (\<lambda>p. option_list (lp_latency_ms p)) (ds_latency_probes prev) (ds_latency_probes current),
      du_wifi = changed (\<lambda>w. [wf_packet_loss_pct w, wf_retransmit_pct w]) (ds_wifi prev) (ds_wifi current),
      du_stability = changed (\<lambda>s. st_online_rate s # map sg_value (st_segments s)) (ds_stability prev) (ds_stability current),
      du_interface_statuses =
        changed_list interface_status_numbers (ds_interface_statuses prev) (ds_interface_statuses current),
      du_timestamp = ds_timestamp current,
      du_wans = changed_list wan_entry_numbers (ds_wans prev) (ds_wans current),
      du_wans_isp = changed_list wan_isp_numbers (ds_wans_isp prev) (ds_wans_isp current),
      du_wan_traffic_points =
        (if ds_wan_traffic_points current = [] then None else Some (ds_wan_traffic_points current))\<rparr>"

definition has_changes :: "dashboard_update \<Rightarrow> bool" where
  "has_changes u \<longleftrightarrow> du_system u \<noteq> None \<or> du_gateway u \<noteq> None \<or> du_interfaces u \<noteq> None \<or> du_isp u \<noteq> None
     \<or> du_traffic u \<noteq> None \<or> du_latency_probes u \<noteq> None \<or> du_wifi u \<noteq> None \<or> du_stability u \<noteq> None
     \<or> du_interface_statuses u \<noteq> None \<or> du_wans u \<noteq> None \<or> du_wans_isp u \<noteq> None \<or> du_wan_traffic_points u \<noteq> None"

section \<open>A tick\<close>

definition SIX_HOURS :: int where "SIX_HOURS = 6 * 3600 * 1000000000"

definition retained :: "('c, 'n) poll_input \<Rightarrow> traffic_point list \<Rightarrow> traffic_point list" where
  "retained inp = filter (\<lambda>p. case ti_parse_timestamp inp (tp_timestamp p) of
     None \<Rightarrow> False | Some ts \<Rightarrow> ti_utc_now inp - SIX_HOURS \<le> ts)"

definition update_traffic_history ::
  "('c, 'n) poll_input \<Rightarrow> dashboard_snapshot \<times> ('c, 'n) poll_engine \<Rightarrow> dashboard_snapshot \<times> ('c, 'n) poll_engine" where
  "update_traffic_history inp se = (case se of (snapshot, e) \<Rightarrow>
     (case tsn_points (ds_traffic snapshot) of
        [] \<Rightarrow> (snapshot, e)
      | pt # _ \<Rightarrow>
          let history = retained inp (en_traffic_history e @ [pt]) in
          (snapshot\<lparr>ds_traffic := \<lparr>tsn_points = history\<rparr>\<rparr>, e\<lparr>en_traffic_history := history\<rparr>)))"

definition update_wan_history ::
  "('c, 'n) poll_input \<Rightarrow> traffic_point list \<Rightarrow> (string \<rightharpoonup> traffic_point list) \<Rightarrow> (string \<rightharpoonup> traffic_point list)" where
  "update_wan_history inp points m = fold (\<lambda>pt m. case tp_wan_name pt of
      None \<Rightarrow> m
    | Some wan \<Rightarrow> m(wan \<mapsto> retained inp ((case m wan of None \<Rightarrow> [] | Some b \<Rightarrow> b) @ [pt]))) points m"

definition as_i64 :: "u64 \<Rightarrow> i64" where
  "as_i64 w = sint w"

definition maintain :: "('c, 'n) poll_input \<Rightarrow> ('c, 'n) poll_engine \<Rightarrow> ('c, 'n) poll_engine" where
  "maintain inp e =
     (let now_ms = ti_utc_now inp div 1000000;
          raw_cutoff = sat_sub now_ms (sat_mul (as_i64 (mc_db_raw_retention_days (sh_config e))) 86400000);
          total_cutoff = sat_sub now_ms (sat_mul (as_i64 (mc_db_total_retention_days (sh_config e))) 86400000) in
      case rollup_exact_samples (sh_db e) raw_cutoff 60000 of (rolled, db1) \<Rightarrow>
      case prune_exact_history db1 total_cutoff of (pruned, db2) \<Rightarrow>
      let errors =
            (case rolled of Inl err \<Rightarrow> [''traffic rollup failed: '' @ display_db_error err] | Inr _ \<Rightarrow> [])
            @ (case pruned of Inl err \<Rightarrow> [''traffic retention failed: '' @ display_db_error err] | Inr _ \<Rightarrow> []) in
      e\<lparr>sh_db := db2, en_maintenance_error := (if errors = [] then None else Some (join_with ''; '' errors))\<rparr>)"

definition send :: "server_message \<Rightarrow> ('c, 'n) poll_engine \<Rightarrow> ('c, 'n) poll_engine" where
  "send msg e = e\<lparr>en_outbox := en_outbox e @ [msg]\<rparr>"

text \<open>The cached snapshot, then the message about it.\<close>

definition publish :: "dashboard_snapshot \<Rightarrow> ('c, 'n) poll_engine \<Rightarrow> ('c, 'n) poll_engine" where
  "publish snapshot e =
     (let e1 = e\<lparr>sh_cache := Some snapshot\<rparr> in
      if en_first_poll e1
      then (send (Snapshot snapshot) e1)\<lparr>en_first_poll := False, en_prev_snapshot := Some snapshot\<rparr>
      else (case en_prev_snapshot e1 of
          None \<Rightarrow> e1
        | Some prev \<Rightarrow> let update = diff_snapshots prev snapshot in
            if has_changes update then send (Update update) e1 else e1)\<lparr>en_prev_snapshot := Some snapshot\<rparr>)"

definition disconnected :: "('c, 'n) poll_input \<Rightarrow> server_message" where
  "disconnected inp = ConnectionStatus False (Some (ti_now_text inp))"

definition finish_tick ::
  "('c, 'n) poll_input \<Rightarrow> dashboard_snapshot \<Rightarrow> string list \<Rightarrow> ('c, 'n) poll_engine \<Rightarrow> ('c, 'n) poll_engine" where
  "finish_tick inp fetched storage_errors e =
     (let snapshot1 = fetched\<lparr>ds_latency_probes := en_last_probe_results e,
            ds_stability := build_stability (en_stability_history e) (mc_probe_interval_secs (sh_config e)),
            ds_wifi := apply_device_overrides (sh_overrides e) (ds_wifi fetched)\<rparr> in
      case update_traffic_history inp (snapshot1, e) of (snapshot, e1) \<Rightarrow>
      let e2 = e1\<lparr>en_wan_traffic_history :=
              update_wan_history inp (ds_wan_traffic_points snapshot) (en_wan_traffic_history e1),
            en_poll_count := en_poll_count e1 + 1\<rparr>;
          e3 = (if unat (en_poll_count e2) mod 60 = 0 then maintain inp e2 else e2);
          errors = storage_errors @ option_list (en_maintenance_error e3);
          e4 = publish snapshot e3 in
      if errors = [] then mark_ready (ti_now_text inp) (ti_finished inp) e4
      else mark_storage_failure (join_with ''; '' errors) e4)"

definition poll_tick :: "('c, 'n) poll_input \<Rightarrow> ('c, 'n) poll_engine \<Rightarrow> ('c, 'n) poll_engine" where
  "poll_tick inp e =
     (let e1 = try_reconnect inp e in
      case en_client e1 of
        None \<Rightarrow> send (disconnected inp) e1
      | Some c \<Rightarrow> (case fetch_and_transform inp c e1 of
            (Inr (snapshot, storage_errors), e2) \<Rightarrow> finish_tick inp snapshot storage_errors e2
          | (Inl err, e2) \<Rightarrow> send (disconnected inp)
              (mark_poll_failure (ti_finished inp) (display_app_error err) e2)))"

text \<open>The messages of the tick go out.\<close>

definition flush :: "('c, 'n) poll_engine \<Rightarrow> ('c, 'n) poll_engine" where
  "flush e = e\<lparr>sh_log := sh_log e @ en_outbox e, en_outbox := []\<rparr>"

section \<open>The probe cycle\<close>

definition start_probe_batch :: "('c, 'n) poll_engine \<Rightarrow> ('c, 'n) poll_engine" where
  "start_probe_batch e =
     (let good_ms = f64_of_int (uint (mc_latency_good_ms (sh_config e)));
          poor_ms = f64_of_int (uint (mc_latency_poor_ms (sh_config e))) in
      if en_probe_batch e \<noteq> None then e
      else e\<lparr>en_probe_batch := Some (take MAX_PROBE_TARGETS (sh_targets e), good_ms, poor_ms)\<rparr>)"

definition finish_probe_batch :: "network \<Rightarrow> nat list \<Rightarrow> ('c, 'n) poll_engine \<Rightarrow> ('c, 'n) poll_engine" where
  "finish_probe_batch nw completed e = (case en_probe_batch e of
      None \<Rightarrow> e
    | Some (targets, good_ms, poor_ms) \<Rightarrow>
        (case record_probe_results (mc_probe_interval_secs (sh_config e))
            (run_icmp_probes nw good_ms poor_ms completed targets)
            (en_stability_history e, en_last_probe_results e) of
           (history, results) \<Rightarrow> e\<lparr>en_probe_batch := None, en_stability_history := history,
             en_last_probe_results := results\<rparr>))"

section \<open>The handlers that share the engine's state\<close>

text \<open>\<open>update_override\<close> up to the snapshot it read, and from there.\<close>

definition override_begin ::
  "string \<Rightarrow> string option \<Rightarrow> string option \<Rightarrow> i64 \<Rightarrow> ('c, 'n) poll_engine \<Rightarrow>
   dashboard_snapshot option \<times> ('c, 'n) poll_engine" where
  "override_begin mac name kind now e =
     (let e1 = e\<lparr>sh_overrides := upsert_device_override mac name kind now (sh_overrides e)\<rparr> in
      (map_option (\<lambda>s. s\<lparr>ds_wifi := apply_device_overrides (sh_overrides e1) (ds_wifi s)\<rparr>) (sh_cache e1), e1))"

definition override_end :: "dashboard_snapshot option \<Rightarrow> ('c, 'n) poll_engine \<Rightarrow> ('c, 'n) poll_engine" where
  "override_end updated e = (case updated of
      None \<Rightarrow> e
    | Some s \<Rightarrow> e\<lparr>sh_cache := Some s, sh_log := sh_log e @ [Snapshot s]\<rparr>)"

definition list_overrides :: "('c, 'n) poll_engine \<Rightarrow> device_override list" where
  "list_overrides e = get_all_device_overrides (sh_overrides e)"

text \<open>A name and a type that are both absent delete the row.  The answer lists all rows.\<close>

definition update_override ::
  "string \<Rightarrow> string option \<Rightarrow> string option \<Rightarrow> i64 \<Rightarrow> ('c, 'n) poll_engine \<Rightarrow>
   device_override list \<times> ('c, 'n) poll_engine" where
  "update_override mac name kind now e =
     (case override_begin mac name kind now e of (updated, e1) \<Rightarrow>
        let e2 = override_end updated e1 in (list_overrides e2, e2))"

section \<open>Readiness over HTTP\<close>

record readiness_body =
  rb_status :: nat
  rb_reason :: string
  rb_state :: readiness_state
  rb_router_connected :: bool
  rb_consecutive_failures :: nat
  rb_last_successful_poll :: "string option"
  rb_stale_after_secs :: u64

definition u64_sat_mul :: "u64 \<Rightarrow> u64 \<Rightarrow> u64" where
  "u64_sat_mul a b = (if unat a * unat b < 2 ^ 64 then a * b else - 1)"

definition readiness_response :: "poll_readiness \<Rightarrow> u64 \<Rightarrow> instant \<Rightarrow> readiness_body" where
  "readiness_response r poll_interval_secs now =
     (let stale_after = max (u64_sat_mul poll_interval_secs 3) 15;
          fresh = (case pr_last_successful_at r of None \<Rightarrow> False
            | Some last_success \<Rightarrow> now - last_success \<le> unat stale_after * 1000000000);
          ready = (pr_state r = Ready \<and> fresh);
          reason = (case pr_state r of
              Starting \<Rightarrow> ''poller_starting'' | ReadinessDegraded \<Rightarrow> ''poller_degraded''
            | Stopped \<Rightarrow> ''poller_stopped'' | Ready \<Rightarrow> if \<not> fresh then ''poller_stale'' else ''ready'') in
      \<lparr>rb_status = (if ready then 200 else 503), rb_reason = reason, rb_state = pr_state r,
       rb_router_connected = pr_router_connected r, rb_consecutive_failures = pr_consecutive_failures r,
       rb_last_successful_poll = pr_last_successful_poll r, rb_stale_after_secs = stale_after\<rparr>)"

section \<open>Steps\<close>

datatype ('c, 'n) engine_event =
    Tick "('c, 'n) poll_input"
  | Flush
  | ProbeTick
  | ProbeDone network "nat list"
  | SetConfig "'n merged_config"
  | SetTargets "(string \<times> string \<times> string) list"
  | Override string "string option" "string option" i64

text \<open>A tick begins after the messages of the one before it have gone out.\<close>

fun engine_step :: "('c, 'n) engine_event \<Rightarrow> ('c, 'n) poll_engine \<Rightarrow> ('c, 'n) poll_engine" where
  "engine_step (Tick inp) e = poll_tick inp (flush e)"
| "engine_step Flush e = flush e"
| "engine_step ProbeTick e = start_probe_batch e"
| "engine_step (ProbeDone nw completed) e = finish_probe_batch nw completed e"
| "engine_step (SetConfig cfg) e = e\<lparr>sh_config := cfg\<rparr>"
| "engine_step (SetTargets targets) e = e\<lparr>sh_targets := targets\<rparr>"
| "engine_step (Override mac name kind now) e = snd (update_override mac name kind now e)"

end
