(* ===== verification/Ws_Session.thy ===== *)
theory Ws_Session
  imports Poll_Engine
begin

text \<open>
  One WebSocket session (\<open>ws/session.rs\<close>): it subscribes to the broadcast channel, sends the cached
  snapshot and then what it receives, and ends when the client, its login or the server does.  The
  channel (\<open>tokio::sync::broadcast\<close>) keeps the last 128 messages; a receiver that is further behind
  is told so and moved to the oldest one kept.
\<close>

section \<open>Frames\<close>

datatype ws_frame = TextFrame server_message | PongFrame string | CloseFrame nat string

datatype send_attempt = Sent | SendFailed | ShutdownSeen | TimedOut

datatype client_message = ClientClose | ClientPing string | ClientPong | ClientData | ClientError

record ws_client =
  wc_cursor :: nat
  wc_open :: bool
  wc_greeted :: bool
  wc_frames :: "ws_frame list"

definition shutdown_close_frame :: ws_frame where
  "shutdown_close_frame = CloseFrame 1001 ''server shutting down''"

definition is_client_data_message :: "client_message \<Rightarrow> bool" where
  "is_client_data_message m \<longleftrightarrow> m = ClientData"

definition send_close :: "ws_frame \<Rightarrow> ws_client \<Rightarrow> ws_client" where
  "send_close frame c = c\<lparr>wc_frames := wc_frames c @ [frame], wc_open := False\<rparr>"

definition send_while_running :: "ws_frame \<Rightarrow> send_attempt \<Rightarrow> ws_client \<Rightarrow> ws_client" where
  "send_while_running frame attempt c = (case attempt of
      Sent \<Rightarrow> c\<lparr>wc_frames := wc_frames c @ [frame]\<rparr>
    | SendFailed \<Rightarrow> c\<lparr>wc_open := False\<rparr>
    | ShutdownSeen \<Rightarrow> send_close shutdown_close_frame c
    | TimedOut \<Rightarrow> c\<lparr>wc_open := False\<rparr>)"

section \<open>The channel\<close>

definition BROADCAST_CAPACITY :: nat where "BROADCAST_CAPACITY = 128"

datatype received = Received server_message | Lagged | Waiting

definition recv :: "server_message list \<Rightarrow> nat \<Rightarrow> received \<times> nat" where
  "recv msgs cursor =
     (if cursor < length msgs - BROADCAST_CAPACITY then (Lagged, length msgs - BROADCAST_CAPACITY)
      else if cursor < length msgs then (Received (msgs ! cursor), cursor + 1)
      else (Waiting, cursor))"

section \<open>The session\<close>

text \<open>Up to the subscription.\<close>

definition open_session :: "bool \<Rightarrow> bool \<Rightarrow> server_message list \<Rightarrow> ws_client" where
  "open_session shutting_down valid msgs =
     (let c = \<lparr>wc_cursor = length msgs, wc_open = True, wc_greeted = False, wc_frames = []\<rparr> in
      if shutting_down then send_close shutdown_close_frame c
      else if \<not> valid then send_close (CloseFrame 1008 ''session expired'') c
      else c)"

definition cached_message :: "dashboard_snapshot option \<Rightarrow> server_message" where
  "cached_message cache = (case cache of Some s \<Rightarrow> Snapshot s | None \<Rightarrow> ConnectionStatus False None)"

datatype session_input =
    Greet send_attempt
  | ShutdownSignal
  | SessionCheck bool
  | Receive send_attempt
  | FromClient client_message send_attempt

text \<open>\<open>msgs\<close> and \<open>cache\<close> are those at the step; the loop begins after the greeting.\<close>

definition session_step ::
  "server_message list \<Rightarrow> dashboard_snapshot option \<Rightarrow> session_input \<Rightarrow> ws_client \<Rightarrow> ws_client" where
  "session_step msgs cache inp c =
     (if \<not> wc_open c then c
      else case inp of
        Greet attempt \<Rightarrow>
          if wc_greeted c then c
          else send_while_running (TextFrame (cached_message cache)) attempt (c\<lparr>wc_greeted := True\<rparr>)
      | ShutdownSignal \<Rightarrow> send_close shutdown_close_frame c
      | SessionCheck valid \<Rightarrow>
          if \<not> wc_greeted c \<or> valid then c
          else send_close (CloseFrame 1008 ''session expired or revoked'') c
      | Receive attempt \<Rightarrow>
          if \<not> wc_greeted c then c
          else (case recv msgs (wc_cursor c) of
              (Received msg, n) \<Rightarrow> send_while_running (TextFrame msg) attempt (c\<lparr>wc_cursor := n\<rparr>)
            | (Lagged, n) \<Rightarrow> (case cache of
                None \<Rightarrow> c\<lparr>wc_cursor := n\<rparr>
              | Some s \<Rightarrow> send_while_running (TextFrame (Snapshot s)) attempt (c\<lparr>wc_cursor := n\<rparr>))
            | (Waiting, _) \<Rightarrow> c)
      | FromClient msg attempt \<Rightarrow>
          if \<not> wc_greeted c then c
          else (case msg of
              ClientClose \<Rightarrow> c\<lparr>wc_open := False\<rparr>
            | ClientPing d \<Rightarrow> send_while_running (PongFrame d) attempt c
            | ClientPong \<Rightarrow> c
            | ClientData \<Rightarrow> send_close (CloseFrame 1008 ''client data messages are not supported'') c
            | ClientError \<Rightarrow> c\<lparr>wc_open := False\<rparr>))"

section \<open>The server and its sessions\<close>

record ('c, 'n) ws_world =
  wo_engine :: "('c, 'n) poll_engine"
  wo_clients :: "ws_client list"

datatype ('c, 'n) world_event =
    EngineEvent "('c, 'n) engine_event"
  | OpenSession bool bool
  | SessionEvent nat session_input

fun world_step :: "('c, 'n) world_event \<Rightarrow> ('c, 'n) ws_world \<Rightarrow> ('c, 'n) ws_world" where
  "world_step (EngineEvent ev) w = w\<lparr>wo_engine := engine_step ev (wo_engine w)\<rparr>"
| "world_step (OpenSession shutting_down valid) w =
     w\<lparr>wo_clients := wo_clients w @ [open_session shutting_down valid (sh_log (wo_engine w))]\<rparr>"
| "world_step (SessionEvent k inp) w =
     (if k < length (wo_clients w)
      then w\<lparr>wo_clients := (wo_clients w)[k :=
        session_step (sh_log (wo_engine w)) (sh_cache (wo_engine w)) inp (wo_clients w ! k)]\<rparr>
      else w)"

section \<open>What the messages mean\<close>

text \<open>The dashboard a client has after a message: a snapshot replaces it, an update replaces the
  parts it carries.\<close>

definition unless_none :: "'a \<Rightarrow> 'a option \<Rightarrow> 'a" where
  "unless_none old v = (case v of None \<Rightarrow> old | Some x \<Rightarrow> x)"

definition apply_update :: "dashboard_update \<Rightarrow> dashboard_snapshot \<Rightarrow> dashboard_snapshot" where
  "apply_update u s =
     \<lparr>ds_system = unless_none (ds_system s) (du_system u),
      ds_gateway = unless_none (ds_gateway s) (du_gateway u),
      ds_interfaces = unless_none (ds_interfaces s) (du_interfaces u),
      ds_isp = unless_none (ds_isp s) (du_isp u),
      ds_traffic = \<lparr>tsn_points = tsn_points (ds_traffic s) @ option_list (du_traffic u)\<rparr>,
      ds_latency_probes = unless_none (ds_latency_probes s) (du_latency_probes u),
      ds_wifi = unless_none (ds_wifi s) (du_wifi u),
      ds_stability = unless_none (ds_stability s) (du_stability u),
      ds_interface_statuses = unless_none (ds_interface_statuses s) (du_interface_statuses u),
      ds_timestamp = du_timestamp u,
      ds_wans = unless_none (ds_wans s) (du_wans u),
      ds_wans_isp = unless_none (ds_wans_isp s) (du_wans_isp u),
      ds_wan_traffic_points = unless_none (ds_wan_traffic_points s) (du_wan_traffic_points u)\<rparr>"

fun apply_message :: "server_message \<Rightarrow> dashboard_snapshot option \<Rightarrow> dashboard_snapshot option" where
  "apply_message (Snapshot s) v = Some s"
| "apply_message (Update u) v = map_option (apply_update u) v"
| "apply_message (ConnectionStatus c t) v = v"

definition text_of :: "ws_frame \<Rightarrow> server_message option" where
  "text_of f = (case f of TextFrame m \<Rightarrow> Some m | _ \<Rightarrow> None)"

definition client_view :: "ws_client \<Rightarrow> dashboard_snapshot option" where
  "client_view c = fold apply_message (List.map_filter text_of (wc_frames c)) None"

end
