(* ===== verification/Poll_Facts.thy ===== *)
theory Poll_Facts
  imports Poll_Engine Exact_Persistence Contracts
begin

text \<open>
  The readiness answer tells the truth about the last poll, and a router that was away is found
  again within the longest delay.
\<close>

section \<open>What the steps of a tick leave alone\<close>

definition same_status :: "('c, 'n) poll_engine \<Rightarrow> ('c, 'n) poll_engine \<Rightarrow> bool" where
  "same_status e e' \<longleftrightarrow> en_client e' = en_client e \<and> en_readiness e' = en_readiness e \<and>
     en_consecutive_failures e' = en_consecutive_failures e \<and>
     en_reconnect_not_before e' = en_reconnect_not_before e \<and> en_reconnect_failures e' = en_reconnect_failures e"

lemma status_store: "store_sample inp data e = (e', errs, usage) \<Longrightarrow> same_status e e'"
  by (auto simp: store_sample_def Let_def same_status_def clear_router_scope_def clear_counter_baseline_def
      switch_router_scope_def split: prod.splits sum.splits if_splits)

lemma status_fetch: "fetch_and_transform inp c e = (res, e') \<Longrightarrow> same_status e e'"
  by (auto simp: fetch_and_transform_def Let_def split: prod.splits sum.splits dest!: status_store)
    (simp_all add: same_status_def)

lemma status_quiet:
  "same_status e (send msg e)" "same_status e (publish s e)" "same_status e (flush e)" "same_status e (maintain inp e)"
  "same_status e (start_probe_batch e)" "same_status e (finish_probe_batch nw completed e)"
  "same_status e (snd (update_override mac name kind changed_at e))"
  by (simp_all add: same_status_def send_def publish_def flush_def maintain_def start_probe_batch_def
      finish_probe_batch_def update_override_def override_begin_def override_end_def Let_def
      split: option.splits prod.splits)

text \<open>Every tick that fetched publishes and ends in one of two marks.\<close>

lemma maintain_messages: "sh_log (maintain inp e) = sh_log e" "en_outbox (maintain inp e) = en_outbox e"
  "en_first_poll (maintain inp e) = en_first_poll e" "en_prev_snapshot (maintain inp e) = en_prev_snapshot e"
  by (simp_all add: maintain_def Let_def split: prod.split)

lemma finish_tick_shape:
  obtains s' e' errors where
    "finish_tick inp s errs e = (if errors = [] then mark_ready (ti_now_text inp) (ti_finished inp) (publish s' e')
       else mark_storage_failure (join_with ''; '' errors) (publish s' e'))"
    "sh_log e' = sh_log e" "en_outbox e' = en_outbox e" "en_first_poll e' = en_first_poll e"
    "en_prev_snapshot e' = en_prev_snapshot e" "same_status e e'" "errors = [] \<Longrightarrow> errs = []"
    "errs = [] \<Longrightarrow> en_maintenance_error e = None \<Longrightarrow> unat (en_poll_count e + 1) mod 60 \<noteq> 0 \<Longrightarrow> errors = []"
proof -
  define s1 where "s1 = s\<lparr>ds_latency_probes := en_last_probe_results e,
    ds_stability := build_stability (en_stability_history e) (mc_probe_interval_secs (sh_config e)),
    ds_wifi := apply_device_overrides (sh_overrides e) (ds_wifi s)\<rparr>"
  obtain s2 e1 where h: "update_traffic_history inp (s1, e) = (s2, e1)" by fastforce
  have e1: "sh_log e1 = sh_log e" "en_outbox e1 = en_outbox e" "en_first_poll e1 = en_first_poll e"
    "en_prev_snapshot e1 = en_prev_snapshot e" "same_status e e1" "en_poll_count e1 = en_poll_count e"
    "en_maintenance_error e1 = en_maintenance_error e"
    using h by (auto simp: update_traffic_history_def Let_def same_status_def split: list.splits)
  define e2 where "e2 = e1\<lparr>en_wan_traffic_history :=
      update_wan_history inp (ds_wan_traffic_points s2) (en_wan_traffic_history e1), en_poll_count := en_poll_count e1 + 1\<rparr>"
  define e3 where "e3 = (if unat (en_poll_count e2) mod 60 = 0 then maintain inp e2 else e2)"
  define errors where "errors = errs @ option_list (en_maintenance_error e3)"
  have same: "sh_log e3 = sh_log e" "en_outbox e3 = en_outbox e" "en_first_poll e3 = en_first_poll e"
    "en_prev_snapshot e3 = en_prev_snapshot e"
    by (simp_all add: e3_def e2_def maintain_messages e1)
  have st: "same_status e e3" using e1(5) by (simp add: e3_def e2_def same_status_def status_quiet(4)[unfolded same_status_def])
  have shape: "finish_tick inp s errs e = (if errors = [] then mark_ready (ti_now_text inp) (ti_finished inp) (publish s2 e3)
      else mark_storage_failure (join_with ''; '' errors) (publish s2 e3))"
    unfolding finish_tick_def by (simp only: Let_def h[unfolded s1_def] prod.case e2_def e3_def errors_def)
  show ?thesis
  proof (rule that[OF shape same st])
    show "errors = [] \<Longrightarrow> errs = []" by (simp add: errors_def)
    show "errs = [] \<Longrightarrow> en_maintenance_error e = None \<Longrightarrow> unat (en_poll_count e + 1) mod 60 \<noteq> 0 \<Longrightarrow> errors = []"
      by (simp add: errors_def e3_def e2_def e1 option_list_def)
  qed
qed

lemma publish_cache: "sh_cache (publish s e) = Some s"
  by (simp add: publish_def Let_def send_def split: option.split)

lemma finish_tick_caches: "sh_cache (finish_tick inp s errs e) \<noteq> None"
  by (rule finish_tick_shape[of inp s errs e])
    (simp add: publish_cache mark_ready_def mark_storage_failure_def mark_degraded_def Let_def)

lemma fetch_stored:
  "ti_fetch inp c = Inr data \<Longrightarrow> store_sample inp data e = (e1, errs, usage) \<Longrightarrow>
   \<exists>s e'. fetch_and_transform inp c e = (Inr (s, errs), e')"
  by (simp add: fetch_and_transform_def Let_def)

lemma fetch_succeeds:
  "ti_fetch inp c = Inr data \<Longrightarrow> \<exists>s errs e'. fetch_and_transform inp c e = (Inr (s, errs), e')"
  by (cases "store_sample inp data e" rule: prod_cases3) (metis fetch_stored)

text \<open>After a tick that fetched there is a dashboard.\<close>

lemma tick_caches:
  assumes c: "en_client (try_reconnect inp e) = Some c" and d: "ti_fetch inp c = Inr data"
  shows "sh_cache (poll_tick inp e) \<noteq> None"
proof -
  obtain s errs e2 where "fetch_and_transform inp c (try_reconnect inp e) = (Inr (s, errs), e2)"
    using fetch_succeeds[OF d] by blast
  then show ?thesis using c finish_tick_caches by (simp add: poll_tick_def Let_def)
qed

section \<open>The outcomes of a tick\<close>

definition polled :: "('c, 'n) poll_input \<Rightarrow> ('c, 'n) poll_engine \<Rightarrow> bool" where
  "polled inp e \<longleftrightarrow> (\<exists>c s e2. en_client (try_reconnect inp e) = Some c \<and>
     fetch_and_transform inp c (try_reconnect inp e) = (Inr (s, []), e2))"

text \<open>What the readiness says about the engine.\<close>

definition readiness_inv :: "('c, 'n) poll_engine \<Rightarrow> bool" where
  "readiness_inv e \<longleftrightarrow>
     pr_router_connected (en_readiness e) = (en_client e \<noteq> None) \<and>
     pr_consecutive_failures (en_readiness e) = en_consecutive_failures e \<and>
     pr_state (en_readiness e) = (if 0 < en_consecutive_failures e then ReadinessDegraded
        else if en_client e \<noteq> None then Ready else Starting) \<and>
     (pr_last_error (en_readiness e) \<noteq> None) = (0 < en_consecutive_failures e)"

lemma readiness_cong: "same_status e e' \<Longrightarrow> readiness_inv e' = readiness_inv e"
  by (simp add: same_status_def readiness_inv_def)

lemma saturating_succ_pos [simp]: "0 < u32_saturating_add n (Suc 0)"
  by (simp add: u32_saturating_add_def U32_MAX_def)

lemma readiness_marks:
  "en_client e \<noteq> None \<Longrightarrow> readiness_inv (mark_ready t now e)"
  "en_client e \<noteq> None \<Longrightarrow> readiness_inv (mark_storage_failure m e)"
  "readiness_inv (mark_poll_failure now m e)"
  "en_client e = None \<Longrightarrow> readiness_inv (mark_connection_failure m e)"
  by (simp_all add: readiness_inv_def mark_ready_def mark_storage_failure_def mark_poll_failure_def
      mark_connection_failure_def mark_degraded_def schedule_reconnect_def clear_counter_baseline_def Let_def)

lemma reconnect_none:
  "readiness_inv e \<Longrightarrow> en_client (try_reconnect inp e) = None \<Longrightarrow> readiness_inv (try_reconnect inp e)"
  by (auto simp: try_reconnect_def Let_def schedule_reconnect_def clear_counter_baseline_def
      intro!: readiness_marks(4) split: sum.splits if_splits)

lemma tick_readiness_inv: "readiness_inv e \<Longrightarrow> readiness_inv (poll_tick inp e)"
proof -
  assume inv: "readiness_inv e"
  define e1 where "e1 = try_reconnect inp e"
  show ?thesis
  proof (cases "en_client e1")
    case None
    then show ?thesis using reconnect_none[OF inv]
      by (simp add: poll_tick_def e1_def Let_def readiness_cong[OF status_quiet(1)])
  next
    case (Some c)
    obtain res e2 where f: "fetch_and_transform inp c e1 = (res, e2)" by fastforce
    have e2: "en_client e2 = Some c" using status_fetch[OF f] Some by (simp add: same_status_def)
    show ?thesis
    proof (cases res)
      case (Inl err)
      then show ?thesis using Some f
        by (simp add: poll_tick_def e1_def Let_def readiness_cong[OF status_quiet(1)] readiness_marks(3))
    next
      case (Inr se)
      obtain s errs where se: "se = (s, errs)" by (cases se)
      have "readiness_inv (finish_tick inp s errs e2)"
      proof (rule finish_tick_shape[of inp s errs e2])
        fix s' e' errors
        assume "finish_tick inp s errs e2 = (if errors = [] then mark_ready (ti_now_text inp) (ti_finished inp) (publish s' e')
            else mark_storage_failure (join_with ''; '' errors) (publish s' e'))" "same_status e2 e'"
        then show ?thesis using e2 readiness_marks(1,2)[of "publish s' e'"]
          by (simp add: status_quiet(2)[unfolded same_status_def]) (simp add: same_status_def)
      qed
      then show ?thesis using Some f Inr se by (simp add: poll_tick_def e1_def Let_def)
    qed
  qed
qed

lemma step_readiness_inv: "readiness_inv e \<Longrightarrow> readiness_inv (engine_step ev e)"
  by (cases ev) (simp_all add: readiness_cong[OF status_quiet(3)] readiness_cong[OF status_quiet(5)]
      readiness_cong[OF status_quiet(6)] readiness_cong[OF status_quiet(7)] tick_readiness_inv,
      simp_all add: readiness_inv_def)

interpretation polling: transition_system readiness_inv engine_step
  by unfold_locales (rule step_readiness_inv)

lemma new_engine_ready: "readiness_inv (new_engine now cfg db overrides targets)"
  by (simp add: readiness_inv_def new_engine_def)

text \<open>A tick that leaves the engine ready has polled.\<close>

lemma tick_ready:
  assumes inv: "readiness_inv e" and ready: "pr_state (en_readiness (poll_tick inp e)) = Ready"
  shows "polled inp e \<and> pr_last_successful_at (en_readiness (poll_tick inp e)) = Some (ti_finished inp)"
proof -
  define e1 where "e1 = try_reconnect inp e"
  show ?thesis
  proof (cases "en_client e1")
    case None
    then have "readiness_inv e1" using reconnect_none[OF inv] by (simp add: e1_def)
    then have "pr_state (en_readiness e1) \<noteq> Ready" using None by (simp add: readiness_inv_def)
    then show ?thesis using ready None by (simp add: poll_tick_def e1_def Let_def send_def)
  next
    case (Some c)
    obtain res e2 where f: "fetch_and_transform inp c e1 = (res, e2)" by fastforce
    show ?thesis
    proof (cases res)
      case (Inl err)
      then show ?thesis using ready Some f
        by (simp add: poll_tick_def e1_def Let_def send_def mark_poll_failure_def mark_degraded_def)
    next
      case (Inr se)
      obtain s errs where se: "se = (s, errs)" by (cases se)
      have t: "poll_tick inp e = finish_tick inp s errs e2" using Some f Inr se by (simp add: poll_tick_def e1_def Let_def)
      show ?thesis
      proof (rule finish_tick_shape[of inp s errs e2])
        fix s' e' errors
        assume m: "finish_tick inp s errs e2 = (if errors = [] then mark_ready (ti_now_text inp) (ti_finished inp) (publish s' e')
            else mark_storage_failure (join_with ''; '' errors) (publish s' e'))" and n: "errors = [] \<Longrightarrow> errs = []"
        have errors: "errors = []" using ready unfolding t m
          by (cases errors) (simp_all add: mark_storage_failure_def mark_degraded_def Let_def)
        then have "errs = []" by (rule n)
        then have "polled inp e" using Some f Inr se unfolding polled_def e1_def by blast
        then show ?thesis unfolding t m by (simp add: errors mark_ready_def)
      qed
    qed
  qed
qed

fun is_tick :: "('c, 'n) engine_event \<Rightarrow> bool" where
  "is_tick (Tick inp) \<longleftrightarrow> True"
| "is_tick _ \<longleftrightarrow> False"

lemma other_steps: "\<not> is_tick ev \<Longrightarrow> en_readiness (engine_step ev e) = en_readiness e"
  by (cases ev) (simp_all add: status_quiet(3,5-7)[unfolded same_status_def])

lemma ready_run:
  assumes inv: "readiness_inv e0" "pr_state (en_readiness e0) \<noteq> Ready"
    and ready: "pr_state (en_readiness (fold engine_step evs e0)) = Ready"
  shows "\<exists>earlier inp later. evs = earlier @ Tick inp # later \<and> list_all (\<lambda>ev. \<not> is_tick ev) later \<and>
     polled inp (flush (fold engine_step earlier e0)) \<and>
     pr_last_successful_at (en_readiness (fold engine_step evs e0)) = Some (ti_finished inp)"
  using ready
proof (induction evs rule: rev_induct)
  case Nil
  then show ?case using inv by simp
next
  case (snoc ev evs)
  define e where "e = fold engine_step evs e0"
  have e: "readiness_inv e" using polling.runs[OF inv(1)] by (simp add: e_def)
  show ?case
  proof (cases "is_tick ev")
    case True
    then obtain inp where ev: "ev = Tick inp" by (cases ev) auto
    have "readiness_inv (flush e)" using e readiness_cong[OF status_quiet(3)] by blast
    from tick_ready[OF this, of inp] snoc.prems ev have
      "polled inp (flush e) \<and> pr_last_successful_at (en_readiness (fold engine_step (evs @ [ev]) e0)) = Some (ti_finished inp)"
      by (simp add: e_def)
    then show ?thesis unfolding e_def by (intro exI[of _ evs] exI[of _ inp] exI[of _ "[]"]) (simp add: ev)
  next
    case False
    then have same: "en_readiness (fold engine_step (evs @ [ev]) e0) = en_readiness (fold engine_step evs e0)"
      by (simp add: other_steps)
    then have "pr_state (en_readiness (fold engine_step evs e0)) = Ready" using snoc.prems by simp
    from snoc.IH[OF this] obtain earlier inp later where i: "evs = earlier @ Tick inp # later"
      "list_all (\<lambda>ev. \<not> is_tick ev) later" "polled inp (flush (fold engine_step earlier e0))"
      "pr_last_successful_at (en_readiness (fold engine_step evs e0)) = Some (ti_finished inp)" by blast
    then show ?thesis unfolding same
      by (intro exI[of _ earlier] exI[of _ inp] exI[of _ "later @ [ev]"]) (simp add: False)
  qed
qed

section \<open>Reconnecting\<close>

lemma reconnect_delay_bound: "reconnect_delay n \<le> 30000000000"
proof -
  have "min (2 ^ min (n - 1) 5) 30 * 1000000000 \<le> (30 :: nat) * 1000000000" by (intro mult_le_mono1) simp
  then show ?thesis by (simp add: reconnect_delay_def MAX_RECONNECT_DELAY_SECS_def)
qed

fun event_until :: "instant \<Rightarrow> ('c, 'n) engine_event \<Rightarrow> bool" where
  "event_until t (Tick inp) \<longleftrightarrow> ti_started inp \<le> t \<and> ti_connected inp \<le> t \<and> ti_finished inp \<le> t"
| "event_until t _ \<longleftrightarrow> True"

definition delay_inv :: "instant \<Rightarrow> ('c, 'n) poll_engine \<Rightarrow> bool" where
  "delay_inv t e \<longleftrightarrow> en_reconnect_not_before e \<le> t + 30000000000"

lemma delay_same: "same_status e e' \<Longrightarrow> delay_inv t e' = delay_inv t e"
  by (simp add: same_status_def delay_inv_def)

lemma delay_marks:
  "delay_inv t (mark_ready text now e) = delay_inv t e" "delay_inv t (mark_storage_failure m e) = delay_inv t e"
  "delay_inv t (mark_connection_failure m e) = delay_inv t e" "now \<le> t \<Longrightarrow> delay_inv t (mark_poll_failure now m e)"
  "now \<le> t \<Longrightarrow> delay_inv t (schedule_reconnect now e)"
  using reconnect_delay_bound[of "u32_saturating_add (en_reconnect_failures e) 1"]
  by (simp_all add: delay_inv_def mark_ready_def mark_storage_failure_def mark_connection_failure_def mark_poll_failure_def
      mark_degraded_def schedule_reconnect_def clear_counter_baseline_def Let_def)

lemma delay_reconnect:
  assumes "delay_inv t e" "ti_started inp \<le> t" "ti_connected inp \<le> t"
  shows "delay_inv t (try_reconnect inp e)"
proof -
  have other: "delay_inv t (e\<lparr>en_last_conn_params := p\<rparr>) = delay_inv t e" for p and e :: "('a, 'b) poll_engine"
    by (simp add: delay_inv_def)
  show ?thesis using assms
    by (simp add: try_reconnect_def Let_def delay_marks(3) other split: sum.split)
      (simp add: delay_inv_def delay_marks(5)[OF assms(3), unfolded delay_inv_def])
qed

lemma delay_tick:
  assumes inv: "delay_inv t e" and u: "event_until t (Tick inp)"
  shows "delay_inv t (poll_tick inp e)"
proof -
  define e1 where "e1 = try_reconnect inp e"
  have e1: "delay_inv t e1" using delay_reconnect[OF inv] u by (simp add: e1_def)
  show ?thesis
  proof (cases "en_client e1")
    case None
    then show ?thesis using e1 by (simp add: poll_tick_def e1_def Let_def delay_same[OF status_quiet(1)])
  next
    case (Some c)
    obtain res e2 where f: "fetch_and_transform inp c e1 = (res, e2)" by fastforce
    have e2: "delay_inv t e2" using e1 delay_same[OF status_fetch[OF f]] by simp
    have "delay_inv t (finish_tick inp s errs e2)" for s errs
      by (rule finish_tick_shape[of inp s errs e2]) (simp add: delay_marks delay_same[OF status_quiet(2)] delay_same[of e2] e2)
    then show ?thesis using Some f u
      by (cases res) (auto simp: poll_tick_def e1_def Let_def delay_same[OF status_quiet(1)] intro: delay_marks(4))
  qed
qed

lemma delay_step: "delay_inv t e \<Longrightarrow> event_until t ev \<Longrightarrow> delay_inv t (engine_step ev e)"
  by (cases ev) (simp_all add: delay_same[OF status_quiet(3)] delay_same[OF status_quiet(5)] delay_same[OF status_quiet(6)]
      delay_same[OF status_quiet(7)] delay_tick, simp_all add: delay_inv_def)

lemma delay_run:
  "delay_inv t e \<Longrightarrow> list_all (event_until t) evs \<Longrightarrow> delay_inv t (fold engine_step evs e)"
  by (induction evs arbitrary: e) (auto intro: delay_step)

section \<open>An example\<close>

definition example_config :: "nat merged_config" where
  "example_config =
     \<lparr>mc_revision = 0, mc_router_type = RouterOs, mc_router_host = ''10.0.0.1'', mc_router_port = 443,
      mc_router_scheme = ''https'', mc_router_username = ''monitor'', mc_router_password = ''secret'',
      mc_accept_invalid_certs = False, mc_poll_interval_secs = 2, mc_probe_interval_secs = 10,
      mc_server_port = 8080, mc_db_raw_retention_days = 7, mc_db_total_retention_days = 365,
      mc_theme = ''dark'', mc_latency_good_ms = 30, mc_latency_poor_ms = 100,
      mc_router_management_cidrs = [], mc_allow_insecure_router_http = False\<rparr>"

text \<open>A tick that reaches the router, at a time in seconds.\<close>

definition example_input :: "nat \<Rightarrow> (unit, nat) poll_input" where
  "example_input t =
     \<lparr>ti_connect = (\<lambda>_. Inr ()), ti_fetch = (\<lambda>_. Inr example_data), ti_uuid = ''uuid'',
      ti_started = t * 1000000000, ti_connected = t * 1000000000, ti_finished = t * 1000000000,
      ti_snapshot_text = ''t'', ti_now_text = ''t'', ti_utc_now = 0,
      ti_month_start = (\<lambda>t. Some (Some t)), ti_parse_timestamp = (\<lambda>_. None)\<rparr>"

definition example_engine :: "(unit, nat) poll_engine" where
  "example_engine = new_engine 0 example_config empty_db [] []"

lemma example_resolve:
  "\<exists>router db. resolve_router empty_db ''uuid'' (Some ''HX1'') ''10.0.0.1'' 5000 = (Inr router, db) \<and>
     rr_id router = 1 \<and> routers db \<noteq> [] \<and> rr_id (hd (routers db)) = 1 \<and> db = empty_db\<lparr>routers := routers db, seq_routers := 1\<rparr>"
  by (simp add: resolve_router_def resolve_router_id_def insert_router_def router_by_hardware_identity_def
      router_by_fallback_only_def adopt_legacy_history_def router_by_id_def non_blank_def trim_def is_whitespace_def
      empty_db_def router_checks_def Let_def)

lemma example_persist:
  assumes "routers db \<noteq> []" "rr_id (hd (routers db)) = 1" "db = empty_db\<lparr>routers := routers db, seq_routers := 1\<rparr>"
  shows "\<exists>result db' bl'. persist_exact_traffic db bl 1 example_data (wan_interface_names example_data) = (Inr result, db', bl') \<and>
    ep_errors result = []"
proof -
  have "router_exists db 1" using assms(1,2) by (cases "routers db") (auto simp: router_exists_def)
  moreover have "router_interfaces db = []" using assms(3) by (metis empty_db_def traffic_db.select_convs traffic_db.surjective traffic_db.update_convs)
  moreover have "wan_interface_names example_data = []"
    by (simp add: wan_interface_names_def resolve_router_wans_def resolve_all_wans_def mark_primary_def Let_def
        example_data_def map_filter_simps)
  ultimately show ?thesis
    by (simp add: persist_exact_traffic_def upsert_router_interface_def upsert_interface_row_def interface_by_key_def
       AGGREGATE_INTERFACE_KEY_def trim_def is_whitespace_def Let_def persist_aggregate_def ok_or_def)
qed

lemma fetch_counters:
  "fetch_and_transform inp c e = (res, e') \<Longrightarrow> en_poll_count e' = en_poll_count e \<and> en_maintenance_error e' = en_maintenance_error e"
  by (auto simp: fetch_and_transform_def store_sample_def Let_def clear_router_scope_def clear_counter_baseline_def
      switch_router_scope_def split: prod.splits sum.splits if_splits)

lemma example_store:
  assumes "sh_db e = empty_db" "rcn_host (en_last_conn_params e) = ''10.0.0.1''"
  shows "\<exists>e'. store_sample (example_input t) example_data e = (e', [], Finite 0)"
proof -
  obtain router db where r: "resolve_router empty_db ''uuid'' (Some ''HX1'') ''10.0.0.1'' 5000 = (Inr router, db)"
    "rr_id router = 1" "routers db \<noteq> []" "rr_id (hd (routers db)) = 1" "db = empty_db\<lparr>routers := routers db, seq_routers := 1\<rparr>"
    using example_resolve by blast
  define e1 where "e1 = switch_router_scope 1 (e\<lparr>sh_db := db\<rparr>)"
  have "sh_db e1 = db" by (simp add: e1_def switch_router_scope_def clear_router_scope_def clear_counter_baseline_def)
  then obtain result db' bl' where p: "persist_exact_traffic (sh_db e1) (en_baselines e1) 1 example_data (wan_interface_names example_data) = (Inr result, db', bl')"
    "ep_errors result = []" using example_persist[OF r(3-5), of "en_baselines e1"] by auto
  have input: "ti_uuid (example_input t) = ''uuid''" "sd_hardware_identity (rd_system example_data) = Some ''HX1''"
    "cs_unix_ms (rd_counter_sample_time example_data) = 5000"
    by (simp_all add: example_input_def example_data_def)
  have m: "monthly_usage_gb_v4 (ti_month_start (example_input t)) d r i 5000 = Inr (Finite 0)" for d r i
    by (simp add: monthly_usage_gb_v4_def example_input_def ok_or_def)
  show ?thesis unfolding store_sample_def Let_def input assms r(1,2) prod.case sum.case e1_def[symmetric] p m by blast
qed

lemma example_polled:
  assumes "sh_db e = empty_db" "en_last_conn_params e = connection_of example_config" "sh_config e = example_config"
    "en_client e = None" "en_reconnect_not_before e \<le> t * 1000000000" "en_poll_count e = 0" "en_maintenance_error e = None"
  shows "pr_state (en_readiness (poll_tick (example_input t) e)) = Ready"
proof -
  define e1 where "e1 = try_reconnect (example_input t) e"
  have e1: "en_client e1 = Some ()" "sh_db e1 = empty_db" "rcn_host (en_last_conn_params e1) = ''10.0.0.1''"
    "en_poll_count e1 = 0" "en_maintenance_error e1 = None"
    using assms by (simp_all add: e1_def try_reconnect_def Let_def example_input_def connection_of_def example_config_def)
  obtain e' where st: "store_sample (example_input t) example_data e1 = (e', [], Finite 0)"
    using example_store[OF e1(2,3)] by blast
  have "ti_fetch (example_input t) () = Inr example_data" by (simp add: example_input_def)
  from fetch_stored[OF this st] obtain s e2 where f: "fetch_and_transform (example_input t) () e1 = (Inr (s, []), e2)" by blast
  have "en_poll_count e2 = 0" "en_maintenance_error e2 = None" using fetch_counters[OF f] e1 by simp_all
  then have "pr_state (en_readiness (finish_tick (example_input t) s [] e2)) = Ready"
    by (rule_tac finish_tick_shape[of "example_input t" s "[]" e2]) (simp add: mark_ready_def)
  then show ?thesis using e1(1) f by (simp add: poll_tick_def e1_def Let_def)
qed

lemma example_ready: "pr_state (en_readiness (engine_step (Tick (example_input 10)) example_engine)) = Ready"
  by (simp, rule example_polled) (simp_all add: example_engine_def new_engine_def flush_def)

section \<open>Properties\<close>

text \<open>C33: The readiness answer agrees with the engine.  After any sequence of events it reports a
  connection exactly when the engine holds a client, the number of failures the engine counts, a
  degraded state exactly after a failure, and nothing but a start before the first success.\<close>

theorem readiness_matches_engine:
  fixes evs :: "('c, 'n) engine_event list" and t0 cfg db overrides targets interval now
  defines "e \<equiv> fold engine_step evs (new_engine t0 cfg db overrides targets)"
  defines "body \<equiv> readiness_response (en_readiness e) interval now"
  shows "rb_router_connected body = (en_client e \<noteq> None) \<and>
    rb_consecutive_failures body = en_consecutive_failures e \<and>
    rb_state body = (if 0 < en_consecutive_failures e then ReadinessDegraded
       else if en_client e \<noteq> None then Ready else Starting) \<and>
    (rb_status body \<noteq> 200) = (rb_reason body \<noteq> ''ready'')"
proof -
  have "readiness_inv e" unfolding e_def by (rule polling.runs[OF new_engine_ready])
  then show ?thesis
    unfolding body_def by (auto simp: readiness_inv_def readiness_response_def Let_def split: readiness_state.splits)
qed





end
