(* ===== verification/Live_Facts.thy ===== *)
theory Live_Facts
  imports Ws_Session Poll_Facts
begin

text \<open>
  The dashboard a browser builds from the messages is the server's, whenever the browser joined
  and however far it fell behind.
\<close>

section \<open>The parts that updates keep in step\<close>

type_synonym dashboard_core =
  "system_info \<times> gateway_info \<times> interface_summary \<times> isp_info \<times> latency_probe list \<times> wifi_info option \<times>
   isp_stability \<times> interface_status list \<times> wan_entry list \<times> wan_isp_info list"

text \<open>All but the traffic history and the time; the Wi-Fi part only on demand.\<close>

definition core :: "bool \<Rightarrow> dashboard_snapshot \<Rightarrow> dashboard_core" where
  "core w s = (ds_system s, ds_gateway s, ds_interfaces s, ds_isp s, ds_latency_probes s,
     if w then Some (ds_wifi s) else None, ds_stability s, ds_interface_statuses s, ds_wans s, ds_wans_isp s)"

fun update_core :: "bool \<Rightarrow> dashboard_update \<Rightarrow> dashboard_core \<Rightarrow> dashboard_core" where
  "update_core w u (a, b, c, d, e, f, g, h, i, j) =
     (unless_none a (du_system u), unless_none b (du_gateway u), unless_none c (du_interfaces u),
      unless_none d (du_isp u), unless_none e (du_latency_probes u),
      (if w then unless_none f (map_option Some (du_wifi u)) else f), unless_none g (du_stability u),
      unless_none h (du_interface_statuses u), unless_none i (du_wans u), unless_none j (du_wans_isp u))"

fun apply_core :: "bool \<Rightarrow> server_message \<Rightarrow> dashboard_core option \<Rightarrow> dashboard_core option" where
  "apply_core w (Snapshot s) v = Some (core w s)"
| "apply_core w (Update u) v = map_option (update_core w u) v"
| "apply_core w (ConnectionStatus c t) v = v"

lemma core_apply_update: "core w (apply_update u s) = update_core w u (core w s)"
  by (auto simp: core_def apply_update_def unless_none_def split: option.split)

lemma core_apply: "map_option (core w) (apply_message m v) = apply_core w m (map_option (core w) v)"
  by (cases m) (simp_all add: option.map_comp comp_def core_apply_update)

lemma core_fold: "map_option (core w) (fold apply_message ms v) = fold (apply_core w) ms (map_option (core w) v)"
  by (induction ms arbitrary: v) (simp_all add: core_apply)

section \<open>Receiving messages twice\<close>

definition over :: "'a option list \<Rightarrow> 'a \<Rightarrow> 'a" where
  "over vs x = fold (\<lambda>v x. unless_none x v) vs x"

lemma over_cases: "over vs x = over vs y \<or> (over vs x = x \<and> over vs y = y)"
  by (induction vs arbitrary: x y) (simp_all add: over_def unless_none_def split: option.split)

lemma over_idem [simp]: "over vs (over vs x) = over vs x"
  using over_cases[of vs "over vs x" x] by auto

lemma over_Cons [simp]: "over (v # vs) x = over vs (unless_none x v)" "over [] x = x"
  by (simp_all add: over_def)

lemma fold_update_core:
  "fold (update_core w) us (a, b, c, d, e, f, g, h, i, j) =
     (over (map du_system us) a, over (map du_gateway us) b, over (map du_interfaces us) c, over (map du_isp us) d,
      over (map du_latency_probes us) e, (if w then over (map (\<lambda>u. map_option Some (du_wifi u)) us) f else f),
      over (map du_stability us) g, over (map du_interface_statuses us) h, over (map du_wans us) i,
      over (map du_wans_isp us) j)"
  by (induction us arbitrary: a b c d e f g h i j) simp_all

lemma fold_update_idem: "fold (update_core w) us (fold (update_core w) us x) = fold (update_core w) us x"
proof -
  obtain a b c d e f g h i j where "x = (a, b, c, d, e, f, g, h, i, j)" by (metis prod.collapse)
  then show ?thesis by (simp add: fold_update_core)
qed

definition updates_of :: "server_message list \<Rightarrow> dashboard_update list" where
  "updates_of = List.map_filter (\<lambda>m. case m of Update u \<Rightarrow> Some u | _ \<Rightarrow> None)"

definition is_snapshot :: "server_message \<Rightarrow> bool" where
  "is_snapshot m = (case m of Snapshot _ \<Rightarrow> True | _ \<Rightarrow> False)"

lemma fold_core_updates:
  "list_all (\<lambda>m. \<not> is_snapshot m) ms \<Longrightarrow> fold (apply_core w) ms v = map_option (fold (update_core w) (updates_of ms)) v"
  by (induction ms arbitrary: v)
    (auto simp: updates_of_def map_filter_simps is_snapshot_def option.map_comp comp_def option.map_id0 split: server_message.splits)

lemma fold_core_snapshot:
  "\<not> list_all (\<lambda>m. \<not> is_snapshot m) ms \<Longrightarrow> fold (apply_core w) ms v = fold (apply_core w) ms v'"
proof (induction ms arbitrary: v v')
  case (Cons m ms)
  then show ?case by (cases m) (auto simp: is_snapshot_def)
qed simp

text \<open>Messages that are already reflected do no harm.\<close>

lemma fold_core_idem: "fold (apply_core w) ms (fold (apply_core w) ms v) = fold (apply_core w) ms v"
proof (cases "list_all (\<lambda>m. \<not> is_snapshot m) ms")
  case True
  then show ?thesis by (simp add: fold_core_updates option.map_comp comp_def fold_update_idem)
qed (rule fold_core_snapshot)

lemma fold_core_None:
  "fold (apply_core w) (ms @ ns) v = None \<Longrightarrow> fold (apply_core w) ns v = None"
proof -
  have keeps: "fold (apply_core w) ms (Some x) \<noteq> None" for ms x
  proof (induction ms arbitrary: x)
    case (Cons m ms)
    then show ?case by (cases m) auto
  qed simp
  assume n: "fold (apply_core w) (ms @ ns) v = None"
  then have "fold (apply_core w) ms v = None" using keeps[of ns] by (cases "fold (apply_core w) ms v") auto
  moreover from this have "v = None" using keeps[of ms] by (cases v) auto
  ultimately show ?thesis using n by simp
qed

section \<open>The engine\<close>

text \<open>What all messages so far, sent and about to be sent, add up to.\<close>

definition told :: "bool \<Rightarrow> ('c, 'n) poll_engine \<Rightarrow> dashboard_core option" where
  "told w e = fold (apply_core w) (sh_log e @ en_outbox e) None"

definition cached :: "bool \<Rightarrow> ('c, 'n) poll_engine \<Rightarrow> dashboard_core option" where
  "cached w e = map_option (core w) (sh_cache e)"

lemma told_cong: "sh_log e' = sh_log e \<Longrightarrow> en_outbox e' = en_outbox e \<Longrightarrow> told w e' = told w e"
  by (simp add: told_def)

lemma cached_cong: "sh_cache e' = sh_cache e \<Longrightarrow> cached w e' = cached w e"
  by (simp add: cached_def)

definition engine_inv :: "bool \<Rightarrow> ('c, 'n) poll_engine \<Rightarrow> bool" where
  "engine_inv w e \<longleftrightarrow> told w e = cached w e \<and>
     (\<not> en_first_poll e \<longrightarrow> (\<exists>p. en_prev_snapshot e = Some p \<and> told w e = Some (core w p)))"

lemma engine_inv_cong:
  "told w e' = told w e \<Longrightarrow> cached w e' = cached w e \<Longrightarrow> en_first_poll e' = en_first_poll e \<Longrightarrow>
   en_prev_snapshot e' = en_prev_snapshot e \<Longrightarrow> engine_inv w e' = engine_inv w e"
  by (simp only: engine_inv_def)

text \<open>What the parts of a tick before its end leave alone.\<close>

definition same_messages :: "('c, 'n) poll_engine \<Rightarrow> ('c, 'n) poll_engine \<Rightarrow> bool" where
  "same_messages e e' \<longleftrightarrow> sh_log e' = sh_log e \<and> en_outbox e' = en_outbox e \<and>
     (sh_cache e' = sh_cache e \<and> (en_first_poll e' \<or> (en_first_poll e' = en_first_poll e \<and> en_prev_snapshot e' = en_prev_snapshot e)))"

lemma same_messages_inv: "same_messages e e' \<Longrightarrow> engine_inv w e \<Longrightarrow> engine_inv w e'"
  unfolding same_messages_def engine_inv_def by (metis told_cong cached_cong)

lemma same_messages_reconnect: "same_messages e (try_reconnect inp e)"
  by (simp add: same_messages_def try_reconnect_def Let_def mark_connection_failure_def mark_degraded_def
      schedule_reconnect_def clear_counter_baseline_def split: sum.split)

text \<open>Fetching may also empty the cache, but then the next message is a snapshot.\<close>

definition fetched_messages :: "('c, 'n) poll_engine \<Rightarrow> ('c, 'n) poll_engine \<Rightarrow> bool" where
  "fetched_messages e e' \<longleftrightarrow> sh_log e' = sh_log e \<and> en_outbox e' = en_outbox e \<and>
     (en_first_poll e' \<or> (en_first_poll e' = en_first_poll e \<and> en_prev_snapshot e' = en_prev_snapshot e))"

lemma fetched_store: "store_sample inp data e = (e', errs, usage) \<Longrightarrow> fetched_messages e e'"
  by (auto simp: store_sample_def Let_def fetched_messages_def clear_router_scope_def clear_counter_baseline_def
      switch_router_scope_def split: prod.splits sum.splits if_splits)

lemma fetched_fetch:
  "fetch_and_transform inp c e = (Inr r, e') \<Longrightarrow> fetched_messages e e'"
  "fetch_and_transform inp c e = (Inl err, e') \<Longrightarrow> e' = e"
  by (auto simp: fetch_and_transform_def Let_def fetched_messages_def split: prod.splits sum.splits dest!: fetched_store)

lemma changed_unless_none [simp]: "unless_none a (changed num a b) = b"
  by (auto simp: changed_def unless_none_def)

lemma changed_list_unless_none [simp]: "unless_none a (changed_list num a b) = b"
  by (simp add: changed_list_def)

lemma unless_none_map_Some [simp]: "unless_none (Some a) (map_option Some v) = Some (unless_none a v)"
  by (simp add: unless_none_def split: option.split)

lemma update_core_diff: "update_core w (diff_snapshots p s) (core w p) = core w s"
  by (simp add: core_def diff_snapshots_def)

lemma no_changes_core: "\<not> has_changes (diff_snapshots p s) \<Longrightarrow> core w s = core w p"
  using update_core_diff[of w p s] by (cases w) (simp_all add: has_changes_def core_def unless_none_def)

lemma publish_engine_inv:
  assumes f: "en_first_poll e \<or> ((\<exists>p. en_prev_snapshot e = Some p \<and> told w e = Some (core w p)))"
  shows "engine_inv w (publish s e)"
proof (cases "en_first_poll e")
  case True
  then show ?thesis by (simp add: publish_def Let_def engine_inv_def told_def cached_def send_def)
next
  case False
  then obtain p where p: "en_prev_snapshot e = Some p" "told w e = Some (core w p)" using f by auto
  show ?thesis
  proof (cases "has_changes (diff_snapshots p s)")
    case True
    then have "told w (publish s e) = apply_core w (Update (diff_snapshots p s)) (told w e)"
      using p(1) False by (simp add: publish_def Let_def told_def send_def)
    then have "told w (publish s e) = Some (core w s)" using p(2) by (simp add: update_core_diff)
    moreover have "sh_cache (publish s e) = Some s" "en_prev_snapshot (publish s e) = Some s"
      using p(1) False by (simp_all add: publish_def Let_def send_def)
    ultimately show ?thesis by (simp add: engine_inv_def cached_def)
  next
    case same: False
    then have "told w (publish s e) = told w e" using p(1) False by (simp add: publish_def Let_def told_def)
    moreover have "sh_cache (publish s e) = Some s" "en_prev_snapshot (publish s e) = Some s"
      using p(1) False by (simp_all add: publish_def Let_def send_def)
    ultimately show ?thesis using p(2) no_changes_core[OF same] by (simp add: engine_inv_def cached_def)
  qed
qed

lemma same_messages_marks:
  "same_messages e (mark_ready t now e)" "same_messages e (mark_storage_failure m e)"
  "same_messages e (mark_poll_failure now m e)"
  by (simp_all add: same_messages_def mark_ready_def mark_storage_failure_def mark_poll_failure_def mark_degraded_def
      schedule_reconnect_def clear_counter_baseline_def Let_def)

lemma told_status: "told w (send (ConnectionStatus c t) e) = told w e"
  by (simp add: told_def send_def)

lemma status_inv: "engine_inv w (send (ConnectionStatus c t) e) = engine_inv w e"
  by (rule engine_inv_cong, rule told_status) (simp_all add: send_def cached_def)

lemma finish_inv:
  assumes "en_first_poll e \<or> (\<exists>p. en_prev_snapshot e = Some p \<and> told w e = Some (core w p))"
  shows "engine_inv w (finish_tick inp s errs e)"
proof (rule finish_tick_shape[of inp s errs e])
  fix s' e' errors
  assume shape: "finish_tick inp s errs e = (if errors = [] then mark_ready (ti_now_text inp) (ti_finished inp) (publish s' e')
       else mark_storage_failure (join_with ''; '' errors) (publish s' e'))"
    and same: "sh_log e' = sh_log e" "en_outbox e' = en_outbox e" "en_first_poll e' = en_first_poll e"
    "en_prev_snapshot e' = en_prev_snapshot e"
  have "engine_inv w (publish s' e')" using assms same told_cong[OF same(1,2)] by (intro publish_engine_inv) simp
  then show ?thesis
    by (simp add: shape same_messages_inv[OF same_messages_marks(1)] same_messages_inv[OF same_messages_marks(2)])
qed

text \<open>A tick leaves the log alone: its messages are in the outbox.\<close>

lemma publish_log: "sh_log (publish s e) = sh_log e"
  by (simp add: publish_def Let_def send_def split: option.split)

lemma marks_log: "sh_log (mark_ready t now e) = sh_log e" "sh_log (mark_storage_failure m e) = sh_log e"
  "sh_log (mark_poll_failure now m e) = sh_log e" "sh_log (send msg e) = sh_log e"
  using same_messages_marks[of e] by (simp_all add: same_messages_def send_def)

lemma finish_log: "sh_log (finish_tick inp s errs e) = sh_log e"
  by (rule finish_tick_shape[of inp s errs e]) (simp add: marks_log publish_log)

lemma tick_log: "sh_log (poll_tick inp e) = sh_log e"
proof -
  have r: "sh_log (try_reconnect inp e) = sh_log e" using same_messages_reconnect[of e inp] by (simp add: same_messages_def)
  have f: "sh_log e2 = sh_log e1" if "fetch_and_transform inp c e1 = (x, e2)" for c e1 x e2
    using that fetched_fetch by (cases x) (fastforce simp: fetched_messages_def)+
  show ?thesis
    by (auto simp: poll_tick_def Let_def r marks_log finish_log split: option.split prod.split sum.split dest!: f)
qed

lemma tick_inv: "engine_inv w e \<Longrightarrow> engine_inv w (poll_tick inp e)"
proof -
  assume inv: "engine_inv w e"
  define e1 where "e1 = try_reconnect inp e"
  have e1: "engine_inv w e1" using same_messages_inv[OF same_messages_reconnect inv] by (simp add: e1_def)
  show ?thesis
  proof (cases "en_client e1")
    case None
    then show ?thesis using e1 by (simp add: status_inv poll_tick_def e1_def Let_def disconnected_def)
  next
    case (Some c)
    obtain r e2 where f: "fetch_and_transform inp c e1 = (r, e2)" by fastforce
    show ?thesis
    proof (cases r)
      case (Inl err)
      then have "e2 = e1" using f fetched_fetch(2) by metis
      then have "engine_inv w (mark_poll_failure (ti_finished inp) (display_app_error err) e2)"
        using same_messages_inv[OF same_messages_marks(3)] e1 by metis
      then show ?thesis using Some f Inl by (simp add: poll_tick_def e1_def Let_def disconnected_def status_inv)
    next
      case (Inr se)
      then have m: "fetched_messages e1 e2" using f fetched_fetch(1) by metis
      have "en_first_poll e2 \<or> ((\<exists>p. en_prev_snapshot e2 = Some p \<and> told w e2 = Some (core w p)))"
        using m e1 unfolding fetched_messages_def engine_inv_def by (metis told_cong)
      then show ?thesis using Some f Inr finish_inv by (cases se) (simp add: poll_tick_def e1_def Let_def)
    qed
  qed
qed

lemma flush_inv: "engine_inv w (flush e) = engine_inv w e"
  by (rule engine_inv_cong) (simp_all add: told_def flush_def cached_def)

lemma told_override:
  assumes "told w e = cached w e" "sh_cache e = Some s" "core w s' = core w s"
  shows "told w (override_end (Some s') e) = told w e"
proof -
  have "told w (override_end (Some s') e) = fold (apply_core w) (en_outbox e) (Some (core w s))"
    using assms(3) by (simp add: told_def override_end_def)
  also have "Some (core w s) = told w e" using assms(1,2) by (simp add: cached_def)
  also have "fold (apply_core w) (en_outbox e) (told w e) = told w e"
    unfolding told_def by (simp add: fold_core_idem)
  finally show ?thesis .
qed

lemma override_inv: "engine_inv False e \<Longrightarrow> engine_inv False (snd (update_override mac name kind now e))"
proof (cases "sh_cache e")
  case None
  then have "snd (update_override mac name kind now e) =
      e\<lparr>sh_overrides := upsert_device_override mac name kind now (sh_overrides e)\<rparr>"
    by (simp add: update_override_def override_begin_def override_end_def Let_def)
  moreover have "engine_inv False (e\<lparr>sh_overrides := rows\<rparr>) = engine_inv False e" for rows
    by (rule engine_inv_cong) (simp_all add: told_def cached_def)
  ultimately show "engine_inv False e \<Longrightarrow> engine_inv False (snd (update_override mac name kind now e))" by simp
next
  case (Some s)
  assume inv: "engine_inv False e"
  define e1 where "e1 = e\<lparr>sh_overrides := upsert_device_override mac name kind now (sh_overrides e)\<rparr>"
  define s' where "s' = s\<lparr>ds_wifi := apply_device_overrides (sh_overrides e1) (ds_wifi s)\<rparr>"
  have u: "snd (update_override mac name kind now e) = override_end (Some s') e1"
    using Some by (simp add: update_override_def override_begin_def Let_def e1_def s'_def)
  have c: "core False s' = core False s" by (simp add: core_def s'_def)
  have t1: "told False e1 = told False e" "cached False e1 = cached False e" by (simp_all add: told_def cached_def e1_def)
  have "told False (override_end (Some s') e1) = told False e"
    using told_override[of False e1 s s'] inv Some c t1 by (simp add: engine_inv_def e1_def)
  moreover have "cached False (override_end (Some s') e1) = cached False e"
    using Some c by (simp add: override_end_def cached_def)
  moreover have "en_first_poll (override_end (Some s') e1) = en_first_poll e"
    "en_prev_snapshot (override_end (Some s') e1) = en_prev_snapshot e"
    by (simp_all add: override_end_def e1_def)
  ultimately have "engine_inv False (override_end (Some s') e1) = engine_inv False e" by (rule engine_inv_cong)
  then show "engine_inv False (snd (update_override mac name kind now e))" using inv u by simp
qed

fun keeps_names :: "('c, 'n) engine_event \<Rightarrow> bool" where
  "keeps_names (Override mac name kind now) \<longleftrightarrow> False"
| "keeps_names _ \<longleftrightarrow> True"

lemma probe_messages:
  "same_messages e (start_probe_batch e)" "same_messages e (finish_probe_batch nw completed e)"
  by (auto simp: same_messages_def start_probe_batch_def finish_probe_batch_def Let_def split: option.split prod.split)

lemma step_inv: "engine_inv w e \<Longrightarrow> w \<longrightarrow> keeps_names ev \<Longrightarrow> engine_inv w (engine_step ev e)"
proof (cases ev)
  case (Override mac name kind now)
  assume "engine_inv w e" "w \<longrightarrow> keeps_names ev"
  then show ?thesis using Override override_inv by (cases w) simp_all
next
  case (SetConfig cfg)
  have "engine_inv w (e\<lparr>sh_config := cfg\<rparr>) = engine_inv w e" by (rule engine_inv_cong) (simp_all add: told_def cached_def)
  then show "engine_inv w e \<Longrightarrow> engine_inv w (engine_step ev e)" using SetConfig by simp
next
  case (SetTargets targets)
  have "engine_inv w (e\<lparr>sh_targets := targets\<rparr>) = engine_inv w e" by (rule engine_inv_cong) (simp_all add: told_def cached_def)
  then show "engine_inv w e \<Longrightarrow> engine_inv w (engine_step ev e)" using SetTargets by simp
qed (simp_all add: tick_inv flush_inv same_messages_inv[OF probe_messages(1)] same_messages_inv[OF probe_messages(2)])

section \<open>The sessions\<close>

text \<open>What a session still has to receive brings it to what has been told.\<close>

definition session_inv :: "bool \<Rightarrow> ('c, 'n) poll_engine \<Rightarrow> ws_client \<Rightarrow> bool" where
  "session_inv w e c \<longleftrightarrow> wc_cursor c \<le> length (sh_log e) \<and>
     (wc_open c \<and> \<not> wc_greeted c \<longrightarrow> client_view c = None) \<and>
     (wc_open c \<and> wc_greeted c \<longrightarrow>
       fold (apply_core w) (drop (wc_cursor c) (sh_log e) @ en_outbox e) (map_option (core w) (client_view c)) = told w e)"

text \<open>A client that has just been sent the cached snapshot.\<close>

lemma fresh_session:
  assumes inv: "engine_inv w e" and n: "n \<le> length (sh_log e)"
  shows "fold (apply_core w) (drop n (sh_log e) @ en_outbox e) (cached w e) = told w e"
proof -
  define ms where "ms = drop n (sh_log e) @ en_outbox e"
  have "told w e = fold (apply_core w) ms (fold (apply_core w) (take n (sh_log e)) None)"
    unfolding told_def ms_def by (metis append_assoc append_take_drop_id comp_apply fold_append)
  then have "fold (apply_core w) ms (told w e) = told w e" by (simp add: fold_core_idem)
  then show ?thesis using inv by (simp add: engine_inv_def ms_def)
qed

lemma view_frame [simp]:
  "client_view (c\<lparr>wc_frames := wc_frames c @ [TextFrame m]\<rparr>) = apply_message m (client_view c)"
  "client_view (c\<lparr>wc_frames := wc_frames c @ [PongFrame d]\<rparr>) = client_view c"
  "client_view (c\<lparr>wc_cursor := n\<rparr>) = client_view c" "client_view (c\<lparr>wc_greeted := g\<rparr>) = client_view c"
  by (simp_all add: client_view_def text_of_def map_filter_simps map_filter_def)

text \<open>A step of the engine adds messages at the end, or a snapshot before those still to be sent.\<close>

lemma session_extends:
  assumes "session_inv w e c" "sh_log e' @ en_outbox e' = (sh_log e @ en_outbox e) @ ms"
    "length (sh_log e) \<le> length (sh_log e')"
  shows "session_inv w e' c"
proof -
  have c: "wc_cursor c \<le> length (sh_log e)" using assms(1) by (simp add: session_inv_def)
  have "drop (wc_cursor c) (sh_log e') @ en_outbox e' = drop (wc_cursor c) (sh_log e' @ en_outbox e')"
    using c assms(3) by simp
  also have "\<dots> = (drop (wc_cursor c) (sh_log e) @ en_outbox e) @ ms" using c by (simp only: assms(2)) simp
  finally have d: "drop (wc_cursor c) (sh_log e') @ en_outbox e' = (drop (wc_cursor c) (sh_log e) @ en_outbox e) @ ms" .
  have "told w e' = fold (apply_core w) ms (told w e)" by (simp add: told_def assms(2))
  then show ?thesis using assms(1,3) c unfolding session_inv_def d by (auto simp: fold_append)
qed

lemma session_override:
  assumes s: "session_inv False e c" and inv: "engine_inv False e"
  shows "session_inv False (snd (update_override mac name kind now e)) c"
proof (cases "sh_cache e")
  case None
  then have "snd (update_override mac name kind now e) =
      e\<lparr>sh_overrides := upsert_device_override mac name kind now (sh_overrides e)\<rparr>"
    by (simp add: update_override_def override_begin_def override_end_def Let_def)
  moreover have "session_inv False (e\<lparr>sh_overrides := rows\<rparr>) c" for rows
    by (rule session_extends[OF s, of _ "[]"]) simp_all
  ultimately show ?thesis by simp
next
  case (Some d)
  define e1 where "e1 = e\<lparr>sh_overrides := upsert_device_override mac name kind now (sh_overrides e)\<rparr>"
  define d' where "d' = d\<lparr>ds_wifi := apply_device_overrides (sh_overrides e1) (ds_wifi d)\<rparr>"
  have u: "snd (update_override mac name kind now e) = override_end (Some d') e1"
    using Some by (simp add: update_override_def override_begin_def Let_def e1_def d'_def)
  have log: "sh_log (override_end (Some d') e1) = sh_log e @ [Snapshot d']" "en_outbox (override_end (Some d') e1) = en_outbox e"
    by (simp_all add: override_end_def e1_def)
  have c: "wc_cursor c \<le> length (sh_log e)" using s by (simp add: session_inv_def)
  moreover have "wc_open c \<and> \<not> wc_greeted c \<longrightarrow> client_view c = None" using s by (simp add: session_inv_def)
  ultimately show ?thesis unfolding u session_inv_def log told_def by simp
qed

lemma session_engine_step:
  assumes "session_inv w e c" "engine_inv w e" "w \<longrightarrow> keeps_names ev"
  shows "session_inv w (engine_step ev e) c"
proof (cases ev)
  case (Tick inp)
  have "sh_log (poll_tick inp (flush e)) = sh_log e @ en_outbox e" by (simp add: tick_log flush_def)
  then show ?thesis using session_extends[OF assms(1), of "poll_tick inp (flush e)" "en_outbox (poll_tick inp (flush e))"] Tick by simp
next
  case Flush
  then show ?thesis using session_extends[OF assms(1), of "flush e" "[]"] by (simp add: flush_def)
next
  case ProbeTick
  then show ?thesis using session_extends[OF assms(1), of "start_probe_batch e" "[]"] probe_messages(1)[of e] by (simp add: same_messages_def)
next
  case (ProbeDone nw completed)
  then show ?thesis using session_extends[OF assms(1), of "finish_probe_batch nw completed e" "[]"] probe_messages(2)[of e nw completed]
    by (simp add: same_messages_def)
next
  case (Override mac name kind now)
  then show ?thesis using assms session_override by (cases w) simp_all
next
  case (SetConfig cfg)
  then show ?thesis using session_extends[OF assms(1), of "e\<lparr>sh_config := cfg\<rparr>" "[]"] by simp
next
  case (SetTargets targets)
  then show ?thesis using session_extends[OF assms(1), of "e\<lparr>sh_targets := targets\<rparr>" "[]"] by simp
qed

text \<open>A step of the session itself.\<close>

lemma closed_inv: "\<not> wc_open c \<Longrightarrow> wc_cursor c \<le> length (sh_log e) \<Longrightarrow> session_inv w e c"
  by (simp add: session_inv_def)

lemma send_close_closed: "\<not> wc_open (send_close f c)" "wc_cursor (send_close f c) = wc_cursor c"
  by (simp_all add: send_close_def)

lemma send_text_inv:
  assumes "wc_cursor c \<le> length (sh_log e)" "wc_greeted c"
    and "fold (apply_core w) (drop (wc_cursor c) (sh_log e) @ en_outbox e)
      (apply_core w m (map_option (core w) (client_view c))) = told w e"
  shows "session_inv w e (send_while_running (TextFrame m) attempt c)"
  using assms by (cases attempt) (simp_all add: send_while_running_def session_inv_def send_close_def core_apply)

lemma send_pong_inv: "session_inv w e c \<Longrightarrow> session_inv w e (send_while_running (PongFrame d) attempt c)"
  by (cases attempt) (simp_all add: send_while_running_def session_inv_def send_close_def)

lemma receive_inv:
  assumes s: "session_inv w e c" and inv: "engine_inv w e" and o: "wc_open c" "wc_greeted c"
  shows "session_inv w e (session_step (sh_log e) (sh_cache e) (Receive attempt) c)"
proof -
  define n where "n = length (sh_log e) - BROADCAST_CAPACITY"
  have c: "wc_cursor c \<le> length (sh_log e)" and
    told: "fold (apply_core w) (drop (wc_cursor c) (sh_log e) @ en_outbox e) (map_option (core w) (client_view c)) = told w e"
    using s o by (simp_all add: session_inv_def)
  consider "wc_cursor c < n" | "\<not> wc_cursor c < n" "wc_cursor c < length (sh_log e)" | "wc_cursor c = length (sh_log e)"
    using c by linarith
  then show ?thesis
  proof cases
    case 1
    have n: "n \<le> length (sh_log e)" by (simp add: n_def)
    show ?thesis
    proof (cases "sh_cache e")
      case (Some d)
      have "session_inv w e (send_while_running (TextFrame (Snapshot d)) attempt (c\<lparr>wc_cursor := n\<rparr>))"
        using fresh_session[OF inv n] n Some o by (intro send_text_inv) (simp_all add: cached_def)
      then show ?thesis using 1 o Some by (simp add: session_step_def recv_def n_def)
    next
      case None
      then have none: "told w e = None" using inv by (simp add: engine_inv_def cached_def)
      have "drop (wc_cursor c) (sh_log e) = drop (wc_cursor c) (take n (sh_log e)) @ drop n (sh_log e)"
        using 1 n by (metis append_take_drop_id drop_append diff_is_0_eq drop_0 length_take less_imp_le min.absorb2)
      then have "fold (apply_core w) (drop n (sh_log e) @ en_outbox e) (map_option (core w) (client_view c)) = None"
        using told none fold_core_None[of w "drop (wc_cursor c) (take n (sh_log e))" "drop n (sh_log e) @ en_outbox e"]
        by (simp only: append_assoc)
      then have "session_inv w e (c\<lparr>wc_cursor := n\<rparr>)" using none n o by (simp add: session_inv_def)
      then show ?thesis using 1 o None by (simp add: session_step_def recv_def n_def)
    qed
  next
    case 2
    have "drop (wc_cursor c) (sh_log e) = sh_log e ! wc_cursor c # drop (Suc (wc_cursor c)) (sh_log e)"
      using 2 by (simp add: Cons_nth_drop_Suc)
    then have "session_inv w e (send_while_running (TextFrame (sh_log e ! wc_cursor c)) attempt (c\<lparr>wc_cursor := wc_cursor c + 1\<rparr>))"
      using told 2 o by (intro send_text_inv) simp_all
    then show ?thesis using 2 o by (simp add: session_step_def recv_def n_def)
  next
    case 3
    then have "\<not> wc_cursor c < length (sh_log e) - BROADCAST_CAPACITY" by linarith
    then show ?thesis using 3 s o by (simp add: session_step_def recv_def)
  qed
qed

lemma session_step_inv:
  assumes s: "session_inv w e c" and inv: "engine_inv w e"
  shows "session_inv w e (session_step (sh_log e) (sh_cache e) inp c)"
proof (cases "wc_open c")
  case False
  then show ?thesis using s by (simp add: session_step_def)
next
  case o: True
  have c: "wc_cursor c \<le> length (sh_log e)" using s by (simp add: session_inv_def)
  have closed: "session_inv w e (send_close f c)" "session_inv w e (c\<lparr>wc_open := False\<rparr>)" for f
    using c by (auto intro!: closed_inv simp: send_close_closed)
  show ?thesis
  proof (cases inp)
    case (Greet attempt)
    show ?thesis
    proof (cases "wc_greeted c")
      case False
      have "fold (apply_core w) (drop (wc_cursor c) (sh_log e) @ en_outbox e)
          (apply_core w (cached_message (sh_cache e)) None) = told w e"
      proof (cases "sh_cache e")
        case None
        then have "told w e = None" using inv by (simp add: engine_inv_def cached_def)
        then have "fold (apply_core w) (take (wc_cursor c) (sh_log e) @ drop (wc_cursor c) (sh_log e) @ en_outbox e) None = None"
          by (simp only: told_def append_assoc[symmetric] append_take_drop_id)
        then have "fold (apply_core w) (drop (wc_cursor c) (sh_log e) @ en_outbox e) None = None"
          by (rule fold_core_None)
        then show ?thesis using None \<open>told w e = None\<close> by (simp add: cached_message_def)
      qed (use fresh_session[OF inv c] in \<open>simp add: cached_message_def cached_def\<close>)
      moreover have "client_view c = None" using s o False by (simp add: session_inv_def)
      ultimately have "session_inv w e (send_while_running (TextFrame (cached_message (sh_cache e))) attempt (c\<lparr>wc_greeted := True\<rparr>))"
        using c by (intro send_text_inv) simp_all
      then show ?thesis using Greet o False by (simp add: session_step_def)
    qed (use Greet o s in \<open>simp add: session_step_def\<close>)
  next
    case (Receive attempt)
    then show ?thesis using receive_inv[OF s inv o] s by (cases "wc_greeted c") (auto simp: session_step_def)
  next
    case (FromClient msg attempt)
    then show ?thesis using o s closed send_pong_inv[OF s] by (auto simp: session_step_def split: client_message.split)
  qed (use o s closed in \<open>auto simp: session_step_def\<close>)
qed

section \<open>All sessions\<close>

definition world_inv :: "bool \<Rightarrow> ('c, 'n) ws_world \<Rightarrow> bool" where
  "world_inv w v \<longleftrightarrow> engine_inv w (wo_engine v) \<and> list_all (session_inv w (wo_engine v)) (wo_clients v)"

fun event_keeps_names :: "('c, 'n) world_event \<Rightarrow> bool" where
  "event_keeps_names (EngineEvent ev) \<longleftrightarrow> keeps_names ev"
| "event_keeps_names _ \<longleftrightarrow> True"

lemma open_session_inv: "session_inv w e (open_session shutting_down valid (sh_log e))"
  by (simp add: session_inv_def open_session_def Let_def send_close_def client_view_def map_filter_simps)

lemma world_step_inv:
  assumes inv: "world_inv w v" and names: "w \<longrightarrow> event_keeps_names ev"
  shows "world_inv w (world_step ev v)"
proof (cases ev)
  case (EngineEvent x)
  have e: "engine_inv w (wo_engine v)" "\<And>c. c \<in> set (wo_clients v) \<Longrightarrow> session_inv w (wo_engine v) c"
    using inv by (simp_all add: world_inv_def list_all_iff)
  have k: "w \<longrightarrow> keeps_names x" using names EngineEvent by simp
  then show ?thesis
    using step_inv[OF e(1) k] session_engine_step[OF e(2) e(1) k] EngineEvent
    by (simp add: world_inv_def list_all_iff)
next
  case (OpenSession a b)
  then show ?thesis using inv by (simp add: world_inv_def open_session_inv)
next
  case (SessionEvent k inp)
  have e: "engine_inv w (wo_engine v)" "\<And>n. n < length (wo_clients v) \<Longrightarrow> session_inv w (wo_engine v) (wo_clients v ! n)"
    using inv by (simp_all add: world_inv_def list_all_length)
  then show ?thesis
    using session_step_inv[OF e(2) e(1)] SessionEvent by (simp add: world_inv_def list_all_length nth_list_update)
qed

text \<open>The server just started, without sessions.\<close>

definition new_world :: "('c, 'n) poll_engine \<Rightarrow> ('c, 'n) ws_world" where
  "new_world e = \<lparr>wo_engine = e, wo_clients = []\<rparr>"

lemma new_world_inv: "world_inv w (new_world (new_engine now cfg db overrides targets))"
  by (simp add: world_inv_def new_world_def engine_inv_def told_def cached_def new_engine_def)

interpretation live: transition_system "world_inv False" world_step
  by unfold_locales (rule world_step_inv, auto)

lemma world_runs:
  assumes "w \<longrightarrow> list_all event_keeps_names evs" "world_inv w v"
  shows "world_inv w (fold world_step evs v)"
  using assms by (induction evs arbitrary: v) (auto intro: world_step_inv)

text \<open>A session that has received everything.\<close>

definition caught_up :: "('c, 'n) poll_engine \<Rightarrow> ws_client \<Rightarrow> bool" where
  "caught_up e c \<longleftrightarrow> wc_open c \<and> wc_greeted c \<and> wc_cursor c = length (sh_log e) \<and> en_outbox e = []"

lemma caught_up_view:
  "world_inv w v \<Longrightarrow> c \<in> set (wo_clients v) \<Longrightarrow> caught_up (wo_engine v) c \<Longrightarrow>
   map_option (core w) (client_view c) = map_option (core w) (sh_cache (wo_engine v))"
  by (auto simp: world_inv_def list_all_iff session_inv_def engine_inv_def caught_up_def cached_def)

section \<open>Properties\<close>


text \<open>A server that polls once, and a browser that joins.\<close>

definition example_world :: "(unit, nat) ws_world" where
  "example_world = fold world_step
     [EngineEvent (Tick (example_input 10)), EngineEvent Flush, OpenSession False True, SessionEvent 0 (Greet Sent)]
     (new_world (new_engine 0 example_config empty_db [] []))"

lemma example_world_shape:
  "\<exists>c. wo_clients example_world = [c] \<and> caught_up (wo_engine example_world) c \<and>
     sh_cache (wo_engine example_world) \<noteq> None"
proof -
  define e where "e = poll_tick (example_input 10) (flush (new_engine 0 example_config empty_db [] []))"
  have c: "en_client (try_reconnect (example_input 10) (flush (new_engine 0 example_config empty_db [] []))) = Some ()"
    by (simp add: try_reconnect_def Let_def flush_def new_engine_def example_input_def)
  have "ti_fetch (example_input 10) () = Inr example_data" by (simp add: example_input_def)
  from tick_caches[OF c this] have "sh_cache e \<noteq> None" by (simp add: e_def)
  then have "sh_cache (flush e) \<noteq> None" "en_outbox (flush e) = []" by (simp_all add: flush_def)
  moreover have "example_world = fold world_step [OpenSession False True, SessionEvent 0 (Greet Sent)]
      \<lparr>wo_engine = flush e, wo_clients = []\<rparr>"
    by (simp add: example_world_def new_world_def e_def)
  then have w: "example_world = \<lparr>wo_engine = flush e, wo_clients = [\<lparr>wc_cursor = length (sh_log (flush e)), wc_open = True,
      wc_greeted = True, wc_frames = [TextFrame (cached_message (sh_cache (flush e)))]\<rparr>]\<rparr>"
    by (simp add: open_session_def session_step_def send_while_running_def)
  ultimately show ?thesis unfolding w by (simp add: caught_up_def)
qed


section \<open>A change of a name during a poll\<close>

text \<open>The handler reads the cached snapshot, a poll publishes a newer one, and the handler then
  caches and broadcasts the old one.  The next difference is computed against the newer one, so the
  clients keep the old values of all that has not changed since.\<close>

theorem override_can_undo_a_poll:
  fixes e :: "('c, 'n) poll_engine" and s1 :: dashboard_snapshot and i t mac name kind now
  defines "e0 \<equiv> e\<lparr>sh_cache := Some s1, en_prev_snapshot := Some s1, en_first_poll := False,
      sh_log := [Snapshot s1], en_outbox := []\<rparr>"
    and "s2 \<equiv> s1\<lparr>ds_interfaces := i\<rparr>" and "s3 \<equiv> s1\<lparr>ds_interfaces := i, ds_timestamp := t\<rparr>"
  defines "e3 \<equiv> override_end (fst (override_begin mac name kind now e0))
      (flush (publish s2 (snd (override_begin mac name kind now e0))))"
  shows "map_option ds_interfaces (fold apply_message (sh_log (flush (publish s3 e3))) None) = Some (ds_interfaces s1) \<and>
    map_option ds_interfaces (sh_cache (flush (publish s3 e3))) = Some i"
proof -
  define e1 where "e1 = snd (override_begin mac name kind now e0)"
  define s1' where "s1' = s1\<lparr>ds_wifi := apply_device_overrides (sh_overrides e1) (ds_wifi s1)\<rparr>"
  have e1: "en_prev_snapshot e1 = Some s1" "\<not> en_first_poll e1" "sh_log e1 = [Snapshot s1]" "en_outbox e1 = []"
    by (simp_all add: e1_def override_begin_def Let_def e0_def)
  define e2 where "e2 = flush (publish s2 e1)"
  have e2: "en_prev_snapshot e2 = Some s2" "\<not> en_first_poll e2" "en_outbox e2 = []"
    using e1 by (simp_all add: e2_def flush_def publish_def Let_def send_def)
  have "fst (override_begin mac name kind now e0) = Some s1'"
    by (simp add: override_begin_def Let_def e0_def s1'_def e1_def)
  then have e3: "sh_log e3 = sh_log e2 @ [Snapshot s1']" "en_prev_snapshot e3 = Some s2" "\<not> en_first_poll e3" "en_outbox e3 = []"
    using e2 by (simp_all add: e3_def e2_def[unfolded e1_def] override_end_def)
  have u: "du_interfaces (diff_snapshots s2 s3) = None" by (simp add: diff_snapshots_def changed_def s2_def s3_def)
  have "sh_log (flush (publish s3 e3)) = sh_log e3 @
      (if has_changes (diff_snapshots s2 s3) then [Update (diff_snapshots s2 s3)] else [])"
    using e3 by (simp add: flush_def publish_def Let_def send_def)
  then have "fold apply_message (sh_log (flush (publish s3 e3))) None =
      (if has_changes (diff_snapshots s2 s3) then Some (apply_update (diff_snapshots s2 s3) s1') else Some s1')"
    using e3(1) by simp
  then have "map_option ds_interfaces (fold apply_message (sh_log (flush (publish s3 e3))) None) = Some (ds_interfaces s1)"
    by (simp add: apply_update_def u unless_none_def s1'_def)
  moreover have "sh_cache (flush (publish s3 e3)) = Some s3" by (simp add: flush_def publish_cache)
  ultimately show ?thesis by (simp add: s3_def)
qed

end
