(* ===== verification/Server_History.thy ===== *)
theory Server_History
  imports Poll_Facts Traffic_Rollup_Facts "HOL-Library.Sublist"
begin

text \<open>
  The running server and its database: whatever the engine does in its ticks, the stored history
  keeps the schema, and every row of it stays one that the queries and the ageing can use.
\<close>

section \<open>Rows that only change hands\<close>

definition sample_body :: "sample_row \<Rightarrow> sample_row" where
  "sample_body s = s\<lparr>sm_router_id := 0, sm_interface_id := 0\<rparr>"

definition rollup_body :: "rollup_row \<Rightarrow> rollup_row" where
  "rollup_body u = u\<lparr>ru_router_id := 0, ru_interface_id := 0\<rparr>"

text \<open>Rows are removed or filed under another interface, and checkpoints keep their times.\<close>

definition rows_kept :: "traffic_db \<Rightarrow> traffic_db \<Rightarrow> bool" where
  "rows_kept db db' \<longleftrightarrow>
     subseq (map sample_body (traffic_samples db')) (map sample_body (traffic_samples db)) \<and>
     subseq (map rollup_body (traffic_rollups db')) (map rollup_body (traffic_rollups db)) \<and>
     subseq (map cp_observed_at_ms (counter_checkpoints db')) (map cp_observed_at_ms (counter_checkpoints db)) \<and>
     seq_samples db' = seq_samples db"

lemma rows_kept_refl [simp]: "rows_kept db db"
  by (simp add: rows_kept_def)

lemma rows_kept_trans [trans]: "rows_kept a b \<Longrightarrow> rows_kept b c \<Longrightarrow> rows_kept a c"
  unfolding rows_kept_def by (metis subseq_order.trans)

lemma sample_body_moved [simp]: "sample_body (s\<lparr>sm_router_id := r, sm_interface_id := i\<rparr>) = sample_body s"
  by (simp add: sample_body_def)

lemma rollup_body_moved [simp]: "rollup_body (u\<lparr>ru_router_id := r, ru_interface_id := i\<rparr>) = rollup_body u"
  by (simp add: rollup_body_def)

lemma map_if_same: "(\<And>x. f (g x) = f x) \<Longrightarrow> map f (map (\<lambda>x. if P x then g x else x) xs) = map f xs"
  by simp

lemma move_history_kept: "move_history db target ti legacy li = Inr db' \<Longrightarrow> rows_kept db db'"
proof -
  assume m: "move_history db target ti legacy li = Inr db'"
  have "map sample_body (traffic_samples db') = map sample_body (traffic_samples db)"
    "map rollup_body (traffic_rollups db') = map rollup_body (traffic_rollups db)"
    "counter_checkpoints db' = counter_checkpoints db" "seq_samples db' = seq_samples db"
    using m by (auto simp: move_history_def Let_def simp del: map_map
        intro!: map_if_same split: if_splits)
  then show ?thesis by (simp add: rows_kept_def)
qed

lemma move_checkpoints_kept: "move_checkpoints db target legacy li = Inr db' \<Longrightarrow> rows_kept db db'"
proof -
  assume m: "move_checkpoints db target legacy li = Inr db'"
  have "map cp_observed_at_ms (counter_checkpoints db') = map cp_observed_at_ms (counter_checkpoints db)"
    "traffic_samples db' = traffic_samples db" "traffic_rollups db' = traffic_rollups db" "seq_samples db' = seq_samples db"
    using m by (auto simp: move_checkpoints_def Let_def simp del: map_map intro!: map_if_same split: if_splits)
  then show ?thesis by (simp add: rows_kept_def)
qed

lemma filtered_kept:
  "rows_kept db (db\<lparr>counter_checkpoints := filter P (counter_checkpoints db)\<rparr>)"
  "rows_kept db (delete_interface db i)" "rows_kept db (delete_router db r)"
  "rows_kept db (update_router db r f)" "rows_kept db (db\<lparr>traffic_gaps := gs\<rparr>)"
  "rows_kept db (db\<lparr>router_interfaces := is\<rparr>)"
  by (simp_all add: rows_kept_def delete_interface_def delete_router_def update_router_def Let_def subseq_map)

lemma adopt_interface_kept: "adopt_interface target legacy t0 db p = Inr db' \<Longrightarrow> rows_kept db db'"
proof -
  assume ok: "adopt_interface target legacy t0 db p = Inr db'"
  obtain li key where p: "p = (li, key)" by (cases p)
  show ?thesis
  proof (cases "interface_by_key db target key")
    case None
    define db1 where "db1 = db\<lparr>router_interfaces := map
         (\<lambda>x. if ri_id x = li then x\<lparr>ri_router_id := target,
              ri_last_seen_at_ms := max (ri_last_seen_at_ms x) t0\<rparr> else x) (router_interfaces db)\<rparr>"
    obtain db2 where "move_history db1 target li legacy li = Inr db2" "move_checkpoints db2 target legacy li = Inr db'"
      using ok None by (auto simp: adopt_interface_def p db1_def and_then_Inr_iff)
    then show ?thesis
      using rows_kept_trans[OF filtered_kept(6) rows_kept_trans[OF move_history_kept move_checkpoints_kept]]
      unfolding db1_def by blast
  next
    case (Some y)
    obtain db1 where "move_history db target (ri_id y) legacy li = Inr db1"
      and "db' = delete_interface (db1\<lparr>counter_checkpoints := filter
          (\<lambda>c. \<not> (cp_router_id c = legacy \<and> cp_interface_id c = li)) (counter_checkpoints db1)\<rparr>) li"
      using ok Some by (auto simp: adopt_interface_def p and_then_Inr_iff Let_def)
    then show ?thesis
      using rows_kept_trans[OF move_history_kept rows_kept_trans[OF filtered_kept(1,2)]] by blast
  qed
qed

lemma closing_kept:
  "rows_kept db (delete_router (update_router (db\<lparr>traffic_gaps := gs\<rparr>) target f) legacy)"
  by (rule rows_kept_trans[OF filtered_kept(5) rows_kept_trans[OF filtered_kept(4,3)]])

lemma and_then_InrE:
  assumes "and_then m f = Inr y" obtains x where "m = Inr x" "f x = Inr y"
  using assms and_then_Inr_iff by metis

lemma adopt_router_kept: "adopt_router target t0 db legacy = Inr db' \<Longrightarrow> rows_kept db db'"
  unfolding adopt_router_def
proof (erule and_then_InrE, goal_cases)
  case (1 db1)
  have "rows_kept db db1"
    by (rule fold_result_invariant[OF 1(1)]) (auto intro: rows_kept_trans adopt_interface_kept)
  moreover have "rows_kept db1 db'" using 1(2) unfolding Let_def sum.inject by (rule subst) (rule closing_kept)
  ultimately show ?case by (rule rows_kept_trans)
qed

lemma adopt_legacy_history_kept: "adopt_legacy_history db target t0 = Inr db' \<Longrightarrow> rows_kept db db'"
  unfolding adopt_legacy_history_def
  by (erule fold_result_invariant) (auto intro: rows_kept_trans adopt_router_kept)

lemma resolve_router_id_kept: "resolve_router_id db uuid identity target t0 = Inr (rid, db') \<Longrightarrow> rows_kept db db'"
  by (auto simp: resolve_router_id_def insert_router_def Let_def filtered_kept rows_kept_def[of db "db\<lparr>routers := _, seq_routers := _\<rparr>"]
      split: option.splits if_splits)

lemma resolve_router_kept: "resolve_router db uuid hw target t0 = (res, db') \<Longrightarrow> rows_kept db db'"
proof (cases res)
  case (Inl e)
  assume "resolve_router db uuid hw target t0 = (res, db')"
  then show ?thesis using store_atomic(5) Inl by fastforce
next
  case (Inr r)
  assume "resolve_router db uuid hw target t0 = (res, db')"
  then obtain rid db1 where "resolve_router_id db uuid (non_blank hw) (trim target) t0 = Inr (rid, db1)"
    "adopt_legacy_history db1 rid t0 = Inr db'"
    using Inr by (auto simp: resolve_router_def Let_def and_then_Inr_iff ok_or_Inr_iff split: if_splits)
  then show ?thesis by (blast intro: rows_kept_trans resolve_router_id_kept adopt_legacy_history_kept)
qed

section \<open>A usable history\<close>

definition in_past :: "i64 \<Rightarrow> bool" where
  "in_past t \<longleftrightarrow> 0 \<le> t \<and> t \<le> I64_MAX"

definition store_ok :: "traffic_db \<Rightarrow> bool" where
  "store_ok db \<longleftrightarrow> db_wf db \<and> history_ok db \<and> distinct (map sm_id (traffic_samples db)) \<and>
     (\<forall>s \<in> set (traffic_samples db). sm_id s \<le> seq_samples db) \<and>
     (\<forall>c \<in> set (counter_checkpoints db). in_past (cp_observed_at_ms c))"

definition past_baselines :: "baselines \<Rightarrow> bool" where
  "past_baselines bl \<longleftrightarrow> (\<forall>i b. bl i = Some b \<longrightarrow> in_past (cb_observed_at_ms b))"

lemma store_ok_empty [simp]: "store_ok empty_db"
  by (simp add: store_ok_def history_ok_def empty_db_def[abs_def] db_wf_empty[unfolded empty_db_def])

lemma store_ok_ageable: "store_ok db \<Longrightarrow> ageable db"
  by (simp add: store_ok_def ageable_def raw_ids_unique_def)

lemma sample_ok_body [simp]: "sample_ok (sample_body s) = sample_ok s"
  by (simp add: sample_ok_def sample_body_def sample_checks_def)

lemma rollup_ok_body [simp]: "rollup_ok (rollup_body u) = rollup_ok u"
  by (simp add: rollup_ok_def rollup_body_def rollup_checks_def)

lemma sample_body_id [simp]: "sm_id (sample_body s) = sm_id s"
  by (simp add: sample_body_def)

lemma ball_map: "(\<forall>x \<in> set (map f xs). P x) \<longleftrightarrow> (\<forall>x \<in> set xs. P (f x))"
  by simp

lemma subseq_elements: "subseq xs ys \<Longrightarrow> set xs \<subseteq> set ys"
  by (induction rule: list_emb.induct) auto

lemma distinct_subseq: "subseq xs ys \<Longrightarrow> distinct ys \<Longrightarrow> distinct xs"
  by (induction rule: list_emb.induct) (auto dest: subseq_elements)

lemma store_ok_kept:
  assumes ok: "store_ok db" and k: "rows_kept db db'" and wf: "db_wf db'"
  shows "store_ok db'"
proof -
  have s: "set (map sample_body (traffic_samples db')) \<subseteq> set (map sample_body (traffic_samples db))"
    "set (map rollup_body (traffic_rollups db')) \<subseteq> set (map rollup_body (traffic_rollups db))"
    "set (map cp_observed_at_ms (counter_checkpoints db')) \<subseteq> set (map cp_observed_at_ms (counter_checkpoints db))"
    using k unfolding rows_kept_def by (simp_all only: subseq_elements)
  have "subseq (map sm_id (map sample_body (traffic_samples db'))) (map sm_id (map sample_body (traffic_samples db)))"
    using k unfolding rows_kept_def by (elim conjE) (rule subseq_map)
  then have "subseq (map sm_id (traffic_samples db')) (map sm_id (traffic_samples db))" unfolding map_map comp_def sample_body_id .
  moreover have "distinct (map sm_id (traffic_samples db))" using ok by (simp add: store_ok_def)
  ultimately have "distinct (map sm_id (traffic_samples db'))" by (rule distinct_subseq)
  moreover have "\<forall>x \<in> set (map sample_body (traffic_samples db')). sample_ok x \<and> sm_id x \<le> seq_samples db"
    using ok s(1) by (intro ballI) (auto simp: store_ok_def history_ok_def)
  moreover have "\<forall>x \<in> set (map rollup_body (traffic_rollups db')). rollup_ok x"
    using ok s(2) by (intro ballI) (auto simp: store_ok_def history_ok_def)
  moreover have "\<forall>t \<in> set (map cp_observed_at_ms (counter_checkpoints db')). in_past t"
    using ok s(3) by (intro ballI) (auto simp: store_ok_def)
  moreover have "seq_samples db' = seq_samples db" using k by (simp add: rows_kept_def)
  ultimately show ?thesis using wf unfolding store_ok_def history_ok_def ball_map by simp
qed

lemma resolve_router_store_ok: "store_ok db \<Longrightarrow> resolve_router db uuid hw target t0 = (res, db') \<Longrightarrow> store_ok db'"
  by (rule store_ok_kept) (use resolve_router_kept resolve.preserves[of db "(uuid, hw, target, t0)"] in
    \<open>auto simp: store_ok_def\<close>)

section \<open>Ageing\<close>

lemma rollup_store_ok:
  assumes ok: "store_ok db" and r: "rollup_exact_samples_batch db before width n = (res, db')"
  shows "store_ok db'"
proof (cases res)
  case (Inl e)
  then show ?thesis using maintenance.atomic[of "Rollup before width n" db e db'] r ok by simp
next
  case (Inr k)
  have a: "ageable db'" using rollup_ageable[OF store_ok_ageable[OF ok] r[unfolded Inr]] .
  obtain p where b: "batch_of db before n p db'" using rollup_batch_of[OF store_ok_ageable[OF ok] r[unfolded Inr]] by blast
  then have "seq_samples db' = seq_samples db" "counter_checkpoints db' = counter_checkpoints db"
    "sm_id ` set (traffic_samples db') \<subseteq> sm_id ` set (traffic_samples db)"
    by (auto simp: batch_of_def aged_samples_def)
  then show ?thesis using a ok by (fastforce simp: store_ok_def ageable_def raw_ids_unique_def)
qed

lemma prune_store_ok:
  assumes ok: "store_ok db" and r: "prune_exact_history_batch db before n = (res, db')"
  shows "store_ok db'"
proof (cases res)
  case (Inl e)
  then show ?thesis using maintenance.atomic[of "Prune before n" db e db'] r ok by simp
next
  case (Inr k)
  have a: "ageable db'" using prune_ageable[OF store_ok_ageable[OF ok] r[unfolded Inr]] .
  have "seq_samples db' = seq_samples db" "counter_checkpoints db' = counter_checkpoints db"
    "set (traffic_samples db') \<subseteq> set (traffic_samples db)"
    using delete_oldest_sub[of sm_ended_at_ms sm_id before n "traffic_samples db"]
    by (auto simp: prune_InrD(2)[OF r[unfolded Inr]])
  then show ?thesis using a ok by (auto simp: store_ok_def ageable_def raw_ids_unique_def)
qed

section \<open>Observations\<close>

lemma put_checkpoint_seq [simp]: "seq_samples (put_checkpoint db c) = seq_samples db"
  by (simp add: put_checkpoint_def)

lemma put_checkpoint_times:
  "in_past (cp_observed_at_ms c) \<Longrightarrow> (\<forall>c \<in> set (counter_checkpoints db). in_past (cp_observed_at_ms c)) \<Longrightarrow>
   \<forall>c \<in> set (counter_checkpoints (put_checkpoint db c)). in_past (cp_observed_at_ms c)"
  by (auto simp: put_checkpoint_def)

lemma commit_sample_store_ok:
  assumes ok: "store_ok db" and run: "commit_sample_and_checkpoint db s c = (res, db')"
    and t: "in_past (tsi_started_at_ms s)" "in_past (tsi_ended_at_ms s)"
    and b: "tsi_download_bytes s \<le> I64_MAX" "tsi_upload_bytes s \<le> I64_MAX"
  shows "store_ok db'"
proof (cases "db' = db")
  case False
  then obtain r where res: "res = Inr r" using run store_atomic(1) by (cases res) auto
  note * = commit_sample_InrD[OF run[unfolded res]]
  have d: "db' = put_checkpoint (append_sample db s) c" using *(5,6) False by (cases r) auto
  have wf: "db_wf db'" using commit_sample_wf[OF _ run[unfolded res]] ok by (simp add: store_ok_def)
  define row where "row = (new_sample_row s)\<lparr>sm_id := seq_samples db + 1\<rparr>"
  have samples: "traffic_samples db' = traffic_samples db @ [row]" by (simp add: d row_def)
  have "sample_checks row" using wf by (simp add: db_wf_def wf_samples_def samples)
  moreover have "sat_sub (tsi_ended_at_ms s) (tsi_started_at_ms s) = tsi_ended_at_ms s - tsi_started_at_ms s"
    using t by (simp add: in_past_def sat_sub_def clamp_i64_def I64_MAX_def I64_MIN_def)
  ultimately have "sample_ok row"
    using *(1) t b by (simp add: sample_ok_def row_def new_sample_row_def validate_sample_Inr_iff in_past_def)
  moreover have "cp_observed_at_ms c = tsi_ended_at_ms s" using *(3) by (simp add: sample_refers_to_def)
  then have "\<forall>c \<in> set (counter_checkpoints db'). in_past (cp_observed_at_ms c)"
    unfolding d using ok t by (intro put_checkpoint_times) (simp_all add: store_ok_def)
  moreover have "seq_samples db' = seq_samples db + 1" "traffic_rollups db' = traffic_rollups db"
    "sm_id row = seq_samples db + 1"
    by (simp_all add: d append_sample_def row_def)
  moreover have "\<forall>x \<in> set (traffic_samples db). sm_id x \<le> seq_samples db" "distinct (map sm_id (traffic_samples db))"
    "history_ok db" using ok by (simp_all add: store_ok_def)
  moreover from this(1) have "seq_samples db + 1 \<notin> sm_id ` set (traffic_samples db)" by force
  ultimately show ?thesis using wf unfolding store_ok_def samples history_ok_def by fastforce
qed (use ok in simp)

lemma checkpoint_only_store_ok:
  assumes ok: "store_ok db" and wf: "db_wf db'" and c: "in_past (cp_observed_at_ms c)"
    and same: "traffic_samples db' = traffic_samples db" "traffic_rollups db' = traffic_rollups db"
      "seq_samples db' = seq_samples db"
    and cps: "counter_checkpoints db' = counter_checkpoints (put_checkpoint db c)"
  shows "store_ok db'"
proof -
  have "\<forall>c \<in> set (counter_checkpoints db'). in_past (cp_observed_at_ms c)"
    unfolding cps using ok c by (intro put_checkpoint_times) (simp_all add: store_ok_def)
  then show ?thesis using ok wf same by (simp add: store_ok_def history_ok_def)
qed

lemma commit_gap_store_ok:
  assumes ok: "store_ok db" and run: "commit_gap_and_checkpoint db g c = (res, db')"
    and t: "in_past (cp_observed_at_ms c)"
  shows "store_ok db'"
proof (cases "db' = db")
  case False
  then obtain r where res: "res = Inr r" using run store_atomic(2) by (cases res) auto
  have d: "db' = put_checkpoint (append_gap db g) c" using commit_gap_InrD(5,6)[OF run[unfolded res]] False by (cases r) auto
  have wf: "db_wf db'" using commit_gap_wf[OF _ run[unfolded res]] ok by (simp add: store_ok_def)
  show ?thesis
    by (rule checkpoint_only_store_ok[OF ok wf t]) (simp_all add: d put_checkpoint_def append_gap_def)
qed (use ok in simp)

lemma initialize_store_ok:
  assumes ok: "store_ok db" and run: "initialize_checkpoint_if_absent db c = (res, db')"
    and t: "in_past (cp_observed_at_ms c)"
  shows "store_ok db'"
proof (cases "db' = db")
  case False
  then obtain r where res: "res = Inr r" using run store_atomic(3) by (cases res) auto
  have d: "db' = put_checkpoint db c" using initialize_checkpoint_InrD(3,4)[OF run[unfolded res]] False by (cases r) auto
  have wf: "db_wf db'" using initialize_checkpoint_wf[OF _ run[unfolded res]] ok by (simp add: store_ok_def)
  show ?thesis by (rule checkpoint_only_store_ok[OF ok wf t]) (simp_all add: d)
qed (use ok in simp)

lemma baseline_time [simp]: "cb_observed_at_ms (baseline_from_observation obs m) = co_observed_at_ms obs"
  by (simp add: baseline_from_observation_def)

lemma checkpoint_time [simp]: "cp_observed_at_ms (checkpoint_of obs m) = co_observed_at_ms obs"
  by (simp add: checkpoint_of_def)

lemma past_baselines_upd:
  "past_baselines bl \<Longrightarrow> in_past (cb_observed_at_ms b) \<Longrightarrow> past_baselines (bl(i \<mapsto> b))"
  by (simp add: past_baselines_def)

lemma past_baselines_less: "past_baselines bl \<Longrightarrow> bl' \<subseteq>\<^sub>m bl \<Longrightarrow> past_baselines bl'"
  unfolding past_baselines_def map_le_def by (metis domI)

lemma exact_sample_fits:
  assumes "exact_sample prev obs = Some s"
  shows "tsi_download_bytes s \<le> I64_MAX" "tsi_upload_bytes s \<le> I64_MAX"
proof -
  have fits: "i64_try_from n = Some d \<Longrightarrow> d \<le> I64_MAX" for n d by (auto simp: i64_try_from_def split: if_splits)
  show "tsi_download_bytes s \<le> I64_MAX" "tsi_upload_bytes s \<le> I64_MAX"
    using assms by (auto simp: exact_sample_def exact_deltas_Some_iff dest: fits split: if_splits)
qed

definition usable :: "traffic_db \<Rightarrow> baselines \<Rightarrow> bool" where
  "usable db bl \<longleftrightarrow> store_ok db \<and> past_baselines bl"

lemma commit_gap_step_usable:
  assumes u: "usable db bl" and t: "in_past (co_observed_at_ms obs)"
    and run: "commit_gap_step db bl obs m g = (res, db', bl')"
  shows "usable db' bl'"
proof -
  obtain r d where c: "commit_gap_and_checkpoint db g (checkpoint_of obs m) = (r, d)" by fastforce
  have "store_ok d" using commit_gap_store_ok[OF _ c] u t by (simp add: usable_def)
  then show ?thesis using run c u t past_baselines_upd[of bl]
    by (auto simp: commit_gap_step_def usable_def split: sum.splits)
qed

lemma without_baseline_usable:
  assumes u: "usable db bl" and t: "in_past (co_observed_at_ms obs)"
    and run: "persist_without_baseline db bl obs = (res, db', bl')"
  shows "usable db' bl'"
proof -
  define m where "m = boot_marker (co_observed_at_ms obs) (co_uptime_seconds obs)"
  obtain r d where c: "initialize_checkpoint_if_absent db (checkpoint_of obs m) = (r, d)" by fastforce
  have d: "store_ok d" using initialize_store_ok[OF _ c] u t by (simp add: usable_def)
  then have "usable d bl" "usable d (bl(co_interface_id obs \<mapsto> baseline_from_observation obs m))"
    using u t past_baselines_upd[of bl] by (simp_all add: usable_def)
  then show ?thesis using run commit_gap_step_usable[of d bl obs m] t
    by (auto simp: persist_without_baseline_def Let_def m_def[symmetric] c
        split: sum.splits bool.splits option.splits if_splits)
qed

lemma with_baseline_usable:
  assumes u: "usable db bl" and t: "in_past (co_observed_at_ms obs)" "in_past (cb_observed_at_ms prev)"
    and run: "persist_with_baseline db bl obs prev = (res, db', bl')"
  shows "usable db' bl'"
proof (cases "co_observed_at_ms obs \<le> cb_observed_at_ms prev")
  case True
  then show ?thesis using run u by (simp add: persist_with_baseline_def)
next
  case False
  define m where "m = observation_marker prev obs"
  show ?thesis
  proof (cases "exact_sample prev obs")
    case None
    then show ?thesis using run False commit_gap_step_usable[OF u t(1)]
      by (auto simp: persist_with_baseline_def Let_def)
  next
    case (Some s)
    obtain r d where c: "commit_sample_and_checkpoint db s (checkpoint_of obs m) = (r, d)" by fastforce
    have "store_ok d" using commit_sample_store_ok[OF _ c] u t exact_sample_SomeD(3,4)[OF Some] exact_sample_fits[OF Some]
      by (simp add: usable_def)
    then show ?thesis using run False Some c u t past_baselines_upd[of bl]
      by (auto simp: persist_with_baseline_def Let_def m_def[symmetric] usable_def split: sum.splits)
  qed
qed

lemma observation_usable:
  assumes u: "usable db bl" and t: "in_past (co_observed_at_ms obs)"
    and run: "persist_counter_observation db bl obs = (res, db', bl')"
  shows "usable db' bl'"
proof (cases "bl (co_interface_id obs)")
  case None
  then show ?thesis using run without_baseline_usable[OF u t] by (simp add: persist_counter_observation_def)
next
  case (Some prev)
  then have "in_past (cb_observed_at_ms prev)" using u by (auto simp: usable_def past_baselines_def)
  then show ?thesis using run Some with_baseline_usable[OF u t] by (simp add: persist_counter_observation_def)
qed

lemma upsert_usable:
  assumes u: "usable db bl" and run: "upsert_router_interface db r key name kind hw t = (res, db')"
  shows "usable db' bl"
proof -
  have "db_wf db'" using upsert_interface.preserves[of db "(r, key, name, kind, hw, t)"] u run
    by (simp add: usable_def store_ok_def)
  moreover have "rows_kept db db'"
    using run by (auto simp: upsert_router_interface_def upsert_interface_row_def rows_kept_def split: if_splits sum.splits option.splits)
  ultimately show ?thesis using u store_ok_kept[of db db'] by (simp add: usable_def)
qed

section \<open>A poll\<close>

lemma persist_member_usable:
  assumes u: "usable (pl_db st) (pl_baselines st)" and t: "in_past (cs_unix_ms (rd_counter_sample_time data))"
  shows "usable (pl_db (persist_member r data iface i rx tx st)) (pl_baselines (persist_member r data iface i rx tx st))"
proof -
  obtain res db' bl' where p: "persist_counter_observation (pl_db st) (pl_baselines st) (observation_of_member r data i rx tx) = (res, db', bl')"
    using prod_cases3 by blast
  have "usable db' bl'" by (rule observation_usable[OF u _ p]) (simp add: observation_of_member_def t)
  then show ?thesis
    by (auto simp: persist_member_def p Let_def split: sum.splits persistence_outcome.splits option.splits)
qed

lemma persist_wan_usable:
  assumes u: "usable (pl_db st) (pl_baselines st)" and t: "in_past (cs_unix_ms (rd_counter_sample_time data))"
  shows "usable (pl_db (persist_wan r data st wan)) (pl_baselines (persist_wan r data st wan))"
proof (cases "find (\<lambda>iface. if_name iface = wan) (rd_interfaces data)")
  case None
  then show ?thesis using u by (simp add: persist_wan_def)
next
  case (Some iface)
  define hw where "hw = (if trim (if_mac_address iface) \<noteq> [] then Some (if_mac_address iface) else None)"
  obtain res db' where c: "upsert_router_interface (pl_db st) r (durable_interface_key iface)
      (if_name iface) ''wan'' hw (cs_unix_ms (rd_counter_sample_time data)) = (res, db')" by fastforce
  have db': "usable db' (pl_baselines st)" by (rule upsert_usable[OF u c])
  show ?thesis
  proof (cases res)
    case (Inl e)
    then show ?thesis using Some c db' by (simp add: persist_wan_def hw_def[symmetric])
  next
    case (Inr rec)
    define st1 where "st1 = st\<lparr>pl_db := db', pl_active := ri_id rec # pl_active st, pl_members := pl_members st @ [ri_id rec]\<rparr>"
    have st1: "usable (pl_db st1) (pl_baselines st1)" by (simp add: st1_def db')
    have "past_baselines ((pl_baselines st1)(ri_id rec := None))"
      by (rule past_baselines_less[of "pl_baselines st1"]) (use st1 in \<open>auto simp: usable_def map_le_def\<close>)
    then show ?thesis using Some c Inr st1 persist_member_usable[OF st1 t]
      by (auto simp: persist_wan_def hw_def[symmetric] st1_def[symmetric] Let_def usable_def split: option.splits)
  qed
qed

lemma persist_aggregate_usable:
  assumes u: "usable (pl_db st) (pl_baselines st)" and t: "in_past (cs_unix_ms (rd_counter_sample_time data))"
  shows "usable (pl_db (persist_aggregate r data a st)) (pl_baselines (persist_aggregate r data a st))"
proof (cases "pl_complete st")
  case True
  obtain res db' bl' where p: "persist_counter_observation (pl_db st) (pl_baselines st) (aggregate_observation r data a st) = (res, db', bl')"
    using prod_cases3 by blast
  have "usable db' bl'" by (rule observation_usable[OF u _ p]) (simp add: aggregate_observation_def t)
  then show ?thesis using True by (auto simp: persist_aggregate_def p split: sum.splits)
next
  case False
  have "past_baselines ((pl_baselines st)(a := None))"
    by (rule past_baselines_less[of "pl_baselines st"]) (use u in \<open>auto simp: usable_def map_le_def\<close>)
  then show ?thesis using False u by (simp add: persist_aggregate_def usable_def)
qed

lemma persist_exact_traffic_usable:
  assumes u: "usable db bl" and t: "in_past (cs_unix_ms (rd_counter_sample_time data))"
    and run: "persist_exact_traffic db bl r data names = (res, db', bl')"
  shows "usable db' bl'"
proof -
  obtain ures db1 where c: "upsert_router_interface db r AGGREGATE_INTERFACE_KEY ''Aggregate''
      ''aggregate'' None (cs_unix_ms (rd_counter_sample_time data)) = (ures, db1)" by fastforce
  have db1: "usable db1 bl" by (rule upsert_usable[OF u c])
  show ?thesis
  proof (cases ures)
    case (Inl e)
    then show ?thesis using run c db1 by (simp add: persist_exact_traffic_def)
  next
    case (Inr agg)
    have fold: "usable (pl_db st) (pl_baselines st) \<Longrightarrow>
      usable (pl_db (foldl (persist_wan r data) st ns)) (pl_baselines (foldl (persist_wan r data) st ns))" for st ns
      by (induction ns arbitrary: st) (auto intro: persist_wan_usable[OF _ t])
    define st where "st = persist_aggregate r data (ri_id agg) (foldl (persist_wan r data)
        \<lparr>pl_db = db1, pl_baselines = bl, pl_errors = [], pl_active = [ri_id agg], pl_rx = 0, pl_tx = 0,
         pl_complete = (names \<noteq> []), pl_continuous = (names \<noteq> []), pl_members = []\<rparr> names)"
    have st: "usable (pl_db st) (pl_baselines st)"
      unfolding st_def by (intro persist_aggregate_usable[OF _ t] fold) (simp add: db1)
    have "db' = pl_db st" "bl' = pl_baselines st |` set (pl_active st)"
      using run c Inr by (simp_all add: persist_exact_traffic_def Let_def st_def)
    then show ?thesis using st past_baselines_less[OF _ restrict_le, of "pl_baselines st"] by (simp add: usable_def)
  qed
qed

section \<open>The engine\<close>

definition history_inv :: "('c, 'n) poll_engine \<Rightarrow> bool" where
  "history_inv e \<longleftrightarrow> usable (sh_db e) (en_baselines e)"

lemma usable_no_baselines [simp]: "usable db Map.empty \<longleftrightarrow> store_ok db"
  by (simp add: usable_def past_baselines_def)

lemma scope_fields [simp]:
  "sh_db (clear_router_scope e) = sh_db e" "en_baselines (clear_router_scope e) = Map.empty"
  "sh_db (clear_counter_baseline e) = sh_db e" "en_baselines (clear_counter_baseline e) = en_baselines e"
  "sh_db (switch_router_scope r e) = sh_db e"
  by (simp_all add: clear_router_scope_def clear_counter_baseline_def switch_router_scope_def)

lemma switch_baselines: "usable db (en_baselines e) \<Longrightarrow> usable db (en_baselines (switch_router_scope r e))"
  by (simp add: switch_router_scope_def) (simp add: usable_def)

lemma store_sample_history:
  assumes inv: "history_inv e" and t: "in_past (cs_unix_ms (rd_counter_sample_time data))"
    and run: "store_sample inp data e = (e', errs, usage)"
  shows "history_inv e'"
proof -
  define now where "now = cs_unix_ms (rd_counter_sample_time data)"
  obtain r db where res: "resolve_router (sh_db e) (ti_uuid inp) (sd_hardware_identity (rd_system data))
      (rcn_host (en_last_conn_params e)) now = (r, db)" by fastforce
  have db: "store_ok db" using resolve_router_store_ok[OF _ res] inv by (simp add: history_inv_def usable_def)
  then have bl: "usable db (en_baselines e)" using inv by (simp add: history_inv_def usable_def)
  show ?thesis
  proof (cases r)
    case (Inl err)
    then show ?thesis using run res bl db
      by (auto simp: store_sample_def Let_def now_def[symmetric] history_inv_def split: if_splits)
  next
    case (Inr router)
    define e1 where "e1 = switch_router_scope (rr_id router) (e\<lparr>sh_db := db\<rparr>)"
    have e1: "usable (sh_db e1) (en_baselines e1)"
      using switch_baselines[of db "e\<lparr>sh_db := db\<rparr>"] bl by (simp add: e1_def)
    obtain res2 db2 bl2 where p: "persist_exact_traffic (sh_db e1) (en_baselines e1) (rr_id router) data (wan_interface_names data)
        = (res2, db2, bl2)" using prod_cases3 by blast
    have "usable db2 bl2" by (rule persist_exact_traffic_usable[OF e1 t p])
    moreover have "sh_db e' = db2 \<and> en_baselines e' = bl2"
      using run unfolding store_sample_def Let_def now_def[symmetric] res Inr prod.case sum.case e1_def[symmetric] p
      by (auto split: sum.splits)
    ultimately show ?thesis by (simp add: history_inv_def)
  qed
qed

text \<open>A clock that shows a time after 1970 that fits its type.\<close>

definition clock_ok :: "('c, 'n) poll_input \<Rightarrow> bool" where
  "clock_ok inp \<longleftrightarrow> (\<forall>c data. ti_fetch inp c = Inr data \<longrightarrow> in_past (cs_unix_ms (rd_counter_sample_time data)))"

lemma fetch_history:
  assumes "history_inv e" "clock_ok inp" "fetch_and_transform inp c e = (res, e')"
  shows "history_inv e'"
proof (cases "ti_fetch inp c")
  case (Inl err)
  then show ?thesis using assms by (simp add: fetch_and_transform_def)
next
  case (Inr data)
  obtain e1 errs usage where s: "store_sample inp data e = (e1, errs, usage)" using prod_cases3 by blast
  have "history_inv e1" by (rule store_sample_history[OF assms(1) _ s]) (use assms(2) Inr in \<open>auto simp: clock_ok_def\<close>)
  then show ?thesis using assms(3) Inr s by (auto simp: fetch_and_transform_def Let_def history_inv_def)
qed

lemma maintain_history: "history_inv e \<Longrightarrow> history_inv (maintain inp e)"
proof -
  assume inv: "history_inv e"
  define raw where "raw = sat_sub (ti_utc_now inp div 1000000) (sat_mul (as_i64 (mc_db_raw_retention_days (sh_config e))) 86400000)"
  define total where "total = sat_sub (ti_utc_now inp div 1000000) (sat_mul (as_i64 (mc_db_total_retention_days (sh_config e))) 86400000)"
  obtain r db1 where 1: "rollup_exact_samples (sh_db e) raw 60000 = (r, db1)" by fastforce
  obtain p db2 where 2: "prune_exact_history db1 total = (p, db2)" by fastforce
  have "store_ok db1" using rollup_store_ok[OF _ 1[unfolded rollup_exact_samples_def]] inv by (simp add: history_inv_def usable_def)
  then have "store_ok db2" using prune_store_ok[OF _ 2[unfolded prune_exact_history_def]] by simp
  moreover have "sh_db (maintain inp e) = db2" "en_baselines (maintain inp e) = en_baselines e"
    unfolding maintain_def Let_def raw_def[symmetric] total_def[symmetric] 1 by (simp_all add: 2)
  ultimately show ?thesis using inv by (simp add: history_inv_def usable_def)
qed

lemma history_cong: "sh_db e' = sh_db e \<Longrightarrow> en_baselines e' = en_baselines e \<Longrightarrow> history_inv e' = history_inv e"
  by (simp add: history_inv_def)

lemma quiet_steps:
  "history_inv (mark_ready t now e) = history_inv e" "history_inv (mark_storage_failure m e) = history_inv e"
  "history_inv (mark_poll_failure now m e) = history_inv e" "history_inv (send msg e) = history_inv e"
  "history_inv (publish s e) = history_inv e" "history_inv (flush e) = history_inv e"
  "history_inv (start_probe_batch e) = history_inv e" "history_inv (finish_probe_batch nw completed e) = history_inv e"
  "history_inv (e\<lparr>sh_config := cfg\<rparr>) = history_inv e" "history_inv (e\<lparr>sh_targets := targets\<rparr>) = history_inv e"
  "history_inv (try_reconnect inp e) = history_inv e" "history_inv (snd (update_override mac name kind changed_at e)) = history_inv e"
  by (rule history_cong; simp add: mark_ready_def mark_storage_failure_def mark_poll_failure_def mark_degraded_def
      schedule_reconnect_def send_def publish_def flush_def start_probe_batch_def finish_probe_batch_def try_reconnect_def
      mark_connection_failure_def update_override_def override_begin_def override_end_def Let_def
      split: option.splits prod.splits sum.splits)+

lemma finish_tick_history: "history_inv e \<Longrightarrow> history_inv (finish_tick inp s errs e)"
proof -
  assume inv: "history_inv e"
  define s1 where "s1 = s\<lparr>ds_latency_probes := en_last_probe_results e,
    ds_stability := build_stability (en_stability_history e) (mc_probe_interval_secs (sh_config e)),
    ds_wifi := apply_device_overrides (sh_overrides e) (ds_wifi s)\<rparr>"
  obtain s2 e1 where h: "update_traffic_history inp (s1, e) = (s2, e1)" by fastforce
  have "history_inv e1" using inv h by (auto simp: update_traffic_history_def Let_def history_inv_def split: list.splits)
  then show ?thesis
    using maintain_history[of "e1\<lparr>en_wan_traffic_history := _, en_poll_count := _\<rparr>"]
    by (simp add: finish_tick_def Let_def h[unfolded s1_def] quiet_steps) (simp add: history_inv_def)
qed

lemma tick_history: "history_inv e \<Longrightarrow> clock_ok inp \<Longrightarrow> history_inv (poll_tick inp e)"
  using fetch_history[of "try_reconnect inp e" inp]
  by (auto simp: poll_tick_def Let_def quiet_steps finish_tick_history split: option.split prod.split sum.split)

fun event_clock_ok :: "('c, 'n) engine_event \<Rightarrow> bool" where
  "event_clock_ok (Tick inp) \<longleftrightarrow> clock_ok inp"
| "event_clock_ok _ \<longleftrightarrow> True"

lemma step_history: "history_inv e \<Longrightarrow> event_clock_ok ev \<Longrightarrow> history_inv (engine_step ev e)"
  by (cases ev) (auto simp: quiet_steps tick_history) 

lemma runs_history: "history_inv e \<Longrightarrow> list_all event_clock_ok evs \<Longrightarrow> history_inv (fold engine_step evs e)"
  by (induction evs arbitrary: e) (auto intro: step_history)

section \<open>Properties\<close>

text \<open>C36: The running server keeps its history usable.  Starting from a usable store, after any
  sequence of polls (whatever the router answers, also with other identities and failing writes),
  roll-ups and prunings of the polls' maintenance, probe results and changes of names and
  configuration, the store satisfies the schema, its sample identifiers stay unique, and every
  row can be queried and aged, so that the properties of queries and of ageing apply at any
  time; the clock only has to show a time after 1970.\<close>

theorem server_keeps_history:
  fixes evs :: "('c, 'n) engine_event list"
  assumes "store_ok db" "list_all event_clock_ok evs"
    and "e = fold engine_step evs (new_engine t0 cfg db overrides targets)"
  shows "store_ok (sh_db e) \<and> ageable (sh_db e) \<and> (\<forall>q. query_valid (sh_db e) q = query_ok q) \<and>
    past_baselines (en_baselines e)"
proof -
  have "history_inv (new_engine t0 cfg db overrides targets :: ('c, 'n) poll_engine)"
    using assms(1) by (simp add: history_inv_def new_engine_def)
  then have "usable (sh_db e) (en_baselines e)" using runs_history assms(2,3) by (simp add: history_inv_def)
  then show ?thesis using store_ok_ageable[of "sh_db e"] by (simp add: usable_def query_valid_def store_ok_def)
qed

theorem server_keeps_history_witness:
  "store_ok (sh_db (fold engine_step [Tick (example_input 10), Flush, Tick (example_input 12)] example_engine))"
  using server_keeps_history[OF store_ok_empty _ refl, of "[Tick (example_input 10), Flush, Tick (example_input 12)]"
      0 example_config "[]" "[]"]
  unfolding example_engine_def
  by (simp add: clock_ok_def) (simp add: example_input_def example_data_def in_past_def I64_MAX_def)

end
