(* ===== verification/Oidc_Provider.thy ===== *)
theory Oidc_Provider
  imports Auth_Setup Env_Config
begin

text \<open>
  The identity provider as \<open>oidc.rs\<close> sees it: bounded HTTP requests, discovery, the answers to token
  requests and the claims of an ID token.  What the libraries do (URLs, JSON, base64, JOSE, the
  \<open>openidconnect\<close> types and SHA-256) is the record \<open>oidc_library\<close>; the network is a function from
  requests to replies.
\<close>

section \<open>Limits\<close>

definition FLOW_COOKIE :: string where "FLOW_COOKIE = ''__Host-routerview_oidc_flow''"
definition FLOW_TTL :: nat where "FLOW_TTL = 5 * 60 * 1000000000"
definition FLOW_CAPACITY :: nat where "FLOW_CAPACITY = 1024"
definition FLOW_PER_SOURCE :: nat where "FLOW_PER_SOURCE = 8"
definition MAX_QUERY_BYTES :: nat where "MAX_QUERY_BYTES = 8 * 1024"
definition MAX_REDIRECT_BYTES :: nat where "MAX_REDIRECT_BYTES = 2 * 1024"
definition MAX_HTTP_RESPONSE_BYTES :: nat where "MAX_HTTP_RESPONSE_BYTES = 1024 * 1024"
definition DISCOVERY_RETRY_MIN :: nat where "DISCOVERY_RETRY_MIN = 15"
definition DISCOVERY_RETRY_MAX :: nat where "DISCOVERY_RETRY_MAX = 5 * 60"
definition DISCOVERY_REFRESH :: nat where "DISCOVERY_REFRESH = 5 * 60"

section \<open>Libraries\<close>

datatype json = JNull | JBool bool | JNumber string | JString string | JArray "json list" | JObject "(string \<times> json) list"

datatype auth_type = BasicAuth | RequestBody

record 'k provider_metadata =
  md_issuer :: string
  md_authorization_endpoint :: string
  md_jwks_uri :: string
  md_token_endpoint :: "string option"
  md_userinfo_endpoint :: "string option"
  md_auth_methods :: "string list option"
  md_signing_algs :: "string list"
  md_jwks :: 'k

record 'k provider =
  pv_metadata :: "'k provider_metadata"
  pv_auth_type :: auth_type

text \<open>The typed claims of an ID token; a localized claim lists its language tags.\<close>

record id_claims =
  ic_issuer :: string
  ic_audiences :: "string list"
  ic_authorized_party :: "string option"
  ic_access_token_hash :: "string option"
  ic_subject :: string
  ic_preferred_username :: "string option"
  ic_email :: "string option"
  ic_name :: "(string option \<times> string) list option"

record user_info =
  ui_preferred_username :: "string option"
  ui_email :: "string option"
  ui_name :: "(string option \<times> string) list option"
  ui_additional :: "string \<rightharpoonup> json"

datatype key_error = NoMatchingKeyError | OtherKeyError

text \<open>\<open>oidc_client\<close> with the parts of a token request.\<close>

record token_request =
  tq_url :: string
  tq_client_id :: string
  tq_client_secret :: string
  tq_auth_type :: auth_type
  tq_redirect_url :: string
  tq_code :: string
  tq_verifier :: string

datatype http_request = GetRequest string | TokenRequest token_request | UserInfoRequest string string

text \<open>What a request is answered with: the chunks of a body, \<open>None\<close> where the transfer fails.\<close>

record http_reply =
  hr_status :: nat
  hr_content_length :: "nat option"
  hr_content_type :: "string option"
  hr_chunks :: "string option list"

record http_response =
  hp_status :: nat
  hp_content_type :: "string option"
  hp_body :: string

record ('k, 't, 's) oidc_library =
  ol_parse_url :: "string \<Rightarrow> parsed_url option"
  ol_same_issuer :: "string \<Rightarrow> string \<Rightarrow> bool"
  ol_json_object :: "string \<Rightarrow> (string \<times> json) list option"
  ol_serialize :: "(string \<rightharpoonup> json) \<Rightarrow> string option"
  ol_b64_decode :: "string \<Rightarrow> string option"
  ol_b64_encode :: "string \<Rightarrow> string"
  ol_parse_metadata :: "string \<Rightarrow> 'k provider_metadata option"
  ol_parse_jwks :: "string \<Rightarrow> 'k option"
  ol_parse_token_response :: "http_response \<Rightarrow> (string \<times> 't option) option"
  ol_parse_user_info :: "string \<Rightarrow> http_response \<Rightarrow> user_info option"
  ol_known_alg :: "string \<Rightarrow> bool"
  ol_shared_secret :: "string \<Rightarrow> bool"
  ol_normalize_type :: "string \<Rightarrow> string option"
  ol_parse_token :: "string \<Rightarrow> 't option"
  ol_token_text :: "'t \<Rightarrow> string option"
  ol_signing_alg :: "'t \<Rightarrow> string option"
  ol_signing_key :: "oidc_config \<Rightarrow> 'k provider \<Rightarrow> 't \<Rightarrow> key_error + 's"
  ol_verify_signature :: "'s \<Rightarrow> string \<Rightarrow> string \<Rightarrow> string \<Rightarrow> bool"
  ol_claims :: "i64 \<Rightarrow> oidc_config \<Rightarrow> 'k provider \<Rightarrow> 't \<Rightarrow> string \<Rightarrow> id_claims option"
  ol_claims_unverified :: "i64 \<Rightarrow> 't \<Rightarrow> string \<Rightarrow> id_claims option"
  ol_access_token_hash :: "string \<Rightarrow> string \<Rightarrow> 's \<Rightarrow> string option"
  ol_sha256 :: "string \<Rightarrow> string"
  ol_form_decode :: "string \<Rightarrow> (string \<times> string) list"
  ol_form_encode :: "(string \<times> string) list \<Rightarrow> string"
  ol_authorize_url :: "oidc_config \<Rightarrow> 'k provider \<Rightarrow> string \<Rightarrow> string \<Rightarrow> string \<Rightarrow> string list \<Rightarrow> string"
  ol_certificates :: "string \<Rightarrow> nat option"

section \<open>HTTP\<close>

definition secure_url :: "parsed_url \<Rightarrow> bool" where
  "secure_url u \<longleftrightarrow> \<not> (pu_host_str u = None \<or> pu_username u \<noteq> [] \<or> pu_password u \<noteq> None) \<and>
     (pu_scheme u = ''https'' \<or>
      pu_scheme u = ''http'' \<and> (case pu_host u of None \<Rightarrow> False | Some h \<Rightarrow> is_loopback h))"

definition secure_endpoint :: "('k, 't, 's) oidc_library \<Rightarrow> string \<Rightarrow> bool" where
  "secure_endpoint lib v = (case ol_parse_url lib v of None \<Rightarrow> False | Some u \<Rightarrow> secure_url u)"

datatype bounded_http_error = DisallowedEndpoint | RequestFailed | ResponseTooLarge | InvalidResponse

fun request_url :: "http_request \<Rightarrow> string" where
  "request_url (GetRequest url) = url"
| "request_url (TokenRequest request) = tq_url request"
| "request_url (UserInfoRequest url access_token) = url"

fun collect_body :: "string \<Rightarrow> string option list \<Rightarrow> bounded_http_error + string" where
  "collect_body body [] = Inr body"
| "collect_body body (None # chunks) = Inl RequestFailed"
| "collect_body body (Some chunk # chunks) =
     (if MAX_HTTP_RESPONSE_BYTES < length body + length chunk then Inl ResponseTooLarge
      else collect_body (body @ chunk) chunks)"

definition bounded_call ::
  "('k, 't, 's) oidc_library \<Rightarrow> (http_request \<Rightarrow> http_reply option) \<Rightarrow> http_request \<Rightarrow>
   bounded_http_error + http_response" where
  "bounded_call lib net request =
     and_then (ok_or RequestFailed (ol_parse_url lib (request_url request))) (\<lambda>url.
     if \<not> secure_url url then Inl DisallowedEndpoint
     else and_then (ok_or RequestFailed (net request)) (\<lambda>reply.
       if (case hr_content_length reply of None \<Rightarrow> False | Some n \<Rightarrow> MAX_HTTP_RESPONSE_BYTES < n)
       then Inl ResponseTooLarge
       else and_then (collect_body [] (hr_chunks reply)) (\<lambda>body.
         Inr \<lparr>hp_status = hr_status reply, hp_content_type = hr_content_type reply, hp_body = body\<rparr>)))"

definition eq_ignore_ascii_case :: "string \<Rightarrow> string \<Rightarrow> bool" where
  "eq_ignore_ascii_case a b \<longleftrightarrow> to_lowercase a = to_lowercase b"

text \<open>The content type without its parameters.\<close>

definition media_type :: "http_response \<Rightarrow> string option" where
  "media_type r = map_option (\<lambda>v. trim (hd (split_char CHR '';'' v))) (Option.bind (hp_content_type r) to_str)"

record captured_response =
  cr_status :: nat
  cr_content_type :: "string option"
  cr_body :: string

definition capture_response :: "http_response \<Rightarrow> captured_response" where
  "capture_response r = \<lparr>cr_status = hp_status r, cr_content_type = media_type r, cr_body = hp_body r\<rparr>"

definition fetch_oidc_json ::
  "('k, 't, 's) oidc_library \<Rightarrow> (http_request \<Rightarrow> http_reply option) \<Rightarrow> (string \<Rightarrow> 'a option) \<Rightarrow> string \<Rightarrow> 'a option" where
  "fetch_oidc_json lib net parse endpoint = (case bounded_call lib net (GetRequest endpoint) of
      Inl e \<Rightarrow> None
    | Inr response \<Rightarrow>
        if hp_status response \<noteq> 200 then None
        else if (case media_type response of None \<Rightarrow> False
            | Some v \<Rightarrow> \<not> eq_ignore_ascii_case v ''application/json'' \<and>
                \<not> eq_ignore_ascii_case v ''application/jwk-set+json'') then None
        else parse (hp_body response))"

section \<open>Discovery\<close>

definition discovery_url :: "('k, 't, 's) oidc_library \<Rightarrow> string \<Rightarrow> string option" where
  "discovery_url lib issuer =
     (let base = (if issuer \<noteq> [] \<and> last issuer = CHR ''/'' then butlast issuer else issuer);
          v = base @ ''/.well-known/openid-configuration'' in
      case ol_parse_url lib v of None \<Rightarrow> None | Some u \<Rightarrow> if secure_url u then Some v else None)"

definition discover_provider ::
  "('k, 't, 's) oidc_library \<Rightarrow> (http_request \<Rightarrow> http_reply option) \<Rightarrow> oidc_config \<Rightarrow> 'k provider option" where
  "discover_provider lib net config =
     (if ol_parse_url lib (oc_issuer_url config) = None then None
      else Option.bind (discovery_url lib (oc_issuer_url config)) (\<lambda>url.
      Option.bind (fetch_oidc_json lib net (ol_parse_metadata lib) url) (\<lambda>metadata.
      if \<not> ol_same_issuer lib (md_issuer metadata) (oc_issuer_url config) then None
      else if list_ex (\<lambda>e. \<not> secure_endpoint lib e) [md_authorization_endpoint metadata, md_jwks_uri metadata]
        \<or> (case md_token_endpoint metadata of None \<Rightarrow> True | Some e \<Rightarrow> \<not> secure_endpoint lib e)
        \<or> (case md_userinfo_endpoint metadata of None \<Rightarrow> False | Some e \<Rightarrow> \<not> secure_endpoint lib e) then None
      else Option.bind
        (case md_auth_methods metadata of
           None \<Rightarrow> Some BasicAuth
         | Some methods \<Rightarrow>
             if ''client_secret_basic'' \<in> set methods then Some BasicAuth
             else if ''client_secret_post'' \<in> set methods then Some RequestBody else None) (\<lambda>auth_type.
        Option.bind (fetch_oidc_json lib net (ol_parse_jwks lib) (md_jwks_uri metadata)) (\<lambda>jwks.
        Some \<lparr>pv_metadata = metadata\<lparr>md_jwks := jwks\<rparr>, pv_auth_type = auth_type\<rparr>)))))"

section \<open>Objects and identity texts\<close>

text \<open>A JSON object whose fields are all different.\<close>

fun insert_unique :: "(string \<rightharpoonup> json) \<Rightarrow> (string \<times> json) list \<Rightarrow> (string \<rightharpoonup> json) option" where
  "insert_unique values [] = Some values"
| "insert_unique values ((key, v) # entries) =
     (if values key \<noteq> None then None else insert_unique (values(key \<mapsto> v)) entries)"

definition unique_object :: "('k, 't, 's) oidc_library \<Rightarrow> string \<Rightarrow> (string \<rightharpoonup> json) option" where
  "unique_object lib text = Option.bind (ol_json_object lib text) (insert_unique Map.empty)"

definition valid_identity_text :: "string option \<Rightarrow> nat \<Rightarrow> string option" where
  "valid_identity_text v maximum = Option.bind v (\<lambda>v. let t = trim v in
     if t \<noteq> [] \<and> length t \<le> maximum \<and> \<not> has_control t then Some t else None)"

definition localized_value :: "(string option \<times> string) list \<Rightarrow> string option" where
  "localized_value claim = Option.bind
     (case map_of claim None of Some v \<Rightarrow> Some v
      | None \<Rightarrow> (case claim of [] \<Rightarrow> None | (_, v) # _ \<Rightarrow> Some v))
     (\<lambda>v. valid_identity_text (Some v) 256)"

definition or_else_text :: "string option \<Rightarrow> string option \<Rightarrow> string option" where
  "or_else_text a b = (case a of Some x \<Rightarrow> Some x | None \<Rightarrow> b)"

definition identity_name :: "string option \<Rightarrow> string option \<Rightarrow> string option" where
  "identity_name preferred email = or_else_text (valid_identity_text preferred 256) (valid_identity_text email 256)"

datatype login_error = ProviderUnavailable | NotAuthorized | AuthenticationFailed

fun group_texts :: "json list \<Rightarrow> login_error + string list" where
  "group_texts [] = Inr []"
| "group_texts (v # vs) = (case v of
      JString g \<Rightarrow> if length g \<le> 512 \<and> \<not> has_control g
        then and_then (group_texts vs) (\<lambda>gs. Inr (g # gs)) else Inl AuthenticationFailed
    | _ \<Rightarrow> Inl AuthenticationFailed)"

definition group_claim :: "(string \<rightharpoonup> json) \<Rightarrow> string \<Rightarrow> login_error + string list option" where
  "group_claim values claim_name = (case values claim_name of
      None \<Rightarrow> Inr None
    | Some (JArray vs) \<Rightarrow> if 512 < length vs then Inl AuthenticationFailed
        else and_then (group_texts vs) (\<lambda>gs. Inr (Some gs))
    | Some _ \<Rightarrow> Inl AuthenticationFailed)"

definition map_role :: "string list \<Rightarrow> oidc_config \<Rightarrow> login_error + string" where
  "map_role groups config =
     (if oc_admin_group config \<in> set groups then Inr ''admin''
      else if oc_viewer_group config \<in> set groups then Inr ''viewer''
      else Inl NotAuthorized)"

text \<open>Each of the five texts ends with a zero byte.\<close>

definition policy_text :: "oidc_config \<Rightarrow> string" where
  "policy_text config = concat (map (\<lambda>v. v @ [CHR 0x00])
     [oc_issuer_url config, oc_client_id config, oc_groups_claim config, oc_viewer_group config, oc_admin_group config])"

definition policy_fingerprint :: "('k, 't, 's) oidc_library \<Rightarrow> oidc_config \<Rightarrow> string" where
  "policy_fingerprint lib config = ol_sha256 lib (policy_text config)"

end
