(* ===== verification/Oidc_Token.thy ===== *)
theory Oidc_Token
  imports Oidc_Provider
begin

text \<open>
  ID tokens: the claims of a token the library has accepted, and the token of a provider whose
  \<open>address\<close> claim is an array, which the library refuses to parse.  That one is checked here: the
  library parses a copy with the address replaced, and the signature is that of the original.
  \<open>now\<close> is the time of the library's check of the expiry.
\<close>

section \<open>Payloads\<close>

definition id_token_values :: "('k, 't, 's) oidc_library \<Rightarrow> 't \<Rightarrow> login_error + (string \<rightharpoonup> json)" where
  "id_token_values lib token =
     and_then (ok_or AuthenticationFailed (ol_token_text lib token)) (\<lambda>serialized.
     if MAX_HTTP_RESPONSE_BYTES < length serialized then Inl AuthenticationFailed
     else (case split_char CHR ''.'' serialized of
         [header, payload, signature] \<Rightarrow>
           and_then (ok_or AuthenticationFailed (ol_b64_decode lib payload)) (\<lambda>decoded.
           ok_or AuthenticationFailed (unique_object lib decoded))
       | _ \<Rightarrow> Inl AuthenticationFailed))"

record 'k verified_identity =
  vi_provider :: "'k provider"
  vi_access_token :: string
  vi_subject :: string
  vi_values :: "string \<rightharpoonup> json"
  vi_username :: "string option"
  vi_display_name :: "string option"

text \<open>The names a token gives.\<close>

definition identity_of ::
  "'k provider \<Rightarrow> string \<Rightarrow> (string \<rightharpoonup> json) \<Rightarrow> id_claims \<Rightarrow> 'k verified_identity" where
  "identity_of provider access_token values claims = \<lparr>vi_provider = provider, vi_access_token = access_token,
     vi_subject = ic_subject claims, vi_values = values,
     vi_username = identity_name (ic_preferred_username claims) (ic_email claims),
     vi_display_name = Option.bind (ic_name claims) localized_value\<rparr>"

section \<open>The token response of a compatible provider\<close>

record compatible_token_response =
  ct_access_token :: string
  ct_token_type :: string
  ct_id_token :: string

definition string_field :: "(string \<rightharpoonup> json) \<Rightarrow> string \<Rightarrow> string option" where
  "string_field values key = (case values key of Some (JString s) \<Rightarrow> Some s | _ \<Rightarrow> None)"

definition parse_compatible_token_response ::
  "('k, 't, 's) oidc_library \<Rightarrow> captured_response \<Rightarrow> login_error + compatible_token_response" where
  "parse_compatible_token_response lib response =
     (if cr_status response \<noteq> 200
        \<or> \<not> (case cr_content_type response of None \<Rightarrow> False | Some v \<Rightarrow> eq_ignore_ascii_case v ''application/json'')
      then Inl AuthenticationFailed
      else and_then (ok_or AuthenticationFailed (unique_object lib (cr_body response))) (\<lambda>values.
        if values ''error'' \<noteq> None then Inl AuthenticationFailed
        else (case (string_field values ''access_token'', string_field values ''token_type'', string_field values ''id_token'') of
            (Some access_token, Some token_type, Some id_token) \<Rightarrow>
              if access_token = [] \<or> id_token = [] \<or> MAX_HTTP_RESPONSE_BYTES < length access_token
                \<or> MAX_HTTP_RESPONSE_BYTES < length id_token \<or> \<not> eq_ignore_ascii_case token_type ''bearer''
              then Inl AuthenticationFailed
              else Inr \<lparr>ct_access_token = access_token, ct_token_type = token_type, ct_id_token = id_token\<rparr>
          | _ \<Rightarrow> Inl AuthenticationFailed)))"

section \<open>The header of its token\<close>

datatype compatible_token_error = NoMatchingKey | InvalidToken

record jose_header =
  jh_alg :: string
  jh_kid :: "string option"
  jh_typ :: "string option"
  jh_cty :: "string option"
  jh_crit :: "string list option"

text \<open>An optional field is absent, null or a text; anything else is an error, the outer \<open>None\<close>.\<close>

definition optional_string :: "(string \<rightharpoonup> json) \<Rightarrow> string \<Rightarrow> string option option" where
  "optional_string values key = (case values key of
      None \<Rightarrow> Some None
    | Some JNull \<Rightarrow> Some None
    | Some (JString s) \<Rightarrow> Some (Some s)
    | Some _ \<Rightarrow> None)"

fun all_strings :: "json list \<Rightarrow> string list option" where
  "all_strings [] = Some []"
| "all_strings (JString s # vs) = map_option (Cons s) (all_strings vs)"
| "all_strings (v # vs) = None"

definition optional_strings :: "(string \<rightharpoonup> json) \<Rightarrow> string \<Rightarrow> string list option option" where
  "optional_strings values key = (case values key of
      None \<Rightarrow> Some None
    | Some JNull \<Rightarrow> Some None
    | Some (JArray vs) \<Rightarrow> map_option Some (all_strings vs)
    | Some _ \<Rightarrow> None)"

definition parse_jose_header :: "('k, 't, 's) oidc_library \<Rightarrow> (string \<rightharpoonup> json) \<Rightarrow> jose_header option" where
  "parse_jose_header lib values =
     Option.bind (string_field values ''alg'') (\<lambda>alg.
     if \<not> ol_known_alg lib alg then None
     else Option.bind (optional_string values ''kid'') (\<lambda>kid.
     Option.bind (optional_string values ''typ'') (\<lambda>typ.
     Option.bind (optional_string values ''cty'') (\<lambda>cty.
     Option.bind (optional_strings values ''crit'') (\<lambda>crit.
     Some \<lparr>jh_alg = alg, jh_kid = kid, jh_typ = typ, jh_cty = cty, jh_crit = crit\<rparr>)))))"

definition valid_key_id :: "string \<Rightarrow> bool" where
  "valid_key_id v \<longleftrightarrow> v \<noteq> [] \<and> length v \<le> 512 \<and> \<not> has_control v"

definition jose_type_ok :: "('k, 't, 's) oidc_library \<Rightarrow> string option \<Rightarrow> bool" where
  "jose_type_ok lib typ = (case typ of None \<Rightarrow> True
    | Some t \<Rightarrow> (case ol_normalize_type lib t of None \<Rightarrow> False
        | Some normalized \<Rightarrow> normalized = ''application/jwt'' \<or> normalized = ''application/jose''))"

definition compatible_header ::
  "('k, 't, 's) oidc_library \<Rightarrow> 'k provider \<Rightarrow> string \<Rightarrow> compatible_token_error + jose_header" where
  "compatible_header lib provider encoded_header =
     and_then (ok_or InvalidToken (ol_b64_decode lib encoded_header)) (\<lambda>header_bytes.
     and_then (ok_or InvalidToken (unique_object lib header_bytes)) (\<lambda>header_values.
     if header_values ''cty'' \<noteq> None \<or> header_values ''crit'' \<noteq> None then Inl InvalidToken
     else and_then (ok_or InvalidToken (parse_jose_header lib header_values)) (\<lambda>header.
     if jh_cty header \<noteq> None \<or> jh_crit header \<noteq> None \<or> ol_shared_secret lib (jh_alg header) then Inl InvalidToken
     else if \<not> jose_type_ok lib (jh_typ header) then Inl InvalidToken
     else if \<not> (case jh_kid header of None \<Rightarrow> False | Some v \<Rightarrow> valid_key_id v)
       \<or> jh_alg header \<notin> set (md_signing_algs (pv_metadata provider)) then Inl InvalidToken
     else Inr header)))"

section \<open>Its payload and claims\<close>

definition address_text :: "json \<Rightarrow> bool" where
  "address_text v = (case v of JString a \<Rightarrow> length a \<le> 512 \<and> \<not> has_control a | _ \<Rightarrow> False)"

definition compatible_address :: "(string \<rightharpoonup> json) \<Rightarrow> bool" where
  "compatible_address values = (case values ''address'' of
      Some (JArray vs) \<Rightarrow> length vs \<le> 32 \<and> list_all address_text vs
    | _ \<Rightarrow> False)"

text \<open>The payload, and the token with an empty address in it.\<close>

definition compatible_payload ::
  "('k, 't, 's) oidc_library \<Rightarrow> string \<Rightarrow> string \<Rightarrow> string \<Rightarrow>
   compatible_token_error + (string \<rightharpoonup> json) \<times> 't" where
  "compatible_payload lib encoded_header encoded_payload encoded_signature =
     and_then (ok_or InvalidToken (ol_b64_decode lib encoded_payload)) (\<lambda>payload_bytes.
     and_then (ok_or InvalidToken (unique_object lib payload_bytes)) (\<lambda>payload_values.
     if \<not> compatible_address payload_values then Inl InvalidToken
     else and_then (ok_or InvalidToken (ol_serialize lib (payload_values(''address'' \<mapsto> JObject [])))) (\<lambda>normalized_payload.
     and_then (ok_or InvalidToken (ol_parse_token lib
        (encoded_header @ ''.'' @ ol_b64_encode lib normalized_payload @ ''.'' @ encoded_signature))) (\<lambda>normalized_token.
     Inr (payload_values, normalized_token)))))"

definition claims_for_client :: "oidc_config \<Rightarrow> id_claims \<Rightarrow> bool" where
  "claims_for_client config claims \<longleftrightarrow>
     constant_time_eq (ic_issuer claims) (oc_issuer_url config) \<and>
     \<not> (ic_audiences claims = [] \<or> list_ex (\<lambda>audience. audience \<noteq> oc_client_id config) (ic_audiences claims)) \<and>
     \<not> (case ic_authorized_party claims of None \<Rightarrow> False | Some party \<Rightarrow> party \<noteq> oc_client_id config)"

text \<open>A token with the hash of an access token is for that access token only.\<close>

definition access_token_ok ::
  "('k, 't, 's) oidc_library \<Rightarrow> id_claims \<Rightarrow> string \<Rightarrow> string \<Rightarrow> 's \<Rightarrow> bool" where
  "access_token_ok lib claims access_token alg key = (case ic_access_token_hash claims of None \<Rightarrow> True
    | Some expected \<Rightarrow> ol_access_token_hash lib access_token alg key = Some expected)"

definition compatible_claims ::
  "('k, 't, 's) oidc_library \<Rightarrow> i64 \<Rightarrow> oidc_config \<Rightarrow> compatible_token_response \<Rightarrow> 't \<Rightarrow> string \<Rightarrow> 's \<Rightarrow> string \<Rightarrow>
   compatible_token_error + id_claims" where
  "compatible_claims lib now config token normalized_token alg key expected_nonce =
     and_then (ok_or InvalidToken (ol_claims_unverified lib now normalized_token expected_nonce)) (\<lambda>claims.
     if \<not> claims_for_client config claims then Inl InvalidToken
     else if \<not> access_token_ok lib claims (ct_access_token token) alg key then Inl InvalidToken
     else Inr claims)"

definition matching_key :: "key_error + 's \<Rightarrow> compatible_token_error + 's" where
  "matching_key r = (case r of Inr key \<Rightarrow> Inr key
    | Inl NoMatchingKeyError \<Rightarrow> Inl NoMatchingKey
    | Inl OtherKeyError \<Rightarrow> Inl InvalidToken)"

definition verify_compatible_id_token ::
  "('k, 't, 's) oidc_library \<Rightarrow> i64 \<Rightarrow> oidc_config \<Rightarrow> 'k provider \<Rightarrow> compatible_token_response \<Rightarrow> string \<Rightarrow>
   compatible_token_error + 'k verified_identity" where
  "verify_compatible_id_token lib now config provider token expected_nonce =
     (case split_char CHR ''.'' (ct_id_token token) of
        [encoded_header, encoded_payload, encoded_signature] \<Rightarrow>
          if encoded_header = [] \<or> encoded_payload = [] \<or> encoded_signature = [] then Inl InvalidToken
          else and_then (compatible_header lib provider encoded_header) (\<lambda>header.
          and_then (compatible_payload lib encoded_header encoded_payload encoded_signature) (\<lambda>(values, normalized_token).
          and_then (ok_or InvalidToken (ol_signing_alg lib normalized_token)) (\<lambda>alg.
          if alg \<noteq> jh_alg header then Inl InvalidToken
          else and_then (matching_key (ol_signing_key lib config provider normalized_token)) (\<lambda>key.
          and_then (ok_or InvalidToken (ol_b64_decode lib encoded_signature)) (\<lambda>signature.
          if \<not> ol_verify_signature lib key alg (encoded_header @ ''.'' @ encoded_payload) signature then Inl InvalidToken
          else and_then (compatible_claims lib now config token normalized_token alg key expected_nonce) (\<lambda>claims.
          Inr (identity_of provider (ct_access_token token) values claims)))))))
      | _ \<Rightarrow> Inl InvalidToken)"

end
