(* ===== verification/Oidc_Login.thy ===== *)
theory Oidc_Login
  imports Oidc_Token
begin

text \<open>
  Logging in through the identity provider: the login flows that have been started, the manager
  with its discovery, the exchange of a code for an identity, and the two handlers.  Instants are
  nanoseconds.  A callback is two steps, since the requests to the provider come between them:
  \<open>callback_admit\<close> takes the flow out of the store, \<open>callback_finish\<close> authenticates with it.
\<close>

section \<open>Flows\<close>

record login_flow =
  lf_nonce :: string
  lf_pkce_verifier :: string
  lf_source :: ip_addr
  lf_redirect :: string
  lf_expires_at :: nat

type_synonym flow_store = "(string \<times> login_flow) list"

definition live_flows :: "nat \<Rightarrow> flow_store \<Rightarrow> flow_store" where
  "live_flows now fs = filter (\<lambda>e. now < lf_expires_at (snd e)) fs"

text \<open>The store after an insertion, and whether the flow was accepted.\<close>

definition flow_insert :: "string \<Rightarrow> login_flow \<Rightarrow> nat \<Rightarrow> flow_store \<Rightarrow> bool \<times> flow_store" where
  "flow_insert key flow now fs =
     (let live = live_flows now fs in
      if FLOW_CAPACITY \<le> length live
        \<or> FLOW_PER_SOURCE \<le> length (filter (\<lambda>e. lf_source (snd e) = lf_source flow) live)
      then (False, live)
      else (True, AList.update key flow live))"

definition flow_remove :: "string \<Rightarrow> flow_store \<Rightarrow> flow_store" where
  "flow_remove key fs = AList.delete key fs"

definition flow_consume :: "string \<Rightarrow> ip_addr \<Rightarrow> nat \<Rightarrow> flow_store \<Rightarrow> login_flow option \<times> flow_store" where
  "flow_consume key source now fs =
     (let live = live_flows now fs in
      case map_of live key of
        None \<Rightarrow> (None, live)
      | Some flow \<Rightarrow>
          (if lf_source flow = source \<and> now < lf_expires_at flow then Some flow else None, flow_remove key live))"

section \<open>The manager\<close>

record 'k manager =
  mg_config :: "oidc_config option"
  mg_provider :: "'k provider option"
  mg_http :: bool
  mg_flows :: flow_store
  mg_policy_fingerprint :: "string option"

datatype oidc_init_error = InvalidUrl | InvalidCa | HttpClientError

text \<open>\<open>builds\<close> tells whether the HTTP client can be built.\<close>

definition new_manager ::
  "('k, 't, 's) oidc_library \<Rightarrow> bool \<Rightarrow> oidc_config option \<Rightarrow> oidc_init_error + 'k manager" where
  "new_manager lib builds config = (case config of
      None \<Rightarrow> Inr \<lparr>mg_config = None, mg_provider = None, mg_http = False, mg_flows = [], mg_policy_fingerprint = None\<rparr>
    | Some c \<Rightarrow>
        if ol_parse_url lib (oc_issuer_url c) = None \<or> ol_parse_url lib (oc_redirect_url c) = None then Inl InvalidUrl
        else if (case oc_ca_pem c of None \<Rightarrow> False
            | Some pem \<Rightarrow> (case ol_certificates lib pem of None \<Rightarrow> True | Some n \<Rightarrow> n = 0)) then Inl InvalidCa
        else if \<not> builds then Inl HttpClientError
        else Inr \<lparr>mg_config = Some c, mg_provider = None, mg_http = True, mg_flows = [],
          mg_policy_fingerprint = Some (policy_fingerprint lib c)\<rparr>)"

definition issuer_matches :: "'k manager \<Rightarrow> string \<Rightarrow> bool" where
  "issuer_matches m issuer = (case mg_config m of None \<Rightarrow> False
    | Some c \<Rightarrow> constant_time_eq (oc_issuer_url c) issuer)"

definition available :: "'k manager \<Rightarrow> bool" where
  "available m \<longleftrightarrow> mg_provider m \<noteq> None"

text \<open>\<open>permit\<close>: one of the eight request slots is free in time.\<close>

definition discover ::
  "('k, 't, 's) oidc_library \<Rightarrow> (http_request \<Rightarrow> http_reply option) \<Rightarrow> bool \<Rightarrow> 'k manager \<Rightarrow> 'k provider option" where
  "discover lib net permit m = (case mg_config m of
      None \<Rightarrow> None
    | Some config \<Rightarrow> if mg_http m \<and> permit then discover_provider lib net config else None)"

text \<open>One round of \<open>spawn_discovery\<close>: the next retry delay, and how long to sleep now, in seconds.\<close>

definition discovery_round ::
  "('k, 't, 's) oidc_library \<Rightarrow> (http_request \<Rightarrow> http_reply option) \<Rightarrow> bool \<Rightarrow> 'k manager \<Rightarrow> nat \<Rightarrow>
   'k manager \<times> nat \<times> nat" where
  "discovery_round lib net permit m retry = (case discover lib net permit m of
      Some provider \<Rightarrow> (m\<lparr>mg_provider := Some provider\<rparr>, DISCOVERY_RETRY_MIN, DISCOVERY_REFRESH)
    | None \<Rightarrow> (m\<lparr>mg_provider := None\<rparr>, min (retry * 2) DISCOVERY_RETRY_MAX, retry))"

text \<open>The rounds until shutdown, with what each finds; the delays of the rounds.\<close>

fun discovery_loop ::
  "('k, 't, 's) oidc_library \<Rightarrow> 'k manager \<Rightarrow> nat \<Rightarrow> ((http_request \<Rightarrow> http_reply option) \<times> bool) list \<Rightarrow>
   'k manager \<times> nat list" where
  "discovery_loop lib m retry [] = (m, [])"
| "discovery_loop lib m retry ((net, permit) # rounds) =
     (case discovery_round lib net permit m retry of (m1, retry1, delay) \<Rightarrow>
        apsnd (Cons delay) (discovery_loop lib m1 retry1 rounds))"

definition spawn_discovery ::
  "('k, 't, 's) oidc_library \<Rightarrow> 'k manager \<Rightarrow> ((http_request \<Rightarrow> http_reply option) \<times> bool) list \<Rightarrow>
   'k manager \<times> nat list" where
  "spawn_discovery lib m rounds =
     (if mg_config m = None then (m, []) else discovery_loop lib m DISCOVERY_RETRY_MIN rounds)"

definition refresh_provider ::
  "('k, 't, 's) oidc_library \<Rightarrow> (http_request \<Rightarrow> http_reply option) \<Rightarrow> 'k manager \<Rightarrow>
   (login_error + 'k provider) \<times> 'k manager" where
  "refresh_provider lib net m = (case mg_config m of
      None \<Rightarrow> (Inl ProviderUnavailable, m)
    | Some config \<Rightarrow>
        if \<not> mg_http m then (Inl ProviderUnavailable, m)
        else (case discover_provider lib net config of
            None \<Rightarrow> (Inl AuthenticationFailed, m\<lparr>mg_provider := None\<rparr>)
          | Some provider \<Rightarrow> (Inr provider, m\<lparr>mg_provider := Some provider\<rparr>)))"

section \<open>Starting a flow\<close>

text \<open>The random values of a flow; the challenge belongs to the verifier.\<close>

record flow_secrets =
  fs_state :: string
  fs_nonce :: string
  fs_challenge :: string
  fs_verifier :: string

record started_flow =
  sf_authorization_url :: string
  sf_state :: string

definition begin_flow ::
  "('k, 't, 's) oidc_library \<Rightarrow> flow_secrets \<Rightarrow> nat \<Rightarrow> ip_addr \<Rightarrow> string \<Rightarrow> 'k manager \<Rightarrow>
   (login_error + started_flow) \<times> 'k manager" where
  "begin_flow lib secrets now source redirect m = (case (mg_provider m, mg_config m) of
      (Some provider, Some config) \<Rightarrow>
        let url = ol_authorize_url lib config provider (fs_state secrets) (fs_nonce secrets) (fs_challenge secrets)
              ([''profile'', ''email''] @ oc_additional_scopes config);
            flow = \<lparr>lf_nonce = fs_nonce secrets, lf_pkce_verifier = fs_verifier secrets, lf_source = source,
              lf_redirect = redirect, lf_expires_at = now + FLOW_TTL\<rparr> in
        (case flow_insert (fs_state secrets) flow now (mg_flows m) of (accepted, fs) \<Rightarrow>
          (if accepted then Inr \<lparr>sf_authorization_url = url, sf_state = fs_state secrets\<rparr>
           else Inl AuthenticationFailed, m\<lparr>mg_flows := fs\<rparr>))
    | _ \<Rightarrow> (Inl ProviderUnavailable, m))"

record consumed_flow =
  cw_nonce :: string
  cw_pkce_verifier :: string
  cw_redirect :: string

definition consume_flow ::
  "string \<Rightarrow> ip_addr \<Rightarrow> nat \<Rightarrow> 'k manager \<Rightarrow> consumed_flow option \<times> 'k manager" where
  "consume_flow key source now m = (case flow_consume key source now (mg_flows m) of (flow, fs) \<Rightarrow>
     (map_option (\<lambda>f. \<lparr>cw_nonce = lf_nonce f, cw_pkce_verifier = lf_pkce_verifier f, cw_redirect = lf_redirect f\<rparr>) flow,
      m\<lparr>mg_flows := fs\<rparr>))"

definition discard_flow :: "string \<Rightarrow> 'k manager \<Rightarrow> 'k manager" where
  "discard_flow key m = m\<lparr>mg_flows := flow_remove key (mg_flows m)\<rparr>"

section \<open>From a code to an identity\<close>

definition token_request_for :: "oidc_config \<Rightarrow> 'k provider \<Rightarrow> string \<Rightarrow> string \<Rightarrow> string \<Rightarrow> http_request" where
  "token_request_for config provider endpoint code verifier = TokenRequest \<lparr>tq_url = endpoint,
     tq_client_id = oc_client_id config, tq_client_secret = oc_client_secret config,
     tq_auth_type = pv_auth_type provider, tq_redirect_url = oc_redirect_url config, tq_code = code,
     tq_verifier = verifier\<rparr>"

text \<open>The library's token request through the capturing client: what was captured, and the library's answer.\<close>

definition exchange_code ::
  "('k, 't, 's) oidc_library \<Rightarrow> (http_request \<Rightarrow> http_reply option) \<Rightarrow> oidc_config \<Rightarrow> 'k provider \<Rightarrow> string \<Rightarrow> string \<Rightarrow>
   captured_response option \<times> (string \<times> 't option) option" where
  "exchange_code lib net config provider code verifier = (case md_token_endpoint (pv_metadata provider) of
      None \<Rightarrow> (None, None)
    | Some endpoint \<Rightarrow> (case bounded_call lib net (token_request_for config provider endpoint code verifier) of
        Inl e \<Rightarrow> (None, None)
      | Inr response \<Rightarrow> (Some (capture_response response), ol_parse_token_response lib response)))"

text \<open>The hash of the access token in a token the library has parsed.\<close>

definition standard_access_token_ok ::
  "('k, 't, 's) oidc_library \<Rightarrow> oidc_config \<Rightarrow> 'k provider \<Rightarrow> 't \<Rightarrow> id_claims \<Rightarrow> string \<Rightarrow> bool" where
  "standard_access_token_ok lib config provider id_token claims access_token =
     (ic_access_token_hash claims = None \<or>
      (case ol_signing_alg lib id_token of None \<Rightarrow> False
       | Some alg \<Rightarrow> (case ol_signing_key lib config provider id_token of Inl e \<Rightarrow> False
           | Inr key \<Rightarrow> access_token_ok lib claims access_token alg key)))"

definition verify_standard_token ::
  "('k, 't, 's) oidc_library \<Rightarrow> i64 \<Rightarrow> oidc_config \<Rightarrow> 'k provider \<Rightarrow> string \<Rightarrow> 't \<Rightarrow> string \<Rightarrow>
   login_error + 'k verified_identity" where
  "verify_standard_token lib now config provider access_token id_token nonce =
     and_then (ok_or AuthenticationFailed (ol_claims lib now config provider id_token nonce)) (\<lambda>claims.
     if \<not> standard_access_token_ok lib config provider id_token claims access_token then Inl AuthenticationFailed
     else and_then (id_token_values lib id_token) (\<lambda>values.
     Inr (identity_of provider access_token values claims)))"

definition authenticate_standard ::
  "('k, 't, 's) oidc_library \<Rightarrow> (http_request \<Rightarrow> http_reply option) \<Rightarrow> i64 \<Rightarrow> oidc_config \<Rightarrow> 'k provider \<Rightarrow> string \<Rightarrow>
   't option \<Rightarrow> string \<Rightarrow> 'k manager \<Rightarrow> (login_error + 'k verified_identity) \<times> 'k manager" where
  "authenticate_standard lib net now config provider access_token id_token nonce m = (case id_token of
      None \<Rightarrow> (Inl AuthenticationFailed, m)
    | Some t \<Rightarrow>
        (case (if ol_claims lib now config provider t nonce \<noteq> None then (Inr provider, m) else refresh_provider lib net m) of
           (Inl e, m1) \<Rightarrow> (Inl e, m1)
         | (Inr active_provider, m1) \<Rightarrow>
             (verify_standard_token lib now config active_provider access_token t nonce, m1)))"

definition verify_compatible_token_response ::
  "('k, 't, 's) oidc_library \<Rightarrow> (http_request \<Rightarrow> http_reply option) \<Rightarrow> i64 \<Rightarrow> oidc_config \<Rightarrow> 'k provider \<Rightarrow>
   captured_response \<Rightarrow> string \<Rightarrow> 'k manager \<Rightarrow> (login_error + 'k verified_identity) \<times> 'k manager" where
  "verify_compatible_token_response lib net now config provider response expected_nonce m =
     (case parse_compatible_token_response lib response of
        Inl e \<Rightarrow> (Inl e, m)
      | Inr token \<Rightarrow>
        (case verify_compatible_id_token lib now config provider token expected_nonce of
           Inr verified \<Rightarrow> (Inr verified, m)
         | Inl InvalidToken \<Rightarrow> (Inl AuthenticationFailed, m)
         | Inl NoMatchingKey \<Rightarrow>
             (case refresh_provider lib net m of
                (Inl e, m1) \<Rightarrow> (Inl e, m1)
              | (Inr refreshed, m1) \<Rightarrow>
                  (case verify_compatible_id_token lib now config refreshed token expected_nonce of
                     Inl e \<Rightarrow> Inl AuthenticationFailed | Inr verified \<Rightarrow> Inr verified, m1))))"

text \<open>The token of a code, verified one way or the other.\<close>

definition verified_token ::
  "('k, 't, 's) oidc_library \<Rightarrow> (http_request \<Rightarrow> http_reply option) \<Rightarrow> i64 \<Rightarrow> oidc_config \<Rightarrow> 'k provider \<Rightarrow> string \<Rightarrow>
   consumed_flow \<Rightarrow> 'k manager \<Rightarrow> (login_error + 'k verified_identity) \<times> 'k manager" where
  "verified_token lib net now config provider code flow m =
     (case exchange_code lib net config provider code (cw_pkce_verifier flow) of
        (captured, Some (access_token, id_token)) \<Rightarrow>
          authenticate_standard lib net now config provider access_token id_token (cw_nonce flow) m
      | (None, None) \<Rightarrow> (Inl AuthenticationFailed, m)
      | (Some response, None) \<Rightarrow>
          verify_compatible_token_response lib net now config provider response (cw_nonce flow) m)"

definition fetch_user_info ::
  "('k, 't, 's) oidc_library \<Rightarrow> (http_request \<Rightarrow> http_reply option) \<Rightarrow> 'k verified_identity \<Rightarrow> login_error + user_info" where
  "fetch_user_info lib net verified =
     and_then (ok_or AuthenticationFailed (md_userinfo_endpoint (pv_metadata (vi_provider verified)))) (\<lambda>endpoint.
     (case bounded_call lib net (UserInfoRequest endpoint (vi_access_token verified)) of
        Inl e \<Rightarrow> Inl AuthenticationFailed
      | Inr response \<Rightarrow> ok_or AuthenticationFailed (ol_parse_user_info lib (vi_subject verified) response)))"

text \<open>The groups and names: the token's, or those the user info adds.\<close>

definition identity_groups ::
  "('k, 't, 's) oidc_library \<Rightarrow> (http_request \<Rightarrow> http_reply option) \<Rightarrow> oidc_config \<Rightarrow> 'k verified_identity \<Rightarrow>
   login_error + string list \<times> string option \<times> string option" where
  "identity_groups lib net config verified =
     and_then (group_claim (vi_values verified) (oc_groups_claim config)) (\<lambda>claim. case claim of
        Some groups \<Rightarrow> Inr (groups, vi_username verified, vi_display_name verified)
      | None \<Rightarrow> and_then (fetch_user_info lib net verified) (\<lambda>info.
          let username = or_else_text (vi_username verified) (identity_name (ui_preferred_username info) (ui_email info));
              display_name = or_else_text (vi_display_name verified) (Option.bind (ui_name info) localized_value) in
          and_then (group_claim (ui_additional info) (oc_groups_claim config)) (\<lambda>claim.
          and_then (ok_or NotAuthorized claim) (\<lambda>groups. Inr (groups, username, display_name)))))"

definition valid_subject :: "string \<Rightarrow> bool" where
  "valid_subject subject \<longleftrightarrow> \<not> (subject = [] \<or> 512 < length subject \<or> has_control subject)"

definition finish_identity ::
  "('k, 't, 's) oidc_library \<Rightarrow> (http_request \<Rightarrow> http_reply option) \<Rightarrow> oidc_config \<Rightarrow> string option \<Rightarrow>
   'k verified_identity \<Rightarrow> login_error + oidc_identity" where
  "finish_identity lib net config fingerprint verified =
     (if \<not> valid_subject (vi_subject verified) then Inl AuthenticationFailed
      else and_then (identity_groups lib net config verified) (\<lambda>(groups, username, display_name).
      and_then (map_role groups config) (\<lambda>role.
      let name = (case username of Some u \<Rightarrow> u | None \<Rightarrow> vi_subject verified);
          shown = (case display_name of Some d \<Rightarrow> d | None \<Rightarrow> name) in
      and_then (ok_or ProviderUnavailable fingerprint) (\<lambda>fp.
      Inr \<lparr>oi_issuer = oc_issuer_url config, oi_subject = vi_subject verified, oi_username = name,
        oi_display_name = shown, oi_role = role, oi_provider_name = oc_provider_name config,
        oi_policy_fingerprint = fp\<rparr>))))"

definition authenticate ::
  "('k, 't, 's) oidc_library \<Rightarrow> (http_request \<Rightarrow> http_reply option) \<Rightarrow> i64 \<Rightarrow> bool \<Rightarrow> string \<Rightarrow> consumed_flow \<Rightarrow>
   'k manager \<Rightarrow> (login_error + oidc_identity) \<times> 'k manager" where
  "authenticate lib net now permit code flow m = (case (mg_config m, mg_provider m) of
      (Some config, Some provider) \<Rightarrow>
        if \<not> mg_http m \<or> \<not> permit then (Inl ProviderUnavailable, m)
        else (case verified_token lib net now config provider code flow m of
            (Inl e, m1) \<Rightarrow> (Inl e, m1)
          | (Inr verified, m1) \<Rightarrow> (finish_identity lib net config (mg_policy_fingerprint m) verified, m1))
    | _ \<Rightarrow> (Inl ProviderUnavailable, m))"

end
