(* ===== verification/Oidc_Handlers.thy ===== *)
theory Oidc_Handlers
  imports Oidc_Login
begin

text \<open>
  The two routes of the login, \<open>start\<close> and \<open>callback\<close>: query strings, the redirect back into the
  application, the flow cookie.  A reply is a redirection: its location and its cookies in order.
\<close>

section \<open>Queries and redirects\<close>

definition validate_internal_redirect :: "string \<Rightarrow> string option" where
  "validate_internal_redirect v =
     (if v = [] then Some ''/''
      else if MAX_REDIRECT_BYTES < length v \<or> \<not> starts_with v ''/'' \<or> starts_with v ''//''
        \<or> CHR 0x5C \<in> set v \<or> has_control v then None
      else Some v)"

fun insert_allowed :: "string list \<Rightarrow> (string \<rightharpoonup> string) \<Rightarrow> (string \<times> string) list \<Rightarrow> (string \<rightharpoonup> string) option" where
  "insert_allowed allowed values [] = Some values"
| "insert_allowed allowed values ((key, v) # pairs) =
     (if key \<notin> set allowed \<or> values key \<noteq> None then None
      else insert_allowed allowed (values(key \<mapsto> v)) pairs)"

definition parse_query ::
  "('k, 't, 's) oidc_library \<Rightarrow> string option \<Rightarrow> string list \<Rightarrow> (string \<rightharpoonup> string) option" where
  "parse_query lib raw allowed =
     (let raw = (case raw of None \<Rightarrow> [] | Some r \<Rightarrow> r) in
      if MAX_QUERY_BYTES < length raw then None
      else insert_allowed allowed Map.empty (ol_form_decode lib raw))"

definition completion_location :: "('k, 't, 's) oidc_library \<Rightarrow> string \<Rightarrow> string option \<Rightarrow> string" where
  "completion_location lib redirect error =
     ''/login/oidc/complete?'' @ ol_form_encode lib
       ([(''redirect'', redirect)] @ (case error of None \<Rightarrow> [] | Some e \<Rightarrow> [(''error'', e)]))"

record oidc_reply =
  or_location :: string
  or_cookies :: "string list"
  or_no_store :: bool

definition flow_cookie :: "string \<Rightarrow> string" where
  "flow_cookie key = FLOW_COOKIE @ ''='' @ key @ ''; Path=/; Max-Age=300; Secure; HttpOnly; SameSite=Lax''"

definition redirect_response :: "string \<Rightarrow> string option \<Rightarrow> app_error + oidc_reply" where
  "redirect_response location cookie =
     (if \<not> list_all visible_ascii location then Inl (Internal ''failed to construct OIDC redirect'')
      else (case cookie of
          None \<Rightarrow> Inr \<lparr>or_location = location, or_cookies = [], or_no_store = True\<rparr>
        | Some key \<Rightarrow>
            if \<not> list_all visible_ascii (flow_cookie key) then Inl (Internal ''failed to construct OIDC flow cookie'')
            else Inr \<lparr>or_location = location, or_cookies = [flow_cookie key], or_no_store = True\<rparr>))"

definition clear_flow_cookie :: "oidc_reply \<Rightarrow> oidc_reply" where
  "clear_flow_cookie r = r\<lparr>or_cookies := or_cookies r @
     [''__Host-routerview_oidc_flow=; Path=/; Max-Age=0; Secure; HttpOnly; SameSite=Lax''], or_no_store := True\<rparr>"

definition error_response :: "('k, 't, 's) oidc_library \<Rightarrow> string \<Rightarrow> string \<Rightarrow> app_error + oidc_reply" where
  "error_response lib code redirect =
     and_then (redirect_response (completion_location lib redirect (Some code)) None) (\<lambda>r. Inr (clear_flow_cookie r))"

definition single_cookie :: "headers \<Rightarrow> string \<Rightarrow> string option" where
  "single_cookie hs name = (case cookie_values hs name of [v] \<Rightarrow> Some v | _ \<Rightarrow> None)"

section \<open>Handlers\<close>

text \<open>The requested redirect of a start; errors send the browser to the first page.\<close>

definition start_redirect :: "('k, 't, 's) oidc_library \<Rightarrow> string option \<Rightarrow> string option" where
  "start_redirect lib raw_query = Option.bind (parse_query lib raw_query [''redirect'']) (\<lambda>values.
     validate_internal_redirect (case values ''redirect'' of Some v \<Rightarrow> v | None \<Rightarrow> ''/''))"

definition start ::
  "auth_env \<Rightarrow> ('k, 't, 's) oidc_library \<Rightarrow> flow_secrets \<Rightarrow> nat \<Rightarrow> ip_addr \<Rightarrow> headers \<Rightarrow> string option \<Rightarrow> auth_state \<Rightarrow>
   'k manager \<Rightarrow> (app_error + oidc_reply) \<times> 'k manager" where
  "start env lib secrets now peer hs raw_query st m = (case start_redirect lib raw_query of
      None \<Rightarrow> (error_response lib ''authentication_failed'' ''/'', m)
    | Some redirect \<Rightarrow>
      if adb_admin (au_db st) = None then (error_response lib ''authentication_failed'' redirect, m)
      else (case resolve_client_ip (ae_trusted_proxy env) peer hs of
          Inl e \<Rightarrow> (error_response lib ''authentication_failed'' redirect, m)
        | Inr source \<Rightarrow> (case begin_flow lib secrets now source redirect m of
            (Inr flow, m1) \<Rightarrow> (redirect_response (sf_authorization_url flow) (Some (sf_state flow)), m1)
          | (Inl ProviderUnavailable, m1) \<Rightarrow> (error_response lib ''provider_unavailable'' redirect, m1)
          | (Inl e, m1) \<Rightarrow> (error_response lib ''authentication_failed'' redirect, m1))))"

definition CALLBACK_KEYS :: "string list" where
  "CALLBACK_KEYS = [''code'', ''state'', ''error'', ''error_description'', ''error_uri'', ''iss'', ''session_state'',
     ''scope'', ''authuser'', ''prompt'', ''hd'']"

text \<open>The query of a callback, with the state that its cookie confirms.\<close>

definition callback_query ::
  "('k, 't, 's) oidc_library \<Rightarrow> headers \<Rightarrow> string option \<Rightarrow> string + (string \<rightharpoonup> string) \<times> string" where
  "callback_query lib hs raw_query = (case parse_query lib raw_query CALLBACK_KEYS of
      None \<Rightarrow> Inl ''authentication_failed''
    | Some values \<Rightarrow>
        if values ''error'' = None \<and> (values ''error_description'' \<noteq> None \<or> values ''error_uri'' \<noteq> None)
        then Inl ''authentication_failed''
        else (case values ''state'' of
            None \<Rightarrow> Inl ''invalid_state''
          | Some query_state \<Rightarrow> (case single_cookie hs FLOW_COOKIE of
              None \<Rightarrow> Inl ''invalid_state''
            | Some cookie_state \<Rightarrow>
                if \<not> constant_time_eq query_state cookie_state then Inl ''invalid_state''
                else Inr (values, query_state))))"

text \<open>The code of a callback whose flow was found, or the error to report.\<close>

definition callback_code :: "'k manager \<Rightarrow> auth_state \<Rightarrow> (string \<rightharpoonup> string) \<Rightarrow> string + string" where
  "callback_code m st values =
     (if adb_admin (au_db st) = None then Inl ''authentication_failed''
      else if (case values ''iss'' of None \<Rightarrow> False | Some issuer \<Rightarrow> \<not> issuer_matches m issuer)
      then Inl ''authentication_failed''
      else if values ''error'' \<noteq> None
      then Inl (if values ''code'' \<noteq> None then ''authentication_failed''
        else if values ''error'' = Some ''access_denied'' then ''access_denied'' else ''authentication_failed'')
      else (case values ''code'' of
          None \<Rightarrow> Inl ''authentication_failed''
        | Some code \<Rightarrow> if code \<noteq> [] \<and> length code \<le> 4096 then Inr code else Inl ''authentication_failed''))"

datatype callback_progress = Answered "app_error + oidc_reply" | Exchange string consumed_flow

definition callback_admit ::
  "auth_env \<Rightarrow> ('k, 't, 's) oidc_library \<Rightarrow> nat \<Rightarrow> ip_addr \<Rightarrow> headers \<Rightarrow> string option \<Rightarrow> auth_state \<Rightarrow> 'k manager \<Rightarrow>
   callback_progress \<times> 'k manager" where
  "callback_admit env lib now peer hs raw_query st m = (case callback_query lib hs raw_query of
      Inl code \<Rightarrow> (Answered (error_response lib code ''/''), m)
    | Inr (values, query_state) \<Rightarrow>
      (case resolve_client_ip (ae_trusted_proxy env) peer hs of
         Inl e \<Rightarrow> (Answered (error_response lib ''authentication_failed'' ''/''), discard_flow query_state m)
       | Inr source \<Rightarrow>
         (case consume_flow query_state source now m of
            (None, m1) \<Rightarrow> (Answered (error_response lib ''invalid_state'' ''/''), m1)
          | (Some flow, m1) \<Rightarrow>
              (case callback_code m1 st values of
                 Inl code \<Rightarrow> Answered (error_response lib code (cw_redirect flow))
               | Inr code \<Rightarrow> Exchange code flow, m1))))"

fun login_error_code :: "login_error \<Rightarrow> string" where
  "login_error_code ProviderUnavailable = ''provider_unavailable''"
| "login_error_code NotAuthorized = ''not_authorized''"
| "login_error_code AuthenticationFailed = ''authentication_failed''"

definition callback_finish ::
  "auth_env \<Rightarrow> ('k, 't, 's) oidc_library \<Rightarrow> (http_request \<Rightarrow> http_reply option) \<Rightarrow> bool \<Rightarrow> auth_inputs \<Rightarrow> string \<Rightarrow>
   consumed_flow \<Rightarrow> auth_state \<Rightarrow> 'k manager \<Rightarrow> (app_error + oidc_reply) \<times> auth_state \<times> 'k manager" where
  "callback_finish env lib net permit inp code flow st m =
     (case authenticate lib net (in_unix inp) permit code flow m of
        (Inl e, m1) \<Rightarrow> (error_response lib (login_error_code e) (cw_redirect flow), st, m1)
      | (Inr identity, m1) \<Rightarrow>
          (case establish_oidc_session env inp identity (completion_location lib (cw_redirect flow) None) st of
             (Inr (cookies, location), st1) \<Rightarrow>
               (Inr (clear_flow_cookie \<lparr>or_location = location, or_cookies = cookies, or_no_store = False\<rparr>), st1, m1)
           | (Inl e, st1) \<Rightarrow>
               (error_response lib ''authentication_failed'' (cw_redirect flow), st1, m1)))"

text \<open>A callback during whose requests nothing else happens.\<close>

definition callback ::
  "auth_env \<Rightarrow> ('k, 't, 's) oidc_library \<Rightarrow> (http_request \<Rightarrow> http_reply option) \<Rightarrow> bool \<Rightarrow> auth_inputs \<Rightarrow> nat \<Rightarrow>
   ip_addr \<Rightarrow> headers \<Rightarrow> string option \<Rightarrow> auth_state \<Rightarrow> 'k manager \<Rightarrow>
   (app_error + oidc_reply) \<times> auth_state \<times> 'k manager" where
  "callback env lib net permit inp now peer hs raw_query st m =
     (case callback_admit env lib now peer hs raw_query st m of
        (Answered r, m1) \<Rightarrow> (r, st, m1)
      | (Exchange code flow, m1) \<Rightarrow> callback_finish env lib net permit inp code flow st m1)"

section \<open>Everything that happens to the logins\<close>

text \<open>
  The sessions and setup, the manager, and the admitted callbacks whose requests are under way.
  \<open>Elsewhere\<close> is any change of the database by the rest of the server.
\<close>

record 'k login_world =
  lw_auth :: auth_state
  lw_manager :: "'k manager"
  lw_pending :: "(string \<times> consumed_flow) list"

datatype ('n) login_event =
    StartEvent flow_secrets nat ip_addr headers "string option"
  | AdmitEvent nat ip_addr headers "string option"
  | FinishEvent nat 'n bool auth_inputs
  | DiscoveryEvent 'n bool nat
  | ElsewhereEvent auth_state

type_synonym network = "http_request \<Rightarrow> http_reply option"

fun run_login ::
  "auth_env \<Rightarrow> ('k, 't, 's) oidc_library \<Rightarrow> network login_event \<Rightarrow> 'k login_world \<Rightarrow>
   callback_progress option \<times> 'k login_world" where
  "run_login env lib (StartEvent secrets now peer hs raw_query) w =
     (case start env lib secrets now peer hs raw_query (lw_auth w) (lw_manager w) of (r, m) \<Rightarrow>
        (Some (Answered r), w\<lparr>lw_manager := m\<rparr>))"
| "run_login env lib (AdmitEvent now peer hs raw_query) w =
     (case callback_admit env lib now peer hs raw_query (lw_auth w) (lw_manager w) of
        (Answered r, m) \<Rightarrow> (Some (Answered r), w\<lparr>lw_manager := m\<rparr>)
      | (Exchange code flow, m) \<Rightarrow>
          (Some (Exchange code flow), w\<lparr>lw_manager := m, lw_pending := lw_pending w @ [(code, flow)]\<rparr>))"
| "run_login env lib (FinishEvent i net permit inp) w =
     (if i < length (lw_pending w)
      then case lw_pending w ! i of (code, flow) \<Rightarrow>
        (case callback_finish env lib net permit inp code flow (lw_auth w) (lw_manager w) of (r, st, m) \<Rightarrow>
           (Some (Answered r), w\<lparr>lw_auth := st, lw_manager := m,
              lw_pending := take i (lw_pending w) @ drop (Suc i) (lw_pending w)\<rparr>))
      else (None, w))"
| "run_login env lib (DiscoveryEvent net permit retry) w =
     (None, w\<lparr>lw_manager := fst (discovery_round lib net permit (lw_manager w) retry)\<rparr>)"
| "run_login env lib (ElsewhereEvent st) w = (None, w\<lparr>lw_auth := st\<rparr>)"

text \<open>The traces of the logins, the newest event first, each with its answer.\<close>

inductive login_trace ::
  "auth_env \<Rightarrow> ('k, 't, 's) oidc_library \<Rightarrow> 'k login_world \<Rightarrow> (network login_event \<times> callback_progress option) list \<Rightarrow>
   'k login_world \<Rightarrow> bool" for env lib w0 where
  nothing: "login_trace env lib w0 [] w0"
| event: "login_trace env lib w0 tr w \<Longrightarrow> run_login env lib ev w = (out, w') \<Longrightarrow> login_trace env lib w0 ((ev, out) # tr) w'"

inductive_cases login_trace_ConsE: "login_trace env lib w0 (e # tr) w"

end
