(* ===== verification/Oidc_Example.thy ===== *)
theory Oidc_Example
  imports Oidc_Handlers Auth_Facts
begin

text \<open>
  A small provider and the three events of one login through it, evaluated: the start, the
  callback it admits, and the end of the callback.
\<close>

definition example_metadata :: "unit provider_metadata" where
  "example_metadata = \<lparr>md_issuer = ''https://p'', md_authorization_endpoint = ''https://p/a'', md_jwks_uri = ''https://p/k'',
     md_token_endpoint = Some ''https://p/t'', md_userinfo_endpoint = None, md_auth_methods = None,
     md_signing_algs = [''RS256''], md_jwks = ()\<rparr>"

definition example_provider :: "unit provider" where
  "example_provider = \<lparr>pv_metadata = example_metadata, pv_auth_type = BasicAuth\<rparr>"

definition example_claims :: id_claims where
  "example_claims = \<lparr>ic_issuer = ''https://p'', ic_audiences = [''rv''], ic_authorized_party = None,
     ic_access_token_hash = None, ic_subject = ''u1'', ic_preferred_username = Some ''ada'', ic_email = None, ic_name = None\<rparr>"

definition example_policy :: oidc_config where
  "example_policy = \<lparr>oc_issuer_url = ''https://p'', oc_client_id = ''rv'', oc_client_secret = ''s'',
     oc_provider_name = ''P'', oc_groups_claim = ''groups'', oc_viewer_group = ''v'', oc_admin_group = ''a'',
     oc_additional_scopes = [], oc_ca_pem = None, oc_redirect_url = ''https://r/cb''\<rparr>"

definition example_library :: "(unit, string, string) oidc_library" where
  "example_library = \<lparr>
     ol_parse_url = (\<lambda>u. Some \<lparr>pu_scheme = ''https'', pu_host = Some (Domain ''p''), pu_host_str = Some ''p'', pu_username = [],
       pu_password = None, pu_path = ''/'', pu_query = None, pu_fragment = None, pu_origin = ''https://p''\<rparr>),
     ol_same_issuer = (=),
     ol_json_object = (\<lambda>s. if s = ''p'' then Some [(''groups'', JArray [JString ''a''])] else None),
     ol_serialize = (\<lambda>_. None), ol_b64_decode = Some, ol_b64_encode = id, ol_parse_metadata = (\<lambda>_. None),
     ol_parse_jwks = (\<lambda>_. None), ol_parse_token_response = (\<lambda>r. Some (''at'', Some ''t'')),
     ol_parse_user_info = (\<lambda>_ _. None), ol_known_alg = (\<lambda>_. True), ol_shared_secret = (\<lambda>_. False),
     ol_normalize_type = Some, ol_parse_token = Some, ol_token_text = (\<lambda>_. Some ''h.p.s''), ol_signing_alg = (\<lambda>_. None),
     ol_signing_key = (\<lambda>_ _ _. Inl OtherKeyError), ol_verify_signature = (\<lambda>_ _ _ _. False),
     ol_claims = (\<lambda>now c p t nonce. if nonce = ''n1'' then Some example_claims else None),
     ol_claims_unverified = (\<lambda>_ _ _. None), ol_access_token_hash = (\<lambda>_ _ _. None), ol_sha256 = id,
     ol_form_decode = (\<lambda>s. if s = [] then [] else [(''state'', ''k1''), (''code'', ''c'')]),
     ol_form_encode = (\<lambda>_. ''f''), ol_authorize_url = (\<lambda>_ _ _ _ _ _. ''https://p/a?x''), ol_certificates = (\<lambda>_. None)\<rparr>"

lemma example_library_simps [simp]:
  "ol_json_object example_library s = (if s = ''p'' then Some [(''groups'', JArray [JString ''a''])] else None)"
  "ol_b64_decode example_library s = Some s"
  "ol_parse_token_response example_library r = Some (''at'', Some ''t'')"
  "ol_token_text example_library tok = Some ''h.p.s''"
  "ol_claims example_library now c p tok nonce = (if nonce = ''n1'' then Some example_claims else None)"
  "ol_sha256 example_library s = s"
  "ol_form_decode example_library s = (if s = [] then [] else [(''state'', ''k1''), (''code'', ''c'')])"
  "ol_form_encode example_library ps = ''f''"
  "ol_authorize_url example_library c p k n ch scopes = ''https://p/a?x''"
  by (simp_all add: example_library_def)

lemma example_url: "\<exists>u. ol_parse_url example_library s = Some u \<and> secure_url u"
  by (simp add: example_library_def secure_url_def)

definition example_network :: network where
  "example_network = (\<lambda>_. Some \<lparr>hr_status = 200, hr_content_length = None, hr_content_type = None, hr_chunks = []\<rparr>)"

definition example_manager :: "unit manager" where
  "example_manager = \<lparr>mg_config = Some example_policy, mg_provider = Some example_provider, mg_http = True, mg_flows = [],
     mg_policy_fingerprint = Some (policy_fingerprint example_library example_policy)\<rparr>"

definition example_login_state :: auth_state where
  "example_login_state = \<lparr>au_db = empty_auth_db\<lparr>adb_admin := Some \<lparr>ad_username = ''root'', ad_password_hash = ''hash'',
       ad_credential_version = 1\<rparr>\<rparr>, au_login_failures = [], au_setup_attempts = [], au_pairing_attempts = [],
     au_admin_pairing_failures = [], au_token_file = None, au_setup_stopped = True\<rparr>"

definition example_world :: "unit login_world" where
  "example_world = \<lparr>lw_auth = example_login_state, lw_manager = example_manager, lw_pending = []\<rparr>"

definition example_peer :: ip_addr where
  "example_peer = V4 [10, 0, 0, 2]"

definition example_begin :: "network login_event" where
  "example_begin = StartEvent \<lparr>fs_state = ''k1'', fs_nonce = ''n1'', fs_challenge = ''ch'', fs_verifier = ''ve''\<rparr> 7 example_peer [] None"

definition example_callback :: "network login_event" where
  "example_callback = AdmitEvent 9 example_peer [(''cookie'', ''__Host-routerview_oidc_flow=k1'')] (Some ''q'')"

definition example_end :: "network login_event" where
  "example_end = FinishEvent 0 example_network True example_inputs"

definition example_stored :: login_flow where
  "example_stored = \<lparr>lf_nonce = ''n1'', lf_pkce_verifier = ''ve'', lf_source = normalize_ip example_peer, lf_redirect = ''/'',
     lf_expires_at = 7 + FLOW_TTL\<rparr>"

definition example_flow :: consumed_flow where
  "example_flow = \<lparr>cw_nonce = ''n1'', cw_pkce_verifier = ''ve'', cw_redirect = ''/''\<rparr>"

definition example_started :: "unit login_world" where
  "example_started = example_world\<lparr>lw_manager := example_manager\<lparr>mg_flows := [(''k1'', example_stored)]\<rparr>\<rparr>"

definition example_admitted :: "unit login_world" where
  "example_admitted = example_world\<lparr>lw_pending := [(''c'', example_flow)]\<rparr>"

definition example_sent :: oidc_reply where
  "example_sent = \<lparr>or_location = ''https://p/a?x'', or_cookies = [flow_cookie ''k1''], or_no_store = True\<rparr>"

lemma example_source: "resolve_client_ip (ae_trusted_proxy example_env) example_peer hs = Inr (normalize_ip example_peer)"
  by (simp add: resolve_client_ip_def example_env_def)

lemma example_query: "callback_query example_library [(''cookie'', ''__Host-routerview_oidc_flow=k1'')] (Some ''q'') =
    Inr ([''state'' \<mapsto> ''k1'', ''code'' \<mapsto> ''c''], ''k1'')"
  by (simp add: callback_query_def parse_query_def CALLBACK_KEYS_def MAX_QUERY_BYTES_def
      single_cookie_def cookie_values_def get_all_def to_str_def visible_ascii_def trim_def is_whitespace_def
      FLOW_COOKIE_def constant_time_eq_iff map_filter_simps)

lemma example_start_step: "run_login example_env example_library example_begin example_world =
    (Some (Answered (Inr example_sent)), example_started)"
proof -
  have r: "start_redirect example_library None = Some ''/''"
    by (simp add: start_redirect_def parse_query_def MAX_QUERY_BYTES_def validate_internal_redirect_def
        MAX_REDIRECT_BYTES_def byte_def)
  have i: "flow_insert ''k1'' example_stored 7 [] = (True, [(''k1'', example_stored)])"
    by (simp add: flow_insert_def live_flows_def FLOW_CAPACITY_def FLOW_PER_SOURCE_def)
  have b: "begin_flow example_library \<lparr>fs_state = ''k1'', fs_nonce = ''n1'', fs_challenge = ''ch'', fs_verifier = ''ve''\<rparr> 7
      (normalize_ip example_peer) ''/'' example_manager =
      (Inr \<lparr>sf_authorization_url = ''https://p/a?x'', sf_state = ''k1''\<rparr>, example_manager\<lparr>mg_flows := [(''k1'', example_stored)]\<rparr>)"
    using i by (simp add: begin_flow_def example_manager_def example_stored_def)
  have rr: "redirect_response ''https://p/a?x'' (Some ''k1'') = Inr example_sent"
    by (simp add: redirect_response_def flow_cookie_def example_sent_def FLOW_COOKIE_def visible_ascii_def)
  show ?thesis
    by (simp add: example_begin_def example_world_def start_def r example_source b rr example_started_def
        example_login_state_def)
qed

lemma example_admit_step: "run_login example_env example_library example_callback example_started =
    (Some (Exchange ''c'' example_flow), example_admitted)"
proof -
  have c: "consume_flow ''k1'' (normalize_ip example_peer) 9 (example_manager\<lparr>mg_flows := [(''k1'', example_stored)]\<rparr>) =
      (Some example_flow, example_manager)"
    by (simp add: consume_flow_def flow_consume_def live_flows_def flow_remove_def example_stored_def example_flow_def
        FLOW_TTL_def example_manager_def)
  have k: "callback_code example_manager example_login_state [''state'' \<mapsto> ''k1'', ''code'' \<mapsto> ''c''] = Inr ''c''"
    by (simp add: callback_code_def example_login_state_def)
  show ?thesis
    by (simp add: example_callback_def example_started_def example_world_def callback_admit_def example_query example_source
        c k example_admitted_def)
qed

definition example_identity :: oidc_identity where
  "example_identity = \<lparr>oi_issuer = ''https://p'', oi_subject = ''u1'', oi_username = ''ada'', oi_display_name = ''ada'',
     oi_role = ''admin'', oi_provider_name = ''P'', oi_policy_fingerprint = policy_fingerprint example_library example_policy\<rparr>"

lemma example_authenticate:
  "authenticate example_library example_network 500 True ''c'' example_flow example_manager = (Inr example_identity, example_manager)"
proof -
  have b: "bounded_call example_library example_network r = Inr \<lparr>hp_status = 200, hp_content_type = None, hp_body = []\<rparr>" for r
    using example_url[of "request_url r"] by (auto simp: bounded_call_def example_network_def)
  have v: "id_token_values example_library ''t'' = Inr [''groups'' \<mapsto> JArray [JString ''a'']]"
    by (simp add: id_token_values_def unique_object_def MAX_HTTP_RESPONSE_BYTES_def)
  have e: "exchange_code example_library example_network example_policy example_provider ''c'' ''ve'' =
      (Some (capture_response \<lparr>hp_status = 200, hp_content_type = None, hp_body = []\<rparr>), Some (''at'', Some ''t''))"
    by (simp add: exchange_code_def b example_provider_def example_metadata_def)
  have cl: "ol_claims example_library 500 example_policy example_provider ''t'' ''n1'' = Some example_claims"
    by (simp add:)
  let ?v = "identity_of example_provider ''at'' [''groups'' \<mapsto> JArray [JString ''a'']] example_claims"
  have t: "verified_token example_library example_network 500 example_policy example_provider ''c'' example_flow example_manager =
      (Inr ?v, example_manager)"
    by (simp add: verified_token_def example_flow_def e authenticate_standard_def cl verify_standard_token_def
        standard_access_token_ok_def v) (simp add: example_claims_def)
  have f: "finish_identity example_library example_network example_policy
      (Some (policy_fingerprint example_library example_policy)) ?v = Inr example_identity"
    by (simp add: finish_identity_def valid_subject_def identity_of_def example_claims_def identity_groups_def
        group_claim_def example_policy_def map_role_def identity_name_def valid_identity_text_def or_else_text_def
        trim_def is_whitespace_def byte_def example_identity_def Let_def)
  show ?thesis
    by (simp add: authenticate_def t) (simp add: example_manager_def t[unfolded example_manager_def] f)
qed

definition example_replied :: "app_error + oidc_reply" where
  "example_replied = fst (callback_finish example_env example_library example_network True example_inputs ''c'' example_flow
     example_login_state example_manager)"

definition example_logged_in :: auth_state where
  "example_logged_in = example_login_state\<lparr>au_db := (au_db example_login_state)\<lparr>adb_sessions :=
     [oidc_session example_env example_inputs example_identity]\<rparr>\<rparr>"

lemma example_finish: "callback_finish example_env example_library example_network True example_inputs ''c'' example_flow
    example_login_state example_manager = (example_replied, example_logged_in, example_manager)"
proof -
  have i: "insert_oidc_session (oidc_session example_env example_inputs example_identity) (au_db example_login_state) =
      (Inr (), au_db example_logged_in)"
    by (simp add: insert_oidc_session_def oidc_session_def new_session_def example_logged_in_def example_login_state_def
        insert_session_inner_def in_tx_def empty_auth_db_def session_checks_def roles_def kinds_def auth_methods_def
        example_identity_def Let_def)
  have a: "authenticate example_library example_network (in_unix example_inputs) True ''c'' example_flow example_manager =
      (Inr example_identity, example_manager)"
    using example_authenticate by (simp add: example_inputs_def)
  have f: "cw_redirect example_flow = ''/''" by (simp add: example_flow_def)
  have "\<exists>q. establish_oidc_session example_env example_inputs example_identity (completion_location example_library ''/'' None)
      example_login_state = (q, example_logged_in)"
    by (simp add: establish_oidc_session_def set_db_def i example_logged_in_def Let_def) (simp add: example_login_state_def lift_db_def)
  then show ?thesis
    by (auto simp: example_replied_def callback_finish_def a f split: sum.splits prod.splits)
qed

definition example_done :: "unit login_world" where
  "example_done = example_world\<lparr>lw_auth := example_logged_in\<rparr>"

lemma example_finish_step: "run_login example_env example_library example_end example_admitted =
    (Some (Answered example_replied), example_done)"
  by (simp add: example_end_def example_admitted_def example_world_def example_finish example_done_def)

lemma example_fresh: "mg_flows (lw_manager example_world) = []" "lw_pending example_world = []"
  by (simp_all add: example_world_def example_manager_def)

lemma example_trace:
  "login_trace example_env example_library example_world
     [(example_callback, Some (Exchange ''c'' example_flow)), (example_begin, Some (Answered (Inr example_sent)))] example_admitted"
  by (rule login_trace.event[OF login_trace.event[OF login_trace.nothing example_start_step] example_admit_step])

lemma example_whole_trace:
  "login_trace example_env example_library example_world
     [(example_end, Some (Answered example_replied)), (example_callback, Some (Exchange ''c'' example_flow)),
      (example_begin, Some (Answered (Inr example_sent)))] example_done"
  by (rule login_trace.event[OF example_trace example_finish_step])

end
