(* ===== verification/Oidc_Facts.thy ===== *)
theory Oidc_Facts
  imports Oidc_Example
begin

text \<open>
  What a login through the provider guarantees: where its session comes from, how often a flow can
  be used, who the identity is, how many flows there are, where the browser ends up, how often the
  provider is asked for, and what a change of the policy does.
\<close>

section \<open>The store of flows\<close>

text \<open>The bounds of the store.\<close>

definition flows_bounded :: "flow_store \<Rightarrow> bool" where
  "flows_bounded fs \<longleftrightarrow> distinct (map fst fs) \<and> length fs \<le> FLOW_CAPACITY \<and>
     (\<forall>source. length (filter (\<lambda>e. lf_source (snd e) = source) fs) \<le> FLOW_PER_SOURCE)"

lemma flows_bounded_Nil [simp]: "flows_bounded []"
  by (simp add: flows_bounded_def)

lemma distinct_fst_filter: "distinct (map fst xs) \<Longrightarrow> distinct (map fst (filter P xs))"
  by (induction xs) auto

lemma filter_twice_le: "length (filter P (filter Q xs)) \<le> length (filter P xs)"
  by (induction xs) auto

lemma flows_bounded_filter [step_intros]: "flows_bounded fs \<Longrightarrow> flows_bounded (filter P fs)"
  unfolding flows_bounded_def
  by (meson distinct_fst_filter filter_twice_le length_filter_le order_trans)

lemma delete_is_filter: "AList.delete k xs = filter (\<lambda>e. fst e \<noteq> k) xs"
  by (simp add: AList.delete_eq split_def eq_commute[of k])

lemma flows_bounded_remove [step_intros]: "flows_bounded fs \<Longrightarrow> flows_bounded (flow_remove k fs)"
  unfolding flow_remove_def delete_is_filter by (rule flows_bounded_filter)

lemma length_filter_update:
  "length (filter P (AList.update k v fs)) \<le> length (filter P fs) + (if P (k, v) then 1 else 0)"
  by (induction fs) auto

lemma flows_bounded_insert [step_intros]:
  assumes "flows_bounded fs"
  shows "flows_bounded (snd (flow_insert key flow now fs))"
proof -
  let ?live = "live_flows now fs"
  let ?mine = "filter (\<lambda>e. lf_source (snd e) = lf_source flow) ?live"
  have live: "flows_bounded ?live" unfolding live_flows_def by (rule flows_bounded_filter[OF assms])
  show ?thesis
  proof (cases "FLOW_CAPACITY \<le> length ?live \<or> FLOW_PER_SOURCE \<le> length ?mine")
    case True
    then show ?thesis using live by (simp add: flow_insert_def Let_def)
  next
    case False
    have "length (AList.update key flow ?live) \<le> FLOW_CAPACITY"
      using length_filter_update[of "\<lambda>_. True" key flow ?live] False by simp
    moreover have "length (filter (\<lambda>e. lf_source (snd e) = s) (AList.update key flow ?live)) \<le> FLOW_PER_SOURCE" for s
      using length_filter_update[of "\<lambda>e. lf_source (snd e) = s" key flow ?live] False live
      by (cases "lf_source flow = s") (auto simp: flows_bounded_def intro: order_trans)
    ultimately show ?thesis
      using live False by (simp add: flow_insert_def Let_def flows_bounded_def distinct_update)
  qed
qed

lemma flow_consume_store: "\<exists>P. snd (flow_consume key source now fs) = filter P fs"
  by (auto simp: flow_consume_def flow_remove_def delete_is_filter live_flows_def Let_def split: option.splits)

lemma flow_consume_SomeD:
  assumes "flow_consume key source now fs = (Some flow, fs')"
  shows "(key, flow) \<in> set fs" "lf_source flow = source" "now < lf_expires_at flow" "key \<notin> fst ` set fs'"
proof -
  obtain f where f: "map_of (live_flows now fs) key = Some f"
    using assms by (auto simp: flow_consume_def Let_def split: option.splits)
  have *: "f = flow" "lf_source f = source" "now < lf_expires_at f" "fs' = flow_remove key (live_flows now fs)"
    using assms unfolding flow_consume_def Let_def f by (simp_all split: if_splits)
  show "(key, flow) \<in> set fs" using map_of_SomeD[OF f] * by (simp add: live_flows_def)
  show "lf_source flow = source" "now < lf_expires_at flow" using * by simp_all
  show "key \<notin> fst ` set fs'" using * by (auto simp: flow_remove_def delete_is_filter)
qed

lemma update_subset: "set (AList.update k v fs) \<subseteq> insert (k, v) (set fs)"
  by (induction fs) auto

lemma flow_insert_set:
  "e \<in> set (snd (flow_insert key flow now fs)) \<Longrightarrow> e = (key, flow) \<or> e \<in> set fs"
  using update_subset[of key flow "live_flows now fs"]
  by (auto simp: flow_insert_def live_flows_def Let_def split: if_splits)

section \<open>What the steps do to it\<close>

text \<open>The flow a start would open, and the state of an admitted callback.\<close>

definition flow_for :: "flow_secrets \<Rightarrow> nat \<Rightarrow> ip_addr \<Rightarrow> string \<Rightarrow> login_flow" where
  "flow_for secrets now source redirect = \<lparr>lf_nonce = fs_nonce secrets, lf_pkce_verifier = fs_verifier secrets,
     lf_source = source, lf_redirect = redirect, lf_expires_at = now + FLOW_TTL\<rparr>"

lemma begin_flow_store:
  "mg_flows (snd (begin_flow lib secrets now source redirect m)) = mg_flows m \<or>
   mg_flows (snd (begin_flow lib secrets now source redirect m)) =
     snd (flow_insert (fs_state secrets) (flow_for secrets now source redirect) now (mg_flows m))"
  by (simp add: begin_flow_def flow_for_def Let_def split: option.splits prod.splits)

lemma start_store:
  assumes "mg_flows (snd (start env lib secrets now peer hs raw st m)) \<noteq> mg_flows m"
  shows "\<exists>source redirect. start_redirect lib raw = Some redirect \<and>
    resolve_client_ip (ae_trusted_proxy env) peer hs = Inr source \<and>
    mg_flows (snd (start env lib secrets now peer hs raw st m)) =
      snd (flow_insert (fs_state secrets) (flow_for secrets now source redirect) now (mg_flows m))"
proof -
  obtain redirect where r: "start_redirect lib raw = Some redirect"
    using assms by (cases "start_redirect lib raw") (simp_all add: start_def)
  obtain source where s: "resolve_client_ip (ae_trusted_proxy env) peer hs = Inr source"
    using assms r by (cases "resolve_client_ip (ae_trusted_proxy env) peer hs") (simp_all add: start_def split: if_splits)
  have "mg_flows (snd (start env lib secrets now peer hs raw st m)) =
      (if adb_admin (au_db st) = None then mg_flows m
       else mg_flows (snd (begin_flow lib secrets now source redirect m)))"
    by (simp add: start_def r s split: prod.splits sum.splits login_error.splits)
  then show ?thesis using r s assms begin_flow_store[of lib secrets now source redirect m] by (auto split: if_splits)
qed

lemma refresh_provider_frame [simp]:
  "mg_flows (snd (refresh_provider lib net m)) = mg_flows m"
  "mg_config (snd (refresh_provider lib net m)) = mg_config m"
  by (simp_all add: refresh_provider_def split: option.splits)

lemma refresh_provider_flowsD: "refresh_provider lib net m = (r, m1) \<Longrightarrow> mg_flows m1 = mg_flows m"
  using refresh_provider_frame(1)[of lib net m] by simp

lemma verified_token_frame [simp]:
  "mg_flows (snd (verified_token lib net now config provider code flow m)) = mg_flows m"
proof -
  have "mg_flows (snd (authenticate_standard lib net now config provider a t n m)) = mg_flows m" for a t n
    by (auto simp: authenticate_standard_def dest: refresh_provider_flowsD split: option.splits prod.splits sum.splits)
  moreover have "mg_flows (snd (verify_compatible_token_response lib net now config provider r n m)) = mg_flows m" for r n
    by (auto simp: verify_compatible_token_response_def dest: refresh_provider_flowsD
        split: compatible_token_error.splits prod.splits sum.splits)
  ultimately show ?thesis by (simp add: verified_token_def split: option.splits prod.splits)
qed

lemma authenticate_frame [simp]:
  "mg_flows (snd (authenticate lib net now permit code flow m)) = mg_flows m"
proof -
  have "mg_flows m1 = mg_flows m" if "verified_token lib net now config provider code flow m = (r, m1)" for config provider r m1
    using verified_token_frame[of lib net now config provider code flow m] that by simp
  then show ?thesis by (auto simp: authenticate_def split: option.splits prod.splits sum.splits)
qed

lemma callback_finish_frame [simp]:
  "mg_flows (snd (snd (callback_finish env lib net permit inp code flow st m))) = mg_flows m"
proof -
  have "mg_flows m1 = mg_flows m" if "authenticate lib net (in_unix inp) permit code flow m = (r, m1)" for r m1
    using authenticate_frame[of lib net "in_unix inp" permit code flow m] that by simp
  then show ?thesis by (auto simp: callback_finish_def split: prod.splits sum.splits)
qed

lemma callback_finish_flowsD:
  "callback_finish env lib net permit inp code flow st m = (r, st', m') \<Longrightarrow> mg_flows m' = mg_flows m"
  using callback_finish_frame[of env lib net permit inp code flow st m] by simp

lemma discovery_round_frame [simp]:
  "mg_flows (fst (discovery_round lib net permit m retry)) = mg_flows m"
  "mg_config (fst (discovery_round lib net permit m retry)) = mg_config m"
  "mg_http (fst (discovery_round lib net permit m retry)) = mg_http m"
  by (simp_all add: discovery_round_def split: option.splits)

lemma consume_flow_store: "\<exists>P. mg_flows (snd (consume_flow key source now m)) = filter P (mg_flows m)"
  using flow_consume_store[of key source now "mg_flows m"]
  by (auto simp: consume_flow_def split: prod.splits)

lemma callback_admit_store: "\<exists>P. mg_flows (snd (callback_admit env lib now peer hs raw st m)) = filter P (mg_flows m)"
proof -
  have same: "\<exists>P. mg_flows m = filter P (mg_flows m)" by (rule exI[of _ "\<lambda>_. True"]) simp
  have discard: "\<exists>P. mg_flows (discard_flow k m) = filter P (mg_flows m)" for k
    by (auto simp: discard_flow_def flow_remove_def delete_is_filter)
  have "\<exists>P. mg_flows m1 = filter P (mg_flows m)" if "consume_flow k src now m = (r, m1)" for k src r m1
    using consume_flow_store[of k src now m] that by simp
  then show ?thesis using same discard
    by (auto simp: callback_admit_def split: prod.splits sum.splits option.splits)
qed

text \<open>An admitted callback presents the state of a live flow, once in the query and once as a cookie.\<close>

lemma callback_admit_ExchangeD:
  assumes "callback_admit env lib now peer hs raw st m = (Exchange code flow, m')"
  shows "\<exists>vals key source f. callback_query lib hs raw = Inr (vals, key) \<and>
    single_cookie hs FLOW_COOKIE = Some key \<and>
    resolve_client_ip (ae_trusted_proxy env) peer hs = Inr source \<and>
    (key, f) \<in> set (mg_flows m) \<and> lf_source f = source \<and> now < lf_expires_at f \<and>
    flow = \<lparr>cw_nonce = lf_nonce f, cw_pkce_verifier = lf_pkce_verifier f, cw_redirect = lf_redirect f\<rparr> \<and>
    key \<notin> fst ` set (mg_flows m')"
proof -
  obtain vals key where q: "callback_query lib hs raw = Inr (vals, key)"
    using assms by (cases "callback_query lib hs raw") (auto simp: callback_admit_def)
  obtain source where s: "resolve_client_ip (ae_trusted_proxy env) peer hs = Inr source"
    using assms q by (cases "resolve_client_ip (ae_trusted_proxy env) peer hs") (auto simp: callback_admit_def)
  obtain f fs where c: "flow_consume key source now (mg_flows m) = (f, fs)" by force
  obtain g where g: "f = Some g" "flow = \<lparr>cw_nonce = lf_nonce g, cw_pkce_verifier = lf_pkce_verifier g, cw_redirect = lf_redirect g\<rparr>"
    "m' = m\<lparr>mg_flows := fs\<rparr>"
    using assms by (cases f) (auto simp: callback_admit_def q s consume_flow_def c split: sum.splits)
  have "single_cookie hs FLOW_COOKIE = Some key"
    using q by (auto simp: callback_query_def split: option.splits if_splits)
  then show ?thesis using q s g flow_consume_SomeD[OF c[unfolded g(1)]] by auto
qed

section \<open>Traces\<close>

definition fresh_world :: "'k login_world \<Rightarrow> bool" where
  "fresh_world w \<longleftrightarrow> mg_flows (lw_manager w) = [] \<and> lw_pending w = []"

text \<open>The flow that a start of a trace opened, if it opened one; the state an admitted callback used up.\<close>

fun started_flow_of ::
  "auth_env \<Rightarrow> ('k, 't, 's) oidc_library \<Rightarrow> network login_event \<times> callback_progress option \<Rightarrow>
   (string \<times> login_flow) option" where
  "started_flow_of env lib (StartEvent secrets now peer hs raw, out) =
     (case (start_redirect lib raw, resolve_client_ip (ae_trusted_proxy env) peer hs) of
        (Some redirect, Inr source) \<Rightarrow> Some (fs_state secrets, flow_for secrets now source redirect)
      | _ \<Rightarrow> None)"
| "started_flow_of env lib e = None"

fun admitted_state ::
  "('k, 't, 's) oidc_library \<Rightarrow> network login_event \<times> callback_progress option \<Rightarrow> string option" where
  "admitted_state lib (AdmitEvent now peer hs raw, Some (Exchange code flow)) =
     (case callback_query lib hs raw of Inr (vals, key) \<Rightarrow> Some key | Inl e \<Rightarrow> None)"
| "admitted_state lib e = None"

fun is_finish :: "network login_event \<times> callback_progress option \<Rightarrow> bool" where
  "is_finish (FinishEvent i net permit inp, Some r) \<longleftrightarrow> True"
| "is_finish e \<longleftrightarrow> False"

lemma run_login_store:
  assumes "run_login env lib ev w = (out, w')"
  shows "(\<exists>P. mg_flows (lw_manager w') = filter P (mg_flows (lw_manager w))) \<or>
    (\<exists>key f now. started_flow_of env lib (ev, out) = Some (key, f) \<and>
       mg_flows (lw_manager w') = snd (flow_insert key f now (mg_flows (lw_manager w))))"
proof -
  have same: "\<exists>P. mg_flows (lw_manager w) = filter P (mg_flows (lw_manager w))" by (rule exI[of _ "\<lambda>_. True"]) simp
  show ?thesis
  proof (cases ev)
    case (StartEvent secrets now peer hs raw)
    then have w': "lw_manager w' = snd (start env lib secrets now peer hs raw (lw_auth w) (lw_manager w))"
      using assms by (auto split: prod.splits)
    show ?thesis
    proof (cases "mg_flows (lw_manager w') = mg_flows (lw_manager w)")
      case True
      then show ?thesis using same by simp
    next
      case False
      then show ?thesis
        using start_store[of env lib secrets now peer hs raw "lw_auth w" "lw_manager w"] unfolding StartEvent w' by auto
    qed
  next
    case (AdmitEvent now peer hs raw)
    then have "lw_manager w' = snd (callback_admit env lib now peer hs raw (lw_auth w) (lw_manager w))"
      using assms by (auto split: prod.splits callback_progress.splits)
    then show ?thesis using callback_admit_store[of env lib now peer hs raw "lw_auth w" "lw_manager w"] by simp
  next
    case (FinishEvent i net permit inp)
    have "mg_flows (lw_manager w') = mg_flows (lw_manager w)"
    proof (cases "i < length (lw_pending w)")
      case True
      obtain code flow where p: "lw_pending w ! i = (code, flow)" by force
      show ?thesis
        using assms True p unfolding FinishEvent by (auto dest: callback_finish_flowsD split: prod.splits)
    qed (use assms FinishEvent in simp)
    then show ?thesis using same by simp
  next
    case (DiscoveryEvent net permit retry)
    then have "mg_flows (lw_manager w') = mg_flows (lw_manager w)" using assms by auto
    then show ?thesis using same by simp
  next
    case (ElsewhereEvent st)
    then have "mg_flows (lw_manager w') = mg_flows (lw_manager w)" using assms by auto
    then show ?thesis using same by simp
  qed
qed

lemma trace_flows_bounded:
  assumes "login_trace env lib w0 tr w" "fresh_world w0"
  shows "flows_bounded (mg_flows (lw_manager w))"
  using assms
proof (induction rule: login_trace.induct)
  case nothing
  then show ?case by (simp add: fresh_world_def)
next
  case (event tr w ev out w')
  then show ?case using run_login_store[OF event.hyps(2)]
    by (auto intro: flows_bounded_filter flows_bounded_insert)
qed

lemma trace_flows_started:
  assumes "login_trace env lib w0 tr w" "fresh_world w0"
  shows "set (mg_flows (lw_manager w)) \<subseteq> {e. \<exists>s \<in> set tr. started_flow_of env lib s = Some e}"
  using assms
proof (induction rule: login_trace.induct)
  case nothing
  then show ?case by (simp add: fresh_world_def)
next
  case (event tr w ev out w')
  then show ?case using run_login_store[OF event.hyps(2)] by (auto dest!: flow_insert_set)
qed

text \<open>A callback that an event of a trace admitted, with a flow that an earlier event opened.\<close>

definition admitted_by ::
  "auth_env \<Rightarrow> ('k, 't, 's) oidc_library \<Rightarrow> (network login_event \<times> callback_progress option) list \<Rightarrow>
   network login_event \<times> callback_progress option \<Rightarrow> string \<Rightarrow> consumed_flow \<Rightarrow> bool" where
  "admitted_by env lib earlier ev code flow \<longleftrightarrow>
     (\<exists>now peer hs raw vals key f s. ev = (AdmitEvent now peer hs raw, Some (Exchange code flow)) \<and>
       callback_query lib hs raw = Inr (vals, key) \<and> single_cookie hs FLOW_COOKIE = Some key \<and>
       s \<in> set earlier \<and> started_flow_of env lib s = Some (key, f) \<and>
       resolve_client_ip (ae_trusted_proxy env) peer hs = Inr (lf_source f) \<and> now < lf_expires_at f \<and>
       flow = \<lparr>cw_nonce = lf_nonce f, cw_pkce_verifier = lf_pkce_verifier f, cw_redirect = lf_redirect f\<rparr>)"

definition admitted ::
  "auth_env \<Rightarrow> ('k, 't, 's) oidc_library \<Rightarrow> (network login_event \<times> callback_progress option) list \<Rightarrow>
   string \<Rightarrow> consumed_flow \<Rightarrow> bool" where
  "admitted env lib tr code flow \<longleftrightarrow> (\<exists>later ev earlier. tr = later @ ev # earlier \<and> admitted_by env lib earlier ev code flow)"

lemma admitted_Cons: "admitted env lib tr code flow \<Longrightarrow> admitted env lib (e # tr) code flow"
  unfolding admitted_def by (metis append_Cons)

lemma run_login_pending:
  assumes "run_login env lib ev w = (out, w')" "(code, flow) \<in> set (lw_pending w')"
  shows "(code, flow) \<in> set (lw_pending w) \<or> (\<exists>now peer hs raw m. ev = AdmitEvent now peer hs raw \<and>
    out = Some (Exchange code flow) \<and>
    callback_admit env lib now peer hs raw (lw_auth w) (lw_manager w) = (Exchange code flow, m))"
  using assms
  by (cases ev) (auto split: prod.splits callback_progress.splits if_splits dest: in_set_takeD in_set_dropD)

lemma trace_pending_admitted:
  assumes "login_trace env lib w0 tr w" "fresh_world w0" "(code, flow) \<in> set (lw_pending w)"
  shows "admitted env lib tr code flow"
  using assms
proof (induction rule: login_trace.induct)
  case nothing
  then show ?case by (simp add: fresh_world_def)
next
  case (event tr w ev out w')
  show ?case
  proof (cases "(code, flow) \<in> set (lw_pending w)")
    case True
    then show ?thesis using event by (auto intro: admitted_Cons)
  next
    case False
    then obtain now peer hs raw m where e: "ev = AdmitEvent now peer hs raw" "out = Some (Exchange code flow)"
      "callback_admit env lib now peer hs raw (lw_auth w) (lw_manager w) = (Exchange code flow, m)"
      using run_login_pending[OF event.hyps(2) event.prems(2)] by blast
    have "admitted_by env lib tr (ev, out) code flow"
      using callback_admit_ExchangeD[OF e(3)] trace_flows_started[OF event.hyps(1) event.prems(1)]
      unfolding admitted_by_def e(1,2) by fastforce
    then show ?thesis unfolding admitted_def by (intro exI[of _ "[]"]) simp
  qed
qed

section \<open>Where a session comes from\<close>

lemma insert_oidc_session_db:
  "adb_sessions (snd (insert_oidc_session s db)) = adb_sessions db @ [s] \<or> snd (insert_oidc_session s db) = db"
proof (cases "insert_session_inner s db")
  case (Inr db')
  then have "db' = db\<lparr>adb_sessions := adb_sessions db @ [s]\<rparr>" by (simp add: insert_session_Inr_iff)
  then show ?thesis by (simp add: insert_oidc_session_def in_tx_def Inr)
qed (simp add: insert_oidc_session_def in_tx_def)

lemma establish_oidc_session_db:
  assumes "establish_oidc_session env inp identity location st = (r, st')" "au_db st' \<noteq> au_db st"
  shows "adb_sessions (au_db st') = adb_sessions (au_db st) @ [oidc_session env inp identity]"
proof -
  let ?s = "oidc_session env inp identity"
  have "st' = (if adb_admin (au_db st) = None then st else st\<lparr>au_db := snd (insert_oidc_session ?s (au_db st))\<rparr>)"
    using assms(1) by (auto simp: establish_oidc_session_def set_db_def Let_def split: sum.splits prod.splits if_splits)
  then show ?thesis using assms(2) insert_oidc_session_db[of ?s "au_db st"] by (auto split: if_splits)
qed

lemma callback_finish_db:
  assumes "callback_finish env lib net permit inp code flow st m = (r, st', m')" "au_db st' \<noteq> au_db st"
  shows "\<exists>identity. authenticate lib net (in_unix inp) permit code flow m = (Inr identity, m') \<and>
    adb_sessions (au_db st') = adb_sessions (au_db st) @ [oidc_session env inp identity]"
proof -
  obtain identity m1 where a: "authenticate lib net (in_unix inp) permit code flow m = (Inr identity, m1)"
    using assms by (auto simp: callback_finish_def split: prod.splits sum.splits)
  obtain r1 st1 where e: "establish_oidc_session env inp identity (completion_location lib (cw_redirect flow) None) st = (r1, st1)"
    by force
  have "st' = st1" "m' = m1" using assms(1) by (auto simp: callback_finish_def a e split: sum.splits)
  then show ?thesis using a establish_oidc_session_db[OF e] assms(2) by simp
qed

text \<open>C21: Whatever starts, callbacks, discoveries and other changes of the server interleave, an event of
  the login changes the database only by ending a callback: it adds exactly the session of the
  identity that was authenticated, with the nonce and verifier of a flow that an earlier start
  opened for the same address at most five minutes before, whose state was in the query and in the
  cookie of the callback.\<close>

theorem session_completes_its_flow:
  assumes "login_trace env lib w0 tr w" "fresh_world w0" "run_login env lib ev w = (out, w')"
    "\<forall>st. ev \<noteq> ElsewhereEvent st" "au_db (lw_auth w') \<noteq> au_db (lw_auth w)"
  shows "\<exists>i net permit inp code flow identity. ev = FinishEvent i net permit inp \<and>
    authenticate lib net (in_unix inp) permit code flow (lw_manager w) = (Inr identity, lw_manager w') \<and>
    adb_sessions (au_db (lw_auth w')) = adb_sessions (au_db (lw_auth w)) @ [oidc_session env inp identity] \<and>
    admitted env lib tr code flow"
proof -
  obtain i net permit inp where ev: "ev = FinishEvent i net permit inp"
    using assms(3-5) by (cases ev) (auto split: prod.splits callback_progress.splits)
  have i: "i < length (lw_pending w)" using assms(3,5) by (auto simp: ev split: if_splits)
  obtain code flow where p: "lw_pending w ! i = (code, flow)" by force
  obtain r st' m' where f: "callback_finish env lib net permit inp code flow (lw_auth w) (lw_manager w) = (r, st', m')"
    using prod_cases3 by blast
  have w': "lw_auth w' = st'" "lw_manager w' = m'" using assms(3) i p f by (auto simp: ev)
  have "(code, flow) \<in> set (lw_pending w)" using i p by (metis nth_mem)
  then have "admitted env lib tr code flow" by (rule trace_pending_admitted[OF assms(1,2)])
  then show ?thesis using callback_finish_db[OF f] assms(5) ev w' by auto
qed

lemma example_world_fresh: "fresh_world example_world"
  using example_fresh by (simp add: fresh_world_def)

lemma example_session_new: "au_db (lw_auth example_done) \<noteq> au_db (lw_auth example_admitted)"
  by (simp add: example_done_def example_admitted_def example_world_def example_logged_in_def example_login_state_def
      empty_auth_db_def)

theorem session_completes_its_flow_witness:
  "\<exists>i net permit inp code flow identity. example_end = FinishEvent i net permit inp \<and>
    authenticate example_library net (in_unix inp) permit code flow (lw_manager example_admitted) =
      (Inr identity, lw_manager example_done) \<and>
    adb_sessions (au_db (lw_auth example_done)) =
      adb_sessions (au_db (lw_auth example_admitted)) @ [oidc_session example_env inp identity] \<and>
    admitted example_env example_library
      [(example_callback, Some (Exchange ''c'' example_flow)), (example_begin, Some (Answered (Inr example_sent)))] code flow"
  by (rule session_completes_its_flow[OF example_trace example_world_fresh example_finish_step _ example_session_new])
     (simp add: example_end_def)

section \<open>How often a flow is used\<close>

definition uses :: "('k, 't, 's) oidc_library \<Rightarrow> (network login_event \<times> callback_progress option) list \<Rightarrow> string \<Rightarrow> nat" where
  "uses lib tr key = length (filter (\<lambda>e. admitted_state lib e = Some key) tr)"

definition starts ::
  "auth_env \<Rightarrow> ('k, 't, 's) oidc_library \<Rightarrow> (network login_event \<times> callback_progress option) list \<Rightarrow> string \<Rightarrow> nat" where
  "starts env lib tr key = length (filter (\<lambda>e. map_option fst (started_flow_of env lib e) = Some key) tr)"

lemma admitted_state_SomeD:
  "admitted_state lib (ev, out) = Some key \<Longrightarrow> \<exists>now peer hs raw code flow vals.
     ev = AdmitEvent now peer hs raw \<and> out = Some (Exchange code flow) \<and> callback_query lib hs raw = Inr (vals, key)"
  by (cases "(lib, ev, out)" rule: admitted_state.cases) (auto split: sum.splits)

lemma flow_insert_keys:
  "fst ` set (snd (flow_insert key f now fs)) \<subseteq> insert key (fst ` set fs)"
  using flow_insert_set[of _ key f now fs] by force

lemma trace_uses_flows:
  assumes "login_trace env lib w0 tr w" "fresh_world w0"
  shows "uses lib tr key + (if key \<in> fst ` set (mg_flows (lw_manager w)) then 1 else 0) \<le> starts env lib tr key"
  using assms
proof (induction rule: login_trace.induct)
  case nothing
  then show ?case by (simp add: fresh_world_def uses_def starts_def)
next
  case (event tr w ev out w')
  have IH: "uses lib tr key + (if key \<in> fst ` set (mg_flows (lw_manager w)) then 1 else 0) \<le> starts env lib tr key"
    using event by blast
  show ?case
  proof (cases "admitted_state lib (ev, out) = Some key")
    case True
    then obtain now peer hs raw code flow vals where e: "ev = AdmitEvent now peer hs raw" "out = Some (Exchange code flow)"
      "callback_query lib hs raw = Inr (vals, key)" using admitted_state_SomeD by blast
    obtain m where a: "callback_admit env lib now peer hs raw (lw_auth w) (lw_manager w) = (Exchange code flow, m)"
      and m: "lw_manager w' = m"
      using event.hyps(2) e(1,2) by (auto split: prod.splits callback_progress.splits)
    have "key \<in> fst ` set (mg_flows (lw_manager w))" "key \<notin> fst ` set (mg_flows m)"
      using callback_admit_ExchangeD[OF a] e(3) by force+
    then show ?thesis using IH True m by (simp add: uses_def starts_def e(1))
  next
    case False
    then have u: "uses lib ((ev, out) # tr) key = uses lib tr key" by (simp add: uses_def)
    have le: "starts env lib tr key \<le> starts env lib ((ev, out) # tr) key" by (simp add: starts_def)
    from run_login_store[OF event.hyps(2)] show ?thesis
    proof (elim disjE exE conjE)
      fix P assume "mg_flows (lw_manager w') = filter P (mg_flows (lw_manager w))"
      then have "key \<in> fst ` set (mg_flows (lw_manager w')) \<Longrightarrow> key \<in> fst ` set (mg_flows (lw_manager w))" by auto
      then show ?thesis using IH u le by (auto split: if_splits)
    next
      fix k f now
      assume s: "started_flow_of env lib (ev, out) = Some (k, f)"
        and ins: "mg_flows (lw_manager w') = snd (flow_insert k f now (mg_flows (lw_manager w)))"
      show ?thesis
      proof (cases "k = key")
        case True
        then have "starts env lib ((ev, out) # tr) key = Suc (starts env lib tr key)" using s by (simp add: starts_def)
        then show ?thesis using IH u by (auto split: if_splits)
      next
        case False
        then have "key \<in> fst ` set (mg_flows (lw_manager w')) \<Longrightarrow> key \<in> fst ` set (mg_flows (lw_manager w))"
          using flow_insert_keys[of k f now "mg_flows (lw_manager w)"] ins by auto
        then show ?thesis using IH u le by (auto split: if_splits)
      qed
    qed
  qed
qed

lemma trace_finishes_pending:
  assumes "login_trace env lib w0 tr w" "fresh_world w0"
  shows "length (filter is_finish tr) + length (lw_pending w) = length (filter (\<lambda>e. admitted_state lib e \<noteq> None) tr)"
  using assms
proof (induction rule: login_trace.induct)
  case nothing
  then show ?case by (simp add: fresh_world_def)
next
  case (event tr w ev out w')
  then have IH: "length (filter is_finish tr) + length (lw_pending w) = length (filter (\<lambda>e. admitted_state lib e \<noteq> None) tr)"
    by blast
  show ?case
  proof (cases ev)
    case (AdmitEvent now peer hs raw)
    show ?thesis
    proof (cases "callback_admit env lib now peer hs raw (lw_auth w) (lw_manager w)")
      case (Pair r m)
      show ?thesis
      proof (cases r)
        case (Exchange code flow)
        then obtain vals key where "callback_query lib hs raw = Inr (vals, key)"
          using callback_admit_ExchangeD Pair by blast
        then show ?thesis using event.hyps(2) IH Pair Exchange AdmitEvent by auto
      qed (use event.hyps(2) IH Pair AdmitEvent in auto)
    qed
  qed (use event.hyps(2) IH in \<open>auto split: prod.splits if_splits\<close>)
qed

text \<open>C23: A state is accepted by at most as many callbacks as there were starts with it, so once when the
  states differ, and every accepted callback is answered at most once.\<close>

theorem flow_is_used_once:
  assumes "login_trace env lib w0 tr w" "fresh_world w0"
  shows "uses lib tr key \<le> starts env lib tr key \<and>
    length (filter is_finish tr) \<le> length (filter (\<lambda>e. admitted_state lib e \<noteq> None) tr)"
  using trace_uses_flows[OF assms, of key] trace_finishes_pending[OF assms] by simp

theorem flow_is_used_once_witness:
  "uses example_library [(example_end, Some (Answered example_replied)),
      (example_callback, Some (Exchange ''c'' example_flow)), (example_begin, Some (Answered (Inr example_sent)))] ''k1''
    \<le> starts example_env example_library [(example_end, Some (Answered example_replied)),
      (example_callback, Some (Exchange ''c'' example_flow)), (example_begin, Some (Answered (Inr example_sent)))] ''k1''"
  using flow_is_used_once[OF example_whole_trace example_world_fresh] by blast

text \<open>At no time are there more than 1024 open flows, nor more than 8 of one address.\<close>

theorem login_flows_are_bounded:
  assumes "login_trace env lib w0 tr w" "fresh_world w0"
  shows "length (mg_flows (lw_manager w)) \<le> 1024 \<and>
    length (filter (\<lambda>e. lf_source (snd e) = source) (mg_flows (lw_manager w))) \<le> 8"
  using trace_flows_bounded[OF assms] by (simp add: flows_bounded_def FLOW_CAPACITY_def FLOW_PER_SOURCE_def)

theorem login_flows_are_bounded_witness: "length (mg_flows (lw_manager example_admitted)) \<le> 1024"
  using login_flows_are_bounded[OF example_trace example_world_fresh] by blast

end
