(* ===== verification/Oidc_Identity_Facts.thy ===== *)
theory Oidc_Identity_Facts
  imports Oidc_Facts
begin

text \<open>
  Who a login is, where the browser is sent, how often the provider is asked for, and what a
  change of the policy does to the sessions.
\<close>

section \<open>Identities\<close>

text \<open>
  What must have been checked of the token behind an identity: by the library, or, for a provider
  whose tokens the library cannot parse, here.
\<close>

definition standard_verified ::
  "('k, 't, 's) oidc_library \<Rightarrow> i64 \<Rightarrow> oidc_config \<Rightarrow> 'k provider \<Rightarrow> string \<Rightarrow> 'k verified_identity \<Rightarrow> bool" where
  "standard_verified lib now config provider nonce v \<longleftrightarrow>
     (\<exists>t claims vals. ol_claims lib now config provider t nonce = Some claims \<and>
        standard_access_token_ok lib config provider t claims (vi_access_token v) \<and>
        id_token_values lib t = Inr vals \<and> v = identity_of provider (vi_access_token v) vals claims)"

definition compatible_verified ::
  "('k, 't, 's) oidc_library \<Rightarrow> i64 \<Rightarrow> oidc_config \<Rightarrow> 'k provider \<Rightarrow> string \<Rightarrow> 'k verified_identity \<Rightarrow> bool" where
  "compatible_verified lib now config provider nonce v \<longleftrightarrow>
     (\<exists>header payload signature bytes t alg key claims.
        ol_b64_decode lib payload = Some bytes \<and> unique_object lib bytes = Some (vi_values v) \<and>
        ol_b64_decode lib signature \<noteq> None \<and>
        ol_signing_key lib config provider t = Inr key \<and> alg \<in> set (md_signing_algs (pv_metadata provider)) \<and>
        \<not> ol_shared_secret lib alg \<and>
        ol_verify_signature lib key alg (header @ ''.'' @ payload) (the (ol_b64_decode lib signature)) \<and>
        ol_claims_unverified lib now t nonce = Some claims \<and>
        ic_issuer claims = oc_issuer_url config \<and> set (ic_audiences claims) = {oc_client_id config} \<and>
        ic_authorized_party claims \<in> {None, Some (oc_client_id config)} \<and>
        access_token_ok lib claims (vi_access_token v) alg key \<and>
        v = identity_of provider (vi_access_token v) (vi_values v) claims)"

lemma verify_standard_token_InrD:
  assumes "verify_standard_token lib now config provider access_token t nonce = Inr v"
  shows "standard_verified lib now config provider nonce v"
proof -
  obtain claims vals where c: "ol_claims lib now config provider t nonce = Some claims" "id_token_values lib t = Inr vals"
    "standard_access_token_ok lib config provider t claims access_token" and v: "v = identity_of provider access_token vals claims"
    using assms by (auto simp: verify_standard_token_def result_simps split: if_splits)
  have "vi_access_token v = access_token" by (simp add: v identity_of_def)
  then show ?thesis unfolding standard_verified_def
    by (intro exI[of _ t] exI[of _ claims] exI[of _ vals]) (simp add: c v)
qed

lemma claims_for_client_iff:
  "claims_for_client config claims \<longleftrightarrow> ic_issuer claims = oc_issuer_url config \<and>
     set (ic_audiences claims) = {oc_client_id config} \<and> ic_authorized_party claims \<in> {None, Some (oc_client_id config)}"
proof -
  have "\<not> (xs = [] \<or> list_ex (\<lambda>a. a \<noteq> c) xs) \<longleftrightarrow> set xs = {c}" for xs and c :: string
    by (cases xs) (auto simp: list_ex_iff)
  then show ?thesis by (auto simp: claims_for_client_def constant_time_eq_iff split: option.splits)
qed

lemma compatible_header_InrD:
  "compatible_header lib provider e = Inr h \<Longrightarrow>
     \<not> ol_shared_secret lib (jh_alg h) \<and> jh_alg h \<in> set (md_signing_algs (pv_metadata provider))"
  by (auto simp: compatible_header_def result_simps split: if_splits)

lemma compatible_payload_InrD:
  "compatible_payload lib h p s = Inr (vals, t) \<Longrightarrow> \<exists>bytes. ol_b64_decode lib p = Some bytes \<and> unique_object lib bytes = Some vals"
  by (auto simp: compatible_payload_def result_simps split: if_splits)

lemma compatible_claims_InrD:
  "compatible_claims lib now config token t alg key nonce = Inr claims \<Longrightarrow>
     ol_claims_unverified lib now t nonce = Some claims \<and> claims_for_client config claims \<and>
     access_token_ok lib claims (ct_access_token token) alg key"
  by (auto simp: compatible_claims_def result_simps split: if_splits)

lemma matching_key_InrD: "matching_key r = Inr key \<Longrightarrow> r = Inr key"
  by (auto simp: matching_key_def split: sum.splits key_error.splits)

lemma verify_compatible_id_token_InrD:
  assumes "verify_compatible_id_token lib now config provider token nonce = Inr v"
  shows "compatible_verified lib now config provider nonce v"
proof -
  obtain h p s where sp: "split_char CHR ''.'' (ct_id_token token) = [h, p, s]"
    using assms by (auto simp: verify_compatible_id_token_def split: list.splits)
  obtain jose vals t where h: "compatible_header lib provider h = Inr jose"
    and p: "compatible_payload lib h p s = Inr (vals, t)"
    using assms by (auto simp: verify_compatible_id_token_def sp result_simps split: if_splits)
  obtain key sig claims where k: "matching_key (ol_signing_key lib config provider t) = Inr key"
    and s: "ol_b64_decode lib s = Some sig" "ol_verify_signature lib key (jh_alg jose) (h @ ''.'' @ p) sig"
    and c: "compatible_claims lib now config token t (jh_alg jose) key nonce = Inr claims"
    and v: "v = identity_of provider (ct_access_token token) vals claims"
    using assms by (auto simp: verify_compatible_id_token_def sp h p result_simps split: if_splits)
  note facts = compatible_header_InrD[OF h] compatible_payload_InrD[OF p] matching_key_InrD[OF k]
    compatible_claims_InrD[OF c] claims_for_client_iff[of config claims]
  have vs: "vi_access_token v = ct_access_token token" "vi_values v = vals" by (simp_all add: v identity_of_def)
  obtain bytes where b: "ol_b64_decode lib p = Some bytes" "unique_object lib bytes = Some vals"
    using facts(2) by blast
  show ?thesis unfolding compatible_verified_def vs
    by (rule exI[of _ h], rule exI[of _ p], rule exI[of _ s], rule exI[of _ bytes], rule exI[of _ t],
        rule exI[of _ "jh_alg jose"], rule exI[of _ key], rule exI[of _ claims]) (use facts b s v in simp)
qed

text \<open>The provider that a token was checked with.\<close>

definition current_provider ::
  "('k, 't, 's) oidc_library \<Rightarrow> network \<Rightarrow> oidc_config \<Rightarrow> 'k manager \<Rightarrow> 'k provider \<Rightarrow> bool" where
  "current_provider lib net config m provider \<longleftrightarrow>
     mg_provider m = Some provider \<or> discover_provider lib net config = Some provider"

definition token_verified ::
  "('k, 't, 's) oidc_library \<Rightarrow> network \<Rightarrow> i64 \<Rightarrow> oidc_config \<Rightarrow> 'k manager \<Rightarrow> string \<Rightarrow> 'k verified_identity \<Rightarrow> bool" where
  "token_verified lib net now config m nonce v \<longleftrightarrow> (\<exists>provider. current_provider lib net config m provider \<and>
     (standard_verified lib now config provider nonce v \<or> compatible_verified lib now config provider nonce v))"

lemma refresh_provider_InrD:
  "refresh_provider lib net m = (Inr provider, m1) \<Longrightarrow> mg_config m = Some config \<Longrightarrow> discover_provider lib net config = Some provider"
  by (auto simp: refresh_provider_def split: option.splits if_splits)

lemma verified_token_InrD:
  assumes "verified_token lib net now config provider code flow m = (Inr v, m1)"
    "mg_config m = Some config" "mg_provider m = Some provider"
  shows "token_verified lib net now config m (cw_nonce flow) v"
proof -
  obtain cap tok where ex: "exchange_code lib net config provider code (cw_pkce_verifier flow) = (cap, tok)" by force
  show ?thesis
  proof (cases tok)
    case (Some answer)
    obtain a t where answer: "answer = (a, t)" by force
    have r: "authenticate_standard lib net now config provider a t (cw_nonce flow) m = (Inr v, m1)"
      using assms(1) by (cases cap) (simp_all add: verified_token_def ex Some answer)
    obtain t' p where p: "current_provider lib net config m p" "verify_standard_token lib now config p a t' (cw_nonce flow) = Inr v"
    proof -
      obtain x where x: "t = Some x" using r by (cases t) (simp_all add: authenticate_standard_def)
      show ?thesis
      proof (cases "ol_claims lib now config provider x (cw_nonce flow)")
        case None
        then obtain p where "refresh_provider lib net m = (Inr p, m1)"
          "verify_standard_token lib now config p a x (cw_nonce flow) = Inr v"
          using r by (auto simp: authenticate_standard_def x split: prod.splits sum.splits)
        then show ?thesis using that refresh_provider_InrD assms(2) unfolding current_provider_def by blast
      next
        case (Some c)
        then have "verify_standard_token lib now config provider a x (cw_nonce flow) = Inr v"
          using r by (simp add: authenticate_standard_def x)
        then show ?thesis using that assms(3) unfolding current_provider_def by blast
      qed
    qed
    show ?thesis using p(1) verify_standard_token_InrD[OF p(2)] unfolding token_verified_def by blast
  next
    case None
    obtain response where r: "verify_compatible_token_response lib net now config provider response (cw_nonce flow) m = (Inr v, m1)"
      using assms(1) by (cases cap) (auto simp: verified_token_def ex None)
    obtain token p where p: "current_provider lib net config m p" "verify_compatible_id_token lib now config p token (cw_nonce flow) = Inr v"
    proof -
      obtain x where x: "parse_compatible_token_response lib response = Inr x"
        using r by (cases "parse_compatible_token_response lib response") (simp_all add: verify_compatible_token_response_def)
      show ?thesis
      proof (cases "verify_compatible_id_token lib now config provider x (cw_nonce flow)")
        case (Inl e)
        then obtain p where "refresh_provider lib net m = (Inr p, m1)"
          "verify_compatible_id_token lib now config p x (cw_nonce flow) = Inr v"
          using r by (auto simp: verify_compatible_token_response_def x split: prod.splits sum.splits compatible_token_error.splits)
        then show ?thesis using that refresh_provider_InrD assms(2) unfolding current_provider_def by blast
      next
        case (Inr w)
        then have "verify_compatible_id_token lib now config provider x (cw_nonce flow) = Inr v"
          using r by (simp add: verify_compatible_token_response_def x)
        then show ?thesis using that assms(3) unfolding current_provider_def by blast
      qed
    qed
    show ?thesis using p(1) verify_compatible_id_token_InrD[OF p(2)] unfolding token_verified_def by blast
  qed
qed

text \<open>The groups of an identity, from its token or else from the user info of its subject.\<close>

definition claimed_groups ::
  "('k, 't, 's) oidc_library \<Rightarrow> network \<Rightarrow> oidc_config \<Rightarrow> 'k verified_identity \<Rightarrow> string list \<Rightarrow> bool" where
  "claimed_groups lib net config v groups \<longleftrightarrow>
     group_claim (vi_values v) (oc_groups_claim config) = Inr (Some groups) \<or>
     group_claim (vi_values v) (oc_groups_claim config) = Inr None \<and>
     (\<exists>info. fetch_user_info lib net v = Inr info \<and> group_claim (ui_additional info) (oc_groups_claim config) = Inr (Some groups))"

lemma identity_groups_InrD:
  assumes "identity_groups lib net config v = Inr (groups, u, d)"
  shows "claimed_groups lib net config v groups"
proof -
  obtain claim where c: "group_claim (vi_values v) (oc_groups_claim config) = Inr claim"
    using assms by (auto simp: identity_groups_def result_simps)
  show ?thesis using assms by (cases claim) (auto simp: identity_groups_def claimed_groups_def c result_simps Let_def)
qed

lemma map_role_InrD:
  "map_role groups config = Inr role \<Longrightarrow>
     role = (if oc_admin_group config \<in> set groups then ''admin'' else ''viewer'') \<and>
     (oc_admin_group config \<in> set groups \<or> oc_viewer_group config \<in> set groups)"
  by (auto simp: map_role_def split: if_splits)

lemma finish_identity_InrD:
  assumes "finish_identity lib net config fp v = Inr identity"
  shows "\<exists>groups. claimed_groups lib net config v groups \<and> map_role groups config = Inr (oi_role identity) \<and>
    valid_subject (vi_subject v) \<and> oi_subject identity = vi_subject v \<and> oi_issuer identity = oc_issuer_url config \<and>
    fp = Some (oi_policy_fingerprint identity)"
proof -
  obtain groups u d role f where *: "valid_subject (vi_subject v)" "identity_groups lib net config v = Inr (groups, u, d)"
    "map_role groups config = Inr role" "fp = Some f"
    "identity = \<lparr>oi_issuer = oc_issuer_url config, oi_subject = vi_subject v,
       oi_username = (case u of Some x \<Rightarrow> x | None \<Rightarrow> vi_subject v),
       oi_display_name = (case d of Some x \<Rightarrow> x | None \<Rightarrow> case u of Some x \<Rightarrow> x | None \<Rightarrow> vi_subject v),
       oi_role = role, oi_provider_name = oc_provider_name config, oi_policy_fingerprint = f\<rparr>"
    using assms by (auto simp: finish_identity_def result_simps Let_def split: if_splits)
  show ?thesis using identity_groups_InrD[OF *(2)] * by (intro exI[of _ groups]) simp
qed



section \<open>Discovery\<close>

definition round_succeeds ::
  "('k, 't, 's) oidc_library \<Rightarrow> 'k manager \<Rightarrow> network \<times> bool \<Rightarrow> bool" where
  "round_succeeds lib m r \<longleftrightarrow> discover lib (fst r) (snd r) m \<noteq> None"

text \<open>How many of the rounds failed since the last success, after \<open>n\<close> failures before them.\<close>

definition failures_in_a_row ::
  "('k, 't, 's) oidc_library \<Rightarrow> 'k manager \<Rightarrow> nat \<Rightarrow> (network \<times> bool) list \<Rightarrow> nat" where
  "failures_in_a_row lib m n rounds = foldl (\<lambda>n r. if round_succeeds lib m r then 0 else Suc n) n rounds"

definition backoff :: "nat \<Rightarrow> nat" where
  "backoff n = min (15 * 2 ^ n) 300"

lemma backoff_Suc: "min (backoff n * 2) DISCOVERY_RETRY_MAX = backoff (Suc n)"
  by (simp add: backoff_def DISCOVERY_RETRY_MAX_def min_def)

lemma backoff_0: "DISCOVERY_RETRY_MIN = backoff 0"
  by (simp add: backoff_def DISCOVERY_RETRY_MIN_def)

lemma backoff_bounds: "15 \<le> backoff n \<and> backoff n \<le> 300"
  by (simp add: backoff_def min_def)

lemma round_succeeds_cong:
  "mg_config m = mg_config m' \<Longrightarrow> mg_http m = mg_http m' \<Longrightarrow> round_succeeds lib m = round_succeeds lib m'"
  by (rule ext) (simp add: round_succeeds_def discover_def cong: option.case_cong)

lemma discovery_loop_delays:
  "discovery_loop lib m (backoff n) rounds = (m', delays) \<Longrightarrow>
     length delays = length rounds \<and>
     (\<forall>i < length rounds. delays ! i = (if round_succeeds lib m (rounds ! i) then 300
        else backoff (failures_in_a_row lib m n (take i rounds)))) \<and>
     (rounds \<noteq> [] \<longrightarrow> available m' = round_succeeds lib m (last rounds))"
proof (induction rounds arbitrary: m n delays)
  case Nil
  then show ?case by simp
next
  case (Cons r rounds)
  obtain net permit where rr: "r = (net, permit)" by force
  obtain m1 retry delay where d: "discovery_round lib net permit m (backoff n) = (m1, retry, delay)" using prod_cases3 by blast
  obtain ds where l: "discovery_loop lib m1 retry rounds = (m', ds)" and ds: "delays = delay # ds"
    using Cons.prems by (cases "discovery_loop lib m1 retry rounds") (auto simp: rr d)
  define n1 where "n1 = (if round_succeeds lib m r then 0 else Suc n)"
  have m1: "mg_config m1 = mg_config m" "mg_http m1 = mg_http m"
    using discovery_round_frame(2,3)[of lib net permit m "backoff n"] d by simp_all
  have step: "retry = backoff n1" "delay = (if round_succeeds lib m r then 300 else backoff n)"
    "available m1 = round_succeeds lib m r"
    using d by (auto simp: discovery_round_def round_succeeds_def rr n1_def backoff_0 backoff_Suc DISCOVERY_REFRESH_def
        available_def split: option.splits)
  have cong: "round_succeeds lib m1 = round_succeeds lib m" by (rule round_succeeds_cong) (simp_all add: m1)
  have cong': "failures_in_a_row lib m1 k rs = failures_in_a_row lib m k rs" for k rs
    by (simp add: failures_in_a_row_def cong)
  have IH: "length ds = length rounds"
    "\<forall>i < length rounds. ds ! i = (if round_succeeds lib m (rounds ! i) then 300
       else backoff (failures_in_a_row lib m n1 (take i rounds)))"
    "rounds \<noteq> [] \<longrightarrow> available m' = round_succeeds lib m (last rounds)"
    using Cons.IH[OF l[unfolded step(1)]] by (simp_all add: cong cong')
  have "delays ! i = (if round_succeeds lib m ((r # rounds) ! i) then 300
      else backoff (failures_in_a_row lib m n (take i (r # rounds))))" if "i < length (r # rounds)" for i
  proof (cases i)
    case 0
    then show ?thesis by (simp add: ds step failures_in_a_row_def)
  next
    case (Suc j)
    then show ?thesis using IH(2) that by (simp add: ds failures_in_a_row_def n1_def)
  qed
  moreover have "available m' = round_succeeds lib m (last (r # rounds))"
    using IH(3) step(3) l by (cases rounds) simp_all
  ultimately show ?case using IH(1) ds by simp
qed

text \<open>C26: The pauses of the discovery are between 15 seconds and 5 minutes: 5 minutes after a success, and
  after the n-th failure in a row 15 seconds doubled n - 1 times, up to 5 minutes.  The provider is
  available exactly when the last round found it.\<close>

theorem discovery_backs_off:
  assumes "spawn_discovery lib m rounds = (m', delays)" "mg_config m \<noteq> None"
  shows "length delays = length rounds \<and> (\<forall>d \<in> set delays. 15 \<le> d \<and> d \<le> 300) \<and>
    (\<forall>i < length rounds. delays ! i = (if round_succeeds lib m (rounds ! i) then 300
       else min (15 * 2 ^ failures_in_a_row lib m 0 (take i rounds)) 300)) \<and>
    (rounds \<noteq> [] \<longrightarrow> available m' = round_succeeds lib m (last rounds))"
proof -
  have l: "discovery_loop lib m (backoff 0) rounds = (m', delays)"
    using assms by (simp add: spawn_discovery_def backoff_0)
  note facts = discovery_loop_delays[OF l]
  have "15 \<le> delays ! i \<and> delays ! i \<le> 300" if "i < length delays" for i
    using facts that backoff_bounds by simp
  then have "\<forall>d \<in> set delays. 15 \<le> d \<and> d \<le> 300" unfolding all_set_conv_all_nth by simp
  then show ?thesis using facts by (simp add: backoff_def)
qed

theorem discovery_backs_off_witness:
  "snd (spawn_discovery example_library example_manager [(\<lambda>_. None, True), (\<lambda>_. None, False), (\<lambda>_. None, True)]) ! 2 = 60"
proof -
  let ?rounds = "[(\<lambda>_. None, True), (\<lambda>_. None, False), (\<lambda>_. None, True)] :: (network \<times> bool) list"
  have f: "fetch_oidc_json example_library (\<lambda>_. None) (ol_parse_metadata example_library) u = None" for u
    using example_url[of u] by (auto simp: fetch_oidc_json_def bounded_call_def)
  have "discover_provider example_library (\<lambda>_. None) example_policy = None"
    by (auto simp: discover_provider_def f bind_eq_None_conv)
  then have fail: "\<not> round_succeeds example_library example_manager (\<lambda>_. None, b)" for b
    by (simp add: round_succeeds_def discover_def example_manager_def)
  obtain m' delays where s: "spawn_discovery example_library example_manager ?rounds = (m', delays)" by force
  have "delays ! 2 = min (15 * 2 ^ failures_in_a_row example_library example_manager 0 (take 2 ?rounds)) 300"
    using discovery_backs_off[OF s] fail by (simp add: example_manager_def)
  then show ?thesis using fail by (simp add: s failures_in_a_row_def)
qed

section \<open>Where the browser goes\<close>

text \<open>A path within this origin.\<close>

definition internal_path :: "string \<Rightarrow> bool" where
  "internal_path p \<longleftrightarrow> starts_with p ''/'' \<and> \<not> starts_with p ''//'' \<and> CHR 0x5C \<notin> set p \<and> \<not> has_control p \<and> length p \<le> 2048"

lemma internal_root [simp]: "internal_path ''/''"
  by (simp add: internal_path_def byte_def)

lemma validate_internal_redirect_SomeD: "validate_internal_redirect v = Some p \<Longrightarrow> internal_path p"
  using internal_root by (cases "v = []") (auto simp: validate_internal_redirect_def internal_path_def MAX_REDIRECT_BYTES_def split: if_splits)

lemma start_redirect_SomeD: "start_redirect lib raw = Some p \<Longrightarrow> internal_path p"
  by (auto simp: start_redirect_def bind_eq_Some_conv dest: validate_internal_redirect_SomeD)

text \<open>A reply that ends at the completion page, without the flow cookie.\<close>

definition completes :: "('k, 't, 's) oidc_library \<Rightarrow> oidc_reply \<Rightarrow> bool" where
  "completes lib r \<longleftrightarrow> (\<exists>redirect e. internal_path redirect \<and> or_location r = completion_location lib redirect e) \<and>
     or_cookies r \<noteq> [] \<and> last (or_cookies r) = ''__Host-routerview_oidc_flow=; Path=/; Max-Age=0; Secure; HttpOnly; SameSite=Lax''"

lemma error_response_completes: "error_response lib code redirect = Inr r \<Longrightarrow> internal_path redirect \<Longrightarrow> completes lib r"
  unfolding completes_def
  by (intro conjI exI[of _ redirect] exI[of _ "Some code"])
     (auto simp: error_response_def redirect_response_def result_simps clear_flow_cookie_def split: if_splits)

text \<open>A reply that sends the browser to the provider.\<close>

definition goes_to_provider ::
  "('k, 't, 's) oidc_library \<Rightarrow> 'k manager \<Rightarrow> flow_secrets \<Rightarrow> oidc_reply \<Rightarrow> bool" where
  "goes_to_provider lib m secrets r \<longleftrightarrow> (\<exists>config provider. mg_config m = Some config \<and> mg_provider m = Some provider \<and>
     or_location r = ol_authorize_url lib config provider (fs_state secrets) (fs_nonce secrets) (fs_challenge secrets)
       ([''profile'', ''email''] @ oc_additional_scopes config) \<and>
     or_cookies r = [flow_cookie (fs_state secrets)])"

lemma begin_flow_InrD:
  "begin_flow lib secrets now source redirect m = (Inr flow, m1) \<Longrightarrow> redirect_response (sf_authorization_url flow) (Some (sf_state flow)) = Inr r \<Longrightarrow>
     goes_to_provider lib m secrets r"
  by (auto simp: begin_flow_def Let_def goes_to_provider_def redirect_response_def split: option.splits prod.splits if_splits)

lemma start_reply:
  assumes "start env lib secrets now peer hs raw st m = (Inr r, m1)"
  shows "completes lib r \<or> goes_to_provider lib m secrets r"
proof (cases "start_redirect lib raw")
  case None
  then have "error_response lib ''authentication_failed'' ''/'' = Inr r" using assms by (simp add: start_def)
  then show ?thesis using error_response_completes internal_root by blast
next
  case (Some redirect)
  note ip = start_redirect_SomeD[OF Some]
  have "(\<exists>code. error_response lib code redirect = Inr r) \<or>
    (\<exists>source flow m1. begin_flow lib secrets now source redirect m = (Inr flow, m1) \<and>
       redirect_response (sf_authorization_url flow) (Some (sf_state flow)) = Inr r)"
    using assms unfolding start_def Some option.case
    by (auto split: if_splits sum.splits prod.splits login_error.splits)
  then show ?thesis
  proof (elim disjE exE conjE)
    fix code assume "error_response lib code redirect = Inr r"
    then show ?thesis using error_response_completes[OF _ ip] by blast
  next
    fix source flow m1
    assume b: "begin_flow lib secrets now source redirect m = (Inr flow, m1)"
      and rr: "redirect_response (sf_authorization_url flow) (Some (sf_state flow)) = Inr r"
    show ?thesis using begin_flow_InrD[OF b rr] by blast
  qed
qed

lemma establish_location:
  "establish_oidc_session env inp identity location st = (Inr (cookies, l), st1) \<Longrightarrow> l = location"
  by (auto simp: establish_oidc_session_def Let_def result_simps split: if_splits prod.splits sum.splits)

lemma callback_finish_reply:
  assumes "callback_finish env lib net permit inp code flow st m = (Inr r, st1, m1)" "internal_path (cw_redirect flow)"
  shows "completes lib r"
proof (cases "\<exists>code. error_response lib code (cw_redirect flow) = Inr r")
  case True
  then show ?thesis using error_response_completes[OF _ assms(2)] by blast
next
  case False
  then obtain identity cookies l st2 where e: "establish_oidc_session env inp identity
      (completion_location lib (cw_redirect flow) None) st = (Inr (cookies, l), st2)"
    and r: "r = clear_flow_cookie \<lparr>or_location = l, or_cookies = cookies, or_no_store = False\<rparr>"
    using assms(1) by (auto simp: callback_finish_def split: prod.splits sum.splits)
  show ?thesis using establish_location[OF e] assms(2) by (auto simp: completes_def r clear_flow_cookie_def)
qed

lemma callback_admit_reply:
  assumes "callback_admit env lib now peer hs raw st m = (Answered (Inr r), m1)"
    "\<forall>e \<in> set (mg_flows m). internal_path (lf_redirect (snd e))"
  shows "completes lib r"
proof -
  have "\<exists>code redirect. error_response lib code redirect = Inr r \<and> internal_path redirect"
  proof (cases "\<exists>code. error_response lib code ''/'' = Inr r")
    case True
    then show ?thesis using internal_root by blast
  next
    case False
    then obtain vals key source flow m2 code where c: "consume_flow key source now m = (Some flow, m2)"
      and r: "error_response lib code (cw_redirect flow) = Inr r"
      using assms(1) by (auto simp: callback_admit_def split: sum.splits prod.splits option.splits)
    obtain f fs where f: "flow_consume key source now (mg_flows m) = (f, fs)" by force
    obtain g where g: "f = Some g" "cw_redirect flow = lf_redirect g"
      using c by (auto simp: consume_flow_def f)
    show ?thesis using flow_consume_SomeD(1)[OF f[unfolded g(1)]] assms(2) r g(2) by force
  qed
  then show ?thesis using error_response_completes by blast
qed

lemma started_flow_internal: "started_flow_of env lib s = Some (key, f) \<Longrightarrow> internal_path (lf_redirect f)"
  by (cases "(env, lib, s)" rule: started_flow_of.cases)
     (auto simp: flow_for_def dest: start_redirect_SomeD split: option.splits sum.splits)

lemma admitted_internal: "admitted env lib tr code flow \<Longrightarrow> internal_path (cw_redirect flow)"
  by (auto simp: admitted_def admitted_by_def dest: started_flow_internal)

text \<open>C24: In any history every redirection of the two handlers leads to the completion page with a path
  within this origin and removes the flow cookie, or is the answer to a start and leads to the
  authorization page of the configured provider with the cookie of the new flow.\<close>

theorem redirects_stay_internal:
  assumes "login_trace env lib w0 tr w" "fresh_world w0" "run_login env lib ev w = (Some (Answered (Inr r)), w')"
  shows "completes lib r \<or> (\<exists>secrets now peer hs raw. ev = StartEvent secrets now peer hs raw \<and>
    goes_to_provider lib (lw_manager w) secrets r)"
proof (cases ev)
  case (StartEvent secrets now peer hs raw)
  then show ?thesis using assms(3) by (auto split: prod.splits dest: start_reply)
next
  case (AdmitEvent now peer hs raw)
  have "\<forall>e \<in> set (mg_flows (lw_manager w)). internal_path (lf_redirect (snd e))"
    using trace_flows_started[OF assms(1,2)] started_flow_internal by fastforce
  then show ?thesis using assms(3)
    by (auto simp: AdmitEvent split: prod.splits callback_progress.splits dest: callback_admit_reply)
next
  case (FinishEvent i net permit inp)
  then have i: "i < length (lw_pending w)" using assms(3) by (auto split: if_splits)
  obtain code flow where p: "lw_pending w ! i = (code, flow)" by force
  have "(code, flow) \<in> set (lw_pending w)" using i p by (metis nth_mem)
  then have "internal_path (cw_redirect flow)"
    by (rule admitted_internal[OF trace_pending_admitted[OF assms(1,2)]])
  then show ?thesis using assms(3) i p by (auto simp: FinishEvent split: prod.splits dest: callback_finish_reply)
qed (use assms(3) in auto)

theorem redirects_stay_internal_witness:
  "completes example_library example_sent \<or> (\<exists>secrets now peer hs raw. example_begin = StartEvent secrets now peer hs raw \<and>
    goes_to_provider example_library (lw_manager example_world) secrets example_sent)"
  by (rule redirects_stay_internal[OF login_trace.nothing example_world_fresh example_start_step])

section \<open>The policy of a session\<close>

lemma zero_terminated_inj:
  "CHR 0x00 \<notin> set a \<Longrightarrow> CHR 0x00 \<notin> set b \<Longrightarrow> a @ CHR 0x00 # s = b @ CHR 0x00 # t \<longleftrightarrow> a = b \<and> s = t"
proof (induction a arbitrary: b)
  case Nil
  then show ?case by (cases b) auto
next
  case (Cons c a)
  then show ?case by (cases b) auto
qed

lemma no_control_no_zero: "\<not> has_control s \<Longrightarrow> CHR 0x00 \<notin> set s"
  by (induction s) (auto simp: byte_def)

text \<open>The part of the configuration that decides who may do what.\<close>

definition login_policy :: "oidc_config \<Rightarrow> string list" where
  "login_policy c = [oc_issuer_url c, oc_client_id c, oc_groups_claim c, oc_viewer_group c, oc_admin_group c]"

lemma policy_text_inj:
  assumes "\<forall>v \<in> set (login_policy c). \<not> has_control v" "\<forall>v \<in> set (login_policy d). \<not> has_control v"
  shows "policy_text c = policy_text d \<longleftrightarrow> login_policy c = login_policy d"
proof -
  have "\<forall>v \<in> set (login_policy c). CHR 0x00 \<notin> set v" "\<forall>v \<in> set (login_policy d). CHR 0x00 \<notin> set v"
    using assms no_control_no_zero by blast+
  then show ?thesis by (simp add: policy_text_def login_policy_def zero_terminated_inj)
qed

text \<open>C25: A session that was established under one policy is valid under another exactly when the two agree
  in issuer, client, groups claim and both groups, provided that the digests of the two policies
  do not collide and the texts hold no control character, as the configuration requires.\<close>

theorem policy_change_ends_logins:
  assumes "\<forall>v \<in> set (login_policy c). \<not> has_control v" "\<forall>v \<in> set (login_policy d). \<not> has_control v"
    "ol_sha256 lib (policy_text c) = ol_sha256 lib (policy_text d) \<Longrightarrow> policy_text c = policy_text d"
    "new_manager lib builds (Some c) = Inr m" "mg_config m' = mg_config m" "mg_policy_fingerprint m' = mg_policy_fingerprint m"
    "authenticate lib net now permit code flow m' = (Inr identity, m'')"
    "ae_policy_fingerprint env = Some (policy_fingerprint lib d)"
  shows "session_policy_valid env (as_auth_method (oidc_session env' inp identity))
      (as_oidc_policy_fingerprint (oidc_session env' inp identity)) \<longleftrightarrow> login_policy c = login_policy d"
proof -
  have "mg_policy_fingerprint m = Some (policy_fingerprint lib c)"
    using assms(4) by (auto simp: new_manager_def split: if_splits)
  moreover obtain config provider v m1 where "verified_token lib net now config provider code flow m' = (Inr v, m1)"
    "finish_identity lib net config (mg_policy_fingerprint m') v = Inr identity"
    using assms(7) by (auto simp: authenticate_def split: option.splits if_splits prod.splits sum.splits)
  ultimately have "oi_policy_fingerprint identity = policy_fingerprint lib c"
    using finish_identity_InrD[of lib net config "mg_policy_fingerprint m'" v identity] assms(6) by auto
  then have "session_policy_valid env (as_auth_method (oidc_session env' inp identity))
      (as_oidc_policy_fingerprint (oidc_session env' inp identity)) \<longleftrightarrow> policy_fingerprint lib d = policy_fingerprint lib c"
    by (simp add: oidc_session_def session_policy_valid_def assms(8))
  then show ?thesis using policy_text_inj[OF assms(1,2)] assms(3) by (auto simp: policy_fingerprint_def)
qed

theorem policy_change_ends_logins_witness:
  "\<not> session_policy_valid (example_env\<lparr>ae_policy_fingerprint := Some (policy_fingerprint example_library
        (example_policy\<lparr>oc_admin_group := ''b''\<rparr>))\<rparr>)
      (as_auth_method (oidc_session example_env example_inputs example_identity))
      (as_oidc_policy_fingerprint (oidc_session example_env example_inputs example_identity))"
proof -
  let ?d = "example_policy\<lparr>oc_admin_group := ''b''\<rparr>"
  have n: "new_manager example_library True (Some example_policy) = Inr (example_manager\<lparr>mg_provider := None\<rparr>)"
    using example_url by (auto simp: new_manager_def example_manager_def example_policy_def)
  show ?thesis
    using policy_change_ends_logins[of example_policy ?d example_library True "example_manager\<lparr>mg_provider := None\<rparr>"
        example_manager example_network 500 True "''c''" example_flow example_identity example_manager
        "example_env\<lparr>ae_policy_fingerprint := Some (policy_fingerprint example_library ?d)\<rparr>"
        example_env example_inputs, OF _ _ _ n _ _ example_authenticate]
    by (simp add: login_policy_def example_policy_def byte_def)
qed

end
