(* ===== verification/Traffic_Api.thy ===== *)
theory Traffic_Api
  imports Traffic_Query_Facts Exact_Persistence Env_Config
begin

text \<open>
  The history route (\<open>api/traffic.rs\<close>): the checks of a request, the query in a task of its own that
  races the deadline and the shutdown of the server, and the answer with byte counts as text.
\<close>

section \<open>Requests and answers\<close>

definition DEFAULT_MAX_POINTS :: nat where "DEFAULT_MAX_POINTS = 1200"
definition MAX_POINTS :: nat where "MAX_POINTS = 5000"
definition MAX_RANGE_MS :: i64 where "MAX_RANGE_MS = 90 * 86400 * 1000"
definition TRAFFIC_QUERY_DEADLINE_SECS :: nat where "TRAFFIC_QUERY_DEADLINE_SECS = 10"

record traffic_query_params =
  qp_start :: i64
  qp_end :: i64
  qp_wan_name :: "string option"
  qp_interface_id :: "string option"
  qp_max_points :: nat

text \<open>A missing \<open>max_points\<close> has its default.\<close>

definition params_of :: "i64 \<Rightarrow> i64 \<Rightarrow> string option \<Rightarrow> string option \<Rightarrow> nat option \<Rightarrow> traffic_query_params" where
  "params_of start_ms end_ms wan_name interface_id max_points = \<lparr>qp_start = start_ms, qp_end = end_ms,
     qp_wan_name = wan_name, qp_interface_id = interface_id,
     qp_max_points = unwrap_or DEFAULT_MAX_POINTS max_points\<rparr>"

record router_metadata_response =
  rm_id :: string
  rm_hardware_identity :: "string option"
  rm_fallback_target :: string
  rm_identity_source :: string
  rm_first_seen_at_ms :: i64
  rm_last_seen_at_ms :: i64

record interface_metadata_response =
  im_id :: string
  im_name :: string
  im_kind :: string
  im_hardware_id :: "string option"
  im_aggregate :: bool
  im_first_seen_at_ms :: i64
  im_last_seen_at_ms :: i64

record traffic_point_response =
  tp_timestamp_ms :: i64
  tp_started_at_ms :: i64
  tp_ended_at_ms :: i64
  tp_duration_ms :: i64
  tp_download_bps :: f64
  tp_upload_bps :: f64
  tp_download_bytes :: string
  tp_upload_bytes :: string
  tp_exact_download_bytes :: string
  tp_exact_upload_bytes :: string
  tp_estimated_download_bytes :: string
  tp_estimated_upload_bytes :: string
  tp_exact_duration_ms :: i64
  tp_estimated_duration_ms :: i64
  tp_sample_count :: i64
  tp_estimated :: bool
  tp_complete :: bool
  tp_wan_name :: "string option"

record traffic_totals_response =
  tx_download_bytes :: string
  tx_upload_bytes :: string
  tx_exact_download_bytes :: string
  tx_exact_upload_bytes :: string
  tx_estimated_download_bytes :: string
  tx_estimated_upload_bytes :: string
  tx_estimated :: bool
  tx_complete :: bool
  tx_coverage_ratio :: f64

record traffic_response =
  ts_schema_version :: nat
  ts_router :: router_metadata_response
  ts_interface :: interface_metadata_response
  ts_wan_interfaces :: "interface_metadata_response list"
  ts_wan_names :: "string list"
  ts_points :: "traffic_point_response list"
  ts_totals :: traffic_totals_response
  ts_coverage :: traffic_coverage
  ts_bucket_size_ms :: i64
  ts_interval_secs :: nat

section \<open>Errors\<close>

definition traffic_not_found :: "string \<Rightarrow> app_error" where
  "traffic_not_found message = InvalidRequest 404 ''traffic_history_not_found'' message"

definition traffic_query_unavailable :: app_error where
  "traffic_query_unavailable = InvalidRequest 503 ''traffic_query_cancelled''
     ''Traffic query was cancelled because the server is shutting down''"

definition traffic_query_timed_out :: app_error where
  "traffic_query_timed_out = InvalidRequest 504 ''traffic_query_timeout''
     (''Traffic query exceeded the '' @ show_nat TRAFFIC_QUERY_DEADLINE_SECS @ '' second processing limit'')"

definition map_database_error :: "db_error \<Rightarrow> app_error" where
  "map_database_error e = (case e of
      Sqlite \<Rightarrow> Database SqliteFailure
    | SqliteCorrupt \<Rightarrow> Database SqliteFailure
    | InvalidCommand message \<Rightarrow> InvalidData message
    | TrafficQueryTooLarge n \<Rightarrow> InvalidRequest 422 ''traffic_query_too_large''
        (''Traffic query matches more than '' @ show_nat n @
         '' source rows; request a narrower time range or wait for traffic rollup'')
    | TrafficQueryCancelled \<Rightarrow> traffic_query_unavailable
    | TrafficQueryTimedOut \<Rightarrow> traffic_query_timed_out
    | other \<Rightarrow> Internal (display_db_error other))"

section \<open>The answer\<close>

definition add_decimal_bytes :: "string \<Rightarrow> string \<Rightarrow> app_error + string" where
  "add_decimal_bytes left right =
     and_then (ok_or (Internal ''database returned an invalid byte total'') (parse_unsigned (2 ^ 128) left)) (\<lambda>l.
     and_then (ok_or (Internal ''database returned an invalid byte total'') (parse_unsigned (2 ^ 128) right)) (\<lambda>r.
     if l + r < 2 ^ 128 then Inr (show_nat (l + r)) else Inl (Internal ''traffic byte total overflowed'')))"

definition interface_metadata :: "router_interface_record \<Rightarrow> interface_metadata_response" where
  "interface_metadata i = \<lparr>im_id = ri_interface_key i, im_name = ri_name i, im_kind = ri_kind i,
     im_hardware_id = ri_hardware_id i, im_aggregate = (ri_kind i = ''aggregate''),
     im_first_seen_at_ms = ri_first_seen_at_ms i, im_last_seen_at_ms = ri_last_seen_at_ms i\<rparr>"

definition totals_response :: "traffic_totals \<Rightarrow> traffic_coverage \<Rightarrow> traffic_totals_response" where
  "totals_response t c = \<lparr>tx_download_bytes = tt_download_bytes t, tx_upload_bytes = tt_upload_bytes t,
     tx_exact_download_bytes = tt_exact_download_bytes t, tx_exact_upload_bytes = tt_exact_upload_bytes t,
     tx_estimated_download_bytes = tt_estimated_download_bytes t, tx_estimated_upload_bytes = tt_estimated_upload_bytes t,
     tx_estimated = (0 < tc_estimated_duration_ms c \<or> tt_estimated_download_bytes t \<noteq> ''0''
       \<or> tt_estimated_upload_bytes t \<noteq> ''0''),
     tx_complete = (tc_covered_duration_ms c = tc_requested_duration_ms c),
     tx_coverage_ratio = tc_completeness c\<rparr>"

definition point_response :: "traffic_bucket \<Rightarrow> string option \<Rightarrow> app_error + traffic_point_response" where
  "point_response p wan_name =
     and_then (add_decimal_bytes (tb_exact_download_bytes p) (tb_estimated_download_bytes p)) (\<lambda>download.
     and_then (add_decimal_bytes (tb_exact_upload_bytes p) (tb_estimated_upload_bytes p)) (\<lambda>upload.
     let duration = sat_add (tb_exact_duration_ms p) (tb_estimated_duration_ms p);
         bucket_duration = sat_sub (tb_ended_at_ms p) (tb_started_at_ms p) in
     Inr \<lparr>tp_timestamp_ms = tb_started_at_ms p, tp_started_at_ms = tb_started_at_ms p,
       tp_ended_at_ms = tb_ended_at_ms p, tp_duration_ms = duration,
       tp_download_bps = tb_download_bps p, tp_upload_bps = tb_upload_bps p,
       tp_download_bytes = download, tp_upload_bytes = upload,
       tp_exact_download_bytes = tb_exact_download_bytes p, tp_exact_upload_bytes = tb_exact_upload_bytes p,
       tp_estimated_download_bytes = tb_estimated_download_bytes p,
       tp_estimated_upload_bytes = tb_estimated_upload_bytes p,
       tp_exact_duration_ms = tb_exact_duration_ms p, tp_estimated_duration_ms = tb_estimated_duration_ms p,
       tp_sample_count = tb_sample_count p,
       tp_estimated = (0 < tb_estimated_duration_ms p \<or> tb_estimated_download_bytes p \<noteq> ''0''
         \<or> tb_estimated_upload_bytes p \<noteq> ''0''),
       tp_complete = (duration = bucket_duration), tp_wan_name = wan_name\<rparr>))"

fun point_responses :: "traffic_bucket list \<Rightarrow> string option \<Rightarrow> app_error + traffic_point_response list" where
  "point_responses [] wan_name = Inr []"
| "point_responses (p # ps) wan_name =
     and_then (point_response p wan_name) (\<lambda>r. and_then (point_responses ps wan_name) (\<lambda>rs. Inr (r # rs)))"

definition build_traffic_response ::
  "router_record \<Rightarrow> router_interface_record \<Rightarrow> router_interface_record list \<Rightarrow> traffic_query_result \<Rightarrow>
   app_error + traffic_response" where
  "build_traffic_response router iface wan_interfaces result =
     (let selected_wan_name = (if ri_kind iface \<noteq> ''aggregate'' then Some (ri_name iface) else None);
          seconds = sat_add (tr_bucket_size_ms result) 999 div 1000 in
      and_then (point_responses (tr_points result) selected_wan_name) (\<lambda>points.
      if \<not> (0 \<le> seconds \<and> seconds < 2 ^ 32) then Inl (Internal ''traffic bucket size exceeds API limits'')
      else Inr \<lparr>ts_schema_version = 4,
        ts_router = \<lparr>rm_id = rr_internal_uuid router, rm_hardware_identity = rr_hardware_identity router,
          rm_fallback_target = rr_fallback_target router, rm_identity_source = rr_identity_source router,
          rm_first_seen_at_ms = rr_first_seen_at_ms router, rm_last_seen_at_ms = rr_last_seen_at_ms router\<rparr>,
        ts_interface = interface_metadata iface,
        ts_wan_interfaces = map interface_metadata wan_interfaces,
        ts_wan_names = remdups_adj (sort (map ri_name wan_interfaces)),
        ts_points = points,
        ts_totals = totals_response (tr_totals result) (tr_coverage result),
        ts_coverage = tr_coverage result,
        ts_bucket_size_ms = tr_bucket_size_ms result,
        ts_interval_secs = max (nat seconds) 1\<rparr>))"

section \<open>The handler\<close>

definition selector_of :: "string option \<Rightarrow> string option \<Rightarrow> traffic_interface_selector" where
  "selector_of interface_id wan_name = (case interface_id of
      Some i \<Rightarrow> InterfaceKey i
    | None \<Rightarrow> (case wan_name of Some w \<Rightarrow> WanName w | None \<Rightarrow> Aggregate))"

text \<open>The selector of a valid request.\<close>

definition validate_params :: "traffic_query_params \<Rightarrow> app_error + string option \<times> string option" where
  "validate_params p =
     and_then (ok_or (InvalidData ''traffic time range cannot be represented'') (checked_i64 (qp_end p - qp_start p))) (\<lambda>range_ms.
     if range_ms \<le> 0 then Inl (InvalidData ''end must be greater than start'')
     else if MAX_RANGE_MS < range_ms then Inl (InvalidData ''time range exceeds 90 days'')
     else if \<not> (1 \<le> qp_max_points p \<and> qp_max_points p \<le> MAX_POINTS)
     then Inl (InvalidData (''max_points must be between 1 and '' @ show_nat MAX_POINTS))
     else let wan_name = map_option trim (qp_wan_name p); interface_id = map_option trim (qp_interface_id p);
              bad = (\<lambda>v. case v of None \<Rightarrow> False | Some s \<Rightarrow> s = [] \<or> 255 < length s) in
       if wan_name \<noteq> None \<and> interface_id \<noteq> None
       then Inl (InvalidData ''wan_name and interface_id cannot be combined'')
       else if bad wan_name then Inl (InvalidData ''wan_name must contain between 1 and 255 characters'')
       else if bad interface_id then Inl (InvalidData ''interface_id must contain between 1 and 255 characters'')
       else Inr (interface_id, wan_name))"

definition quote_name :: "string \<Rightarrow> string" where
  "quote_name s = CHR 0x27 # s @ [CHR 0x27]"

definition interface_not_found :: "string option \<Rightarrow> string option \<Rightarrow> app_error" where
  "interface_not_found interface_id wan_name = traffic_not_found (case interface_id of
      Some i \<Rightarrow> ''interface '' @ quote_name i @ '' has no traffic history''
    | None \<Rightarrow> (case wan_name of
        Some w \<Rightarrow> ''WAN interface '' @ quote_name w @ '' has no traffic history''
      | None \<Rightarrow> ''aggregate traffic history has not been initialized''))"

text \<open>The blocking task, with what its three looks at the cancellation see.\<close>

definition query_task ::
  "traffic_db \<Rightarrow> string \<Rightarrow> string option \<Rightarrow> string option \<Rightarrow> traffic_query_params \<Rightarrow>
   db_error option \<Rightarrow> db_error option \<Rightarrow> db_error option \<Rightarrow> app_error + traffic_response" where
  "query_task db fallback_target interface_id wan_name p at_start at_connection at_end =
     (case query_traffic_history_cancellable db
         \<lparr>hr_fallback_target = fallback_target, hr_selector = selector_of interface_id wan_name,
          hr_from_ms = qp_start p, hr_to_ms = qp_end p, hr_max_points = qp_max_points p\<rparr>
         at_start at_connection at_end of
        Inl e \<Rightarrow> Inl (map_database_error e)
      | Inr RouterNotFound \<Rightarrow> Inl (traffic_not_found ''traffic history has not been initialized'')
      | Inr InterfaceNotFound \<Rightarrow> Inl (interface_not_found interface_id wan_name)
      | Inr (Found router iface wan_interfaces result) \<Rightarrow> build_traffic_response router iface wan_interfaces result)"

text \<open>The guard that tells the task when its answer is no longer wanted.\<close>

record cancellation_guard =
  cg_cancelled :: bool
  cg_armed :: bool

definition new_guard :: cancellation_guard where
  "new_guard = \<lparr>cg_cancelled = False, cg_armed = True\<rparr>"

definition guard_cancel :: "cancellation_guard \<Rightarrow> cancellation_guard" where
  "guard_cancel g = g\<lparr>cg_cancelled := True, cg_armed := False\<rparr>"

definition guard_disarm :: "cancellation_guard \<Rightarrow> cancellation_guard" where
  "guard_disarm g = g\<lparr>cg_armed := False\<rparr>"

definition guard_drop :: "cancellation_guard \<Rightarrow> cancellation_guard" where
  "guard_drop g = (if cg_armed g then g\<lparr>cg_cancelled := True\<rparr> else g)"

text \<open>What ends the wait: the task, the shutdown, the deadline, or a client that goes away.\<close>

datatype query_race =
    TaskEnds "db_error option" "db_error option" "db_error option"
  | ShutdownFirst
  | DeadlineFirst
  | ClientGone

definition query_traffic ::
  "traffic_db \<Rightarrow> string \<Rightarrow> bool \<Rightarrow> query_race \<Rightarrow> traffic_query_params \<Rightarrow>
   (app_error + traffic_response) option \<times> cancellation_guard option" where
  "query_traffic db router_host permit race p = (case validate_params p of
      Inl e \<Rightarrow> (Some (Inl e), None)
    | Inr (interface_id, wan_name) \<Rightarrow>
        if \<not> permit then (Some (Inl (RateLimited 1)), None)
        else (case race of
            TaskEnds s c e \<Rightarrow> (Some (query_task db router_host interface_id wan_name p s c e),
              Some (guard_drop (guard_disarm new_guard)))
          | ShutdownFirst \<Rightarrow> (Some (Inl traffic_query_unavailable), Some (guard_drop (guard_cancel new_guard)))
          | DeadlineFirst \<Rightarrow> (Some (Inl traffic_query_timed_out), Some (guard_drop (guard_cancel new_guard)))
          | ClientGone \<Rightarrow> (None, Some (guard_drop new_guard))))"

section \<open>What an answer says\<close>

lemma parse_unsigned_show_intD: "parse_unsigned limit (show_int z) = Some n \<Longrightarrow> z = int n"
proof (cases "z < 0")
  case True
  assume a: "parse_unsigned limit (show_int z) = Some n"
  have "show_int z = CHR ''-'' # show_nat (nat (- z))" using True by (simp add: show_int_def)
  then have "parse_unsigned limit (show_int z) = None" by (simp add: parse_unsigned_def parse_nat_def is_ascii_digit_def)
  then show ?thesis using a by simp
next
  case False
  assume a: "parse_unsigned limit (show_int z) = Some n"
  obtain c r where s: "show_nat (nat z) = c # r" by (meson show_nat_nonempty neq_Nil_conv)
  then have "c \<noteq> CHR ''+''" using show_nat_hd_digit[of "nat z"] by (auto simp: is_ascii_digit_def)
  then have "nat z = n" using a s parse_show_nat[of "nat z"] False
    by (simp add: parse_unsigned_def show_int_def split: if_splits)
  then show ?thesis using False by simp
qed

lemma add_decimal_bytes_show:
  assumes "add_decimal_bytes (show_int a) (show_int b) = Inr s"
  shows "parse_int s = Some (a + b)"
proof -
  obtain l r where lr: "parse_unsigned (2 ^ 128) (show_int a) = Some l" "parse_unsigned (2 ^ 128) (show_int b) = Some r"
    "s = show_nat (l + r)"
    using assms by (auto simp: add_decimal_bytes_def result_simps split: if_splits)
  have "a = int l" "b = int r" using parse_unsigned_show_intD lr(1,2) by blast+
  moreover have "s = show_int (int (l + r))" by (simp add: lr(3) show_int_def)
  ultimately show ?thesis by (simp only: parse_show_int) simp
qed

lemma point_response_InrD:
  assumes "point_response (bucket_point q w e) n = Inr r"
  shows "the (parse_int (tp_download_bytes r)) = ba_download (snd e)" "the (parse_int (tp_upload_bytes r)) = ba_upload (snd e)"
proof -
  obtain d u where d: "add_decimal_bytes (tb_exact_download_bytes (bucket_point q w e)) (tb_estimated_download_bytes (bucket_point q w e)) = Inr d"
    and u: "add_decimal_bytes (tb_exact_upload_bytes (bucket_point q w e)) (tb_estimated_upload_bytes (bucket_point q w e)) = Inr u"
    and r: "tp_download_bytes r = d" "tp_upload_bytes r = u"
    using assms by (auto simp: point_response_def result_simps Let_def)
  show "the (parse_int (tp_download_bytes r)) = ba_download (snd e)"
    using add_decimal_bytes_show d r by (cases e) (simp add: bucket_point_def Let_def ba_download_def)
  show "the (parse_int (tp_upload_bytes r)) = ba_upload (snd e)"
    using add_decimal_bytes_show u r by (cases e) (simp add: bucket_point_def Let_def ba_upload_def)
qed

lemma point_responses_InrD:
  "point_responses (map (bucket_point q w) bs) n = Inr rs \<Longrightarrow>
     (\<Sum>r\<leftarrow>rs. the (parse_int (tp_download_bytes r))) = bucket_sum ba_download bs \<and>
     (\<Sum>r\<leftarrow>rs. the (parse_int (tp_upload_bytes r))) = bucket_sum ba_upload bs \<and> length rs = length bs"
proof (induction bs arbitrary: rs)
  case Nil
  then show ?case by (simp add: bucket_sum_def)
next
  case (Cons e bs)
  then obtain r rs' where r: "point_response (bucket_point q w e) n = Inr r" "point_responses (map (bucket_point q w) bs) n = Inr rs'"
    "rs = r # rs'" by (auto simp: result_simps)
  show ?case using Cons.IH[OF r(2)] point_response_InrD[OF r(1)] by (simp add: r(3) bucket_sum_def split_def)
qed

lemma point_durations:
  "point_responses ps n = Inr rs \<Longrightarrow>
     (\<Sum>r\<leftarrow>rs. tp_exact_duration_ms r + tp_estimated_duration_ms r) = (\<Sum>p\<leftarrow>ps. tb_exact_duration_ms p + tb_estimated_duration_ms p)"
proof (induction ps arbitrary: rs)
  case (Cons p ps)
  then obtain r rs' where r: "point_response p n = Inr r" "point_responses ps n = Inr rs'" "rs = r # rs'"
    by (auto simp: result_simps)
  have "tp_exact_duration_ms r = tb_exact_duration_ms p" "tp_estimated_duration_ms r = tb_estimated_duration_ms p"
    using r(1) by (auto simp: point_response_def result_simps Let_def)
  then show ?case using Cons.IH[OF r(2)] by (simp add: r(3))
qed simp

text \<open>An answer comes from the query of one interface of the history.\<close>

lemma query_task_InrD:
  assumes "query_task db host iid wan p s c e = Inr r"
  shows "\<exists>router iface wans q result. query_traffic_v4 db q = Inr result \<and>
    tq_from_ms q = qp_start p \<and> tq_to_ms q = qp_end p \<and> tq_max_points q = qp_max_points p \<and>
    select_interface db (rr_id router) (selector_of iid wan) = Some iface \<and>
    build_traffic_response router iface wans result = Inr r"
proof -
  let ?req = "\<lparr>hr_fallback_target = host, hr_selector = selector_of iid wan, hr_from_ms = qp_start p, hr_to_ms = qp_end p,
    hr_max_points = qp_max_points p\<rparr>"
  obtain router iface wans result where
    f: "query_traffic_history_cancellable db ?req s c e = Inr (Found router iface wans result)"
    and b: "build_traffic_response router iface wans result = Inr r"
    using assms by (auto simp: query_task_def split: sum.splits traffic_history_lookup.splits)
  have v: "validate_traffic_query \<lparr>tq_router_id = 0, tq_interface_id = 0, tq_from_ms = qp_start p, tq_to_ms = qp_end p,
      tq_max_points = qp_max_points p\<rparr> MAX_TRAFFIC_SOURCE_ROWS = Inr ()"
    and h: "query_traffic_history db ?req = Inr (Found router iface wans result)"
    using f by (auto simp: query_traffic_history_cancellable_def with_traffic_read_snapshot_def result_simps split: option.splits)
  let ?q = "\<lparr>tq_router_id = rr_id router, tq_interface_id = ri_id iface, tq_from_ms = qp_start p, tq_to_ms = qp_end p,
      tq_max_points = qp_max_points p\<rparr>"
  have q: "query_traffic_v4_on_connection db ?q MAX_TRAFFIC_SOURCE_ROWS = Inr result"
    and sel: "select_interface db (rr_id router) (selector_of iid wan) = Some iface"
    using h by (auto simp: query_traffic_history_def result_simps split: option.splits)
  have "query_traffic_v4 db ?q = Inr result"
    using v q by (simp add: query_traffic_v4_def with_traffic_read_snapshot_def validate_traffic_query_def split: if_splits)
  then show ?thesis using sel b by (intro exI[of _ router] exI[of _ iface] exI[of _ wans] exI[of _ ?q] exI[of _ result]) simp
qed

lemma build_traffic_response_InrD:
  assumes "build_traffic_response router iface wans result = Inr r"
  shows "\<exists>n. point_responses (tr_points result) n = Inr (ts_points r)" "ts_interface r = interface_metadata iface"
    "ts_totals r = totals_response (tr_totals result) (tr_coverage result)" "ts_coverage r = tr_coverage result"
  using assms by (auto simp: build_traffic_response_def Let_def result_simps split: if_splits)

definition requested_interface :: "traffic_query_params \<Rightarrow> interface_metadata_response \<Rightarrow> bool" where
  "requested_interface p i \<longleftrightarrow> (case (qp_interface_id p, qp_wan_name p) of
      (Some k, None) \<Rightarrow> im_id i = trim k
    | (None, Some w) \<Rightarrow> im_name i = trim w \<and> \<not> im_aggregate i
    | (None, None) \<Rightarrow> im_aggregate i
    | (Some k, Some w) \<Rightarrow> False)"

lemma max_on_in_set: "max_on f xs = Some x \<Longrightarrow> x \<in> set xs"
  by (induction xs arbitrary: x) (auto split: option.splits if_splits)

lemma select_interface_requested:
  assumes "validate_params p = Inr (iid, wan)" "select_interface db r (selector_of iid wan) = Some iface"
  shows "requested_interface p (interface_metadata iface)"
proof -
  have *: "iid = map_option trim (qp_interface_id p)" "wan = map_option trim (qp_wan_name p)" "iid = None \<or> wan = None"
    using assms(1) by (auto simp: validate_params_def result_simps Let_def split: if_splits)
  show ?thesis
  proof (cases "qp_interface_id p")
    case (Some k)
    then show ?thesis using assms(2) * by (auto simp: requested_interface_def selector_of_def select_interface_def
      interface_by_key_def find_Some_iff interface_metadata_def split: option.splits)
  next
    case None
    show ?thesis
    proof (cases "qp_wan_name p")
      case (Some w)
      then have "iface \<in> set (filter (\<lambda>x. ri_router_id x = r \<and> ri_name x = trim w \<and> ri_kind x \<noteq> ''aggregate'') (router_interfaces db))"
        using assms(2) * None by (auto simp: selector_of_def select_interface_def traffic_interface_for_query_def dest!: max_on_in_set)
      then show ?thesis using None Some by (simp add: requested_interface_def interface_metadata_def)
    next
      case None': None
      then have "iface \<in> set (filter (\<lambda>x. ri_router_id x = r \<and> ri_kind x = ''aggregate'') (router_interfaces db))"
        using assms(2) * None by (auto simp: selector_of_def select_interface_def traffic_interface_for_query_def dest!: max_on_in_set)
      then show ?thesis using None None' by (simp add: requested_interface_def interface_metadata_def)
    qed
  qed
qed


definition example_params :: traffic_query_params where
  "example_params = \<lparr>qp_start = 1500, qp_end = 3000, qp_wan_name = Some ''ether1'', qp_interface_id = None, qp_max_points = 2\<rparr>"

lemma example_api_answer:
  "\<exists>r. query_traffic example_history ''192.168.88.1'' True (TaskEnds None None None) example_params =
     (Some (Inr r), Some (guard_drop (guard_disarm new_guard)))"
proof -
  have v: "validate_params example_params = Inr (None, Some ''ether1'')"
    by (simp add: validate_params_def example_params_def checked_i64_def in_i64_def I64_MAX_def I64_MIN_def MAX_RANGE_MS_def
        MAX_POINTS_def trim_def is_whitespace_def)
  have qv: "query_traffic_v4_on_connection example_history example_query MAX_TRAFFIC_SOURCE_ROWS = Inr example_answer"
    using example_answered by (simp add: query_traffic_v4_def with_traffic_read_snapshot_def result_simps)
  obtain router iface wans where h: "query_traffic_history example_history \<lparr>hr_fallback_target = ''192.168.88.1'',
      hr_selector = WanName ''ether1'', hr_from_ms = 1500, hr_to_ms = 3000, hr_max_points = 2\<rparr> =
      Inr (Found router iface wans example_answer)"
    using qv by (simp add: query_traffic_history_def example_query_def current_router_for_target_def router_by_fallback_target_def
        select_interface_def traffic_interface_for_query_def example_history_def append_sample_def example_db_value empty_db_def
        trim_def is_whitespace_def)
  have c: "query_traffic_history_cancellable example_history \<lparr>hr_fallback_target = ''192.168.88.1'',
      hr_selector = WanName ''ether1'', hr_from_ms = 1500, hr_to_ms = 3000, hr_max_points = 2\<rparr> None None None =
      Inr (Found router iface wans example_answer)"
    by (simp add: query_traffic_history_cancellable_def validate_traffic_query_def MAX_TRAFFIC_SOURCE_ROWS_def
        with_traffic_read_snapshot_def h)
  have p: "\<exists>ps. point_responses (tr_points example_answer) n = Inr ps" for n
    by (simp add: example_answer_def point_response_def add_decimal_bytes_def parse_unsigned_def parse_nat_def is_ascii_digit_def Let_def)
  have "\<exists>r. build_traffic_response router iface wans example_answer = Inr r"
    using p[of "if ri_kind iface \<noteq> ''aggregate'' then Some (ri_name iface) else None"]
    by (auto simp: build_traffic_response_def Let_def) (simp_all add: example_answer_def sat_add_def clamp_i64_def I64_MAX_def I64_MIN_def)
  then show ?thesis
    by (auto simp: query_traffic_def v query_task_def selector_of_def) (simp add: example_params_def c)
qed


end
