(* ===== verification/Routeros_Transform.thy ===== *)
theory Routeros_Transform
  imports Env_Config Counter_Rate
begin

text \<open>
  What a RouterOS router answers (\<open>backends/routeros/models.rs\<close>), all of it text, and its translation
  into the vendor-neutral records (\<open>backends/routeros/transform.rs\<close>).
\<close>

section \<open>Raw answers\<close>

record system_resource =
  sy_uptime :: string
  sy_uptime_seconds :: string
  sy_cpu_load :: string
  sy_free_memory :: string
  sy_total_memory :: string
  sy_free_hdd :: string
  sy_total_hdd :: string
  sy_architecture_name :: string
  sy_board_name :: string
  sy_version :: string

record system_identity =
  sn_name :: string

record routerboard_info =
  rb_serial_number :: string

record ip_address =
  ia_address :: string
  ia_interface :: string
  ia_actual_interface :: string
  ia_disabled :: string

record ros_interface =
  rf_id :: string
  rf_name :: string
  rf_type :: string
  rf_mac_address :: string
  rf_running :: string
  rf_rx_byte :: string
  rf_tx_byte :: string
  rf_default_name :: string

record arp_entry =
  ae_address :: string
  ae_mac_address :: string
  ae_interface :: string
  ae_status :: string
  ae_disabled :: string

record ros_route =
  ro_id :: string
  ro_dst_address :: string
  ro_gateway :: string
  ro_immediate_gateway :: string
  ro_gateway_status :: string
  ro_interface :: string
  ro_active :: string
  ro_disabled :: string
  ro_distance :: string

record dhcp_lease =
  le_mac_address :: string
  le_host_name :: string
  le_status :: string
  le_expires_after :: string
  le_active_mac_address :: string

record wireless_registration =
  wr_mac_address :: string
  wr_signal_strength :: string
  wr_uptime :: string

text \<open>The connection entries are only counted.\<close>

record connection_entry =
  ce_id :: string

record ros_ipv6_address =
  i6_address :: string
  i6_interface :: string
  i6_actual_interface :: string
  i6_disabled :: string

record ipv6_route =
  r6_id :: string
  r6_dst_address :: string
  r6_gateway :: string
  r6_immediate_gateway :: string
  r6_gateway_status :: string
  r6_interface :: string
  r6_active :: string
  r6_disabled :: string
  r6_distance :: string

record ipv6_neighbor =
  n6_address :: string
  n6_mac_address :: string
  n6_interface :: string
  n6_status :: string
  n6_disabled :: string

record ipv6_connection_entry =
  c6_id :: string

section \<open>Reading text\<close>

text \<open>\<open>str::parse\<close> for a signed type.\<close>

definition parse_signed :: "int \<Rightarrow> int \<Rightarrow> string \<Rightarrow> int option" where
  "parse_signed least bound s =
     (case (case s of [] \<Rightarrow> None
         | c # r \<Rightarrow> if c = CHR ''-'' then map_option (\<lambda>n. - int n) (parse_nat r)
             else map_option int (parse_nat (if c = CHR ''+'' then r else s))) of
        None \<Rightarrow> None | Some z \<Rightarrow> if least \<le> z \<and> z < bound then Some z else None)"

text \<open>\<open>str::parse\<close> for \<open>f64\<close>: an optional sign, then infinity, not a number, or decimal digits with an
  optional point and exponent; the value is rounded once.\<close>

definition parse_mantissa :: "string \<Rightarrow> rat option" where
  "parse_mantissa s =
     (let (whole, frac) = (case split_once CHR ''.'' s of None \<Rightarrow> (s, []) | Some p \<Rightarrow> p);
          digits = whole @ frac in
      if list_all is_ascii_digit digits
      then map_option (\<lambda>n. of_nat n / 10 ^ length frac) (parse_nat digits) else None)"

definition parse_exponent :: "string \<Rightarrow> int option" where
  "parse_exponent s = (case s of [] \<Rightarrow> None
     | c # r \<Rightarrow> if c = CHR ''-'' then map_option (\<lambda>n. - int n) (parse_nat r)
         else map_option int (parse_nat (if c = CHR ''+'' then r else s)))"

definition parse_magnitude :: "string \<Rightarrow> rat option" where
  "parse_magnitude s = (case split_once CHR ''e'' s of
      None \<Rightarrow> parse_mantissa s
    | Some (mantissa, exponent) \<Rightarrow> (case (parse_mantissa mantissa, parse_exponent exponent) of
        (Some x, Some e) \<Rightarrow> Some (if 0 \<le> e then x * 10 ^ nat e else x / 10 ^ nat (- e))
      | _ \<Rightarrow> None))"

definition parse_f64_text :: "string \<Rightarrow> f64 option" where
  "parse_f64_text s =
     (let (negative, t) = (case s of [] \<Rightarrow> (False, [])
            | c # r \<Rightarrow> if c = CHR ''-'' then (True, r) else if c = CHR ''+'' then (False, r) else (False, s));
          lower = to_lowercase t in
      if lower = ''inf'' \<or> lower = ''infinity'' then Some (Infinite negative)
      else if lower = ''nan'' then Some NaN
      else map_option (\<lambda>x. to_f64 (if negative then - x else x)) (parse_magnitude lower))"

definition parse_f64 :: "string \<Rightarrow> f64" where
  "parse_f64 s = unwrap_or (Finite 0) (parse_f64_text s)"

definition parse_u64_or_zero :: "string \<Rightarrow> u64" where
  "parse_u64_or_zero s = unwrap_or 0 (parse_word s)"

definition parse_u64_optional :: "string \<Rightarrow> u64 option" where
  "parse_u64_optional s = parse_word (trim s)"

definition parse_route_distance :: "string \<Rightarrow> nat" where
  "parse_route_distance s = (case parse_u64_optional s of
      None \<Rightarrow> 2 ^ 32 - 1
    | Some d \<Rightarrow> if unat d < 2 ^ 32 then unat d else 2 ^ 32 - 1)"

text \<open>The seconds of a unit of time; \<open>u64\<close> arithmetic that stops at the largest value.\<close>

definition uptime_unit :: "char \<Rightarrow> nat option" where
  "uptime_unit c = (let u = to_ascii_lower c in
     if u = CHR ''w'' then Some (7 * 24 * 60 * 60) else if u = CHR ''d'' then Some (24 * 60 * 60)
     else if u = CHR ''h'' then Some (60 * 60) else if u = CHR ''m'' then Some 60
     else if u = CHR ''s'' then Some 1 else None)"

fun parse_uptime_from :: "nat \<Rightarrow> string \<Rightarrow> bool \<Rightarrow> string \<Rightarrow> nat option" where
  "parse_uptime_from seconds digits saw_unit [] =
     (if digits \<noteq> [] then None else if saw_unit then Some seconds else None)"
| "parse_uptime_from seconds digits saw_unit (c # s) =
     (if is_ascii_digit c then parse_uptime_from seconds (digits @ [c]) saw_unit s
      else (case (parse_unsigned (2 ^ 64) digits, uptime_unit c) of
          (Some amount, Some unit) \<Rightarrow>
            parse_uptime_from (min U64_MAX (seconds + min U64_MAX (amount * unit))) [] True s
        | _ \<Rightarrow> None))"

definition parse_uptime_seconds :: "string \<Rightarrow> u64 option" where
  "parse_uptime_seconds s = map_option of_nat (parse_uptime_from 0 [] False s)"

definition max_option :: "u64 option \<Rightarrow> u64 option \<Rightarrow> u64 option" where
  "max_option a b = (case (a, b) of
      (None, _) \<Rightarrow> b | (_, None) \<Rightarrow> a | (Some x, Some y) \<Rightarrow> Some (max x y))"

section \<open>Routes\<close>

text \<open>\<open>rsplit_once\<close>: the parts around the last occurrence.\<close>

definition rsplit_once :: "char \<Rightarrow> string \<Rightarrow> (string \<times> string) option" where
  "rsplit_once c s = map_option (\<lambda>(a, b). (rev b, rev a)) (split_once c (rev s))"

definition interface_from_immediate_gateway :: "string \<Rightarrow> string" where
  "interface_from_immediate_gateway v = (case rsplit_once CHR ''%'' v of None \<Rightarrow> [] | Some (_, i) \<Rightarrow> trim i)"

definition normalized_route_interface :: "string \<Rightarrow> string \<Rightarrow> string" where
  "normalized_route_interface explicit immediate_gateway =
     (let e = trim explicit in if e = [] then interface_from_immediate_gateway immediate_gateway else e)"

definition route_interface :: "ros_route \<Rightarrow> string" where
  "route_interface r = normalized_route_interface (ro_interface r) (ro_immediate_gateway r)"

definition ipv6_route_interface :: "ipv6_route \<Rightarrow> string" where
  "ipv6_route_interface r = normalized_route_interface (r6_interface r) (r6_immediate_gateway r)"

definition normalize_gateway_status :: "ros_route \<Rightarrow> string" where
  "normalize_gateway_status r =
     (if trim (ro_gateway_status r) \<noteq> [] then to_lowercase (trim (ro_gateway_status r))
      else if trim (ro_immediate_gateway r) \<noteq> [] then ''reachable'' else [])"

definition normalize_ipv6_gateway_status :: "ipv6_route \<Rightarrow> string" where
  "normalize_ipv6_gateway_status r =
     (if trim (r6_gateway_status r) \<noteq> [] then to_lowercase (trim (r6_gateway_status r))
      else if trim (r6_immediate_gateway r) \<noteq> [] then ''reachable'' else [])"

section \<open>The translation\<close>

record ros_snapshot =
  rs_counter_sample_time :: counter_sample_time
  rs_system :: system_resource
  rs_hardware_identity :: "string option"
  rs_identity :: system_identity
  rs_ip_addresses :: "ip_address list"
  rs_interfaces :: "ros_interface list"
  rs_arp_entries :: "arp_entry list"
  rs_dhcp_leases :: "dhcp_lease list"
  rs_wireless_registrations :: "wireless_registration list"
  rs_routes :: "ros_route list"
  rs_connection_count :: nat
  rs_ipv6_addresses :: "ros_ipv6_address list"
  rs_ipv6_routes :: "ipv6_route list"
  rs_ipv6_neighbors :: "ipv6_neighbor list"
  rs_ipv6_connection_count :: nat

definition system_data_of :: "string option \<Rightarrow> system_resource \<Rightarrow> system_data" where
  "system_data_of hardware_identity s = \<lparr>sd_hardware_identity = hardware_identity, sd_uptime = sy_uptime s,
     sd_uptime_seconds = max_option (parse_u64_optional (sy_uptime_seconds s)) (parse_uptime_seconds (sy_uptime s)),
     sd_cpu_load = parse_f64 (sy_cpu_load s), sd_free_memory = parse_u64_or_zero (sy_free_memory s),
     sd_total_memory = parse_u64_or_zero (sy_total_memory s), sd_free_hdd = parse_u64_or_zero (sy_free_hdd s),
     sd_total_hdd = parse_u64_or_zero (sy_total_hdd s), sd_architecture_name = sy_architecture_name s,
     sd_board_name = sy_board_name s, sd_version = sy_version s\<rparr>"

definition ip_addr_entry_of :: "ip_address \<Rightarrow> ip_addr_entry" where
  "ip_addr_entry_of i = \<lparr>ip_address_cidr = ia_address i, ip_interface = ia_interface i,
     ip_actual_interface = ia_actual_interface i, ip_disabled = (ia_disabled i = ''true'')\<rparr>"

definition ipv6_addr_entry_of :: "ros_ipv6_address \<Rightarrow> ipv6_addr_entry" where
  "ipv6_addr_entry_of i = \<lparr>ip6_address_cidr = i6_address i, ip6_interface = i6_interface i,
     ip6_actual_interface = i6_actual_interface i, ip6_disabled = (i6_disabled i = ''true'')\<rparr>"

definition interface_entry_of :: "ros_interface \<Rightarrow> interface_entry" where
  "interface_entry_of i = \<lparr>if_id = rf_id i, if_name = rf_name i, if_type = rf_type i, if_mac_address = rf_mac_address i,
     if_running = (rf_running i = ''true''), if_rx_byte = parse_u64_optional (rf_rx_byte i),
     if_tx_byte = parse_u64_optional (rf_tx_byte i), if_default_name = rf_default_name i\<rparr>"

definition route_entry_of :: "ros_route \<Rightarrow> route_entry" where
  "route_entry_of r = \<lparr>rt_id = ro_id r, rt_dst_address = ro_dst_address r, rt_gateway = ro_gateway r,
     rt_gateway_status = normalize_gateway_status r, rt_interface = route_interface r,
     rt_active = (ro_active r = ''true''), rt_disabled = (ro_disabled r = ''true''),
     rt_distance = parse_route_distance (ro_distance r)\<rparr>"

definition ipv6_route_entry_of :: "ipv6_route \<Rightarrow> route_entry" where
  "ipv6_route_entry_of r = \<lparr>rt_id = r6_id r, rt_dst_address = r6_dst_address r, rt_gateway = r6_gateway r,
     rt_gateway_status = normalize_ipv6_gateway_status r, rt_interface = ipv6_route_interface r,
     rt_active = (r6_active r = ''true''), rt_disabled = (r6_disabled r = ''true''),
     rt_distance = parse_route_distance (r6_distance r)\<rparr>"

definition arp_neighbor_of :: "arp_entry \<Rightarrow> neighbor_entry" where
  "arp_neighbor_of a = \<lparr>nb_address = ae_address a, nb_mac_address = ae_mac_address a, nb_interface = ae_interface a,
     nb_status = ae_status a, nb_disabled = (ae_disabled a = ''true'')\<rparr>"

definition ipv6_neighbor_of :: "ipv6_neighbor \<Rightarrow> neighbor_entry" where
  "ipv6_neighbor_of n = \<lparr>nb_address = n6_address n, nb_mac_address = n6_mac_address n, nb_interface = n6_interface n,
     nb_status = n6_status n, nb_disabled = (n6_disabled n = ''true'')\<rparr>"

definition dhcp_lease_entry_of :: "dhcp_lease \<Rightarrow> dhcp_lease_entry" where
  "dhcp_lease_entry_of l = \<lparr>dl_mac_address = le_mac_address l, dl_host_name = le_host_name l, dl_status = le_status l,
     dl_expires_after = le_expires_after l, dl_active_mac_address = le_active_mac_address l\<rparr>"

definition wireless_client_of :: "wireless_registration \<Rightarrow> wireless_client_entry" where
  "wireless_client_of w = \<lparr>wc_mac_address = wr_mac_address w,
     wc_signal_strength = parse_signed (- (2 ^ 31)) (2 ^ 31) (wr_signal_strength w), wc_uptime = wr_uptime w\<rparr>"

definition routeros_to_router_data :: "ros_snapshot \<Rightarrow> router_data" where
  "routeros_to_router_data s = \<lparr>
     rd_counter_sample_time = rs_counter_sample_time s,
     rd_system = system_data_of (rs_hardware_identity s) (rs_system s),
     rd_identity = \<lparr>id_name = sn_name (rs_identity s)\<rparr>,
     rd_ip_addresses = map ip_addr_entry_of (rs_ip_addresses s),
     rd_ipv6_addresses = map ipv6_addr_entry_of (rs_ipv6_addresses s),
     rd_interfaces = map interface_entry_of (rs_interfaces s),
     rd_routes = map route_entry_of (rs_routes s),
     rd_ipv6_routes = map ipv6_route_entry_of (rs_ipv6_routes s),
     rd_arp_entries = map arp_neighbor_of (rs_arp_entries s),
     rd_ipv6_neighbors = map ipv6_neighbor_of (rs_ipv6_neighbors s),
     rd_dhcp_leases = map dhcp_lease_entry_of (rs_dhcp_leases s),
     rd_wireless_clients = map wireless_client_of (rs_wireless_registrations s),
     rd_connection_count = rs_connection_count s,
     rd_ipv6_connection_count = rs_ipv6_connection_count s\<rparr>"

end
