(* ===== verification/Routeros_Client.thy ===== *)
theory Routeros_Client
  imports Routeros_Transform Poll_Engine
begin

text \<open>
  The client of a RouterOS router (\<open>backends/routeros/client.rs\<close>): where it may connect to, its
  requests, its two caches, and one full reading of the router.  The name service, the network and
  the JSON decoding are arguments; every operation also tells which requests it sent.
\<close>

section \<open>Constants\<close>

definition SYSTEM_RESOURCE_PATH :: string where
  "SYSTEM_RESOURCE_PATH = ''/system/resource?.proplist=uptime,cpu-load,free-memory,total-memory,free-hdd-space,total-hdd-space,architecture-name,board-name,version''"
definition SYSTEM_IDENTITY_PATH :: string where
  "SYSTEM_IDENTITY_PATH = ''/system/identity?.proplist=name''"
definition SYSTEM_ROUTERBOARD_PATH :: string where
  "SYSTEM_ROUTERBOARD_PATH = ''/system/routerboard?.proplist=serial-number''"
definition IP_ADDRESS_PATH :: string where
  "IP_ADDRESS_PATH = ''/ip/address?.proplist=address,interface,actual-interface,disabled''"
definition INTERFACE_PATH :: string where
  "INTERFACE_PATH = ''/interface?.proplist=.id,name,type,mac-address,running,rx-byte,tx-byte,default-name''"
definition IP_ROUTE_PATH :: string where
  "IP_ROUTE_PATH = ''/ip/route?.proplist=.id,dst-address,gateway,immediate-gw,gateway-status,interface,active,disabled,distance''"
definition ARP_PATH :: string where
  "ARP_PATH = ''/ip/arp?.proplist=address,mac-address,interface,status,disabled''"
definition DHCP_LEASE_PATH :: string where
  "DHCP_LEASE_PATH = ''/ip/dhcp-server/lease?.proplist=mac-address,host-name,status,expires-after,active-mac-address''"
definition WIRELESS_REGISTRATION_PATH :: string where
  "WIRELESS_REGISTRATION_PATH = ''/interface/wireless/registration-table?.proplist=mac-address,signal-strength,uptime''"
definition IPV6_ADDRESS_PATH :: string where
  "IPV6_ADDRESS_PATH = ''/ipv6/address?.proplist=address,interface,actual-interface,disabled''"
definition IPV6_ROUTE_PATH :: string where
  "IPV6_ROUTE_PATH = ''/ipv6/route?.proplist=.id,dst-address,gateway,immediate-gw,gateway-status,interface,active,disabled,distance''"
definition IPV6_NEIGHBOR_PATH :: string where
  "IPV6_NEIGHBOR_PATH = ''/ipv6/neighbor?.proplist=address,mac-address,interface,status,disabled''"
definition FIREWALL_CONNECTION_IDS_PATH :: string where
  "FIREWALL_CONNECTION_IDS_PATH = ''/ip/firewall/connection?.proplist=.id''"
definition IPV6_FIREWALL_CONNECTION_IDS_PATH :: string where
  "IPV6_FIREWALL_CONNECTION_IDS_PATH = ''/ipv6/firewall/connection?.proplist=.id''"
definition CONNECTION_COUNT_CACHE_TTL :: nat where "CONNECTION_COUNT_CACHE_TTL = 30 * 1000000000"
definition HARDWARE_IDENTITY_RETRY_TTL :: nat where "HARDWARE_IDENTITY_RETRY_TTL = 10 * 60 * 1000000000"
definition HARDWARE_IDENTITY_REFRESH_TTL :: nat where "HARDWARE_IDENTITY_REFRESH_TTL = 60 * 60 * 1000000000"

section \<open>The network\<close>

text \<open>A request goes to the addresses the client was built for.  A failed one has its error's text.\<close>

record rest_request =
  rq_addresses :: "ip_addr list"
  rq_url :: string
  rq_authorization :: string

record rest_reply =
  re_status :: nat
  re_content_length :: "nat option"
  re_chunks :: "(string + string) list"

type_synonym rest_network = "rest_request \<Rightarrow> string + rest_reply"

text \<open>A type's JSON readers: of a list and of a single value.\<close>

type_synonym 'a json_reader = "(string \<Rightarrow> 'a list option) \<times> (string \<Rightarrow> string + 'a)"

text \<open>\<open>rl_build_error\<close> is why the HTTP client cannot be built, \<open>rl_header_error\<close> the text of a refused
  header value, \<open>rl_basic\<close> the base64 text, \<open>rl_status_text\<close> a status with its reason, \<open>rl_board\<close> the board
  and version of a list of resources.\<close>

record 'n routeros_library =
  rl_parse_url :: "string \<Rightarrow> parsed_url option"
  rl_contains :: "'n \<Rightarrow> ip_addr \<Rightarrow> bool"
  rl_lookup :: "string \<Rightarrow> 16 word \<Rightarrow> ip_addr list option"
  rl_build_error :: "string option"
  rl_header_error :: string
  rl_basic :: "string \<Rightarrow> string"
  rl_status_text :: "nat \<Rightarrow> string"
  rl_board :: "string \<Rightarrow> (string \<times> string) list option"
  rl_resource :: "system_resource json_reader"
  rl_identity :: "system_identity json_reader"
  rl_routerboard :: "routerboard_info json_reader"
  rl_ip_address :: "ip_address json_reader"
  rl_interface :: "ros_interface json_reader"
  rl_route :: "ros_route json_reader"
  rl_arp :: "arp_entry json_reader"
  rl_lease :: "dhcp_lease json_reader"
  rl_wireless :: "wireless_registration json_reader"
  rl_connection :: "connection_entry json_reader"
  rl_ipv6_address :: "ros_ipv6_address json_reader"
  rl_ipv6_route :: "ipv6_route json_reader"
  rl_ipv6_neighbor :: "ipv6_neighbor json_reader"
  rl_ipv6_connection :: "ipv6_connection_entry json_reader"

definition is_success :: "nat \<Rightarrow> bool" where
  "is_success status \<longleftrightarrow> 200 \<le> status \<and> status < 300"

fun read_chunks :: "nat \<Rightarrow> string \<Rightarrow> (string + string) list \<Rightarrow> app_error + string" where
  "read_chunks limit body [] = Inr body"
| "read_chunks limit body (Inl e # chunks) = Inl (HttpError e)"
| "read_chunks limit body (Inr chunk # chunks) =
     (if limit < length body + length chunk then Inl (RouterApi ''RouterOS response is too large'')
      else read_chunks limit (body @ chunk) chunks)"

definition read_limited_body :: "rest_reply \<Rightarrow> nat \<Rightarrow> app_error + string" where
  "read_limited_body r limit =
     (if (case re_content_length r of None \<Rightarrow> False | Some n \<Rightarrow> limit < n)
      then Inl (RouterApi ''RouterOS response is too large'')
      else read_chunks limit [] (re_chunks r))"

section \<open>Where to connect\<close>

definition base_url :: "'n routeros_library \<Rightarrow> 'n router_connection \<Rightarrow> app_error + string" where
  "base_url lib c =
     (let host = trim (rcn_host c);
          authority = (case parse_ip host of Some (V6 a) \<Rightarrow> ''['' @ show_ipv6 a @ '']'' | _ \<Rightarrow> host);
          v = rcn_scheme c @ ''://'' @ authority @ '':'' @ show_word (rcn_port c) @ ''/rest'' in
      and_then (ok_or (InvalidData ''router target is not a valid host'') (rl_parse_url lib v)) (\<lambda>u.
      if pu_username u \<noteq> [] \<or> pu_password u \<noteq> None \<or> pu_host_str u = None \<or> pu_path u \<noteq> ''/rest''
      then Inl (InvalidData ''router target must be a hostname or IP address'')
      else Inr v))"

text \<open>The standard library's classes of addresses; an address is four octets or eight groups.\<close>

fun is_unspecified :: "ip_addr \<Rightarrow> bool" where
  "is_unspecified (V4 a) \<longleftrightarrow> a = [0, 0, 0, 0]"
| "is_unspecified (V6 a) \<longleftrightarrow> a = [0, 0, 0, 0, 0, 0, 0, 0]"

fun ip_is_loopback :: "ip_addr \<Rightarrow> bool" where
  "ip_is_loopback (V4 a) \<longleftrightarrow> a \<noteq> [] \<and> hd a = 127"
| "ip_is_loopback (V6 a) \<longleftrightarrow> a = [0, 0, 0, 0, 0, 0, 0, 1]"

fun is_multicast :: "ip_addr \<Rightarrow> bool" where
  "is_multicast (V4 a) \<longleftrightarrow> a \<noteq> [] \<and> 224 \<le> hd a \<and> hd a \<le> 239"
| "is_multicast (V6 a) \<longleftrightarrow> a \<noteq> [] \<and> hd a div 256 = 0xFF"

fun is_local_scope :: "ip_addr \<Rightarrow> bool" where
  "is_local_scope (V4 a) \<longleftrightarrow> take 2 a = [169, 254] \<or> a = [255, 255, 255, 255]"
| "is_local_scope (V6 a) \<longleftrightarrow> (a \<noteq> [] \<and> hd a div 64 = 0x3FA) \<or> take 6 a = [0, 0, 0, 0, 0, 0xFFFF]"

definition forbidden_address :: "ip_addr \<Rightarrow> bool" where
  "forbidden_address a \<longleftrightarrow> is_unspecified a \<or> ip_is_loopback a \<or> is_multicast a \<or> is_local_scope a"

fun check_addresses :: "'n routeros_library \<Rightarrow> 'n list \<Rightarrow> ip_addr list \<Rightarrow> app_error + unit" where
  "check_addresses lib networks [] = Inr ()"
| "check_addresses lib networks (a # addresses) =
     (if forbidden_address a \<or> \<not> list_ex (\<lambda>n. rl_contains lib n a) networks
      then Inl (Forbidden (''router target resolved outside ROUTER_MANAGEMENT_CIDRS ('' @ show_ip a @ '')''))
      else check_addresses lib networks addresses)"

definition resolve_management_target :: "'n routeros_library \<Rightarrow> 'n router_connection \<Rightarrow> app_error + ip_addr list" where
  "resolve_management_target lib c =
     (if rcn_scheme c \<noteq> ''https'' \<and> \<not> (rcn_scheme c = ''http'' \<and> rcn_allow_insecure_http c)
      then Inl (InvalidData ''cleartext RouterOS HTTP is disabled'')
      else if trim (rcn_host c) = [] \<or> rcn_host c \<noteq> trim (rcn_host c)
      then Inl (InvalidData ''invalid router host'')
      else and_then (ok_or RouterUnreachable (rl_lookup lib (rcn_host c) (rcn_port c))) (\<lambda>addresses.
        if addresses = [] then Inl RouterUnreachable
        else and_then (check_addresses lib (rcn_management_cidrs c) addresses) (\<lambda>_. Inr addresses)))"

definition build_http_client :: "'n routeros_library \<Rightarrow> 'n router_connection \<Rightarrow> app_error + ip_addr list" where
  "build_http_client lib c = and_then (resolve_management_target lib c) (\<lambda>addresses.
     (case rl_build_error lib of
        None \<Rightarrow> Inr addresses
      | Some e \<Rightarrow> Inl (Internal (''Failed to build HTTP client: '' @ e))))"

definition build_basic_auth_header :: "'n routeros_library \<Rightarrow> string \<Rightarrow> string \<Rightarrow> string" where
  "build_basic_auth_header lib username password = ''Basic '' @ rl_basic lib (username @ '':'' @ password)"

section \<open>The client\<close>

record connection_count_cache =
  cc_ipv4_sampled_at :: "instant option"
  cc_ipv6_sampled_at :: "instant option"
  cc_ipv4 :: nat
  cc_ipv6 :: nat

record hardware_identity_cache =
  hc_sampled_at :: "instant option"
  hc_value :: "string option"

record routeros_client =
  rc_base_url :: string
  rc_addresses :: "ip_addr list"
  rc_auth_header :: string
  rc_counts :: connection_count_cache
  rc_hardware :: hardware_identity_cache

definition request_to :: "routeros_client \<Rightarrow> string \<Rightarrow> rest_request" where
  "request_to c path = \<lparr>rq_addresses = rc_addresses c, rq_url = rc_base_url c @ path, rq_authorization = rc_auth_header c\<rparr>"

definition decode_items :: "'a json_reader \<Rightarrow> string \<Rightarrow> string \<Rightarrow> app_error + 'a list" where
  "decode_items reader path body =
     (if \<not> utf8_valid body then Inl (RouterApi ''RouterOS returned non-UTF-8 JSON'')
      else if trim body = [] then Inr []
      else (case fst reader body of
          Some items \<Rightarrow> Inr items
        | None \<Rightarrow> (case snd reader body of
            Inr item \<Rightarrow> Inr [item]
          | Inl e \<Rightarrow> Inl (RouterApi (''Failed to parse response from '' @ path @ '': '' @ e)))))"

definition rest_get ::
  "'n routeros_library \<Rightarrow> rest_network \<Rightarrow> routeros_client \<Rightarrow> 'a json_reader \<Rightarrow> string \<Rightarrow> app_error + 'a list" where
  "rest_get lib net c reader path =
     (if \<not> list_all visible_ascii (rc_auth_header c) then Inl (Internal (''Invalid auth header: '' @ rl_header_error lib))
      else (case net (request_to c path) of
          Inl e \<Rightarrow> Inl (RouterApi (''Request to '' @ path @ '' failed: '' @ e))
        | Inr r \<Rightarrow>
            if \<not> is_success (re_status r)
            then Inl (RouterApi (if re_status r = 401
              then ''Authentication rejected by '' @ path @ ''. Verify the user has '' @ quoted ''rest-api'' @ '' policy in RouterOS.''
              else ''HTTP '' @ rl_status_text lib (re_status r) @ '' from '' @ path))
            else and_then (read_limited_body r (1024 * 1024)) (decode_items reader path)))"

definition first_item :: "string \<Rightarrow> 'a list \<Rightarrow> app_error + 'a" where
  "first_item message items = (case items of [] \<Rightarrow> Inl (InvalidData message) | x # _ \<Rightarrow> Inr x)"

definition extract_hardware_identity :: "routerboard_info list \<Rightarrow> string option" where
  "extract_hardware_identity items = (case items of [] \<Rightarrow> None
     | item # _ \<Rightarrow> let serial = trim (rb_serial_number item) in if serial \<noteq> [] then Some serial else None)"

text \<open>\<open>now\<close> and \<open>later\<close> are the two looks at the clock.\<close>

definition connection_cache_is_fresh :: "instant option \<Rightarrow> instant \<Rightarrow> nat \<Rightarrow> bool" where
  "connection_cache_is_fresh sampled_at now ttl = (case sampled_at of None \<Rightarrow> False | Some t \<Rightarrow> now - t < ttl)"

definition hardware_ttl :: "hardware_identity_cache \<Rightarrow> nat" where
  "hardware_ttl h = (if hc_value h \<noteq> None then HARDWARE_IDENTITY_REFRESH_TTL else HARDWARE_IDENTITY_RETRY_TTL)"

definition hardware_identity ::
  "'n routeros_library \<Rightarrow> rest_network \<Rightarrow> instant \<Rightarrow> instant \<Rightarrow> routeros_client \<Rightarrow>
   string option \<times> rest_request list \<times> hardware_identity_cache" where
  "hardware_identity lib net now later c =
     (if connection_cache_is_fresh (hc_sampled_at (rc_hardware c)) now (hardware_ttl (rc_hardware c))
      then (hc_value (rc_hardware c), [], rc_hardware c)
      else let v = (case rest_get lib net c (rl_routerboard lib) SYSTEM_ROUTERBOARD_PATH of
              Inl e \<Rightarrow> None | Inr items \<Rightarrow> extract_hardware_identity items) in
        (v, [request_to c SYSTEM_ROUTERBOARD_PATH], \<lparr>hc_sampled_at = Some later, hc_value = v\<rparr>))"

definition items_or_empty :: "app_error + 'a list \<Rightarrow> 'a list" where
  "items_or_empty r = (case r of Inl e \<Rightarrow> [] | Inr items \<Rightarrow> items)"

definition firewall_connection_count ::
  "'n routeros_library \<Rightarrow> rest_network \<Rightarrow> routeros_client \<Rightarrow> app_error + nat" where
  "firewall_connection_count lib net c = and_then (rest_get lib net c (rl_connection lib) FIREWALL_CONNECTION_IDS_PATH)
     (\<lambda>items. Inr (as_u32 (length items)))"

definition ipv6_firewall_connection_count ::
  "'n routeros_library \<Rightarrow> rest_network \<Rightarrow> routeros_client \<Rightarrow> app_error + nat" where
  "ipv6_firewall_connection_count lib net c =
     and_then (rest_get lib net c (rl_ipv6_connection lib) IPV6_FIREWALL_CONNECTION_IDS_PATH)
     (\<lambda>items. Inr (as_u32 (length items)))"

text \<open>A count that was asked for and came replaces the cached one.\<close>

definition cached_connection_counts ::
  "'n routeros_library \<Rightarrow> rest_network \<Rightarrow> instant \<Rightarrow> instant \<Rightarrow> routeros_client \<Rightarrow>
   (nat \<times> nat) \<times> rest_request list \<times> connection_count_cache" where
  "cached_connection_counts lib net now later c =
     (let k = rc_counts c;
          refresh4 = \<not> connection_cache_is_fresh (cc_ipv4_sampled_at k) now CONNECTION_COUNT_CACHE_TTL;
          refresh6 = \<not> connection_cache_is_fresh (cc_ipv6_sampled_at k) now CONNECTION_COUNT_CACHE_TTL;
          k4 = (if refresh4 then (case firewall_connection_count lib net c of
              Inr n \<Rightarrow> k\<lparr>cc_ipv4 := n, cc_ipv4_sampled_at := Some later\<rparr> | Inl e \<Rightarrow> k) else k);
          k6 = (if refresh6 then (case ipv6_firewall_connection_count lib net c of
              Inr n \<Rightarrow> k4\<lparr>cc_ipv6 := n, cc_ipv6_sampled_at := Some later\<rparr> | Inl e \<Rightarrow> k4) else k4) in
      ((cc_ipv4 k6, cc_ipv6 k6),
       (if refresh4 then [request_to c FIREWALL_CONNECTION_IDS_PATH] else []) @
       (if refresh6 then [request_to c IPV6_FIREWALL_CONNECTION_IDS_PATH] else []), k6))"

section \<open>Reading everything\<close>

text \<open>The failures among the requests that must succeed; which of them ends the reading, and so the
  requests that are still running, is
  chosen by \<open>first\<close>.\<close>

fun failure :: "app_error + 'a \<Rightarrow> app_error list" where
  "failure (Inl e) = [e]"
| "failure (Inr x) = []"

record fetch_input =
  fi_now :: instant
  fi_later :: instant
  fi_sampled :: counter_sample_time
  fi_first :: "app_error list \<Rightarrow> app_error"

definition primary_paths :: "string list" where
  "primary_paths = [SYSTEM_RESOURCE_PATH, SYSTEM_IDENTITY_PATH, IP_ADDRESS_PATH, INTERFACE_PATH, ARP_PATH,
     DHCP_LEASE_PATH, WIRELESS_REGISTRATION_PATH, IP_ROUTE_PATH]"

definition ipv6_paths :: "string list" where
  "ipv6_paths = [IPV6_ADDRESS_PATH, IPV6_ROUTE_PATH, IPV6_NEIGHBOR_PATH]"

definition ros_fetch_all ::
  "'n routeros_library \<Rightarrow> rest_network \<Rightarrow> fetch_input \<Rightarrow> routeros_client \<Rightarrow>
   (app_error + router_data) \<times> rest_request list \<times> routeros_client" where
  "ros_fetch_all lib net inp c =
     (let system = and_then (rest_get lib net c (rl_resource lib) SYSTEM_RESOURCE_PATH)
            (first_item ''Empty system resource response'');
          identity = and_then (rest_get lib net c (rl_identity lib) SYSTEM_IDENTITY_PATH)
            (first_item ''Empty system identity response'');
          ips = rest_get lib net c (rl_ip_address lib) IP_ADDRESS_PATH;
          interfaces = rest_get lib net c (rl_interface lib) INTERFACE_PATH;
          arp = rest_get lib net c (rl_arp lib) ARP_PATH;
          leases = rest_get lib net c (rl_lease lib) DHCP_LEASE_PATH;
          wireless = items_or_empty (rest_get lib net c (rl_wireless lib) WIRELESS_REGISTRATION_PATH);
          routes = rest_get lib net c (rl_route lib) IP_ROUTE_PATH;
          ipv6_ips = items_or_empty (rest_get lib net c (rl_ipv6_address lib) IPV6_ADDRESS_PATH);
          ipv6_routes = items_or_empty (rest_get lib net c (rl_ipv6_route lib) IPV6_ROUTE_PATH);
          ipv6_neighbors = items_or_empty (rest_get lib net c (rl_ipv6_neighbor lib) IPV6_NEIGHBOR_PATH);
          (hardware, hardware_requests, hardware_cache) = hardware_identity lib net (fi_now inp) (fi_later inp) c;
          (counts, count_requests, counts_cache) = cached_connection_counts lib net (fi_now inp) (fi_later inp) c;
          failures = failure system @ failure identity @ failure ips @ failure interfaces @ failure arp @
            failure leases @ failure routes;
          requests = map (request_to c) (primary_paths @ ipv6_paths) @ hardware_requests @ count_requests;
          c1 = c\<lparr>rc_counts := counts_cache, rc_hardware := hardware_cache\<rparr> in
      (case (system, identity, ips, interfaces, arp, leases, routes) of
         (Inr s, Inr i, Inr a, Inr f, Inr n, Inr l, Inr r) \<Rightarrow>
           (Inr (routeros_to_router_data \<lparr>rs_counter_sample_time = fi_sampled inp, rs_system = s,
              rs_hardware_identity = hardware, rs_identity = i, rs_ip_addresses = a, rs_interfaces = f,
              rs_arp_entries = n, rs_dhcp_leases = l, rs_wireless_registrations = wireless, rs_routes = r,
              rs_connection_count = fst counts, rs_ipv6_addresses = ipv6_ips, rs_ipv6_routes = ipv6_routes,
              rs_ipv6_neighbors = ipv6_neighbors, rs_ipv6_connection_count = snd counts\<rparr>), requests, c1)
       | _ \<Rightarrow> (Inl (fi_first inp failures), requests, c1)))"

section \<open>Connecting and testing\<close>

definition new_client :: "string \<Rightarrow> ip_addr list \<Rightarrow> string \<Rightarrow> routeros_client" where
  "new_client url addresses auth = \<lparr>rc_base_url = url, rc_addresses = addresses, rc_auth_header = auth,
     rc_counts = \<lparr>cc_ipv4_sampled_at = None, cc_ipv6_sampled_at = None, cc_ipv4 = 0, cc_ipv6 = 0\<rparr>,
     rc_hardware = \<lparr>hc_sampled_at = None, hc_value = None\<rparr>\<rparr>"

definition authentication_failed :: "string \<Rightarrow> string" where
  "authentication_failed username = ''Authentication failed (401). Ensure user '' @ quoted username @ '' has the '' @
     quoted ''rest-api'' @ '' policy in RouterOS: /user/group add name=restapi policy=rest-api; /user/set '' @
     username @ '' group=restapi''"

text \<open>The client before its first request.\<close>

definition prepare_client :: "'n routeros_library \<Rightarrow> 'n router_connection \<Rightarrow> app_error + routeros_client" where
  "prepare_client lib config =
     and_then (base_url lib config) (\<lambda>url.
     and_then (build_http_client lib config) (\<lambda>addresses.
     Inr (new_client url addresses (build_basic_auth_header lib (rcn_username config) (rcn_password config)))))"

definition ros_connect ::
  "'n routeros_library \<Rightarrow> rest_network \<Rightarrow> 'n router_connection \<Rightarrow> (app_error + routeros_client) \<times> rest_request list" where
  "ros_connect lib net config = (case prepare_client lib config of
      Inl e \<Rightarrow> (Inl e, [])
    | Inr c \<Rightarrow>
        if \<not> list_all visible_ascii (rc_auth_header c) then (Inl (InvalidData (''Invalid auth header: '' @ rl_header_error lib)), [])
        else let request = request_to c SYSTEM_RESOURCE_PATH in
          (case net request of
             Inl e \<Rightarrow> Inl RouterUnreachable
           | Inr r \<Rightarrow>
               if is_success (re_status r) then Inr c
               else if re_status r = 401 then Inl (RouterApi (authentication_failed (rcn_username config)))
               else Inl (RouterApi (''RouterOS connection check returned HTTP '' @ rl_status_text lib (re_status r))),
           [request]))"

record connection_test_result =
  ctr_success :: bool
  ctr_model :: "string option"
  ctr_version :: "string option"
  ctr_error :: "string option"

definition failed_test :: "string \<Rightarrow> connection_test_result" where
  "failed_test message = \<lparr>ctr_success = False, ctr_model = None, ctr_version = None, ctr_error = Some message\<rparr>"

definition ros_test_connection ::
  "'n routeros_library \<Rightarrow> rest_network \<Rightarrow> 'n router_connection \<Rightarrow>
   (app_error + connection_test_result) \<times> rest_request list" where
  "ros_test_connection lib net config = (case prepare_client lib config of
      Inl e \<Rightarrow> (Inl e, [])
    | Inr c \<Rightarrow>
        if \<not> list_all visible_ascii (rc_auth_header c) then (Inl (Internal (''Invalid auth header: '' @ rl_header_error lib)), [])
        else let request = request_to c SYSTEM_RESOURCE_PATH in
          (case net request of
             Inl e \<Rightarrow> Inr (failed_test ''Router connection failed'')
           | Inr r \<Rightarrow>
               if is_success (re_status r)
               then and_then (read_limited_body r (64 * 1024)) (\<lambda>body.
                 let info = (case rl_board lib body of Some (x # _) \<Rightarrow> Some x | _ \<Rightarrow> None) in
                 Inr \<lparr>ctr_success = True, ctr_model = map_option fst info, ctr_version = map_option snd info,
                   ctr_error = None\<rparr>)
               else Inr (failed_test (''Router returned HTTP '' @ show_nat (re_status r))),
           [request]))"

end
