(* ===== verification/Routeros_Facts.thy ===== *)
theory Routeros_Facts
  imports Routeros_Client
begin

text \<open>
  What holds of the RouterOS backend: every request goes to an allowed address, the caches keep
  the router from being asked too often, and uptimes are read exactly.
\<close>

section \<open>Where requests go\<close>

text \<open>A request to the configured router: over an accepted scheme, to addresses of the management
  networks only, under the router's REST root, with the configured credentials.\<close>

definition allowed_request :: "'n routeros_library \<Rightarrow> 'n router_connection \<Rightarrow> rest_request \<Rightarrow> bool" where
  "allowed_request lib config q \<longleftrightarrow>
     (rcn_scheme config = ''https'' \<or> rcn_scheme config = ''http'' \<and> rcn_allow_insecure_http config) \<and>
     rq_addresses q \<noteq> [] \<and>
     (\<forall>a \<in> set (rq_addresses q). \<not> forbidden_address a \<and> (\<exists>n \<in> set (rcn_management_cidrs config). rl_contains lib n a)) \<and>
     (\<exists>url path. base_url lib config = Inr url \<and> rq_url q = url @ path) \<and>
     rq_authorization q = ''Basic '' @ rl_basic lib (rcn_username config @ '':'' @ rcn_password config)"

lemma check_addresses_InrD:
  "check_addresses lib networks addresses = Inr u \<Longrightarrow>
     \<forall>a \<in> set addresses. \<not> forbidden_address a \<and> (\<exists>n \<in> set networks. rl_contains lib n a)"
  by (induction addresses) (auto simp: list_ex_iff split: if_splits)

lemma resolve_management_target_InrD:
  assumes "resolve_management_target lib config = Inr addresses"
  shows "rcn_scheme config = ''https'' \<or> rcn_scheme config = ''http'' \<and> rcn_allow_insecure_http config"
    "addresses \<noteq> []" "\<forall>a \<in> set addresses. \<not> forbidden_address a \<and> (\<exists>n \<in> set (rcn_management_cidrs config). rl_contains lib n a)"
  using assms by (auto simp: resolve_management_target_def result_simps dest: check_addresses_InrD split: if_splits)

definition client_of :: "'n routeros_library \<Rightarrow> 'n router_connection \<Rightarrow> routeros_client \<Rightarrow> bool" where
  "client_of lib config c \<longleftrightarrow> (\<forall>path. allowed_request lib config (request_to c path))"

lemma prepare_client_InrD:
  assumes "prepare_client lib config = Inr c"
  shows "client_of lib config c"
proof -
  obtain url addresses where b: "base_url lib config = Inr url" and r: "resolve_management_target lib config = Inr addresses"
    and c: "c = new_client url addresses (build_basic_auth_header lib (rcn_username config) (rcn_password config))"
    using assms by (auto simp: prepare_client_def build_http_client_def result_simps split: if_splits option.splits)
  show ?thesis
    using resolve_management_target_InrD[OF r]
    by (auto simp: client_of_def allowed_request_def request_to_def new_client_def c b build_basic_auth_header_def)
qed

lemma client_of_caches [simp]:
  "client_of lib config (c\<lparr>rc_counts := k, rc_hardware := h\<rparr>) = client_of lib config c"
  by (simp add: client_of_def request_to_def)

text \<open>What one reading sends, and what it leaves in the caches.\<close>

lemma ros_fetch_all_requests:
  "fst (snd (ros_fetch_all lib net inp c)) = map (request_to c) (primary_paths @ ipv6_paths) @
     fst (snd (hardware_identity lib net (fi_now inp) (fi_later inp) c)) @
     fst (snd (cached_connection_counts lib net (fi_now inp) (fi_later inp) c))"
  "snd (snd (ros_fetch_all lib net inp c)) = c\<lparr>
     rc_counts := snd (snd (cached_connection_counts lib net (fi_now inp) (fi_later inp) c)),
     rc_hardware := snd (snd (hardware_identity lib net (fi_now inp) (fi_later inp) c))\<rparr>"
  unfolding ros_fetch_all_def Let_def by (simp_all add: split_def split: sum.split)

lemma cache_requests:
  "set (fst (snd (hardware_identity lib net now later c))) \<subseteq> range (request_to c)"
  "set (fst (snd (cached_connection_counts lib net now later c))) \<subseteq> range (request_to c)"
  by (auto simp: hardware_identity_def cached_connection_counts_def Let_def)

fun fetch_run ::
  "'n routeros_library \<Rightarrow> (rest_network \<times> fetch_input) list \<Rightarrow> routeros_client \<Rightarrow>
   (app_error + router_data) list \<times> rest_request list \<times> routeros_client" where
  "fetch_run lib [] c = ([], [], c)"
| "fetch_run lib ((net, inp) # inputs) c = (case ros_fetch_all lib net inp c of (r, requests, c1) \<Rightarrow>
     (case fetch_run lib inputs c1 of (rs, rest, c2) \<Rightarrow> (r # rs, requests @ rest, c2)))"

lemma fetch_all_allowed:
  assumes "client_of lib config c"
  shows "\<forall>q \<in> set (fst (snd (ros_fetch_all lib net inp c))). allowed_request lib config q"
    "client_of lib config (snd (snd (ros_fetch_all lib net inp c)))"
  using assms cache_requests[of lib net "fi_now inp" "fi_later inp" c]
  by (auto simp: ros_fetch_all_requests client_of_def[of lib config c])

lemma fetch_run_allowed:
  "client_of lib config c \<Longrightarrow> \<forall>q \<in> set (fst (snd (fetch_run lib inputs c))). allowed_request lib config q"
proof (induction inputs arbitrary: c)
  case (Cons i inputs)
  obtain net inp where i: "i = (net, inp)" by force
  obtain r requests c1 where f: "ros_fetch_all lib net inp c = (r, requests, c1)" using prod_cases3 by blast
  have "client_of lib config c1" "\<forall>q \<in> set requests. allowed_request lib config q"
    using fetch_all_allowed[OF Cons.prems, of net inp] f by simp_all
  then show ?case using Cons.IH[of c1] by (auto simp: i f split: prod.splits)
qed simp


section \<open>How often the router is asked\<close>

text \<open>The clock of a run: every reading starts after the one before it has ended.\<close>

fun clocked :: "instant \<Rightarrow> (rest_network \<times> fetch_input) list \<Rightarrow> bool" where
  "clocked t [] \<longleftrightarrow> True"
| "clocked t ((net, inp) # inputs) \<longleftrightarrow> t \<le> fi_now inp \<and> fi_now inp \<le> fi_later inp \<and> clocked (fi_later inp) inputs"

text \<open>When the serial number was asked for, and when a connection count was read.\<close>

fun serial_times ::
  "'n routeros_library \<Rightarrow> (rest_network \<times> fetch_input) list \<Rightarrow> routeros_client \<Rightarrow> instant list" where
  "serial_times lib [] c = []"
| "serial_times lib ((net, inp) # inputs) c =
     (if fst (snd (hardware_identity lib net (fi_now inp) (fi_later inp) c)) = [] then [] else [fi_later inp]) @
     serial_times lib inputs (snd (snd (ros_fetch_all lib net inp c)))"

definition count_read :: "'n routeros_library \<Rightarrow> rest_network \<Rightarrow> fetch_input \<Rightarrow> routeros_client \<Rightarrow> bool" where
  "count_read lib net inp c \<longleftrightarrow>
     request_to c FIREWALL_CONNECTION_IDS_PATH \<in> set (fst (snd (cached_connection_counts lib net (fi_now inp) (fi_later inp) c))) \<and>
     (\<exists>n. firewall_connection_count lib net c = Inr n)"

fun count_times ::
  "'n routeros_library \<Rightarrow> (rest_network \<times> fetch_input) list \<Rightarrow> routeros_client \<Rightarrow> instant list" where
  "count_times lib [] c = []"
| "count_times lib ((net, inp) # inputs) c =
     (if count_read lib net inp c then [fi_later inp] else []) @
     count_times lib inputs (snd (snd (ros_fetch_all lib net inp c)))"

definition apart :: "nat \<Rightarrow> instant list \<Rightarrow> bool" where
  "apart gap ts \<longleftrightarrow> sorted_wrt (\<lambda>a b. a + gap \<le> b) ts"

lemma hardware_cache_step:
  assumes "snd (snd (hardware_identity lib net now later c)) = h" "reqs = fst (snd (hardware_identity lib net now later c))"
  shows "reqs = [] \<Longrightarrow> h = rc_hardware c"
    "reqs \<noteq> [] \<Longrightarrow> hc_sampled_at h = Some later \<and>
      (\<forall>t. hc_sampled_at (rc_hardware c) = Some t \<longrightarrow> t + HARDWARE_IDENTITY_RETRY_TTL \<le> now \<or> now < t)"
  using assms
  by (auto simp: hardware_identity_def Let_def connection_cache_is_fresh_def hardware_ttl_def HARDWARE_IDENTITY_RETRY_TTL_def
      HARDWARE_IDENTITY_REFRESH_TTL_def split: if_splits)

lemma serial_times_apart:
  "clocked t0 inputs \<Longrightarrow> (\<forall>t. hc_sampled_at (rc_hardware c) = Some t \<longrightarrow> t \<le> t0) \<Longrightarrow>
     apart HARDWARE_IDENTITY_RETRY_TTL (serial_times lib inputs c) \<and>
     (\<forall>t x. hc_sampled_at (rc_hardware c) = Some t \<longrightarrow> x \<in> set (serial_times lib inputs c) \<longrightarrow> t + HARDWARE_IDENTITY_RETRY_TTL \<le> x)"
proof (induction inputs arbitrary: c t0)
  case (Cons i inputs)
  obtain net inp where i: "i = (net, inp)" by force
  let ?reqs = "fst (snd (hardware_identity lib net (fi_now inp) (fi_later inp) c))"
  let ?h = "snd (snd (hardware_identity lib net (fi_now inp) (fi_later inp) c))"
  let ?c1 = "snd (snd (ros_fetch_all lib net inp c))"
  have h: "rc_hardware ?c1 = ?h" by (simp add: ros_fetch_all_requests)
  have times: "t0 \<le> fi_now inp" "fi_now inp \<le> fi_later inp" "clocked (fi_later inp) inputs" using Cons.prems(1) by (auto simp: i)
  show ?case
  proof (cases "?reqs = []")
    case True
    then have "?h = rc_hardware c" using hardware_cache_step(1)[OF refl refl] by blast
    moreover have "\<forall>t. hc_sampled_at (rc_hardware c) = Some t \<longrightarrow> t \<le> fi_later inp" using Cons.prems(2) times by fastforce
    ultimately show ?thesis using Cons.IH[OF times(3), of ?c1] True by (simp add: i h)
  next
    case False
    then have s: "hc_sampled_at ?h = Some (fi_later inp)"
      and old: "\<forall>t. hc_sampled_at (rc_hardware c) = Some t \<longrightarrow> t + HARDWARE_IDENTITY_RETRY_TTL \<le> fi_now inp"
      using hardware_cache_step(2)[OF refl refl, of lib net "fi_now inp" "fi_later inp" c] Cons.prems(2) times by fastforce+
    have IH: "apart HARDWARE_IDENTITY_RETRY_TTL (serial_times lib inputs ?c1)"
      "\<forall>x \<in> set (serial_times lib inputs ?c1). fi_later inp + HARDWARE_IDENTITY_RETRY_TTL \<le> x"
      using Cons.IH[OF times(3), of ?c1] s by (auto simp: h)
    then show ?thesis using False old times by (fastforce simp: i apart_def)
  qed
qed (simp add: apart_def)

lemma counts_step:
  defines "k c net inp lib \<equiv> snd (snd (cached_connection_counts lib net (fi_now inp) (fi_later inp) c))"
  shows "\<not> count_read lib net inp c \<Longrightarrow> cc_ipv4_sampled_at (k c net inp lib) = cc_ipv4_sampled_at (rc_counts c)"
    "count_read lib net inp c \<Longrightarrow> cc_ipv4_sampled_at (k c net inp lib) = Some (fi_later inp) \<and>
      (\<forall>t. cc_ipv4_sampled_at (rc_counts c) = Some t \<longrightarrow> t + CONNECTION_COUNT_CACHE_TTL \<le> fi_now inp \<or> fi_now inp < t)"
proof -
  have d: "request_to c FIREWALL_CONNECTION_IDS_PATH \<noteq> request_to c IPV6_FIREWALL_CONNECTION_IDS_PATH"
    by (simp add: request_to_def FIREWALL_CONNECTION_IDS_PATH_def IPV6_FIREWALL_CONNECTION_IDS_PATH_def)
  have sent: "request_to c FIREWALL_CONNECTION_IDS_PATH \<in> set (fst (snd (cached_connection_counts lib net now later c))) \<longleftrightarrow>
      \<not> connection_cache_is_fresh (cc_ipv4_sampled_at (rc_counts c)) now CONNECTION_COUNT_CACHE_TTL" for now later
    using d by (simp add: cached_connection_counts_def Let_def)
  show "\<not> count_read lib net inp c \<Longrightarrow> cc_ipv4_sampled_at (k c net inp lib) = cc_ipv4_sampled_at (rc_counts c)"
    unfolding count_read_def sent k_def by (auto simp: cached_connection_counts_def Let_def split: sum.splits)
  show "count_read lib net inp c \<Longrightarrow> cc_ipv4_sampled_at (k c net inp lib) = Some (fi_later inp) \<and>
      (\<forall>t. cc_ipv4_sampled_at (rc_counts c) = Some t \<longrightarrow> t + CONNECTION_COUNT_CACHE_TTL \<le> fi_now inp \<or> fi_now inp < t)"
    unfolding count_read_def sent k_def
    by (auto simp: cached_connection_counts_def Let_def connection_cache_is_fresh_def CONNECTION_COUNT_CACHE_TTL_def
        split: sum.splits)
qed

lemma count_times_apart:
  "clocked t0 inputs \<Longrightarrow> (\<forall>t. cc_ipv4_sampled_at (rc_counts c) = Some t \<longrightarrow> t \<le> t0) \<Longrightarrow>
     apart CONNECTION_COUNT_CACHE_TTL (count_times lib inputs c) \<and>
     (\<forall>t x. cc_ipv4_sampled_at (rc_counts c) = Some t \<longrightarrow> x \<in> set (count_times lib inputs c) \<longrightarrow> t + CONNECTION_COUNT_CACHE_TTL \<le> x)"
proof (induction inputs arbitrary: c t0)
  case (Cons i inputs)
  obtain net inp where i: "i = (net, inp)" by force
  let ?k = "snd (snd (cached_connection_counts lib net (fi_now inp) (fi_later inp) c))"
  let ?c1 = "snd (snd (ros_fetch_all lib net inp c))"
  have h: "rc_counts ?c1 = ?k" by (simp add: ros_fetch_all_requests)
  have times: "t0 \<le> fi_now inp" "fi_now inp \<le> fi_later inp" "clocked (fi_later inp) inputs" using Cons.prems(1) by (auto simp: i)
  show ?case
  proof (cases "count_read lib net inp c")
    case False
    then have "cc_ipv4_sampled_at ?k = cc_ipv4_sampled_at (rc_counts c)" by (rule counts_step(1))
    moreover have "\<forall>t. cc_ipv4_sampled_at (rc_counts c) = Some t \<longrightarrow> t \<le> fi_later inp" using Cons.prems(2) times by fastforce
    ultimately show ?thesis using Cons.IH[OF times(3), of ?c1] False by (simp add: i h)
  next
    case True
    then have s: "cc_ipv4_sampled_at ?k = Some (fi_later inp)"
      and old: "\<forall>t. cc_ipv4_sampled_at (rc_counts c) = Some t \<longrightarrow> t + CONNECTION_COUNT_CACHE_TTL \<le> fi_now inp"
      using counts_step(2)[OF True] Cons.prems(2) times by fastforce+
    have IH: "apart CONNECTION_COUNT_CACHE_TTL (count_times lib inputs ?c1)"
      "\<forall>x \<in> set (count_times lib inputs ?c1). fi_later inp + CONNECTION_COUNT_CACHE_TTL \<le> x"
      using Cons.IH[OF times(3), of ?c1] s by (auto simp: h)
    then show ?thesis using True old times by (fastforce simp: i apart_def)
  qed
qed (simp add: apart_def)


section \<open>Uptimes\<close>

text \<open>The text of an uptime: amounts with their units, in any order and any selection.\<close>

definition uptime_text :: "(nat \<times> char) list \<Rightarrow> string" where
  "uptime_text parts = concat (map (\<lambda>(n, u). show_nat n @ [u]) parts)"

definition part_seconds :: "nat \<times> char \<Rightarrow> nat" where
  "part_seconds p = fst p * the (uptime_unit (snd p))"

lemma parse_uptime_digits:
  "list_all is_ascii_digit ds \<Longrightarrow> parse_uptime_from t acc b (ds @ s) = parse_uptime_from t (acc @ ds) b s"
  by (induction ds arbitrary: acc) auto

lemma uptime_unit_no_digit: "uptime_unit u \<noteq> None \<Longrightarrow> \<not> is_ascii_digit u"
proof
  assume "uptime_unit u \<noteq> None" and d: "is_ascii_digit u"
  have "to_ascii_lower u = u" using d by (auto simp: to_ascii_lower_def is_ascii_digit_def)
  then show False using \<open>uptime_unit u \<noteq> None\<close> d by (auto simp: uptime_unit_def is_ascii_digit_def Let_def split: if_splits)
qed

lemma parse_uptime_parts:
  assumes "\<forall>p \<in> set parts. uptime_unit (snd p) \<noteq> None" "t + (\<Sum>p\<leftarrow>parts. part_seconds p) \<le> U64_MAX"
    "\<forall>p \<in> set parts. fst p \<le> U64_MAX"
  shows "parse_uptime_from t [] b (uptime_text parts) =
       (if b \<or> parts \<noteq> [] then Some (t + (\<Sum>p\<leftarrow>parts. part_seconds p)) else None)"
  using assms
proof (induction parts arbitrary: t b)
    case Nil
    then show ?case by (simp add: uptime_text_def)
  next
    case (Cons p parts)
    obtain n u where p: "p = (n, u)" by force
    obtain k where k: "uptime_unit u = Some k" using Cons.prems(1) by (auto simp: p)
    have nd: "\<not> is_ascii_digit u" using uptime_unit_no_digit k by simp
    have n: "parse_unsigned (2 ^ 64) (show_nat n) = Some n"
    proof -
      obtain c r where s: "show_nat n = c # r" by (meson show_nat_nonempty neq_Nil_conv)
      then have "c \<noteq> CHR ''+''" using show_nat_hd_digit[of n] by (auto simp: is_ascii_digit_def)
      then show ?thesis using s parse_show_nat[of n] Cons.prems(3) by (simp add: parse_unsigned_def p U64_MAX_def)
    qed
    have le: "t + n * k + (\<Sum>p\<leftarrow>parts. part_seconds p) \<le> U64_MAX" using Cons.prems(2) by (simp add: p part_seconds_def k)
    then have m: "min U64_MAX (t + min U64_MAX (n * k)) = t + n * k" by simp
    have "uptime_text (p # parts) = show_nat n @ u # uptime_text parts" by (simp add: uptime_text_def p)
    then have "parse_uptime_from t [] b (uptime_text (p # parts)) = parse_uptime_from (t + n * k) [] True (uptime_text parts)"
      using parse_uptime_digits[OF show_nat_digits[of n], of t "[]" b "u # uptime_text parts"] nd n k m by simp
    also have "\<dots> = Some (t + n * k + (\<Sum>p\<leftarrow>parts. part_seconds p))"
      using Cons.IH[of "t + n * k" True] Cons.prems(1,3) le by simp
    finally show ?case using part_seconds_def[of p] by (simp add: p k)
  qed



section \<open>An example\<close>

definition example_routeros :: "nat routeros_library" where
  "example_routeros = \<lparr>
     rl_parse_url = (\<lambda>u. Some \<lparr>pu_scheme = ''https'', pu_host = None, pu_host_str = Some ''192.168.88.1'', pu_username = [], pu_password = None,
       pu_path = ''/rest'', pu_query = None, pu_fragment = None, pu_origin = ''https://r''\<rparr>),
     rl_contains = (\<lambda>n a. a = V4 [192, 168, 88, n]), rl_lookup = (\<lambda>_ _. Some [V4 [192, 168, 88, 1]]), rl_build_error = None,
     rl_header_error = ''failed to parse header value'',
     rl_basic = (\<lambda>_. ''x''), rl_status_text = show_nat, rl_board = (\<lambda>_. None),
     rl_resource = (\<lambda>_. Some [], \<lambda>_. Inl []), rl_identity = (\<lambda>_. Some [], \<lambda>_. Inl []),
     rl_routerboard = (\<lambda>_. Some [], \<lambda>_. Inl []), rl_ip_address = (\<lambda>_. Some [], \<lambda>_. Inl []),
     rl_interface = (\<lambda>_. Some [], \<lambda>_. Inl []), rl_route = (\<lambda>_. Some [], \<lambda>_. Inl []),
     rl_arp = (\<lambda>_. Some [], \<lambda>_. Inl []), rl_lease = (\<lambda>_. Some [], \<lambda>_. Inl []),
     rl_wireless = (\<lambda>_. Some [], \<lambda>_. Inl []), rl_connection = (\<lambda>_. Some [], \<lambda>_. Inl []),
     rl_ipv6_address = (\<lambda>_. Some [], \<lambda>_. Inl []), rl_ipv6_route = (\<lambda>_. Some [], \<lambda>_. Inl []),
     rl_ipv6_neighbor = (\<lambda>_. Some [], \<lambda>_. Inl []), rl_ipv6_connection = (\<lambda>_. Some [], \<lambda>_. Inl [])\<rparr>"

definition example_router :: "nat router_connection" where
  "example_router = \<lparr>rcn_router_type = RouterOs, rcn_host = ''192.168.88.1'', rcn_port = 443, rcn_scheme = ''https'', rcn_username = ''u'',
     rcn_password = ''p'', rcn_accept_invalid_certs = False, rcn_management_cidrs = [1], rcn_allow_insecure_http = False\<rparr>"

definition example_rest :: rest_network where
  "example_rest = (\<lambda>q. Inr \<lparr>re_status = 200, re_content_length = None, re_chunks = [Inr ''[]'']\<rparr>)"

definition example_client :: routeros_client where
  "example_client = new_client (''https://192.168.88.1:'' @ show_word (443 :: 16 word) @ ''/rest'') [V4 [192, 168, 88, 1]] ''Basic x''"

lemma example_connect:
  "ros_connect example_routeros example_rest example_router = (Inr example_client, [request_to example_client SYSTEM_RESOURCE_PATH])"
proof -
  have b: "base_url example_routeros example_router = Inr (''https://192.168.88.1:'' @ show_word (443 :: 16 word) @ ''/rest'')"
    by (simp add: base_url_def example_routeros_def example_router_def trim_def is_whitespace_def parse_ip_examples)
  have h: "build_http_client example_routeros example_router = Inr [V4 [192, 168, 88, 1]]"
    by (simp add: build_http_client_def resolve_management_target_def example_routeros_def example_router_def trim_def
        is_whitespace_def forbidden_address_def)
  have c: "prepare_client example_routeros example_router = Inr example_client"
    unfolding prepare_client_def b h by (simp add: example_client_def build_basic_auth_header_def example_routeros_def)
  have v: "list_all visible_ascii (rc_auth_header example_client)"
    by (simp add: example_client_def new_client_def visible_ascii_def)
  show ?thesis by (simp add: ros_connect_def c v example_rest_def is_success_def)
qed


definition example_readings :: "(rest_network \<times> fetch_input) list" where
  "example_readings = map (\<lambda>t. (example_rest, \<lparr>fi_now = t * 1000000000, fi_later = t * 1000000000,
     fi_sampled = \<lparr>cs_monotonic = 0, cs_unix_ms = 0\<rparr>, fi_first = (\<lambda>_. NotFound)\<rparr>)) [0, 20, 40]"


end
