(* ===== verification/Spec2Isabelle.thy ===== *)
theory Spec2Isabelle
  imports Exact_Persistence Traffic_Rollup_Facts Dashboard_Facts Ws_Limits Auth_Facts
    Secrets_Facts Config_Facts Probe_Facts Live_Facts Server_History
    Oidc_Identity_Facts Traffic_Api Routeros_Facts
begin

text \<open>
  A verification development for RouterView, a dashboard that polls a router, keeps an exact
  history of its WAN traffic in SQLite and shows it to signed-in browsers.  All file names below
  are under \<open>src/backend/src/\<close>.

  \<^bold>\<open>The program.\<close>  A poll engine (\<open>poller/engine.rs\<close>) asks a vendor backend for one
  \<open>RouterData\<close> (\<open>backends/mod.rs\<close>) per tick.  \<open>poller/transform.rs\<close> turns it into a dashboard
  snapshot (\<open>ws/protocol.rs\<close>), which goes to the browsers over WebSockets (\<open>ws/\<close>), and the engine
  stores what the byte counters did since the last tick (\<open>db/traffic_v4.rs\<close>).  Old samples are
  rolled up and pruned, and the REST API reads the history back in buckets.  Every route but the
  login is behind the sessions of \<open>auth.rs\<close>, whose rows are in \<open>db/mod.rs\<close>.

  \<^bold>\<open>Layout.\<close>
  \<^item> \<open>Prelude\<close>: integers, decimal text, ordered lists, association lists, results (\<open>and_then\<close> is the
    \<open>?\<close> operator on \<open>error + 'a\<close>).  \<open>F64\<close>: IEEE doubles up to signed zero.  \<open>Contracts\<close>: the
    locales \<open>transition_system\<close>, \<open>stable_fact\<close> and \<open>atomic_operation\<close>, which the components below
    interpret on their own operations.
  \<^item> \<open>Router_Data\<close>: the records of \<open>backends/mod.rs\<close> and \<open>ws/protocol.rs\<close>.  \<open>Counter_Rate\<close>: what a
    pair of counter readings means (\<open>calculate_counter_rate\<close>).
  \<^item> \<open>Traffic_Store\<close>, \<open>Router_Identity\<close>: the tables of schema version 4 and every writing method of
    \<open>db/traffic_v4.rs\<close>, \<open>resolve_router\<close> with the adoption of the placeholder history included.
    \<open>Traffic_Integrity\<close>: the schema's constraints hold after any calls, a failing call changes
    nothing, replaying a call stores nothing.
  \<^item> \<open>Exact_Persistence\<close>: \<open>persist_exact_traffic\<close>.  The samples and gaps of an interface tile the time
    since its first checkpoint, and exact runs conserve bytes modulo 2^64.
  \<^item> \<open>Traffic_Query\<close>, \<open>Traffic_Query_Facts\<close>: \<open>query_traffic_v4\<close>; when it answers, and that points, totals
    and coverage agree.  \<open>Traffic_Rollup\<close>, \<open>Traffic_Rollup_Facts\<close>: \<open>rollup_exact_samples\<close> and
    \<open>prune_exact_history\<close>; no byte is lost, progress is strict, only old rows go.
  \<^item> \<open>Traffic_Api\<close>: the route of the history (\<open>api/traffic.rs\<close>), its response, its race with shutdown and
    deadline, and that what the browser reads adds up.
  \<^item> \<open>Ip_Text\<close>: the standard library's textual addresses.  \<open>Wan_Resolution\<close>, \<open>Wan_Facts\<close>: from the routing
    tables to the WANs.  \<open>Dashboard\<close>, \<open>Dashboard_Facts\<close>: \<open>to_dashboard_snapshot\<close> and its helpers.
  \<^item> \<open>Routeros_Transform\<close>, \<open>Routeros_Client\<close>: the RouterOS backend (\<open>backends/routeros/\<close>), from the texts of
    the router's answers to a \<open>RouterData\<close>, and the client with its caches.  \<open>Routeros_Facts\<close>: its requests
    stay in the management networks and are not repeated too often; uptimes are read exactly.
  \<^item> \<open>Failure_Limiter\<close>, \<open>Failure_Limiter_Facts\<close>: back-off tables of \<open>auth.rs\<close>.  \<open>Ws_Limits\<close>: the admission
    of WebSocket connections (\<open>ws/limits.rs\<close>, \<open>ws/tracker.rs\<close>, \<open>ws/handler.rs\<close>).
  \<^item> \<open>Session_Store\<close>, \<open>Session_Facts\<close>: administrator, setup token, sessions and pairing codes in
    \<open>db/mod.rs\<close>.  \<open>App_Error\<close>: \<open>error.rs\<close>.  \<open>Auth_Text\<close>, \<open>Auth\<close>, \<open>Auth_Setup\<close>, \<open>Auth_Facts\<close>: the handlers and
    the middleware of \<open>auth.rs\<close>.
  \<^item> \<open>Env_Config\<close>: the environment's variables (\<open>config.rs\<close>).  \<open>Secrets\<close>, \<open>Secrets_Facts\<close>: field encryption
    (\<open>secrets.rs\<close>) and the rotation of its key (\<open>db/key_management.rs\<close>), all secrets or none.
    \<open>Config_Store\<close>, \<open>Config_Facts\<close>: the configuration merged from environment and settings
    (\<open>config_store.rs\<close>) and its update over the API (\<open>api/system.rs\<close>), in the three steps between which other
    requests may run: what is stored is what is in memory, and updates serialize.
  \<^item> \<open>Oidc_Provider\<close>: bounded requests to the identity provider, its discovery, groups and the policy's
    fingerprint.  \<open>Oidc_Token\<close>: the verification of tokens the library cannot parse.  \<open>Oidc_Login\<close>: login
    flows, the manager, from a code to an identity.  \<open>Oidc_Handlers\<close>: the routes, and the traces of
    logins in which starts, callbacks (in two steps) and discovery interleave.  \<open>Oidc_Facts\<close>,
    \<open>Oidc_Identity_Facts\<close>: where a session comes from, who it is for, and where the browser goes;
    \<open>Oidc_Example\<close> is one login, evaluated.  All of \<open>oidc.rs\<close>.
  \<^item> \<open>Ip_Print\<close>: the addresses' text.  \<open>Probes\<close>, \<open>Probe_Facts\<close>: the targets of the latency probes
    (\<open>api/probes.rs\<close>, \<open>db/mod.rs\<close>), a batch of pings and its verdict (\<open>poller/engine.rs\<close>).
  \<^item> \<open>Poll_Engine\<close>: the engine's state, a tick from reconnecting to broadcasting, the probe cycle, custom
    names (\<open>api/devices.rs\<close>) and the readiness answer.  \<open>Poll_Facts\<close>: readiness tells the truth and a router
    comes back.  \<open>Server_History\<close>: the history stays usable under any run.
  \<^item> \<open>Ws_Session\<close>: a session of \<open>ws/session.rs\<close> on the broadcast channel.  \<open>Live_Facts\<close>: the browsers, which
    get differences and may fall behind, show the server's dashboard.

  \<^bold>\<open>Conventions.\<close>  An \<open>i64\<close> is an integer with the saturating or checked operation the code uses written
  out, a \<open>u64\<close> a 64-bit word with the wrap of a release build, a \<open>usize\<close> or \<open>u32\<close> a natural number, an
  \<open>Instant\<close> or \<open>Duration\<close> a number of nanoseconds.  A string is the list of its UTF-8 bytes, so \<open>length\<close> is
  Rust's \<open>len\<close>; case mapping and white space are those of ASCII.  A table is the list of its rows in
  the order of insertion, a statement a function on it, a violated constraint an error value, and
  a transaction returns the old database on every error path.  A handler is one atomic step: the
  server's locks and SQLite's transactions serialise what it does to a table.  Clocks, random
  tokens, digests, password hashing, ciphers, network masks and the free slots of a semaphore are
  arguments.

  \<^bold>\<open>Bounds and fuel.\<close>  The only loops that are not structural are those of the bucket walk and of the
  rollup cursor; they carry a measure, so no definition needs fuel.  Capacities, batch sizes and
  time limits are those of the code's constants.

  \<^bold>\<open>Not modelled.\<close>  Transport and rendering: HTTP itself and the text of JSON, the frontend, the
  start-up of \<open>main.rs\<close>, the router table of \<open>router.rs\<close>.  Files: \<open>db/maintenance.rs\<close>, \<open>key_cli.rs\<close> and the
  vendor database \<open>oui.rs\<close>.  SQLite's own failures (disk, locks) and its storage.
\<close>

end
